(* ===== verification/Billing_Prelude.thy ===== *)
theory Billing_Prelude
  imports Main "HOL-Library.Char_ord"
begin

text \<open>
  The prelude of the development: the JavaScript values the billing code inspects, the text
  operations of the language that it uses, errors and results, and the generic list lemmas
  that the component theories share.

  Text is the type \<open>string\<close>: a list of code points in the Latin-1 range (0 to 255). On that
  range one code point is one UTF-16 unit, so \<open>length\<close> is the length of the JavaScript string.
  Integer-valued Numbers are \<open>JInt\<close>, Numbers that are no integer (fractions, NaN, infinities)
  are \<open>JReal\<close>, BigInts are \<open>JBig\<close>. A \<open>JObj\<close> carries a flag that says whether it is a plain
  data object: its prototype is null or Object.prototype and every own key is an enumerable
  string data property.
\<close>

named_theorems result_simps \<open>rewriting of result binds and guards\<close>
named_theorems eval_simps \<open>unfolding definitions when a concrete input is evaluated\<close>
named_theorems table_simps \<open>sums and lookups over updated tables\<close>

section \<open>JavaScript values\<close>

datatype jsval =
    JUndef
  | JNull
  | JBool bool
  | JInt int
  | JReal
  | JBig int
  | JStr string
  | JArr "jsval list"
  | JObj bool "(string \<times> jsval) list"

definition js_max_safe_integer :: int where
  "js_max_safe_integer = 2 ^ 53 - 1"

fun isSafeInteger :: "jsval \<Rightarrow> bool" where
  "isSafeInteger (JInt n) = (\<bar>n\<bar> \<le> js_max_safe_integer)"
| "isSafeInteger _ = False"

text \<open>\<open>object[key]\<close> on an object with the given own fields: a missing key reads as undefined.\<close>

definition prop_get :: "(string \<times> jsval) list \<Rightarrow> string \<Rightarrow> jsval" where
  "prop_get fields k = (case map_of fields k of None \<Rightarrow> JUndef | Some v \<Rightarrow> v)"

definition has_own :: "(string \<times> jsval) list \<Rightarrow> string \<Rightarrow> bool" where
  "has_own fields k = (map_of fields k \<noteq> None)"

fun isAbsent :: "jsval \<Rightarrow> bool" where
  "isAbsent JUndef = True"
| "isAbsent JNull = True"
| "isAbsent _ = False"

section \<open>Errors and results\<close>

text \<open>
  The exceptions of the source: the two standard classes it throws for bad input, its own
  error classes, and plain \<open>Error\<close>. \<open>ConstraintViolation\<close> is a rejection by a constraint of
  the schema, which rolls the transaction back.
\<close>

datatype error =
    TypeError string
  | RangeError string
  | PlainError string
  | InsufficientCreditsError
  | CreditsUnavailableError string
  | CreditDebitOwnerMismatchError
  | CreditAccountNotFoundError
  | CreditDebitNotFoundError string
  | InvalidCreditRequestError string
  | BillingOwnerNotFoundError
  | CreditOperationNotFoundError
  | CreditIdempotencyConflictError
  | InvalidOwnerReferenceError string
  | StripeRequestSnapshotError string
  | CheckoutBusyError string
  | CheckoutCreationRejected string
  | CheckoutActiveSubscriptionError string
  | CheckoutReplayUnsafeError string
  | CreditPackBusyError string
  | CreditPackConflictError string
  | PlanChangeBusyError string
  | PlanChangeConflictError string
  | PlanChangeUnavailableError string
  | ConstraintViolation string
  | OutOfFuel

type_synonym 'a result = "error + 'a"

fun bind_result :: "'a result \<Rightarrow> ('a \<Rightarrow> 'b result) \<Rightarrow> 'b result" where
  "bind_result (Inl e) f = Inl e"
| "bind_result (Inr x) f = f x"

definition guard_result :: "bool \<Rightarrow> error \<Rightarrow> unit result" where
  "guard_result b e = (if b then Inr () else Inl e)"

fun is_ok :: "'a result \<Rightarrow> bool" where
  "is_ok (Inl _) = False"
| "is_ok (Inr _) = True"

lemma bind_result_Inr_iff [result_simps]:
  "bind_result m f = Inr y \<longleftrightarrow> (\<exists>x. m = Inr x \<and> f x = Inr y)"
  by (cases m) auto

lemma guard_result_Inr_iff [result_simps]: "guard_result b e = Inr u \<longleftrightarrow> b"
  by (auto simp: guard_result_def)

lemma bind_guard [simp]:
  "bind_result (guard_result b e) f = (if b then f () else Inl e)"
  by (auto simp: guard_result_def)

text \<open>\<open>Array.prototype.map\<close> with a function that may throw: stops at the first error.\<close>

fun map_result :: "('a \<Rightarrow> 'b result) \<Rightarrow> 'a list \<Rightarrow> 'b list result" where
  "map_result f [] = Inr []"
| "map_result f (x # xs) =
     bind_result (f x) (\<lambda>y. bind_result (map_result f xs) (\<lambda>ys. Inr (y # ys)))"

lemma map_result_Inr_iff:
  "map_result f xs = Inr ys \<longleftrightarrow> list_all2 (\<lambda>x y. f x = Inr y) xs ys"
proof (induction xs arbitrary: ys)
  case Nil
  then show ?case by auto
next
  case (Cons x xs)
  then show ?case by (cases ys) (auto simp: bind_result_Inr_iff)
qed

section \<open>Text\<close>

definition code :: "char \<Rightarrow> nat" where
  "code c = of_char c"

definition is_digit :: "char \<Rightarrow> bool" where
  "is_digit c \<longleftrightarrow> 48 \<le> code c \<and> code c \<le> 57"

definition is_lower :: "char \<Rightarrow> bool" where
  "is_lower c \<longleftrightarrow> 97 \<le> code c \<and> code c \<le> 122"

definition is_upper :: "char \<Rightarrow> bool" where
  "is_upper c \<longleftrightarrow> 65 \<le> code c \<and> code c \<le> 90"

definition is_alnum :: "char \<Rightarrow> bool" where
  "is_alnum c \<longleftrightarrow> is_lower c \<or> is_upper c \<or> is_digit c"

text \<open>
  \<open>toLowerCase\<close> on Latin-1: A to Z and the accented capitals 192 to 222 except the
  multiplication sign 215 move up by 32; the others are unchanged.
\<close>

definition lower_char :: "char \<Rightarrow> char" where
  "lower_char c =
     (if is_upper c \<or> (192 \<le> code c \<and> code c \<le> 222 \<and> code c \<noteq> 215)
      then char_of (code c + 32) else c)"

definition toLowerCase :: "string \<Rightarrow> string" where
  "toLowerCase s = map lower_char s"

text \<open>
  \<open>trim\<close> removes white space and line terminators: on Latin-1 the code points 9 to 13, 32
  and 160.
\<close>

definition is_js_space :: "char \<Rightarrow> bool" where
  "is_js_space c \<longleftrightarrow> (9 \<le> code c \<and> code c \<le> 13) \<or> code c = 32 \<or> code c = 160"

definition trim :: "string \<Rightarrow> string" where
  "trim s = rev (dropWhile is_js_space (rev (dropWhile is_js_space s)))"

text \<open>\<open>Buffer.byteLength(s, "utf8")\<close>: two bytes from code point 128 on.\<close>

definition byteLength :: "string \<Rightarrow> nat" where
  "byteLength s = sum_list (map (\<lambda>c. if code c < 128 then 1 else 2) s)"

text \<open>
  The Unicode classes C (controls 0 to 31 and 127 to 159, the soft hyphen 173) and Z (the
  spaces 32 and 160) on Latin-1.
\<close>

definition unicode_C :: "char \<Rightarrow> bool" where
  "unicode_C c \<longleftrightarrow> code c \<le> 31 \<or> (127 \<le> code c \<and> code c \<le> 159) \<or> code c = 173"

definition unicode_Z :: "char \<Rightarrow> bool" where
  "unicode_Z c \<longleftrightarrow> code c = 32 \<or> code c = 160"

fun starts_with :: "string \<Rightarrow> string \<Rightarrow> bool" where
  "starts_with [] s = True"
| "starts_with (p # ps) [] = False"
| "starts_with (p # ps) (c # cs) = (p = c \<and> starts_with ps cs)"

definition ends_with :: "string \<Rightarrow> string \<Rightarrow> bool" where
  "ends_with p s = starts_with (rev p) (rev s)"

fun includes_str :: "string \<Rightarrow> string \<Rightarrow> bool" where
  "includes_str p [] = (p = [])"
| "includes_str p (c # cs) = (starts_with p (c # cs) \<or> includes_str p cs)"

text \<open>\<open>s.split(sep)\<close> with a one-character separator.\<close>

fun split_on :: "char \<Rightarrow> string \<Rightarrow> string list" where
  "split_on sep [] = [[]]"
| "split_on sep (c # cs) =
     (if c = sep then [] # split_on sep cs
      else (case split_on sep cs of [] \<Rightarrow> [[c]] | w # ws \<Rightarrow> (c # w) # ws))"

lemma split_on_not_Nil [simp]: "split_on sep s \<noteq> []"
  by (induction s) (auto split: list.splits)

lemma split_on_free: "sep \<notin> set s \<Longrightarrow> split_on sep s = [s]"
  by (induction s) auto

lemma split_on_append:
  "sep \<notin> set s \<Longrightarrow> split_on sep (s @ sep # t) = s # split_on sep t"
  by (induction s) auto

lemma split_on_parts_free: "w \<in> set (split_on sep s) \<Longrightarrow> sep \<notin> set w"
  by (induction s arbitrary: w) (auto split: list.splits if_splits)

text \<open>Joining the pieces with the separator gives the text back.\<close>

fun join_with :: "char \<Rightarrow> string list \<Rightarrow> string" where
  "join_with sep [] = []"
| "join_with sep [w] = w"
| "join_with sep (w # ws) = w @ sep # join_with sep ws"

lemma join_split: "join_with sep (split_on sep s) = s"
proof (induction s)
  case Nil
  then show ?case by simp
next
  case (Cons c cs)
  then obtain w ws where sp: "split_on sep cs = w # ws"
    by (cases "split_on sep cs") auto
  with Cons show ?case by (cases ws) auto
qed

section \<open>Decimal numerals\<close>

definition digit_val :: "char \<Rightarrow> nat" where
  "digit_val c = code c - 48"

definition digit_char :: "nat \<Rightarrow> char" where
  "digit_char d = char_of (48 + d)"

definition digits_value :: "string \<Rightarrow> nat" where
  "digits_value s = foldl (\<lambda>a c. a * 10 + digit_val c) 0 s"

fun show_nat :: "nat \<Rightarrow> string" where
  "show_nat n = (if n < 10 then [digit_char n] else show_nat (n div 10) @ [digit_char (n mod 10)])"

declare show_nat.simps [simp del]

text \<open>\<open>BigInt.prototype.toString\<close> and \<open>Number.prototype.toString\<close> on integers.\<close>

definition show_int :: "int \<Rightarrow> string" where
  "show_int n = (if n < 0 then CHR ''-'' # show_nat (nat (- n)) else show_nat (nat n))"

definition padEnd0 :: "nat \<Rightarrow> string \<Rightarrow> string" where
  "padEnd0 n s = s @ replicate (n - length s) (CHR ''0'')"

definition padStart0 :: "nat \<Rightarrow> string \<Rightarrow> string" where
  "padStart0 n s = replicate (n - length s) (CHR ''0'') @ s"

definition strip_zeros :: "string \<Rightarrow> string" where
  "strip_zeros s = rev (dropWhile (\<lambda>c. c = CHR ''0'') (rev s))"

lemma code_digit_char [simp]: "d < 10 \<Longrightarrow> code (digit_char d) = 48 + d"
  by (simp add: code_def digit_char_def)

lemma is_digit_digit_char [simp]: "d < 10 \<Longrightarrow> is_digit (digit_char d)"
  by (simp add: is_digit_def)

lemma digit_val_digit_char [simp]: "d < 10 \<Longrightarrow> digit_val (digit_char d) = d"
  by (simp add: digit_val_def)

lemma code_zero [simp]: "code (CHR ''0'') = 48"
  by (simp add: code_def)

lemma digit_zero [simp]: "is_digit (CHR ''0'')" "digit_val (CHR ''0'') = 0"
  by (simp_all add: is_digit_def digit_val_def)

lemma is_digit_not_special [simp]:
  "\<not> is_digit (CHR ''.'')" "\<not> is_digit (CHR ''-'')" "\<not> is_digit (CHR ''+'')"
  "\<not> is_digit (CHR '':'')" "\<not> is_digit (CHR ''Z'')" "\<not> is_digit (CHR ''_'')"
  by (simp_all add: is_digit_def code_def)

lemma digits_value_Nil [simp]: "digits_value [] = 0"
  by (simp add: digits_value_def)

lemma digits_value_foldl:
  "foldl (\<lambda>a c. a * 10 + digit_val c) b s = b * 10 ^ length s + digits_value s"
proof (induction s arbitrary: b)
  case Nil
  then show ?case by simp
next
  case (Cons c s)
  have "foldl (\<lambda>a c. a * 10 + digit_val c) b (c # s)
      = (b * 10 + digit_val c) * 10 ^ length s + digits_value s"
    by (simp add: Cons)
  moreover have "digits_value (c # s) = digit_val c * 10 ^ length s + digits_value s"
    using Cons [of "digit_val c"] by (simp add: digits_value_def)
  ultimately show ?case by (simp add: algebra_simps)
qed

lemma digits_value_append [simp]:
  "digits_value (s @ t) = digits_value s * 10 ^ length t + digits_value t"
  using digits_value_foldl [of "digits_value s" t] by (simp add: digits_value_def)

lemma digits_value_Cons [simp]:
  "digits_value (c # t) = digit_val c * 10 ^ length t + digits_value t"
  using digits_value_append [of "[c]" t] by (simp add: digits_value_def)

lemma digits_value_zeros [simp]: "digits_value (replicate n (CHR ''0'')) = 0"
  by (induction n) simp_all

lemma digit_val_bound: "is_digit c \<Longrightarrow> digit_val c \<le> 9"
  unfolding is_digit_def digit_val_def by arith

lemma digits_value_bound: "list_all is_digit s \<Longrightarrow> digits_value s < 10 ^ length s"
proof (induction s)
  case Nil
  then show ?case by simp
next
  case (Cons c s)
  then have "digit_val c \<le> 9" and "digits_value s < 10 ^ length s"
    by (simp_all add: digit_val_bound)
  then have "digit_val c * 10 ^ length s + digits_value s < (9 + 1) * 10 ^ length s"
    by (metis add_less_le_mono add.commute add_mult_distrib mult.left_neutral mult_le_mono1)
  then show ?case by simp
qed

lemma show_nat_small: "n < 10 \<Longrightarrow> show_nat n = [digit_char n]"
  by (simp add: show_nat.simps)

lemma show_nat_digits [simp]: "list_all is_digit (show_nat n)"
proof (induction n rule: show_nat.induct)
  case (1 n)
  then show ?case
    by (cases "n < 10") (simp_all add: show_nat.simps [of n])
qed

lemma show_nat_value [simp]: "digits_value (show_nat n) = n"
proof (induction n rule: show_nat.induct)
  case (1 n)
  then show ?case
    by (cases "n < 10") (simp_all add: show_nat.simps [of n])
qed

lemma show_nat_Nil [simp]: "show_nat n \<noteq> []"
  by (simp add: show_nat.simps [of n])

lemma show_nat_inject [simp]: "show_nat m = show_nat n \<longleftrightarrow> m = n"
  by (metis show_nat_value)

lemma digit_char_zero_iff: "d < 10 \<Longrightarrow> digit_char d = CHR ''0'' \<longleftrightarrow> d = 0"
  by (metis char_of_char code_def code_zero digit_char_def digit_val_digit_char digit_zero(2)
      add_0_right)

lemma show_nat_hd: "0 < n \<Longrightarrow> hd (show_nat n) \<noteq> CHR ''0''"
proof (induction n rule: show_nat.induct)
  case (1 n)
  show ?case
  proof (cases "n < 10")
    case True
    with 1 show ?thesis by (simp add: show_nat_small digit_char_zero_iff)
  next
    case False
    then have "hd (show_nat n) = hd (show_nat (n div 10))"
      by (simp add: show_nat.simps [of n])
    moreover have "0 < n div 10" using False by simp
    ultimately show ?thesis using 1 False by simp
  qed
qed

lemma show_nat_zero: "show_nat 0 = ''0''"
  by (simp add: show_nat_small digit_char_zero_iff)

lemma show_nat_length: "n < 10 ^ k \<Longrightarrow> 0 < k \<Longrightarrow> length (show_nat n) \<le> k"
proof (induction n arbitrary: k rule: show_nat.induct)
  case (1 n)
  show ?case
  proof (cases "n < 10")
    case True
    with 1 show ?thesis by (simp add: show_nat_small)
  next
    case False
    with "1.prems" obtain j where k: "k = Suc j" and j: "0 < j"
      by (cases k; cases "k - 1") auto
    from "1.prems" k have "n div 10 < 10 ^ j"
      by (simp add: less_mult_imp_div_less mult.commute)
    with "1.IH" False j have "length (show_nat (n div 10)) \<le> j" by simp
    with False k show ?thesis by (simp add: show_nat.simps [of n])
  qed
qed

lemma strip_zeros_pad:
  "\<exists>k. s = strip_zeros s @ replicate k (CHR ''0'')"
proof -
  have "s = rev (takeWhile (\<lambda>c. c = CHR ''0'') (rev s) @ dropWhile (\<lambda>c. c = CHR ''0'') (rev s))"
    by (metis rev_rev_ident takeWhile_dropWhile_id)
  also have "\<dots> = strip_zeros s @ rev (takeWhile (\<lambda>c. c = CHR ''0'') (rev s))"
    by (simp add: strip_zeros_def del: takeWhile_dropWhile_id)
  also have "rev (takeWhile (\<lambda>c. c = CHR ''0'') (rev s))
      = replicate (length (takeWhile (\<lambda>c. c = CHR ''0'') (rev s))) (CHR ''0'')"
    by (rule replicate_eqI) (auto dest: set_takeWhileD)
  finally show ?thesis by blast
qed

lemma strip_zeros_digits: "list_all is_digit s \<Longrightarrow> list_all is_digit (strip_zeros s)"
  by (auto simp: strip_zeros_def list_all_iff dest: set_dropWhileD)

lemma padEnd0_strip:
  "length s = n \<Longrightarrow> padEnd0 n (strip_zeros s) = s"
proof -
  assume n: "length s = n"
  obtain k where k: "s = strip_zeros s @ replicate k (CHR ''0'')"
    using strip_zeros_pad by blast
  then have "length s = length (strip_zeros s) + k"
    by (metis length_append length_replicate)
  then show ?thesis using k n by (simp add: padEnd0_def)
qed

section \<open>Evaluation of concrete texts\<close>

lemmas [eval_simps] = code_def is_digit_def is_lower_def is_upper_def is_alnum_def lower_char_def
  toLowerCase_def is_js_space_def trim_def byteLength_def unicode_C_def unicode_Z_def ends_with_def
  digit_val_def padEnd0_def padStart0_def strip_zeros_def prop_get_def has_own_def
  js_max_safe_integer_def Let_def

end
