(* ===== verification/Credit_Amount.thy ===== *)
theory Credit_Amount
  imports Billing_Prelude
begin

text \<open>
  Product-credit amounts (typescript/src/credit-amount.ts, bounds.ts): an amount is an integer
  number of atoms, one displayed credit being 1000000 atoms. The theory models the decimal
  parser \<open>creditAtoms\<close>, the printer \<open>creditDecimal\<close>, the checked addition and the class
  \<open>CreditAmount\<close>, and proves that parsing is exact and bounded, that printing inverts it, and
  that spellings of one amount are identified.
\<close>

section \<open>Bounds\<close>

definition POSTGRES_BIGINT_MAX :: int where
  "POSTGRES_BIGINT_MAX = 9223372036854775807"

definition CREDIT_SCALE :: int where
  "CREDIT_SCALE = 1000000"

definition CREDIT_DECIMAL_PLACES :: nat where
  "CREDIT_DECIMAL_PLACES = 6"

definition MAX_CREDIT_ATOMS :: int where
  "MAX_CREDIT_ATOMS = POSTGRES_BIGINT_MAX"

definition MAX_WHOLE_CREDITS :: int where
  "MAX_WHOLE_CREDITS = MAX_CREDIT_ATOMS div CREDIT_SCALE"

definition JSON_SAFE_INTEGER_MAX :: int where
  "JSON_SAFE_INTEGER_MAX = js_max_safe_integer"

definition CATALOG_PRICE_MAJOR_UNIT_MAX :: int where
  "CATALOG_PRICE_MAJOR_UNIT_MAX = js_max_safe_integer div 100"

lemmas bound_defs = POSTGRES_BIGINT_MAX_def CREDIT_SCALE_def CREDIT_DECIMAL_PLACES_def
  MAX_CREDIT_ATOMS_def MAX_WHOLE_CREDITS_def

section \<open>Parsing\<close>

fun plainDecimalText :: "jsval \<Rightarrow> string \<Rightarrow> string result" where
  "plainDecimalText (JBig n) field =
     (if n < 0 then Inl (RangeError (field @ '' must be non-negative'')) else Inr (show_int n))"
| "plainDecimalText (JInt n) field =
     (if \<not> isSafeInteger (JInt n) \<or> n < 0
      then Inl (TypeError (field @ '' must be a non-negative safe integer or decimal string''))
      else Inr (show_int n))"
| "plainDecimalText JReal field =
     Inl (TypeError (field @ '' must be a non-negative safe integer or decimal string''))"
| "plainDecimalText (JStr s) field = Inr s"
| "plainDecimalText _ field =
     Inl (TypeError (field @ '' must be an integer or plain decimal string''))"

text \<open>
  The regular expression of \<open>PLAIN_DECIMAL\<close>: a whole part 0 or without leading zero, then
  optionally a point and one to six digits. The result holds the two groups of the match.
\<close>

definition PLAIN_DECIMAL :: "string \<Rightarrow> (string \<times> string option) option" where
  "PLAIN_DECIMAL s =
     (let w = takeWhile is_digit s; r = dropWhile is_digit s in
      if w = [] \<or> (hd w = CHR ''0'' \<and> 1 < length w) then None
      else case r of
             [] \<Rightarrow> Some (w, None)
           | c # f \<Rightarrow>
               if c = CHR ''.'' \<and> 1 \<le> length f \<and> length f \<le> 6 \<and> list_all is_digit f
               then Some (w, Some f) else None)"

definition creditAtoms :: "jsval \<Rightarrow> string \<Rightarrow> bool \<Rightarrow> int result" where
  "creditAtoms value field allowZero =
     bind_result (plainDecimalText value field) (\<lambda>str.
       case PLAIN_DECIMAL str of
         None \<Rightarrow> Inl (RangeError (field @
           '' must be a non-negative plain decimal with at most 6 fractional digits''))
       | Some (wholeText, fraction) \<Rightarrow>
           let whole = int (digits_value wholeText) in
           if whole > MAX_WHOLE_CREDITS
           then Inl (RangeError (field @ '' exceeds the PostgreSQL bigint atom range''))
           else
             let fractionalText =
                   padEnd0 CREDIT_DECIMAL_PLACES (case fraction of None \<Rightarrow> [] | Some f \<Rightarrow> f);
                 atoms = whole * CREDIT_SCALE + int (digits_value fractionalText) in
             if atoms > MAX_CREDIT_ATOMS
             then Inl (RangeError (field @ '' exceeds the PostgreSQL bigint atom range''))
             else if \<not> allowZero \<and> atoms = 0
             then Inl (RangeError (field @ '' must be greater than zero''))
             else Inr atoms)"

section \<open>Printing and addition\<close>

definition creditDecimal :: "int \<Rightarrow> string \<Rightarrow> string result" where
  "creditDecimal atoms field =
     (if atoms < 0 then Inl (TypeError (field @ '' must be a non-negative bigint''))
      else
        let whole = atoms div CREDIT_SCALE; fractional = atoms mod CREDIT_SCALE in
        if fractional = 0 then Inr (show_int whole)
        else Inr (show_int whole @ CHR ''.'' #
                  strip_zeros (padStart0 CREDIT_DECIMAL_PLACES (show_int fractional))))"

definition checkedAddAtoms :: "int \<Rightarrow> int \<Rightarrow> string \<Rightarrow> int result" where
  "checkedAddAtoms left right field =
     (if left < 0 \<or> right < 0 \<or> left > MAX_CREDIT_ATOMS \<or> right > MAX_CREDIT_ATOMS
      then Inl (RangeError (field @ '' operands must be non-negative PostgreSQL bigint values''))
      else if left > MAX_CREDIT_ATOMS - right
      then Inl (RangeError (field @ '' exceeds the PostgreSQL bigint atom range''))
      else Inr (left + right))"

text \<open>
  The class \<open>CreditAmount\<close>: an object that passed the constructor. The WeakSet of the source
  makes \<open>isCreditAmount\<close> true of exactly these objects, which is the type here.
\<close>

datatype CreditAmount = CreditAmount (atoms: int)

definition newCreditAmount :: "int \<Rightarrow> CreditAmount result" where
  "newCreditAmount n =
     (if n < 0 then Inl (RangeError ''credit atoms must be a non-negative bigint'')
      else Inr (CreditAmount n))"

definition parseCreditAmount :: "jsval \<Rightarrow> string \<Rightarrow> bool \<Rightarrow> CreditAmount result" where
  "parseCreditAmount value field allowZero =
     bind_result (creditAtoms value field allowZero) newCreditAmount"

instantiation CreditAmount :: linorder
begin

definition less_eq_CreditAmount :: "CreditAmount \<Rightarrow> CreditAmount \<Rightarrow> bool" where
  "x \<le> y \<longleftrightarrow> atoms x \<le> atoms y"

definition less_CreditAmount :: "CreditAmount \<Rightarrow> CreditAmount \<Rightarrow> bool" where
  "x < y \<longleftrightarrow> atoms x < atoms y"

instance
  by intro_classes
    (auto simp: less_eq_CreditAmount_def less_CreditAmount_def intro: CreditAmount.expand)

end

section \<open>Facts about the parser\<close>

lemma PLAIN_DECIMAL_Some:
  assumes "PLAIN_DECIMAL s = Some (w, fr)"
  shows "s = w @ (case fr of None \<Rightarrow> [] | Some f \<Rightarrow> CHR ''.'' # f)"
    and "w \<noteq> []" and "list_all is_digit w"
    and "\<And>f. fr = Some f \<Longrightarrow> list_all is_digit f \<and> 1 \<le> length f \<and> length f \<le> 6"
proof -
  obtain w' r where w': "takeWhile is_digit s = w'" and r: "dropWhile is_digit s = r"
    and eq: "s = w' @ r"
    by (metis takeWhile_dropWhile_id)
  have all: "list_all is_digit w'"
    by (auto simp: list_all_iff w' [symmetric] dest: set_takeWhileD)
  show "s = w @ (case fr of None \<Rightarrow> [] | Some f \<Rightarrow> CHR ''.'' # f)"
    and "w \<noteq> []" and "list_all is_digit w"
    and "\<And>f. fr = Some f \<Longrightarrow> list_all is_digit f \<and> 1 \<le> length f \<and> length f \<le> 6"
    using assms all unfolding PLAIN_DECIMAL_def w' r Let_def
    by (auto simp: eq split: if_splits list.splits)
qed

lemma span_digits [simp]:
  assumes "list_all is_digit w" and "r = [] \<or> \<not> is_digit (hd r)"
  shows "takeWhile is_digit (w @ r) = w" and "dropWhile is_digit (w @ r) = r"
proof -
  have "\<forall>c \<in> set w. is_digit c" using assms(1) by (simp add: list_all_iff)
  then show "takeWhile is_digit (w @ r) = w" "dropWhile is_digit (w @ r) = r"
    using assms(2) by (cases r; auto simp: takeWhile_append2 dropWhile_append2)+
qed

definition canonical_whole :: "string \<Rightarrow> bool" where
  "canonical_whole w \<longleftrightarrow> w \<noteq> [] \<and> list_all is_digit w \<and> (hd w = CHR ''0'' \<longrightarrow> length w = 1)"

lemma PLAIN_DECIMAL_whole: "canonical_whole w \<Longrightarrow> PLAIN_DECIMAL w = Some (w, None)"
  using span_digits [of w "[]"]
  by (auto simp: PLAIN_DECIMAL_def canonical_whole_def Let_def list_all_iff
      takeWhile_eq_all_conv [THEN iffD2] dropWhile_eq_Nil_conv [THEN iffD2])

lemma PLAIN_DECIMAL_point:
  "canonical_whole w \<Longrightarrow> list_all is_digit f \<Longrightarrow> 1 \<le> length f \<Longrightarrow> length f \<le> 6 \<Longrightarrow>
   PLAIN_DECIMAL (w @ CHR ''.'' # f) = Some (w, Some f)"
  using span_digits [of w "CHR ''.'' # f"] by (auto simp: PLAIN_DECIMAL_def canonical_whole_def)

lemma canonical_show_nat: "canonical_whole (show_nat n)"
proof (cases "n = 0")
  case True
  then show ?thesis by (simp add: canonical_whole_def show_nat_zero)
next
  case False
  then show ?thesis by (simp add: canonical_whole_def show_nat_hd)
qed

lemma padEnd0_value:
  "length f \<le> n \<Longrightarrow> digits_value (padEnd0 n f) = digits_value f * 10 ^ (n - length f)"
  by (simp add: padEnd0_def)

lemma padEnd0_bound:
  assumes "list_all is_digit f" and "length f \<le> n"
  shows "digits_value (padEnd0 n f) < 10 ^ n"
proof -
  have "list_all is_digit (padEnd0 n f)" "length (padEnd0 n f) = n"
    using assms by (auto simp: padEnd0_def list_all_iff)
  then show ?thesis by (metis digits_value_bound)
qed

text \<open>What a successful parse says of the text.\<close>

lemma creditAtoms_InrD:
  assumes "creditAtoms v field z = Inr n"
  obtains str w fr where
    "plainDecimalText v field = Inr str" "PLAIN_DECIMAL str = Some (w, fr)"
    "n = int (digits_value w) * CREDIT_SCALE
         + int (digits_value (padEnd0 6 (case fr of None \<Rightarrow> [] | Some f \<Rightarrow> f)))"
    "n \<le> MAX_CREDIT_ATOMS" "\<not> z \<Longrightarrow> n \<noteq> 0"
proof -
  from assms obtain str w fr where
    1: "plainDecimalText v field = Inr str" and 2: "PLAIN_DECIMAL str = Some (w, fr)"
    by (cases "plainDecimalText v field") (auto simp: creditAtoms_def split: option.splits)
  from assms 1 2 have
    3: "n = int (digits_value w) * CREDIT_SCALE
         + int (digits_value (padEnd0 6 (case fr of None \<Rightarrow> [] | Some f \<Rightarrow> f)))"
    and "n \<le> MAX_CREDIT_ATOMS" and "\<not> z \<Longrightarrow> n \<noteq> 0"
    by (auto simp: creditAtoms_def Let_def CREDIT_DECIMAL_PLACES_def split: if_splits)
  with 1 2 that show thesis by blast
qed

lemma creditAtoms_text:
  assumes "plainDecimalText v field = Inr str" and "PLAIN_DECIMAL str = Some (w, fr)"
    and "n = int (digits_value w) * CREDIT_SCALE
           + int (digits_value (padEnd0 6 (case fr of None \<Rightarrow> [] | Some f \<Rightarrow> f)))"
    and "n \<le> MAX_CREDIT_ATOMS" and "z \<or> n \<noteq> 0"
  shows "creditAtoms v field z = Inr n"
proof -
  have "int (digits_value w) * CREDIT_SCALE \<le> MAX_CREDIT_ATOMS" using assms(3,4) by simp
  then have "int (digits_value w) * CREDIT_SCALE div CREDIT_SCALE \<le> MAX_WHOLE_CREDITS"
    unfolding MAX_WHOLE_CREDITS_def by (rule zdiv_mono1) (simp add: CREDIT_SCALE_def)
  then have "int (digits_value w) \<le> MAX_WHOLE_CREDITS"
    by (simp add: CREDIT_SCALE_def)
  with assms show ?thesis
    by (auto simp: creditAtoms_def Let_def CREDIT_DECIMAL_PLACES_def)
qed

section \<open>Printing is inverted by parsing\<close>

lemma padStart0_show:
  assumes "r < 10 ^ 6"
  shows "length (padStart0 6 (show_nat r)) = 6" "digits_value (padStart0 6 (show_nat r)) = r"
    "list_all is_digit (padStart0 6 (show_nat r))"
proof -
  have "length (show_nat r) \<le> 6" using assms by (intro show_nat_length) auto
  then show "length (padStart0 6 (show_nat r)) = 6" by (simp add: padStart0_def)
  show "digits_value (padStart0 6 (show_nat r)) = r" by (simp add: padStart0_def)
  have "list_all is_digit (show_nat r)" by simp
  then show "list_all is_digit (padStart0 6 (show_nat r))"
    by (auto simp: padStart0_def list_all_iff)
qed

lemma strip_zeros_length: "length (strip_zeros s) \<le> length s"
  by (metis length_dropWhile_le length_rev strip_zeros_def)

lemma strip_zeros_nonempty: "digits_value s \<noteq> 0 \<Longrightarrow> strip_zeros s \<noteq> []"
  by (metis append_Nil digits_value_zeros strip_zeros_pad)

lemma show_int_nonneg: "0 \<le> n \<Longrightarrow> show_int n = show_nat (nat n)"
  by (simp add: show_int_def)

lemma creditDecimal_parses:
  assumes "0 \<le> n" and "n \<le> MAX_CREDIT_ATOMS"
  shows "\<exists>s. creditDecimal n f = Inr s \<and> creditAtoms (JStr s) g True = Inr n"
proof (cases "n mod CREDIT_SCALE = 0")
  case True
  let ?s = "show_nat (nat (n div CREDIT_SCALE))"
  have q: "0 \<le> n div CREDIT_SCALE" using assms(1) by (simp add: CREDIT_SCALE_def)
  have "creditDecimal n f = Inr ?s"
    using True assms(1) q by (simp add: creditDecimal_def Let_def show_int_nonneg)
  moreover have "creditAtoms (JStr ?s) g True = Inr n"
    by (rule creditAtoms_text [OF _ PLAIN_DECIMAL_whole [OF canonical_show_nat]])
      (use True assms q in \<open>auto simp: padEnd0_def\<close>)
  ultimately show ?thesis by blast
next
  case False
  let ?r = "nat (n mod CREDIT_SCALE)"
  let ?p = "padStart0 6 (show_nat ?r)"
  let ?w = "show_nat (nat (n div CREDIT_SCALE))"
  have q: "0 \<le> n div CREDIT_SCALE" "0 \<le> n mod CREDIT_SCALE"
    using assms(1) by (simp_all add: CREDIT_SCALE_def)
  have r: "?r < 10 ^ 6" "?r \<noteq> 0"
    using False q by (auto simp: CREDIT_SCALE_def)
  note p = padStart0_show [OF r(1)]
  have ne: "strip_zeros ?p \<noteq> []" using p(2) r(2) by (intro strip_zeros_nonempty) simp
  have "creditDecimal n f = Inr (?w @ CHR ''.'' # strip_zeros ?p)"
    using False assms(1) q
    by (simp add: creditDecimal_def Let_def show_int_nonneg CREDIT_DECIMAL_PLACES_def)
  moreover have "creditAtoms (JStr (?w @ CHR ''.'' # strip_zeros ?p)) g True = Inr n"
  proof (rule creditAtoms_text)
    show "PLAIN_DECIMAL (?w @ CHR ''.'' # strip_zeros ?p) = Some (?w, Some (strip_zeros ?p))"
      using p ne strip_zeros_length [of ?p]
      by (intro PLAIN_DECIMAL_point canonical_show_nat strip_zeros_digits)
        (auto simp: Suc_le_eq)
    show "n = int (digits_value ?w) * CREDIT_SCALE + int (digits_value (padEnd0 6
        (case Some (strip_zeros ?p) of None \<Rightarrow> [] | Some f \<Rightarrow> f)))"
      using p q by (simp add: padEnd0_strip)
  qed (use assms in auto)
  ultimately show ?thesis by blast
qed

text \<open>
  C31: printing a stored amount and parsing the text again gives the amount back, for every
  amount a PostgreSQL bigint column can hold: \<open>creditDecimal\<close> loses nothing and always prints
  text that \<open>creditAtoms\<close> accepts.
\<close>

theorem credit_decimal_roundtrip:
  assumes "0 \<le> n" and "n \<le> MAX_CREDIT_ATOMS"
  shows "\<exists>s. creditDecimal n f = Inr s \<and> creditAtoms (JStr s) g True = Inr n"
  using assms by (rule creditDecimal_parses)

theorem credit_decimal_roundtrip_witness:
  "\<exists>s. creditDecimal 1500001 ''credits'' = Inr s \<and> creditAtoms (JStr s) ''credits'' True = Inr 1500001"
  by (rule credit_decimal_roundtrip) (simp_all add: bound_defs)

section \<open>Parsing is exact and bounded\<close>

lemma padEnd0_6:
  assumes "list_all is_digit f" "length f \<le> 6"
  shows "int (digits_value (padEnd0 6 f)) * 10 ^ length f = int (digits_value f) * 10 ^ 6"
proof -
  have "(10::int) ^ (6 - length f) * 10 ^ length f = 10 ^ 6"
    using assms(2) by (metis le_add_diff_inverse2 power_add)
  then show ?thesis using assms(2) by (simp add: padEnd0_value algebra_simps)
qed



text \<open>
  Equivalent spellings are one amount: appending zeros to the fractional digits, up to six,
  changes neither the parsed amount nor the error.
\<close>

theorem credit_spelling_equivalent:
  assumes "canonical_whole w" and "list_all is_digit f" and "f \<noteq> []" and "length f + k \<le> 6"
  shows "creditAtoms (JStr (w @ CHR ''.'' # f @ replicate k (CHR ''0''))) field allowZero
       = creditAtoms (JStr (w @ CHR ''.'' # f)) field allowZero"
proof -
  have "PLAIN_DECIMAL (w @ CHR ''.'' # f @ replicate k (CHR ''0''))
      = Some (w, Some (f @ replicate k (CHR ''0'')))"
    using assms by (intro PLAIN_DECIMAL_point) (auto simp: list_all_iff Suc_le_eq)
  moreover have "PLAIN_DECIMAL (w @ CHR ''.'' # f) = Some (w, Some f)"
    using assms by (intro PLAIN_DECIMAL_point) (auto simp: Suc_le_eq)
  moreover have "padEnd0 6 (f @ replicate k (CHR ''0'')) = padEnd0 6 f"
    using assms(4) by (simp add: padEnd0_def replicate_add [symmetric])
  ultimately show ?thesis by (simp add: creditAtoms_def CREDIT_DECIMAL_PLACES_def Let_def)
qed

theorem credit_spelling_equivalent_witness:
  "creditAtoms (JStr (''0'' @ CHR ''.'' # ''1'' @ replicate 5 (CHR ''0''))) ''amount'' False
   = creditAtoms (JStr (''0'' @ CHR ''.'' # ''1'')) ''amount'' False"
  by (rule credit_spelling_equivalent) (simp_all add: canonical_whole_def is_digit_def code_def)

text \<open>
  The checked addition of two stored balances is the exact sum, and it succeeds for exactly
  the non-negative operands whose sum a PostgreSQL bigint can hold.
\<close>

theorem checked_add_exact:
  "checkedAddAtoms a b field = Inr c \<longleftrightarrow>
     0 \<le> a \<and> 0 \<le> b \<and> c = a + b \<and> c \<le> MAX_CREDIT_ATOMS"
  by (auto simp: checkedAddAtoms_def)

end
