(* ===== verification/Validation.thy ===== *)
theory Validation
  imports Credit_Amount
begin

text \<open>
  The input checks every boundary shares (typescript/src/validation.ts) and the owner reference
  (typescript/src/owner-reference.ts): printable bounded text, safe integers in a range, and
  the rule that an owner reference is neither a Stripe identifier nor an internal account id.
\<close>

section \<open>Plain records, printable text, safe integers\<close>

fun isPlainRecord :: "jsval \<Rightarrow> bool" where
  "isPlainRecord (JObj plain fields) = True"
| "isPlainRecord _ = False"

definition isPrintable :: "string \<Rightarrow> bool" where
  "isPrintable s = list_all (\<lambda>c. code c = 32 \<or> (\<not> unicode_C c \<and> \<not> unicode_Z c)) s"

text \<open>The test of \<open>requiredVisibleString\<close>, \<open>validEventIdentifier\<close> and the idempotency keys.\<close>

definition visible_text :: "string \<Rightarrow> nat \<Rightarrow> bool" where
  "visible_text s maxBytes \<longleftrightarrow>
     s \<noteq> [] \<and> s = trim s \<and> byteLength s \<le> maxBytes \<and> isPrintable s"

definition requiredVisibleString :: "jsval \<Rightarrow> string \<Rightarrow> nat \<Rightarrow> string result" where
  "requiredVisibleString value field maxBytes =
     (case value of
        JStr s \<Rightarrow>
          if visible_text s maxBytes then Inr s
          else Inl (TypeError (field @ '' must be a non-empty visible string up to ''
                               @ show_nat maxBytes @ '' bytes''))
      | _ \<Rightarrow> Inl (TypeError (field @ '' must be a non-empty visible string up to ''
                               @ show_nat maxBytes @ '' bytes'')))"

definition requiredSafeInteger :: "jsval \<Rightarrow> string \<Rightarrow> int \<Rightarrow> int \<Rightarrow> int result" where
  "requiredSafeInteger value field minimum maximum =
     (let normalized =
            (case value of JBig n \<Rightarrow> if n \<le> js_max_safe_integer then JInt n else value | _ \<Rightarrow> value) in
      case normalized of
        JInt n \<Rightarrow>
          if isSafeInteger (JInt n) \<and> minimum \<le> n \<and> n \<le> maximum then Inr n
          else Inl (RangeError (field @ '' must be an integer between '' @ show_int minimum
                                @ '' and '' @ show_int maximum))
      | _ \<Rightarrow> Inl (RangeError (field @ '' must be an integer between '' @ show_int minimum
                                @ '' and '' @ show_int maximum)))"

lemma requiredVisibleString_Inr_iff [result_simps]:
  "requiredVisibleString v field k = Inr s \<longleftrightarrow> v = JStr s \<and> visible_text s k"
  by (auto simp: requiredVisibleString_def split: jsval.splits)

lemma requiredSafeInteger_Inr_iff [result_simps]:
  "requiredSafeInteger v field lo hi = Inr n \<longleftrightarrow>
     (v = JInt n \<or> v = JBig n) \<and> \<bar>n\<bar> \<le> js_max_safe_integer \<and> lo \<le> n \<and> n \<le> hi"
  by (auto simp: requiredSafeInteger_def Let_def split: jsval.splits if_splits)

section \<open>Owner references\<close>

definition is_word_char :: "char \<Rightarrow> bool" where
  "is_word_char c \<longleftrightarrow> is_alnum c \<or> c = CHR ''_''"

definition prefixed_word :: "string \<Rightarrow> string \<Rightarrow> bool" where
  "prefixed_word p s \<longleftrightarrow>
     starts_with p s \<and> drop (length p) s \<noteq> [] \<and> list_all is_word_char (drop (length p) s)"

definition STRIPE_ACCOUNT_SELECTOR :: "string \<Rightarrow> bool" where
  "STRIPE_ACCOUNT_SELECTOR s \<longleftrightarrow>
     prefixed_word ''acct_'' s \<or> prefixed_word ''cus_'' s \<or> prefixed_word ''sub_'' s"

definition is_hex :: "char \<Rightarrow> bool" where
  "is_hex c \<longleftrightarrow> is_digit c \<or> (97 \<le> code c \<and> code c \<le> 102) \<or> (65 \<le> code c \<and> code c \<le> 70)"

definition UUID_HEX :: "string \<Rightarrow> bool" where
  "UUID_HEX s \<longleftrightarrow> length s = 32 \<and> list_all is_hex s"

text \<open>
  The pattern of a UUID of credits.ts, credit-pack-events.ts and event-audit.ts: 8-4-4-4-12
  hexadecimal digits of either case.
\<close>

definition UUID :: "string \<Rightarrow> bool" where
  "UUID v \<longleftrightarrow>
     map length (split_on (CHR ''-'') v) = [8, 4, 4, 4, 12] \<and>
     list_all (list_all is_hex) (split_on (CHR ''-'') v)"

definition isUuidSelector :: "string \<Rightarrow> bool" where
  "isUuidSelector value =
     (let candidate = (if starts_with ''urn:uuid:'' (toLowerCase value)
                       then drop (length ''urn:uuid:'') value else value);
          candidate' = (if starts_with ''{'' candidate \<and> ends_with ''}'' candidate
                        then butlast (tl candidate) else candidate) in
      UUID_HEX (filter (\<lambda>c. c \<noteq> CHR ''-'') candidate'))"

definition validateOwnerExternalRef :: "string \<Rightarrow> string result" where
  "validateOwnerExternalRef value =
     (if value = [] \<or> value \<noteq> trim value \<or> byteLength value > 512
         \<or> list_ex unicode_C value
      then Inl (InvalidOwnerReferenceError ''owner_external_ref is invalid'')
      else if STRIPE_ACCOUNT_SELECTOR value
      then Inl (InvalidOwnerReferenceError ''owner_external_ref cannot be a Stripe identifier'')
      else if isUuidSelector value
      then Inl (InvalidOwnerReferenceError ''owner_external_ref cannot be an internal account ID'')
      else Inr value)"

text \<open>The canonical text of a UUID: 8-4-4-4-12 hexadecimal digits.\<close>

definition uuid_text :: "string \<Rightarrow> bool" where
  "uuid_text s \<longleftrightarrow> (\<exists>a b c d e. s = a @ ''-'' @ b @ ''-'' @ c @ ''-'' @ d @ ''-'' @ e \<and>
     length a = 8 \<and> length b = 4 \<and> length c = 4 \<and> length d = 4 \<and> length e = 12 \<and>
     list_all is_hex (a @ b @ c @ d @ e))"

lemma is_hex_facts: "is_hex c \<Longrightarrow> c \<noteq> CHR ''-'' \<and> c \<noteq> CHR ''u'' \<and> c \<noteq> CHR ''U'' \<and> c \<noteq> CHR ''{''"
  by (auto simp: is_hex_def is_digit_def code_def)

lemma filter_hex: "list_all is_hex s \<Longrightarrow> filter (\<lambda>c. c \<noteq> CHR ''-'') s = s"
  by (induction s) (auto dest: is_hex_facts)

lemma uuid_text_hex: "uuid_text u \<Longrightarrow> UUID_HEX (filter (\<lambda>c. c \<noteq> CHR ''-'') u)"
  by (auto simp: uuid_text_def UUID_HEX_def filter_hex)

lemma uuid_text_hd:
  assumes "uuid_text u"
  obtains c r where "u = c # r" "is_hex c"
proof -
  from assms obtain a t where "u = a @ t" "length a = 8" "list_all is_hex a"
    by (auto simp: uuid_text_def)
  then show thesis using that by (cases a) auto
qed

lemma toLowerCase_u: "lower_char c = CHR ''u'' \<Longrightarrow> c = CHR ''u'' \<or> c = CHR ''U'' \<or> code c \<ge> 192"
proof -
  assume l: "lower_char c = CHR ''u''"
  show ?thesis
  proof (cases "is_upper c")
    case True
    then have "code (lower_char c) = code c + 32"
      by (simp add: lower_char_def is_upper_def code_def)
    with l have "code c = code (CHR ''U'')" by (simp add: code_def)
    then show ?thesis by (metis char_of_char code_def)
  next
    case False
    with l show ?thesis by (auto simp: lower_char_def split: if_splits)
  qed
qed

lemma hex_not_urn: "is_hex c \<Longrightarrow> \<not> starts_with ''urn:uuid:'' (toLowerCase (c # r))"
  using toLowerCase_u [of c] is_hex_facts [of c]
  by (auto simp: toLowerCase_def is_hex_def is_digit_def)

lemma isUuidSelector_plain:
  assumes "uuid_text u"
  shows "isUuidSelector u" and "isUuidSelector (''urn:uuid:'' @ u)"
proof -
  obtain c r where u: "u = c # r" and c: "is_hex c" using uuid_text_hd [OF assms] .
  have "UUID_HEX (filter (\<lambda>c. c \<noteq> CHR ''-'') (c # r))" using uuid_text_hex [OF assms] u by simp
  then show "isUuidSelector u" and "isUuidSelector (''urn:uuid:'' @ u)"
    using is_hex_facts [OF c] hex_not_urn [OF c]
    by (auto simp: u isUuidSelector_def Let_def toLowerCase_def lower_char_def is_upper_def code_def)
qed

lemma isUuidSelector_braces: "uuid_text u \<Longrightarrow> isUuidSelector (''{'' @ u @ ''}'')"
  by (auto simp: isUuidSelector_def Let_def toLowerCase_def lower_char_def is_upper_def code_def
      uuid_text_hex ends_with_def)

text \<open>
  An owner reference can never select an account by its internal id: every usual spelling of a
  UUID, plain, as a URN or in braces, is rejected.
\<close>

theorem owner_ref_never_uuid:
  assumes "uuid_text u"
  shows "\<not> is_ok (validateOwnerExternalRef u) \<and>
         \<not> is_ok (validateOwnerExternalRef (''urn:uuid:'' @ u)) \<and>
         \<not> is_ok (validateOwnerExternalRef (''{'' @ u @ ''}''))"
  using isUuidSelector_plain [OF assms]
    isUuidSelector_braces [OF assms]
  by (simp add: validateOwnerExternalRef_def)

theorem owner_ref_never_uuid_witness:
  "\<not> is_ok (validateOwnerExternalRef ''00000000-0000-4000-8000-00000000000a'') \<and>
   \<not> is_ok (validateOwnerExternalRef (''urn:uuid:'' @ ''00000000-0000-4000-8000-00000000000a'')) \<and>
   \<not> is_ok (validateOwnerExternalRef (''{'' @ ''00000000-0000-4000-8000-00000000000a'' @ ''}''))"
proof (rule owner_ref_never_uuid)
  show "uuid_text ''00000000-0000-4000-8000-00000000000a''"
    unfolding uuid_text_def
    by (rule exI [of _ "''00000000''"], rule exI [of _ "''0000''"], rule exI [of _ "''4000''"],
        rule exI [of _ "''8000''"], rule exI [of _ "''00000000000a''"])
      (simp add: is_hex_def eval_simps)
qed

end
