(* ===== verification/Subscription_State.thy ===== *)
theory Subscription_State
  imports Credit_Amount "HOL-Library.Monad_Syntax"
begin

text \<open>
  The spendability of stored subscription credits (typescript/src/subscription-state.ts):
  PostgreSQL timestamp text is parsed to microseconds since 1970-01-01, and an account's
  balance counts only while the subscription is active, not revoked and not expired.
  The theory models the parser, Howard Hinnant's civil-date conversion, the RFC 3339
  normaliser and the two spendability functions.
\<close>

section \<open>Records that are safe to inspect\<close>

fun isSupportedRecord :: "jsval \<Rightarrow> bool" where
  "isSupportedRecord (JObj plain fields) = plain"
| "isSupportedRecord _ = False"

fun jprop :: "jsval \<Rightarrow> string \<Rightarrow> jsval" where
  "jprop (JObj plain fields) k = prop_get fields k"
| "jprop _ k = JUndef"

section \<open>The civil calendar\<close>

definition MICROS_PER_SECOND :: int where "MICROS_PER_SECOND = 1000000"
definition SECONDS_PER_DAY :: int where "SECONDS_PER_DAY = 86400"

definition isLeapYear :: "int \<Rightarrow> bool" where
  "isLeapYear year \<longleftrightarrow> year mod 4 = 0 \<and> (year mod 100 \<noteq> 0 \<or> year mod 400 = 0)"

definition daysInMonth :: "int \<Rightarrow> int \<Rightarrow> int" where
  "daysInMonth year month =
     (let lengths = [31, if isLeapYear year then 29 else 28, 31, 30, 31, 30,
                     31, 31, 30, 31, 30, 31] in
      if 1 \<le> month \<and> month \<le> 12 then lengths ! nat (month - 1) else 0)"

definition daysFromCivil :: "int \<Rightarrow> int \<Rightarrow> int \<Rightarrow> int" where
  "daysFromCivil year month day =
     (let adjustedYear = year - (if month \<le> 2 then 1 else 0);
          era = adjustedYear div 400;
          yearOfEra = adjustedYear - era * 400;
          shiftedMonth = month + (if month > 2 then -3 else 9);
          dayOfYear = (153 * shiftedMonth + 2) div 5 + day - 1;
          dayOfEra = yearOfEra * 365 + yearOfEra div 4 - yearOfEra div 100 + dayOfYear in
      era * 146097 + dayOfEra - 719468)"

section \<open>Timestamp text\<close>

text \<open>The groups of the regular expression \<open>TIMESTAMP\<close>.\<close>

record ts_match =
  tm_year :: string
  tm_month :: string
  tm_day :: string
  tm_hour :: string
  tm_minute :: string
  tm_second :: string
  tm_fraction :: "string option"
  tm_zone :: string

fun take_digits :: "nat \<Rightarrow> string \<Rightarrow> (string \<times> string) option" where
  "take_digits 0 s = Some ([], s)"
| "take_digits (Suc k) [] = None"
| "take_digits (Suc k) (c # s) =
     (if is_digit c then map_option (\<lambda>(d, r). (c # d, r)) (take_digits k s) else None)"

fun take_char :: "string \<Rightarrow> string \<Rightarrow> string option" where
  "take_char cs [] = None"
| "take_char cs (c # s) = (if c \<in> set cs then Some s else None)"

fun take_fraction :: "string \<Rightarrow> (string option \<times> string) option" where
  "take_fraction [] = Some (None, [])"
| "take_fraction (c # s) =
     (if c = CHR ''.'' then
        let f = takeWhile is_digit s in
        if 1 \<le> length f \<and> length f \<le> 6 then Some (Some f, dropWhile is_digit s) else None
      else Some (None, c # s))"

definition is_sign :: "char \<Rightarrow> bool" where
  "is_sign c \<longleftrightarrow> c = CHR ''+'' \<or> c = CHR ''-''"

fun is_timezone :: "string \<Rightarrow> bool" where
  "is_timezone [z] = (z = CHR ''Z'')"
| "is_timezone [s, a, b] = (is_sign s \<and> is_digit a \<and> is_digit b)"
| "is_timezone [s, a, b, c, d] =
     (is_sign s \<and> is_digit a \<and> is_digit b \<and> is_digit c \<and> is_digit d)"
| "is_timezone [s, a, b, e, c, d] =
     (is_sign s \<and> is_digit a \<and> is_digit b \<and> e = CHR '':'' \<and> is_digit c \<and> is_digit d)"
| "is_timezone _ = False"

definition TIMESTAMP :: "string \<Rightarrow> ts_match option" where
  "TIMESTAMP s0 = do {
     (y, s1) \<leftarrow> take_digits 4 s0;
     s2 \<leftarrow> take_char ''-'' s1;
     (mo, s3) \<leftarrow> take_digits 2 s2;
     s4 \<leftarrow> take_char ''-'' s3;
     (d, s5) \<leftarrow> take_digits 2 s4;
     s6 \<leftarrow> take_char ''T '' s5;
     (h, s7) \<leftarrow> take_digits 2 s6;
     s8 \<leftarrow> take_char '':'' s7;
     (mi, s9) \<leftarrow> take_digits 2 s8;
     s10 \<leftarrow> take_char '':'' s9;
     (sec, s11) \<leftarrow> take_digits 2 s10;
     (fr, s12) \<leftarrow> take_fraction s11;
     if is_timezone s12
     then Some \<lparr>tm_year = y, tm_month = mo, tm_day = d, tm_hour = h, tm_minute = mi,
                tm_second = sec, tm_fraction = fr, tm_zone = s12\<rparr>
     else None }"

definition zone_offset :: "string \<Rightarrow> int option" where
  "zone_offset timezone =
     (if timezone = ''Z'' then Some 0
      else
        let sign = (if starts_with ''+'' timezone then 1 else -1);
            compact = remove1 (CHR '':'') (drop 1 timezone);
            offsetHours = int (digits_value (take 2 compact));
            offsetMinutes = (if length compact = 4 then int (digits_value (drop 2 compact)) else 0)
        in if offsetHours > 23 \<or> offsetMinutes > 59 then None
           else Some (sign * (offsetHours * 3600 + offsetMinutes * 60)))"

definition match_micros :: "ts_match \<Rightarrow> int option" where
  "match_micros m =
     (let year = int (digits_value (tm_year m));
          month = int (digits_value (tm_month m));
          day = int (digits_value (tm_day m));
          hour = int (digits_value (tm_hour m));
          minute = int (digits_value (tm_minute m));
          second = int (digits_value (tm_second m));
          fraction = (case tm_fraction m of None \<Rightarrow> [] | Some f \<Rightarrow> f) in
      if year < 1 \<or> year > 9999 \<or> month < 1 \<or> month > 12 \<or> day < 1 \<or>
         day > daysInMonth year month \<or> hour > 23 \<or> minute > 59 \<or> second > 59
      then None
      else case zone_offset (tm_zone m) of
             None \<Rightarrow> None
           | Some offsetSeconds \<Rightarrow>
               let localSeconds = daysFromCivil year month day * SECONDS_PER_DAY
                                  + (hour * 3600 + minute * 60 + second);
                   fractionalMicros = int (digits_value (padEnd0 6 fraction))
               in Some ((localSeconds - offsetSeconds) * MICROS_PER_SECOND + fractionalMicros))"

definition timestampMicros :: "jsval \<Rightarrow> int option" where
  "timestampMicros value =
     (case value of
        JStr s \<Rightarrow> (case TIMESTAMP s of None \<Rightarrow> None | Some m \<Rightarrow> match_micros m)
      | _ \<Rightarrow> None)"

definition normalizedTimezone :: "string \<Rightarrow> string" where
  "normalizedTimezone timezone =
     (if timezone = ''Z'' \<or> CHR '':'' \<in> set timezone then timezone
      else if length timezone = 3 then timezone @ '':00''
      else take 3 timezone @ '':'' @ drop 3 timezone)"

definition rfc3339Timestamp :: "string \<Rightarrow> string result" where
  "rfc3339Timestamp value =
     (case TIMESTAMP value of
        None \<Rightarrow> Inl (TypeError ''PostgreSQL timestamp is outside the supported RFC 3339 range'')
      | Some m \<Rightarrow>
          if timestampMicros (JStr value) = None
          then Inl (TypeError ''PostgreSQL timestamp is outside the supported RFC 3339 range'')
          else
            let timezone = tm_zone m;
                localTimestamp =
                  take 10 value @ ''T'' @ drop 11 (take (length value - length timezone) value)
            in Inr (localTimestamp @ normalizedTimezone timezone))"

section \<open>Spendability\<close>

definition subscriptionCreditsAreSpendable :: "jsval \<Rightarrow> jsval \<Rightarrow> bool" where
  "subscriptionCreditsAreSpendable account input =
     (if \<not> isSupportedRecord account \<or> \<not> isSupportedRecord input
         \<or> jprop account ''subscription_status'' \<noteq> JStr ''active''
      then False
      else
        let revoked = jprop account ''entitlement_revoked'' in
        if revoked \<noteq> JUndef \<and> revoked \<noteq> JNull \<and> revoked \<noteq> JBool False then False
        else case (timestampMicros (jprop input ''asOf''),
                   timestampMicros (jprop account ''credit_expires_at'')) of
               (Some asOf, Some expiresAt) \<Rightarrow> expiresAt > asOf
             | _ \<Rightarrow> False)"

definition spendableSubscriptionAtoms :: "jsval \<Rightarrow> jsval \<Rightarrow> int" where
  "spendableSubscriptionAtoms account input =
     (if \<not> subscriptionCreditsAreSpendable account input \<or> \<not> isSupportedRecord account then 0
      else case jprop account ''credits_balance'' of
             JBig balance \<Rightarrow>
               if 0 \<le> balance \<and> balance \<le> POSTGRES_BIGINT_MAX then balance else 0
           | _ \<Rightarrow> 0)"

section \<open>The civil calendar counts days\<close>

text \<open>The calendar's own order of days: the date after a date.\<close>

definition valid_date :: "int \<Rightarrow> int \<Rightarrow> int \<Rightarrow> bool" where
  "valid_date y m d \<longleftrightarrow> 1 \<le> m \<and> m \<le> 12 \<and> 1 \<le> d \<and> d \<le> daysInMonth y m"

definition next_date :: "int \<times> int \<times> int \<Rightarrow> int \<times> int \<times> int" where
  "next_date = (\<lambda>(y, m, d).
     if d < daysInMonth y m then (y, m, d + 1)
     else if m < 12 then (y, m + 1, 1) else (y + 1, 1, 1))"

lemma month_cases:
  fixes m :: int
  assumes "1 \<le> m" "m \<le> 12"
  obtains "m = 1" | "m = 2" | "m = 3" | "m = 4" | "m = 5" | "m = 6" | "m = 7" | "m = 8"
    | "m = 9" | "m = 10" | "m = 11" | "m = 12"
  using assms by atomize_elim arith

lemma daysInMonth_simps [simp]:
  "daysInMonth y 1 = 31" "daysInMonth y 2 = (if isLeapYear y then 29 else 28)"
  "daysInMonth y 3 = 31" "daysInMonth y 4 = 30" "daysInMonth y 5 = 31" "daysInMonth y 6 = 30"
  "daysInMonth y 7 = 31" "daysInMonth y 8 = 31" "daysInMonth y 9 = 30" "daysInMonth y 10 = 31"
  "daysInMonth y 11 = 30" "daysInMonth y 12 = 31"
  by (simp_all add: daysInMonth_def)

text \<open>The days before 1 March of a year, without the division into eras.\<close>

definition march_days :: "int \<Rightarrow> int" where
  "march_days a = 365 * a + a div 4 - a div 100 + a div 400"

lemma div_era:
  fixes a :: int
  shows "a div 4 = 100 * (a div 400) + a mod 400 div 4"
    and "a div 100 = 4 * (a div 400) + a mod 400 div 100"
proof -
  have "(400 * e + r) div 4 = 100 * e + r div 4" "(400 * e + r) div 100 = 4 * e + r div 100"
    for e r :: int by simp_all
  from this [of "a div 400" "a mod 400"]
  show "a div 4 = 100 * (a div 400) + a mod 400 div 4"
    and "a div 100 = 4 * (a div 400) + a mod 400 div 100" by simp_all
qed

lemma daysFromCivil_march:
  "daysFromCivil y m d =
     march_days (if m \<le> 2 then y - 1 else y)
     + (153 * (if m > 2 then m - 3 else m + 9) + 2) div 5 + d - 1 - 719468"
proof -
  let ?a = "if m \<le> 2 then y - 1 else y"
  let ?e = "?a div 400" and ?r = "?a mod 400"
  have a: "?a = 400 * ?e + ?r" by simp
  have r: "?a - ?e * 400 = ?r" by (simp add: minus_div_mult_eq_mod)
  have d4: "?a div 4 = 100 * ?e + ?r div 4" by (rule div_era)
  have d100: "?a div 100 = 4 * ?e + ?r div 100" by (rule div_era)
  have "march_days ?a = ?e * 146097 + ?r * 365 + ?r div 4 - ?r div 100"
    unfolding march_days_def d4 d100 using a by linarith
  moreover have "daysFromCivil y m d =
     (?a div 400) * 146097 + ((?a - ?a div 400 * 400) * 365 + (?a - ?a div 400 * 400) div 4
       - (?a - ?a div 400 * 400) div 100
       + ((153 * (if m > 2 then m - 3 else m + 9) + 2) div 5 + d - 1)) - 719468"
    by (simp add: daysFromCivil_def Let_def)
  ultimately show ?thesis unfolding r by linarith
qed

lemma div_pred:
  fixes a k :: int
  assumes "0 < k"
  shows "a div k - (a - 1) div k = (if a mod k = 0 then 1 else 0)"
proof (cases "a mod k = 0")
  case True
  have "a - 1 = k * (a div k - 1) + (k - 1)"
    using True mult_div_mod_eq [of k a] by (simp add: algebra_simps)
  then have "(a - 1) div k = a div k - 1" by (rule int_div_pos_eq) (use assms in auto)
  with True show ?thesis by simp
next
  case False
  have "a - 1 = k * (a div k) + (a mod k - 1)" by simp
  moreover have "0 \<le> a mod k" "a mod k < k" using assms by simp_all
  ultimately have "(a - 1) div k = a div k"
    using False int_div_pos_eq [of "a - 1" k "a div k" "a mod k - 1"] by auto
  with False show ?thesis by simp
qed

lemma leap_step:
  fixes p4 q4 p100 q100 p400 q400 :: int
  assumes "p4 - q4 = (if b4 then 1 else 0)" "p100 - q100 = (if b100 then 1 else 0)"
    "p400 - q400 = (if b400 then 1 else 0)" "b100 \<Longrightarrow> b4" "b400 \<Longrightarrow> b100"
  shows "(365 * a + p4 - p100 + p400) - (365 * (a - 1) + q4 - q100 + q400)
       = (if b4 \<and> (\<not> b100 \<or> b400) then 366 else 365)"
  using assms by (cases b4; cases b100; cases b400) simp_all

lemma march_days_step:
  "march_days a - march_days (a - 1) = (if isLeapYear a then 366 else 365)"
proof -
  have "a mod 100 = 0 \<Longrightarrow> a mod 4 = 0"
    using dvd_trans [of 4 100 a] by (simp add: dvd_eq_mod_eq_0)
  moreover have "a mod 400 = 0 \<Longrightarrow> a mod 100 = 0"
    using dvd_trans [of 100 400 a] by (simp add: dvd_eq_mod_eq_0)
  ultimately show ?thesis
    unfolding march_days_def isLeapYear_def
    by (intro leap_step div_pred) simp_all
qed

lemma daysFromCivil_next:
  assumes "valid_date y m d"
  shows "(case next_date (y, m, d) of (y', m', d') \<Rightarrow> daysFromCivil y' m' d')
       = daysFromCivil y m d + 1"
proof (cases "d < daysInMonth y m")
  case True
  then show ?thesis by (simp add: next_date_def daysFromCivil_march)
next
  case False
  with assms have d: "d = daysInMonth y m" by (simp add: valid_date_def)
  from assms have "1 \<le> m" "m \<le> 12" by (simp_all add: valid_date_def)
  then show ?thesis
    using march_days_step [of y]
    by (cases rule: month_cases)
      (auto simp: next_date_def d daysFromCivil_march split: if_splits)
qed

text \<open>
  C33: \<open>daysFromCivil\<close> numbers the days of the proleptic Gregorian calendar: 1970-01-01 is day 0
  and the calendar's next date is the next number, at every month end, leap day and century.
\<close>

theorem days_from_civil_counts:
  "daysFromCivil 1970 1 1 = 0 \<and>
   (valid_date y m d \<longrightarrow>
     (case next_date (y, m, d) of (y', m', d') \<Rightarrow> daysFromCivil y' m' d') = daysFromCivil y m d + 1)"
  using daysFromCivil_next by (simp add: daysFromCivil_def)

theorem days_from_civil_counts_witness:
  "valid_date 2024 2 29 \<and>
   (case next_date (2024, 2, 29) of (y', m', d') \<Rightarrow> daysFromCivil y' m' d') = daysFromCivil 2024 2 29 + 1"
  using days_from_civil_counts [of 2024 2 29] by (simp add: valid_date_def isLeapYear_def)

section \<open>The shape of an accepted timestamp\<close>

definition fraction_text :: "string option \<Rightarrow> string" where
  "fraction_text fr = (case fr of None \<Rightarrow> [] | Some f \<Rightarrow> CHR ''.'' # f)"

definition render :: "char \<Rightarrow> ts_match \<Rightarrow> string" where
  "render sep m = tm_year m @ CHR ''-'' # tm_month m @ CHR ''-'' # tm_day m @ sep # tm_hour m
     @ CHR '':'' # tm_minute m @ CHR '':'' # tm_second m @ fraction_text (tm_fraction m) @ tm_zone m"

definition digit_block :: "nat \<Rightarrow> string \<Rightarrow> bool" where
  "digit_block k s \<longleftrightarrow> length s = k \<and> list_all is_digit s"

definition wf_match :: "ts_match \<Rightarrow> bool" where
  "wf_match m \<longleftrightarrow> digit_block 4 (tm_year m) \<and> digit_block 2 (tm_month m) \<and> digit_block 2 (tm_day m)
     \<and> digit_block 2 (tm_hour m) \<and> digit_block 2 (tm_minute m) \<and> digit_block 2 (tm_second m)
     \<and> (case tm_fraction m of None \<Rightarrow> True
        | Some f \<Rightarrow> list_all is_digit f \<and> 1 \<le> length f \<and> length f \<le> 6)
     \<and> is_timezone (tm_zone m)"

lemma take_digits_iff: "take_digits k s = Some (d, r) \<longleftrightarrow> s = d @ r \<and> digit_block k d"
proof (induction k s arbitrary: d r rule: take_digits.induct)
  case (3 k c s)
  then show ?case by (cases d) (auto simp: digit_block_def)
qed (auto simp: digit_block_def)

lemma take_digits_append: "digit_block k d \<Longrightarrow> take_digits k (d @ r) = Some (d, r)"
  by (simp add: take_digits_iff)

lemma take_char_iff: "take_char cs s = Some r \<longleftrightarrow> (\<exists>c \<in> set cs. s = c # r)"
  by (cases s) auto

lemma is_timezone_hd:
  assumes "is_timezone z"
  obtains c r where "z = c # r" "c = CHR ''Z'' \<or> is_sign c" "\<not> is_digit c" "c \<noteq> CHR ''.''"
  using assms by (cases z rule: is_timezone.cases) (auto simp: is_sign_def)

lemma take_fraction_Some:
  assumes "take_fraction s = Some (fr, r)"
  shows "s = fraction_text fr @ r \<and>
    (case fr of None \<Rightarrow> True | Some f \<Rightarrow> list_all is_digit f \<and> 1 \<le> length f \<and> length f \<le> 6)"
proof (cases s)
  case Nil
  with assms show ?thesis by (auto simp: fraction_text_def)
next
  case (Cons c t)
  obtain f u where f: "takeWhile is_digit t = f" and u: "dropWhile is_digit t = u" and t: "t = f @ u"
    by (metis takeWhile_dropWhile_id)
  have "list_all is_digit f" by (auto simp: list_all_iff f [symmetric] dest: set_takeWhileD)
  with assms f u show ?thesis unfolding Cons
    by (auto simp: Let_def fraction_text_def t split: if_splits)
qed

lemma take_fraction_render:
  assumes "is_timezone z"
    and "case fr of None \<Rightarrow> True | Some f \<Rightarrow> list_all is_digit f \<and> 1 \<le> length f \<and> length f \<le> 6"
  shows "take_fraction (fraction_text fr @ z) = Some (fr, z)"
proof -
  obtain c r where z: "z = c # r" "\<not> is_digit c" "c \<noteq> CHR ''.''"
    using is_timezone_hd [OF assms(1)] by metis
  show ?thesis
  proof (cases fr)
    case None
    with z show ?thesis by (simp add: fraction_text_def)
  next
    case (Some f)
    with assms(2) z span_digits [of f z] show ?thesis by (simp add: fraction_text_def Let_def)
  qed
qed

lemma TIMESTAMP_render:
  assumes "wf_match m" and "sep \<in> {CHR ''T'', CHR '' ''}"
  shows "TIMESTAMP (render sep m) = Some m"
  using assms take_fraction_render [of "tm_zone m" "tm_fraction m"]
  by (auto simp: TIMESTAMP_def render_def wf_match_def take_digits_append)

lemma TIMESTAMP_Some:
  assumes "TIMESTAMP s = Some m"
  obtains sep where "s = render sep m" "wf_match m" "sep \<in> {CHR ''T'', CHR '' ''}"
proof -
  from assms have "\<exists>sep. s = render sep m \<and> wf_match m \<and> sep \<in> {CHR ''T'', CHR '' ''}"
    unfolding TIMESTAMP_def
    by (auto simp: Option.bind_eq_Some_conv take_digits_iff take_char_iff render_def wf_match_def
        split: if_splits dest!: take_fraction_Some)
  then show thesis using that by blast
qed


section \<open>Normalising to RFC 3339 keeps the instant\<close>

lemma is_digit_colon: "is_digit c \<Longrightarrow> c \<noteq> CHR '':''"
  by auto

lemma normalizedTimezone_ok:
  assumes "is_timezone z"
  shows "is_timezone (normalizedTimezone z)"
    and "zone_offset (normalizedTimezone z) = zone_offset z"
    and "normalizedTimezone (normalizedTimezone z) = normalizedTimezone z"
proof -
  have "is_timezone (normalizedTimezone z) \<and> zone_offset (normalizedTimezone z) = zone_offset z
      \<and> normalizedTimezone (normalizedTimezone z) = normalizedTimezone z"
    using assms
    by (cases z rule: is_timezone.cases)
      (auto simp: normalizedTimezone_def zone_offset_def is_sign_def Let_def numeral_eq_Suc)
  then show "is_timezone (normalizedTimezone z)"
    "zone_offset (normalizedTimezone z) = zone_offset z"
    "normalizedTimezone (normalizedTimezone z) = normalizedTimezone z" by simp_all
qed

lemma wf_match_lengths:
  assumes "wf_match m"
  shows "length (tm_year m) = 4" "length (tm_month m) = 2" "length (tm_day m) = 2"
  using assms by (simp_all add: wf_match_def digit_block_def)

lemma render_slices:
  assumes "wf_match m"
  shows "take 10 (render sep m) = tm_year m @ CHR ''-'' # tm_month m @ CHR ''-'' # tm_day m"
    and "drop 11 (take (length (render sep m) - length (tm_zone m)) (render sep m))
       = tm_hour m @ CHR '':'' # tm_minute m @ CHR '':'' # tm_second m
         @ fraction_text (tm_fraction m)"
proof -
  define p where "p = tm_year m @ CHR ''-'' # tm_month m @ CHR ''-'' # tm_day m"
  define q where "q = tm_hour m @ CHR '':'' # tm_minute m @ CHR '':'' # tm_second m
         @ fraction_text (tm_fraction m)"
  have p: "length p = 10" using wf_match_lengths [OF assms] by (simp add: p_def)
  have r: "render sep m = p @ sep # q @ tm_zone m" by (simp add: render_def p_def q_def)
  show "take 10 (render sep m) = tm_year m @ CHR ''-'' # tm_month m @ CHR ''-'' # tm_day m"
    unfolding r p_def [symmetric] using p by simp
  show "drop 11 (take (length (render sep m) - length (tm_zone m)) (render sep m))
       = tm_hour m @ CHR '':'' # tm_minute m @ CHR '':'' # tm_second m
         @ fraction_text (tm_fraction m)"
    unfolding r q_def [symmetric] using p by simp
qed

lemma rfc3339_render:
  assumes "wf_match m" and "sep \<in> {CHR ''T'', CHR '' ''}"
    and "timestampMicros (JStr (render sep m)) \<noteq> None"
  shows "rfc3339Timestamp (render sep m)
       = Inr (render (CHR ''T'') (m\<lparr>tm_zone := normalizedTimezone (tm_zone m)\<rparr>))"
  using assms(3) unfolding rfc3339Timestamp_def TIMESTAMP_render [OF assms(1,2)]
  by (simp add: Let_def render_slices [OF assms(1)] del: not_None_eq) (simp add: render_def)

lemma match_micros_zone:
  assumes "is_timezone (tm_zone m)"
  shows "match_micros (m\<lparr>tm_zone := normalizedTimezone (tm_zone m)\<rparr>) = match_micros m"
  using normalizedTimezone_ok(2) [OF assms] by (simp add: match_micros_def Let_def cong: if_cong)

lemma wf_match_zone:
  "wf_match m \<Longrightarrow> wf_match (m\<lparr>tm_zone := normalizedTimezone (tm_zone m)\<rparr>)"
  using normalizedTimezone_ok(1) by (simp add: wf_match_def)

lemma rfc3339_keeps:
  assumes "rfc3339Timestamp v = Inr s"
  shows "timestampMicros (JStr s) = timestampMicros (JStr v)"
    and "timestampMicros (JStr v) \<noteq> None" and "rfc3339Timestamp s = Inr s"
proof -
  from assms obtain m where m: "TIMESTAMP v = Some m" and some: "timestampMicros (JStr v) \<noteq> None"
    by (auto simp: rfc3339Timestamp_def split: option.splits if_splits)
  obtain sep where v: "v = render sep m" and wf: "wf_match m" and sep: "sep \<in> {CHR ''T'', CHR '' ''}"
    using TIMESTAMP_Some [OF m] by blast
  let ?m = "m\<lparr>tm_zone := normalizedTimezone (tm_zone m)\<rparr>"
  have s: "s = render (CHR ''T'') ?m"
    using rfc3339_render [OF wf sep] some assms by (simp add: v del: not_None_eq)
  have tz: "is_timezone (tm_zone m)" using wf by (simp add: wf_match_def)
  have wf': "wf_match ?m" using wf by (rule wf_match_zone)
  show same: "timestampMicros (JStr s) = timestampMicros (JStr v)"
    using m TIMESTAMP_render [OF wf'] match_micros_zone [OF tz]
    by (simp add: timestampMicros_def s)
  show "timestampMicros (JStr v) \<noteq> None" by (rule some)
  have "rfc3339Timestamp s = Inr (render (CHR ''T'') (?m\<lparr>tm_zone := normalizedTimezone (tm_zone ?m)\<rparr>))"
    unfolding s using some same s by (intro rfc3339_render wf') auto
  then show "rfc3339Timestamp s = Inr s"
    using normalizedTimezone_ok(3) [OF tz] by (simp add: s)
qed

text \<open>
  C34: \<open>rfc3339Timestamp\<close> succeeds for exactly the texts that denote an instant; its result denotes
  the same microsecond, and normalising the result again changes nothing.
\<close>

theorem rfc3339_preserves_instant:
  "((\<exists>s. rfc3339Timestamp v = Inr s) \<longleftrightarrow> timestampMicros (JStr v) \<noteq> None) \<and>
   (\<forall>s. rfc3339Timestamp v = Inr s \<longrightarrow>
      timestampMicros (JStr s) = timestampMicros (JStr v) \<and> rfc3339Timestamp s = Inr s)"
proof -
  have "\<exists>s. rfc3339Timestamp v = Inr s" if some: "timestampMicros (JStr v) \<noteq> None"
  proof -
    from some obtain m where m: "TIMESTAMP v = Some m"
      by (auto simp: timestampMicros_def split: option.splits)
    from TIMESTAMP_Some [OF m] obtain sep
      where "v = render sep m" "wf_match m" "sep \<in> {CHR ''T'', CHR '' ''}" by blast
    with rfc3339_render [of m sep] some show ?thesis by blast
  qed
  then show ?thesis using rfc3339_keeps by blast
qed

theorem rfc3339_preserves_instant_witness:
  "rfc3339Timestamp ''2026-01-31 12:00:00.5+02'' = Inr ''2026-01-31T12:00:00.5+02:00'' \<and>
   timestampMicros (JStr ''2026-01-31T12:00:00.5+02:00'')
     = timestampMicros (JStr ''2026-01-31 12:00:00.5+02'')"
proof -
  have t: "TIMESTAMP ''2026-01-31 12:00:00.5+02'' = Some
      \<lparr>tm_year = ''2026'', tm_month = ''01'', tm_day = ''31'', tm_hour = ''12'', tm_minute = ''00'',
       tm_second = ''00'', tm_fraction = Some ''5'', tm_zone = ''+02''\<rparr>"
    by code_simp
  have "timestampMicros (JStr ''2026-01-31 12:00:00.5+02'') \<noteq> None"
    by (simp add: timestampMicros_def t match_micros_def zone_offset_def eval_simps)
  then have "rfc3339Timestamp ''2026-01-31 12:00:00.5+02'' = Inr ''2026-01-31T12:00:00.5+02:00''"
    by (simp add: rfc3339Timestamp_def t normalizedTimezone_def Let_def)
  with rfc3339_preserves_instant [of "''2026-01-31 12:00:00.5+02''"] show ?thesis by blast
qed

end
