(* ===== verification/Event_Primitives.thy ===== *)
theory Event_Primitives
  imports Validation Subscription_State "HOL-Library.Multiset"
begin

text \<open>
  The shared parts of event processing (typescript/src/ordering.ts and processor-primitives.ts):
  the order of Stripe events, the projection cursor, the readers of identifiers and fields of a
  Stripe object, the shape check of an event, and the integer arithmetic of clawbacks and annual
  slots.
\<close>

section \<open>Event order\<close>

definition rankFor :: "string \<Rightarrow> int" where
  "rankFor eventType =
     (if eventType = ''invoice.payment_failed'' then 10
      else if eventType = ''customer.subscription.updated'' then 20
      else if eventType = ''invoice.paid'' then 30
      else if eventType = ''customer.subscription.deleted'' then 40
      else 0)"

definition eventWins :: "int \<Rightarrow> int \<Rightarrow> int \<Rightarrow> int \<Rightarrow> bool" where
  "eventWins currentCreated currentRank eventCreated eventRank \<longleftrightarrow>
     eventCreated > currentCreated \<or> (eventCreated = currentCreated \<and> eventRank > currentRank)"

datatype ProjectionCursor = Cursor (created: int) (rank: int)

text \<open>Cursors are ordered lexicographically, the order that \<open>eventWins\<close> computes.\<close>

instantiation ProjectionCursor :: linorder
begin

definition less_eq_ProjectionCursor :: "ProjectionCursor \<Rightarrow> ProjectionCursor \<Rightarrow> bool" where
  "x \<le> y \<longleftrightarrow> created x < created y \<or> (created x = created y \<and> rank x \<le> rank y)"

definition less_ProjectionCursor :: "ProjectionCursor \<Rightarrow> ProjectionCursor \<Rightarrow> bool" where
  "x < y \<longleftrightarrow> created x < created y \<or> (created x = created y \<and> rank x < rank y)"

instance
  by intro_classes
    (auto simp: less_eq_ProjectionCursor_def less_ProjectionCursor_def
      intro: ProjectionCursor.expand)

end

lemma eventWins_less: "eventWins (created c) (rank c) (created e) (rank e) \<longleftrightarrow> c < e"
  by (auto simp: eventWins_def less_ProjectionCursor_def)

section \<open>Reading Stripe objects\<close>

definition SUPPORTED_EVENT_TYPES :: "string list" where
  "SUPPORTED_EVENT_TYPES =
     [''checkout.session.completed'', ''checkout.session.expired'', ''invoice.paid'',
      ''invoice.payment_failed'', ''customer.subscription.updated'',
      ''customer.subscription.deleted'', ''charge.refunded'', ''charge.dispute.created'',
      ''payment_intent.succeeded'']"

definition asStripeId :: "jsval \<Rightarrow> string option" where
  "asStripeId value =
     (let candidate = (if isPlainRecord value then jprop value ''id'' else value) in
      case candidate of
        JStr s \<Rightarrow> if visible_text s 512 then Some s else None
      | _ \<Rightarrow> None)"

definition subscriptionId :: "jsval \<Rightarrow> string option" where
  "subscriptionId obj =
     (case asStripeId (jprop obj ''subscription'') of
        Some direct \<Rightarrow> Some direct
      | None \<Rightarrow>
          let parent = jprop obj ''parent'' in
          if \<not> isPlainRecord parent then None
          else let details = jprop parent ''subscription_details'' in
               if isPlainRecord details then asStripeId (jprop details ''subscription'') else None)"

fun has_keys :: "jsval \<Rightarrow> bool" where
  "has_keys (JObj plain fs) = (fs \<noteq> [])"
| "has_keys _ = False"

definition subscriptionMetadata :: "jsval \<Rightarrow> jsval" where
  "subscriptionMetadata obj =
     (let parent = jprop obj ''parent'';
          details = jprop parent ''subscription_details'';
          metadata1 = jprop details ''metadata'';
          legacy = jprop obj ''subscription_details'';
          metadata2 = jprop legacy ''metadata'';
          metadata3 = jprop obj ''metadata'' in
      if isPlainRecord parent \<and> isPlainRecord details \<and> isPlainRecord metadata1 \<and> has_keys metadata1
      then metadata1
      else if isPlainRecord legacy \<and> isPlainRecord metadata2 \<and> has_keys metadata2 then metadata2
      else if isPlainRecord metadata3 then metadata3 else JObj True [])"

fun nonempty_text :: "jsval \<Rightarrow> string option" where
  "nonempty_text (JStr s) = (if s \<noteq> [] then Some s else None)"
| "nonempty_text _ = None"

definition lineLookup :: "jsval \<Rightarrow> string option" where
  "lineLookup line =
     (case nonempty_text (jprop line ''_resolved_lookup_key'') of
        Some s \<Rightarrow> Some s
      | None \<Rightarrow>
          let price = jprop line ''price'';
              pricing = jprop line ''pricing'';
              details = (if isPlainRecord pricing then jprop pricing ''price_details'' else JUndef) in
          case (if isPlainRecord price then nonempty_text (jprop price ''lookup_key'') else None) of
            Some s \<Rightarrow> Some s
          | None \<Rightarrow>
              if isPlainRecord details then nonempty_text (jprop details ''lookup_key'') else None)"

definition linePriceId :: "jsval \<Rightarrow> string option" where
  "linePriceId line =
     (case asStripeId (jprop line ''price'') of
        Some legacy \<Rightarrow> Some legacy
      | None \<Rightarrow>
          let pricing = jprop line ''pricing'';
              details = (if isPlainRecord pricing then jprop pricing ''price_details'' else JUndef) in
          if isPlainRecord details then asStripeId (jprop details ''price'') else None)"

definition lineIsProration :: "jsval \<Rightarrow> bool" where
  "lineIsProration line =
     (if jprop line ''proration'' = JBool True then True
      else
        let parent = jprop line ''parent'';
            details = (if isPlainRecord parent then jprop parent ''subscription_item_details''
                       else JUndef) in
        isPlainRecord details \<and> jprop details ''proration'' = JBool True)"

fun stripeInteger :: "jsval \<Rightarrow> int option" where
  "stripeInteger (JInt n) = (if isSafeInteger (JInt n) then Some n else None)"
| "stripeInteger _ = None"

definition stripeNonnegativeInteger :: "jsval \<Rightarrow> int option" where
  "stripeNonnegativeInteger value =
     (case stripeInteger value of
        Some n \<Rightarrow> if 0 \<le> n then Some n else None
      | None \<Rightarrow> None)"

fun validEventIdentifier :: "jsval \<Rightarrow> nat \<Rightarrow> bool" where
  "validEventIdentifier (JStr s) maxBytes = visible_text s maxBytes"
| "validEventIdentifier _ maxBytes = False"

definition eventShapeError :: "jsval \<Rightarrow> string option" where
  "eventShapeError event =
     (let eventType = jprop event ''type'';
          data = jprop event ''data'';
          obj = jprop data ''object'' in
      if \<not> validEventIdentifier (jprop event ''id'') 512
      then Some ''Stripe Event requires a stable visible string id''
      else if \<not> validEventIdentifier eventType 255
      then Some ''Stripe Event requires a stable visible string type''
      else if eventType \<notin> JStr ` set SUPPORTED_EVENT_TYPES then None
      else if (case stripeNonnegativeInteger (jprop event ''created'') of
                 None \<Rightarrow> True | Some n \<Rightarrow> n > POSTGRES_BIGINT_MAX)
      then Some ''supported Stripe Event requires a PostgreSQL-bigint created timestamp''
      else if (case jprop event ''livemode'' of JBool b \<Rightarrow> False | _ \<Rightarrow> True)
      then Some ''supported Stripe Event requires a boolean livemode value''
      else if \<not> isPlainRecord data then Some ''supported Stripe Event requires a data object''
      else if \<not> isPlainRecord obj
      then Some ''supported Stripe Event requires data.object to be an object''
      else if nonempty_text (jprop obj ''id'') = None
      then Some ''supported Stripe Event object requires a stable string id''
      else None)"

datatype subscription_status = SubNone | SubActive | SubPastDue | SubCanceled

definition projectSubscriptionStatus :: "jsval \<Rightarrow> subscription_status" where
  "projectSubscriptionStatus status =
     (if status = JStr ''active'' \<or> status = JStr ''trialing'' then SubActive
      else if status = JStr ''past_due'' \<or> status = JStr ''unpaid'' \<or> status = JStr ''paused''
      then SubPastDue
      else if status = JStr ''canceled'' \<or> status = JStr ''incomplete_expired'' then SubCanceled
      else SubNone)"

text \<open>
  \<open>String(event["type"])\<close> for the rank lookup: event types are strings here, and the text of any
  other value is no ranked event type.
\<close>

fun event_type_text :: "jsval \<Rightarrow> string" where
  "event_type_text (JStr s) = s"
| "event_type_text _ = []"

definition event_cursor :: "jsval \<Rightarrow> ProjectionCursor" where
  "event_cursor event =
     Cursor (case stripeNonnegativeInteger (jprop event ''created'') of None \<Rightarrow> 0 | Some n \<Rightarrow> n)
            (rankFor (event_type_text (jprop event ''type'')))"

definition projectionOrder :: "ProjectionCursor \<Rightarrow> jsval \<Rightarrow> ProjectionCursor" where
  "projectionOrder current event =
     (let incoming = event_cursor event in
      if created incoming > created current \<or>
         (created incoming = created current \<and> rank incoming > rank current)
      then incoming else current)"

section \<open>Clawback and annual arithmetic\<close>

definition ceilRatio :: "int \<Rightarrow> int \<Rightarrow> int \<Rightarrow> int" where
  "ceilRatio units numerator denominator =
     (if units \<le> 0 \<or> numerator \<le> 0 then 0
      else if denominator \<le> 0 \<or> numerator \<ge> denominator then units
      else (units * numerator + denominator - 1) div denominator)"

definition annualSlotsAllowed :: "int \<Rightarrow> int \<Rightarrow> int \<Rightarrow> int result" where
  "annualSlotsAllowed amount refunded minimum =
     (if minimum < 0 \<or> minimum > 12
      then Inl (RangeError ''minimum annual slots must be an integer between zero and twelve'')
      else if amount \<le> 0 then Inr minimum
      else
        let remaining = amount - (if refunded < 0 then 0
                                  else if refunded > amount then amount else refunded);
            rounded = (24 * remaining + amount) div (2 * amount);
            bounded = (if rounded < minimum then minimum else if rounded > 12 then 12 else rounded)
        in Inr bounded)"

section \<open>The projection cursor converges\<close>

lemma projectionOrder_max: "projectionOrder c e = max c (event_cursor e)"
  by (auto simp: projectionOrder_def Let_def max_def less_eq_ProjectionCursor_def
      intro: ProjectionCursor.expand)

lemma foldl_projectionOrder:
  "foldl projectionOrder c es = Max (insert c (event_cursor ` set es))"
proof (induction es arbitrary: c)
  case Nil
  then show ?case by simp
next
  case (Cons e es)
  have "foldl projectionOrder c (e # es) = Max (insert (max c (event_cursor e)) (event_cursor ` set es))"
    by (simp only: foldl_Cons Cons projectionOrder_max)
  then show ?case by (cases "es = []") (simp_all add: max.assoc)
qed

text \<open>
  C29: the projection cursor depends only on which events were seen: any two delivery orders of the
  same events, each delivered any number of times, leave the same cursor, the largest of all.
\<close>

theorem projection_cursor_converges:
  assumes "set es = set es'"
  shows "foldl projectionOrder c es = foldl projectionOrder c es' \<and>
         (\<forall>e \<in> set es. event_cursor e \<le> foldl projectionOrder c es)"
  using assms by (simp add: foldl_projectionOrder)

definition sample_event :: "string \<Rightarrow> int \<Rightarrow> jsval" where
  "sample_event ty t = JObj True [(''id'', JStr ''evt_1''), (''type'', JStr ty), (''created'', JInt t)]"

theorem projection_cursor_converges_witness:
  "foldl projectionOrder (Cursor 0 0) [sample_event ''invoice.paid'' 5, sample_event ''invoice.payment_failed'' 5]
   = foldl projectionOrder (Cursor 0 0)
       [sample_event ''invoice.payment_failed'' 5, sample_event ''invoice.paid'' 5, sample_event ''invoice.paid'' 5]
   \<and> event_cursor (sample_event ''invoice.paid'' 5) \<le> foldl projectionOrder (Cursor 0 0)
         [sample_event ''invoice.paid'' 5, sample_event ''invoice.payment_failed'' 5]"
proof -
  have "set [sample_event ''invoice.paid'' 5, sample_event ''invoice.payment_failed'' 5]
      = set [sample_event ''invoice.payment_failed'' 5, sample_event ''invoice.paid'' 5, sample_event ''invoice.paid'' 5]"
    by auto
  from projection_cursor_converges [OF this, of "Cursor 0 0"] show ?thesis
    by (intro conjI) (erule conjunct1, drule conjunct2, erule bspec, simp)
qed

text \<open>
  \<open>eventWins\<close> is a strict linear order on (created, rank): no event wins against itself, of two
  events with different cursors exactly one wins, and winning is transitive. In one second a
  deletion beats a payment, a payment beats an update, and an update beats a failed payment.
\<close>

theorem event_wins_linear_order:
  "\<not> eventWins c r c r \<and>
   ((c, r) \<noteq> (c', r') \<longrightarrow> eventWins c r c' r' \<noteq> eventWins c' r' c r) \<and>
   (eventWins c r c' r' \<longrightarrow> eventWins c' r' c'' r'' \<longrightarrow> eventWins c r c'' r'') \<and>
   eventWins t (rankFor ''invoice.paid'') t (rankFor ''customer.subscription.deleted'') \<and>
   eventWins t (rankFor ''customer.subscription.updated'') t (rankFor ''invoice.paid'') \<and>
   eventWins t (rankFor ''invoice.payment_failed'') t (rankFor ''customer.subscription.updated'')"
  by (auto simp: eventWins_def rankFor_def)

theorem event_wins_linear_order_witness:
  "(5 :: int, 10 :: int) \<noteq> (5, 30) \<and> eventWins 5 10 5 30 \<noteq> eventWins 5 30 5 10 \<and>
   eventWins 5 10 5 30 \<and> eventWins 5 30 6 0 \<and> eventWins 5 10 6 0"
  using event_wins_linear_order [of 5 10 5 30 6 0 0] by (simp add: eventWins_def)

section \<open>The ceiling of a refund ratio\<close>

lemma ceil_div_bounds:
  fixes a d :: int
  assumes "0 < d"
  shows "a \<le> (a + d - 1) div d * d" and "((a + d - 1) div d - 1) * d < a"
proof -
  have m: "0 \<le> (a + d - 1) mod d" "(a + d - 1) mod d < d" using assms by simp_all
  have e: "(a + d - 1) div d * d = a + d - 1 - (a + d - 1) mod d"
    by (simp add: minus_mod_eq_div_mult)
  show "a \<le> (a + d - 1) div d * d" using m e by linarith
  have "((a + d - 1) div d - 1) * d = (a + d - 1) div d * d - d" by (simp add: left_diff_distrib)
  then show "((a + d - 1) div d - 1) * d < a" using m e by linarith
qed

lemma ceilRatio_bounds:
  assumes "0 \<le> units"
  shows "0 \<le> ceilRatio units n d \<and> ceilRatio units n d \<le> units"
proof (cases "units \<le> 0 \<or> n \<le> 0 \<or> d \<le> 0 \<or> n \<ge> d")
  case True
  then show ?thesis using assms by (auto simp: ceilRatio_def)
next
  case False
  then have d: "0 < d" and n: "0 < n" "n \<le> d" and u: "0 < units" by auto
  let ?q = "(units * n + d - 1) div d"
  have "(?q - 1) * d < units * n" by (rule ceil_div_bounds [OF d])
  also have "\<dots> \<le> units * d" using n u by simp
  finally have "?q - 1 < units" using d by simp
  moreover have "0 < units * n" using n u by simp
  then have "0 \<le> ?q" using d by (simp add: pos_imp_zdiv_nonneg_iff)
  ultimately show ?thesis using False by (simp add: ceilRatio_def)
qed

lemma ceilRatio_mono:
  assumes "0 \<le> units" "n \<le> n'"
  shows "ceilRatio units n d \<le> ceilRatio units n' d"
proof (cases "units \<le> 0 \<or> n' \<le> 0 \<or> d \<le> 0 \<or> n' \<ge> d")
  case True
  then show ?thesis using assms ceilRatio_bounds [OF assms(1), of n d]
    by (auto simp: ceilRatio_def)
next
  case False
  have "units * n \<le> units * n'" using assms by (simp add: mult_left_mono)
  then have "units * n + d - 1 \<le> units * n' + d - 1" by simp
  then have "(units * n + d - 1) div d \<le> (units * n' + d - 1) div d"
    using False by (intro zdiv_mono1) auto
  then show ?thesis
    using False ceilRatio_bounds [OF assms(1), of n' d] assms by (auto simp: ceilRatio_def)
qed

text \<open>
  C30: the withdrawn units of a cumulative refund are the exact ceiling of units times the refunded
  share: at least the exact share, less than one unit more, between 0 and the units, and never
  decreasing when the cumulative refund grows.
\<close>

theorem ceil_ratio_exact:
  assumes "0 < units" and "0 < n" and "n < d"
  shows "units * n \<le> ceilRatio units n d * d \<and> (ceilRatio units n d - 1) * d < units * n \<and>
         0 \<le> ceilRatio units n d \<and> ceilRatio units n d \<le> units \<and>
         (\<forall>n'. n \<le> n' \<longrightarrow> ceilRatio units n d \<le> ceilRatio units n' d)"
proof -
  have "ceilRatio units n d = (units * n + d - 1) div d" using assms by (simp add: ceilRatio_def)
  then show ?thesis
    using ceil_div_bounds [of d "units * n"] ceilRatio_bounds [of units n d]
      ceilRatio_mono [of units n _ d] assms by auto
qed

theorem ceil_ratio_exact_witness:
  "(300000000::int) * 1 \<le> ceilRatio 300000000 1 7 * 7 \<and> (ceilRatio 300000000 1 7 - 1) * 7 < 300000000 * 1 \<and>
   ceilRatio 300000000 1 7 \<le> 300000000 \<and> ceilRatio 300000000 1 7 \<le> ceilRatio 300000000 3 7"
  using ceil_ratio_exact [of 300000000 1 7] by simp

section \<open>Annual slots\<close>

lemma annual_rounded_mono:
  fixes a r r' :: int
  assumes "0 < a" "r \<le> r'"
  shows "(24 * (a - r') + a) div (2 * a) \<le> (24 * (a - r) + a) div (2 * a)"
  using assms by (intro zdiv_mono1) auto

text \<open>
  The annual slots a refund leaves are between the slots already issued and twelve, never grow
  when the cumulative refund grows, are all twelve without a refund, and a full refund leaves
  exactly the issued ones.
\<close>

theorem annual_slots_bounds:
  assumes "0 \<le> minimum" and "minimum \<le> 12" and "0 < amount"
  shows "\<exists>slots. annualSlotsAllowed amount refunded minimum = Inr slots \<and>
           minimum \<le> slots \<and> slots \<le> 12 \<and>
           (refunded \<le> 0 \<longrightarrow> slots = 12) \<and> (refunded \<ge> amount \<longrightarrow> slots = minimum) \<and>
           (\<forall>refunded' slots'. refunded \<le> refunded' \<longrightarrow>
              annualSlotsAllowed amount refunded' minimum = Inr slots' \<longrightarrow> slots' \<le> slots)"
proof -
  define clip where "clip = (\<lambda>r. if r < 0 then 0 else if r > amount then amount else r)"
  define rnd where "rnd = (\<lambda>r. (24 * (amount - clip r) + amount) div (2 * amount))"
  have eq: "annualSlotsAllowed amount r minimum = Inr (max minimum (min 12 (rnd r)))" for r
    using assms by (auto simp: annualSlotsAllowed_def Let_def rnd_def clip_def)
  have mono: "rnd r' \<le> rnd r" if "r \<le> r'" for r r'
    unfolding rnd_def using that assms
    by (intro annual_rounded_mono) (auto simp: clip_def)
  have "(25 * amount) div (2 * amount) = 12" using assms(3) by simp
  then have zero: "rnd r = 12" if "r \<le> 0" for r
    using that assms by (auto simp: rnd_def clip_def)
  have full: "rnd r = 0" if "r \<ge> amount" for r
    using that assms by (auto simp: rnd_def clip_def div_pos_pos_trivial)
  have "max minimum (min 12 (rnd r)) \<le> max minimum (min 12 (rnd refunded))" if "refunded \<le> r" for r
    using mono [OF that] by (intro max.mono min.mono) auto
  then show ?thesis
    using assms zero [of refunded] full [of refunded] by (auto simp: eq)
qed

theorem annual_slots_bounds_witness:
  "\<exists>slots. annualSlotsAllowed 13700 6850 3 = Inr slots \<and> 3 \<le> slots \<and> slots \<le> 12 \<and>
     ((6850::int) \<le> 0 \<longrightarrow> slots = 12) \<and> ((6850::int) \<ge> 13700 \<longrightarrow> slots = 3) \<and>
     (\<forall>refunded' slots'. 6850 \<le> refunded' \<longrightarrow>
        annualSlotsAllowed 13700 refunded' 3 = Inr slots' \<longrightarrow> slots' \<le> slots)"
  by (rule annual_slots_bounds) simp_all

end
