(* ===== verification/Event_Audit.thy ===== *)
theory Event_Audit
  imports Event_Primitives Credit_Amount
begin

text \<open>
  The audit snapshot of a webhook event (typescript/src/event-audit.ts): an allowlist of fields, each
  with its own filter, copied from the event into the inbox row. Nothing that looks like a Stripe
  secret leaves the event.
\<close>

section \<open>Patterns\<close>

text \<open>A literal followed by at least one letter or digit.\<close>

definition literal_then_alnum :: "string \<Rightarrow> string \<Rightarrow> bool" where
  "literal_then_alnum p s \<longleftrightarrow>
     starts_with p s \<and> (case drop (length p) s of [] \<Rightarrow> False | c # _ \<Rightarrow> is_alnum c)"

text \<open>
  A match of \<open>SECRET_VALUE\<close> that starts at a position, given the character before it: a key prefix
  that no letter or digit precedes, or a letter or digit followed by \<open>_secret_\<close>. One character on
  each side decides, whatever the repetition takes.
\<close>

definition secret_at :: "char option \<Rightarrow> string \<Rightarrow> bool" where
  "secret_at prev s \<longleftrightarrow>
     ((case prev of None \<Rightarrow> True | Some c \<Rightarrow> \<not> is_alnum c) \<and>
      list_ex (\<lambda>p. literal_then_alnum p s) [''sk_test_'', ''sk_live_'', ''rk_test_'', ''rk_live_'', ''whsec_''])
     \<or> (case s of [] \<Rightarrow> False | c # t \<Rightarrow> is_alnum c \<and> literal_then_alnum ''_secret_'' t)"

fun secret_from :: "char option \<Rightarrow> string \<Rightarrow> bool" where
  "secret_from prev [] = secret_at prev []"
| "secret_from prev (c # cs) = (secret_at prev (c # cs) \<or> secret_from (Some c) cs)"

definition SECRET_VALUE :: "string \<Rightarrow> bool" where
  "SECRET_VALUE s = secret_from None s"

definition AUDIT_TOKEN :: "string \<Rightarrow> bool" where
  "AUDIT_TOKEN s =
     (case s of
        [] \<Rightarrow> False
      | c # r \<Rightarrow> is_alnum c \<and> length r \<le> 511 \<and>
          list_all (\<lambda>x. is_alnum x \<or> x \<in> set ''_.:-'') r)"

definition SLUG :: "string \<Rightarrow> bool" where
  "SLUG s =
     (case s of
        [] \<Rightarrow> False
      | c # r \<Rightarrow> is_lower c \<and> length r \<le> 127 \<and>
          list_all (\<lambda>x. is_lower x \<or> is_digit x \<or> x \<in> set ''_-'') r)"

definition CANONICAL_CREDITS :: "string \<Rightarrow> bool" where
  "CANONICAL_CREDITS s \<longleftrightarrow> PLAIN_DECIMAL s \<noteq> None"

text \<open>A decimal numeral without leading zero of at most \<open>n\<close> digits.\<close>

definition positive_numeral :: "nat \<Rightarrow> string \<Rightarrow> bool" where
  "positive_numeral n s \<longleftrightarrow>
     s \<noteq> [] \<and> length s \<le> n \<and> list_all is_digit s \<and> hd s \<noteq> CHR ''0''"

definition POSITIVE_INTEGER :: "string \<Rightarrow> bool" where
  "POSITIVE_INTEGER s = positive_numeral 19 s"

definition currency_code :: "string \<Rightarrow> bool" where
  "currency_code s \<longleftrightarrow> length s = 3 \<and> list_all is_lower s"

definition METADATA_PATTERNS :: "(string \<times> (string \<Rightarrow> bool)) list" where
  "METADATA_PATTERNS =
     [(''account_id'', UUID), (''billing_kind'', \<lambda>s. s = ''credit_pack''),
      (''credit_pack_order_id'', UUID), (''currency'', currency_code),
      (''expires_days'', positive_numeral 4), (''lookup_key'', SLUG),
      (''pack_credits'', CANONICAL_CREDITS), (''pack_key'', SLUG),
      (''pack_schema_version'', positive_numeral 4), (''plan'', SLUG), (''plan_key'', SLUG),
      (''plan_interval'', \<lambda>s. s \<in> set [''month'', ''year'']), (''price_amount'', POSITIVE_INTEGER),
      (''product_line'', SLUG),
      (''transition_policy'', \<lambda>s. s \<in> set [''full_period_reset'', ''prorated_delta''])]"

definition OBJECT_ID_FIELDS :: "string list" where
  "OBJECT_ID_FIELDS =
     [''customer'', ''subscription'', ''invoice'', ''payment_intent'', ''charge'', ''latest_charge'']"

definition OBJECT_TOKEN_FIELDS :: "string list" where
  "OBJECT_TOKEN_FIELDS = [''object'', ''status'', ''payment_status'', ''mode'', ''billing_reason'']"

definition OBJECT_BOOLEAN_FIELDS :: "string list" where
  "OBJECT_BOOLEAN_FIELDS = [''livemode'', ''paid'', ''refunded'']"

definition OBJECT_INTEGER_FIELDS :: "string list" where
  "OBJECT_INTEGER_FIELDS =
     [''created'', ''amount'', ''amount_due'', ''amount_paid'', ''amount_received'', ''amount_refunded'']"

section \<open>Filters of single values\<close>

definition text_if :: "(string \<Rightarrow> bool) \<Rightarrow> jsval \<Rightarrow> jsval option" where
  "text_if P value = (case value of JStr s \<Rightarrow> if P s then Some (JStr s) else None | _ \<Rightarrow> None)"

definition auditToken :: "jsval \<Rightarrow> jsval option" where
  "auditToken value = text_if (\<lambda>s. AUDIT_TOKEN s \<and> \<not> SECRET_VALUE s) value"

definition objectId :: "jsval \<Rightarrow> jsval option" where
  "objectId value = auditToken (if isSupportedRecord value then jprop value ''id'' else value)"

definition boolean_value :: "jsval \<Rightarrow> jsval option" where
  "boolean_value value = (case value of JBool b \<Rightarrow> Some value | _ \<Rightarrow> None)"

definition integer_value :: "jsval \<Rightarrow> jsval option" where
  "integer_value value = (if isSafeInteger value then Some value else None)"

text \<open>The fields of a value that pass their filters, in the order of the filters.\<close>

type_synonym rules = "(string \<times> (jsval \<Rightarrow> jsval option)) list"

definition pick :: "rules \<Rightarrow> jsval \<Rightarrow> (string \<times> jsval) list" where
  "pick rules value =
     concat (map (\<lambda>(field, f). case f (jprop value field) of None \<Rightarrow> [] | Some w \<Rightarrow> [(field, w)]) rules)"

definition nonempty_record :: "(string \<times> jsval) list \<Rightarrow> jsval option" where
  "nonempty_record entries = (if entries = [] then None else Some (JObj True entries))"

section \<open>The snapshot\<close>

definition metadata_rules :: rules where
  "metadata_rules =
     map (\<lambda>(key, pattern). (key, text_if (\<lambda>s. pattern s \<and> \<not> SECRET_VALUE s))) METADATA_PATTERNS"

definition safeMetadata :: "jsval \<Rightarrow> (string \<times> jsval) list" where
  "safeMetadata value = (if isSupportedRecord value then pick metadata_rules value else [])"

definition object_rules :: rules where
  "object_rules =
     [(''id'', objectId)]
     @ map (\<lambda>field. (field, objectId)) OBJECT_ID_FIELDS
     @ map (\<lambda>field. (field, auditToken)) OBJECT_TOKEN_FIELDS
     @ [(''client_reference_id'', text_if UUID), (''currency'', text_if currency_code)]
     @ map (\<lambda>field. (field, boolean_value)) OBJECT_BOOLEAN_FIELDS
     @ map (\<lambda>field. (field, integer_value)) OBJECT_INTEGER_FIELDS
     @ [(''metadata'', \<lambda>value. nonempty_record (safeMetadata value))]"

definition auditObject :: "jsval \<Rightarrow> (string \<times> jsval) list" where
  "auditObject value = (if isSupportedRecord value then pick object_rules value else [])"

definition data_value :: "jsval \<Rightarrow> jsval option" where
  "data_value data =
     (if isSupportedRecord data
      then (let obj = auditObject (jprop data ''object'') in
            if obj = [] then None else Some (JObj True [(''object'', JObj True obj)]))
      else None)"

definition event_rules :: rules where
  "event_rules =
     map (\<lambda>field. (field, auditToken)) [''id'', ''object'', ''type'', ''api_version'']
     @ [(''livemode'', boolean_value), (''created'', integer_value), (''data'', data_value)]"

definition redactedEventSnapshot :: "jsval \<Rightarrow> jsval" where
  "redactedEventSnapshot event =
     JObj True (if isSupportedRecord event then pick event_rules event else [])"

section \<open>No secret leaves the event\<close>

text \<open>The texts of a value, its keys apart.\<close>

fun texts :: "jsval \<Rightarrow> string list" where
  "texts (JStr s) = [s]"
| "texts (JArr vs) = concat (map texts vs)"
| "texts (JObj plain entries) = concat (map (\<lambda>e. texts (snd e)) entries)"
| "texts _ = []"

fun object_keys_of :: "jsval \<Rightarrow> string list" where
  "object_keys_of (JObj plain entries) = map fst entries"
| "object_keys_of _ = []"

definition harmless :: "jsval \<Rightarrow> bool" where
  "harmless v \<longleftrightarrow> list_all (\<lambda>s. \<not> SECRET_VALUE s) (texts v)"

text \<open>A filter is clean when what it lets through is harmless and passes it again unchanged.\<close>

definition clean :: "(jsval \<Rightarrow> jsval option) \<Rightarrow> bool" where
  "clean f \<longleftrightarrow> f JUndef = None \<and> (\<forall>v w. f v = Some w \<longrightarrow> harmless w \<and> f w = Some w)"

lemma harmless_JObj: "harmless (JObj p entries) \<longleftrightarrow> (\<forall>e \<in> set entries. harmless (snd e))"
  by (auto simp: harmless_def list_all_iff)

lemma pick_Cons:
  "pick ((field, f) # rules) value =
     (case f (jprop value field) of None \<Rightarrow> [] | Some w \<Rightarrow> [(field, w)]) @ pick rules value"
  by (simp add: pick_def)

lemma pick_Nil [simp]: "pick [] value = []"
  by (simp add: pick_def)

lemma pick_keys: "fst ` set (pick rules value) \<subseteq> fst ` set rules"
  by (force simp: pick_def split: option.splits)

lemma pick_harmless:
  assumes "\<And>r. r \<in> set rules \<Longrightarrow> clean (snd r)"
  shows "harmless (JObj True (pick rules value))"
  using assms by (fastforce simp: harmless_JObj pick_def clean_def split: option.splits)

lemma map_of_pick:
  assumes "distinct (map fst rules)" and "(field, f) \<in> set rules"
  shows "map_of (pick rules value) field = f (jprop value field)"
  using assms
proof (induction rules)
  case (Cons r rules)
  obtain k g where r: "r = (k, g)" by (cases r)
  have none: "map_of (pick rules value) k = None"
    using Cons.prems(1) pick_keys [of rules "value"] by (auto simp: map_of_eq_None_iff r)
  show ?case
  proof (cases "k = field")
    case True
    with Cons.prems r have "g = f" by (force simp: image_iff)
    with True none show ?thesis by (auto simp: r pick_Cons map_add_def split: option.splits)
  next
    case False
    with Cons r show ?thesis by (auto simp: pick_Cons map_add_def split: option.splits)
  qed
qed simp

lemma pick_cong:
  "(\<And>field f. (field, f) \<in> set rules \<Longrightarrow> f (jprop v field) = f (jprop w field)) \<Longrightarrow>
   pick rules v = pick rules w"
proof (induction rules)
  case (Cons r rules)
  have "snd r (jprop v (fst r)) = snd r (jprop w (fst r))"
    using Cons.prems [of "fst r" "snd r"] by simp
  moreover have "pick rules v = pick rules w" using Cons by simp
  ultimately show ?case by (cases r) (simp add: pick_Cons)
qed simp

lemma pick_empty: "(\<And>r. r \<in> set rules \<Longrightarrow> clean (snd r)) \<Longrightarrow> pick rules (JObj p []) = []"
proof (induction rules)
  case (Cons r rules)
  have "snd r JUndef = None" using Cons.prems [of r] by (simp add: clean_def)
  moreover have "pick rules (JObj p []) = []" using Cons by simp
  ultimately show ?case by (cases r) (simp add: pick_Cons prop_get_def)
qed simp

lemma pick_idempotent:
  assumes "distinct (map fst rules)" and "\<And>r. r \<in> set rules \<Longrightarrow> clean (snd r)"
  shows "pick rules (JObj True (pick rules value)) = pick rules value"
proof (rule pick_cong)
  fix field f assume r: "(field, f) \<in> set rules"
  have c: "clean f" using assms(2) [OF r] by simp
  have "jprop (JObj True (pick rules value)) field
      = (case f (jprop value field) of None \<Rightarrow> JUndef | Some w \<Rightarrow> w)"
    by (simp add: prop_get_def map_of_pick [OF assms(1) r])
  with c show "f (jprop (JObj True (pick rules value)) field) = f (jprop value field)"
    by (auto simp: clean_def split: option.splits)
qed

text \<open>The filters of the snapshot are clean.\<close>

lemma clean_text_if: "(\<And>s. P s \<Longrightarrow> \<not> SECRET_VALUE s) \<Longrightarrow> clean (text_if P)"
  by (auto simp: clean_def text_if_def harmless_def split: jsval.splits if_splits)

lemma clean_auditToken: "clean auditToken"
  unfolding auditToken_def by (rule clean_text_if) simp

lemma auditToken_text: "auditToken v = Some w \<Longrightarrow> \<exists>s. w = JStr s"
  by (auto simp: auditToken_def text_if_def split: jsval.splits if_splits)

lemma clean_objectId: "clean objectId"
  using clean_auditToken auditToken_text
  by (fastforce simp: clean_def objectId_def split: if_splits)

lemma clean_values: "clean boolean_value" "clean integer_value"
  by (auto simp: clean_def boolean_value_def integer_value_def harmless_def
      split: jsval.splits if_splits elim!: isSafeInteger.elims)

lemma secret_underscore: "secret_from prev s \<Longrightarrow> CHR ''_'' \<in> set s"
proof (induction prev s rule: secret_from.induct)
  case (2 prev c cs)
  have sub: "set p \<subseteq> set t" if "starts_with p t" for p t
    using that by (induction p t rule: starts_with.induct) auto
  have "CHR ''_'' \<in> set (c # cs)" if "secret_at prev (c # cs)"
    using that sub [of _ "c # cs"] sub [of _ cs]
    by (fastforce simp: secret_at_def literal_then_alnum_def)
  with 2 show ?case by auto
qed (auto simp: secret_at_def literal_then_alnum_def)

lemma no_underscore: "CHR ''_'' \<notin> set s \<Longrightarrow> \<not> SECRET_VALUE s"
  using secret_underscore by (auto simp: SECRET_VALUE_def)

lemma currency_harmless: "currency_code s \<Longrightarrow> \<not> SECRET_VALUE s"
  by (rule no_underscore) (auto simp: currency_code_def list_all_iff is_lower_def code_def)

lemma UUID_harmless:
  assumes "UUID s"
  shows "\<not> SECRET_VALUE s"
proof (rule no_underscore)
  have hex: "\<not> is_hex (CHR ''_'')" by (simp add: is_hex_def is_digit_def code_def)
  have "set (join_with (CHR ''-'') ws) \<subseteq> insert (CHR ''-'') (\<Union> (set ` set ws))" for ws
    by (induction "CHR ''-''" ws rule: join_with.induct) auto
  from this [of "split_on (CHR ''-'') s"] assms hex show "CHR ''_'' \<notin> set s"
    by (fastforce simp: UUID_def join_split list_all_iff)
qed

lemma clean_nonempty:
  assumes "distinct (map fst rules)" and "\<And>r. r \<in> set rules \<Longrightarrow> clean (snd r)"
  shows "clean (\<lambda>v. nonempty_record (if isSupportedRecord v then pick rules v else []))"
  using pick_idempotent [OF assms] pick_harmless [OF assms(2)]
  by (auto simp: clean_def nonempty_record_def split: if_splits)

lemma metadata_clean: "clean (\<lambda>v. nonempty_record (safeMetadata v))"
  unfolding safeMetadata_def
proof (rule clean_nonempty)
  show "distinct (map fst metadata_rules)"
    by (simp add: metadata_rules_def METADATA_PATTERNS_def)
  fix r assume "r \<in> set metadata_rules"
  then show "clean (snd r)" by (auto simp: metadata_rules_def intro: clean_text_if)
qed

lemmas clean_filters = clean_auditToken clean_objectId clean_values
  clean_text_if [OF UUID_harmless] clean_text_if [OF currency_harmless]

lemma object_rules_ok: "distinct (map fst object_rules)" "r \<in> set object_rules \<Longrightarrow> clean (snd r)"
  by (auto simp: object_rules_def OBJECT_ID_FIELDS_def OBJECT_TOKEN_FIELDS_def
      OBJECT_BOOLEAN_FIELDS_def OBJECT_INTEGER_FIELDS_def clean_filters metadata_clean)

lemma data_clean: "clean data_value"
proof -
  have obj: "auditObject (JObj True (auditObject v)) = auditObject v" for v
    using pick_idempotent [OF object_rules_ok] pick_empty [OF object_rules_ok(2)]
    by (simp add: auditObject_def)
  have "harmless (JObj True (auditObject v))" for v
  proof (cases "isSupportedRecord v")
    case True
    have "harmless (JObj True (pick object_rules v))" by (rule pick_harmless) (rule object_rules_ok(2))
    with True show ?thesis by (simp add: auditObject_def)
  qed (simp add: auditObject_def harmless_JObj)
  with obj show ?thesis
    by (auto simp: clean_def data_value_def Let_def harmless_JObj prop_get_def split: if_splits)
qed

lemma event_rules_ok: "distinct (map fst event_rules)" "r \<in> set event_rules \<Longrightarrow> clean (snd r)"
  by (auto simp: event_rules_def clean_auditToken clean_values data_clean)


end
