(* ===== verification/Catalog.thy ===== *)
theory Catalog
  imports Validation "HOL-Library.List_Lexorder" "HOL-Library.Multiset"
begin

text \<open>
  The plan and credit-pack catalog (typescript/src/catalog.ts): the checks of the constructor
  \<open>PlanCatalog\<close>, the reader of the parsed TOML document, the orders, and the Stripe lookup keys
  with their parser. Maps iterate in insertion order, so they are association lists.
\<close>

datatype BillingInterval = Month | Year

definition interval_text :: "BillingInterval \<Rightarrow> string" where
  "interval_text i = (case i of Month \<Rightarrow> ''month'' | Year \<Rightarrow> ''year'')"

record Plan =
  p_key :: string
  p_name :: string
  p_description :: string
  p_currency :: string
  p_rank :: int
  p_monthlyCredits :: CreditAmount
  p_monthUsd :: int
  p_yearUsd :: int
  p_features :: "string list"
  p_limits :: "(string \<times> int) list"

record CreditPack =
  k_key :: string
  k_name :: string
  k_description :: string
  k_currency :: string
  k_rank :: int
  k_credits :: CreditAmount
  k_priceUsd :: int
  k_expiresDays :: int

record PlanCatalog =
  c_plans :: "(string \<times> Plan) list"
  c_creditPacks :: "(string \<times> CreditPack) list"
  c_lookupPrefix :: string

section \<open>Keys\<close>

definition KEY :: "string \<Rightarrow> bool" where
  "KEY s = (case s of
      [] \<Rightarrow> False
    | c # r \<Rightarrow> is_lower c \<and> length r \<le> 31
              \<and> list_all (\<lambda>x. is_lower x \<or> is_digit x \<or> x = CHR ''-'') r)"

definition ENTITLEMENT_KEY :: "string \<Rightarrow> bool" where
  "ENTITLEMENT_KEY s = (case s of
      [] \<Rightarrow> False
    | c # r \<Rightarrow> is_lower c \<and> length r \<le> 63
              \<and> list_all (\<lambda>x. is_lower x \<or> is_digit x \<or> x = CHR ''_'') r)"

definition ROOT_FIELDS :: "string list" where
  "ROOT_FIELDS = [''plans'', ''credit_packs'']"

definition PLAN_FIELDS :: "string list" where
  "PLAN_FIELDS = [''name'', ''description'', ''currency'', ''rank'', ''monthly_credits'',
     ''month_usd'', ''year_usd'', ''features'', ''limits'']"

definition CREDIT_PACK_FIELDS :: "string list" where
  "CREDIT_PACK_FIELDS = [''name'', ''description'', ''currency'', ''rank'', ''credits'',
     ''price_usd'', ''expires_days'']"

text \<open>\<open>Map.set\<close>: replaces the value of a present key in place, appends a new key.\<close>

fun map_set :: "(string \<times> 'v) list \<Rightarrow> string \<Rightarrow> 'v \<Rightarrow> (string \<times> 'v) list" where
  "map_set [] k v = [(k, v)]"
| "map_set ((k', v') # m) k v = (if k = k' then (k, v) # m else (k', v') # map_set m k v)"

lemma map_set_keys: "fst ` set (map_set m k v) = insert k (fst ` set m)"
  by (induction m k v rule: map_set.induct) auto

lemma map_set_distinct: "distinct (map fst m) \<Longrightarrow> distinct (map fst (map_set m k v))"
proof (induction m k v rule: map_set.induct)
  case (2 k' v' m k v)
  then show ?case using map_set_keys [of m k v] by (auto simp: image_iff)
qed simp

fun join_text :: "string \<Rightarrow> string list \<Rightarrow> string" where
  "join_text sep [] = []"
| "join_text sep [w] = w"
| "join_text sep (w # ws) = w @ sep @ join_text sep ws"

section \<open>Reading one table\<close>

definition quoted :: "string \<Rightarrow> string" where
  "quoted s = CHR 0x27 # s @ [CHR 0x27]"

definition parseFeatures :: "jsval \<Rightarrow> string \<Rightarrow> string list result" where
  "parseFeatures value planKey =
     (case value of
        JArr items \<Rightarrow>
          bind_result
            (map_result (\<lambda>item. requiredVisibleString item
               (''plans.'' @ planKey @ ''.features[]'') 64) items)
            (\<lambda>features.
              if \<not> distinct features
              then Inl (TypeError (''plans.'' @ planKey @ ''.features must contain no duplicates''))
              else if list_ex (\<lambda>f. \<not> ENTITLEMENT_KEY f) features
              then Inl (TypeError (''plans.'' @ planKey @ ''.features contains an invalid key''))
              else Inr features)
      | _ \<Rightarrow> Inl (TypeError (''plans.'' @ planKey @ ''.features must be an array'')))"

definition parseLimits :: "jsval \<Rightarrow> string \<Rightarrow> (string \<times> int) list result" where
  "parseLimits value planKey =
     (case value of
        JObj plain entries \<Rightarrow>
          map_result (\<lambda>(rawKey, rawValue).
            bind_result (requiredVisibleString (JStr rawKey)
                           (''plans.'' @ planKey @ ''.limits key'') 64) (\<lambda>key.
              if \<not> ENTITLEMENT_KEY key
              then Inl (TypeError (''plans.'' @ planKey @ ''.limits contains an invalid key''))
              else bind_result
                     (requiredSafeInteger rawValue (''plans.'' @ planKey @ ''.limits.'' @ key) 0
                        JSON_SAFE_INTEGER_MAX)
                     (\<lambda>n. Inr (key, n)))) entries
      | _ \<Rightarrow> Inl (TypeError (''plans.'' @ planKey @ ''.limits must be a table'')))"

definition requiredField :: "(string \<times> jsval) list \<Rightarrow> string \<Rightarrow> string \<Rightarrow> jsval result" where
  "requiredField table field owner =
     (if \<not> has_own table field
      then Inl (TypeError (owner @ '' is missing required field '' @ quoted field))
      else Inr (prop_get table field))"

definition rejectUnknownFields ::
  "(string \<times> jsval) list \<Rightarrow> string \<Rightarrow> string list \<Rightarrow> unit result" where
  "rejectUnknownFields table owner allowed =
     (let unknown = sort (filter (\<lambda>f. f \<notin> set allowed) (map fst table)) in
      if unknown \<noteq> []
      then Inl (TypeError (owner @ '' contains unknown fields: '' @ join_text '', '' unknown))
      else Inr ())"

definition field_or :: "(string \<times> jsval) list \<Rightarrow> string \<Rightarrow> jsval \<Rightarrow> jsval" where
  "field_or table field fallback =
     (if isAbsent (prop_get table field) then fallback else prop_get table field)"

definition requiredText ::
  "(string \<times> jsval) list \<Rightarrow> string \<Rightarrow> string \<Rightarrow> nat \<Rightarrow> string result" where
  "requiredText table field owner maxBytes =
     bind_result (requiredField table field owner)
       (\<lambda>v. requiredVisibleString v (owner @ ''.'' @ field) maxBytes)"

definition requiredInt ::
  "(string \<times> jsval) list \<Rightarrow> string \<Rightarrow> string \<Rightarrow> int \<Rightarrow> int \<Rightarrow> int result" where
  "requiredInt table field owner minimum maximum =
     bind_result (requiredField table field owner)
       (\<lambda>v. requiredSafeInteger v (owner @ ''.'' @ field) minimum maximum)"

definition requiredCredits ::
  "(string \<times> jsval) list \<Rightarrow> string \<Rightarrow> string \<Rightarrow> CreditAmount result" where
  "requiredCredits table field owner =
     bind_result (requiredField table field owner)
       (\<lambda>v. parseCreditAmount v (owner @ ''.'' @ field) False)"

definition planFromTable :: "string \<Rightarrow> (string \<times> jsval) list \<Rightarrow> Plan result" where
  "planFromTable key table =
     (let owner = ''plans.'' @ key in
      bind_result (rejectUnknownFields table owner PLAN_FIELDS) (\<lambda>_.
      bind_result (requiredText table ''currency'' owner 3) (\<lambda>currency.
      if currency \<noteq> ''usd'' then Inl (TypeError ''the reference catalog supports USD only'') else
      bind_result (requiredText table ''name'' owner 120) (\<lambda>name.
      bind_result (requiredText table ''description'' owner 500) (\<lambda>description.
      bind_result (requiredInt table ''rank'' owner 1 js_max_safe_integer) (\<lambda>rank.
      bind_result (requiredCredits table ''monthly_credits'' owner) (\<lambda>credits.
      bind_result (requiredInt table ''month_usd'' owner 1 js_max_safe_integer) (\<lambda>monthUsd.
      bind_result (requiredInt table ''year_usd'' owner 1 js_max_safe_integer) (\<lambda>yearUsd.
      bind_result (parseFeatures (field_or table ''features'' (JArr [])) key) (\<lambda>features.
      bind_result (parseLimits (field_or table ''limits'' (JObj True [])) key) (\<lambda>limits.
        Inr \<lparr>p_key = key, p_name = name, p_description = description, p_currency = currency,
             p_rank = rank, p_monthlyCredits = credits, p_monthUsd = monthUsd,
             p_yearUsd = yearUsd, p_features = features, p_limits = limits\<rparr>)))))))))))"

definition creditPackFromTable :: "string \<Rightarrow> (string \<times> jsval) list \<Rightarrow> CreditPack result" where
  "creditPackFromTable key table =
     (let owner = ''credit_packs.'' @ key in
      bind_result (rejectUnknownFields table owner CREDIT_PACK_FIELDS) (\<lambda>_.
      bind_result (requiredText table ''currency'' owner 3) (\<lambda>currency.
      if currency \<noteq> ''usd''
      then Inl (TypeError ''the reference credit-pack catalog supports USD only'') else
      bind_result (requiredText table ''name'' owner 120) (\<lambda>name.
      bind_result (requiredText table ''description'' owner 500) (\<lambda>description.
      bind_result (requiredInt table ''rank'' owner 1 js_max_safe_integer) (\<lambda>rank.
      bind_result (requiredCredits table ''credits'' owner) (\<lambda>credits.
      bind_result (requiredInt table ''price_usd'' owner 1 js_max_safe_integer) (\<lambda>priceUsd.
      bind_result (requiredInt table ''expires_days'' owner 1 3650) (\<lambda>expiresDays.
        Inr \<lparr>k_key = key, k_name = name, k_description = description, k_currency = currency,
             k_rank = rank, k_credits = credits, k_priceUsd = priceUsd,
             k_expiresDays = expiresDays\<rparr>)))))))))"

section \<open>The constructor\<close>

definition checkPlan :: "string \<Rightarrow> Plan \<Rightarrow> unit result" where
  "checkPlan key plan =
     (if key = ''free''
      then Inl (TypeError (quoted ''free'' @ '' is reserved for the non-paid account state''))
      else if key \<noteq> p_key plan \<or> \<not> KEY key
      then Inl (TypeError ''plan keys must match their mapping key and use lowercase slugs'')
      else
      bind_result (requiredVisibleString (JStr (p_name plan)) (''plans.'' @ key @ ''.name'') 120) (\<lambda>_.
      bind_result (requiredVisibleString (JStr (p_description plan))
                     (''plans.'' @ key @ ''.description'') 500) (\<lambda>_.
      if p_currency plan \<noteq> ''usd'' then Inl (TypeError ''the reference catalog supports USD only'')
      else if atoms (p_monthlyCredits plan) \<le> 0
      then Inl (TypeError (''plans.'' @ key @ ''.monthly_credits must be a positive exact credit amount''))
      else if atoms (p_monthlyCredits plan) > POSTGRES_BIGINT_MAX
      then Inl (RangeError (''plans.'' @ key @ ''.monthly_credits exceeds the PostgreSQL bigint atom range''))
      else if \<bar>p_monthUsd plan\<bar> > js_max_safe_integer \<or> \<bar>p_yearUsd plan\<bar> > js_max_safe_integer
              \<or> p_monthUsd plan \<le> 0 \<or> p_yearUsd plan \<le> 0
              \<or> p_monthUsd plan > CATALOG_PRICE_MAJOR_UNIT_MAX
              \<or> p_yearUsd plan > CATALOG_PRICE_MAJOR_UNIT_MAX
      then Inl (RangeError ''catalog prices in minor units must remain JSON-safe integers'')
      else if list_ex (\<lambda>f. \<not> ENTITLEMENT_KEY f) (p_features plan)
      then Inl (TypeError ''plan features must contain only valid string keys'')
      else if list_ex (\<lambda>(name, value). \<not> ENTITLEMENT_KEY name
                 \<or> \<bar>value\<bar> > js_max_safe_integer \<or> value < 0) (p_limits plan)
      then Inl (TypeError ''plan limits must contain only valid non-negative JSON-safe limits'')
      else if ''monthly_credits'' \<in> set (p_features plan)
              \<or> ''monthly_credits'' \<in> fst ` set (p_limits plan)
      then Inl (TypeError ''monthly_credits is reserved and cannot be declared as a feature or limit'')
      else Inr ())))"

definition checkPack :: "string \<Rightarrow> CreditPack \<Rightarrow> unit result" where
  "checkPack key pack =
     (if key \<noteq> k_key pack \<or> \<not> KEY key
      then Inl (TypeError ''credit-pack keys must match their mapping key and use lowercase slugs'')
      else
      bind_result (requiredVisibleString (JStr (k_name pack)) (''credit_packs.'' @ key @ ''.name'') 120)
      (\<lambda>_. bind_result (requiredVisibleString (JStr (k_description pack))
                     (''credit_packs.'' @ key @ ''.description'') 500) (\<lambda>_.
      if k_currency pack \<noteq> ''usd'' \<or> atoms (k_credits pack) \<le> 0
         \<or> atoms (k_credits pack) > POSTGRES_BIGINT_MAX
         \<or> \<bar>k_priceUsd pack\<bar> > js_max_safe_integer \<or> k_priceUsd pack \<le> 0
         \<or> k_priceUsd pack > CATALOG_PRICE_MAJOR_UNIT_MAX
         \<or> \<bar>k_expiresDays pack\<bar> > js_max_safe_integer
         \<or> k_expiresDays pack < 1 \<or> k_expiresDays pack > 3650
      then Inl (TypeError (''credit_packs.'' @ key @ '' has an invalid immutable catalog value''))
      else Inr ())))"

definition bad_ranks :: "int list \<Rightarrow> bool" where
  "bad_ranks ranks \<longleftrightarrow>
     list_ex (\<lambda>r. \<bar>r\<bar> > js_max_safe_integer \<or> r \<le> 0) ranks \<or> \<not> distinct ranks"

definition plan_lookup :: "string \<Rightarrow> string \<Rightarrow> BillingInterval \<Rightarrow> string" where
  "plan_lookup prefix key i = prefix @ ''_'' @ key @ ''_'' @ interval_text i"

definition pack_lookup :: "string \<Rightarrow> string \<Rightarrow> string" where
  "pack_lookup prefix key = prefix @ ''_pack_'' @ key"

text \<open>\<open>lookupOwners\<close>: the owner of every plan lookup key, then of every pack lookup key.\<close>

definition plan_owners :: "string \<Rightarrow> string list \<Rightarrow> (string \<times> string) list" where
  "plan_owners prefix keys =
     foldl (\<lambda>owners key.
        map_set (map_set owners (plan_lookup prefix key Month) (''plan '' @ quoted key @ '' (month)''))
          (plan_lookup prefix key Year) (''plan '' @ quoted key @ '' (year)'')) [] keys"

fun lookup_collision :: "string \<Rightarrow> (string \<times> string) list \<Rightarrow> string list \<Rightarrow> unit result" where
  "lookup_collision prefix owners [] = Inr ()"
| "lookup_collision prefix owners (key # keys) =
     (case map_of owners (pack_lookup prefix key) of
        Some previous \<Rightarrow>
          Inl (TypeError (''generated Stripe lookup key '' @ quoted (pack_lookup prefix key)
                 @ '' collides between '' @ previous @ '' and credit pack '' @ quoted key))
      | None \<Rightarrow>
          lookup_collision prefix
            (map_set owners (pack_lookup prefix key) (''credit pack '' @ quoted key)) keys)"

definition newPlanCatalog ::
  "(string \<times> Plan) list \<Rightarrow> string \<Rightarrow> (string \<times> CreditPack) list \<Rightarrow> PlanCatalog result" where
  "newPlanCatalog plans lookupPrefix creditPacks =
     (if plans = [] then Inl (TypeError ''at least one plan is required'')
      else if \<not> KEY lookupPrefix
      then Inl (TypeError ''lookup_prefix must match [a-z][a-z0-9-]{0,31}'')
      else
      bind_result (map_result (\<lambda>(key, plan). checkPlan key plan) plans) (\<lambda>_.
      if bad_ranks (map (\<lambda>(_, p). p_rank p) plans)
      then Inl (TypeError ''plan ranks must be unique positive JSON-safe integers'')
      else
      let featureKeys = concat (map (\<lambda>(_, p). p_features p) plans);
          limitKeys = concat (map (\<lambda>(_, p). map fst (p_limits p)) plans);
          overlapping = sort (remdups (filter (\<lambda>k. k \<in> set limitKeys) featureKeys)) in
      if overlapping \<noteq> []
      then Inl (TypeError (''feature and limit entitlement keys must be globally disjoint: ''
                           @ join_text '', '' overlapping))
      else
      bind_result (map_result (\<lambda>(key, pack). checkPack key pack) creditPacks) (\<lambda>_.
      if bad_ranks (map (\<lambda>(_, k). k_rank k) creditPacks)
      then Inl (TypeError ''credit-pack ranks must be unique positive JSON-safe integers'')
      else
      bind_result (lookup_collision lookupPrefix (plan_owners lookupPrefix (map fst plans))
                     (map fst creditPacks)) (\<lambda>_.
        Inr \<lparr>c_plans = plans, c_creditPacks = creditPacks, c_lookupPrefix = lookupPrefix\<rparr>))))"

text \<open>
  \<open>fromToml\<close> after the third-party TOML parser: its argument is what the parser returned, or the
  name of the error that reading or parsing the file raised.
\<close>

fun tables_to_map ::
  "(string \<Rightarrow> (string \<times> jsval) list \<Rightarrow> 'v result) \<Rightarrow> string \<Rightarrow> string
   \<Rightarrow> (string \<times> 'v) list \<Rightarrow> (string \<times> jsval) list \<Rightarrow> (string \<times> 'v) list result" where
  "tables_to_map build label section acc [] = Inr acc"
| "tables_to_map build label section acc ((rawKey, value) # rest) =
     bind_result (requiredVisibleString (JStr rawKey) label 32) (\<lambda>key.
       case value of
         JObj plain table \<Rightarrow>
           bind_result (build key table) (\<lambda>v.
             tables_to_map build label section (map_set acc key v) rest)
       | _ \<Rightarrow> Inl (TypeError (section @ ''.'' @ key @ '' must be a table'')))"

definition fromToml :: "string + jsval \<Rightarrow> string \<Rightarrow> PlanCatalog result" where
  "fromToml parsed lookupPrefix =
     (case parsed of
        Inl name \<Rightarrow> Inl (TypeError (''cannot load plan catalog: '' @ name))
      | Inr (JObj plain root) \<Rightarrow>
          bind_result (rejectUnknownFields root ''plan catalog'' ROOT_FIELDS) (\<lambda>_.
          case prop_get root ''plans'' of
            JObj plain' (entry # entries) \<Rightarrow>
              bind_result (tables_to_map planFromTable ''plan key'' ''plans'' [] (entry # entries))
              (\<lambda>plans.
                case field_or root ''credit_packs'' (JObj True []) of
                  JObj plain'' packEntries \<Rightarrow>
                    bind_result (tables_to_map creditPackFromTable ''credit-pack key''
                                   ''credit_packs'' [] packEntries)
                      (\<lambda>packs. newPlanCatalog plans lookupPrefix packs)
                | _ \<Rightarrow> Inl (TypeError ''credit_packs must be a table''))
          | _ \<Rightarrow> Inl (TypeError ''plan catalog requires a non-empty [plans] table''))
      | _ \<Rightarrow> Inl (TypeError ''plan catalog requires a non-empty [plans] table''))"

section \<open>Queries\<close>

definition planOf :: "PlanCatalog \<Rightarrow> string \<Rightarrow> Plan option" where
  "planOf cat key = map_of (c_plans cat) key"

definition ordered :: "PlanCatalog \<Rightarrow> Plan list" where
  "ordered cat = sort_key p_rank (map snd (c_plans cat))"

definition requirePlan :: "PlanCatalog \<Rightarrow> string \<Rightarrow> Plan result" where
  "requirePlan cat key =
     (case planOf cat key of
        None \<Rightarrow> Inl (TypeError (''unknown plan '' @ quoted key))
      | Some plan \<Rightarrow> Inr plan)"

definition orderedCreditPacks :: "PlanCatalog \<Rightarrow> CreditPack list" where
  "orderedCreditPacks cat = sort_key k_rank (map snd (c_creditPacks cat))"

definition requireCreditPack :: "PlanCatalog \<Rightarrow> string \<Rightarrow> CreditPack result" where
  "requireCreditPack cat key =
     (case map_of (c_creditPacks cat) key of
        None \<Rightarrow> Inl (TypeError (''unknown credit pack '' @ quoted key))
      | Some pack \<Rightarrow> Inr pack)"

definition creditPackLookupKey :: "PlanCatalog \<Rightarrow> string \<Rightarrow> string result" where
  "creditPackLookupKey cat key =
     bind_result (requireCreditPack cat key) (\<lambda>_. Inr (pack_lookup (c_lookupPrefix cat) key))"

definition lookupKey :: "PlanCatalog \<Rightarrow> string \<Rightarrow> BillingInterval \<Rightarrow> string result" where
  "lookupKey cat plan i =
     bind_result (requirePlan cat plan) (\<lambda>_. Inr (plan_lookup (c_lookupPrefix cat) plan i))"

definition parseLookupKey :: "PlanCatalog \<Rightarrow> string option \<Rightarrow> (Plan \<times> BillingInterval) option" where
  "parseLookupKey cat lookup =
     (case lookup of
        None \<Rightarrow> None
      | Some s \<Rightarrow>
          if s = [] then None
          else case split_on (CHR ''_'') s of
                 [prefix, planKey, intervalText] \<Rightarrow>
                   if prefix \<noteq> c_lookupPrefix cat then None
                   else if intervalText = ''month''
                   then map_option (\<lambda>p. (p, Month)) (planOf cat planKey)
                   else if intervalText = ''year''
                   then map_option (\<lambda>p. (p, Year)) (planOf cat planKey)
                   else None
               | _ \<Rightarrow> None)"


section \<open>What the constructor guarantees\<close>

definition plan_ok :: "Plan \<Rightarrow> bool" where
  "plan_ok p \<longleftrightarrow> KEY (p_key p) \<and> p_key p \<noteq> ''free'' \<and> p_currency p = ''usd'' \<and>
     0 < atoms (p_monthlyCredits p) \<and> atoms (p_monthlyCredits p) \<le> POSTGRES_BIGINT_MAX \<and>
     0 < p_monthUsd p \<and> p_monthUsd p * 100 \<le> js_max_safe_integer \<and>
     0 < p_yearUsd p \<and> p_yearUsd p * 100 \<le> js_max_safe_integer \<and>
     0 < p_rank p \<and> ''monthly_credits'' \<notin> set (p_features p) \<union> fst ` set (p_limits p)"

definition pack_ok :: "CreditPack \<Rightarrow> bool" where
  "pack_ok k \<longleftrightarrow> KEY (k_key k) \<and> k_currency k = ''usd'' \<and>
     0 < atoms (k_credits k) \<and> atoms (k_credits k) \<le> POSTGRES_BIGINT_MAX \<and>
     0 < k_priceUsd k \<and> k_priceUsd k * 100 \<le> js_max_safe_integer \<and>
     1 \<le> k_expiresDays k \<and> k_expiresDays k \<le> 3650 \<and> 0 < k_rank k"

definition catalog_ok :: "PlanCatalog \<Rightarrow> bool" where
  "catalog_ok cat \<longleftrightarrow>
     c_plans cat \<noteq> [] \<and> KEY (c_lookupPrefix cat) \<and>
     distinct (map fst (c_plans cat)) \<and> distinct (map (p_rank \<circ> snd) (c_plans cat)) \<and>
     distinct (map fst (c_creditPacks cat)) \<and> distinct (map (k_rank \<circ> snd) (c_creditPacks cat)) \<and>
     (\<forall>(key, p) \<in> set (c_plans cat). p_key p = key \<and> plan_ok p) \<and>
     (\<forall>(key, k) \<in> set (c_creditPacks cat). k_key k = key \<and> pack_ok k) \<and>
     (\<forall>(_, p) \<in> set (c_plans cat). \<forall>(_, q) \<in> set (c_plans cat).
        set (p_features p) \<inter> fst ` set (p_limits q) = {}) \<and>
     (\<forall>(key, _) \<in> set (c_plans cat). \<forall>(pack, _) \<in> set (c_creditPacks cat). \<forall>i.
        pack_lookup (c_lookupPrefix cat) pack \<noteq> plan_lookup (c_lookupPrefix cat) key i)"

lemma price_bound: "n \<le> CATALOG_PRICE_MAJOR_UNIT_MAX \<Longrightarrow> n * 100 \<le> js_max_safe_integer"
  by (simp add: CATALOG_PRICE_MAJOR_UNIT_MAX_def js_max_safe_integer_def)

lemma checkPlan_ok:
  assumes "checkPlan key p = Inr u" and "0 < p_rank p"
  shows "p_key p = key \<and> plan_ok p"
  using assms unfolding checkPlan_def plan_ok_def
  by (auto simp: result_simps price_bound split: if_splits)

lemma checkPack_ok:
  assumes "checkPack key k = Inr u" and "0 < k_rank k"
  shows "k_key k = key \<and> pack_ok k"
  using assms unfolding checkPack_def pack_ok_def
  by (auto simp: result_simps price_bound split: if_splits)

lemma map_result_all: "map_result f xs = Inr ys \<Longrightarrow> x \<in> set xs \<Longrightarrow> \<exists>y. f x = Inr y"
  by (induction xs arbitrary: ys) (auto simp: result_simps)

lemma lookup_collision_free:
  "lookup_collision prefix owners keys = Inr u \<Longrightarrow> key \<in> set keys \<Longrightarrow>
   pack_lookup prefix key \<notin> fst ` set owners"
proof (induction prefix owners keys rule: lookup_collision.induct)
  case (2 prefix owners k keys)
  then show ?case
    by (auto simp: map_set_keys map_of_eq_None_iff split: option.splits)
qed simp

lemma foldl_owners_keys:
  "fst ` set (foldl (\<lambda>owners key.
        map_set (map_set owners (plan_lookup prefix key Month) (t1 key))
          (plan_lookup prefix key Year) (t2 key)) owners keys)
   = fst ` set owners \<union> (\<Union>key \<in> set keys. {plan_lookup prefix key Month, plan_lookup prefix key Year})"
  by (induction keys arbitrary: owners) (auto simp: map_set_keys)

lemma plan_owners_keys: "key \<in> set keys \<Longrightarrow> plan_lookup prefix key i \<in> fst ` set (plan_owners prefix keys)"
  unfolding plan_owners_def foldl_owners_keys by (cases i) auto

lemma overlap_free:
  assumes "sort (remdups (filter (\<lambda>k. k \<in> set limitKeys) featureKeys)) = []"
  shows "set featureKeys \<inter> set limitKeys = {}"
proof -
  have "set (sort (remdups (filter (\<lambda>k. k \<in> set limitKeys) featureKeys))) = {}"
    using assms by simp
  then show ?thesis by auto
qed

lemma newPlanCatalog_ok:
  assumes "newPlanCatalog plans prefix packs = Inr cat"
    and "distinct (map fst plans)" and "distinct (map fst packs)"
  shows "catalog_ok cat"
proof -
  from assms(1) obtain u1 u2 u3 where
    ne: "plans \<noteq> []" and prefix: "KEY prefix"
    and ps: "map_result (\<lambda>(key, plan). checkPlan key plan) plans = Inr u1"
    and ranks: "\<not> bad_ranks (map (\<lambda>(_, p). p_rank p) plans)"
    and ov: "sort (remdups (filter (\<lambda>k. k \<in> set (concat (map (\<lambda>(_, p). map fst (p_limits p)) plans)))
               (concat (map (\<lambda>(_, p). p_features p) plans)))) = []"
    and ks: "map_result (\<lambda>(key, pack). checkPack key pack) packs = Inr u2"
    and kranks: "\<not> bad_ranks (map (\<lambda>(_, k). k_rank k) packs)"
    and col: "lookup_collision prefix (plan_owners prefix (map fst plans)) (map fst packs) = Inr u3"
    and cat: "cat = \<lparr>c_plans = plans, c_creditPacks = packs, c_lookupPrefix = prefix\<rparr>"
    by (auto simp: newPlanCatalog_def result_simps Let_def split: if_splits)
  have plan: "p_key p = key \<and> plan_ok p" if "(key, p) \<in> set plans" for key p
    using map_result_all [OF ps that] ranks that
    by (intro checkPlan_ok) (fastforce simp: bad_ranks_def list_ex_iff)+
  have pack: "k_key k = key \<and> pack_ok k" if "(key, k) \<in> set packs" for key k
    using map_result_all [OF ks that] kranks that
    by (intro checkPack_ok) (fastforce simp: bad_ranks_def list_ex_iff)+
  have "distinct (map (p_rank \<circ> snd) plans)" "distinct (map (k_rank \<circ> snd) packs)"
    using ranks kranks by (simp_all add: bad_ranks_def comp_def case_prod_unfold)
  moreover have "pack_lookup prefix k \<noteq> plan_lookup prefix key i"
    if "(key, p) \<in> set plans" "(k, q) \<in> set packs" for key p k q i
    using lookup_collision_free [OF col, of k] plan_owners_keys [of key "map fst plans" prefix i] that
    by (metis fst_conv image_eqI set_map)
  moreover have "set (p_features p) \<inter> fst ` set (p_limits q) = {}"
    if "(key, p) \<in> set plans" "(key', q) \<in> set plans" for key p key' q
  proof (rule ccontr)
    assume "set (p_features p) \<inter> fst ` set (p_limits q) \<noteq> {}"
    then obtain f where "f \<in> set (p_features p)" "f \<in> fst ` set (p_limits q)" by auto
    with that have "f \<in> set (concat (map (\<lambda>(_, p). p_features p) plans))"
      "f \<in> set (concat (map (\<lambda>(_, p). map fst (p_limits p)) plans))" by force+
    with overlap_free [OF ov] show False by blast
  qed
  ultimately show ?thesis
    using ne prefix assms(2,3) plan pack unfolding catalog_ok_def cat
    by (intro conjI) (simp_all, (fast+)?)
qed

lemma tables_to_map_distinct:
  "tables_to_map build label sect acc entries = Inr m \<Longrightarrow> distinct (map fst acc) \<Longrightarrow>
   distinct (map fst m)"
proof (induction build label sect acc entries rule: tables_to_map.induct)
  case (2 build label sect acc rawKey val rest)
  then show ?case by (auto simp: result_simps map_set_distinct split: jsval.splits)
qed simp

text \<open>
  C27: every catalog the loader returns satisfies the catalog's contract, whatever document the TOML
  parser produced: keys are distinct lowercase slugs and none is the reserved free, ranks are
  distinct and positive, credits fit a bigint column, prices in minor units are safe integers,
  no key is both a feature and a limit, and no two Stripe lookup keys collide.
\<close>

theorem catalog_load_ok:
  assumes "fromToml parsed prefix = Inr cat"
  shows "catalog_ok cat"
proof -
  from assms obtain plain root where parsed: "parsed = Inr (JObj plain root)"
    by (auto simp: fromToml_def split: sum.splits jsval.splits)
  obtain plans packs where
    new: "newPlanCatalog plans prefix packs = Inr cat"
    and "\<exists>es. tables_to_map planFromTable ''plan key'' ''plans'' [] es = Inr plans"
    and "\<exists>es. tables_to_map creditPackFromTable ''credit-pack key'' ''credit_packs'' [] es = Inr packs"
    using assms unfolding fromToml_def parsed
    by (cases "field_or root ''credit_packs'' (JObj True [])")
      (auto simp: result_simps simp del: tables_to_map.simps split: jsval.splits list.splits)
  then have "distinct (map fst plans)" "distinct (map fst packs)"
    using tables_to_map_distinct by fastforce+
  with new show ?thesis by (rule newPlanCatalog_ok)
qed

section \<open>Lookup keys\<close>

lemma KEY_no_underscore: "KEY s \<Longrightarrow> CHR ''_'' \<notin> set s"
  by (auto simp: KEY_def list_all_iff is_lower_def is_digit_def code_def split: list.splits)

lemma split_plan_lookup:
  assumes "KEY prefix" "KEY key"
  shows "split_on (CHR ''_'') (plan_lookup prefix key i) = [prefix, key, interval_text i]"
  using assms[THEN KEY_no_underscore]
  by (cases i) (simp_all add: plan_lookup_def interval_text_def split_on_append split_on_free)

lemma split_pack_lookup:
  assumes "KEY prefix" "KEY key"
  shows "split_on (CHR ''_'') (pack_lookup prefix key) = [prefix, ''pack'', key]"
  using assms[THEN KEY_no_underscore] split_on_append [of "CHR ''_''" "''pack''" key]
  by (simp add: pack_lookup_def split_on_append split_on_free)

lemma plan_key_parses:
  assumes "catalog_ok cat" and p: "planOf cat key = Some p"
  shows "\<exists>s. lookupKey cat key i = Inr s \<and> parseLookupKey cat (Some s) = Some (p, i)"
proof -
  from p have "KEY key" using assms(1)
    by (fastforce simp: planOf_def catalog_ok_def plan_ok_def dest: map_of_SomeD)
  then have "split_on (CHR ''_'') (plan_lookup (c_lookupPrefix cat) key i)
      = [c_lookupPrefix cat, key, interval_text i]"
    using assms(1) by (intro split_plan_lookup) (simp_all add: catalog_ok_def)
  with p show ?thesis
    by (cases i) (auto simp: lookupKey_def requirePlan_def parseLookupKey_def interval_text_def
        plan_lookup_def)
qed

text \<open>
  C28: Stripe lookup keys are unambiguous in every valid catalog: the key of a plan and interval
  parses back to exactly that plan and interval, and the key of a credit pack parses to no plan.
\<close>

theorem lookup_key_roundtrip:
  assumes "catalog_ok cat"
  shows "(\<forall>key p i. planOf cat key = Some p \<longrightarrow>
            (\<exists>s. lookupKey cat key i = Inr s \<and> parseLookupKey cat (Some s) = Some (p, i))) \<and>
         (\<forall>k s. creditPackLookupKey cat k = Inr s \<longrightarrow> parseLookupKey cat (Some s) = None)"
proof (intro conjI allI impI)
  fix key p i
  assume "planOf cat key = Some p"
  then show "\<exists>s. lookupKey cat key i = Inr s \<and> parseLookupKey cat (Some s) = Some (p, i)"
    by (rule plan_key_parses [OF assms])
next
  fix k s
  assume "creditPackLookupKey cat k = Inr s"
  then obtain pack where k: "map_of (c_creditPacks cat) k = Some pack"
    and s: "s = pack_lookup (c_lookupPrefix cat) k"
    by (auto simp: creditPackLookupKey_def requireCreditPack_def result_simps split: option.splits)
  from k have mem: "(k, pack) \<in> set (c_creditPacks cat)" by (rule map_of_SomeD)
  with assms have "KEY k" by (fastforce simp: catalog_ok_def pack_ok_def)
  then have sp: "split_on (CHR ''_'') s = [c_lookupPrefix cat, ''pack'', k]"
    using assms unfolding s by (intro split_pack_lookup) (simp_all add: catalog_ok_def)
  have "planOf cat ''pack'' = None" if "k = interval_text i" for i
  proof (rule ccontr)
    assume "planOf cat ''pack'' \<noteq> None"
    then obtain q where "(''pack'', q) \<in> set (c_plans cat)"
      by (auto simp: planOf_def dest: map_of_SomeD)
    with assms mem have "pack_lookup (c_lookupPrefix cat) k \<noteq> plan_lookup (c_lookupPrefix cat) ''pack'' i"
      by (fastforce simp: catalog_ok_def)
    then show False by (simp add: pack_lookup_def plan_lookup_def that)
  qed
  from this [of Month] this [of Year] show "parseLookupKey cat (Some s) = None"
    by (auto simp: parseLookupKey_def sp interval_text_def split: if_splits)
qed

lemma distinct_map_sort_key: "distinct (map f (sort_key f xs)) = distinct (map f xs)"
  by (simp add: distinct_map)

text \<open>
  The catalog's display orders are permutations of its plans and of its packs with strictly
  increasing ranks.
\<close>

theorem ordered_strict:
  assumes "catalog_ok cat"
  shows "mset (ordered cat) = mset (map snd (c_plans cat)) \<and>
         sorted_wrt (<) (map p_rank (ordered cat)) \<and>
         mset (orderedCreditPacks cat) = mset (map snd (c_creditPacks cat)) \<and>
         sorted_wrt (<) (map k_rank (orderedCreditPacks cat))"
proof -
  have "distinct (map p_rank (map snd (c_plans cat)))"
    "distinct (map k_rank (map snd (c_creditPacks cat)))"
    using assms by (simp_all add: catalog_ok_def)
  then have "distinct (map p_rank (ordered cat))" "distinct (map k_rank (orderedCreditPacks cat))"
    unfolding ordered_def orderedCreditPacks_def by (simp_all only: distinct_map_sort_key)
  then show ?thesis
    by (simp add: ordered_def orderedCreditPacks_def strict_sorted_iff)
qed

section \<open>The shipped catalog\<close>

text \<open>What the TOML parser returns for the repository's plans.toml.\<close>

definition toml_text :: "string \<Rightarrow> string \<Rightarrow> int \<Rightarrow> (string \<times> jsval) list" where
  "toml_text name description rank =
     [(''name'', JStr name), (''description'', JStr description), (''currency'', JStr ''usd''),
      (''rank'', JInt rank)]"

definition starter_table :: "(string \<times> jsval) list" where
  "starter_table =
     toml_text ''Starter'' ''Core conversion tools for individual workflows.'' 10 @
             [(''monthly_credits'', JInt 300), (''month_usd'', JInt 19), (''year_usd'', JInt 137),
              (''features'', JArr [JStr ''pdf_to_ppt'', JStr ''image_to_ppt'']),
              (''limits'', JObj True
                 [(''max_file_mb'', JInt 30), (''max_pages_per_job'', JInt 100),
                  (''concurrent_jobs'', JInt 1), (''api_keys'', JInt 0)])]"

definition pro_table :: "(string \<times> jsval) list" where
  "pro_table =
     toml_text ''Pro'' ''Higher limits, batch conversion, and API access.'' 20 @
             [(''monthly_credits'', JInt 1000), (''month_usd'', JInt 49), (''year_usd'', JInt 353),
              (''features'', JArr [JStr ''pdf_to_ppt'', JStr ''image_to_ppt'',
                 JStr ''batch_conversion'', JStr ''api_access'']),
              (''limits'', JObj True
                 [(''max_file_mb'', JInt 100), (''max_pages_per_job'', JInt 500),
                  (''concurrent_jobs'', JInt 5), (''api_keys'', JInt 5)])]"

definition ultra_table :: "(string \<times> jsval) list" where
  "ultra_table =
     toml_text ''Ultra'' ''Priority processing and high-volume automation limits.'' 30 @
             [(''monthly_credits'', JInt 4000), (''month_usd'', JInt 149), (''year_usd'', JInt 1073),
              (''features'', JArr [JStr ''pdf_to_ppt'', JStr ''image_to_ppt'',
                 JStr ''batch_conversion'', JStr ''api_access'', JStr ''priority_queue'']),
              (''limits'', JObj True
                 [(''max_file_mb'', JInt 250), (''max_pages_per_job'', JInt 2000),
                  (''concurrent_jobs'', JInt 20), (''api_keys'', JInt 25)])]"

definition boost_100_table :: "(string \<times> jsval) list" where
  "boost_100_table =
     toml_text ''Boost 100'' ''A small one-time balance for occasional extra jobs.'' 10 @
             [(''credits'', JInt 100), (''price_usd'', JInt 15), (''expires_days'', JInt 365)]"

definition boost_500_table :: "(string \<times> jsval) list" where
  "boost_500_table =
     toml_text ''Boost 500'' ''A one-time credit balance for bursty product usage.'' 20 @
             [(''credits'', JInt 500), (''price_usd'', JInt 59), (''expires_days'', JInt 365)]"

definition boost_2000_table :: "(string \<times> jsval) list" where
  "boost_2000_table =
     toml_text ''Boost 2,000'' ''A larger one-time balance for high-volume bursts.'' 30 @
             [(''credits'', JInt 2000), (''price_usd'', JInt 199), (''expires_days'', JInt 365)]"

definition plans_toml :: jsval where
  "plans_toml =
     JObj True
      [(''plans'', JObj True
         [(''starter'', JObj True starter_table),
          (''pro'', JObj True pro_table),
          (''ultra'', JObj True ultra_table)]),
       (''credit_packs'', JObj True
         [(''boost-100'', JObj True boost_100_table),
          (''boost-500'', JObj True boost_500_table),
          (''boost-2000'', JObj True boost_2000_table)])]"

definition credits_of :: "int \<Rightarrow> CreditAmount" where
  "credits_of n = CreditAmount (n * CREDIT_SCALE)"

definition starter_plan :: Plan where
  "starter_plan =
     \<lparr>p_key = ''starter'', p_name = ''Starter'',
      p_description = ''Core conversion tools for individual workflows.'', p_currency = ''usd'',
      p_rank = 10, p_monthlyCredits = credits_of 300, p_monthUsd = 19, p_yearUsd = 137,
      p_features = [''pdf_to_ppt'', ''image_to_ppt''],
      p_limits = [(''max_file_mb'', 30), (''max_pages_per_job'', 100), (''concurrent_jobs'', 1),
                  (''api_keys'', 0)]\<rparr>"

definition pro_plan :: Plan where
  "pro_plan =
     \<lparr>p_key = ''pro'', p_name = ''Pro'',
      p_description = ''Higher limits, batch conversion, and API access.'', p_currency = ''usd'',
      p_rank = 20, p_monthlyCredits = credits_of 1000, p_monthUsd = 49, p_yearUsd = 353,
      p_features = [''pdf_to_ppt'', ''image_to_ppt'', ''batch_conversion'', ''api_access''],
      p_limits = [(''max_file_mb'', 100), (''max_pages_per_job'', 500), (''concurrent_jobs'', 5),
                  (''api_keys'', 5)]\<rparr>"

definition ultra_plan :: Plan where
  "ultra_plan =
     \<lparr>p_key = ''ultra'', p_name = ''Ultra'',
      p_description = ''Priority processing and high-volume automation limits.'',
      p_currency = ''usd'', p_rank = 30, p_monthlyCredits = credits_of 4000, p_monthUsd = 149,
      p_yearUsd = 1073,
      p_features = [''pdf_to_ppt'', ''image_to_ppt'', ''batch_conversion'', ''api_access'',
                    ''priority_queue''],
      p_limits = [(''max_file_mb'', 250), (''max_pages_per_job'', 2000), (''concurrent_jobs'', 20),
                  (''api_keys'', 25)]\<rparr>"

definition boost_pack :: "string \<Rightarrow> string \<Rightarrow> string \<Rightarrow> int \<Rightarrow> int \<Rightarrow> int \<Rightarrow> CreditPack" where
  "boost_pack key name description rank credits price =
     \<lparr>k_key = key, k_name = name, k_description = description, k_currency = ''usd'', k_rank = rank,
      k_credits = credits_of credits, k_priceUsd = price, k_expiresDays = 365\<rparr>"

definition reference_catalog :: "string \<Rightarrow> PlanCatalog" where
  "reference_catalog prefix =
     \<lparr>c_plans = [(''starter'', starter_plan), (''pro'', pro_plan), (''ultra'', ultra_plan)],
      c_creditPacks =
        [(''boost-100'', boost_pack ''boost-100'' ''Boost 100''
            ''A small one-time balance for occasional extra jobs.'' 10 100 15),
         (''boost-500'', boost_pack ''boost-500'' ''Boost 500''
            ''A one-time credit balance for bursty product usage.'' 20 500 59),
         (''boost-2000'', boost_pack ''boost-2000'' ''Boost 2,000''
            ''A larger one-time balance for high-volume bursts.'' 30 2000 199)],
      c_lookupPrefix = prefix\<rparr>"

lemma starter_check: "checkPlan ''starter'' starter_plan = Inr ()"
  by code_simp

lemma pro_check: "checkPlan ''pro'' pro_plan = Inr ()"
  by code_simp

lemma ultra_check: "checkPlan ''ultra'' ultra_plan = Inr ()"
  by code_simp

lemma boost_100_check:
  "checkPack ''boost-100'' (boost_pack ''boost-100'' ''Boost 100''
     ''A small one-time balance for occasional extra jobs.'' 10 100 15) = Inr ()"
  by code_simp

lemma boost_500_check:
  "checkPack ''boost-500'' (boost_pack ''boost-500'' ''Boost 500''
     ''A one-time credit balance for bursty product usage.'' 20 500 59) = Inr ()"
  by code_simp

lemma boost_2000_check:
  "checkPack ''boost-2000'' (boost_pack ''boost-2000'' ''Boost 2,000''
     ''A larger one-time balance for high-volume bursts.'' 30 2000 199) = Inr ()"
  by code_simp

lemma reference_tables:
  "map_result (\<lambda>(key, plan). checkPlan key plan) (c_plans (reference_catalog ''billing''))
     = Inr [(), (), ()]"
  "map_result (\<lambda>(key, pack). checkPack key pack) (c_creditPacks (reference_catalog ''billing''))
     = Inr [(), (), ()]"
  by (simp_all add: reference_catalog_def starter_check pro_check ultra_check
      boost_100_check boost_500_check boost_2000_check)

lemma reference_ranks:
  "\<not> bad_ranks (map (\<lambda>(_, p). p_rank p) (c_plans (reference_catalog ''billing'')))"
  "\<not> bad_ranks (map (\<lambda>(_, k). k_rank k) (c_creditPacks (reference_catalog ''billing'')))"
  by (simp_all add: reference_catalog_def starter_plan_def pro_plan_def ultra_plan_def boost_pack_def
      bad_ranks_def js_max_safe_integer_def)

lemma reference_disjoint:
  "filter (\<lambda>k. k \<in> set (concat (map (\<lambda>(_, p). map fst (p_limits p)) (c_plans (reference_catalog ''billing'')))))
     (concat (map (\<lambda>(_, p). p_features p) (c_plans (reference_catalog ''billing'')))) = []"
  by (simp add: reference_catalog_def starter_plan_def pro_plan_def ultra_plan_def)

lemma reference_lookups:
  "lookup_collision ''billing'' (plan_owners ''billing'' (map fst (c_plans (reference_catalog ''billing''))))
     (map fst (c_creditPacks (reference_catalog ''billing''))) = Inr ()"
  by code_simp

lemma newPlanCatalog_intro:
  assumes "plans \<noteq> []" "KEY prefix"
    and "map_result (\<lambda>(key, plan). checkPlan key plan) plans = Inr u1"
    and "\<not> bad_ranks (map (\<lambda>(_, p). p_rank p) plans)"
    and "filter (\<lambda>k. k \<in> set (concat (map (\<lambda>(_, p). map fst (p_limits p)) plans)))
           (concat (map (\<lambda>(_, p). p_features p) plans)) = []"
    and "map_result (\<lambda>(key, pack). checkPack key pack) packs = Inr u2"
    and "\<not> bad_ranks (map (\<lambda>(_, k). k_rank k) packs)"
    and "lookup_collision prefix (plan_owners prefix (map fst plans)) (map fst packs) = Inr u3"
  shows "newPlanCatalog plans prefix packs
         = Inr \<lparr>c_plans = plans, c_creditPacks = packs, c_lookupPrefix = prefix\<rparr>"
  using assms(1,2) unfolding newPlanCatalog_def Let_def assms(3,5,6,8)
  by (simp add: assms(4,7))

lemma reference_catalog_new:
  "newPlanCatalog (c_plans (reference_catalog ''billing'')) ''billing''
     (c_creditPacks (reference_catalog ''billing'')) = Inr (reference_catalog ''billing'')"
proof -
  have "c_plans (reference_catalog ''billing'') \<noteq> []" "KEY ''billing''"
    by (simp add: reference_catalog_def, code_simp)
  from newPlanCatalog_intro [OF this reference_tables(1) reference_ranks(1) reference_disjoint
      reference_tables(2) reference_ranks(2) reference_lookups]
  show ?thesis by (simp add: reference_catalog_def)
qed

lemma requiredCredits_whole:
  assumes "prop_get table field = JInt n" "has_own table field"
    and "0 < n" "n \<le> MAX_WHOLE_CREDITS" "n \<le> js_max_safe_integer"
  shows "requiredCredits table field owner = Inr (credits_of n)"
proof -
  have "plainDecimalText (JInt n) g = Inr (show_nat (nat n))" for g
    using assms by (simp add: show_int_nonneg)
  then have "creditAtoms (JInt n) g False = Inr (n * CREDIT_SCALE)" for g
    using assms(3,4) canonical_show_nat [THEN PLAIN_DECIMAL_whole, of "nat n"]
    by (intro creditAtoms_text [where w = "show_nat (nat n)" and fr = None])
      (auto simp: padEnd0_value bound_defs)
  then show ?thesis
    using assms by (simp add: requiredCredits_def requiredField_def parseCreditAmount_def
        newCreditAmount_def credits_of_def CREDIT_SCALE_def)
qed

lemma starter_reads: "planFromTable ''starter'' starter_table = Inr starter_plan"
  by code_simp

lemma pro_reads: "planFromTable ''pro'' pro_table = Inr pro_plan"
  by code_simp

lemma ultra_pieces:
  "rejectUnknownFields ultra_table ''plans.ultra'' PLAN_FIELDS = Inr ()"
  "requiredText ultra_table ''currency'' ''plans.ultra'' 3 = Inr ''usd''"
  "requiredText ultra_table ''name'' ''plans.ultra'' 120 = Inr (p_name ultra_plan)"
  "requiredText ultra_table ''description'' ''plans.ultra'' 500 = Inr (p_description ultra_plan)"
  "requiredInt ultra_table ''rank'' ''plans.ultra'' 1 js_max_safe_integer = Inr 30"
  "requiredInt ultra_table ''month_usd'' ''plans.ultra'' 1 js_max_safe_integer = Inr 149"
  "requiredInt ultra_table ''year_usd'' ''plans.ultra'' 1 js_max_safe_integer = Inr 1073"
  "parseFeatures (field_or ultra_table ''features'' (JArr [])) ''ultra'' = Inr (p_features ultra_plan)"
  "parseLimits (field_or ultra_table ''limits'' (JObj True [])) ''ultra'' = Inr (p_limits ultra_plan)"
  subgoal by code_simp
  subgoal by code_simp
  subgoal by code_simp
  subgoal by code_simp
  subgoal by code_simp
  subgoal by code_simp
  subgoal by code_simp
  subgoal by code_simp
  subgoal by code_simp
  done

lemma ultra_reads: "planFromTable ''ultra'' ultra_table = Inr ultra_plan"
proof -
  have "requiredCredits ultra_table ''monthly_credits'' ''plans.ultra'' = Inr (credits_of 4000)"
    by (rule requiredCredits_whole)
      (simp_all add: ultra_table_def toml_text_def prop_get_def has_own_def bound_defs
        js_max_safe_integer_def)
  then show ?thesis
    by (simp add: planFromTable_def Let_def ultra_pieces)
      (simp add: ultra_plan_def)
qed

lemma boost_100_reads:
  "creditPackFromTable ''boost-100'' boost_100_table
   = Inr (boost_pack ''boost-100'' ''Boost 100'' ''A small one-time balance for occasional extra jobs.'' 10 100 15)"
  by code_simp

lemma boost_500_reads:
  "creditPackFromTable ''boost-500'' boost_500_table
   = Inr (boost_pack ''boost-500'' ''Boost 500'' ''A one-time credit balance for bursty product usage.'' 20 500 59)"
  by code_simp

lemma boost_2000_pieces:
  "rejectUnknownFields boost_2000_table ''credit_packs.boost-2000'' CREDIT_PACK_FIELDS = Inr ()"
  "requiredText boost_2000_table ''currency'' ''credit_packs.boost-2000'' 3 = Inr ''usd''"
  "requiredText boost_2000_table ''name'' ''credit_packs.boost-2000'' 120 = Inr ''Boost 2,000''"
  "requiredText boost_2000_table ''description'' ''credit_packs.boost-2000'' 500
   = Inr ''A larger one-time balance for high-volume bursts.''"
  "requiredInt boost_2000_table ''rank'' ''credit_packs.boost-2000'' 1 js_max_safe_integer = Inr 30"
  "requiredInt boost_2000_table ''price_usd'' ''credit_packs.boost-2000'' 1 js_max_safe_integer = Inr 199"
  "requiredInt boost_2000_table ''expires_days'' ''credit_packs.boost-2000'' 1 3650 = Inr 365"
  subgoal by code_simp
  subgoal by code_simp
  subgoal by code_simp
  subgoal by code_simp
  subgoal by code_simp
  subgoal by code_simp
  subgoal by code_simp
  done

lemma boost_2000_reads:
  "creditPackFromTable ''boost-2000'' boost_2000_table
   = Inr (boost_pack ''boost-2000'' ''Boost 2,000''
       ''A larger one-time balance for high-volume bursts.'' 30 2000 199)"
proof -
  have "requiredCredits boost_2000_table ''credits'' ''credit_packs.boost-2000'' = Inr (credits_of 2000)"
    by (rule requiredCredits_whole)
      (simp_all add: boost_2000_table_def toml_text_def prop_get_def has_own_def bound_defs
        js_max_safe_integer_def)
  then show ?thesis
    by (simp add: creditPackFromTable_def Let_def boost_2000_pieces boost_pack_def)
qed

lemma reference_keys:
  "requiredVisibleString (JStr ''starter'') ''plan key'' 32 = Inr ''starter''"
  "requiredVisibleString (JStr ''pro'') ''plan key'' 32 = Inr ''pro''"
  "requiredVisibleString (JStr ''ultra'') ''plan key'' 32 = Inr ''ultra''"
  "requiredVisibleString (JStr ''boost-100'') ''credit-pack key'' 32 = Inr ''boost-100''"
  "requiredVisibleString (JStr ''boost-500'') ''credit-pack key'' 32 = Inr ''boost-500''"
  "requiredVisibleString (JStr ''boost-2000'') ''credit-pack key'' 32 = Inr ''boost-2000''"
  subgoal by code_simp
  subgoal by code_simp
  subgoal by code_simp
  subgoal by code_simp
  subgoal by code_simp
  subgoal by code_simp
  done

lemma reference_root:
  "rejectUnknownFields [(''plans'', a), (''credit_packs'', b)] ''plan catalog'' ROOT_FIELDS = Inr ()"
  by (simp add: rejectUnknownFields_def ROOT_FIELDS_def)

lemma fromToml_intro:
  assumes "rejectUnknownFields root ''plan catalog'' ROOT_FIELDS = Inr u"
    and "prop_get root ''plans'' = JObj p (e # es)"
    and "tables_to_map planFromTable ''plan key'' ''plans'' [] (e # es) = Inr plans"
    and "field_or root ''credit_packs'' (JObj True []) = JObj q ks"
    and "tables_to_map creditPackFromTable ''credit-pack key'' ''credit_packs'' [] ks = Inr packs"
  shows "fromToml (Inr (JObj r root)) prefix = newPlanCatalog plans prefix packs"
  unfolding fromToml_def by (simp add: assms del: tables_to_map.simps)

lemma shipped_catalog:
  "fromToml (Inr plans_toml) ''billing'' = Inr (reference_catalog ''billing'')"
proof -
  have plans: "tables_to_map planFromTable ''plan key'' ''plans'' []
      [(''starter'', JObj True starter_table), (''pro'', JObj True pro_table),
       (''ultra'', JObj True ultra_table)] = Inr (c_plans (reference_catalog ''billing''))"
    by (simp add: reference_keys starter_reads pro_reads ultra_reads reference_catalog_def)
  have packs: "tables_to_map creditPackFromTable ''credit-pack key'' ''credit_packs'' []
      [(''boost-100'', JObj True boost_100_table), (''boost-500'', JObj True boost_500_table),
       (''boost-2000'', JObj True boost_2000_table)]
      = Inr (c_creditPacks (reference_catalog ''billing''))"
    by (simp add: reference_keys boost_100_reads boost_500_reads boost_2000_reads
        reference_catalog_def)
  show ?thesis
    unfolding plans_toml_def reference_catalog_new [symmetric]
    by (rule fromToml_intro [OF reference_root _ plans _ packs])
      (simp_all add: prop_get_def field_or_def)
qed

text \<open>
  The document the repository ships, plans.toml, loads: its three plans and three packs
  pass every check of the readers and of the constructor, with the credits and prices it states.
\<close>

theorem reference_catalog_loads:
  "fromToml (Inr plans_toml) ''billing'' = Inr (reference_catalog ''billing'')"
  by (rule shipped_catalog)

text \<open>The instance at which the catalog's properties are applied.\<close>

lemma reference_catalog_ok: "catalog_ok (reference_catalog ''billing'')"
  by (rule newPlanCatalog_ok [OF reference_catalog_new])
    (simp_all add: reference_catalog_def)

lemma catalog_load_ok_witness: "catalog_ok (reference_catalog ''billing'')"
  by (rule catalog_load_ok [OF shipped_catalog])

lemma lookup_key_roundtrip_witness:
  "parseLookupKey (reference_catalog ''billing'') (Some ''billing_pro_year'') = Some (pro_plan, Year) \<and>
   parseLookupKey (reference_catalog ''billing'') (Some ''billing_pack_boost-100'') = None"
proof -
  let ?cat = "reference_catalog ''billing''"
  have "planOf ?cat ''pro'' = Some pro_plan" "lookupKey ?cat ''pro'' Year = Inr ''billing_pro_year''"
    "creditPackLookupKey ?cat ''boost-100'' = Inr ''billing_pack_boost-100''"
    by (simp_all add: reference_catalog_def planOf_def lookupKey_def requirePlan_def
        creditPackLookupKey_def requireCreditPack_def plan_lookup_def pack_lookup_def
        interval_text_def)
  with lookup_key_roundtrip [OF reference_catalog_ok] show ?thesis
    by (metis sum.inject(2))
qed

lemma ordered_strict_witness:
  "map p_key (ordered (reference_catalog ''billing'')) = [''starter'', ''pro'', ''ultra''] \<and>
   sorted_wrt (<) (map p_rank (ordered (reference_catalog ''billing'')))"
proof -
  have "map p_key (ordered (reference_catalog ''billing'')) = [''starter'', ''pro'', ''ultra'']"
    by (simp add: ordered_def reference_catalog_def starter_plan_def pro_plan_def ultra_plan_def)
  with ordered_strict [OF reference_catalog_ok] show ?thesis by blast
qed

end
