(* ===== verification/Stripe_Policies.thy ===== *)
theory Stripe_Policies
  imports Catalog Event_Primitives
begin

text \<open>
  The fail-closed policies on the objects Stripe returns: which invoices are fulfilled
  (typescript/src/invoice-policy.ts), which prices are the catalog's (price-policy.ts) and which
  Customer Portal configurations are safe (portal-policy.ts). Every policy reads an untrusted
  value; anything it does not recognise is refused.
\<close>

section \<open>Invoices\<close>

fun isExplicitZero :: "jsval \<Rightarrow> bool" where
  "isExplicitZero (JInt n) = (n = 0)"
| "isExplicitZero _ = False"

text \<open>A list field that is present and is anything but the empty array.\<close>

fun present_entries :: "jsval \<Rightarrow> bool" where
  "present_entries (JArr xs) = (xs \<noteq> [])"
| "present_entries v = (\<not> isAbsent v)"

definition invoice_amounts :: "string list" where
  "invoice_amounts =
     [''starting_balance'', ''ending_balance'', ''pre_payment_credit_notes_amount'',
      ''post_payment_credit_notes_amount'', ''amount_overpaid'']"

definition invoice_lists :: "string list" where
  "invoice_lists =
     [''discounts'', ''default_tax_rates'', ''total_tax_amounts'', ''total_taxes'',
      ''total_discount_amounts'']"

definition line_lists :: "string list" where
  "line_lists =
     [''discounts'', ''tax_amounts'', ''taxes'', ''discount_amounts'', ''pretax_credit_amounts'',
      ''tax_rates'']"

definition line_adjusted :: "jsval \<Rightarrow> bool" where
  "line_adjusted rawLine \<longleftrightarrow>
     \<not> isSupportedRecord rawLine \<or> list_ex (\<lambda>f. present_entries (jprop rawLine f)) line_lists"

definition hasUnsupportedInvoiceAdjustments :: "jsval \<Rightarrow> jsval \<Rightarrow> bool" where
  "hasUnsupportedInvoiceAdjustments invoice lines =
     (if \<not> isSupportedRecord invoice then True
      else case lines of
        JArr ls \<Rightarrow>
          (let automaticTax = jprop invoice ''automatic_tax'' in
           if list_ex (\<lambda>f. \<not> isAbsent (jprop invoice f) \<and> \<not> isExplicitZero (jprop invoice f))
                invoice_amounts
           then True
           else if \<not> isAbsent automaticTax \<and>
             (\<not> isSupportedRecord automaticTax \<or> jprop automaticTax ''enabled'' \<noteq> JBool False)
           then True
           else if \<not> isAbsent (jprop invoice ''discount'') then True
           else if list_ex (\<lambda>f. present_entries (jprop invoice f)) invoice_lists then True
           else list_ex line_adjusted ls)
      | _ \<Rightarrow> True)"

definition payment_unsupported :: "jsval \<Rightarrow> bool" where
  "payment_unsupported payment =
     (if payment = JUndef then False
      else if \<not> isSupportedRecord payment then True
      else
        let status = jprop payment ''status''; paymentDetails = jprop payment ''payment'' in
        if \<not> isAbsent status \<and> status \<noteq> JStr ''paid'' then True
        else if isAbsent paymentDetails then False
        else if \<not> isSupportedRecord paymentDetails then True
        else
          let kind = jprop paymentDetails ''type'' in
          \<not> isAbsent kind \<and> kind \<noteq> JStr ''charge'' \<and> kind \<noteq> JStr ''payment_intent'')"

definition hasUnsupportedInvoicePaymentShape :: "jsval \<Rightarrow> bool" where
  "hasUnsupportedInvoicePaymentShape invoice =
     (if \<not> isSupportedRecord invoice then True
      else
        let paidOutOfBand = jprop invoice ''paid_out_of_band'';
            amountOverpaid = jprop invoice ''amount_overpaid'';
            payments = jprop invoice ''payments'' in
        if \<not> isAbsent paidOutOfBand \<and> paidOutOfBand \<noteq> JBool False then True
        else if \<not> isAbsent amountOverpaid \<and> \<not> isExplicitZero amountOverpaid then True
        else if isAbsent payments then False
        else if \<not> isSupportedRecord payments then True
        else if \<not> isAbsent (jprop payments ''has_more'') \<and> jprop payments ''has_more'' \<noteq> JBool False
        then True
        else if isAbsent (jprop payments ''data'') then False
        else case jprop payments ''data'' of
            JArr [] \<Rightarrow> False
          | JArr [payment] \<Rightarrow> payment_unsupported payment
          | _ \<Rightarrow> True)"

section \<open>Prices\<close>

definition ownValueOrDefault :: "jsval \<Rightarrow> string \<Rightarrow> jsval \<Rightarrow> jsval" where
  "ownValueOrDefault value field fallback =
     (case value of
        JObj plain entries \<Rightarrow> (if has_own entries field then prop_get entries field else fallback)
      | _ \<Rightarrow> fallback)"

fun object_keys :: "jsval \<Rightarrow> string list" where
  "object_keys (JObj plain entries) = remdups (map fst entries)"
| "object_keys _ = []"

text \<open>A Number that is a safe integer and equals the expected one.\<close>

definition exact_number :: "jsval \<Rightarrow> jsval \<Rightarrow> bool" where
  "exact_number value expected \<longleftrightarrow> isSafeInteger value \<and> value = expected"

definition unspecified_tax :: "jsval \<Rightarrow> bool" where
  "unspecified_tax v \<longleftrightarrow> isAbsent v \<or> v = JStr ''unspecified''"

definition currencyOptionsMatch :: "jsval \<Rightarrow> string \<Rightarrow> jsval \<Rightarrow> bool" where
  "currencyOptionsMatch value expectedCurrency expectedUnitAmount =
     (if isAbsent value then True
      else if \<not> isSupportedRecord value then False
      else if object_keys value = [] then True
      else if object_keys value \<noteq> [expectedCurrency] then False
      else
        let choice = jprop value expectedCurrency in
        isSupportedRecord choice \<and>
        exact_number (jprop choice ''unit_amount'') expectedUnitAmount \<and>
        isAbsent (jprop choice ''custom_unit_amount'') \<and>
        unspecified_tax (jprop choice ''tax_behavior''))"

definition absent_or :: "jsval \<Rightarrow> string \<Rightarrow> bool" where
  "absent_or v expected \<longleftrightarrow> isAbsent v \<or> v = JStr expected"

definition catalogIdentityMatches :: "jsval \<Rightarrow> jsval \<Rightarrow> string \<Rightarrow> string \<Rightarrow> bool" where
  "catalogIdentityMatches price product expectedProductLine expectedPlanKey \<longleftrightarrow>
     list_all (\<lambda>metadata.
         isAbsent metadata \<or>
         (isSupportedRecord metadata \<and>
          absent_or (jprop metadata ''product_line'') expectedProductLine \<and>
          absent_or (jprop metadata ''plan'') expectedPlanKey))
       [jprop price ''metadata'', jprop product ''metadata'']"

record CatalogPriceExpectation =
  expectedCurrency :: string
  expectedUnitAmount :: jsval
  expectedInterval :: BillingInterval
  expectedProductLine :: string
  expectedPlanKey :: string
  expectedLookupKey :: "string option"
  expectedPriceId :: "string option"
  requireActive :: jsval

text \<open>\<open>requireActive ?? true\<close>, which must then be a boolean.\<close>

definition active_required :: "jsval \<Rightarrow> bool option" where
  "active_required v =
     (if isAbsent v then Some True else case v of JBool b \<Rightarrow> Some b | _ \<Rightarrow> None)"

definition lower_currency :: "jsval \<Rightarrow> string \<Rightarrow> bool" where
  "lower_currency v expected \<longleftrightarrow>
     (case v of JStr currency \<Rightarrow> currency = toLowerCase currency \<and> currency = expected | _ \<Rightarrow> False)"

definition expected_if_given :: "string option \<Rightarrow> jsval \<Rightarrow> bool" where
  "expected_if_given expected v \<longleftrightarrow> (case expected of None \<Rightarrow> True | Some e \<Rightarrow> v = JStr e)"

definition catalogPriceMatches :: "jsval \<Rightarrow> CatalogPriceExpectation \<Rightarrow> bool" where
  "catalogPriceMatches price e =
     (if \<not> isSupportedRecord price \<or> \<not> isSafeInteger (expectedUnitAmount e) then False
      else
        let recurring = jprop price ''recurring''; product = jprop price ''product'' in
        if \<not> isSupportedRecord recurring \<or> \<not> isSupportedRecord product then False
        else case active_required (requireActive e) of
            None \<Rightarrow> False
          | Some active \<Rightarrow>
              if active \<and> (ownValueOrDefault price ''active'' (JBool True) \<noteq> JBool True \<or>
                           ownValueOrDefault product ''active'' (JBool True) \<noteq> JBool True)
              then False
              else
                catalogIdentityMatches price product (expectedProductLine e) (expectedPlanKey e) \<and>
                expected_if_given (expectedLookupKey e) (jprop price ''lookup_key'') \<and>
                expected_if_given (expectedPriceId e) (jprop price ''id'') \<and>
                lower_currency (jprop price ''currency'') (expectedCurrency e) \<and>
                exact_number (jprop price ''unit_amount'') (expectedUnitAmount e) \<and>
                jprop recurring ''interval'' = JStr (interval_text (expectedInterval e)) \<and>
                exact_number (ownValueOrDefault recurring ''interval_count'' (JInt 1)) (JInt 1) \<and>
                ownValueOrDefault recurring ''usage_type'' (JStr ''licensed'') = JStr ''licensed'' \<and>
                ownValueOrDefault price ''type'' (JStr ''recurring'') = JStr ''recurring'' \<and>
                ownValueOrDefault price ''billing_scheme'' (JStr ''per_unit'') = JStr ''per_unit'' \<and>
                isAbsent (jprop price ''tiers_mode'') \<and>
                isAbsent (jprop price ''transform_quantity'') \<and>
                isAbsent (jprop price ''custom_unit_amount'') \<and>
                currencyOptionsMatch (jprop price ''currency_options'') (expectedCurrency e)
                  (expectedUnitAmount e) \<and>
                unspecified_tax (jprop price ''tax_behavior''))"

record CatalogOneTimePriceExpectation =
  oneTimeCurrency :: string
  oneTimeUnitAmount :: jsval
  oneTimeProductLine :: string
  oneTimePackKey :: string
  oneTimeLookupKey :: string
  oneTimeRequireActive :: jsval

definition pack_metadata_matches :: "jsval \<Rightarrow> CatalogOneTimePriceExpectation \<Rightarrow> bool" where
  "pack_metadata_matches metadata e \<longleftrightarrow>
     isAbsent metadata \<or>
     (isSupportedRecord metadata \<and>
      absent_or (jprop metadata ''product_line'') (oneTimeProductLine e) \<and>
      absent_or (jprop metadata ''credit_pack'') (oneTimePackKey e) \<and>
      isAbsent (jprop metadata ''plan''))"

definition catalogOneTimePriceMatches :: "jsval \<Rightarrow> CatalogOneTimePriceExpectation \<Rightarrow> bool" where
  "catalogOneTimePriceMatches price e =
     (if \<not> isSupportedRecord price \<or> \<not> isSafeInteger (oneTimeUnitAmount e) then False
      else
        let product = jprop price ''product'' in
        if \<not> isSupportedRecord product then False
        else if \<not> list_all (\<lambda>metadata. pack_metadata_matches metadata e)
                 [jprop price ''metadata'', jprop product ''metadata'']
        then False
        else case active_required (oneTimeRequireActive e) of
            None \<Rightarrow> False
          | Some active \<Rightarrow>
              (\<not> active \<or>
               (jprop price ''active'' = JBool True \<and> jprop product ''active'' = JBool True)) \<and>
              jprop price ''lookup_key'' = JStr (oneTimeLookupKey e) \<and>
              ownValueOrDefault price ''type'' (JStr ''one_time'') = JStr ''one_time'' \<and>
              isAbsent (jprop price ''recurring'') \<and>
              lower_currency (jprop price ''currency'') (oneTimeCurrency e) \<and>
              exact_number (jprop price ''unit_amount'') (oneTimeUnitAmount e) \<and>
              ownValueOrDefault price ''billing_scheme'' (JStr ''per_unit'') = JStr ''per_unit'' \<and>
              isAbsent (jprop price ''tiers_mode'') \<and>
              isAbsent (jprop price ''transform_quantity'') \<and>
              isAbsent (jprop price ''custom_unit_amount'') \<and>
              unspecified_tax (jprop price ''tax_behavior'') \<and>
              currencyOptionsMatch (jprop price ''currency_options'') (oneTimeCurrency e)
                (oneTimeUnitAmount e))"

section \<open>The Customer Portal\<close>

definition PORTAL_PLACEHOLDER_MARKERS :: "string list" where
  "PORTAL_PLACEHOLDER_MARKERS =
     [''replace_me'', ''replace-with'', ''replace_with'', ''changeme'', ''change_me'', ''dummy'',
      ''your_key'', ''your_secret'']"

definition PORTAL_CONFIGURATION_ID :: "string \<Rightarrow> bool" where
  "PORTAL_CONFIGURATION_ID s \<longleftrightarrow>
     starts_with ''bpc_'' s \<and> drop 4 s \<noteq> [] \<and> list_all is_alnum (drop 4 s)"

definition portalConfigurationIdIsUsable :: "string option \<Rightarrow> bool" where
  "portalConfigurationIdIsUsable configurationId =
     (case configurationId of
        None \<Rightarrow> False
      | Some i \<Rightarrow>
          if \<not> PORTAL_CONFIGURATION_ID i then False
          else
            let normalized = map (\<lambda>c. if c = CHR '' '' then CHR ''_'' else c) (toLowerCase i) in
            \<not> list_ex (\<lambda>marker. includes_str marker normalized) PORTAL_PLACEHOLDER_MARKERS)"

record PortalConfigurationExpectation =
  expectedLivemode :: jsval
  portalProductLine :: jsval

definition is_boolean :: "jsval \<Rightarrow> bool" where
  "is_boolean v \<longleftrightarrow> (case v of JBool b \<Rightarrow> True | _ \<Rightarrow> False)"

definition is_text :: "jsval \<Rightarrow> bool" where
  "is_text v \<longleftrightarrow> (case v of JStr s \<Rightarrow> True | _ \<Rightarrow> False)"

definition portalConfigurationIsSafe :: "jsval \<Rightarrow> PortalConfigurationExpectation \<Rightarrow> bool" where
  "portalConfigurationIsSafe config e =
     (if \<not> isSupportedRecord config \<or> \<not> is_boolean (expectedLivemode e)
         \<or> \<not> is_text (portalProductLine e)
      then False
      else
        let features = jprop config ''features''; metadata = jprop config ''metadata'' in
        if \<not> isSupportedRecord features \<or> \<not> isSupportedRecord metadata then False
        else
          let cancel = jprop features ''subscription_cancel'';
              change = jprop features ''subscription_update'' in
          if \<not> isSupportedRecord cancel \<or> \<not> isSupportedRecord change then False
          else
            let cancelEnabled = jprop cancel ''enabled'';
                cancellationIsSafe = (cancelEnabled = JBool False \<or>
                  (cancelEnabled = JBool True \<and> jprop cancel ''mode'' = JStr ''at_period_end'')) in
            jprop config ''active'' = JBool True \<and>
            jprop config ''livemode'' = expectedLivemode e \<and>
            jprop metadata ''product_line'' = portalProductLine e \<and>
            jprop change ''enabled'' = JBool False \<and>
            cancellationIsSafe)"
section \<open>The price of an invoice line\<close>

text \<open>
  \<open>EventProcessor.catalogLineMatches\<close> (event-processor.ts): the resolved price of an invoice line
  against one plan and interval of the catalog.
\<close>

definition catalogLineMatches ::
  "PlanCatalog \<Rightarrow> string \<Rightarrow> jsval \<Rightarrow> Plan \<Rightarrow> BillingInterval \<Rightarrow> bool result" where
  "catalogLineMatches cat productLine line plan interval =
     (let price = jprop line ''_resolved_price'' in
      if \<not> isPlainRecord price then Inr False
      else case linePriceId line of
          None \<Rightarrow> Inr False
        | Some priceId \<Rightarrow>
            bind_result (lookupKey cat (p_key plan) interval) (\<lambda>key.
              Inr (catalogPriceMatches price
                \<lparr>expectedCurrency = p_currency plan,
                 expectedUnitAmount =
                   JInt ((case interval of Month \<Rightarrow> p_monthUsd plan | Year \<Rightarrow> p_yearUsd plan) * 100),
                 expectedInterval = interval, expectedProductLine = productLine,
                 expectedPlanKey = p_key plan, expectedLookupKey = Some key,
                 expectedPriceId = Some priceId, requireActive = JBool False\<rparr>)))"

text \<open>
  What the price policies need of a catalog: the keys it prints for what it owns parse back, so
  one key has one owner.
\<close>

locale price_keys =
  fixes valid :: "'c \<Rightarrow> bool"
    and owns :: "'c \<Rightarrow> 'p \<Rightarrow> bool"
    and key_of :: "'c \<Rightarrow> 'p \<Rightarrow> 'i \<Rightarrow> string result"
    and parse_key :: "'c \<Rightarrow> string option \<Rightarrow> ('p \<times> 'i) option"
  assumes key_parses:
    "valid c \<Longrightarrow> owns c p \<Longrightarrow> \<exists>s. key_of c p i = Inr s \<and> parse_key c (Some s) = Some (p, i)"
begin

lemma key_defined: "valid c \<Longrightarrow> owns c p \<Longrightarrow> is_ok (key_of c p i)"
  using key_parses [of c p i] by auto

lemma key_owner:
  "valid c \<Longrightarrow> owns c p \<Longrightarrow> key_of c p i = Inr s \<Longrightarrow> parse_key c (Some s) = Some (p, i)"
  using key_parses [of c p i] by auto

lemma key_unique:
  assumes "valid c" "owns c p" "owns c q" "key_of c p i = Inr s" "key_of c q j = Inr s"
  shows "p = q \<and> i = j"
  using key_owner [OF assms(1,2,4)] key_owner [OF assms(1,3,5)] by simp

end

definition catalog_owns :: "PlanCatalog \<Rightarrow> Plan \<Rightarrow> bool" where
  "catalog_owns cat plan \<longleftrightarrow> planOf cat (p_key plan) = Some plan"

interpretation plan_keys: price_keys catalog_ok catalog_owns
  "\<lambda>cat plan. lookupKey cat (p_key plan)" parseLookupKey
  by unfold_locales (simp add: catalog_owns_def plan_key_parses)

lemma catalogLineMatches_True:
  assumes "catalogLineMatches cat pl line plan i = Inr True"
  obtains key where "lookupKey cat (p_key plan) i = Inr key"
    and "jprop (jprop line ''_resolved_price'') ''lookup_key'' = JStr key"
    and "isSupportedRecord (jprop (jprop line ''_resolved_price'') ''recurring'')"
proof -
  from assms obtain key where k: "lookupKey cat (p_key plan) i = Inr key"
    by (auto simp: catalogLineMatches_def Let_def result_simps split: if_splits option.splits)
  with assms show thesis
    by (intro that [of key])
      (auto simp: catalogLineMatches_def catalogPriceMatches_def Let_def expected_if_given_def
        result_simps split: if_splits option.splits)
qed

lemma one_time_not_recurring:
  "catalogOneTimePriceMatches price p \<Longrightarrow> \<not> isSupportedRecord (jprop price ''recurring'')"
  by (auto simp: catalogOneTimePriceMatches_def Let_def split: if_splits option.splits
      elim!: isSupportedRecord.elims)

text \<open>
  C35: the price of an invoice line decides what is fulfilled. In a valid catalog a line that
  matches two plans or intervals matches one plan at one interval, and its price can never be
  accepted as a one-time credit-pack price.
\<close>

theorem line_matches_one_plan:
  assumes "catalog_ok cat" and "catalog_owns cat plan" and "catalog_owns cat plan'"
    and "catalogLineMatches cat pl line plan i = Inr True"
    and "catalogLineMatches cat pl line plan' j = Inr True"
  shows "plan = plan' \<and> i = j \<and>
         \<not> catalogOneTimePriceMatches (jprop line ''_resolved_price'') pack"
proof -
  from catalogLineMatches_True [OF assms(4)] obtain key where key:
    "lookupKey cat (p_key plan) i = Inr key"
    "jprop (jprop line ''_resolved_price'') ''lookup_key'' = JStr key"
    "isSupportedRecord (jprop (jprop line ''_resolved_price'') ''recurring'')" .
  from catalogLineMatches_True [OF assms(5)] key(2)
  have "lookupKey cat (p_key plan') j = Inr key" by (metis jsval.inject(4))
  with plan_keys.key_unique [OF assms(1-3) key(1)] key(3) one_time_not_recurring
  show ?thesis by blast
qed

definition pro_line :: jsval where
  "pro_line =
     (let product = JObj True [(''metadata'', JObj True [(''plan'', JStr ''pro'')])];
          price = JObj True
            [(''id'', JStr ''price_1''), (''lookup_key'', JStr ''billing_pro_month''),
             (''currency'', JStr ''usd''), (''unit_amount'', JInt (p_monthUsd pro_plan * 100)),
             (''recurring'', JObj True [(''interval'', JStr ''month'')]), (''product'', product)] in
      JObj True [(''price'', JStr ''price_1''), (''_resolved_price'', price)])"

lemma pro_line_matches:
  "catalogLineMatches (reference_catalog ''billing'') ''line'' pro_line pro_plan Month = Inr True"
  by code_simp

lemma line_matches_one_plan_witness:
  "pro_plan = pro_plan \<and> Month = Month \<and>
   \<not> catalogOneTimePriceMatches (jprop pro_line ''_resolved_price'')
     \<lparr>oneTimeCurrency = ''usd'', oneTimeUnitAmount = JInt 4900, oneTimeProductLine = ''line'',
      oneTimePackKey = ''boost-100'', oneTimeLookupKey = ''billing_pack_boost-100'',
      oneTimeRequireActive = JUndef\<rparr>"
proof -
  have "catalog_owns (reference_catalog ''billing'') pro_plan"
    by (simp add: catalog_owns_def planOf_def reference_catalog_def pro_plan_def)
  then show ?thesis
    using line_matches_one_plan [OF reference_catalog_ok _ _ pro_line_matches pro_line_matches]
    by blast
qed

section \<open>Refusals of the invoice policies\<close>

lemma prop_get_filter:
  "prop_get (filter (\<lambda>(k, v). P k) entries) k = (if P k then prop_get entries k else JUndef)"
proof -
  have "map_of (filter (\<lambda>(k, v). P k) entries) k = (if P k then map_of entries k else None)"
    by (induction entries) auto
  then show ?thesis by (simp add: prop_get_def)
qed

lemma absent_simps [simp]: "isAbsent JUndef" "\<not> present_entries JUndef" "\<not> isSupportedRecord JUndef"
  by simp_all

text \<open>
  An invoice is refused for what it carries, never for what it lacks: an invoice whose
  adjustments or payment shape are refused is refused as well when it carries more fields and more
  lines, so no addition turns an unsupported invoice into a fulfilled one.
\<close>

theorem invoice_refusal_monotone:
  assumes "hasUnsupportedInvoiceAdjustments (JObj True (filter (\<lambda>(k, v). P k) entries))
             (JArr (filter Q ls))
         \<or> hasUnsupportedInvoicePaymentShape (JObj True (filter (\<lambda>(k, v). P k) entries))"
  shows "hasUnsupportedInvoiceAdjustments (JObj True entries) (JArr ls)
         \<or> hasUnsupportedInvoicePaymentShape (JObj True entries)"
proof -
  let ?small = "JObj True (filter (\<lambda>(k, v). P k) entries)"
  have field: "jprop ?small k = (if P k then jprop (JObj True entries) k else JUndef)" for k
    by (simp add: prop_get_filter)
  have "hasUnsupportedInvoiceAdjustments (JObj True entries) (JArr ls)"
    if "hasUnsupportedInvoiceAdjustments ?small (JArr (filter Q ls))"
    using that
    unfolding hasUnsupportedInvoiceAdjustments_def field isSupportedRecord.simps
    by (auto simp: Let_def list_ex_iff split: if_splits)
  moreover have "hasUnsupportedInvoicePaymentShape (JObj True entries)"
    if "hasUnsupportedInvoicePaymentShape ?small"
    using that
    unfolding hasUnsupportedInvoicePaymentShape_def field isSupportedRecord.simps
    by (auto simp: Let_def split: if_splits)
  ultimately show ?thesis using assms by blast
qed

lemma invoice_refusal_monotone_witness:
  "hasUnsupportedInvoiceAdjustments
     (JObj True [(''discounts'', JArr [JStr ''di_1'']), (''id'', JStr ''in_1'')]) (JArr [JNull])
   \<or> hasUnsupportedInvoicePaymentShape
     (JObj True [(''discounts'', JArr [JStr ''di_1'']), (''id'', JStr ''in_1'')])"
proof (rule invoice_refusal_monotone [where P = "\<lambda>k. k \<noteq> ''id''" and Q = "\<lambda>l. l \<noteq> JNull"])
  show "hasUnsupportedInvoiceAdjustments
      (JObj True (filter (\<lambda>(k, v). k \<noteq> ''id'') [(''discounts'', JArr [JStr ''di_1'']), (''id'', JStr ''in_1'')]))
      (JArr (filter (\<lambda>l. l \<noteq> JNull) [JNull]))
    \<or> hasUnsupportedInvoicePaymentShape
      (JObj True (filter (\<lambda>(k, v). k \<noteq> ''id'') [(''discounts'', JArr [JStr ''di_1'']), (''id'', JStr ''in_1'')]))"
    by code_simp
qed

end
