(* ===== verification/Transitions.thy ===== *)
theory Transitions
  imports Catalog
begin

text \<open>
  When a change of plan takes effect (typescript/src/transitions.ts): \<open>decideTransition\<close> for the
  two templates of the product, over the plans of the catalog. Its error branch, two different
  plans of one rank, is an error value.
\<close>

section \<open>The decision\<close>

datatype TransitionPolicy = full_period_reset | prorated_delta

datatype EffectiveMode = immediate | period_end | noop

record TransitionDecision =
  d_fromPlan :: string
  d_fromInterval :: BillingInterval
  d_targetPlan :: string
  d_targetInterval :: BillingInterval
  d_timing :: EffectiveMode
  d_reason :: string
  d_policy :: TransitionPolicy

definition transition_timing ::
  "Plan \<Rightarrow> BillingInterval \<Rightarrow> Plan \<Rightarrow> BillingInterval \<Rightarrow> TransitionPolicy \<Rightarrow> (EffectiveMode \<times> string) result"
where
  "transition_timing current currentInterval target targetInterval policy =
     (if p_key current = p_key target \<and> currentInterval = targetInterval
      then Inr (noop, ''plan and interval are unchanged'')
      else if currentInterval = Year
      then Inr (period_end, ''annual funding lineage must finish before replacing the plan'')
      else if policy = prorated_delta \<and> (targetInterval \<noteq> Month \<or> currentInterval \<noteq> Month)
      then Inr (period_end, ''prorated delta is bounded to same-interval monthly changes'')
      else if policy = prorated_delta \<and> p_rank target > p_rank current \<and>
              atoms (p_monthlyCredits target) \<le> atoms (p_monthlyCredits current)
      then Inr (period_end, ''prorated delta requires a positive credit difference'')
      else if p_rank target > p_rank current
      then Inr (immediate,
                if policy = prorated_delta
                then ''higher monthly tier uses a current-period entitlement delta''
                else ''higher tier rank starts a newly funded period'')
      else if p_rank target < p_rank current
      then Inr (period_end, ''lower tier rank'')
      else if p_key target \<noteq> p_key current
      then Inl (PlainError ''equal ranks across different plans are ambiguous'')
      else if currentInterval = Month \<and> targetInterval = Year
      then Inr (immediate, ''same-tier month-to-year conversion'')
      else Inr (period_end, ''same-tier interval conversion''))"

definition decideTransition ::
  "Plan \<Rightarrow> BillingInterval \<Rightarrow> Plan \<Rightarrow> BillingInterval \<Rightarrow> TransitionPolicy \<Rightarrow> TransitionDecision result"
where
  "decideTransition current currentInterval target targetInterval policy =
     bind_result (transition_timing current currentInterval target targetInterval policy)
       (\<lambda>(timing, reason).
          Inr \<lparr>d_fromPlan = p_key current, d_fromInterval = currentInterval,
               d_targetPlan = p_key target, d_targetInterval = targetInterval,
               d_timing = timing, d_reason = reason, d_policy = policy\<rparr>)"

definition timing_of ::
  "Plan \<times> BillingInterval \<Rightarrow> Plan \<times> BillingInterval \<Rightarrow> TransitionPolicy \<Rightarrow> EffectiveMode option"
where
  "timing_of source target policy =
     (case decideTransition (fst source) (snd source) (fst target) (snd target) policy of
        Inl _ \<Rightarrow> None | Inr d \<Rightarrow> Some (d_timing d))"

section \<open>The contract of the two templates\<close>

text \<open>
  When the contract says a change applies at once. Template A: a higher rank, or the same plan from
  month to year, and never out of an annual period. Template B: month to month only, to a
  higher rank that also funds strictly more credits.
\<close>

fun applies_now :: "TransitionPolicy \<Rightarrow> Plan \<Rightarrow> BillingInterval \<Rightarrow> Plan \<Rightarrow> BillingInterval \<Rightarrow> bool" where
  "applies_now full_period_reset current i target j \<longleftrightarrow>
     i = Month \<and> (p_rank current < p_rank target \<or> p_key current = p_key target \<and> j = Year)"
| "applies_now prorated_delta current i target j \<longleftrightarrow>
     i = Month \<and> j = Month \<and> p_rank current < p_rank target \<and>
     p_monthlyCredits current < p_monthlyCredits target"

lemma catalog_same_rank:
  assumes "catalog_ok cat" "planOf cat a = Some p" "planOf cat b = Some q" "p_rank p = p_rank q"
  shows "p = q"
proof -
  from assms(2,3) have "(a, p) \<in> set (c_plans cat)" "(b, q) \<in> set (c_plans cat)"
    by (auto simp: planOf_def dest: map_of_SomeD)
  moreover have "inj_on (p_rank \<circ> snd) (set (c_plans cat))"
    using assms(1) by (simp add: catalog_ok_def distinct_map)
  ultimately show ?thesis using assms(4) by (metis comp_apply inj_onD snd_conv)
qed

lemma catalog_same_key:
  assumes "catalog_ok cat" "planOf cat a = Some p" "planOf cat b = Some q" "p_key p = p_key q"
  shows "p = q"
proof -
  from assms(1-3) have "p_key p = a" "p_key q = b"
    by (auto simp: planOf_def catalog_ok_def dest!: map_of_SomeD)
  then show ?thesis using assms by simp
qed

text \<open>
  C25: between any two plans of a valid catalog the decision never fails, changes nothing exactly
  when plan and interval stay, applies at once exactly when the template's contract says so, and
  otherwise waits for the period end.
\<close>

theorem transition_decided:
  assumes "catalog_ok cat" "planOf cat a = Some p" "planOf cat b = Some q"
  shows "\<exists>d. decideTransition p i q j policy = Inr d \<and>
     d_fromPlan d = p_key p \<and> d_fromInterval d = i \<and>
     d_targetPlan d = p_key q \<and> d_targetInterval d = j \<and> d_policy d = policy \<and>
     d_timing d = (if p = q \<and> i = j then noop
                   else if applies_now policy p i q j then immediate else period_end)"
proof -
  have "p_key p = p_key q \<longleftrightarrow> p = q" "p_rank p = p_rank q \<longleftrightarrow> p = q"
    using catalog_same_key [OF assms] catalog_same_rank [OF assms] by auto
  then show ?thesis
    unfolding decideTransition_def transition_timing_def
    by (cases policy; cases i; cases j)
      (auto simp: less_CreditAmount_def less_eq_CreditAmount_def)
qed

text \<open>
  No change out of an annual period, and under the prorated template no change into one,
  takes effect before the period ends, whatever plans are involved.
\<close>

theorem annual_never_immediate:
  assumes "decideTransition p i q j policy = Inr d" and "d_timing d = immediate"
  shows "i = Month \<and> (policy = prorated_delta \<longrightarrow> j = Month \<and> p_monthlyCredits p < p_monthlyCredits q)"
  using assms unfolding decideTransition_def transition_timing_def
  by (cases i; cases j)
    (auto simp: result_simps less_CreditAmount_def less_eq_CreditAmount_def split: if_splits)

section \<open>The published matrices\<close>

definition matrix_sides :: "(Plan \<times> BillingInterval) list" where
  "matrix_sides =
     [(starter_plan, Month), (starter_plan, Year), (pro_plan, Month), (pro_plan, Year),
      (ultra_plan, Month), (ultra_plan, Year)]"

definition transition_matrix :: "TransitionPolicy \<Rightarrow> EffectiveMode option list list" where
  "transition_matrix policy =
     map (\<lambda>source. map (\<lambda>target. timing_of source target policy) matrix_sides) matrix_sides"

definition NOW :: "EffectiveMode option" where "NOW = Some immediate"
definition END :: "EffectiveMode option" where "END = Some period_end"
definition SAME :: "EffectiveMode option" where "SAME = Some noop"


section \<open>Instances\<close>

lemma reference_planOf:
  "planOf (reference_catalog prefix) ''starter'' = Some starter_plan"
  "planOf (reference_catalog prefix) ''pro'' = Some pro_plan"
  "planOf (reference_catalog prefix) ''ultra'' = Some ultra_plan"
  by (simp_all add: planOf_def reference_catalog_def)

lemma transition_decided_witness:
  "\<exists>d. decideTransition starter_plan Month pro_plan Month prorated_delta = Inr d \<and>
     d_timing d = immediate"
proof -
  have "applies_now prorated_delta starter_plan Month pro_plan Month" "starter_plan \<noteq> pro_plan"
    by (simp_all add: starter_plan_def pro_plan_def credits_of_def CREDIT_SCALE_def
        less_CreditAmount_def)
  with transition_decided [OF reference_catalog_ok reference_planOf(1,2), of Month Month prorated_delta]
  show ?thesis by auto
qed

lemma annual_never_immediate_witness:
  "\<exists>d. decideTransition starter_plan Month pro_plan Month prorated_delta = Inr d \<and>
     p_monthlyCredits starter_plan < p_monthlyCredits pro_plan"
proof -
  obtain d where d: "decideTransition starter_plan Month pro_plan Month prorated_delta = Inr d"
    and t: "d_timing d = immediate"
    by (simp add: decideTransition_def transition_timing_def starter_plan_def pro_plan_def
        credits_of_def CREDIT_SCALE_def)
  from annual_never_immediate [OF d t] d show ?thesis by blast
qed

end
