(* ===== verification/Store.thy ===== *)
theory Store
  imports Transitions Subscription_State Event_Primitives "HOL-Library.Product_Lexorder"
begin

text \<open>
  The PostgreSQL state of the credit ledger (migrations/001_v3_baseline.sql and the row types of
  typescript/src/db-types.ts): one record per row, one list per table, instants as int
  microseconds. A transaction is a function on the store that returns a value or throws
  (typescript/src/database.ts \<open>transaction\<close>): an exception or a violated constraint rolls every
  change back. CHECK constraints, keys, references and the deferred triggers are one executable
  predicate, \<open>consistent\<close>, evaluated at the commit. Columns no modelled code reads (updated_at,
  last_reconciled_at) are left out. The account row is locked by every operation of the ledger, so
  the transactions of an account are serial.
\<close>

section \<open>Rows\<close>

record account =
  acc_id :: string
  acc_external_ref :: string
  acc_customer :: "string option"
  acc_subscription :: "string option"
  acc_plan_key :: string
  acc_plan_interval :: "BillingInterval option"
  acc_status :: subscription_status
  acc_balance :: int
  acc_epoch :: int
  acc_event_created :: int
  acc_event_rank :: int
  acc_period_end :: "int option"
  acc_annual_anchor :: "int option"
  acc_annual_issued :: int
  acc_annual_allowed :: int
  acc_funding_invoice :: "string option"
  acc_cancel_at_period_end :: bool
  acc_pending_free_at :: "int option"
  acc_entitlement_end :: "int option"
  acc_credit_expires :: "int option"
  acc_revoked :: bool

datatype checkout_status = Reserved | SessionCreated | Completed | CheckoutExpired

datatype payment_status = Pending | Paid | PartiallyRefunded | FullyRefunded | Disputed

record pack_order =
  po_id :: string
  po_account :: string
  po_pack_key :: string
  po_pack_credits :: int
  po_price :: int
  po_currency :: string
  po_expires_days :: int
  po_lookup_key :: string
  po_request_customer :: "string option"
  po_checkout_status :: checkout_status
  po_payment_status :: payment_status
  po_session :: "string option"
  po_session_url :: "string option"
  po_payment_intent :: "string option"
  po_charge :: "string option"
  po_customer :: "string option"
  po_amount_paid :: "int option"
  po_amount_refunded :: int
  po_refunded_credits :: int
  po_paid_at :: "int option"
  po_claim_token :: "string option"
  po_claim_expires :: "int option"
  po_client_key :: string
  po_stripe_key :: string
  po_claim_until :: int
  po_snapshot_version :: "int option"
  po_snapshot :: "jsval option"

datatype lot_status = LotActive | LotExpired | LotRefunded | LotDisputed

record funding_lot =
  lot_id :: string
  lot_order :: string
  lot_account :: string
  lot_original :: int
  lot_remaining :: int
  lot_expired :: int
  lot_clawed :: int
  lot_expires :: int
  lot_status :: lot_status
  lot_closed_at :: "int option"

text \<open>
  The kind of a debit with the order of a debt collection: the constraint of the table makes the
  order present exactly for the collections.
\<close>

datatype debit_kind = Usage | Collection string

record debit =
  deb_key :: string
  deb_account :: string
  deb_amount :: int
  deb_epoch :: int
  deb_kind :: debit_kind
  deb_restored :: int
  deb_created :: int
  deb_refunded_at :: "int option"

text \<open>The funding source of an allocation: a grant epoch of the subscription or one lot.\<close>

datatype source = FromSubscription int | FromLot string

record allocation =
  al_id :: int
  al_debit :: string
  al_account :: string
  al_source :: source
  al_amount :: int
  al_refunded :: int

record pack_debt =
  pd_order :: string
  pd_account :: string
  pd_target :: int
  pd_collected :: int
  pd_released :: int
  pd_created :: int

record clawback_debt =
  cd_account :: string
  cd_epoch :: int
  cd_invoice :: string
  cd_target :: int
  cd_collected :: int
  cd_created :: int

record ledger_entry =
  le_account :: string
  le_delta :: int
  le_balance_after :: int
  le_units :: int
  le_reason :: string
  le_epoch :: int
  le_event :: "string option"
  le_invoice :: "string option"
  le_slot :: "int option"

record incident =
  in_kind :: string
  in_dedupe :: string
  in_event :: "string option"
  in_invoice :: "string option"
  in_account :: "string option"
  in_detail :: "(string \<times> jsval) list"
  in_seen :: int
  in_resolved :: bool

text \<open>
  The store: the tables, the sequence of the allocations' bigserial, and the random UUIDs
  that \<open>randomUUID\<close> will return, with the number already drawn.
\<close>

record store =
  accounts :: "account list"
  orders :: "pack_order list"
  lots :: "funding_lot list"
  debits :: "debit list"
  allocations :: "allocation list"
  pack_debts :: "pack_debt list"
  clawback_debts :: "clawback_debt list"
  ledger :: "ledger_entry list"
  incidents :: "incident list"
  next_allocation :: int
  uuid_source :: "nat \<Rightarrow> string"
  uuid_next :: nat

section \<open>Statements\<close>

text \<open>A step on a state \<open>'s\<close> that returns a value or throws; on the ledger's store it is a \<open>tx\<close>.\<close>

type_synonym ('s, 'a) step = "'s \<Rightarrow> ('a \<times> 's) result"

type_synonym 'a tx = "(store, 'a) step"

definition ret :: "'a \<Rightarrow> ('s, 'a) step" where
  "ret x = (\<lambda>s. Inr (x, s))"

definition throw :: "error \<Rightarrow> ('s, 'a) step" where
  "throw e = (\<lambda>s. Inl e)"

definition bind_tx :: "('s, 'a) step \<Rightarrow> ('a \<Rightarrow> ('s, 'b) step) \<Rightarrow> ('s, 'b) step" where
  "bind_tx m f = (\<lambda>s. bind_result (m s) (\<lambda>(x, s'). f x s'))"

definition gets :: "('s \<Rightarrow> 'a) \<Rightarrow> ('s, 'a) step" where
  "gets f = (\<lambda>s. Inr (f s, s))"

definition modify :: "('s \<Rightarrow> 's) \<Rightarrow> ('s, unit) step" where
  "modify f = (\<lambda>s. Inr ((), f s))"

definition lift_tx :: "'a result \<Rightarrow> ('s, 'a) step" where
  "lift_tx r = (\<lambda>s. bind_result r (\<lambda>x. Inr (x, s)))"

lemmas tx_defs = ret_def throw_def bind_tx_def gets_def modify_def lift_tx_def

lemma ret_run [simp]: "ret x s = Inr (x, s)"
  by (simp add: ret_def)

lemma throw_run [simp]: "throw e s = Inl e"
  by (simp add: throw_def)

lemma gets_run [simp]: "gets f s = Inr (f s, s)"
  by (simp add: gets_def)

lemma modify_run [simp]: "modify f s = Inr ((), f s)"
  by (simp add: modify_def)

lemma lift_tx_run [simp]: "lift_tx (Inr x) s = Inr (x, s)" "lift_tx (Inl e) s = Inl e"
  by (simp_all add: lift_tx_def)

lemma bind_tx_run: "bind_tx m f s = bind_result (m s) (\<lambda>(x, s'). f x s')"
  by (simp add: bind_tx_def)

lemma bind_tx_simps [simp]:
  "m s = Inr (x, s') \<Longrightarrow> bind_tx m f s = f x s'"
  "m s = Inl e \<Longrightarrow> bind_tx m f s = Inl e"
  by (simp_all add: bind_tx_def)

lemma bind_tx_assoc: "bind_tx (bind_tx m f) g = bind_tx m (\<lambda>x. bind_tx (f x) g)"
proof (rule ext)
  fix s show "bind_tx (bind_tx m f) g s = bind_tx m (\<lambda>x. bind_tx (f x) g) s"
    by (cases "m s") (auto simp: bind_tx_def)
qed

lemma bind_tx_Inr_iff [result_simps]:
  "bind_tx m f s = Inr r \<longleftrightarrow> (\<exists>x s'. m s = Inr (x, s') \<and> f x s' = Inr r)"
  by (auto simp: bind_tx_def bind_result_Inr_iff)

text \<open>An update of the rows that satisfy a condition, and the row a unique key finds.\<close>

definition update_rows :: "('r \<Rightarrow> bool) \<Rightarrow> ('r \<Rightarrow> 'r) \<Rightarrow> 'r list \<Rightarrow> 'r list" where
  "update_rows P f rows = map (\<lambda>r. if P r then f r else r) rows"

definition find_account :: "store \<Rightarrow> string \<Rightarrow> account option" where
  "find_account s i = find (\<lambda>a. acc_id a = i) (accounts s)"

definition find_order :: "store \<Rightarrow> string \<Rightarrow> pack_order option" where
  "find_order s i = find (\<lambda>po. po_id po = i) (orders s)"

definition find_lot :: "store \<Rightarrow> string \<Rightarrow> funding_lot option" where
  "find_lot s i = find (\<lambda>l. lot_id l = i) (lots s)"

definition lot_of_order :: "store \<Rightarrow> string \<Rightarrow> funding_lot option" where
  "lot_of_order s i = find (\<lambda>l. lot_order l = i) (lots s)"

definition find_debit :: "store \<Rightarrow> string \<Rightarrow> debit option" where
  "find_debit s k = find (\<lambda>d. deb_key d = k) (debits s)"

definition find_debt :: "store \<Rightarrow> string \<Rightarrow> pack_debt option" where
  "find_debt s i = find (\<lambda>d. pd_order d = i) (pack_debts s)"

definition update_accounts :: "(account \<Rightarrow> bool) \<Rightarrow> (account \<Rightarrow> account) \<Rightarrow> unit tx" where
  "update_accounts P f = modify (\<lambda>s. s\<lparr>accounts := update_rows P f (accounts s)\<rparr>)"

definition update_orders :: "(pack_order \<Rightarrow> bool) \<Rightarrow> (pack_order \<Rightarrow> pack_order) \<Rightarrow> unit tx" where
  "update_orders P f = modify (\<lambda>s. s\<lparr>orders := update_rows P f (orders s)\<rparr>)"

text \<open>The updates whose row count the code checks return it.\<close>

definition update_lots :: "(funding_lot \<Rightarrow> bool) \<Rightarrow> (funding_lot \<Rightarrow> funding_lot) \<Rightarrow> nat tx" where
  "update_lots P f =
     (\<lambda>s. Inr (length (filter P (lots s)), s\<lparr>lots := update_rows P f (lots s)\<rparr>))"

definition update_allocations ::
  "(allocation \<Rightarrow> bool) \<Rightarrow> (allocation \<Rightarrow> allocation) \<Rightarrow> nat tx" where
  "update_allocations P f =
     (\<lambda>s. Inr (length (filter P (allocations s)),
               s\<lparr>allocations := update_rows P f (allocations s)\<rparr>))"

definition update_debts :: "(pack_debt \<Rightarrow> bool) \<Rightarrow> (pack_debt \<Rightarrow> pack_debt) \<Rightarrow> nat tx" where
  "update_debts P f =
     (\<lambda>s. Inr (length (filter P (pack_debts s)),
               s\<lparr>pack_debts := update_rows P f (pack_debts s)\<rparr>))"

definition update_debits :: "(debit \<Rightarrow> bool) \<Rightarrow> (store \<Rightarrow> debit \<Rightarrow> debit) \<Rightarrow> unit tx" where
  "update_debits P f = modify (\<lambda>s. s\<lparr>debits := update_rows P (f s) (debits s)\<rparr>)"

definition update_clawback_debts ::
  "(clawback_debt \<Rightarrow> bool) \<Rightarrow> (clawback_debt \<Rightarrow> clawback_debt) \<Rightarrow> unit tx" where
  "update_clawback_debts P f =
     modify (\<lambda>s. s\<lparr>clawback_debts := update_rows P f (clawback_debts s)\<rparr>)"

definition insert_debit :: "debit \<Rightarrow> unit tx" where
  "insert_debit d =
     (\<lambda>s. if find_debit s (deb_key d) \<noteq> None then Inl (ConstraintViolation ''credit_debits_pkey'')
          else Inr ((), s\<lparr>debits := debits s @ [d]\<rparr>))"

text \<open>\<open>on conflict(idempotency_key) do nothing\<close>: whether a row was inserted.\<close>

definition insert_debit_if_new :: "debit \<Rightarrow> bool tx" where
  "insert_debit_if_new d =
     (\<lambda>s. if find_debit s (deb_key d) \<noteq> None then Inr (False, s)
          else Inr (True, s\<lparr>debits := debits s @ [d]\<rparr>))"

definition insert_allocation :: "string \<Rightarrow> string \<Rightarrow> source \<Rightarrow> int \<Rightarrow> unit tx" where
  "insert_allocation key acc src amount =
     modify (\<lambda>s. s\<lparr>allocations := allocations s @
         [\<lparr>al_id = next_allocation s, al_debit = key, al_account = acc, al_source = src,
           al_amount = amount, al_refunded = 0\<rparr>],
       next_allocation := next_allocation s + 1\<rparr>)"

definition insert_ledger ::
  "string \<Rightarrow> int \<Rightarrow> int \<Rightarrow> string \<Rightarrow> int \<Rightarrow> string \<Rightarrow> string option \<Rightarrow> unit tx" where
  "insert_ledger acc delta after reason epoch event invoice =
     modify (\<lambda>s. s\<lparr>ledger := ledger s @
         [\<lparr>le_account = acc, le_delta = delta, le_balance_after = after, le_units = 0, le_reason = reason,
           le_epoch = epoch, le_event = Some event, le_invoice = invoice, le_slot = None\<rparr>]\<rparr>)"

definition randomUUID :: "string tx" where
  "randomUUID = (\<lambda>s. Inr (uuid_source s (uuid_next s), s\<lparr>uuid_next := uuid_next s + 1\<rparr>))"

end
