(* ===== verification/Ledger_Constraints.thy ===== *)
theory Ledger_Constraints
  imports Store
begin

text \<open>
  What the schema guarantees of the credit ledger (migrations/001_v3_baseline.sql): the CHECK
  constraints of each table, its keys and references, and the two deferred triggers
  \<open>assert_credit_pack_state\<close> and \<open>enforce_credit_debit_state\<close>, as one executable predicate
  \<open>consistent\<close>; the commit of a transaction; what an account can spend.
\<close>

section \<open>Row constraints\<close>

definition bigint :: "int \<Rightarrow> bool" where
  "bigint n \<longleftrightarrow> 0 \<le> n \<and> n \<le> MAX_CREDIT_ATOMS"

definition account_check :: "account \<Rightarrow> bool" where
  "account_check a \<longleftrightarrow> bigint (acc_balance a) \<and>
     0 \<le> acc_annual_issued a \<and> acc_annual_issued a \<le> 12 \<and>
     0 \<le> acc_annual_allowed a \<and> acc_annual_allowed a \<le> 12"

definition order_check :: "pack_order \<Rightarrow> bool" where
  "order_check po \<longleftrightarrow>
     0 < po_pack_credits po \<and> bigint (po_pack_credits po) \<and> 0 < po_price po \<and>
     1 \<le> po_expires_days po \<and> po_expires_days po \<le> 3650 \<and>
     0 \<le> po_amount_refunded po \<and> bigint (po_refunded_credits po) \<and>
     po_refunded_credits po \<le> po_pack_credits po \<and>
     (case po_amount_paid po of
        None \<Rightarrow> po_payment_status po = Pending
      | Some paid \<Rightarrow> po_payment_status po \<noteq> Pending \<and> 0 < paid \<and>
          po_amount_refunded po \<le> paid \<and> paid = po_price po) \<and>
     (case po_payment_status po of
        Pending \<Rightarrow> po_amount_refunded po = 0 \<and> po_refunded_credits po = 0
      | Paid \<Rightarrow> po_amount_refunded po = 0 \<and> po_refunded_credits po = 0
      | PartiallyRefunded \<Rightarrow> 0 < po_amount_refunded po \<and>
          Some (po_amount_refunded po) \<noteq> po_amount_paid po \<and> 0 < po_refunded_credits po
      | FullyRefunded \<Rightarrow> 0 < po_amount_refunded po \<and>
          Some (po_amount_refunded po) = po_amount_paid po \<and>
          po_refunded_credits po = po_pack_credits po
      | Disputed \<Rightarrow> 0 < po_amount_refunded po \<and>
          Some (po_amount_refunded po) = po_amount_paid po \<and>
          po_refunded_credits po = po_pack_credits po) \<and>
     (po_session po = None \<longrightarrow> po_checkout_status po = Reserved) \<and>
     (po_payment_intent po = None \<longrightarrow> po_payment_status po = Pending) \<and>
     (po_claim_token po = None \<longleftrightarrow> po_claim_expires po = None)"

definition lot_check :: "funding_lot \<Rightarrow> bool" where
  "lot_check l \<longleftrightarrow>
     0 < lot_original l \<and> bigint (lot_original l) \<and> 0 \<le> lot_remaining l \<and>
     0 \<le> lot_expired l \<and> 0 \<le> lot_clawed l \<and>
     lot_remaining l + lot_expired l + lot_clawed l \<le> lot_original l \<and>
     (lot_status l = LotActive \<longleftrightarrow> lot_closed_at l = None) \<and>
     (lot_status l = LotActive \<or> lot_remaining l = 0)"

definition debit_check :: "debit \<Rightarrow> bool" where
  "debit_check d \<longleftrightarrow> 0 < deb_amount d \<and> bigint (deb_amount d) \<and>
     0 \<le> deb_restored d \<and> deb_restored d \<le> deb_amount d"

definition allocation_check :: "allocation \<Rightarrow> bool" where
  "allocation_check a \<longleftrightarrow> 0 < al_amount a \<and> bigint (al_amount a) \<and>
     0 \<le> al_refunded a \<and> al_refunded a \<le> al_amount a"

definition debt_check :: "pack_debt \<Rightarrow> bool" where
  "debt_check d \<longleftrightarrow> 0 < pd_target d \<and> bigint (pd_target d) \<and> 0 \<le> pd_collected d \<and>
     0 \<le> pd_released d \<and> pd_collected d + pd_released d \<le> pd_target d"

definition clawback_debt_check :: "clawback_debt \<Rightarrow> bool" where
  "clawback_debt_check d \<longleftrightarrow> 0 < cd_target d \<and> bigint (cd_target d) \<and> 0 \<le> cd_collected d \<and>
     cd_collected d \<le> cd_target d"

definition ledger_check :: "ledger_entry \<Rightarrow> bool" where
  "ledger_check e \<longleftrightarrow> bigint (le_balance_after e)"

section \<open>Keys and references\<close>

text \<open>A unique index on a nullable column.\<close>

definition nullable_unique :: "('r \<Rightarrow> string option) \<Rightarrow> 'r list \<Rightarrow> bool" where
  "nullable_unique f rows \<longleftrightarrow> distinct (filter (\<lambda>v. v \<noteq> None) (map f rows))"

definition keys_ok :: "store \<Rightarrow> bool" where
  "keys_ok s \<longleftrightarrow>
     distinct (map acc_id (accounts s)) \<and> distinct (map po_id (orders s)) \<and>
     distinct (map lot_id (lots s)) \<and> distinct (map lot_order (lots s)) \<and>
     distinct (map deb_key (debits s)) \<and> distinct (map al_id (allocations s)) \<and>
     distinct (map (\<lambda>a. (al_debit a, al_source a)) (allocations s)) \<and>
     distinct (map pd_order (pack_debts s)) \<and>
     distinct (map (\<lambda>d. (cd_account d, cd_epoch d, cd_invoice d)) (clawback_debts s)) \<and>
     distinct (map acc_external_ref (accounts s)) \<and>
     nullable_unique acc_customer (accounts s) \<and> nullable_unique acc_subscription (accounts s) \<and>
     nullable_unique po_session (orders s) \<and> nullable_unique po_payment_intent (orders s) \<and>
     nullable_unique po_charge (orders s) \<and>
     distinct (map (\<lambda>i. (in_kind i, in_dedupe i)) (filter (\<lambda>i. \<not> in_resolved i) (incidents s)))"

definition references_ok :: "store \<Rightarrow> bool" where
  "references_ok s \<longleftrightarrow>
     list_all (\<lambda>po. po_account po \<in> acc_id ` set (accounts s)) (orders s) \<and>
     list_all (\<lambda>l. (lot_order l, lot_account l) \<in> (\<lambda>po. (po_id po, po_account po)) ` set (orders s))
       (lots s) \<and>
     list_all (\<lambda>d. deb_account d \<in> acc_id ` set (accounts s)) (debits s) \<and>
     list_all (\<lambda>d. case deb_kind d of
          Usage \<Rightarrow> True
        | Collection k \<Rightarrow> (k, deb_account d) \<in> (\<lambda>p. (pd_order p, pd_account p)) ` set (pack_debts s))
       (debits s) \<and>
     list_all (\<lambda>a. (al_debit a, al_account a) \<in> (\<lambda>d. (deb_key d, deb_account d)) ` set (debits s))
       (allocations s) \<and>
     list_all (\<lambda>a. case al_source a of
          FromSubscription e \<Rightarrow> True
        | FromLot k \<Rightarrow> (k, al_account a) \<in> (\<lambda>l. (lot_id l, lot_account l)) ` set (lots s))
       (allocations s) \<and>
     list_all (\<lambda>p. (pd_order p, pd_account p) \<in> (\<lambda>po. (po_id po, po_account po)) ` set (orders s))
       (pack_debts s) \<and>
     list_all (\<lambda>e. le_account e \<in> acc_id ` set (accounts s)) (ledger s) \<and>
     list_all (\<lambda>i. set_option (in_account i) \<subseteq> acc_id ` set (accounts s)) (incidents s)"

section \<open>The deferred triggers\<close>

definition pending_of :: "allocation \<Rightarrow> int" where
  "pending_of a = al_amount a - al_refunded a"

text \<open>The order whose debt a debit collects.\<close>

definition collects :: "store \<Rightarrow> string \<Rightarrow> string option" where
  "collects s k =
     (case find_debit s k of
        None \<Rightarrow> None
      | Some d \<Rightarrow> (case deb_kind d of Usage \<Rightarrow> None | Collection po \<Rightarrow> Some po))"

definition allocated_outstanding :: "store \<Rightarrow> string \<Rightarrow> int" where
  "allocated_outstanding s l =
     (\<Sum>a\<leftarrow>allocations s. if al_source a = FromLot l then pending_of a else 0)"

definition collection_outstanding :: "store \<Rightarrow> string \<Rightarrow> int" where
  "collection_outstanding s po =
     (\<Sum>a\<leftarrow>allocations s. if collects s (al_debit a) = Some po then pending_of a else 0)"

definition debt_target :: "store \<Rightarrow> string \<Rightarrow> int" where
  "debt_target s po = (case find_debt s po of None \<Rightarrow> 0 | Some d \<Rightarrow> pd_target d)"

definition debt_collected :: "store \<Rightarrow> string \<Rightarrow> int" where
  "debt_collected s po = (case find_debt s po of None \<Rightarrow> 0 | Some d \<Rightarrow> pd_collected d)"

definition debt_released :: "store \<Rightarrow> string \<Rightarrow> int" where
  "debt_released s po = (case find_debt s po of None \<Rightarrow> 0 | Some d \<Rightarrow> pd_released d)"

text \<open>\<open>assert_credit_pack_state\<close>.\<close>

definition pack_state_ok :: "store \<Rightarrow> pack_order \<Rightarrow> bool" where
  "pack_state_ok s po \<longleftrightarrow>
     (case lot_of_order s (po_id po) of
        None \<Rightarrow> find_debt s (po_id po) = None
      | Some l \<Rightarrow>
          lot_original l = po_pack_credits po \<and>
          po_refunded_credits po = lot_clawed l + debt_target s (po_id po) \<and>
          debt_collected s (po_id po) = collection_outstanding s (po_id po) \<and>
          po_pack_credits po = lot_remaining l + lot_expired l + lot_clawed l +
            debt_released s (po_id po) + allocated_outstanding s (lot_id l))"

definition allocated_amount :: "store \<Rightarrow> string \<Rightarrow> int" where
  "allocated_amount s k =
     (\<Sum>a\<leftarrow>allocations s. if al_debit a = k then al_amount a else 0)"

definition allocated_refunded :: "store \<Rightarrow> string \<Rightarrow> int" where
  "allocated_refunded s k =
     (\<Sum>a\<leftarrow>allocations s. if al_debit a = k then al_refunded a else 0)"

text \<open>\<open>enforce_credit_debit_state\<close>.\<close>

definition debit_state_ok :: "store \<Rightarrow> debit \<Rightarrow> bool" where
  "debit_state_ok s d \<longleftrightarrow>
     allocated_amount s (deb_key d) = deb_amount d \<and>
     deb_restored d \<le> allocated_refunded s (deb_key d) \<and>
     (deb_kind d \<noteq> Usage \<longrightarrow> length (filter (\<lambda>a. al_debit a = deb_key d) (allocations s)) = 1) \<and>
     (deb_refunded_at d \<noteq> None \<longleftrightarrow> allocated_refunded s (deb_key d) = deb_amount d)"

definition rows_ok :: "store \<Rightarrow> bool" where
  "rows_ok s \<longleftrightarrow>
     list_all account_check (accounts s) \<and> list_all order_check (orders s) \<and>
     list_all lot_check (lots s) \<and> list_all debit_check (debits s) \<and>
     list_all allocation_check (allocations s) \<and> list_all debt_check (pack_debts s) \<and>
     list_all clawback_debt_check (clawback_debts s) \<and> list_all ledger_check (ledger s)"

definition consistent :: "store \<Rightarrow> bool" where
  "consistent s \<longleftrightarrow> rows_ok s \<and> keys_ok s \<and> references_ok s \<and>
     list_all (pack_state_ok s) (orders s) \<and> list_all (debit_state_ok s) (debits s)"

text \<open>The commit: a transaction that throws or breaks a constraint leaves the store unchanged.\<close>

definition transaction :: "'a tx \<Rightarrow> store \<Rightarrow> 'a result \<times> store" where
  "transaction operation s =
     (case operation s of
        Inl e \<Rightarrow> (Inl e, s)
      | Inr (x, s') \<Rightarrow>
          if consistent s' then (Inr x, s')
          else (Inl (ConstraintViolation ''check_violation''), s))"

lemma transaction_commits:
  "operation s = Inr (x, s') \<Longrightarrow> consistent s' \<Longrightarrow> transaction operation s = (Inr x, s')"
  by (simp add: transaction_def)

lemma transaction_throws: "operation s = Inl e \<Longrightarrow> transaction operation s = (Inl e, s)"
  by (simp add: transaction_def)

text \<open>Whatever a transaction does, a consistent store stays consistent.\<close>

lemma transaction_consistent: "consistent s \<Longrightarrow> consistent (snd (transaction operation s))"
  by (auto simp: transaction_def split: sum.splits)

section \<open>What an account can spend\<close>

definition subscriptionSpendable :: "account \<Rightarrow> int \<Rightarrow> bool" where
  "subscriptionSpendable a asOf \<longleftrightarrow>
     acc_status a = SubActive \<and> \<not> acc_revoked a \<and>
     (case acc_credit_expires a of None \<Rightarrow> False | Some expiresAt \<Rightarrow> expiresAt > asOf)"

definition subscriptionAtoms :: "account \<Rightarrow> int \<Rightarrow> int" where
  "subscriptionAtoms a asOf =
     (if subscriptionSpendable a asOf \<and> bigint (acc_balance a) then acc_balance a else 0)"

definition active_lots :: "store \<Rightarrow> string \<Rightarrow> int \<Rightarrow> funding_lot list" where
  "active_lots s acc asOf =
     sort_key (\<lambda>l. (lot_expires l, lot_id l))
       (filter (\<lambda>l. lot_account l = acc \<and> lot_status l = LotActive \<and> lot_expires l > asOf) (lots s))"

definition packBalanceAtoms :: "store \<Rightarrow> string \<Rightarrow> int \<Rightarrow> int" where
  "packBalanceAtoms s acc asOf = (\<Sum>l\<leftarrow>active_lots s acc asOf. lot_remaining l)"

text \<open>The whole spendable balance of an account at an instant.\<close>

definition spendable :: "store \<Rightarrow> string \<Rightarrow> int \<Rightarrow> int" where
  "spendable s acc asOf =
     (case find_account s acc of None \<Rightarrow> 0 | Some a \<Rightarrow> subscriptionAtoms a asOf)
     + packBalanceAtoms s acc asOf"

section \<open>Sums and lookups over updated tables\<close>

lemma find_distinct:
  "distinct (map key xs) \<Longrightarrow> x \<in> set xs \<Longrightarrow> find (\<lambda>y. key y = key x) xs = Some x"
  by (induction xs) (auto simp: rev_image_eqI)

lemma find_SomeD: "find P xs = Some x \<Longrightarrow> x \<in> set xs \<and> P x"
  by (auto simp: find_Some_iff)

lemma find_None: "find P xs = None \<longleftrightarrow> (\<forall>x \<in> set xs. \<not> P x)"
  by (auto simp: find_None_iff)

lemma update_rows_Nil [simp]: "update_rows P f [] = []"
  by (simp add: update_rows_def)

lemma update_rows_Cons [simp]:
  "update_rows P f (x # xs) = (if P x then f x else x) # update_rows P f xs"
  by (simp add: update_rows_def)

lemma update_rows_none: "(\<And>x. x \<in> set xs \<Longrightarrow> \<not> P x) \<Longrightarrow> update_rows P f xs = xs"
  by (induction xs) auto

lemma set_update_rows: "set (update_rows P f xs) = (\<lambda>x. if P x then f x else x) ` set xs"
  by (simp add: update_rows_def)

lemma map_update_rows:
  "(\<And>x. x \<in> set xs \<Longrightarrow> P x \<Longrightarrow> g (f x) = g x) \<Longrightarrow> map g (update_rows P f xs) = map g xs"
  by (induction xs) auto

lemma filter_update_rows:
  "(\<And>x. x \<in> set xs \<Longrightarrow> P x \<Longrightarrow> Q (f x) = Q x) \<Longrightarrow>
   filter Q (update_rows P f xs) = update_rows P f (filter Q xs)"
  by (induction xs) auto

lemma length_update_rows [simp]: "length (update_rows P f xs) = length xs"
  by (simp add: update_rows_def)

lemma find_update_rows_key:
  assumes "\<And>x. P x \<Longrightarrow> key (f x) = key x"
  shows "find (\<lambda>y. key y = k) (update_rows P f xs)
       = map_option (\<lambda>x. if P x then f x else x) (find (\<lambda>y. key y = k) xs)"
  using assms by (induction xs) auto

lemma sum_update_rows:
  fixes g :: "'r \<Rightarrow> int"
  assumes "distinct (map key xs)" and "x \<in> set xs"
  shows "(\<Sum>y\<leftarrow>update_rows (\<lambda>y. key y = key x) f xs. g y) = (\<Sum>y\<leftarrow>xs. g y) - g x + g (f x)"
  using assms
proof (induction xs)
  case (Cons z zs)
  show ?case
  proof (cases "z = x")
    case True
    with Cons.prems have "update_rows (\<lambda>y. key y = key x) f zs = zs"
      by (intro update_rows_none) (auto simp: image_iff)
    with True show ?thesis by simp
  next
    case False
    with Cons.prems have "key z \<noteq> key x" by force
    with False Cons show ?thesis by simp
  qed
qed simp

lemma sum_update_rows_same:
  fixes g :: "'r \<Rightarrow> int"
  shows "(\<And>y. y \<in> set xs \<Longrightarrow> P y \<Longrightarrow> g (f y) = g y) \<Longrightarrow>
    (\<Sum>y\<leftarrow>update_rows P f xs. g y) = (\<Sum>y\<leftarrow>xs. g y)"
  by (induction xs) auto

lemma sum_list_int_nonneg:
  fixes g :: "'r \<Rightarrow> int"
  shows "(\<And>y. y \<in> set xs \<Longrightarrow> 0 \<le> g y) \<Longrightarrow> 0 \<le> (\<Sum>y\<leftarrow>xs. g y)"
  by (induction xs) auto

lemma member_le_sum:
  fixes g :: "'r \<Rightarrow> int"
  assumes "x \<in> set xs" "\<And>y. y \<in> set xs \<Longrightarrow> 0 \<le> g y"
  shows "g x \<le> (\<Sum>y\<leftarrow>xs. g y)"
  using assms
proof (induction xs)
  case (Cons z zs)
  then have "0 \<le> (\<Sum>y\<leftarrow>zs. g y)" by (intro sum_list_int_nonneg) simp
  with Cons show ?case by (cases "x = z") (auto simp: add_increasing)
qed simp

end
