(* ===== verification/Ledger_Steps.thy ===== *)
theory Ledger_Steps
  imports Ledger_Constraints
begin

text \<open>
  The invariant of the credit ledger while a transaction is under way, and what each single
  statement does to it. Between two statements the equations of the deferred triggers may be off:
  \<open>ledger_inv \<delta> \<gamma> K s\<close> says by how much. \<open>\<delta>\<close> is the surplus of an order's funding equation,
  \<open>\<gamma>\<close> the surplus of its collected-debt equation, \<open>K\<close> the debits whose own equation is still open.
  With no surplus and no open debit it gives every constraint of the schema.
\<close>

section \<open>The invariant\<close>

definition active_debt :: "store \<Rightarrow> string \<Rightarrow> int" where
  "active_debt s k = debt_target s k - debt_released s k"

definition funding_gap :: "store \<Rightarrow> funding_lot \<Rightarrow> int" where
  "funding_gap s l =
     lot_remaining l + lot_expired l + lot_clawed l + debt_released s (lot_order l)
     + allocated_outstanding s (lot_id l) - lot_original l"

text \<open>
  The equations of every lot, with what the schema does not say: expired atoms only in a closed
  lot, nothing remaining while the order owes a debt, a closed order fully clawed back.
\<close>

definition lots_inv :: "(string \<Rightarrow> int) \<Rightarrow> store \<Rightarrow> bool" where
  "lots_inv \<delta> s \<longleftrightarrow> (\<forall>l \<in> set (lots s).
     (\<exists>po \<in> set (orders s). po_id po = lot_order l \<and> po_account po = lot_account l \<and>
        po_pack_credits po = lot_original l \<and>
        po_refunded_credits po = lot_clawed l + debt_target s (lot_order l)) \<and>
     funding_gap s l = \<delta> (lot_order l) \<and>
     (lot_status l = LotActive \<longrightarrow> lot_expired l = 0) \<and>
     (0 < lot_remaining l \<longrightarrow> active_debt s (lot_order l) = 0) \<and>
     (lot_status l \<in> {LotRefunded, LotDisputed} \<longrightarrow>
        lot_clawed l + debt_target s (lot_order l) = lot_original l))"

definition debts_inv :: "(string \<Rightarrow> int) \<Rightarrow> store \<Rightarrow> bool" where
  "debts_inv \<gamma> s \<longleftrightarrow> (\<forall>d \<in> set (pack_debts s).
     pd_order d \<in> lot_order ` set (lots s) \<and>
     pd_collected d - collection_outstanding s (pd_order d) = \<gamma> (pd_order d))"

definition debits_inv :: "string set \<Rightarrow> store \<Rightarrow> bool" where
  "debits_inv K s \<longleftrightarrow> (\<forall>d \<in> set (debits s). deb_key d \<notin> K \<longrightarrow> debit_state_ok s d)"

text \<open>
  The debt collections are acyclic: a pending collection that drew on the lot of an order is older
  than every pending collection of that order's own debt.
\<close>

definition collections_inv :: "store \<Rightarrow> bool" where
  "collections_inv s \<longleftrightarrow>
     (\<forall>a \<in> set (allocations s). al_id a < next_allocation s) \<and>
     (\<forall>a \<in> set (allocations s). \<forall>b \<in> set (allocations s). \<forall>l \<in> set (lots s).
        collects s (al_debit a) \<noteq> None \<longrightarrow> al_source a = FromLot (lot_id l) \<longrightarrow> 0 < pending_of a \<longrightarrow>
        collects s (al_debit b) = Some (lot_order l) \<longrightarrow> 0 < pending_of b \<longrightarrow> al_id a < al_id b)"

definition ledger_inv :: "(string \<Rightarrow> int) \<Rightarrow> (string \<Rightarrow> int) \<Rightarrow> string set \<Rightarrow> store \<Rightarrow> bool" where
  "ledger_inv \<delta> \<gamma> K s \<longleftrightarrow>
     rows_ok s \<and> keys_ok s \<and> references_ok s \<and> lots_inv \<delta> s \<and> debts_inv \<gamma> s \<and>
     debits_inv K s \<and> collections_inv s"

text \<open>A store between two transactions.\<close>

definition settled :: "store \<Rightarrow> bool" where
  "settled s \<longleftrightarrow> ledger_inv (\<lambda>_. 0) (\<lambda>_. 0) {} s"

lemma ledger_invD:
  assumes "ledger_inv \<delta> \<gamma> K s"
  shows "rows_ok s" "keys_ok s" "references_ok s" "lots_inv \<delta> s" "debts_inv \<gamma> s"
    "debits_inv K s" "collections_inv s"
  using assms by (simp_all add: ledger_inv_def)

section \<open>It implies the schema\<close>

lemma lot_of_order_Some:
  "lot_of_order s k = Some l \<Longrightarrow> l \<in> set (lots s) \<and> lot_order l = k"
  unfolding lot_of_order_def by (drule find_SomeD) simp

lemma lot_of_order_None: "lot_of_order s k = None \<longleftrightarrow> k \<notin> lot_order ` set (lots s)"
  by (auto simp: lot_of_order_def find_None)

lemma find_debt_Some: "find_debt s k = Some d \<Longrightarrow> d \<in> set (pack_debts s) \<and> pd_order d = k"
  unfolding find_debt_def by (drule find_SomeD) simp

lemma find_debit_Some: "find_debit s k = Some d \<Longrightarrow> d \<in> set (debits s) \<and> deb_key d = k"
  unfolding find_debit_def by (drule find_SomeD) simp

lemma find_lot_Some: "find_lot s k = Some l \<Longrightarrow> l \<in> set (lots s) \<and> lot_id l = k"
  unfolding find_lot_def by (drule find_SomeD) simp

lemma find_order_Some: "find_order s k = Some po \<Longrightarrow> po \<in> set (orders s) \<and> po_id po = k"
  unfolding find_order_def by (drule find_SomeD) simp

lemma find_account_Some: "find_account s k = Some a \<Longrightarrow> a \<in> set (accounts s) \<and> acc_id a = k"
  unfolding find_account_def by (drule find_SomeD) simp

lemma find_member:
  assumes "keys_ok s"
  shows "a \<in> set (accounts s) \<Longrightarrow> find_account s (acc_id a) = Some a"
    "po \<in> set (orders s) \<Longrightarrow> find_order s (po_id po) = Some po"
    "l \<in> set (lots s) \<Longrightarrow> find_lot s (lot_id l) = Some l"
    "l \<in> set (lots s) \<Longrightarrow> lot_of_order s (lot_order l) = Some l"
    "d \<in> set (debits s) \<Longrightarrow> find_debit s (deb_key d) = Some d"
    "p \<in> set (pack_debts s) \<Longrightarrow> find_debt s (pd_order p) = Some p"
  using assms
  by (simp_all add: keys_ok_def find_account_def find_order_def find_lot_def lot_of_order_def
      find_debit_def find_debt_def find_distinct)

lemma collects_Some:
  "collects s k = Some po \<longleftrightarrow> (\<exists>d. find_debit s k = Some d \<and> deb_kind d = Collection po)"
  by (auto simp: collects_def split: option.splits debit_kind.splits)

lemma collects_debt:
  assumes "references_ok s" "collects s k = Some po"
  shows "\<exists>p \<in> set (pack_debts s). pd_order p = po"
proof -
  from assms(2) obtain d where "find_debit s k = Some d" "deb_kind d = Collection po"
    by (auto simp: collects_Some)
  then have "d \<in> set (debits s)" "deb_kind d = Collection po" by (auto dest: find_debit_Some)
  with assms(1) have "(po, deb_account d) \<in> (\<lambda>p. (pd_order p, pd_account p)) ` set (pack_debts s)"
    by (fastforce simp: references_ok_def list_all_iff)
  then show ?thesis by auto
qed

lemma collection_outstanding_none:
  assumes "references_ok s" "find_debt s po = None"
  shows "collection_outstanding s po = 0"
proof -
  have "collects s k \<noteq> Some po" for k
    using collects_debt [OF assms(1)] assms(2) by (fastforce simp: find_debt_def find_None)
  then show ?thesis by (simp add: collection_outstanding_def)
qed

text \<open>The invariant with nothing open is the schema together with the order of the collections.\<close>

lemma settled_consistent:
  assumes "settled s"
  shows "consistent s"
proof -
  note inv = ledger_invD [OF assms [unfolded settled_def]]
  have "pack_state_ok s po" if po: "po \<in> set (orders s)" for po
  proof (cases "lot_of_order s (po_id po)")
    case None
    have "pd_order d \<noteq> po_id po" if "d \<in> set (pack_debts s)" for d
      using inv(5) None that by (metis debts_inv_def lot_of_order_None)
    then have "find_debt s (po_id po) = None" by (simp add: find_debt_def find_None)
    with None show ?thesis by (simp add: pack_state_ok_def)
  next
    case (Some l)
    from lot_of_order_Some [OF this] have l: "l \<in> set (lots s)" "lot_order l = po_id po" by auto
    with inv(4) obtain q where q: "q \<in> set (orders s)" "po_id q = po_id po"
      "po_pack_credits q = lot_original l"
      "po_refunded_credits q = lot_clawed l + debt_target s (po_id po)"
      unfolding lots_inv_def by fastforce
    from q(1,2) po inv(2) have "q = po"
      using find_member(2) [OF inv(2)] by (metis option.inject)
    moreover have "debt_collected s (po_id po) = collection_outstanding s (po_id po)"
    proof (cases "find_debt s (po_id po)")
      case None
      then show ?thesis by (simp add: debt_collected_def collection_outstanding_none [OF inv(3)])
    next
      case (Some d)
      with inv(5) find_debt_Some [OF Some] show ?thesis
        by (auto simp: debts_inv_def debt_collected_def)
    qed
    moreover have "funding_gap s l = 0" using inv(4) l by (auto simp: lots_inv_def)
    ultimately show ?thesis
      using Some q l by (simp add: pack_state_ok_def funding_gap_def)
  qed
  moreover have "debit_state_ok s d" if "d \<in> set (debits s)" for d
    using inv(6) that by (simp add: debits_inv_def)
  ultimately show ?thesis
    using inv(1-3) by (simp add: consistent_def list_all_iff)
qed

section \<open>What a statement does not touch\<close>

lemma find_account_frame [simp]:
  "find_account (s\<lparr>orders := v1\<rparr>) x = find_account s x"
  "find_account (s\<lparr>lots := v2\<rparr>) x = find_account s x"
  "find_account (s\<lparr>debits := v3\<rparr>) x = find_account s x"
  "find_account (s\<lparr>allocations := v4\<rparr>) x = find_account s x"
  "find_account (s\<lparr>pack_debts := v5\<rparr>) x = find_account s x"
  "find_account (s\<lparr>clawback_debts := v6\<rparr>) x = find_account s x"
  "find_account (s\<lparr>ledger := v7\<rparr>) x = find_account s x"
  "find_account (s\<lparr>incidents := v8\<rparr>) x = find_account s x"
  "find_account (s\<lparr>next_allocation := v9\<rparr>) x = find_account s x"
  "find_account (s\<lparr>uuid_next := v10\<rparr>) x = find_account s x"
  by (simp_all add: find_account_def)

lemma find_order_frame [simp]:
  "find_order (s\<lparr>accounts := v0\<rparr>) x = find_order s x"
  "find_order (s\<lparr>lots := v2\<rparr>) x = find_order s x"
  "find_order (s\<lparr>debits := v3\<rparr>) x = find_order s x"
  "find_order (s\<lparr>allocations := v4\<rparr>) x = find_order s x"
  "find_order (s\<lparr>pack_debts := v5\<rparr>) x = find_order s x"
  "find_order (s\<lparr>clawback_debts := v6\<rparr>) x = find_order s x"
  "find_order (s\<lparr>ledger := v7\<rparr>) x = find_order s x"
  "find_order (s\<lparr>incidents := v8\<rparr>) x = find_order s x"
  "find_order (s\<lparr>next_allocation := v9\<rparr>) x = find_order s x"
  "find_order (s\<lparr>uuid_next := v10\<rparr>) x = find_order s x"
  by (simp_all add: find_order_def)

lemma find_lot_frame [simp]:
  "find_lot (s\<lparr>accounts := v0\<rparr>) x = find_lot s x"
  "find_lot (s\<lparr>orders := v1\<rparr>) x = find_lot s x"
  "find_lot (s\<lparr>debits := v3\<rparr>) x = find_lot s x"
  "find_lot (s\<lparr>allocations := v4\<rparr>) x = find_lot s x"
  "find_lot (s\<lparr>pack_debts := v5\<rparr>) x = find_lot s x"
  "find_lot (s\<lparr>clawback_debts := v6\<rparr>) x = find_lot s x"
  "find_lot (s\<lparr>ledger := v7\<rparr>) x = find_lot s x"
  "find_lot (s\<lparr>incidents := v8\<rparr>) x = find_lot s x"
  "find_lot (s\<lparr>next_allocation := v9\<rparr>) x = find_lot s x"
  "find_lot (s\<lparr>uuid_next := v10\<rparr>) x = find_lot s x"
  by (simp_all add: find_lot_def)

lemma lot_of_order_frame [simp]:
  "lot_of_order (s\<lparr>accounts := v0\<rparr>) x = lot_of_order s x"
  "lot_of_order (s\<lparr>orders := v1\<rparr>) x = lot_of_order s x"
  "lot_of_order (s\<lparr>debits := v3\<rparr>) x = lot_of_order s x"
  "lot_of_order (s\<lparr>allocations := v4\<rparr>) x = lot_of_order s x"
  "lot_of_order (s\<lparr>pack_debts := v5\<rparr>) x = lot_of_order s x"
  "lot_of_order (s\<lparr>clawback_debts := v6\<rparr>) x = lot_of_order s x"
  "lot_of_order (s\<lparr>ledger := v7\<rparr>) x = lot_of_order s x"
  "lot_of_order (s\<lparr>incidents := v8\<rparr>) x = lot_of_order s x"
  "lot_of_order (s\<lparr>next_allocation := v9\<rparr>) x = lot_of_order s x"
  "lot_of_order (s\<lparr>uuid_next := v10\<rparr>) x = lot_of_order s x"
  by (simp_all add: lot_of_order_def)

lemma find_debit_frame [simp]:
  "find_debit (s\<lparr>accounts := v0\<rparr>) x = find_debit s x"
  "find_debit (s\<lparr>orders := v1\<rparr>) x = find_debit s x"
  "find_debit (s\<lparr>lots := v2\<rparr>) x = find_debit s x"
  "find_debit (s\<lparr>allocations := v4\<rparr>) x = find_debit s x"
  "find_debit (s\<lparr>pack_debts := v5\<rparr>) x = find_debit s x"
  "find_debit (s\<lparr>clawback_debts := v6\<rparr>) x = find_debit s x"
  "find_debit (s\<lparr>ledger := v7\<rparr>) x = find_debit s x"
  "find_debit (s\<lparr>incidents := v8\<rparr>) x = find_debit s x"
  "find_debit (s\<lparr>next_allocation := v9\<rparr>) x = find_debit s x"
  "find_debit (s\<lparr>uuid_next := v10\<rparr>) x = find_debit s x"
  by (simp_all add: find_debit_def)

lemma find_debt_frame [simp]:
  "find_debt (s\<lparr>accounts := v0\<rparr>) x = find_debt s x"
  "find_debt (s\<lparr>orders := v1\<rparr>) x = find_debt s x"
  "find_debt (s\<lparr>lots := v2\<rparr>) x = find_debt s x"
  "find_debt (s\<lparr>debits := v3\<rparr>) x = find_debt s x"
  "find_debt (s\<lparr>allocations := v4\<rparr>) x = find_debt s x"
  "find_debt (s\<lparr>clawback_debts := v6\<rparr>) x = find_debt s x"
  "find_debt (s\<lparr>ledger := v7\<rparr>) x = find_debt s x"
  "find_debt (s\<lparr>incidents := v8\<rparr>) x = find_debt s x"
  "find_debt (s\<lparr>next_allocation := v9\<rparr>) x = find_debt s x"
  "find_debt (s\<lparr>uuid_next := v10\<rparr>) x = find_debt s x"
  by (simp_all add: find_debt_def)

lemma collects_frame [simp]:
  "collects (s\<lparr>accounts := v0\<rparr>) x = collects s x"
  "collects (s\<lparr>orders := v1\<rparr>) x = collects s x"
  "collects (s\<lparr>lots := v2\<rparr>) x = collects s x"
  "collects (s\<lparr>allocations := v4\<rparr>) x = collects s x"
  "collects (s\<lparr>pack_debts := v5\<rparr>) x = collects s x"
  "collects (s\<lparr>clawback_debts := v6\<rparr>) x = collects s x"
  "collects (s\<lparr>ledger := v7\<rparr>) x = collects s x"
  "collects (s\<lparr>incidents := v8\<rparr>) x = collects s x"
  "collects (s\<lparr>next_allocation := v9\<rparr>) x = collects s x"
  "collects (s\<lparr>uuid_next := v10\<rparr>) x = collects s x"
  by (simp_all add: collects_def)

lemma allocated_outstanding_frame [simp]:
  "allocated_outstanding (s\<lparr>accounts := v0\<rparr>) x = allocated_outstanding s x"
  "allocated_outstanding (s\<lparr>orders := v1\<rparr>) x = allocated_outstanding s x"
  "allocated_outstanding (s\<lparr>lots := v2\<rparr>) x = allocated_outstanding s x"
  "allocated_outstanding (s\<lparr>debits := v3\<rparr>) x = allocated_outstanding s x"
  "allocated_outstanding (s\<lparr>pack_debts := v5\<rparr>) x = allocated_outstanding s x"
  "allocated_outstanding (s\<lparr>clawback_debts := v6\<rparr>) x = allocated_outstanding s x"
  "allocated_outstanding (s\<lparr>ledger := v7\<rparr>) x = allocated_outstanding s x"
  "allocated_outstanding (s\<lparr>incidents := v8\<rparr>) x = allocated_outstanding s x"
  "allocated_outstanding (s\<lparr>next_allocation := v9\<rparr>) x = allocated_outstanding s x"
  "allocated_outstanding (s\<lparr>uuid_next := v10\<rparr>) x = allocated_outstanding s x"
  by (simp_all add: allocated_outstanding_def)

lemma collection_outstanding_frame [simp]:
  "collection_outstanding (s\<lparr>accounts := v0\<rparr>) x = collection_outstanding s x"
  "collection_outstanding (s\<lparr>orders := v1\<rparr>) x = collection_outstanding s x"
  "collection_outstanding (s\<lparr>lots := v2\<rparr>) x = collection_outstanding s x"
  "collection_outstanding (s\<lparr>pack_debts := v5\<rparr>) x = collection_outstanding s x"
  "collection_outstanding (s\<lparr>clawback_debts := v6\<rparr>) x = collection_outstanding s x"
  "collection_outstanding (s\<lparr>ledger := v7\<rparr>) x = collection_outstanding s x"
  "collection_outstanding (s\<lparr>incidents := v8\<rparr>) x = collection_outstanding s x"
  "collection_outstanding (s\<lparr>next_allocation := v9\<rparr>) x = collection_outstanding s x"
  "collection_outstanding (s\<lparr>uuid_next := v10\<rparr>) x = collection_outstanding s x"
  by (simp_all add: collection_outstanding_def)

lemma debt_target_frame [simp]:
  "debt_target (s\<lparr>accounts := v0\<rparr>) x = debt_target s x"
  "debt_target (s\<lparr>orders := v1\<rparr>) x = debt_target s x"
  "debt_target (s\<lparr>lots := v2\<rparr>) x = debt_target s x"
  "debt_target (s\<lparr>debits := v3\<rparr>) x = debt_target s x"
  "debt_target (s\<lparr>allocations := v4\<rparr>) x = debt_target s x"
  "debt_target (s\<lparr>clawback_debts := v6\<rparr>) x = debt_target s x"
  "debt_target (s\<lparr>ledger := v7\<rparr>) x = debt_target s x"
  "debt_target (s\<lparr>incidents := v8\<rparr>) x = debt_target s x"
  "debt_target (s\<lparr>next_allocation := v9\<rparr>) x = debt_target s x"
  "debt_target (s\<lparr>uuid_next := v10\<rparr>) x = debt_target s x"
  by (simp_all add: debt_target_def)

lemma debt_collected_frame [simp]:
  "debt_collected (s\<lparr>accounts := v0\<rparr>) x = debt_collected s x"
  "debt_collected (s\<lparr>orders := v1\<rparr>) x = debt_collected s x"
  "debt_collected (s\<lparr>lots := v2\<rparr>) x = debt_collected s x"
  "debt_collected (s\<lparr>debits := v3\<rparr>) x = debt_collected s x"
  "debt_collected (s\<lparr>allocations := v4\<rparr>) x = debt_collected s x"
  "debt_collected (s\<lparr>clawback_debts := v6\<rparr>) x = debt_collected s x"
  "debt_collected (s\<lparr>ledger := v7\<rparr>) x = debt_collected s x"
  "debt_collected (s\<lparr>incidents := v8\<rparr>) x = debt_collected s x"
  "debt_collected (s\<lparr>next_allocation := v9\<rparr>) x = debt_collected s x"
  "debt_collected (s\<lparr>uuid_next := v10\<rparr>) x = debt_collected s x"
  by (simp_all add: debt_collected_def)

lemma debt_released_frame [simp]:
  "debt_released (s\<lparr>accounts := v0\<rparr>) x = debt_released s x"
  "debt_released (s\<lparr>orders := v1\<rparr>) x = debt_released s x"
  "debt_released (s\<lparr>lots := v2\<rparr>) x = debt_released s x"
  "debt_released (s\<lparr>debits := v3\<rparr>) x = debt_released s x"
  "debt_released (s\<lparr>allocations := v4\<rparr>) x = debt_released s x"
  "debt_released (s\<lparr>clawback_debts := v6\<rparr>) x = debt_released s x"
  "debt_released (s\<lparr>ledger := v7\<rparr>) x = debt_released s x"
  "debt_released (s\<lparr>incidents := v8\<rparr>) x = debt_released s x"
  "debt_released (s\<lparr>next_allocation := v9\<rparr>) x = debt_released s x"
  "debt_released (s\<lparr>uuid_next := v10\<rparr>) x = debt_released s x"
  by (simp_all add: debt_released_def)

lemma active_debt_frame [simp]:
  "active_debt (s\<lparr>accounts := v0\<rparr>) x = active_debt s x"
  "active_debt (s\<lparr>orders := v1\<rparr>) x = active_debt s x"
  "active_debt (s\<lparr>lots := v2\<rparr>) x = active_debt s x"
  "active_debt (s\<lparr>debits := v3\<rparr>) x = active_debt s x"
  "active_debt (s\<lparr>allocations := v4\<rparr>) x = active_debt s x"
  "active_debt (s\<lparr>clawback_debts := v6\<rparr>) x = active_debt s x"
  "active_debt (s\<lparr>ledger := v7\<rparr>) x = active_debt s x"
  "active_debt (s\<lparr>incidents := v8\<rparr>) x = active_debt s x"
  "active_debt (s\<lparr>next_allocation := v9\<rparr>) x = active_debt s x"
  "active_debt (s\<lparr>uuid_next := v10\<rparr>) x = active_debt s x"
  by (simp_all add: active_debt_def)

lemma funding_gap_frame [simp]:
  "funding_gap (s\<lparr>accounts := v0\<rparr>) x = funding_gap s x"
  "funding_gap (s\<lparr>orders := v1\<rparr>) x = funding_gap s x"
  "funding_gap (s\<lparr>lots := v2\<rparr>) x = funding_gap s x"
  "funding_gap (s\<lparr>debits := v3\<rparr>) x = funding_gap s x"
  "funding_gap (s\<lparr>clawback_debts := v6\<rparr>) x = funding_gap s x"
  "funding_gap (s\<lparr>ledger := v7\<rparr>) x = funding_gap s x"
  "funding_gap (s\<lparr>incidents := v8\<rparr>) x = funding_gap s x"
  "funding_gap (s\<lparr>next_allocation := v9\<rparr>) x = funding_gap s x"
  "funding_gap (s\<lparr>uuid_next := v10\<rparr>) x = funding_gap s x"
  by (simp_all add: funding_gap_def)

lemma allocated_amount_frame [simp]:
  "allocated_amount (s\<lparr>accounts := v0\<rparr>) x = allocated_amount s x"
  "allocated_amount (s\<lparr>orders := v1\<rparr>) x = allocated_amount s x"
  "allocated_amount (s\<lparr>lots := v2\<rparr>) x = allocated_amount s x"
  "allocated_amount (s\<lparr>debits := v3\<rparr>) x = allocated_amount s x"
  "allocated_amount (s\<lparr>pack_debts := v5\<rparr>) x = allocated_amount s x"
  "allocated_amount (s\<lparr>clawback_debts := v6\<rparr>) x = allocated_amount s x"
  "allocated_amount (s\<lparr>ledger := v7\<rparr>) x = allocated_amount s x"
  "allocated_amount (s\<lparr>incidents := v8\<rparr>) x = allocated_amount s x"
  "allocated_amount (s\<lparr>next_allocation := v9\<rparr>) x = allocated_amount s x"
  "allocated_amount (s\<lparr>uuid_next := v10\<rparr>) x = allocated_amount s x"
  by (simp_all add: allocated_amount_def)

lemma allocated_refunded_frame [simp]:
  "allocated_refunded (s\<lparr>accounts := v0\<rparr>) x = allocated_refunded s x"
  "allocated_refunded (s\<lparr>orders := v1\<rparr>) x = allocated_refunded s x"
  "allocated_refunded (s\<lparr>lots := v2\<rparr>) x = allocated_refunded s x"
  "allocated_refunded (s\<lparr>debits := v3\<rparr>) x = allocated_refunded s x"
  "allocated_refunded (s\<lparr>pack_debts := v5\<rparr>) x = allocated_refunded s x"
  "allocated_refunded (s\<lparr>clawback_debts := v6\<rparr>) x = allocated_refunded s x"
  "allocated_refunded (s\<lparr>ledger := v7\<rparr>) x = allocated_refunded s x"
  "allocated_refunded (s\<lparr>incidents := v8\<rparr>) x = allocated_refunded s x"
  "allocated_refunded (s\<lparr>next_allocation := v9\<rparr>) x = allocated_refunded s x"
  "allocated_refunded (s\<lparr>uuid_next := v10\<rparr>) x = allocated_refunded s x"
  by (simp_all add: allocated_refunded_def)

lemma debit_state_ok_frame [simp]:
  "debit_state_ok (s\<lparr>accounts := v0\<rparr>) x = debit_state_ok s x"
  "debit_state_ok (s\<lparr>orders := v1\<rparr>) x = debit_state_ok s x"
  "debit_state_ok (s\<lparr>lots := v2\<rparr>) x = debit_state_ok s x"
  "debit_state_ok (s\<lparr>debits := v3\<rparr>) x = debit_state_ok s x"
  "debit_state_ok (s\<lparr>pack_debts := v5\<rparr>) x = debit_state_ok s x"
  "debit_state_ok (s\<lparr>clawback_debts := v6\<rparr>) x = debit_state_ok s x"
  "debit_state_ok (s\<lparr>ledger := v7\<rparr>) x = debit_state_ok s x"
  "debit_state_ok (s\<lparr>incidents := v8\<rparr>) x = debit_state_ok s x"
  "debit_state_ok (s\<lparr>next_allocation := v9\<rparr>) x = debit_state_ok s x"
  "debit_state_ok (s\<lparr>uuid_next := v10\<rparr>) x = debit_state_ok s x"
  by (simp_all add: debit_state_ok_def)

lemma active_lots_frame [simp]:
  "active_lots (s\<lparr>accounts := v0\<rparr>) x y = active_lots s x y"
  "active_lots (s\<lparr>orders := v1\<rparr>) x y = active_lots s x y"
  "active_lots (s\<lparr>debits := v3\<rparr>) x y = active_lots s x y"
  "active_lots (s\<lparr>allocations := v4\<rparr>) x y = active_lots s x y"
  "active_lots (s\<lparr>pack_debts := v5\<rparr>) x y = active_lots s x y"
  "active_lots (s\<lparr>clawback_debts := v6\<rparr>) x y = active_lots s x y"
  "active_lots (s\<lparr>ledger := v7\<rparr>) x y = active_lots s x y"
  "active_lots (s\<lparr>incidents := v8\<rparr>) x y = active_lots s x y"
  "active_lots (s\<lparr>next_allocation := v9\<rparr>) x y = active_lots s x y"
  "active_lots (s\<lparr>uuid_next := v10\<rparr>) x y = active_lots s x y"
  by (simp_all add: active_lots_def)

lemma packBalanceAtoms_frame [simp]:
  "packBalanceAtoms (s\<lparr>accounts := v0\<rparr>) x y = packBalanceAtoms s x y"
  "packBalanceAtoms (s\<lparr>orders := v1\<rparr>) x y = packBalanceAtoms s x y"
  "packBalanceAtoms (s\<lparr>debits := v3\<rparr>) x y = packBalanceAtoms s x y"
  "packBalanceAtoms (s\<lparr>allocations := v4\<rparr>) x y = packBalanceAtoms s x y"
  "packBalanceAtoms (s\<lparr>pack_debts := v5\<rparr>) x y = packBalanceAtoms s x y"
  "packBalanceAtoms (s\<lparr>clawback_debts := v6\<rparr>) x y = packBalanceAtoms s x y"
  "packBalanceAtoms (s\<lparr>ledger := v7\<rparr>) x y = packBalanceAtoms s x y"
  "packBalanceAtoms (s\<lparr>incidents := v8\<rparr>) x y = packBalanceAtoms s x y"
  "packBalanceAtoms (s\<lparr>next_allocation := v9\<rparr>) x y = packBalanceAtoms s x y"
  "packBalanceAtoms (s\<lparr>uuid_next := v10\<rparr>) x y = packBalanceAtoms s x y"
  by (simp_all add: packBalanceAtoms_def)

lemma rows_ok_frame [simp]:
  "rows_ok (s\<lparr>incidents := v8\<rparr>) = rows_ok s"
  "rows_ok (s\<lparr>next_allocation := v9\<rparr>) = rows_ok s"
  "rows_ok (s\<lparr>uuid_next := v10\<rparr>) = rows_ok s"
  by (simp_all add: rows_ok_def)

lemma keys_ok_frame [simp]:
  "keys_ok (s\<lparr>ledger := v7\<rparr>) = keys_ok s"
  "keys_ok (s\<lparr>next_allocation := v9\<rparr>) = keys_ok s"
  "keys_ok (s\<lparr>uuid_next := v10\<rparr>) = keys_ok s"
  by (simp_all add: keys_ok_def)

lemma references_ok_frame [simp]:
  "references_ok (s\<lparr>clawback_debts := v6\<rparr>) = references_ok s"
  "references_ok (s\<lparr>next_allocation := v9\<rparr>) = references_ok s"
  "references_ok (s\<lparr>uuid_next := v10\<rparr>) = references_ok s"
  by (simp_all add: references_ok_def cong: debit_kind.case_cong source.case_cong)

lemma lots_inv_frame [simp]:
  "lots_inv \<delta> (s\<lparr>accounts := v0\<rparr>) = lots_inv \<delta> s"
  "lots_inv \<delta> (s\<lparr>debits := v3\<rparr>) = lots_inv \<delta> s"
  "lots_inv \<delta> (s\<lparr>clawback_debts := v6\<rparr>) = lots_inv \<delta> s"
  "lots_inv \<delta> (s\<lparr>ledger := v7\<rparr>) = lots_inv \<delta> s"
  "lots_inv \<delta> (s\<lparr>incidents := v8\<rparr>) = lots_inv \<delta> s"
  "lots_inv \<delta> (s\<lparr>next_allocation := v9\<rparr>) = lots_inv \<delta> s"
  "lots_inv \<delta> (s\<lparr>uuid_next := v10\<rparr>) = lots_inv \<delta> s"
  by (simp_all add: lots_inv_def)

lemma debts_inv_frame [simp]:
  "debts_inv \<gamma> (s\<lparr>accounts := v0\<rparr>) = debts_inv \<gamma> s"
  "debts_inv \<gamma> (s\<lparr>orders := v1\<rparr>) = debts_inv \<gamma> s"
  "debts_inv \<gamma> (s\<lparr>clawback_debts := v6\<rparr>) = debts_inv \<gamma> s"
  "debts_inv \<gamma> (s\<lparr>ledger := v7\<rparr>) = debts_inv \<gamma> s"
  "debts_inv \<gamma> (s\<lparr>incidents := v8\<rparr>) = debts_inv \<gamma> s"
  "debts_inv \<gamma> (s\<lparr>next_allocation := v9\<rparr>) = debts_inv \<gamma> s"
  "debts_inv \<gamma> (s\<lparr>uuid_next := v10\<rparr>) = debts_inv \<gamma> s"
  by (simp_all add: debts_inv_def)

lemma debits_inv_frame [simp]:
  "debits_inv K (s\<lparr>accounts := v0\<rparr>) = debits_inv K s"
  "debits_inv K (s\<lparr>orders := v1\<rparr>) = debits_inv K s"
  "debits_inv K (s\<lparr>lots := v2\<rparr>) = debits_inv K s"
  "debits_inv K (s\<lparr>pack_debts := v5\<rparr>) = debits_inv K s"
  "debits_inv K (s\<lparr>clawback_debts := v6\<rparr>) = debits_inv K s"
  "debits_inv K (s\<lparr>ledger := v7\<rparr>) = debits_inv K s"
  "debits_inv K (s\<lparr>incidents := v8\<rparr>) = debits_inv K s"
  "debits_inv K (s\<lparr>next_allocation := v9\<rparr>) = debits_inv K s"
  "debits_inv K (s\<lparr>uuid_next := v10\<rparr>) = debits_inv K s"
  by (simp_all add: debits_inv_def)

lemma collections_inv_frame [simp]:
  "collections_inv (s\<lparr>accounts := v0\<rparr>) = collections_inv s"
  "collections_inv (s\<lparr>orders := v1\<rparr>) = collections_inv s"
  "collections_inv (s\<lparr>pack_debts := v5\<rparr>) = collections_inv s"
  "collections_inv (s\<lparr>clawback_debts := v6\<rparr>) = collections_inv s"
  "collections_inv (s\<lparr>ledger := v7\<rparr>) = collections_inv s"
  "collections_inv (s\<lparr>incidents := v8\<rparr>) = collections_inv s"
  "collections_inv (s\<lparr>uuid_next := v10\<rparr>) = collections_inv s"
  by (simp_all add: collections_inv_def)

section \<open>Account, ledger and sequence statements\<close>

lemma image_update_rows:
  "(\<And>x. x \<in> set xs \<Longrightarrow> P x \<Longrightarrow> g (f x) = g x) \<Longrightarrow> g ` set (update_rows P f xs) = g ` set xs"
  by (induction xs) auto

lemma ball_update_rows:
  "(\<forall>y \<in> set (update_rows P f xs). Q y) \<longleftrightarrow> (\<forall>x \<in> set xs. Q (if P x then f x else x))"
  by (auto simp: set_update_rows)

definition set_balance :: "string \<Rightarrow> int \<Rightarrow> store \<Rightarrow> store" where
  "set_balance i b s =
     s\<lparr>accounts := update_rows (\<lambda>a. acc_id a = i) (\<lambda>a. a\<lparr>acc_balance := b\<rparr>) (accounts s)\<rparr>"

lemma inv_set_balance:
  assumes "ledger_inv \<delta> \<gamma> K s" "bigint b"
  shows "ledger_inv \<delta> \<gamma> K (set_balance i b s)"
proof -
  note inv = ledger_invD [OF assms(1)]
  let ?A = "update_rows (\<lambda>a. acc_id a = i) (\<lambda>a. a\<lparr>acc_balance := b\<rparr>) (accounts s)"
  have ids: "map acc_id ?A = map acc_id (accounts s)" "acc_id ` set ?A = acc_id ` set (accounts s)"
    "map acc_customer ?A = map acc_customer (accounts s)"
    "map acc_subscription ?A = map acc_subscription (accounts s)"
    "map acc_external_ref ?A = map acc_external_ref (accounts s)"
    by (simp_all add: map_update_rows image_update_rows)
  have "rows_ok (set_balance i b s)"
    using inv(1) assms(2)
    by (simp add: rows_ok_def list_all_iff ball_update_rows set_balance_def account_check_def)
  moreover have "keys_ok (set_balance i b s)"
    using inv(2) by (simp add: keys_ok_def set_balance_def nullable_unique_def ids)
  moreover have "references_ok (set_balance i b s)"
    using inv(3) by (simp add: references_ok_def set_balance_def ids cong: debit_kind.case_cong source.case_cong)
  ultimately show ?thesis using inv(4-7) by (simp add: ledger_inv_def set_balance_def)
qed

lemma inv_ledger:
  assumes "ledger_inv \<delta> \<gamma> K s" "bigint (le_balance_after e)" "find_account s (le_account e) \<noteq> None"
  shows "ledger_inv \<delta> \<gamma> K (s\<lparr>ledger := ledger s @ [e]\<rparr>)"
proof -
  note inv = ledger_invD [OF assms(1)]
  from assms(3) have "le_account e \<in> acc_id ` set (accounts s)"
    by (metis find_account_Some image_eqI option.exhaust)
  with inv assms(2) show ?thesis
    by (simp add: ledger_inv_def rows_ok_def references_ok_def ledger_check_def
        cong: debit_kind.case_cong source.case_cong)
qed

lemma inv_clawback_debts:
  assumes "ledger_inv \<delta> \<gamma> K s" "\<And>d. d \<in> set (clawback_debts s) \<Longrightarrow> P d \<Longrightarrow>
      clawback_debt_check (f d) \<and> (cd_account (f d), cd_epoch (f d), cd_invoice (f d))
        = (cd_account d, cd_epoch d, cd_invoice d)"
  shows "ledger_inv \<delta> \<gamma> K (s\<lparr>clawback_debts := update_rows P f (clawback_debts s)\<rparr>)"
proof -
  note inv = ledger_invD [OF assms(1)]
  have "map (\<lambda>d. (cd_account d, cd_epoch d, cd_invoice d)) (update_rows P f (clawback_debts s))
      = map (\<lambda>d. (cd_account d, cd_epoch d, cd_invoice d)) (clawback_debts s)"
    using assms(2) by (intro map_update_rows) blast
  with inv assms(2) show ?thesis
    by (simp add: ledger_inv_def rows_ok_def keys_ok_def list_all_iff ball_update_rows)
qed

lemma inv_uuid: "ledger_inv \<delta> \<gamma> K (s\<lparr>uuid_next := n\<rparr>) = ledger_inv \<delta> \<gamma> K s"
  by (simp add: ledger_inv_def)

section \<open>Statements on lots\<close>

text \<open>An update of lots that keeps their identity.\<close>

lemma inv_update_lots:
  assumes inv: "ledger_inv \<delta> \<gamma> K s"
    and keep: "\<And>l. l \<in> set (lots s) \<Longrightarrow> P l \<Longrightarrow> lot_id (f l) = lot_id l \<and> lot_order (f l) = lot_order l \<and>
      lot_account (f l) = lot_account l \<and> lot_original (f l) = lot_original l \<and>
      lot_clawed (f l) = lot_clawed l"
    and check: "\<And>l. l \<in> set (lots s) \<Longrightarrow> P l \<Longrightarrow> lot_check l \<Longrightarrow> lot_check (f l)"
    and active: "\<And>l. l \<in> set (lots s) \<Longrightarrow> P l \<Longrightarrow>
      (lot_status (f l) = LotActive \<longrightarrow> lot_expired (f l) = 0) \<and>
      (0 < lot_remaining (f l) \<longrightarrow> active_debt s (lot_order l) = 0) \<and>
      (lot_status (f l) \<in> {LotRefunded, LotDisputed} \<longrightarrow> lot_status l \<in> {LotRefunded, LotDisputed})"
    and gap: "\<And>l. l \<in> set (lots s) \<Longrightarrow> \<delta>' (lot_order l) = \<delta> (lot_order l) +
      (if P l then lot_remaining (f l) + lot_expired (f l) - lot_remaining l - lot_expired l else 0)"
  shows "ledger_inv \<delta>' \<gamma> K (s\<lparr>lots := update_rows P f (lots s)\<rparr>)"
proof -
  note i = ledger_invD [OF inv]
  let ?L = "update_rows P f (lots s)"
  have maps: "map lot_id ?L = map lot_id (lots s)" "map lot_order ?L = map lot_order (lots s)"
    "lot_order ` set ?L = lot_order ` set (lots s)"
    "(\<lambda>l. (lot_id l, lot_account l)) ` set ?L = (\<lambda>l. (lot_id l, lot_account l)) ` set (lots s)"
    using keep by (simp_all add: map_update_rows image_update_rows)
  have "rows_ok (s\<lparr>lots := ?L\<rparr>)"
    using i(1) check by (simp add: rows_ok_def list_all_iff ball_update_rows)
  moreover have "keys_ok (s\<lparr>lots := ?L\<rparr>)"
    using i(2) by (simp add: keys_ok_def maps)
  moreover have "references_ok (s\<lparr>lots := ?L\<rparr>)"
    using i(3) keep by (simp add: references_ok_def maps list_all_iff ball_update_rows
        cong: debit_kind.case_cong source.case_cong)
  moreover have "lots_inv \<delta>' (s\<lparr>lots := ?L\<rparr>)"
    unfolding lots_inv_def
  proof (intro ballI)
    fix l' assume "l' \<in> set (lots (s\<lparr>lots := ?L\<rparr>))"
    then obtain l where l: "l \<in> set (lots s)" and l': "l' = (if P l then f l else l)"
      by (auto simp: set_update_rows)
    have same: "lot_id l' = lot_id l" "lot_order l' = lot_order l" "lot_account l' = lot_account l"
      "lot_original l' = lot_original l" "lot_clawed l' = lot_clawed l"
      using keep [OF l] l' by auto
    from i(4) l have "funding_gap s l = \<delta> (lot_order l)" by (simp add: lots_inv_def)
    then have "funding_gap s l' = \<delta>' (lot_order l)"
      using gap [OF l] keep [OF l] l' by (cases "P l") (simp_all add: funding_gap_def)
    moreover note i(4) [unfolded lots_inv_def, THEN bspec, OF l] active [OF l]
    ultimately show "(\<exists>po\<in>set (orders (s\<lparr>lots := ?L\<rparr>)).
          po_id po = lot_order l' \<and> po_account po = lot_account l' \<and>
          po_pack_credits po = lot_original l' \<and>
          po_refunded_credits po = lot_clawed l' + debt_target (s\<lparr>lots := ?L\<rparr>) (lot_order l')) \<and>
         funding_gap (s\<lparr>lots := ?L\<rparr>) l' = \<delta>' (lot_order l') \<and>
         (lot_status l' = LotActive \<longrightarrow> lot_expired l' = 0) \<and>
         (0 < lot_remaining l' \<longrightarrow> active_debt (s\<lparr>lots := ?L\<rparr>) (lot_order l') = 0) \<and>
         (lot_status l' \<in> {LotRefunded, LotDisputed} \<longrightarrow>
          lot_clawed l' + debt_target (s\<lparr>lots := ?L\<rparr>) (lot_order l') = lot_original l')"
      using l' keep [OF l] by (cases "P l") auto
  qed
  moreover have "debts_inv \<gamma> (s\<lparr>lots := ?L\<rparr>)"
    using i(5) by (simp add: debts_inv_def maps)
  moreover have "collections_inv (s\<lparr>lots := ?L\<rparr>)"
    using i(7) keep unfolding collections_inv_def by (simp add: ball_update_rows)
  ultimately show ?thesis using i(6) by (simp add: ledger_inv_def)
qed

section \<open>Statements on debits, allocations and debts\<close>

text \<open>A surplus moved by an amount at one order, if there is one.\<close>

definition bump :: "(string \<Rightarrow> int) \<Rightarrow> string option \<Rightarrow> int \<Rightarrow> string \<Rightarrow> int" where
  "bump f k x = (\<lambda>j. f j + (if k = Some j then x else 0))"

lemma bump_None [simp]: "bump f None x = f"
  by (simp add: bump_def)

lemma bump_zero [simp]: "bump f k 0 = f"
  by (simp add: bump_def)

lemma bump_bump [simp]: "bump (bump f k x) k y = bump f k (x + y)"
  by (auto simp: bump_def)

lemma bump_swap: "bump (bump f k x) j y = bump (bump f j y) k x"
  by (auto simp: bump_def)

lemma bump_other: "k \<noteq> Some j \<Longrightarrow> bump f k x j = f j"
  by (simp add: bump_def)

lemma bump_same: "bump f (Some j) x j = f j + x"
  by (simp add: bump_def)

text \<open>The order whose lot a source is.\<close>

definition source_order :: "store \<Rightarrow> source \<Rightarrow> string option" where
  "source_order s src =
     (case src of FromSubscription e \<Rightarrow> None | FromLot k \<Rightarrow> map_option lot_order (find_lot s k))"

lemma source_order_lot:
  assumes "keys_ok s" "l \<in> set (lots s)"
  shows "source_order s src = Some (lot_order l) \<longleftrightarrow> src = FromLot (lot_id l)"
proof -
  have uniq: "k = lot_id l" if k: "find_lot s k = Some m" "lot_order m = lot_order l" for k m
  proof -
    from find_lot_Some [OF k(1)] have m: "m \<in> set (lots s)" "lot_id m = k" by auto
    then have "lot_of_order s (lot_order m) = Some m" by (intro find_member(4) [OF assms(1)])
    moreover have "lot_of_order s (lot_order l) = Some l" using assms by (intro find_member(4))
    ultimately show ?thesis using k(2) m(2) by (metis option.inject)
  qed
  have own: "find_lot s (lot_id l) = Some l" using assms by (rule find_member(3))
  show ?thesis
  proof (cases src)
    case (FromLot k)
    have "map_option lot_order (find_lot s k) = Some (lot_order l) \<longleftrightarrow> k = lot_id l"
    proof
      assume "map_option lot_order (find_lot s k) = Some (lot_order l)"
      then obtain m where "find_lot s k = Some m" "lot_order m = lot_order l" by blast
      then show "k = lot_id l" by (rule uniq)
    next
      assume "k = lot_id l"
      with own show "map_option lot_order (find_lot s k) = Some (lot_order l)" by simp
    qed
    with FromLot show ?thesis by (simp add: source_order_def)
  qed (simp add: source_order_def)
qed

lemma find_append:
  "find P (xs @ ys) = (case find P xs of None \<Rightarrow> find P ys | Some x \<Rightarrow> Some x)"
  by (induction xs) auto

lemma collects_insert:
  assumes "find_debit s (deb_key d) = None" "k \<noteq> deb_key d"
  shows "collects (s\<lparr>debits := debits s @ [d]\<rparr>) k = collects s k"
  using assms by (auto simp: collects_def find_debit_def find_append split: option.splits)

lemma allocation_debit:
  assumes "references_ok s" "a \<in> set (allocations s)"
  shows "\<exists>d \<in> set (debits s). deb_key d = al_debit a \<and> deb_account d = al_account a"
proof -
  have "(al_debit a, al_account a) \<in> (\<lambda>d. (deb_key d, deb_account d)) ` set (debits s)"
    using assms by (simp add: references_ok_def list_all_iff)
  then show ?thesis by auto
qed

lemma find_debit_None: "find_debit s k = None \<longleftrightarrow> k \<notin> deb_key ` set (debits s)"
  by (auto simp: find_debit_def find_None)

lemma sum_cong_rows: "(\<And>x. x \<in> set xs \<Longrightarrow> f x = g x) \<Longrightarrow> (\<Sum>x\<leftarrow>xs. f x) = (\<Sum>x\<leftarrow>xs. g x)"
  by (metis map_cong)

lemma inv_insert_debit:
  assumes inv: "ledger_inv \<delta> \<gamma> K s" and fresh: "find_debit s (deb_key d) = None"
    and row: "debit_check d" and acc: "find_account s (deb_account d) \<noteq> None"
    and debt: "\<And>c. deb_kind d = Collection c \<Longrightarrow>
      \<exists>p \<in> set (pack_debts s). pd_order p = c \<and> pd_account p = deb_account d"
  shows "ledger_inv \<delta> \<gamma> (insert (deb_key d) K) (s\<lparr>debits := debits s @ [d]\<rparr>)"
proof -
  note i = ledger_invD [OF inv]
  let ?s = "s\<lparr>debits := debits s @ [d]\<rparr>"
  have key: "al_debit a \<noteq> deb_key d" if "a \<in> set (allocations s)" for a
    using allocation_debit [OF i(3) that] fresh by (metis find_debit_None image_eqI)
  have col: "collects ?s (al_debit a) = collects s (al_debit a)" if "a \<in> set (allocations s)" for a
    using fresh key [OF that] by (rule collects_insert)
  then have out: "collection_outstanding ?s k = collection_outstanding s k" for k
    unfolding collection_outstanding_def by (simp cong: map_cong)
  have "keys_ok ?s"
    using i(2) fresh by (simp add: keys_ok_def find_debit_None)
  moreover have "rows_ok ?s" using i(1) row by (simp add: rows_ok_def)
  moreover have "references_ok ?s"
  proof -
    from acc have "deb_account d \<in> acc_id ` set (accounts s)"
      by (metis find_account_Some image_eqI option.exhaust)
    moreover have "case deb_kind d of Usage \<Rightarrow> True
        | Collection k \<Rightarrow> (k, deb_account d) \<in> (\<lambda>p. (pd_order p, pd_account p)) ` set (pack_debts s)"
    proof (cases "deb_kind d")
      case (Collection c)
      with debt obtain p where "p \<in> set (pack_debts s)" "pd_order p = c" "pd_account p = deb_account d"
        by blast
      with Collection show ?thesis by (force simp: image_iff)
    qed simp
    ultimately show ?thesis
      using i(3) by (simp add: references_ok_def list_all_iff cong: debit_kind.case_cong source.case_cong)
  qed
  moreover have "debts_inv \<gamma> ?s" using i(5) by (simp add: debts_inv_def out)
  moreover have "debits_inv (insert (deb_key d) K) ?s"
    using i(6) by (simp add: debits_inv_def)
  moreover have "collections_inv ?s"
    using i(7) unfolding collections_inv_def by (simp add: col)
  ultimately show ?thesis using i(4) by (simp add: ledger_inv_def)
qed

definition new_allocation :: "store \<Rightarrow> string \<Rightarrow> string \<Rightarrow> source \<Rightarrow> int \<Rightarrow> store" where
  "new_allocation s key acc src amount =
     s\<lparr>allocations := allocations s @
         [\<lparr>al_id = next_allocation s, al_debit = key, al_account = acc, al_source = src,
           al_amount = amount, al_refunded = 0\<rparr>],
       next_allocation := next_allocation s + 1\<rparr>"

lemma inv_new_allocation:
  assumes inv: "ledger_inv \<delta> \<gamma> K s"
    and debit: "find_debit s key = Some d" "deb_account d = acc" "key \<in> K"
    and amount: "0 < amount" "bigint amount"
    and src: "\<And>k. src = FromLot k \<Longrightarrow> \<exists>l \<in> set (lots s). lot_id l = k \<and> lot_account l = acc"
    and uniq: "\<And>a. a \<in> set (allocations s) \<Longrightarrow> al_debit a = key \<Longrightarrow> al_source a \<noteq> src"
    and acyclic: "\<And>a k. collects s key \<noteq> None \<Longrightarrow> source_order s src = Some k \<Longrightarrow> collects s key \<noteq> Some k \<and>
      (a \<in> set (allocations s) \<longrightarrow> collects s (al_debit a) = Some k \<longrightarrow> pending_of a \<le> 0)"
  shows "ledger_inv (bump \<delta> (source_order s src) amount) (bump \<gamma> (collects s key) (- amount)) K
    (new_allocation s key acc src amount)"
proof -
  note i = ledger_invD [OF inv]
  let ?a = "\<lparr>al_id = next_allocation s, al_debit = key, al_account = acc, al_source = src,
    al_amount = amount, al_refunded = 0\<rparr>"
  let ?s = "new_allocation s key acc src amount"
  have sums: "allocated_outstanding ?s k = allocated_outstanding s k + (if src = FromLot k then amount else 0)"
    "collection_outstanding ?s k = collection_outstanding s k + (if collects s key = Some k then amount else 0)"
    for k
    by (simp_all add: new_allocation_def allocated_outstanding_def collection_outstanding_def
        pending_of_def)
  have frame: "accounts ?s = accounts s" "orders ?s = orders s" "lots ?s = lots s" "debits ?s = debits s"
    "pack_debts ?s = pack_debts s" "clawback_debts ?s = clawback_debts s" "ledger ?s = ledger s"
    "incidents ?s = incidents s" "allocations ?s = allocations s @ [?a]" "next_allocation ?s = next_allocation s + 1"
    "debt_target ?s = debt_target s" "active_debt ?s = active_debt s"
    "debt_released ?s = debt_released s" "collects ?s = collects s"
    by (simp_all add: new_allocation_def fun_eq_iff)
  have gap: "funding_gap ?s l = funding_gap s l + (if src = FromLot (lot_id l) then amount else 0)" for l
    by (simp add: funding_gap_def frame sums)
  have "rows_ok ?s"
    using i(1) amount by (simp add: rows_ok_def frame allocation_check_def)
  moreover have "keys_ok ?s"
  proof -
    have "(key, src) \<notin> (\<lambda>a. (al_debit a, al_source a)) ` set (allocations s)"
      using uniq by auto
    moreover have "next_allocation s \<notin> al_id ` set (allocations s)"
      using i(7) by (auto simp: collections_inv_def)
    ultimately show ?thesis using i(2) by (simp add: keys_ok_def frame)
  qed
  moreover have "references_ok ?s"
  proof -
    have "(key, acc) \<in> (\<lambda>d. (deb_key d, deb_account d)) ` set (debits s)"
      using debit find_debit_Some [OF debit(1)] by (auto simp: image_iff)
    moreover have "case src of FromSubscription e \<Rightarrow> True
        | FromLot k \<Rightarrow> (k, acc) \<in> (\<lambda>l. (lot_id l, lot_account l)) ` set (lots s)"
      using src by (cases src) (auto simp: image_iff)
    ultimately show ?thesis
      using i(3) by (simp add: references_ok_def frame list_all_iff cong: debit_kind.case_cong source.case_cong)
  qed
  moreover have "lots_inv (bump \<delta> (source_order s src) amount) ?s"
    using i(4) unfolding lots_inv_def frame
    by (simp add: gap bump_def source_order_lot [OF i(2)])
  moreover have "debts_inv (bump \<gamma> (collects s key) (- amount)) ?s"
    using i(5) unfolding debts_inv_def frame by (auto simp: sums bump_def)
  moreover have "debits_inv K ?s"
    using i(6) debit(3) unfolding debits_inv_def frame
    by (auto simp: debit_state_ok_def allocated_amount_def allocated_refunded_def frame)
  moreover have "collections_inv ?s"
    unfolding collections_inv_def
  proof (intro conjI ballI impI)
    fix a assume "a \<in> set (allocations ?s)"
    then show "al_id a < next_allocation ?s"
      using i(7) by (auto simp: frame collections_inv_def)
  next
    fix a b l
    assume a: "a \<in> set (allocations ?s)" and b: "b \<in> set (allocations ?s)" and l: "l \<in> set (lots ?s)"
      and ca: "collects ?s (al_debit a) \<noteq> None" and sa: "al_source a = FromLot (lot_id l)"
      and pa: "0 < pending_of a" and cb: "collects ?s (al_debit b) = Some (lot_order l)"
      and pb: "0 < pending_of b"
    from l have so: "source_order s (al_source a) = Some (lot_order l)"
      using source_order_lot [OF i(2)] sa by (simp add: frame)
    from a consider "a = ?a" | "a \<in> set (allocations s)" by (auto simp: frame)
    then show "al_id a < al_id b"
    proof cases
      case 1
      with ca so acyclic [of "lot_order l" b] b cb pb have False by (auto simp: frame)
      then show ?thesis ..
    next
      case 2
      from b consider "b = ?a" | "b \<in> set (allocations s)" by (auto simp: frame)
      then show ?thesis
        using 2 i(7) l ca sa pa cb pb by cases (auto simp: frame collections_inv_def)
    qed
  qed
  ultimately show ?thesis by (simp add: ledger_inv_def)
qed

lemma list_all_pairs: "list_all (\<lambda>p. (f p, g p) \<in> S) xs \<longleftrightarrow> (\<lambda>p. (f p, g p)) ` set xs \<subseteq> S"
  by (auto simp: list_all_iff)

text \<open>A debt collects \<open>x\<close> more atoms and releases \<open>y\<close> more.\<close>

definition move_debt :: "string \<Rightarrow> int \<Rightarrow> int \<Rightarrow> store \<Rightarrow> store" where
  "move_debt k x y s =
     s\<lparr>pack_debts := update_rows (\<lambda>d. pd_order d = k)
         (\<lambda>d. d\<lparr>pd_collected := pd_collected d + x, pd_released := pd_released d + y\<rparr>) (pack_debts s)\<rparr>"

lemma find_debt_move:
  "find_debt (move_debt k x y s) j = map_option (\<lambda>d. if pd_order d = k
     then d\<lparr>pd_collected := pd_collected d + x, pd_released := pd_released d + y\<rparr> else d) (find_debt s j)"
  unfolding find_debt_def move_debt_def by (simp add: find_update_rows_key)

lemma debt_move:
  assumes "find_debt s k = Some d"
  shows "debt_target (move_debt k x y s) = debt_target s"
    "debt_released (move_debt k x y s) = bump (debt_released s) (Some k) y"
    "debt_collected (move_debt k x y s) = bump (debt_collected s) (Some k) x"
  using assms
  by (auto simp: fun_eq_iff debt_target_def debt_released_def debt_collected_def find_debt_move bump_def
      split: option.splits dest: find_debt_Some)

lemma move_debt_frame [simp]:
  "accounts (move_debt k x y s) = accounts s" "orders (move_debt k x y s) = orders s"
  "lots (move_debt k x y s) = lots s" "debits (move_debt k x y s) = debits s"
  "allocations (move_debt k x y s) = allocations s"
  "clawback_debts (move_debt k x y s) = clawback_debts s" "ledger (move_debt k x y s) = ledger s"
  "next_allocation (move_debt k x y s) = next_allocation s"
  "uuid_source (move_debt k x y s) = uuid_source s" "uuid_next (move_debt k x y s) = uuid_next s"
  "incidents (move_debt k x y s) = incidents s"
  "collects (move_debt k x y s) = collects s"
  "allocated_outstanding (move_debt k x y s) = allocated_outstanding s"
  "collection_outstanding (move_debt k x y s) = collection_outstanding s"
  "debit_state_ok (move_debt k x y s) = debit_state_ok s"
  "find_debit (move_debt k x y s) = find_debit s" "find_lot (move_debt k x y s) = find_lot s"
  "find_account (move_debt k x y s) = find_account s" "find_order (move_debt k x y s) = find_order s"
  by (simp_all add: move_debt_def fun_eq_iff)

lemma inv_move_debt:
  assumes inv: "ledger_inv \<delta> \<gamma> K s" and d: "find_debt s k = Some d"
    and bounds: "0 \<le> pd_collected d + x" "0 \<le> y" "pd_collected d + x + pd_released d + y \<le> pd_target d"
  shows "ledger_inv (bump \<delta> (Some k) y) (bump \<gamma> (Some k) x) K (move_debt k x y s)"
proof -
  note i = ledger_invD [OF inv]
  let ?f = "\<lambda>d. d\<lparr>pd_collected := pd_collected d + x, pd_released := pd_released d + y\<rparr>"
  let ?D = "update_rows (\<lambda>d. pd_order d = k) ?f (pack_debts s)"
  let ?s = "move_debt k x y s"
  have debts: "pack_debts ?s = ?D" by (simp add: move_debt_def)
  have only: "e = d" if "e \<in> set (pack_debts s)" "pd_order e = k" for e
    using find_member(6) [OF i(2) that(1)] that(2) d by simp
  have dok: "debt_check d" using i(1) find_debt_Some [OF d] by (simp add: rows_ok_def list_all_iff)
  have keys: "map pd_order ?D = map pd_order (pack_debts s)"
    "(\<lambda>p. (pd_order p, pd_account p)) ` set ?D = (\<lambda>p. (pd_order p, pd_account p)) ` set (pack_debts s)"
    by (simp_all add: map_update_rows image_update_rows)
  have "rows_ok ?s"
    using i(1) bounds dok only
    by (auto simp: rows_ok_def list_all_iff debts ball_update_rows debt_check_def)
  moreover have "keys_ok ?s" using i(2) by (simp add: keys_ok_def debts keys)
  moreover have "references_ok ?s"
    using i(3) by (simp add: references_ok_def list_all_pairs debts keys
        cong: debit_kind.case_cong source.case_cong)
  moreover have "lots_inv (bump \<delta> (Some k) y) ?s"
    unfolding lots_inv_def
  proof (intro ballI)
    fix l assume "l \<in> set (lots ?s)"
    then have l: "l \<in> set (lots s)" by simp
    note il = i(4) [unfolded lots_inv_def, THEN bspec, OF l]
    have "active_debt ?s (lot_order l) = active_debt s (lot_order l) - (if lot_order l = k then y else 0)"
      by (simp add: active_debt_def debt_move [OF d] bump_def)
    moreover have "y = 0" if "active_debt s k = 0"
      using that bounds d dok by (simp add: active_debt_def debt_target_def debt_released_def debt_check_def)
    ultimately show "(\<exists>po\<in>set (orders ?s). po_id po = lot_order l \<and> po_account po = lot_account l \<and>
          po_pack_credits po = lot_original l \<and>
          po_refunded_credits po = lot_clawed l + debt_target ?s (lot_order l)) \<and>
         funding_gap ?s l = bump \<delta> (Some k) y (lot_order l) \<and>
         (lot_status l = LotActive \<longrightarrow> lot_expired l = 0) \<and>
         (0 < lot_remaining l \<longrightarrow> active_debt ?s (lot_order l) = 0) \<and>
         (lot_status l \<in> {LotRefunded, LotDisputed} \<longrightarrow>
          lot_clawed l + debt_target ?s (lot_order l) = lot_original l)"
      using il by (auto simp: debt_move [OF d] funding_gap_def bump_def)
  qed
  moreover have "debts_inv (bump \<gamma> (Some k) x) ?s"
    using i(5) unfolding debts_inv_def debts by (auto simp: ball_update_rows bump_def)
  moreover have "collections_inv ?s" using i(7) by (simp add: collections_inv_def)
  moreover have "debits_inv K ?s" using i(6) by (simp add: debits_inv_def)
  ultimately show ?thesis by (simp add: ledger_inv_def)
qed

text \<open>An allocation is refunded by \<open>x\<close> more atoms.\<close>

definition refund_allocation :: "int \<Rightarrow> int \<Rightarrow> store \<Rightarrow> store" where
  "refund_allocation i x s =
     s\<lparr>allocations := update_rows (\<lambda>a. al_id a = i) (\<lambda>a. a\<lparr>al_refunded := al_refunded a + x\<rparr>)
         (allocations s)\<rparr>"

lemma refund_allocation_frame [simp]:
  "accounts (refund_allocation i x s) = accounts s" "orders (refund_allocation i x s) = orders s"
  "lots (refund_allocation i x s) = lots s" "debits (refund_allocation i x s) = debits s"
  "pack_debts (refund_allocation i x s) = pack_debts s"
  "clawback_debts (refund_allocation i x s) = clawback_debts s"
  "ledger (refund_allocation i x s) = ledger s" "incidents (refund_allocation i x s) = incidents s"
  "next_allocation (refund_allocation i x s) = next_allocation s"
  "uuid_source (refund_allocation i x s) = uuid_source s"
  "uuid_next (refund_allocation i x s) = uuid_next s"
  "collects (refund_allocation i x s) = collects s" "debt_target (refund_allocation i x s) = debt_target s"
  "debt_released (refund_allocation i x s) = debt_released s"
  "active_debt (refund_allocation i x s) = active_debt s"
  "find_debit (refund_allocation i x s) = find_debit s" "find_lot (refund_allocation i x s) = find_lot s"
  "find_debt (refund_allocation i x s) = find_debt s"
  "find_account (refund_allocation i x s) = find_account s"
  "find_order (refund_allocation i x s) = find_order s"
  by (simp_all add: refund_allocation_def fun_eq_iff)

lemma inv_refund_allocation:
  assumes inv: "ledger_inv \<delta> \<gamma> K s" and a: "a \<in> set (allocations s)" "al_debit a \<in> K"
    and bounds: "0 \<le> x" "al_refunded a + x \<le> al_amount a"
  shows "ledger_inv (bump \<delta> (source_order s (al_source a)) (- x)) (bump \<gamma> (collects s (al_debit a)) x) K
    (refund_allocation (al_id a) x s)"
proof -
  note i = ledger_invD [OF inv]
  let ?f = "\<lambda>b. b\<lparr>al_refunded := al_refunded b + x\<rparr>"
  let ?A = "update_rows (\<lambda>b. al_id b = al_id a) ?f (allocations s)"
  let ?s = "refund_allocation (al_id a) x s"
  have A: "allocations ?s = ?A" by (simp add: refund_allocation_def)
  have dist: "distinct (map al_id (allocations s))" using i(2) by (simp add: keys_ok_def)
  have only: "b = a" if "b \<in> set (allocations s)" "al_id b = al_id a" for b
    using that a(1) dist by (meson distinct_map inj_onD)
  have keys: "map al_id ?A = map al_id (allocations s)"
    "map (\<lambda>a. (al_debit a, al_source a)) ?A = map (\<lambda>a. (al_debit a, al_source a)) (allocations s)"
    by (simp_all add: map_update_rows)
  have aok: "allocation_check a" using i(1) a(1) by (simp add: rows_ok_def list_all_iff)
  have sums: "allocated_outstanding ?s k = allocated_outstanding s k - (if al_source a = FromLot k then x else 0)"
    "collection_outstanding ?s k = collection_outstanding s k - (if collects s (al_debit a) = Some k then x else 0)"
    for k
    unfolding allocated_outstanding_def collection_outstanding_def A sum_update_rows [OF dist a(1)]
    by (simp_all add: pending_of_def)
  have other: "allocated_amount ?s k = allocated_amount s k"
    "k \<noteq> al_debit a \<Longrightarrow> allocated_refunded ?s k = allocated_refunded s k"
    "length (filter (\<lambda>a. al_debit a = k) (allocations ?s)) = length (filter (\<lambda>a. al_debit a = k) (allocations s))"
    for k
    unfolding allocated_amount_def allocated_refunded_def A sum_update_rows [OF dist a(1)]
    by (simp_all add: filter_update_rows)
  have "rows_ok ?s"
    using i(1) bounds aok only
    by (auto simp: rows_ok_def list_all_iff A ball_update_rows allocation_check_def)
  moreover have "keys_ok ?s" using i(2) by (simp add: keys_ok_def A keys)
  moreover have "references_ok ?s"
    using i(3) by (simp add: references_ok_def A list_all_iff ball_update_rows
        cong: debit_kind.case_cong source.case_cong)
  moreover have "lots_inv (bump \<delta> (source_order s (al_source a)) (- x)) ?s"
    unfolding lots_inv_def
  proof (intro ballI)
    fix l assume "l \<in> set (lots ?s)"
    then have l: "l \<in> set (lots s)" by simp
    have "funding_gap ?s l = bump \<delta> (source_order s (al_source a)) (- x) (lot_order l)"
      using i(4) l
      by (auto simp: lots_inv_def funding_gap_def sums bump_def source_order_lot [OF i(2) l])
    with i(4) [unfolded lots_inv_def, THEN bspec, OF l]
    show "(\<exists>po\<in>set (orders ?s). po_id po = lot_order l \<and> po_account po = lot_account l \<and>
          po_pack_credits po = lot_original l \<and>
          po_refunded_credits po = lot_clawed l + debt_target ?s (lot_order l)) \<and>
         funding_gap ?s l = bump \<delta> (source_order s (al_source a)) (- x) (lot_order l) \<and>
         (lot_status l = LotActive \<longrightarrow> lot_expired l = 0) \<and>
         (0 < lot_remaining l \<longrightarrow> active_debt ?s (lot_order l) = 0) \<and>
         (lot_status l \<in> {LotRefunded, LotDisputed} \<longrightarrow>
          lot_clawed l + debt_target ?s (lot_order l) = lot_original l)" by simp
  qed
  moreover have "debts_inv (bump \<gamma> (collects s (al_debit a)) x) ?s"
    using i(5) unfolding debts_inv_def by (auto simp: sums bump_def)
  moreover have "debits_inv K ?s"
    unfolding debits_inv_def
  proof (intro ballI impI)
    fix d assume "d \<in> set (debits ?s)" "deb_key d \<notin> K"
    then have "debit_state_ok s d" "deb_key d \<noteq> al_debit a"
      using i(6) a(2) by (auto simp: debits_inv_def)
    then show "debit_state_ok ?s d" by (simp add: debit_state_ok_def other)
  qed
  moreover have "collections_inv ?s"
  proof -
    have from_old: "\<exists>c \<in> set (allocations s). al_id c = al_id b \<and> al_debit c = al_debit b \<and>
        al_source c = al_source b \<and> pending_of b \<le> pending_of c" if "b \<in> set ?A" for b
    proof -
      from that obtain c where "c \<in> set (allocations s)" "b = (if al_id c = al_id a then ?f c else c)"
        by (auto simp: set_update_rows)
      with bounds(1) show ?thesis by (intro bexI [of _ c]) (auto simp: pending_of_def)
    qed
    show ?thesis
      unfolding collections_inv_def A
    proof (intro conjI ballI impI)
      fix b assume "b \<in> set ?A"
      from from_old [OF this] i(7) show "al_id b < next_allocation ?s"
        by (auto simp: collections_inv_def)
    next
      fix b c l
      assume b: "b \<in> set ?A" and c: "c \<in> set ?A" and l: "l \<in> set (lots ?s)"
        and h: "collects ?s (al_debit b) \<noteq> None" "al_source b = FromLot (lot_id l)"
          "0 < pending_of b" "collects ?s (al_debit c) = Some (lot_order l)" "0 < pending_of c"
      from from_old [OF b] obtain b' where b': "b' \<in> set (allocations s)" "al_id b' = al_id b"
        "al_debit b' = al_debit b" "al_source b' = al_source b" "pending_of b \<le> pending_of b'" by auto
      from from_old [OF c] obtain c' where c': "c' \<in> set (allocations s)" "al_id c' = al_id c"
        "al_debit c' = al_debit c" "pending_of c \<le> pending_of c'" by auto
      have "al_id b' < al_id c'"
        using i(7) b' c' l h unfolding collections_inv_def by fastforce
      then show "al_id b < al_id c" by (simp add: b' c')
    qed
  qed
  ultimately show ?thesis by (simp add: ledger_inv_def)
qed

text \<open>An open debit records what it restored and when it was refunded.\<close>

definition set_debit :: "string \<Rightarrow> int \<Rightarrow> int option \<Rightarrow> store \<Rightarrow> store" where
  "set_debit k r t s =
     s\<lparr>debits := update_rows (\<lambda>d. deb_key d = k) (\<lambda>d. d\<lparr>deb_restored := r, deb_refunded_at := t\<rparr>) (debits s)\<rparr>"

lemma find_debit_set:
  "find_debit (set_debit k r t s) j =
     map_option (\<lambda>d. if deb_key d = k then d\<lparr>deb_restored := r, deb_refunded_at := t\<rparr> else d) (find_debit s j)"
  unfolding find_debit_def set_debit_def by (simp add: find_update_rows_key)

lemma set_debit_frame [simp]:
  "accounts (set_debit k r t s) = accounts s" "orders (set_debit k r t s) = orders s"
  "lots (set_debit k r t s) = lots s" "allocations (set_debit k r t s) = allocations s"
  "pack_debts (set_debit k r t s) = pack_debts s"
  "clawback_debts (set_debit k r t s) = clawback_debts s" "ledger (set_debit k r t s) = ledger s"
  "next_allocation (set_debit k r t s) = next_allocation s"
  "uuid_source (set_debit k r t s) = uuid_source s" "uuid_next (set_debit k r t s) = uuid_next s"
  "incidents (set_debit k r t s) = incidents s"
  "debt_target (set_debit k r t s) = debt_target s" "active_debt (set_debit k r t s) = active_debt s"
  "allocated_outstanding (set_debit k r t s) = allocated_outstanding s"
  "funding_gap (set_debit k r t s) = funding_gap s"
  "debit_state_ok (set_debit k r t s) = debit_state_ok s"
  "find_lot (set_debit k r t s) = find_lot s" "find_debt (set_debit k r t s) = find_debt s"
  "find_account (set_debit k r t s) = find_account s" "find_order (set_debit k r t s) = find_order s"
  by (simp_all add: set_debit_def fun_eq_iff)

lemma collects_set_debit [simp]: "collects (set_debit k r t s) = collects s"
  by (auto simp: fun_eq_iff collects_def find_debit_set split: option.splits)

lemma inv_set_debit:
  assumes inv: "ledger_inv \<delta> \<gamma> K s" and k: "k \<in> K" "find_debit s k = Some d"
    and bounds: "0 \<le> r" "r \<le> deb_amount d"
  shows "ledger_inv \<delta> \<gamma> K (set_debit k r t s)"
proof -
  note i = ledger_invD [OF inv]
  let ?f = "\<lambda>d. d\<lparr>deb_restored := r, deb_refunded_at := t\<rparr>"
  let ?D = "update_rows (\<lambda>d. deb_key d = k) ?f (debits s)"
  let ?s = "set_debit k r t s"
  have D: "debits ?s = ?D" by (simp add: set_debit_def)
  have only: "e = d" if "e \<in> set (debits s)" "deb_key e = k" for e
    using find_member(5) [OF i(2) that(1)] that(2) k(2) by simp
  have keys: "map deb_key ?D = map deb_key (debits s)"
    "(\<lambda>d. (deb_key d, deb_account d)) ` set ?D = (\<lambda>d. (deb_key d, deb_account d)) ` set (debits s)"
    by (simp_all add: map_update_rows image_update_rows)
  have "rows_ok ?s"
    using i(1) bounds only by (auto simp: rows_ok_def list_all_iff D ball_update_rows debit_check_def)
  moreover have "keys_ok ?s" using i(2) by (simp add: keys_ok_def D keys)
  moreover have "references_ok ?s"
    using i(3) by (simp add: references_ok_def D keys list_all_iff ball_update_rows
        cong: debit_kind.case_cong source.case_cong)
  moreover have "lots_inv \<delta> ?s" using i(4) by (simp add: lots_inv_def)
  moreover have "debts_inv \<gamma> ?s"
    using i(5) by (simp add: debts_inv_def collection_outstanding_def)
  moreover have "debits_inv K ?s"
    using i(6) k(1) by (simp add: debits_inv_def D ball_update_rows)
  moreover have "collections_inv ?s" using i(7) by (simp add: collections_inv_def)
  ultimately show ?thesis by (simp add: ledger_inv_def)
qed

text \<open>A debit whose equation holds is no longer open.\<close>

lemma inv_close_debit:
  assumes "ledger_inv \<delta> \<gamma> (insert k K) s"
    and "\<And>d. find_debit s k = Some d \<Longrightarrow> debit_state_ok s d"
  shows "ledger_inv \<delta> \<gamma> (K - {k}) s"
proof -
  note i = ledger_invD [OF assms(1)]
  have "debit_state_ok s d" if d: "d \<in> set (debits s)" "deb_key d \<notin> K - {k}" for d
    using i(6) assms(2) find_member(5) [OF i(2) d(1)] d by (cases "deb_key d = k") (auto simp: debits_inv_def)
  with i show ?thesis by (simp add: ledger_inv_def debits_inv_def)
qed

lemma inv_mono: "ledger_inv \<delta> \<gamma> K s \<Longrightarrow> K \<subseteq> K' \<Longrightarrow> ledger_inv \<delta> \<gamma> K' s"
  by (auto simp: ledger_inv_def debits_inv_def)

end
