(* ===== verification/Credit_Charge.thy ===== *)
theory Credit_Charge
  imports Ledger_Steps Validation
begin

text \<open>
  The charge of the credit service (typescript/src/credits.ts, \<open>charge\<close> and the helpers before it)
  and the pack balance (typescript/src/credit-pack-funding.ts \<open>packBalanceAtoms\<close>): the request's
  validation, the lazy expiry of pack lots, the claim of the idempotency key, the consumption of the
  sources in order of expiry, and the replay. \<open>now\<close> is the instant of the transaction, \<open>asOf\<close> the
  sampled clock. Account identities are canonical UUID text.
\<close>

section \<open>Requests and results\<close>

datatype CreditInput = AmountObject CreditAmount | AmountValue jsval

datatype CreditOutcome = Charged | Refunded | Replayed | EpochExpired

record CreditResult =
  cr_outcome :: CreditOutcome
  cr_balance :: CreditAmount
  cr_requested :: CreditAmount
  cr_restored :: CreditAmount

definition validateIdempotencyKey :: "jsval \<Rightarrow> string result" where
  "validateIdempotencyKey value =
     (case value of
        JStr s \<Rightarrow>
          if s = [] \<or> s \<noteq> trim s \<or> byteLength s > 200 \<or> \<not> isPrintable s
          then Inl (TypeError ''idempotency_key must contain 1 to 200 visible characters without padding'')
          else Inr s
      | _ \<Rightarrow> Inl (TypeError ''idempotency_key must contain 1 to 200 visible characters without padding''))"

definition normalizeAmount :: "CreditInput \<Rightarrow> CreditAmount result" where
  "normalizeAmount value =
     bind_result
       (case value of
          AmountObject amount \<Rightarrow> Inr amount
        | AmountValue v \<Rightarrow> parseCreditAmount v ''amount'' False)
       (\<lambda>amount.
          if atoms amount = 0 then Inl (RangeError ''amount must be greater than zero'')
          else if atoms amount > MAX_CREDIT_ATOMS
          then Inl (RangeError ''amount exceeds the PostgreSQL bigint atom range'')
          else Inr amount)"

definition creditResult :: "CreditOutcome \<Rightarrow> int \<Rightarrow> CreditAmount \<Rightarrow> int \<Rightarrow> CreditResult result" where
  "creditResult outcome balance requested restored =
     bind_result (newCreditAmount balance) (\<lambda>b.
     bind_result (newCreditAmount restored) (\<lambda>r.
       Inr \<lparr>cr_outcome = outcome, cr_balance = b, cr_requested = requested, cr_restored = r\<rparr>))"

section \<open>Expiry\<close>

definition expire_lot :: "int \<Rightarrow> funding_lot \<Rightarrow> funding_lot" where
  "expire_lot closedAt l =
     l\<lparr>lot_expired := lot_expired l + lot_remaining l, lot_status := LotExpired,
       lot_remaining := 0, lot_closed_at := Some closedAt\<rparr>"

definition lot_due :: "string \<Rightarrow> int \<Rightarrow> funding_lot \<Rightarrow> bool" where
  "lot_due acc asOf l \<longleftrightarrow> lot_account l = acc \<and> lot_status l = LotActive \<and> lot_expires l \<le> asOf"

definition expireAccountPackLots :: "string \<Rightarrow> int \<Rightarrow> bool tx" where
  "expireAccountPackLots acc asOf =
     (\<lambda>s. Inr (list_ex (lot_due acc asOf) (lots s) \<or>
               list_ex (\<lambda>l. lot_account l = acc \<and> lot_status l = LotExpired) (lots s),
               s\<lparr>lots := update_rows (lot_due acc asOf) (expire_lot asOf) (lots s)\<rparr>))"

section \<open>The charge\<close>

definition before_subscription :: "account \<Rightarrow> funding_lot \<Rightarrow> bool" where
  "before_subscription a l =
     (case acc_credit_expires a of None \<Rightarrow> True | Some expiresAt \<Rightarrow> lot_expires l \<le> expiresAt)"

definition consumeLot :: "string \<Rightarrow> string \<Rightarrow> funding_lot \<Rightarrow> int \<Rightarrow> int tx" where
  "consumeLot key acc l remaining =
     (if remaining = 0 then ret remaining
      else
        let lotAvailable = lot_remaining l;
            used = (if remaining < lotAvailable then remaining else lotAvailable) in
        if used \<le> 0 then ret remaining
        else
          bind_tx (update_lots (\<lambda>r. lot_id r = lot_id l \<and> lot_remaining r \<ge> used)
                     (\<lambda>r. r\<lparr>lot_remaining := lot_remaining r - used\<rparr>)) (\<lambda>rowCount.
          if rowCount \<noteq> 1 then throw (PlainError ''pack lot changed while charging credits'')
          else
            bind_tx (insert_allocation key acc (FromLot (lot_id l)) used) (\<lambda>_.
              ret (remaining - used))))"

fun consumeLots :: "string \<Rightarrow> string \<Rightarrow> funding_lot list \<Rightarrow> int \<Rightarrow> int tx" where
  "consumeLots key acc [] remaining = ret remaining"
| "consumeLots key acc (l # ls) remaining =
     bind_tx (consumeLot key acc l remaining) (consumeLots key acc ls)"

definition consumeSubscription :: "string \<Rightarrow> account \<Rightarrow> int \<Rightarrow> int \<Rightarrow> (int \<times> int) tx" where
  "consumeSubscription key a subscriptionAvailable remaining =
     (if remaining > 0 \<and> subscriptionAvailable > 0
      then
        let subscriptionUsed =
              (if remaining < subscriptionAvailable then remaining else subscriptionAvailable) in
        bind_tx (insert_allocation key (acc_id a) (FromSubscription (acc_epoch a)) subscriptionUsed)
          (\<lambda>_. ret (remaining - subscriptionUsed, subscriptionUsed))
      else ret (remaining, 0))"

definition recordSubscriptionUse :: "string \<Rightarrow> account \<Rightarrow> int \<Rightarrow> int \<Rightarrow> unit tx" where
  "recordSubscriptionUse key a subscriptionAvailable subscriptionUsed =
     (if subscriptionUsed > 0
      then
        let subscriptionBalance = subscriptionAvailable - subscriptionUsed in
        bind_tx (update_accounts (\<lambda>r. acc_id r = acc_id a) (\<lambda>r. r\<lparr>acc_balance := subscriptionBalance\<rparr>))
          (\<lambda>_. insert_ledger (acc_id a) (- subscriptionUsed) subscriptionBalance ''usage_charge''
                 (acc_epoch a) (''usage:'' @ key) None)
      else ret ())"

definition unavailable_error :: "account \<Rightarrow> bool \<Rightarrow> error" where
  "unavailable_error a packWindowExpired =
     (if acc_status a \<noteq> SubActive \<and> \<not> packWindowExpired
      then CreditsUnavailableError ''subscription is not active''
      else if acc_revoked a \<and> \<not> packWindowExpired
      then CreditsUnavailableError ''the paid entitlement was revoked''
      else CreditsUnavailableError ''the paid credit window has expired'')"

definition replayCharge ::
  "string \<Rightarrow> CreditAmount \<Rightarrow> string \<Rightarrow> account \<Rightarrow> funding_lot list \<Rightarrow> int \<Rightarrow> CreditResult tx" where
  "replayCharge accountId normalized key a ls asOf =
     bind_tx (gets (\<lambda>s. find_debit s key)) (\<lambda>found.
       case found of
         None \<Rightarrow> throw (PlainError ''credit debit identity disappeared during conflict handling'')
       | Some existing \<Rightarrow>
           if deb_account existing \<noteq> accountId \<or> deb_amount existing \<noteq> atoms normalized
              \<or> deb_kind existing \<noteq> Usage
           then throw (TypeError ''idempotency key was already used with different parameters'')
           else
             lift_tx (creditResult Replayed (subscriptionAtoms a asOf + sum_list (map lot_remaining ls))
                        normalized (deb_restored existing)))"

definition freshCharge ::
  "CreditAmount \<Rightarrow> string \<Rightarrow> account \<Rightarrow> funding_lot list \<Rightarrow> bool \<Rightarrow> int \<Rightarrow> CreditResult tx" where
  "freshCharge normalized key a ls packWindowExpired asOf =
     (let amountAtoms = atoms normalized;
          subscriptionUsable = subscriptionSpendable a asOf;
          subscriptionAvailable = (if subscriptionUsable then acc_balance a else 0);
          packAvailable = sum_list (map lot_remaining ls);
          available = subscriptionAvailable + packAvailable in
      if available < amountAtoms
      then
        (if available = 0 \<and> ls = [] \<and> \<not> subscriptionUsable
         then throw (unavailable_error a packWindowExpired)
         else throw InsufficientCreditsError)
      else
        let before = (if subscriptionUsable then filter (before_subscription a) ls else ls);
            after = (if subscriptionUsable then filter (\<lambda>l. \<not> before_subscription a l) ls else []) in
        bind_tx (consumeLots key (acc_id a) before amountAtoms) (\<lambda>remaining.
        bind_tx (consumeSubscription key a subscriptionAvailable remaining) (\<lambda>(remaining, subscriptionUsed).
        bind_tx (consumeLots key (acc_id a) after remaining) (\<lambda>remaining.
        if remaining \<noteq> 0
        then throw (PlainError ''credit source allocation did not satisfy the debit'')
        else
          bind_tx (recordSubscriptionUse key a subscriptionAvailable subscriptionUsed) (\<lambda>_.
            lift_tx (creditResult Charged (available - amountAtoms) normalized 0))))))"

definition charge_body :: "string \<Rightarrow> CreditAmount \<Rightarrow> string \<Rightarrow> int \<Rightarrow> int \<Rightarrow> CreditResult tx" where
  "charge_body accountId normalized key now asOf =
     bind_tx (gets (\<lambda>s. find_account s accountId)) (\<lambda>found.
       case found of
         None \<Rightarrow> throw CreditAccountNotFoundError
       | Some a \<Rightarrow>
           bind_tx (expireAccountPackLots (acc_id a) asOf) (\<lambda>packWindowExpired.
           bind_tx (gets (\<lambda>s. active_lots s (acc_id a) asOf)) (\<lambda>ls.
           bind_tx (insert_debit_if_new
                      \<lparr>deb_key = key, deb_account = acc_id a, deb_amount = atoms normalized,
                       deb_epoch = acc_epoch a, deb_kind = Usage, deb_restored = 0,
                       deb_created = now, deb_refunded_at = None\<rparr>) (\<lambda>claimed.
             if \<not> claimed then replayCharge accountId normalized key a ls asOf
             else freshCharge normalized key a ls packWindowExpired asOf))))"

definition charge ::
  "string \<Rightarrow> CreditInput \<Rightarrow> jsval \<Rightarrow> int \<Rightarrow> int \<Rightarrow> store \<Rightarrow> CreditResult result \<times> store" where
  "charge accountId amount idempotencyKeyInput now asOf s =
     (case normalizeAmount amount of
        Inl e \<Rightarrow> (Inl e, s)
      | Inr normalized \<Rightarrow>
          (case validateIdempotencyKey idempotencyKeyInput of
             Inl e \<Rightarrow> (Inl e, s)
           | Inr key \<Rightarrow> transaction (charge_body accountId normalized key now asOf) s))"

section \<open>The order of consumption\<close>

text \<open>
  The specification of first-expires-first-out consumption: take from each source in turn
  until the amount is met.
\<close>

fun greedy :: "('a \<times> int) list \<Rightarrow> int \<Rightarrow> ('a \<times> int) list" where
  "greedy [] r = []"
| "greedy ((k, available) # xs) r =
     (if r \<le> 0 \<or> available \<le> 0 then greedy xs r
      else (k, min r available) # greedy xs (r - min r available))"

text \<open>
  The sources of an account in that order: the lots that expire no later than the subscription's
  credits, the subscription, the other lots; without a spendable subscription all lots.
\<close>

definition fefo_sources :: "store \<Rightarrow> account \<Rightarrow> int \<Rightarrow> (source \<times> int) list" where
  "fefo_sources s a asOf =
     (let ls = active_lots s (acc_id a) asOf; lot = (\<lambda>l. (FromLot (lot_id l), lot_remaining l)) in
      if subscriptionSpendable a asOf
      then map lot (filter (before_subscription a) ls)
           @ [(FromSubscription (acc_epoch a), acc_balance a)]
           @ map lot (filter (\<lambda>l. \<not> before_subscription a l) ls)
      else map lot ls)"

text \<open>The allocation rows of a plan of consumption.\<close>

fun plan_rows :: "int \<Rightarrow> string \<Rightarrow> string \<Rightarrow> (source \<times> int) list \<Rightarrow> allocation list" where
  "plan_rows i key acc [] = []"
| "plan_rows i key acc ((src, x) # plan) =
     \<lparr>al_id = i, al_debit = key, al_account = acc, al_source = src, al_amount = x, al_refunded = 0\<rparr>
     # plan_rows (i + 1) key acc plan"

section \<open>Facts on greedy plans\<close>

lemma greedy_none: "r \<le> 0 \<Longrightarrow> greedy xs r = []"
  by (induction xs r rule: greedy.induct) auto

lemma greedy_total:
  "0 \<le> r \<Longrightarrow> \<forall>p \<in> set xs. 0 \<le> snd p \<Longrightarrow>
   (\<Sum>p\<leftarrow>greedy xs r. snd p) = min r (\<Sum>p\<leftarrow>xs. snd p)"
proof (induction xs r rule: greedy.induct)
  case (2 k a xs r)
  have "0 \<le> (\<Sum>p\<leftarrow>xs. snd p)" using 2(4) by (intro sum_list_int_nonneg) auto
  with 2 show ?case by (auto simp: greedy_none min_def)
qed simp

lemma greedy_bounds: "(k, x) \<in> set (greedy xs r) \<Longrightarrow> 0 < x \<and> (\<exists>a. (k, a) \<in> set xs \<and> x \<le> a)"
  by (induction xs r rule: greedy.induct) (auto split: if_splits)

lemma greedy_keys: "fst ` set (greedy xs r) \<subseteq> fst ` set xs"
  by (induction xs r rule: greedy.induct) auto

lemma greedy_distinct: "distinct (map fst xs) \<Longrightarrow> distinct (map fst (greedy xs r))"
proof (induction xs r rule: greedy.induct)
  case (2 k a xs r)
  have "k \<notin> fst ` set (greedy xs q)" for q
    using greedy_keys [of xs q] 2(3) by auto
  with 2 show ?case by simp
qed simp

lemma greedy_append:
  "0 \<le> r \<Longrightarrow> greedy (xs @ ys) r = greedy xs r @ greedy ys (r - (\<Sum>p\<leftarrow>greedy xs r. snd p))"
  by (induction xs r rule: greedy.induct) (auto simp: greedy_none algebra_simps)

section \<open>Taking from a source\<close>

definition take_source :: "string \<Rightarrow> string \<Rightarrow> source \<times> int \<Rightarrow> store \<Rightarrow> store" where
  "take_source key acc p s =
     new_allocation
       (case fst p of
          FromSubscription e \<Rightarrow> s
        | FromLot k \<Rightarrow> s\<lparr>lots := update_rows (\<lambda>l. lot_id l = k)
            (\<lambda>l. l\<lparr>lot_remaining := lot_remaining l - snd p\<rparr>) (lots s)\<rparr>) key acc (fst p) (snd p)"

definition take_all :: "string \<Rightarrow> string \<Rightarrow> (source \<times> int) list \<Rightarrow> store \<Rightarrow> store" where
  "take_all key acc plan s = fold (take_source key acc) plan s"

lemma take_all_simps [simp]:
  "take_all key acc [] s = s"
  "take_all key acc (p # plan) s = take_all key acc plan (take_source key acc p s)"
  "take_all key acc (plan @ plan') s = take_all key acc plan' (take_all key acc plan s)"
  by (simp_all add: take_all_def)

lemma take_source_frame [simp]:
  "accounts (take_source key acc p s) = accounts s" "orders (take_source key acc p s) = orders s"
  "debits (take_source key acc p s) = debits s" "pack_debts (take_source key acc p s) = pack_debts s"
  "ledger (take_source key acc p s) = ledger s" "uuid_next (take_source key acc p s) = uuid_next s"
  "uuid_source (take_source key acc p s) = uuid_source s"
  "clawback_debts (take_source key acc p s) = clawback_debts s"
  "next_allocation (take_source key acc p s) = next_allocation s + 1"
  "find_debit (take_source key acc p s) = find_debit s" "collects (take_source key acc p s) = collects s"
  "find_account (take_source key acc p s) = find_account s"
  by (simp_all add: take_source_def new_allocation_def fun_eq_iff split: source.splits)

lemma take_source_allocations:
  "allocations (take_source key acc p s) = allocations s @
     [\<lparr>al_id = next_allocation s, al_debit = key, al_account = acc, al_source = fst p,
       al_amount = snd p, al_refunded = 0\<rparr>]"
  by (simp add: take_source_def new_allocation_def split: source.splits)

lemma take_source_lots:
  "lots (take_source key acc (FromLot k, x) s) =
     update_rows (\<lambda>l. lot_id l = k) (\<lambda>l. l\<lparr>lot_remaining := lot_remaining l - x\<rparr>) (lots s)"
  "lots (take_source key acc (FromSubscription e, x) s) = lots s"
  by (simp_all add: take_source_def new_allocation_def)

lemma take_all_frame [simp]:
  "accounts (take_all key acc plan s) = accounts s" "orders (take_all key acc plan s) = orders s"
  "debits (take_all key acc plan s) = debits s" "pack_debts (take_all key acc plan s) = pack_debts s"
  "ledger (take_all key acc plan s) = ledger s" "uuid_next (take_all key acc plan s) = uuid_next s"
  "uuid_source (take_all key acc plan s) = uuid_source s"
  "clawback_debts (take_all key acc plan s) = clawback_debts s"
  "find_debit (take_all key acc plan s) = find_debit s" "collects (take_all key acc plan s) = collects s"
  "find_account (take_all key acc plan s) = find_account s"
  by (induction plan arbitrary: s) simp_all

lemma take_all_allocations:
  "allocations (take_all key acc plan s) = allocations s @ plan_rows (next_allocation s) key acc plan"
proof (induction plan arbitrary: s)
  case (Cons p plan)
  then show ?case by (cases p) (simp add: take_source_allocations)
qed simp

lemma lot_unique:
  assumes "keys_ok s" "r \<in> set (lots s)" "l \<in> set (lots s)"
  shows "lot_id r = lot_id l \<longleftrightarrow> r = l" "lot_order r = lot_order l \<longleftrightarrow> r = l"
  using assms find_member(3,4) [OF assms(1)] by (metis option.inject)+

text \<open>Taking at most what a lot of the account holds keeps the invariant.\<close>

lemma inv_lot_remaining:
  assumes inv: "ledger_inv \<delta> \<gamma> K s" and l: "l \<in> set (lots s)"
    and x: "0 \<le> x" "x \<le> lot_remaining l"
  shows "ledger_inv (bump \<delta> (Some (lot_order l)) (- x)) \<gamma> K
    (s\<lparr>lots := update_rows (\<lambda>r. lot_id r = lot_id l)
        (\<lambda>r. r\<lparr>lot_remaining := lot_remaining r - x\<rparr>) (lots s)\<rparr>)"
proof -
  note i = ledger_invD [OF inv]
  note only = lot_unique [OF i(2) _ l]
  show ?thesis
  proof (rule inv_update_lots [OF inv])
    fix r assume r: "r \<in> set (lots s)" and "lot_id r = lot_id l"
    then have "r = l" by (simp add: only)
    with i(4) [unfolded lots_inv_def, THEN bspec, OF r] x show "(lot_status (r\<lparr>lot_remaining := lot_remaining r - x\<rparr>) = LotActive \<longrightarrow>
          lot_expired (r\<lparr>lot_remaining := lot_remaining r - x\<rparr>) = 0) \<and>
         (0 < lot_remaining (r\<lparr>lot_remaining := lot_remaining r - x\<rparr>) \<longrightarrow>
          active_debt s (lot_order r) = 0) \<and>
         (lot_status (r\<lparr>lot_remaining := lot_remaining r - x\<rparr>) \<in> {LotRefunded, LotDisputed} \<longrightarrow>
          lot_status r \<in> {LotRefunded, LotDisputed})"
      by auto
  next
    fix r assume r: "r \<in> set (lots s)" "lot_id r = lot_id l" "lot_check r"
    then have "r = l" by (simp add: only)
    with x r(3) show "lot_check (r\<lparr>lot_remaining := lot_remaining r - x\<rparr>)"
      by (auto simp: lot_check_def)
  next
    fix r assume "r \<in> set (lots s)"
    with only [of r] show "bump \<delta> (Some (lot_order l)) (- x) (lot_order r) = \<delta> (lot_order r) +
       (if lot_id r = lot_id l
        then lot_remaining (r\<lparr>lot_remaining := lot_remaining r - x\<rparr>) +
             lot_expired (r\<lparr>lot_remaining := lot_remaining r - x\<rparr>) - lot_remaining r - lot_expired r
        else 0)" by (auto simp: bump_def)
  qed simp
qed

lemma inv_take_source:
  assumes inv: "ledger_inv \<delta> \<gamma> K s"
    and debit: "find_debit s key = Some d" "deb_account d = acc" "deb_kind d = Usage" "key \<in> K"
    and x: "0 < x" "bigint x"
    and lot: "\<And>k. src = FromLot k \<Longrightarrow>
      \<exists>l \<in> set (lots s). lot_id l = k \<and> lot_account l = acc \<and> x \<le> lot_remaining l"
    and uniq: "\<And>a. a \<in> set (allocations s) \<Longrightarrow> al_debit a = key \<Longrightarrow> al_source a \<noteq> src"
  shows "ledger_inv \<delta> \<gamma> K (take_source key acc (src, x) s)"
proof -
  have usage: "collects s key = None" using debit by (simp add: collects_def)
  show ?thesis
  proof (cases src)
    case (FromSubscription e)
    have "ledger_inv (bump \<delta> (source_order s src) x) (bump \<gamma> (collects s key) (- x)) K
        (new_allocation s key acc src x)"
      using debit x uniq FromSubscription usage by (intro inv_new_allocation [OF inv]) auto
    then show ?thesis
      using FromSubscription usage by (simp add: take_source_def source_order_def)
  next
    case (FromLot k)
    with lot obtain l where l: "l \<in> set (lots s)" "lot_id l = k" "lot_account l = acc" "x \<le> lot_remaining l"
      by blast
    let ?s = "s\<lparr>lots := update_rows (\<lambda>r. lot_id r = lot_id l)
        (\<lambda>r. r\<lparr>lot_remaining := lot_remaining r - x\<rparr>) (lots s)\<rparr>"
    have inv1: "ledger_inv (bump \<delta> (Some (lot_order l)) (- x)) \<gamma> K ?s"
      using inv l x by (intro inv_lot_remaining) auto
    let ?l = "l\<lparr>lot_remaining := lot_remaining l - x\<rparr>"
    have member: "l\<lparr>lot_remaining := lot_remaining l - x\<rparr> \<in> set (lots ?s)"
      using l by (auto simp: set_update_rows)
    have order: "source_order ?s src = Some (lot_order l)"
      using source_order_lot [OF ledger_invD(2) [OF inv1] member] FromLot l by simp
    have "ledger_inv (bump (bump \<delta> (Some (lot_order l)) (- x)) (source_order ?s src) x)
        (bump \<gamma> (collects ?s key) (- x)) K (new_allocation ?s key acc src x)"
    proof (rule inv_new_allocation [OF inv1])
      fix k' assume "src = FromLot k'"
      with member l FromLot show "\<exists>l\<in>set (lots ?s). lot_id l = k' \<and> lot_account l = acc"
        by (intro bexI [of _ ?l]) simp_all
    qed (use debit x uniq usage in auto)
    from this [unfolded order] show ?thesis
      using FromLot usage l by (simp add: take_source_def)
  qed
qed

section \<open>Taking along a plan\<close>

abbreviation plan_total :: "('a \<times> int) list \<Rightarrow> int" where
  "plan_total plan \<equiv> (\<Sum>p\<leftarrow>plan. snd p)"

definition lot_sources :: "funding_lot list \<Rightarrow> (source \<times> int) list" where
  "lot_sources ls = map (\<lambda>l. (FromLot (lot_id l), lot_remaining l)) ls"

lemma lot_sources_simps [simp]:
  "lot_sources [] = []"
  "lot_sources (l # ls) = (FromLot (lot_id l), lot_remaining l) # lot_sources ls"
  by (simp_all add: lot_sources_def)

lemma one_row:
  assumes "distinct (map lot_id xs)" "r \<in> set xs" "lot_remaining r \<ge> x"
  shows "length (filter (\<lambda>l. lot_id l = lot_id r \<and> x \<le> lot_remaining l) xs) = 1"
    "update_rows (\<lambda>l. lot_id l = lot_id r \<and> x \<le> lot_remaining l) f xs
     = update_rows (\<lambda>l. lot_id l = lot_id r) f xs"
proof -
  have only: "lot_id l = lot_id r \<longleftrightarrow> l = r" if "l \<in> set xs" for l
    using assms(1,2) that by (auto simp: distinct_map dest: inj_onD)
  have "filter (\<lambda>l. lot_id l = lot_id r \<and> x \<le> lot_remaining l) xs = filter (\<lambda>l. l = r) xs"
    using only assms(3) by (auto intro: filter_cong)
  moreover have "distinct xs" using assms(1) by (simp add: distinct_map)
  ultimately show "length (filter (\<lambda>l. lot_id l = lot_id r \<and> x \<le> lot_remaining l) xs) = 1"
    using assms(2) by (simp add: distinct_length_filter Int_absorb2 flip: Collect_conv_if)
  show "update_rows (\<lambda>l. lot_id l = lot_id r \<and> x \<le> lot_remaining l) f xs
     = update_rows (\<lambda>l. lot_id l = lot_id r) f xs"
    using only assms(3) by (auto simp: update_rows_def)
qed

lemma consumeLot_run:
  assumes "distinct (map lot_id (lots s))" "r \<in> set (lots s)" "lot_id r = lot_id l"
    "lot_remaining r = lot_remaining l" "0 < rem" "0 < lot_remaining l"
  shows "consumeLot key acc l rem s =
    Inr (rem - min rem (lot_remaining l), take_source key acc (FromLot (lot_id l), min rem (lot_remaining l)) s)"
proof -
  let ?x = "min rem (lot_remaining l)"
  have x: "(if rem < lot_remaining l then rem else lot_remaining l) = ?x" "?x \<le> lot_remaining r" "0 < ?x"
    using assms by auto
  have one: "length (filter (\<lambda>q. lot_id q = lot_id l \<and> ?x \<le> lot_remaining q) (lots s)) = 1"
    "update_rows (\<lambda>q. lot_id q = lot_id l \<and> ?x \<le> lot_remaining q) f (lots s)
     = update_rows (\<lambda>q. lot_id q = lot_id l) f (lots s)" for f
    using one_row [OF assms(1,2) x(2)] assms(3) by simp_all
  from x(3) assms(5) show ?thesis
    unfolding consumeLot_def Let_def x(1) bind_tx_run update_lots_def
    by (simp add: one insert_allocation_def take_source_def new_allocation_def bind_tx_run
        del: One_nat_def)
qed

lemma consumeLots_run:
  "distinct (map lot_id (lots s)) \<Longrightarrow> distinct (map lot_id ls) \<Longrightarrow>
   \<forall>l \<in> set ls. \<exists>r \<in> set (lots s). lot_id r = lot_id l \<and> lot_remaining r = lot_remaining l \<Longrightarrow> 0 \<le> rem \<Longrightarrow>
   consumeLots key acc ls rem s =
     Inr (rem - plan_total (greedy (lot_sources ls) rem), take_all key acc (greedy (lot_sources ls) rem) s)"
proof (induction ls arbitrary: rem s)
  case (Cons l ls)
  show ?case
  proof (cases "rem \<le> 0 \<or> lot_remaining l \<le> 0")
    case True
    with Cons.prems have "consumeLot key acc l rem s = Inr (rem, s)"
      by (auto simp: consumeLot_def Let_def)
    with True Cons show ?thesis by (simp add: bind_tx_run)
  next
    case False
    let ?x = "min rem (lot_remaining l)"
    let ?s = "take_source key acc (FromLot (lot_id l), ?x) s"
    from Cons.prems obtain r where "r \<in> set (lots s)" "lot_id r = lot_id l" "lot_remaining r = lot_remaining l"
      by auto
    with False Cons.prems have step: "consumeLot key acc l rem s = Inr (rem - ?x, ?s)"
      by (intro consumeLot_run [where r = r]) auto
    have "\<exists>r \<in> set (lots ?s). lot_id r = lot_id q \<and> lot_remaining r = lot_remaining q" if q: "q \<in> set ls" for q
    proof -
      from q Cons.prems obtain r where r: "r \<in> set (lots s)" "lot_id r = lot_id q"
        "lot_remaining r = lot_remaining q" "lot_id q \<noteq> lot_id l" by fastforce
      then have "r \<in> set (lots ?s)" by (force simp: take_source_lots set_update_rows image_iff)
      with r show ?thesis by blast
    qed
    moreover have "map lot_id (lots ?s) = map lot_id (lots s)"
      by (simp add: take_source_lots map_update_rows)
    ultimately have "consumeLots key acc ls (rem - ?x) ?s =
        Inr (rem - ?x - plan_total (greedy (lot_sources ls) (rem - ?x)),
             take_all key acc (greedy (lot_sources ls) (rem - ?x)) ?s)"
      using Cons.prems by (intro Cons.IH) auto
    with False step show ?thesis by (simp add: bind_tx_run algebra_simps)
  qed
qed simp

lemma inv_take_all:
  assumes "ledger_inv \<delta> \<gamma> K s"
    and "find_debit s key = Some d" "deb_account d = acc" "deb_kind d = Usage" "key \<in> K"
    and "\<forall>p \<in> set plan. 0 < snd p \<and> bigint (snd p)" "distinct (map fst plan)"
    and "\<And>k x. (FromLot k, x) \<in> set plan \<Longrightarrow>
      \<exists>l \<in> set (lots s). lot_id l = k \<and> lot_account l = acc \<and> x \<le> lot_remaining l"
    and "\<And>a. a \<in> set (allocations s) \<Longrightarrow> al_debit a = key \<Longrightarrow> al_source a \<notin> fst ` set plan"
  shows "ledger_inv \<delta> \<gamma> K (take_all key acc plan s)"
  using assms
proof (induction plan arbitrary: s)
  case (Cons p plan)
  obtain src x where p: "p = (src, x)" by (cases p)
  let ?s = "take_source key acc p s"
  have "ledger_inv \<delta> \<gamma> K ?s"
    unfolding p using Cons.prems p by (intro inv_take_source [where d = d]) auto
  moreover have "\<exists>l \<in> set (lots ?s). lot_id l = k \<and> lot_account l = acc \<and> y \<le> lot_remaining l"
    if k: "(FromLot k, y) \<in> set plan" for k y
  proof -
    from k Cons.prems(8) [of k y] obtain l where l: "l \<in> set (lots s)" "lot_id l = k" "lot_account l = acc"
      "y \<le> lot_remaining l" by auto
    from k Cons.prems(7) p have "src \<noteq> FromLot k" by force
    with l have "l \<in> set (lots ?s)"
      unfolding p by (cases src) (force simp: take_source_lots set_update_rows image_iff)+
    with l show ?thesis by blast
  qed
  moreover have "al_source a \<notin> fst ` set plan"
    if "a \<in> set (allocations ?s)" "al_debit a = key" for a
  proof -
    from that(1) have "a \<in> set (allocations s) \<or> al_source a = src"
      by (auto simp: take_source_allocations p)
    with that(2) Cons.prems(9) [of a] Cons.prems(7) p show ?thesis by auto
  qed
  ultimately show ?case using Cons.prems by (simp add: Cons.IH)
qed simp

section \<open>The spendable balance\<close>

definition active_at :: "string \<Rightarrow> int \<Rightarrow> funding_lot \<Rightarrow> bool" where
  "active_at acc asOf l \<longleftrightarrow> lot_account l = acc \<and> lot_status l = LotActive \<and> lot_expires l > asOf"

lemma active_lots_set: "set (active_lots s acc asOf) = {l \<in> set (lots s). active_at acc asOf l}"
  by (auto simp: active_lots_def active_at_def)

lemma sum_list_sort_key: "(\<Sum>l\<leftarrow>sort_key f xs. (g l :: int)) = (\<Sum>l\<leftarrow>xs. g l)"
proof -
  have "mset (map g (sort_key f xs)) = mset (map g xs)" by simp
  then show ?thesis by (metis sum_mset_sum_list)
qed

lemma packBalance_sum:
  "packBalanceAtoms s acc asOf = (\<Sum>l\<leftarrow>lots s. if active_at acc asOf l then lot_remaining l else 0)"
proof -
  have "(\<Sum>l\<leftarrow>filter P xs. lot_remaining l) = (\<Sum>l\<leftarrow>xs. if P l then lot_remaining l else 0)"
    for P and xs :: "funding_lot list"
    by (induction xs) auto
  then show ?thesis
    by (simp add: packBalanceAtoms_def active_lots_def sum_list_sort_key active_at_def)
qed

fun lot_part :: "source \<times> int \<Rightarrow> int" where
  "lot_part (FromLot k, x) = x"
| "lot_part (FromSubscription e, x) = 0"

lemma packBalance_take:
  assumes "keys_ok s" "\<And>k x. (FromLot k, x) \<in> set plan \<Longrightarrow> \<exists>l \<in> set (lots s). lot_id l = k \<and> active_at acc asOf l"
  shows "packBalanceAtoms (take_all key acc plan s) acc asOf
    = packBalanceAtoms s acc asOf - (\<Sum>p\<leftarrow>plan. lot_part p)"
proof -
  have "distinct (map lot_id (lots s))" using assms(1) by (simp add: keys_ok_def)
  from this assms(2) show ?thesis
  proof (induction plan arbitrary: s)
    case (Cons p plan)
    let ?s = "take_source key acc p s"
    have ids: "map lot_id (lots ?s) = map lot_id (lots s)"
      by (cases p; cases "fst p") (auto simp: take_source_lots map_update_rows)
    have "packBalanceAtoms ?s acc asOf = packBalanceAtoms s acc asOf - lot_part p"
    proof (cases p)
      case (Pair src x)
      show ?thesis
      proof (cases src)
        case (FromLot k)
        with Pair Cons.prems(2) [of k x] obtain l where "l \<in> set (lots s)" "lot_id l = k" "active_at acc asOf l"
          by auto
        with Pair FromLot sum_update_rows [OF Cons.prems(1), of l] show ?thesis
          by (auto simp: packBalance_sum take_source_lots active_at_def)
      qed (simp add: Pair packBalance_sum take_source_lots)
    qed
    moreover have "\<exists>l \<in> set (lots ?s). lot_id l = k \<and> active_at acc asOf l"
      if k: "(FromLot k, x) \<in> set plan" for k x
    proof -
      from k Cons.prems(2) [of k x] obtain l where "l \<in> set (lots s)" "lot_id l = k" "active_at acc asOf l"
        by auto
      moreover have "\<exists>l' \<in> set (lots ?s). lot_id l' = lot_id l \<and> active_at acc asOf l' = active_at acc asOf l"
        if "l \<in> set (lots s)" for l
      proof (cases p)
        case (Pair src x)
        show ?thesis
        proof (cases src)
          case (FromLot j)
          have "(if lot_id l = j then l\<lparr>lot_remaining := lot_remaining l - x\<rparr> else l) \<in> set (lots ?s)"
            using that Pair FromLot by (auto simp: take_source_lots set_update_rows)
          then show ?thesis by (rule bexI [rotated]) (simp add: active_at_def)
        qed (use that Pair in \<open>auto simp: take_source_lots\<close>)
      qed
      ultimately show ?thesis by metis
    qed
    ultimately show ?case using Cons ids by simp
  qed simp
qed

section \<open>The run of a charge\<close>

definition expired :: "string \<Rightarrow> int \<Rightarrow> store \<Rightarrow> store" where
  "expired acc asOf s = s\<lparr>lots := update_rows (lot_due acc asOf) (expire_lot asOf) (lots s)\<rparr>"

lemma expired_frame [simp]:
  "accounts (expired acc asOf s) = accounts s" "orders (expired acc asOf s) = orders s"
  "debits (expired acc asOf s) = debits s" "pack_debts (expired acc asOf s) = pack_debts s"
  "allocations (expired acc asOf s) = allocations s" "ledger (expired acc asOf s) = ledger s"
  "clawback_debts (expired acc asOf s) = clawback_debts s"
  "next_allocation (expired acc asOf s) = next_allocation s"
  "find_account (expired acc asOf s) = find_account s" "find_debit (expired acc asOf s) = find_debit s"
  "uuid_source (expired acc asOf s) = uuid_source s" "uuid_next (expired acc asOf s) = uuid_next s"
  by (simp_all add: expired_def fun_eq_iff)

lemma inv_expired:
  assumes "ledger_inv \<delta> \<gamma> K s"
  shows "ledger_inv \<delta> \<gamma> K (expired acc asOf s)"
  unfolding expired_def
proof (rule inv_update_lots [OF assms])
  fix l assume l: "l \<in> set (lots s)" "lot_due acc asOf l"
  then show "(lot_status (expire_lot asOf l) = LotActive \<longrightarrow> lot_expired (expire_lot asOf l) = 0) \<and>
      (0 < lot_remaining (expire_lot asOf l) \<longrightarrow> active_debt s (lot_order l) = 0) \<and>
      (lot_status (expire_lot asOf l) \<in> {LotRefunded, LotDisputed} \<longrightarrow>
       lot_status l \<in> {LotRefunded, LotDisputed})"
    by (simp add: expire_lot_def)
  show "lot_check l \<Longrightarrow> lot_check (expire_lot asOf l)"
    by (auto simp: lot_check_def expire_lot_def)
qed (simp_all add: expire_lot_def)

lemma active_lots_expired [simp]: "active_lots (expired acc asOf s) acc asOf = active_lots s acc asOf"
proof -
  have "filter (\<lambda>l. lot_account l = acc \<and> lot_status l = LotActive \<and> asOf < lot_expires l)
          (update_rows (lot_due acc asOf) (expire_lot asOf) xs)
      = filter (\<lambda>l. lot_account l = acc \<and> lot_status l = LotActive \<and> asOf < lot_expires l) xs" for xs
    by (induction xs) (auto simp: lot_due_def expire_lot_def)
  then show ?thesis by (simp add: active_lots_def expired_def)
qed

definition settle_subscription :: "string \<Rightarrow> account \<Rightarrow> int \<Rightarrow> store \<Rightarrow> store" where
  "settle_subscription key a used s =
     (if used > 0
      then (set_balance (acc_id a) (acc_balance a - used) s)
        \<lparr>ledger := ledger s @
          [\<lparr>le_account = acc_id a, le_delta = - used, le_balance_after = acc_balance a - used, le_units = 0,
            le_reason = ''usage_charge'', le_epoch = acc_epoch a, le_event = Some (''usage:'' @ key),
            le_invoice = None, le_slot = None\<rparr>]\<rparr>
      else s)"

fun sub_part :: "source \<times> int \<Rightarrow> int" where
  "sub_part (FromLot k, x) = 0"
| "sub_part (FromSubscription e, x) = x"

lemma sub_part_lots: "fst ` set plan \<subseteq> fst ` set (lot_sources ls) \<Longrightarrow> (\<Sum>p\<leftarrow>plan. sub_part p) = 0"
proof (induction plan)
  case (Cons p plan)
  then show ?case by (cases p) (auto simp: lot_sources_def)
qed simp

lemma parts_total: "(\<Sum>p\<leftarrow>plan. lot_part p) + (\<Sum>p\<leftarrow>plan. sub_part p) = plan_total plan"
proof (induction plan)
  case (Cons p plan)
  then show ?case by (cases p; cases "fst p") auto
qed simp

lemma recordSubscriptionUse_run:
  "recordSubscriptionUse key a (acc_balance a) used s = Inr ((), settle_subscription key a used s)"
  "recordSubscriptionUse key a available 0 s = Inr ((), s)"
  by (simp_all add: recordSubscriptionUse_def settle_subscription_def Let_def update_accounts_def
      insert_ledger_def bind_tx_run set_balance_def)

definition sub_plan :: "account \<Rightarrow> int \<Rightarrow> (source \<times> int) list" where
  "sub_plan a r = greedy [(FromSubscription (acc_epoch a), acc_balance a)] r"

lemma consumeSubscription_run:
  assumes "0 \<le> r"
  shows "consumeSubscription key a (acc_balance a) r s =
    Inr ((r - plan_total (sub_plan a r), \<Sum>p\<leftarrow>sub_plan a r. sub_part p),
         take_all key (acc_id a) (sub_plan a r) s)"
proof (cases "r > 0 \<and> acc_balance a > 0")
  case True
  then show ?thesis
    by (simp add: consumeSubscription_def Let_def insert_allocation_def bind_tx_run sub_plan_def
        take_source_def new_allocation_def min_def)
next
  case False
  then have "sub_plan a r = []" by (auto simp: sub_plan_def)
  with False show ?thesis by (auto simp: consumeSubscription_def)
qed

lemma consumeSubscription_none: "consumeSubscription key a 0 r s = Inr ((r, 0), s)"
  by (simp add: consumeSubscription_def)

lemma sum_filter_split:
  fixes g :: "'r \<Rightarrow> int"
  shows "(\<Sum>x\<leftarrow>filter P xs. g x) + (\<Sum>x\<leftarrow>filter (\<lambda>x. \<not> P x) xs. g x) = (\<Sum>x\<leftarrow>xs. g x)"
  by (induction xs) auto

lemma lot_sources_total: "plan_total (lot_sources ls) = (\<Sum>l\<leftarrow>ls. lot_remaining l)"
  by (simp add: lot_sources_def comp_def)

lemma fefo_sources_alt:
  "fefo_sources s a asOf =
    (if subscriptionSpendable a asOf
     then lot_sources (filter (before_subscription a) (active_lots s (acc_id a) asOf))
       @ [(FromSubscription (acc_epoch a), acc_balance a)]
       @ lot_sources (filter (\<lambda>l. \<not> before_subscription a l) (active_lots s (acc_id a) asOf))
     else lot_sources (active_lots s (acc_id a) asOf))"
  by (simp add: fefo_sources_def lot_sources_def Let_def)

lemma fefo_total:
  "plan_total (fefo_sources s a asOf) =
     (if subscriptionSpendable a asOf then acc_balance a else 0) + packBalanceAtoms s (acc_id a) asOf"
  using sum_filter_split [of lot_remaining "before_subscription a" "active_lots s (acc_id a) asOf"]
  by (simp add: fefo_sources_alt lot_sources_total packBalanceAtoms_def)

lemma distinct_map_filter: "distinct (map f xs) \<Longrightarrow> distinct (map f (filter P xs))"
  by (induction xs) auto

lemma active_lots_distinct:
  assumes "keys_ok s"
  shows "distinct (map lot_id (active_lots s acc asOf))"
proof -
  have "distinct (map lot_id (lots s))" using assms by (simp add: keys_ok_def)
  from distinct_map_filter [OF this] show ?thesis
    by (simp add: active_lots_def distinct_map)
qed

lemma fefo_distinct:
  assumes "keys_ok s"
  shows "distinct (map fst (fefo_sources s a asOf))"
proof -
  have "distinct (map fst (lot_sources ls)) = distinct (map lot_id ls)" for ls
    by (simp add: lot_sources_def comp_def distinct_map inj_on_def)
  moreover note active_lots_distinct [OF assms, of "acc_id a" asOf]
  ultimately show ?thesis
    unfolding fefo_sources_alt
    by (auto simp: distinct_map_filter lot_sources_def distinct_map inj_on_def)
qed

lemma take_all_lot_ids [simp]: "map lot_id (lots (take_all key acc plan s)) = map lot_id (lots s)"
proof (induction plan arbitrary: s)
  case (Cons p plan)
  have "map lot_id (lots (take_source key acc p s)) = map lot_id (lots s)"
    by (cases p; cases "fst p") (auto simp: take_source_lots map_update_rows)
  with Cons show ?case by simp
qed simp

lemma take_all_row:
  "l \<in> set (lots s) \<Longrightarrow> FromLot (lot_id l) \<notin> fst ` set plan \<Longrightarrow> l \<in> set (lots (take_all key acc plan s))"
proof (induction plan arbitrary: s)
  case (Cons p plan)
  obtain src x where p: "p = (src, x)" by (cases p)
  from Cons.prems p have "l \<in> set (lots (take_source key acc p s))"
    by (cases src) (force simp: take_source_lots set_update_rows image_iff)+
  with Cons show ?case by simp
qed simp

lemma freshCharge_steps:
  assumes "subscriptionSpendable a asOf" "(\<Sum>l\<leftarrow>ls. lot_remaining l) = packAvailable"
    and "atoms n \<le> acc_balance a + packAvailable"
    and "consumeLots key (acc_id a) (filter (before_subscription a) ls) (atoms n) s = Inr (r1, t1)"
    and "consumeSubscription key a (acc_balance a) r1 t1 = Inr ((r2, used), t2)"
    and "consumeLots key (acc_id a) (filter (\<lambda>l. \<not> before_subscription a l) ls) r2 t2 = Inr (0, t3)"
  shows "freshCharge n key a ls pw asOf s =
    Inr (\<lparr>cr_outcome = Charged, cr_balance = CreditAmount (acc_balance a + packAvailable - atoms n),
          cr_requested = n, cr_restored = CreditAmount 0\<rparr>, settle_subscription key a used t3)"
  using assms
  by (simp add: freshCharge_def Let_def bind_tx_run recordSubscriptionUse_run creditResult_def
      newCreditAmount_def)

lemma freshCharge_run:
  assumes ks: "keys_ok s" and rows: "rows_ok s" and amount: "0 < atoms n"
    and enough: "atoms n \<le> plan_total (fefo_sources s a asOf)"
    and balance: "0 \<le> acc_balance a"
  shows "freshCharge n key a (active_lots s (acc_id a) asOf) pw asOf s =
    Inr (\<lparr>cr_outcome = Charged, cr_balance = CreditAmount (plan_total (fefo_sources s a asOf) - atoms n),
          cr_requested = n, cr_restored = CreditAmount 0\<rparr>,
      settle_subscription key a (\<Sum>p\<leftarrow>greedy (fefo_sources s a asOf) (atoms n). sub_part p)
        (take_all key (acc_id a) (greedy (fefo_sources s a asOf) (atoms n)) s))"
proof -
  let ?ls = "active_lots s (acc_id a) asOf"
  let ?r = "atoms n"
  have in_lots: "\<exists>r \<in> set (lots s). lot_id r = lot_id l \<and> lot_remaining r = lot_remaining l"
    if "l \<in> set ?ls" for l using that by (auto simp: active_lots_set)
  have nonneg: "0 \<le> lot_remaining l" if "l \<in> set ?ls" for l
    using that rows by (auto simp: active_lots_set rows_ok_def list_all_iff lot_check_def)
  then have nonneg': "\<forall>p \<in> set (lot_sources xs). 0 \<le> snd p" if "set xs \<subseteq> set ?ls" for xs
    using that by (auto simp: lot_sources_def)
  have run: "consumeLots key (acc_id a) xs r t =
      Inr (r - plan_total (greedy (lot_sources xs) r), take_all key (acc_id a) (greedy (lot_sources xs) r) t)"
    if "set xs \<subseteq> set ?ls" "distinct (map lot_id xs)" "0 \<le> r"
      "\<And>l. l \<in> set xs \<Longrightarrow> \<exists>r \<in> set (lots t). lot_id r = lot_id l \<and> lot_remaining r = lot_remaining l"
      "distinct (map lot_id (lots t))" for xs r t
    using that by (intro consumeLots_run) auto
  have dist: "distinct (map lot_id (lots s))" using ks by (simp add: keys_ok_def)
  note dls = active_lots_distinct [OF ks, of "acc_id a" asOf]
  have result: "lift_tx (creditResult Charged (plan_total (fefo_sources s a asOf) - ?r) n 0) t =
      Inr (\<lparr>cr_outcome = Charged, cr_balance = CreditAmount (plan_total (fefo_sources s a asOf) - ?r),
          cr_requested = n, cr_restored = CreditAmount 0\<rparr>, t)" for t
    using enough by (simp add: creditResult_def newCreditAmount_def)
  show ?thesis
  proof (cases "subscriptionSpendable a asOf")
    case False
    then have src: "fefo_sources s a asOf = lot_sources ?ls" by (simp add: fefo_sources_alt)
    have "plan_total (greedy (lot_sources ?ls) ?r) = ?r"
      using enough amount nonneg' [of ?ls] by (subst greedy_total) (auto simp: src)
    moreover have "(\<Sum>p\<leftarrow>greedy (lot_sources ?ls) ?r. sub_part p) = 0"
      by (rule sub_part_lots [OF greedy_keys])
    moreover have "\<not> packBalanceAtoms s (acc_id a) asOf < ?r"
      using enough False by (simp add: fefo_total)
    ultimately show ?thesis
      using run [of ?ls ?r s] dls dist in_lots amount False result
      unfolding freshCharge_def src
      by (simp add: Let_def bind_tx_run consumeSubscription_none recordSubscriptionUse_run
          settle_subscription_def lot_sources_total packBalanceAtoms_def)
  next
    case True
    let ?B = "filter (before_subscription a) ?ls" and ?A = "filter (\<lambda>l. \<not> before_subscription a l) ?ls"
    let ?gB = "greedy (lot_sources ?B) ?r"
    let ?r1 = "?r - plan_total ?gB"
    let ?r2 = "?r1 - plan_total (sub_plan a ?r1)"
    let ?gA = "greedy (lot_sources ?A) ?r2"
    let ?t1 = "take_all key (acc_id a) ?gB s"
    let ?t2 = "take_all key (acc_id a) (sub_plan a ?r1) ?t1"
    have src: "fefo_sources s a asOf = lot_sources ?B @ [(FromSubscription (acc_epoch a), acc_balance a)]
        @ lot_sources ?A" using True by (simp add: fefo_sources_alt)
    have tB: "plan_total ?gB = min ?r (plan_total (lot_sources ?B))"
      using amount by (intro greedy_total nonneg') auto
    then have r1: "0 \<le> ?r1" by simp
    have tS: "plan_total (sub_plan a ?r1) = min ?r1 (acc_balance a)"
      unfolding sub_plan_def using r1 balance by (subst greedy_total) auto
    then have r2: "0 \<le> ?r2" by simp
    have plan: "greedy (fefo_sources s a asOf) ?r = ?gB @ sub_plan a ?r1 @ ?gA"
      using amount r1 unfolding src sub_plan_def by (simp only: greedy_append order.strict_implies_order)
    have total: "plan_total (greedy (fefo_sources s a asOf) ?r) = ?r"
    proof -
      have "\<forall>p \<in> set (fefo_sources s a asOf). 0 \<le> snd p"
        using balance nonneg by (auto simp: src lot_sources_def)
      with amount enough show ?thesis by (subst greedy_total) auto
    qed
    have subs: "(\<Sum>p\<leftarrow>greedy (fefo_sources s a asOf) ?r. sub_part p) = (\<Sum>p\<leftarrow>sub_plan a ?r1. sub_part p)"
      unfolding plan using sub_part_lots [OF greedy_keys] by simp
    have "consumeLots key (acc_id a) ?B ?r s = Inr (?r1, ?t1)"
      using amount dls dist in_lots by (intro run) (auto simp: distinct_map_filter)
    moreover have "consumeSubscription key a (acc_balance a) ?r1 ?t1
        = Inr ((?r1 - plan_total (sub_plan a ?r1), \<Sum>p\<leftarrow>sub_plan a ?r1. sub_part p), ?t2)"
      using r1 by (rule consumeSubscription_run)
    moreover have "consumeLots key (acc_id a) ?A ?r2 ?t2
        = Inr (?r2 - plan_total ?gA, take_all key (acc_id a) ?gA ?t2)"
    proof (rule run)
      fix l assume l: "l \<in> set ?A"
      then have "l \<in> set (lots s)" by (auto simp: active_lots_set)
      moreover have "FromLot (lot_id l) \<notin> fst ` set ?gB"
      proof
        assume "FromLot (lot_id l) \<in> fst ` set ?gB"
        with greedy_keys [of "lot_sources ?B" ?r]
        have "FromLot (lot_id l) \<in> fst ` set (lot_sources ?B)" by (rule subsetD)
        then obtain q where "q \<in> set ?B" "lot_id q = lot_id l" by (auto simp: lot_sources_def)
        moreover from this l dls have "q = l" by (auto simp: distinct_map dest: inj_onD)
        ultimately show False using l by simp
      qed
      moreover have "FromLot (lot_id l) \<notin> fst ` set (sub_plan a ?r1)"
        using greedy_keys [of "[(FromSubscription (acc_epoch a), acc_balance a)]" ?r1]
        unfolding sub_plan_def by auto
      ultimately have "l \<in> set (lots ?t2)" by (intro take_all_row)
      then show "\<exists>r \<in> set (lots ?t2). lot_id r = lot_id l \<and> lot_remaining r = lot_remaining l" by blast
    qed (use dls dist r2 in \<open>auto simp: distinct_map_filter\<close>)
    moreover have "?r2 - plan_total ?gA = 0" using total unfolding plan by simp
    ultimately show ?thesis
      unfolding subs fefo_total using True enough
      by (subst freshCharge_steps) (auto simp: fefo_total packBalanceAtoms_def plan)
  qed
qed

section \<open>The effect of a successful charge\<close>

lemma fefo_expired [simp]: "fefo_sources (expired (acc_id a) asOf s) a asOf = fefo_sources s a asOf"
  by (simp add: fefo_sources_def)

definition usage_debit :: "string \<Rightarrow> account \<Rightarrow> int \<Rightarrow> int \<Rightarrow> debit" where
  "usage_debit key a amount now =
     \<lparr>deb_key = key, deb_account = acc_id a, deb_amount = amount, deb_epoch = acc_epoch a,
      deb_kind = Usage, deb_restored = 0, deb_created = now, deb_refunded_at = None\<rparr>"

definition claimed :: "string \<Rightarrow> account \<Rightarrow> int \<Rightarrow> int \<Rightarrow> int \<Rightarrow> store \<Rightarrow> store" where
  "claimed key a amount now asOf s =
     (expired (acc_id a) asOf s)\<lparr>debits := debits s @ [usage_debit key a amount now]\<rparr>"

lemma claimed_frame [simp]:
  "accounts (claimed key a n now asOf s) = accounts s"
  "lots (claimed key a n now asOf s) = lots (expired (acc_id a) asOf s)"
  "allocations (claimed key a n now asOf s) = allocations s"
  "next_allocation (claimed key a n now asOf s) = next_allocation s"
  "ledger (claimed key a n now asOf s) = ledger s"
  "debits (claimed key a n now asOf s) = debits s @ [usage_debit key a n now]"
  "find_account (claimed key a n now asOf s) = find_account s"
  "active_lots (claimed key a n now asOf s) (acc_id a) asOf = active_lots s (acc_id a) asOf"
  "packBalanceAtoms (claimed key a n now asOf s) (acc_id a) asOf = packBalanceAtoms s (acc_id a) asOf"
  "fefo_sources (claimed key a n now asOf s) a asOf = fefo_sources s a asOf"
  by (simp_all add: claimed_def fun_eq_iff find_account_def packBalanceAtoms_def fefo_sources_def)

definition charge_plan :: "store \<Rightarrow> account \<Rightarrow> int \<Rightarrow> int \<Rightarrow> (source \<times> int) list" where
  "charge_plan s a amount asOf = greedy (fefo_sources s a asOf) amount"

definition charged :: "string \<Rightarrow> account \<Rightarrow> int \<Rightarrow> int \<Rightarrow> int \<Rightarrow> store \<Rightarrow> store" where
  "charged key a amount now asOf s =
     settle_subscription key a (\<Sum>p\<leftarrow>charge_plan s a amount asOf. sub_part p)
       (take_all key (acc_id a) (charge_plan s a amount asOf) (claimed key a amount now asOf s))"

lemma rows_balance:
  assumes "rows_ok s" "find_account s acc = Some a"
  shows "bigint (acc_balance a)"
  using assms find_account_Some [OF assms(2)] by (auto simp: rows_ok_def list_all_iff account_check_def)

lemma spendable_fefo:
  assumes "rows_ok s" "find_account s acc = Some a"
  shows "spendable s acc asOf = plan_total (fefo_sources s a asOf)"
  using rows_balance [OF assms] find_account_Some [OF assms(2)] assms(2)
  by (simp add: spendable_def fefo_total subscriptionAtoms_def)

lemma inv_claimed:
  assumes "settled s" "find_account s acc = Some a" "find_debit s key = None" "0 < n" "bigint n"
  shows "ledger_inv (\<lambda>_. 0) (\<lambda>_. 0) {key} (claimed key a n now asOf s)"
proof -
  let ?d = "usage_debit key a n now"
  have "ledger_inv (\<lambda>_. 0) (\<lambda>_. 0) {} (expired (acc_id a) asOf s)"
    using assms(1) unfolding settled_def by (rule inv_expired)
  then have "ledger_inv (\<lambda>_. 0) (\<lambda>_. 0) (insert (deb_key ?d) {})
      ((expired (acc_id a) asOf s)\<lparr>debits := debits (expired (acc_id a) asOf s) @ [?d]\<rparr>)"
    using assms(2-5) find_account_Some [OF assms(2)]
    by (intro inv_insert_debit) (simp_all add: usage_debit_def debit_check_def bigint_def)
  then show ?thesis by (simp add: claimed_def usage_debit_def)
qed

lemma find_debit_claimed:
  "find_debit s key = None \<Longrightarrow> find_debit (claimed key a n now asOf s) key = Some (usage_debit key a n now)"
  by (simp add: find_debit_def find_append usage_debit_def)

lemma no_rows_for:
  assumes "references_ok s" "find_debit s key = None" "a \<in> set (allocations s)"
  shows "al_debit a \<noteq> key"
  using allocation_debit [OF assms(1,3)] assms(2) by (metis find_debit_None image_eqI)

lemma sums_other_rows:
  assumes "\<And>a. a \<in> set xs \<Longrightarrow> al_debit a \<noteq> key"
  shows "(\<Sum>a\<leftarrow>xs. if al_debit a = key then (g a :: int) else 0) = 0"
  using assms by (induction xs) auto

lemma plan_rows_sums:
  "(\<Sum>a\<leftarrow>plan_rows i key acc plan. if al_debit a = key then al_amount a else 0) = plan_total plan"
  "(\<Sum>a\<leftarrow>plan_rows i key acc plan. if al_debit a = key then al_refunded a else 0) = 0"
proof (induction plan arbitrary: i)
  case (Cons p plan)
  case 1
  with Cons show ?case by (cases p) simp
  case 2
  with Cons show ?case by (cases p) simp
qed simp_all

lemma charge_plan_facts:
  assumes "settled s" "find_account s acc = Some a" "0 < n" "n \<le> spendable s acc asOf"
  shows "plan_total (charge_plan s a n asOf) = n"
    "distinct (map fst (charge_plan s a n asOf))"
    "\<And>k x. (FromLot k, x) \<in> set (charge_plan s a n asOf) \<Longrightarrow>
       0 < x \<and> (\<exists>l \<in> set (lots s). lot_id l = k \<and> active_at acc asOf l \<and> x \<le> lot_remaining l)"
    "\<And>e x. (FromSubscription e, x) \<in> set (charge_plan s a n asOf) \<Longrightarrow>
       0 < x \<and> x \<le> acc_balance a \<and> subscriptionSpendable a asOf"
    "(\<Sum>p\<leftarrow>charge_plan s a n asOf. sub_part p) \<le> acc_balance a"
    "0 \<le> (\<Sum>p\<leftarrow>charge_plan s a n asOf. sub_part p)"
    "\<not> subscriptionSpendable a asOf \<Longrightarrow> (\<Sum>p\<leftarrow>charge_plan s a n asOf. sub_part p) = 0"
proof -
  note i = ledger_invD [OF assms(1) [unfolded settled_def]]
  have acc: "acc_id a = acc" using find_account_Some [OF assms(2)] by simp
  have bal: "0 \<le> acc_balance a" using rows_balance [OF i(1) assms(2)] by (simp add: bigint_def)
  have lotrem: "0 \<le> lot_remaining l" if "l \<in> set (lots s)" for l
    using i(1) that by (simp add: rows_ok_def list_all_iff lot_check_def)
  have nonneg: "\<forall>p \<in> set (fefo_sources s a asOf). 0 \<le> snd p"
    using bal lotrem by (auto simp: fefo_sources_alt lot_sources_def active_lots_set)
  show "plan_total (charge_plan s a n asOf) = n"
    using assms(3,4) nonneg spendable_fefo [OF i(1) assms(2)]
    by (simp add: charge_plan_def greedy_total)
  show "distinct (map fst (charge_plan s a n asOf))"
    unfolding charge_plan_def by (intro greedy_distinct fefo_distinct i)
  show "0 < x \<and> (\<exists>l \<in> set (lots s). lot_id l = k \<and> active_at acc asOf l \<and> x \<le> lot_remaining l)"
    if "(FromLot k, x) \<in> set (charge_plan s a n asOf)" for k x
    using greedy_bounds [OF that [unfolded charge_plan_def]]
    by (auto simp: fefo_sources_alt lot_sources_def active_lots_set acc split: if_splits)
  show sub: "0 < x \<and> x \<le> acc_balance a \<and> subscriptionSpendable a asOf"
    if "(FromSubscription e, x) \<in> set (charge_plan s a n asOf)" for e x
    using greedy_bounds [OF that [unfolded charge_plan_def]]
    by (auto simp: fefo_sources_alt lot_sources_def split: if_splits)
  have subs: "(\<Sum>p\<leftarrow>charge_plan s a n asOf. sub_part p) = (\<Sum>p\<leftarrow>sub_plan a r. sub_part p)"
    if r: "subscriptionSpendable a asOf"
      "r = n - plan_total (greedy (lot_sources (filter (before_subscription a) (active_lots s (acc_id a) asOf))) n)" for r
  proof -
    let ?B = "lot_sources (filter (before_subscription a) (active_lots s (acc_id a) asOf))"
    have "plan_total (greedy ?B n) \<le> n"
      using assms(3) lotrem by (subst greedy_total) (auto simp: lot_sources_def active_lots_set)
    then have "0 \<le> r" using r by simp
    then show ?thesis
      using r assms(3) sub_part_lots [OF greedy_keys]
      unfolding charge_plan_def fefo_sources_alt sub_plan_def
      by (simp add: greedy_append)
  qed
  show none: "(\<Sum>p\<leftarrow>charge_plan s a n asOf. sub_part p) = 0" if "\<not> subscriptionSpendable a asOf"
    using that sub_part_lots [OF greedy_keys] by (simp add: charge_plan_def fefo_sources_alt)
  have one: "(\<Sum>p\<leftarrow>sub_plan a r. sub_part p) \<le> acc_balance a \<and> 0 \<le> (\<Sum>p\<leftarrow>sub_plan a r. sub_part p)" for r
    using bal by (auto simp: sub_plan_def)
  show "(\<Sum>p\<leftarrow>charge_plan s a n asOf. sub_part p) \<le> acc_balance a"
    using subs one none bal by (cases "subscriptionSpendable a asOf") auto
  show "0 \<le> (\<Sum>p\<leftarrow>charge_plan s a n asOf. sub_part p)"
    using subs one none bal by (cases "subscriptionSpendable a asOf") auto
qed

lemma bigint_between: "0 < x \<Longrightarrow> x \<le> y \<Longrightarrow> bigint y \<Longrightarrow> bigint x"
  by (simp add: bigint_def)

lemma settle_frame [simp]:
  "debits (settle_subscription key a u s) = debits s"
  "allocations (settle_subscription key a u s) = allocations s"
  "lots (settle_subscription key a u s) = lots s"
  "find_debit (settle_subscription key a u s) = find_debit s"
  "packBalanceAtoms (settle_subscription key a u s) = packBalanceAtoms s"
  "debit_state_ok (settle_subscription key a u s) = debit_state_ok s"
  by (simp_all add: settle_subscription_def set_balance_def fun_eq_iff)

lemma inv_settle:
  assumes "ledger_inv \<delta> \<gamma> K s" "find_account s (acc_id a) \<noteq> None" "bigint (acc_balance a)"
    "u \<le> acc_balance a"
  shows "ledger_inv \<delta> \<gamma> K (settle_subscription key a u s)"
proof (cases "u > 0")
  case True
  with assms(3,4) have b: "bigint (acc_balance a - u)" by (simp add: bigint_def)
  let ?s = "set_balance (acc_id a) (acc_balance a - u) s"
  let ?e = "\<lparr>le_account = acc_id a, le_delta = - u, le_balance_after = acc_balance a - u, le_units = 0,
      le_reason = ''usage_charge'', le_epoch = acc_epoch a, le_event = Some (''usage:'' @ key),
      le_invoice = None, le_slot = None\<rparr>"
  have "ledger_inv \<delta> \<gamma> K ?s" using assms(1) b by (rule inv_set_balance)
  moreover have "find_account ?s (acc_id a) \<noteq> None"
    using assms(2) by (auto simp: find_account_def set_balance_def find_update_rows_key)
  ultimately have "ledger_inv \<delta> \<gamma> K (?s\<lparr>ledger := ledger ?s @ [?e]\<rparr>)"
    using b by (intro inv_ledger) simp_all
  with True show ?thesis by (simp add: settle_subscription_def set_balance_def)
qed (simp add: settle_subscription_def assms)

lemma inv_taken:
  assumes "settled s" "find_account s acc = Some a" "find_debit s key = None" "0 < n" "bigint n"
    "n \<le> spendable s acc asOf"
  shows "ledger_inv (\<lambda>_. 0) (\<lambda>_. 0) {key}
    (take_all key (acc_id a) (charge_plan s a n asOf) (claimed key a n now asOf s))"
proof -
  note i = ledger_invD [OF assms(1) [unfolded settled_def]]
  note plan = charge_plan_facts [OF assms(1,2,4,6)]
  have acc: "acc_id a = acc" using find_account_Some [OF assms(2)] by simp
  have lotbig: "bigint (lot_remaining l)" if "l \<in> set (lots s)" for l
    using i(1) that by (auto simp: rows_ok_def list_all_iff lot_check_def bigint_def)
  have big: "0 < x \<and> bigint x" if "(src, x) \<in> set (charge_plan s a n asOf)" for src x
  proof (cases src)
    case (FromSubscription e)
    with that plan(4) [of e x] rows_balance [OF i(1) assms(2)] show ?thesis
      by (auto intro: bigint_between)
  next
    case (FromLot k)
    with that plan(3) [of k x] lotbig show ?thesis by (blast intro: bigint_between)
  qed
  show ?thesis
  proof (rule inv_take_all [where d = "usage_debit key a n now"])
    show "ledger_inv (\<lambda>_. 0) (\<lambda>_. 0) {key} (claimed key a n now asOf s)"
      using assms by (intro inv_claimed)
    show "\<forall>p\<in>set (charge_plan s a n asOf). 0 < snd p \<and> bigint (snd p)"
      using big by (metis prod.collapse)
    fix k x assume "(FromLot k, x) \<in> set (charge_plan s a n asOf)"
    from plan(3) [OF this] obtain l where l: "l \<in> set (lots s)" "lot_id l = k" "active_at acc asOf l"
      "x \<le> lot_remaining l" by blast
    then have "\<not> lot_due (acc_id a) asOf l" by (simp add: active_at_def lot_due_def)
    with l(1) have "l \<in> set (lots (expired (acc_id a) asOf s))"
      by (force simp: expired_def set_update_rows image_iff)
    with l show "\<exists>l\<in>set (lots (claimed key a n now asOf s)). lot_id l = k \<and>
        lot_account l = acc_id a \<and> x \<le> lot_remaining l"
      by (auto simp: active_at_def acc)
  next
    fix b assume "b \<in> set (allocations (claimed key a n now asOf s))" "al_debit b = key"
    with no_rows_for [OF i(3) assms(3)] show "al_source b \<notin> fst ` set (charge_plan s a n asOf)" by simp
  qed (use plan find_debit_claimed [OF assms(3)] in \<open>simp_all add: usage_debit_def\<close>)
qed

lemma settled_charged:
  assumes "settled s" "find_account s acc = Some a" "find_debit s key = None" "0 < n" "bigint n"
    "n \<le> spendable s acc asOf"
  shows "settled (charged key a n now asOf s)"
proof -
  note i = ledger_invD [OF assms(1) [unfolded settled_def]]
  note plan = charge_plan_facts [OF assms(1,2,4,6)]
  let ?t = "take_all key (acc_id a) (charge_plan s a n asOf) (claimed key a n now asOf s)"
  have "ledger_inv (\<lambda>_. 0) (\<lambda>_. 0) (insert key {}) (charged key a n now asOf s)"
    unfolding charged_def
  proof (rule inv_settle)
    show "ledger_inv (\<lambda>_. 0) (\<lambda>_. 0) (insert key {}) ?t" using inv_taken [OF assms] .
    show "find_account ?t (acc_id a) \<noteq> None"
      using assms(2) find_account_Some [OF assms(2)] by simp
  qed (use plan(5) rows_balance [OF i(1) assms(2)] in simp_all)
  moreover have "debit_state_ok (charged key a n now asOf s) d"
    if "find_debit (charged key a n now asOf s) key = Some d" for d
  proof -
    from that have d: "d = usage_debit key a n now"
      by (simp add: charged_def find_debit_claimed [OF assms(3)])
    have "allocated_amount ?t key = n" "allocated_refunded ?t key = 0"
      using plan(1) plan_rows_sums [of key "next_allocation s" "acc_id a" "charge_plan s a n asOf"]
        sums_other_rows [OF no_rows_for [OF i(3) assms(3)]]
      by (simp_all add: allocated_amount_def allocated_refunded_def take_all_allocations)
    then show ?thesis
      using assms(4) by (simp add: d debit_state_ok_def usage_debit_def charged_def
          allocated_amount_def allocated_refunded_def)
  qed
  ultimately have "ledger_inv (\<lambda>_. 0) (\<lambda>_. 0) ({} - {key}) (charged key a n now asOf s)"
    by (rule inv_close_debit)
  then show ?thesis by (simp add: settled_def)
qed

lemma find_account_settle:
  "find_account s (acc_id a) = Some a \<Longrightarrow> find_account (settle_subscription key a u s) (acc_id a) =
     Some (if u > 0 then a\<lparr>acc_balance := acc_balance a - u\<rparr> else a)"
  by (auto simp: settle_subscription_def set_balance_def find_account_def find_update_rows_key
      dest: find_SomeD)

lemma spendable_charged:
  assumes "settled s" "find_account s acc = Some a" "find_debit s key = None" "0 < n" "bigint n"
    "n \<le> spendable s acc asOf"
  shows "spendable (charged key a n now asOf s) acc asOf = spendable s acc asOf - n"
proof -
  note i = ledger_invD [OF assms(1) [unfolded settled_def]]
  note plan = charge_plan_facts [OF assms(1,2,4,6)]
  let ?p = "charge_plan s a n asOf"
  let ?u = "\<Sum>p\<leftarrow>?p. sub_part p"
  let ?c = "claimed key a n now asOf s"
  have acc: "acc_id a = acc" using find_account_Some [OF assms(2)] by simp
  have bal: "bigint (acc_balance a)" using i(1) assms(2) by (rule rows_balance)
  have rows: "\<exists>l \<in> set (lots ?c). lot_id l = k \<and> active_at acc asOf l" if k: "(FromLot k, x) \<in> set ?p" for k x
  proof -
    from plan(3) [OF k] obtain l where l: "l \<in> set (lots s)" "lot_id l = k" "active_at acc asOf l" by blast
    then have "l \<in> set (lots ?c)"
      by (force simp: expired_def set_update_rows image_iff active_at_def lot_due_def)
    with l show ?thesis by blast
  qed
  have "keys_ok ?c" using inv_claimed [OF assms(1-5)] by (rule ledger_invD)
  then have "packBalanceAtoms (take_all key acc ?p ?c) acc asOf
      = packBalanceAtoms ?c acc asOf - (\<Sum>p\<leftarrow>?p. lot_part p)"
    by (rule packBalance_take) (rule rows)
  then have pack: "packBalanceAtoms (charged key a n now asOf s) acc asOf
      = packBalanceAtoms s acc asOf - (\<Sum>p\<leftarrow>?p. lot_part p)"
    using acc claimed_frame(9) [of key a n now asOf s] by (simp add: charged_def)
  have "find_account (charged key a n now asOf s) acc
      = Some (if ?u > 0 then a\<lparr>acc_balance := acc_balance a - ?u\<rparr> else a)"
    unfolding charged_def using assms(2) acc by (intro find_account_settle [of _ a, unfolded acc]) simp
  moreover have "subscriptionAtoms (if ?u > 0 then a\<lparr>acc_balance := acc_balance a - ?u\<rparr> else a) asOf
      = subscriptionAtoms a asOf - ?u"
    using plan(5-7) bal by (auto simp: subscriptionAtoms_def subscriptionSpendable_def bigint_def)
  ultimately show ?thesis
    using plan(1) parts_total [of ?p] pack assms(2) by (simp add: spendable_def)
qed

section \<open>The transaction\<close>

lemma charge_run:
  assumes "settled s" "find_account s acc = Some a"
    "normalizeAmount amount = Inr n" "validateIdempotencyKey keyv = Inr key"
    "find_debit s key = None" "0 < atoms n" "atoms n \<le> spendable s acc asOf"
  shows "charge acc amount keyv now asOf s =
    (Inr \<lparr>cr_outcome = Charged, cr_balance = CreditAmount (spendable s acc asOf - atoms n),
          cr_requested = n, cr_restored = CreditAmount 0\<rparr>,
     charged key a (atoms n) now asOf s)"
proof -
  note i = ledger_invD [OF assms(1) [unfolded settled_def]]
  have acc: "acc_id a = acc" using find_account_Some [OF assms(2)] by simp
  have big: "bigint (atoms n)"
    using assms(3,6) by (auto simp: normalizeAmount_def result_simps bigint_def split: if_splits)
  note inv = inv_claimed [OF assms(1,2,5,6) big, of now asOf]
  let ?c = "claimed key a (atoms n) now asOf s"
  have sp: "spendable s acc asOf = plan_total (fefo_sources s a asOf)"
    using i(1) assms(2) by (rule spendable_fefo)
  have fresh: "freshCharge n key a (active_lots ?c (acc_id a) asOf) pw asOf ?c =
      Inr (\<lparr>cr_outcome = Charged, cr_balance = CreditAmount (spendable s acc asOf - atoms n),
          cr_requested = n, cr_restored = CreditAmount 0\<rparr>, charged key a (atoms n) now asOf s)" for pw
    using freshCharge_run [OF ledger_invD(2,1) [OF inv], where a = a and asOf = asOf and n = n and key = key]
      assms(6,7) rows_balance [OF i(1) assms(2)]
    by (simp add: sp charged_def charge_plan_def bigint_def)
  have "charge_body acc n key now asOf s =
      Inr (\<lparr>cr_outcome = Charged, cr_balance = CreditAmount (spendable s acc asOf - atoms n),
          cr_requested = n, cr_restored = CreditAmount 0\<rparr>, charged key a (atoms n) now asOf s)"
    using assms(2,5) fresh
    by (simp add: charge_body_def bind_tx_run expireAccountPackLots_def insert_debit_if_new_def
        acc claimed_def usage_debit_def expired_def [symmetric])
  moreover have "consistent (charged key a (atoms n) now asOf s)"
    using settled_charged [OF assms(1,2,5,6) big assms(7)] by (rule settled_consistent)
  ultimately show ?thesis
    using assms(3,4) by (simp add: charge_def transaction_commits)
qed

section \<open>Refusals and replays\<close>

text \<open>A \<open>CreditAmount\<close> object passed its constructor, so it is not negative.\<close>

fun valid_input :: "CreditInput \<Rightarrow> bool" where
  "valid_input (AmountObject a) \<longleftrightarrow> 0 \<le> atoms a"
| "valid_input (AmountValue v) \<longleftrightarrow> True"

lemma creditAtoms_nonneg: "creditAtoms v field z = Inr n \<Longrightarrow> 0 \<le> n"
  by (erule creditAtoms_InrD) (simp add: CREDIT_SCALE_def)

lemma normalizeAmount_ok:
  "normalizeAmount amount = Inr n \<Longrightarrow> valid_input amount \<Longrightarrow> 0 < atoms n \<and> bigint (atoms n)"
  by (cases amount)
    (auto simp: normalizeAmount_def result_simps bigint_def parseCreditAmount_def newCreditAmount_def
      split: if_splits dest: creditAtoms_nonneg)

lemma charge_body_refused:
  assumes "settled s" "find_account s acc = Some a" "find_debit s key = None" "0 < atoms n"
    "spendable s acc asOf < atoms n"
  shows "charge_body acc n key now asOf s = Inl
    (if active_lots s acc asOf = [] \<and> \<not> subscriptionSpendable a asOf
     then unavailable_error a (list_ex (lot_due acc asOf) (lots s) \<or>
            list_ex (\<lambda>l. lot_account l = acc \<and> lot_status l = LotExpired) (lots s))
     else InsufficientCreditsError)"
proof -
  note i = ledger_invD [OF assms(1) [unfolded settled_def]]
  have acc: "acc_id a = acc" using find_account_Some [OF assms(2)] by simp
  have sp: "spendable s acc asOf = (if subscriptionSpendable a asOf then acc_balance a else 0)
      + (\<Sum>l\<leftarrow>active_lots s acc asOf. lot_remaining l)"
    using spendable_fefo [OF i(1) assms(2), of asOf] by (simp add: fefo_total acc packBalanceAtoms_def)
  have "active_lots (t\<lparr>lots := lots (expired acc asOf s)\<rparr>) acc asOf = active_lots s acc asOf" for t
    using active_lots_expired [of acc asOf s] by (simp add: active_lots_def)
  then show ?thesis
    using assms(2-5) sp
    by (simp add: charge_body_def bind_tx_run expireAccountPackLots_def insert_debit_if_new_def acc
        freshCharge_def Let_def find_debit_def expired_def)
qed

lemma charge_body_replay:
  assumes "settled s" "find_account s acc = Some a" "find_debit s key = Some d"
  shows "charge_body acc n key now asOf s =
    (if deb_account d = acc \<and> deb_amount d = atoms n \<and> deb_kind d = Usage
     then Inr (\<lparr>cr_outcome = Replayed, cr_balance = CreditAmount (spendable s acc asOf),
                cr_requested = n, cr_restored = CreditAmount (deb_restored d)\<rparr>, expired acc asOf s)
     else Inl (TypeError ''idempotency key was already used with different parameters''))"
proof -
  note i = ledger_invD [OF assms(1) [unfolded settled_def]]
  have acc: "acc_id a = acc" using find_account_Some [OF assms(2)] by simp
  have "debit_check d" using i(1) find_debit_Some [OF assms(3)] by (auto simp: rows_ok_def list_all_iff)
  then have r: "0 \<le> deb_restored d" by (simp add: debit_check_def)
  have "0 \<le> subscriptionAtoms a asOf" by (simp add: subscriptionAtoms_def bigint_def)
  moreover have "0 \<le> (\<Sum>l\<leftarrow>active_lots s acc asOf. lot_remaining l)"
    using i(1) by (intro sum_list_int_nonneg)
      (auto simp: active_lots_set rows_ok_def list_all_iff lot_check_def)
  ultimately show ?thesis
    using assms(2,3) r active_lots_expired [of acc asOf s]
    by (simp add: charge_body_def bind_tx_run expireAccountPackLots_def insert_debit_if_new_def acc
        replayCharge_def creditResult_def newCreditAmount_def spendable_def packBalanceAtoms_def
        find_debit_def expired_def active_lots_def)
qed

lemma settled_expired: "settled s \<Longrightarrow> settled (expired acc asOf s)"
  by (simp add: settled_def inv_expired)

lemma spendable_expired [simp]: "spendable (expired acc asOf s) acc asOf = spendable s acc asOf"
  by (simp add: spendable_def packBalanceAtoms_def)

section \<open>First expires, first out\<close>

definition source_expiry :: "store \<Rightarrow> account \<Rightarrow> source \<Rightarrow> int" where
  "source_expiry s a src =
     (case src of
        FromSubscription e \<Rightarrow> (case acc_credit_expires a of None \<Rightarrow> 0 | Some t \<Rightarrow> t)
      | FromLot k \<Rightarrow> (case find_lot s k of None \<Rightarrow> 0 | Some l \<Rightarrow> lot_expires l))"

definition used_of :: "(source \<times> int) list \<Rightarrow> source \<Rightarrow> int" where
  "used_of plan src = (\<Sum>p\<leftarrow>plan. if fst p = src then snd p else 0)"

lemma used_of_Cons: "used_of ((k, x) # plan) src = (if k = src then x else 0) + used_of plan src"
  by (simp add: used_of_def)

lemma used_of_absent: "src \<notin> fst ` set plan \<Longrightarrow> used_of plan src = 0"
  by (induction plan) (auto simp: used_of_def)

lemma greedy_exhausts:
  "0 \<le> r \<Longrightarrow> distinct (map fst xs) \<Longrightarrow> \<forall>p \<in> set xs. 0 \<le> snd p \<Longrightarrow> i < j \<Longrightarrow> j < length xs \<Longrightarrow>
   0 < used_of (greedy xs r) (fst (xs ! j)) \<Longrightarrow> used_of (greedy xs r) (fst (xs ! i)) = snd (xs ! i)"
proof (induction xs r arbitrary: i j rule: greedy.induct)
  case (2 k available xs r)
  from 2(6) obtain j' where j: "j = Suc j'" by (cases j) auto
  have absent: "fst (xs ! m) \<noteq> k" if "m < length xs" for m
    using 2(4) nth_mem [OF that] by auto
  have key: "fst (xs ! j') \<noteq> k" using 2(7) j by (intro absent) simp
  show ?case
  proof (cases "r \<le> 0 \<or> available \<le> 0")
    case True
    then have g: "greedy ((k, available) # xs) r = greedy xs r" by simp
    show ?thesis
    proof (cases i)
      case 0
      have "\<not> r \<le> 0" using 2(8) greedy_none [of r xs] j by (auto simp: g used_of_def)
      with True 2(5) have "available = 0" by simp
      moreover have "used_of (greedy xs r) k = 0"
        using 2(4) greedy_keys [of xs r] by (intro used_of_absent) auto
      ultimately show ?thesis using 0 by (simp add: g)
    next
      case (Suc i')
      with True 2 j g show ?thesis by simp
    qed
  next
    case False
    let ?x = "min r available"
    have g: "greedy ((k, available) # xs) r = (k, ?x) # greedy xs (r - ?x)" using False by simp
    have used: "0 < used_of (greedy xs (r - ?x)) (fst (xs ! j'))"
      using 2(8) key unfolding j nth_Cons_Suc g by (simp add: used_of_Cons)
    show ?thesis
    proof (cases i)
      case 0
      have "r - ?x \<noteq> 0" using used greedy_none [of "r - ?x" xs] by (auto simp: used_of_def)
      then have "?x = available" by auto
      moreover have "used_of (greedy xs (r - ?x)) k = 0"
        using 2(4) greedy_keys [of xs "r - ?x"] by (intro used_of_absent) auto
      ultimately show ?thesis using 0 unfolding g by (simp add: used_of_Cons)
    next
      case (Suc i')
      have "fst (xs ! i') \<noteq> k" using 2(6,7) j Suc by (intro absent) simp
      moreover have "used_of (greedy xs (r - ?x)) (fst (xs ! i')) = snd (xs ! i')"
        using 2(2) [of i' j'] False 2(4-7) j Suc used by auto
      ultimately show ?thesis unfolding Suc nth_Cons_Suc g by (simp add: used_of_Cons)
    qed
  qed
qed simp

lemma fefo_sorted:
  assumes "keys_ok s"
  shows "sorted (map (source_expiry s a \<circ> fst) (fefo_sources s a asOf))"
proof -
  let ?ls = "active_lots s (acc_id a) asOf"
  have lots: "source_expiry s a (FromLot (lot_id l)) = lot_expires l" if "l \<in> set ?ls" for l
    using that find_member(3) [OF assms] by (simp add: source_expiry_def active_lots_set)
  have "sorted (map (\<lambda>l. (lot_expires l, lot_id l)) ?ls)" by (simp add: active_lots_def)
  then have base: "sorted (map lot_expires ?ls)"
    by (simp add: sorted_map) (erule sorted_wrt_mono_rel [rotated], auto)
  then have part: "sorted (map lot_expires (filter P ?ls))" for P
    by (simp add: sorted_map sorted_wrt_filter)
  have exps: "map (source_expiry s a \<circ> fst) (lot_sources xs) = map lot_expires xs"
    if "set xs \<subseteq> set ?ls" for xs
    using that lots by (auto simp: lot_sources_def)
  show ?thesis
  proof (cases "subscriptionSpendable a asOf")
    case False
    then show ?thesis using base by (simp add: fefo_sources_alt exps)
  next
    case True
    then obtain t where t: "acc_credit_expires a = Some t"
      by (auto simp: subscriptionSpendable_def split: option.splits)
    have "source_expiry s a (FromSubscription (acc_epoch a)) = t" by (simp add: source_expiry_def t)
    moreover have "\<forall>l \<in> set (filter (before_subscription a) ?ls). lot_expires l \<le> t"
      "\<forall>l \<in> set (filter (\<lambda>l. \<not> before_subscription a l) ?ls). t \<le> lot_expires l"
      by (auto simp: before_subscription_def t)
    ultimately show ?thesis
      using True part exps [of "filter (before_subscription a) ?ls"]
        exps [of "filter (\<lambda>l. \<not> before_subscription a l) ?ls"]
      by (fastforce simp: fefo_sources_alt sorted_append)
  qed
qed

section \<open>A store to evaluate\<close>

definition sample_account :: account where
  "sample_account =
     \<lparr>acc_id = ''acct'', acc_external_ref = ''owner-1'', acc_customer = Some ''cus_1'', acc_subscription = Some ''sub_1'',
      acc_plan_key = ''pro'', acc_plan_interval = Some Month, acc_status = SubActive,
      acc_balance = 300, acc_epoch = 4, acc_event_created = 7, acc_event_rank = 50,
      acc_period_end = Some 1000, acc_annual_anchor = None, acc_annual_issued = 0,
      acc_annual_allowed = 12, acc_funding_invoice = Some ''in_1'',
      acc_cancel_at_period_end = False, acc_pending_free_at = None,
      acc_entitlement_end = Some 1000, acc_credit_expires = Some 1000,
      acc_revoked = False\<rparr>"

definition sample_order :: "string \<Rightarrow> int \<Rightarrow> pack_order" where
  "sample_order k credits =
     \<lparr>po_id = k, po_account = ''acct'', po_pack_key = ''boost-100'', po_pack_credits = credits,
      po_price = 1500, po_currency = ''usd'', po_expires_days = 365,
      po_lookup_key = ''billing_pack_boost-100'', po_request_customer = None,
      po_checkout_status = Completed, po_payment_status = Paid, po_session = Some (''cs_'' @ k),
      po_session_url = None, po_payment_intent = Some (''pi_'' @ k), po_charge = Some (''ch_'' @ k),
      po_customer = Some ''cus_1'', po_amount_paid = Some 1500, po_amount_refunded = 0,
      po_refunded_credits = 0, po_paid_at = Some 0,
      po_claim_token = None, po_claim_expires = None, po_client_key = k, po_stripe_key = ''credit-pack:'' @ k,
      po_claim_until = 0, po_snapshot_version = None, po_snapshot = None\<rparr>"

definition sample_lot :: "string \<Rightarrow> string \<Rightarrow> int \<Rightarrow> int \<Rightarrow> int \<Rightarrow> funding_lot" where
  "sample_lot k po original remaining expiresAt =
     \<lparr>lot_id = k, lot_order = po, lot_account = ''acct'', lot_original = original,
      lot_remaining = remaining, lot_expired = 0, lot_clawed = 0, lot_expires = expiresAt,
      lot_status = LotActive, lot_closed_at = None\<rparr>"

text \<open>A subscription with 300 atoms, a lot with 60 of 100 left that expires first, and a lot of 200.\<close>

definition sample_store :: store where
  "sample_store =
     \<lparr>accounts = [sample_account], orders = [sample_order ''o1'' 100, sample_order ''o2'' 200],
      lots = [sample_lot ''l2'' ''o2'' 200 200 2000, sample_lot ''l1'' ''o1'' 100 60 500],
      debits = [\<lparr>deb_key = ''job-0'', deb_account = ''acct'', deb_amount = 40, deb_epoch = 4,
                 deb_kind = Usage, deb_restored = 0, deb_created = 0, deb_refunded_at = None\<rparr>],
      allocations = [\<lparr>al_id = 1, al_debit = ''job-0'', al_account = ''acct'', al_source = FromLot ''l1'',
                      al_amount = 40, al_refunded = 0\<rparr>],
      pack_debts = [], clawback_debts = [], ledger = [], incidents = [], next_allocation = 2,
      uuid_source = (\<lambda>n. replicate n (CHR ''u'')), uuid_next = 0\<rparr>"

lemmas sample_defs = sample_store_def sample_account_def sample_order_def sample_lot_def

lemma sample_parts:
  "rows_ok sample_store" "keys_ok sample_store" "references_ok sample_store"
  "lots_inv (\<lambda>_. 0) sample_store" "debts_inv (\<lambda>_. 0) sample_store"
  "debits_inv {} sample_store" "collections_inv sample_store"
  subgoal by (simp add: rows_ok_def sample_defs account_check_def order_check_def lot_check_def
        debit_check_def allocation_check_def bigint_def bound_defs)
  subgoal by (simp add: keys_ok_def sample_defs nullable_unique_def)
  subgoal by (simp add: references_ok_def sample_defs)
  subgoal by (simp add: lots_inv_def sample_defs funding_gap_def debt_released_def find_debt_def
        allocated_outstanding_def pending_of_def debt_target_def active_debt_def)
  subgoal by (simp add: debts_inv_def sample_defs)
  subgoal by (simp add: debits_inv_def sample_defs debit_state_ok_def allocated_amount_def
        allocated_refunded_def)
  subgoal by (simp add: collections_inv_def sample_defs collects_def find_debit_def)
  done

lemma sample_settled: "settled sample_store"
  by (simp add: settled_def ledger_inv_def sample_parts)

lemma sample_lookup:
  "find_account sample_store ''acct'' = Some sample_account"
  "find_debit sample_store ''job-1'' = None"
  by (simp_all add: sample_defs find_account_def find_debit_def)

lemma sample_sources:
  "fefo_sources sample_store sample_account 100 =
     [(FromLot ''l1'', 60), (FromSubscription 4, 300), (FromLot ''l2'', 200)]"
  by (simp add: fefo_sources_def sample_defs active_lots_def subscriptionSpendable_def
      before_subscription_def)

lemma sample_spendable: "spendable sample_store ''acct'' 100 = 560"
  using spendable_fefo [OF sample_parts(1) sample_lookup(1), of 100] by (simp add: sample_sources)

lemma sample_request:
  "normalizeAmount (AmountObject (CreditAmount 500)) = Inr (CreditAmount 500)"
  "validateIdempotencyKey (JStr ''job-1'') = Inr ''job-1''"
  "validateIdempotencyKey (JStr ''job-0'') = Inr ''job-0''"
  subgoal by (simp add: normalizeAmount_def bound_defs)
  subgoal by code_simp
  subgoal by code_simp
  done

section \<open>Properties of the charge\<close>

text \<open>
  C1: a charge that the account can pay succeeds, takes exactly the requested atoms from what
  the account can spend and reports the exact new balance, and leaves a store in which every
  constraint of the schema holds, so the commit cannot fail.
\<close>

theorem charge_exact:
  assumes "settled s" "find_account s acc = Some a" "valid_input amount"
    and "normalizeAmount amount = Inr n" "validateIdempotencyKey keyv = Inr key"
    and "find_debit s key = None" "atoms n \<le> spendable s acc asOf"
  shows "\<exists>s'. charge acc amount keyv now asOf s =
      (Inr \<lparr>cr_outcome = Charged, cr_balance = CreditAmount (spendable s acc asOf - atoms n),
            cr_requested = n, cr_restored = CreditAmount 0\<rparr>, s') \<and>
    settled s' \<and> consistent s' \<and> spendable s' acc asOf = spendable s acc asOf - atoms n"
proof -
  from normalizeAmount_ok [OF assms(4,3)] have n: "0 < atoms n" "bigint (atoms n)" by auto
  have "settled (charged key a (atoms n) now asOf s)"
    using settled_charged [OF assms(1,2,6) n assms(7)] .
  with charge_run [OF assms(1,2,4,5,6) n(1) assms(7), of now]
    spendable_charged [OF assms(1,2,6) n assms(7), of now] settled_consistent
  show ?thesis by blast
qed

lemma charge_exact_witness:
  "\<exists>s'. charge ''acct'' (AmountObject (CreditAmount 500)) (JStr ''job-1'') 100 100 sample_store =
      (Inr \<lparr>cr_outcome = Charged, cr_balance = CreditAmount 60,
            cr_requested = CreditAmount 500, cr_restored = CreditAmount 0\<rparr>, s') \<and>
    settled s' \<and> consistent s' \<and> spendable s' ''acct'' 100 = 60"
  using charge_exact [OF sample_settled sample_lookup(1) _ sample_request(1,2) sample_lookup(2), of 100 100]
  by (simp add: sample_spendable)

text \<open>
  C18: the sources of a charge are taken in order of expiry, first expiring first: the
  allocations it writes are the greedy plan over the sources sorted by expiry, so a source is
  touched only when every source that expires before it is used up.
\<close>

theorem charge_first_expiring_first:
  assumes "settled s" "find_account s acc = Some a" "valid_input amount"
    and "normalizeAmount amount = Inr n" "validateIdempotencyKey keyv = Inr key"
    and "find_debit s key = None" "atoms n \<le> spendable s acc asOf"
  shows "let sources = fefo_sources s a asOf; plan = greedy sources (atoms n) in
    allocations (snd (charge acc amount keyv now asOf s))
      = allocations s @ plan_rows (next_allocation s) key acc plan \<and>
    sorted (map (source_expiry s a \<circ> fst) sources) \<and> plan_total plan = atoms n \<and>
    (\<forall>i j. i < j \<and> j < length sources \<and> 0 < used_of plan (fst (sources ! j)) \<longrightarrow>
       used_of plan (fst (sources ! i)) = snd (sources ! i))"
proof -
  note i = ledger_invD [OF assms(1) [unfolded settled_def]]
  from normalizeAmount_ok [OF assms(4,3)] have n: "0 < atoms n" by auto
  have acc: "acc_id a = acc" using find_account_Some [OF assms(2)] by simp
  have "0 \<le> acc_balance a" using rows_balance [OF i(1) assms(2)] by (simp add: bigint_def)
  moreover have "0 \<le> lot_remaining l" if "l \<in> set (lots s)" for l
    using i(1) that by (simp add: rows_ok_def list_all_iff lot_check_def)
  ultimately have nonneg: "\<forall>p \<in> set (fefo_sources s a asOf). 0 \<le> snd p"
    by (auto simp: fefo_sources_alt lot_sources_def active_lots_set)
  have "snd (charge acc amount keyv now asOf s) = charged key a (atoms n) now asOf s"
    using charge_run [OF assms(1,2,4,5,6) n assms(7), of now] by simp
  then have "allocations (snd (charge acc amount keyv now asOf s))
      = allocations s @ plan_rows (next_allocation s) key acc (charge_plan s a (atoms n) asOf)"
    by (simp add: charged_def take_all_allocations acc)
  then show ?thesis
    using charge_plan_facts(1) [OF assms(1,2) n assms(7)] fefo_sorted [OF i(2)] n
      greedy_exhausts [OF _ fefo_distinct [OF i(2)] nonneg]
    by (auto simp: Let_def charge_plan_def)
qed

lemma charge_first_expiring_first_witness:
  "map (\<lambda>r. (al_source r, al_amount r)) (allocations
     (snd (charge ''acct'' (AmountObject (CreditAmount 500)) (JStr ''job-1'') 100 100 sample_store)))
   = [(FromLot ''l1'', 40), (FromLot ''l1'', 60), (FromSubscription 4, 300), (FromLot ''l2'', 140)]"
  using charge_first_expiring_first [OF sample_settled sample_lookup(1) _ sample_request(1,2)
      sample_lookup(2), of 100 100]
  by (simp add: sample_spendable sample_sources Let_def) (simp add: sample_store_def)

text \<open>
  C19: a charge beyond what the account can spend is refused without any change: as insufficient,
  or as unavailable exactly when there is neither an active lot nor a spendable subscription.
\<close>

theorem charge_refused:
  assumes "settled s" "find_account s acc = Some a" "valid_input amount"
    and "normalizeAmount amount = Inr n" "validateIdempotencyKey keyv = Inr key"
    and "find_debit s key = None" "spendable s acc asOf < atoms n"
  shows "charge acc amount keyv now asOf s =
    (Inl (if active_lots s acc asOf = [] \<and> \<not> subscriptionSpendable a asOf
          then unavailable_error a (list_ex (lot_due acc asOf) (lots s) \<or>
                 list_ex (\<lambda>l. lot_account l = acc \<and> lot_status l = LotExpired) (lots s))
          else InsufficientCreditsError), s)"
  using charge_body_refused [OF assms(1,2,6) _ assms(7)] normalizeAmount_ok [OF assms(4,3)] assms(4,5)
  by (simp add: charge_def transaction_throws)

lemma charge_refused_witness:
  "charge ''acct'' (AmountObject (CreditAmount 561)) (JStr ''job-1'') 100 100 sample_store
   = (Inl InsufficientCreditsError, sample_store)"
proof -
  have "normalizeAmount (AmountObject (CreditAmount 561)) = Inr (CreditAmount 561)"
    by (simp add: normalizeAmount_def bound_defs)
  from charge_refused [OF sample_settled sample_lookup(1) _ this sample_request(2) sample_lookup(2), of 100 100]
  show ?thesis
    by (simp add: sample_spendable) (simp add: sample_store_def sample_account_def subscriptionSpendable_def)
qed



text \<open>
  Reusing an idempotency key for another account, another amount or a debt collection is a
  \<open>TypeError\<close> that changes nothing.
\<close>

theorem charge_key_conflict:
  assumes "settled s" "find_account s acc = Some a"
    and "normalizeAmount amount = Inr n" "validateIdempotencyKey keyv = Inr key"
    and "find_debit s key = Some d"
    and "deb_account d \<noteq> acc \<or> deb_amount d \<noteq> atoms n \<or> deb_kind d \<noteq> Usage"
  shows "charge acc amount keyv now asOf s =
    (Inl (TypeError ''idempotency key was already used with different parameters''), s)"
  using charge_body_replay [OF assms(1,2,5), of n now asOf] assms(3,4,6)
  by (auto simp: charge_def transaction_throws)

lemma charge_key_conflict_witness:
  "charge ''acct'' (AmountObject (CreditAmount 500)) (JStr ''job-0'') 100 100 sample_store =
    (Inl (TypeError ''idempotency key was already used with different parameters''), sample_store)"
proof -
  have "find_debit sample_store ''job-0'' = Some \<lparr>deb_key = ''job-0'', deb_account = ''acct'',
      deb_amount = 40, deb_epoch = 4, deb_kind = Usage, deb_restored = 0, deb_created = 0,
      deb_refunded_at = None\<rparr>" by (simp add: sample_store_def find_debit_def)
  from charge_key_conflict [OF sample_settled sample_lookup(1) sample_request(1,3) this, of 100 100]
  show ?thesis by simp
qed

text \<open>
  Whatever its arguments and outcome, a charge leaves a settled store settled: the funding
  and debit equations, the keys and the order of the collections survive every branch.
\<close>

lemma charge_settled:
  assumes "settled s" "valid_input amount"
  shows "settled (snd (charge acc amount keyv now asOf s))"
proof (cases "normalizeAmount amount")
  case (Inr n)
  note norm = this
  show ?thesis
  proof (cases "validateIdempotencyKey keyv")
    case (Inr key)
    note k = this
    from normalizeAmount_ok [OF norm assms(2)] have n: "0 < atoms n" "bigint (atoms n)" by auto
    show ?thesis
    proof (cases "find_account s acc")
      case None
      then show ?thesis
        using norm k assms(1) by (simp add: charge_def charge_body_def transaction_def bind_tx_run)
    next
      case (Some a)
      show ?thesis
      proof (cases "find_debit s key")
        case None
        then show ?thesis
          using charge_run [OF assms(1) Some norm k None n(1), of asOf now]
            settled_charged [OF assms(1) Some None n, of asOf now]
            charge_body_refused [OF assms(1) Some None n(1), of asOf now] norm k assms(1)
          by (cases "atoms n \<le> spendable s acc asOf")
            (simp_all add: charge_def transaction_throws)
      next
        case (Some d)
        then show ?thesis
          using charge_body_replay [OF assms(1) \<open>find_account s acc = Some a\<close> Some, of n now asOf]
            settled_expired [OF assms(1)] norm k assms(1)
          by (simp add: charge_def transaction_def split: if_splits)
      qed
    qed
  qed (simp add: charge_def norm assms)
qed (simp add: charge_def assms)

lemma charge_settled_witness:
  "settled (snd (charge ''acct'' (AmountObject (CreditAmount 500)) (JStr ''job-1'') 100 100 sample_store))"
  by (rule charge_settled [OF sample_settled]) simp

end
