(* ===== verification/Debt_Collection.thy ===== *)
theory Debt_Collection
  imports Credit_Charge
begin

text \<open>
  The collection of debts from restored or new funding: the clawback debts of a subscription epoch
  (typescript/src/clawbacks.ts) and the pack debts of an account, from a lot or from the
  subscription balance (typescript/src/credit-pack-funding.ts). A pack debt collection is a debit
  of its own with exactly one allocation.
\<close>

section \<open>Clawback debts of a subscription epoch\<close>

definition outstanding_clawbacks :: "store \<Rightarrow> string \<Rightarrow> int \<Rightarrow> clawback_debt list" where
  "outstanding_clawbacks s acc epoch =
     sort_key (\<lambda>d. (cd_created d, cd_invoice d))
       (filter (\<lambda>d. cd_account d = acc \<and> cd_epoch d = epoch \<and> cd_collected d < cd_target d)
         (clawback_debts s))"

fun clawback_loop ::
  "string \<Rightarrow> int \<Rightarrow> string \<Rightarrow> clawback_debt list \<Rightarrow> int \<Rightarrow> int \<Rightarrow> (int \<times> int) tx" where
  "clawback_loop acc epoch event [] balance collected = ret (balance, collected)"
| "clawback_loop acc epoch event (d # ds) balance collected =
     (let outstanding = cd_target d - cd_collected d;
          amount = (if outstanding < balance then outstanding else balance) in
      if amount \<le> 0 then ret (balance, collected)
      else
        bind_tx (update_clawback_debts
                   (\<lambda>r. cd_account r = acc \<and> cd_epoch r = epoch \<and> cd_invoice r = cd_invoice d)
                   (\<lambda>r. r\<lparr>cd_collected := cd_collected r + amount\<rparr>)) (\<lambda>_.
        bind_tx (insert_ledger acc (- amount) (balance - amount) ''clawback_debt_collection'' epoch
                   event (Some (cd_invoice d))) (\<lambda>_.
          clawback_loop acc epoch event ds (balance - amount) (collected + amount))))"

definition collectClawbackDebts :: "string \<Rightarrow> int \<Rightarrow> string \<Rightarrow> int tx" where
  "collectClawbackDebts acc epoch event =
     bind_tx (gets (\<lambda>s. find_account s acc)) (\<lambda>found.
       case found of
         None \<Rightarrow> throw (PlainError ''account not found'')
       | Some a \<Rightarrow>
           bind_tx (gets (\<lambda>s. outstanding_clawbacks s acc epoch)) (\<lambda>ds.
           bind_tx (clawback_loop acc epoch event ds (acc_balance a) 0) (\<lambda>(balance, collected).
             if collected > 0
             then bind_tx (update_accounts (\<lambda>r. acc_id r = acc) (\<lambda>r. r\<lparr>acc_balance := balance\<rparr>))
                    (\<lambda>_. ret collected)
             else ret collected)))"

section \<open>Pack debts\<close>

definition outstanding_debts :: "store \<Rightarrow> string \<Rightarrow> pack_debt list" where
  "outstanding_debts s acc =
     sort_key (\<lambda>d. (pd_created d, pd_order d))
       (filter (\<lambda>d. pd_account d = acc \<and> pd_collected d + pd_released d < pd_target d) (pack_debts s))"

definition recordDebtCollection :: "int \<Rightarrow> pack_debt \<Rightarrow> int \<Rightarrow> int \<Rightarrow> source \<Rightarrow> unit tx" where
  "recordDebtCollection now d amount grantEpoch src =
     bind_tx randomUUID (\<lambda>uuid.
     bind_tx (insert_debit
       \<lparr>deb_key = ''pack-debt:'' @ uuid, deb_account = pd_account d, deb_amount = amount,
        deb_epoch = grantEpoch, deb_kind = Collection (pd_order d), deb_restored = 0,
        deb_created = now, deb_refunded_at = None\<rparr>) (\<lambda>_.
       insert_allocation (''pack-debt:'' @ uuid) (pd_account d) src amount))"

fun lot_debt_loop :: "int \<Rightarrow> int \<Rightarrow> string \<Rightarrow> pack_debt list \<Rightarrow> int \<Rightarrow> int tx" where
  "lot_debt_loop now grantEpoch lotId [] remaining = ret remaining"
| "lot_debt_loop now grantEpoch lotId (d # ds) remaining =
     (let outstanding = pd_target d - pd_collected d - pd_released d;
          amount = (if remaining < outstanding then remaining else outstanding) in
      if amount \<le> 0 then ret remaining
      else
        bind_tx (update_debts (\<lambda>r. pd_order r = pd_order d)
                   (\<lambda>r. r\<lparr>pd_collected := pd_collected r + amount\<rparr>)) (\<lambda>_.
        bind_tx (recordDebtCollection now d amount grantEpoch (FromLot lotId)) (\<lambda>_.
          lot_debt_loop now grantEpoch lotId ds (remaining - amount))))"

definition collectPackDebtsFromLot :: "int \<Rightarrow> string \<Rightarrow> string \<Rightarrow> int \<Rightarrow> int tx" where
  "collectPackDebtsFromLot now acc lotId availableAtoms =
     (if availableAtoms < 0 then throw (RangeError ''available pack atoms cannot be negative'')
      else
        bind_tx (gets (\<lambda>s. outstanding_debts s acc)) (\<lambda>ds.
        bind_tx (gets (\<lambda>s. find_account s acc)) (\<lambda>found.
          case found of
            None \<Rightarrow> throw (PlainError ''account not found'')
          | Some a \<Rightarrow>
              bind_tx (lot_debt_loop now (acc_epoch a) lotId ds availableAtoms) (\<lambda>remaining.
                let collected = availableAtoms - remaining in
                if collected > 0
                then
                  bind_tx (update_lots (\<lambda>l. lot_id l = lotId \<and> lot_remaining l \<ge> collected)
                             (\<lambda>l. l\<lparr>lot_remaining := lot_remaining l - collected\<rparr>)) (\<lambda>rowCount.
                    if rowCount \<noteq> 1
                    then throw (PlainError ''pack lot changed while collecting clawback debt'')
                    else ret collected)
                else ret collected))))"

fun subscription_debt_loop ::
  "int \<Rightarrow> string \<Rightarrow> int \<Rightarrow> string \<Rightarrow> pack_debt list \<Rightarrow> int \<Rightarrow> int tx" where
  "subscription_debt_loop now acc grantEpoch event [] balance = ret balance"
| "subscription_debt_loop now acc grantEpoch event (d # ds) balance =
     (let outstanding = pd_target d - pd_collected d - pd_released d;
          amount = (if balance < outstanding then balance else outstanding) in
      if amount \<le> 0 then ret balance
      else
        bind_tx (update_debts (\<lambda>r. pd_order r = pd_order d)
                   (\<lambda>r. r\<lparr>pd_collected := pd_collected r + amount\<rparr>)) (\<lambda>_.
        bind_tx (recordDebtCollection now d amount grantEpoch (FromSubscription grantEpoch)) (\<lambda>_.
        bind_tx (insert_ledger acc (- amount) (balance - amount) ''credit_pack_debt_collection''
                   grantEpoch event None) (\<lambda>_.
          subscription_debt_loop now acc grantEpoch event ds (balance - amount)))))"

definition collectPackDebtsFromSubscription :: "int \<Rightarrow> string \<Rightarrow> int \<Rightarrow> string \<Rightarrow> int tx" where
  "collectPackDebtsFromSubscription now acc grantEpoch event =
     bind_tx (gets (\<lambda>s. find_account s acc)) (\<lambda>found.
       case found of
         None \<Rightarrow> throw (PlainError ''account not found'')
       | Some a \<Rightarrow>
           bind_tx (gets (\<lambda>s. outstanding_debts s acc)) (\<lambda>ds.
           bind_tx (subscription_debt_loop now acc grantEpoch event ds (acc_balance a)) (\<lambda>balance.
             if balance \<noteq> acc_balance a
             then bind_tx (update_accounts (\<lambda>r. acc_id r = acc) (\<lambda>r. r\<lparr>acc_balance := balance\<rparr>))
                    (\<lambda>_. ret (acc_balance a - balance))
             else ret (acc_balance a - balance))))"

end
