(* ===== verification/Credit_Refund.thy ===== *)
theory Credit_Refund
  imports Debt_Collection
begin

text \<open>
  The refund of a product debit (typescript/src/credits.ts \<open>refund\<close>, \<open>#restoreAllocationEffect\<close>,
  \<open>#relievePackDebt\<close>, \<open>#returnSubscriptionAtoms\<close>). A refund gives each allocation back to its
  source; atoms that would return to a pack whose cash was refunded first cancel the pack's debt,
  and a debt that other funding had paid is given back to that funding in turn. The recursion
  through the debts carries fuel: every level releases at least one atom of a debt, so the total
  unreleased debt is enough.
\<close>

section \<open>Back to the subscription\<close>

definition returnSubscriptionAtoms ::
  "int \<Rightarrow> int \<Rightarrow> account \<Rightarrow> int \<Rightarrow> string \<Rightarrow> string \<Rightarrow> int tx" where
  "returnSubscriptionAtoms now asOf a amount event reason =
     (if \<not> subscriptionSpendable a asOf then ret 0
      else
        bind_tx (gets (\<lambda>s. find_account s (acc_id a))) (\<lambda>found.
          case found of
            None \<Rightarrow> throw (TypeError ''account credits_balance must be an exact PostgreSQL integer string'')
          | Some current \<Rightarrow>
              bind_tx (lift_tx (checkedAddAtoms (acc_balance current) amount
                         ''refunded subscription credit balance'')) (\<lambda>balance.
              bind_tx (update_accounts (\<lambda>r. acc_id r = acc_id a) (\<lambda>r. r\<lparr>acc_balance := balance\<rparr>)) (\<lambda>_.
              bind_tx (insert_ledger (acc_id a) amount balance reason (acc_epoch a) event None) (\<lambda>_.
              bind_tx (collectClawbackDebts (acc_id a) (acc_epoch a) event) (\<lambda>_.
              bind_tx (collectPackDebtsFromSubscription now (acc_id a) (acc_epoch a) event) (\<lambda>_.
                ret amount)))))))"

section \<open>Debt relief\<close>

text \<open>What gives an amount of an allocation back, with the collections being visited.\<close>

type_synonym restorer = "allocation \<Rightarrow> int \<Rightarrow> string \<Rightarrow> string \<Rightarrow> string list \<Rightarrow> int tx"

text \<open>The pending collections of an order's debt, oldest first.\<close>

definition pending_collections :: "store \<Rightarrow> string \<Rightarrow> (debit \<times> allocation) list" where
  "pending_collections s orderId =
     sort_key (\<lambda>(d, a). (deb_created d, deb_key d, al_id a))
       (concat (map (\<lambda>d. map (\<lambda>a. (d, a))
          (filter (\<lambda>a. al_debit a = deb_key d \<and> al_refunded a < al_amount a) (allocations s)))
          (filter (\<lambda>d. deb_kind d = Collection orderId) (debits s))))"

fun reverse_collections ::
  "restorer \<Rightarrow> int \<Rightarrow> string \<Rightarrow> string \<Rightarrow> string list \<Rightarrow> (debit \<times> allocation) list \<Rightarrow> int \<Rightarrow> int
   \<Rightarrow> (int \<times> int) tx"
where
  "reverse_collections restore now acc orderId visiting [] remaining recovered = ret (remaining, recovered)"
| "reverse_collections restore now acc orderId visiting ((d, a) # cs) remaining recovered =
     (if remaining \<le> 0 then ret (remaining, recovered)
      else if deb_key d \<in> set visiting
      then throw (PlainError ''credit-pack debt collection cycle detected'')
      else if deb_account d \<noteq> acc \<or> al_account a \<noteq> acc
      then throw (PlainError ''credit-pack debt collection belongs to another account'')
      else if deb_amount d \<noteq> al_amount a
      then throw (PlainError ''credit-pack debt collection allocation is inconsistent'')
      else
        let pending = al_amount a - al_refunded a;
            reversing = (if remaining < pending then remaining else pending) in
        if reversing \<le> 0
        then reverse_collections restore now acc orderId visiting cs remaining recovered
        else
          bind_tx (update_debts (\<lambda>r. pd_order r = orderId \<and> pd_collected r \<ge> reversing)
                     (\<lambda>r. r\<lparr>pd_collected := pd_collected r - reversing,
                             pd_released := pd_released r + reversing\<rparr>)) (\<lambda>rowCount.
          if rowCount \<noteq> 1
          then throw (PlainError ''credit-pack collected debt changed during reversal'')
          else
            bind_tx (restore a reversing (''pack-debt-release:'' @ deb_key d) ''credit_pack_debt_refund''
                       (deb_key d # visiting)) (\<lambda>restored.
            bind_tx (lift_tx (checkedAddAtoms (deb_restored d) restored
                       ''debt-collection restored credits'')) (\<lambda>newRestored.
            bind_tx (update_allocations (\<lambda>r. al_id r = al_id a \<and> al_refunded r + reversing \<le> al_amount r)
                       (\<lambda>r. r\<lparr>al_refunded := al_refunded r + reversing\<rparr>)) (\<lambda>rowCount.
            if rowCount \<noteq> 1
            then throw (PlainError ''debt collection allocation changed during reversal'')
            else
              bind_tx (update_debits (\<lambda>r. deb_key r = deb_key d)
                (\<lambda>s r. r\<lparr>deb_restored := newRestored,
                         deb_refunded_at :=
                           (if list_ex (\<lambda>b. al_debit b = deb_key r \<and> al_refunded b < al_amount b)
                                 (allocations s)
                            then deb_refunded_at r else Some now)\<rparr>)) (\<lambda>_.
                reverse_collections restore now acc orderId visiting cs (remaining - reversing)
                  (recovered + restored)))))))"

definition relievePackDebt ::
  "restorer \<Rightarrow> int \<Rightarrow> string \<Rightarrow> string \<Rightarrow> int \<Rightarrow> string list \<Rightarrow> (int \<times> int) tx" where
  "relievePackDebt restore now acc orderId amount visiting =
     bind_tx (gets (\<lambda>s. find_debt s orderId)) (\<lambda>found.
       case found of
         None \<Rightarrow> ret (0, 0)
       | Some d \<Rightarrow>
           if amount \<le> 0 then ret (0, 0)
           else if pd_account d \<noteq> acc
           then throw (PlainError ''credit-pack clawback debt belongs to another account'')
           else
             let activeDebt = pd_target d - pd_released d;
                 relief = (if amount < activeDebt then amount else activeDebt) in
             if relief \<le> 0 then ret (0, 0)
             else
               let uncollected = activeDebt - pd_collected d;
                   releaseUncollected = (if relief < uncollected then relief else uncollected) in
               bind_tx (if releaseUncollected > 0
                        then update_debts (\<lambda>r. pd_order r = orderId)
                               (\<lambda>r. r\<lparr>pd_released := pd_released r + releaseUncollected\<rparr>)
                        else ret 0) (\<lambda>_.
               let reverseCollected = relief - releaseUncollected in
               if reverseCollected \<le> 0 then ret (relief, 0)
               else
                 bind_tx (gets (\<lambda>s. pending_collections s orderId)) (\<lambda>cs.
                 bind_tx (reverse_collections restore now acc orderId visiting cs reverseCollected 0)
                   (\<lambda>(remaining, recovered).
                   if remaining \<noteq> 0
                   then throw (PlainError ''credit-pack debt has no reversible funding allocation'')
                   else ret (relief, recovered)))))"

section \<open>Back to the source\<close>

definition lockedLot :: "int \<Rightarrow> string \<Rightarrow> string \<Rightarrow> funding_lot tx" where
  "lockedLot asOf acc k =
     bind_tx (gets (\<lambda>s. find_lot s k)) (\<lambda>found.
       case found of
         None \<Rightarrow> throw (PlainError ''credit-pack allocation funding lot is missing or conflicting'')
       | Some l \<Rightarrow>
           if lot_account l \<noteq> acc
           then throw (PlainError ''credit-pack allocation funding lot is missing or conflicting'')
           else if lot_status l = LotActive \<and> lot_expires l \<le> asOf
           then
             bind_tx (update_lots (\<lambda>r. lot_id r = lot_id l) (expire_lot asOf)) (\<lambda>_.
             bind_tx (gets (\<lambda>s. find_lot s k)) (\<lambda>refreshed.
               case refreshed of
                 None \<Rightarrow> throw (PlainError ''credit-pack allocation funding lot disappeared'')
               | Some l' \<Rightarrow> ret l'))
           else ret l)"

definition min_nonneg :: "int \<Rightarrow> int \<Rightarrow> int" where
  "min_nonneg wanted headroom =
     (let bounded = (if headroom > 0 then headroom else 0) in if wanted < bounded then wanted else bounded)"

definition returnToLot :: "int \<Rightarrow> string \<Rightarrow> funding_lot \<Rightarrow> pack_order \<Rightarrow> int \<Rightarrow> int tx" where
  "returnToLot now acc l po restorable =
     (if restorable > 0 \<and> lot_status l = LotActive
      then
        let returned = min_nonneg restorable
              (po_pack_credits po - po_refunded_credits po - lot_remaining l) in
        if returned > 0
        then
          bind_tx (lift_tx (checkedAddAtoms (lot_remaining l) returned ''refunded credit-pack lot balance'')) (\<lambda>_.
          bind_tx (update_lots (\<lambda>r. lot_id r = lot_id l)
                     (\<lambda>r. r\<lparr>lot_remaining := lot_remaining r + returned\<rparr>)) (\<lambda>_.
          bind_tx (collectPackDebtsFromLot now acc (lot_id l) returned) (\<lambda>_.
            ret returned)))
        else ret returned
      else if restorable > 0 \<and> lot_status l = LotExpired
      then
        let retired = min_nonneg restorable
              (po_pack_credits po - po_refunded_credits po - lot_expired l) in
        if retired > 0
        then
          bind_tx (lift_tx (checkedAddAtoms (lot_expired l) retired ''expired product-refund credits'')) (\<lambda>_.
          bind_tx (update_lots (\<lambda>r. lot_id r = lot_id l)
                     (\<lambda>r. r\<lparr>lot_expired := lot_expired r + retired\<rparr>)) (\<lambda>_.
            ret 0))
        else ret 0
      else ret 0)"

fun restoreAllocationEffect :: "nat \<Rightarrow> int \<Rightarrow> int \<Rightarrow> account \<Rightarrow> restorer" where
  "restoreAllocationEffect 0 now asOf a al amount event reason visiting = throw OutOfFuel"
| "restoreAllocationEffect (Suc fuel) now asOf a al amount event reason visiting =
     (case al_source al of
        FromSubscription epoch \<Rightarrow>
          if epoch \<noteq> acc_epoch a then ret 0
          else returnSubscriptionAtoms now asOf a amount event reason
      | FromLot k \<Rightarrow>
          bind_tx (lockedLot asOf (acc_id a) k) (\<lambda>l.
          bind_tx (gets (\<lambda>s. find_order s (lot_order l))) (\<lambda>found.
            case found of
              None \<Rightarrow> throw (PlainError ''credit-pack allocation order is missing or conflicting'')
            | Some po \<Rightarrow>
                if po_account po \<noteq> acc_id a
                then throw (PlainError ''credit-pack allocation order is missing or conflicting'')
                else
                  bind_tx (relievePackDebt (restoreAllocationEffect fuel now asOf a) now (acc_id a)
                             (po_id po) amount visiting) (\<lambda>(relieved, recovered).
                  bind_tx (returnToLot now (acc_id a) l po (amount - relieved)) (\<lambda>returned.
                    ret (recovered + returned))))))"

section \<open>The refund\<close>

definition normalizeUuid :: "string \<Rightarrow> string \<Rightarrow> string result" where
  "normalizeUuid v field =
     (if UUID v then Inr (toLowerCase v) else Inl (TypeError (field @ '' must be a UUID string'')))"

fun restore_all ::
  "restorer \<Rightarrow> string \<Rightarrow> allocation list \<Rightarrow> int \<Rightarrow> int tx" where
  "restore_all restore key [] restored = ret restored"
| "restore_all restore key (al # als) restored =
     (let pending = al_amount al - al_refunded al in
      if pending \<le> 0 then restore_all restore key als restored
      else
        bind_tx (restore al pending (''usage-refund:'' @ key) ''usage_refund'' [key]) (\<lambda>r.
        bind_tx (update_allocations (\<lambda>b. al_id b = al_id al \<and> al_refunded b + pending \<le> al_amount b)
                   (\<lambda>b. b\<lparr>al_refunded := al_refunded b + pending\<rparr>)) (\<lambda>rowCount.
        if rowCount \<noteq> 1 then throw (PlainError ''credit allocation changed during refund'')
        else restore_all restore key als (restored + r))))"

text \<open>Enough levels for the recursion through the debts: the unreleased debt of all orders.\<close>

definition debt_fuel :: "store \<Rightarrow> nat" where
  "debt_fuel s = Suc (nat (\<Sum>d\<leftarrow>pack_debts s. pd_target d - pd_released d))"

definition refundAtoms :: "string \<Rightarrow> int \<Rightarrow> int \<Rightarrow> account \<Rightarrow> debit \<Rightarrow> int tx" where
  "refundAtoms key now asOf a d =
     bind_tx (gets (\<lambda>s. sort_key al_id (filter (\<lambda>al. al_debit al = key) (allocations s)))) (\<lambda>als.
     if als = []
     then
       (if deb_epoch d = acc_epoch a
        then returnSubscriptionAtoms now asOf a (deb_amount d) (''usage-refund:'' @ key) ''usage_refund''
        else ret 0)
     else
       bind_tx (gets debt_fuel) (\<lambda>fuel.
         restore_all (restoreAllocationEffect fuel now asOf a) key als 0))"

definition total_atoms :: "account \<Rightarrow> int \<Rightarrow> store \<Rightarrow> int" where
  "total_atoms a asOf s = subscriptionAtoms a asOf + packBalanceAtoms s (acc_id a) asOf"

definition refundDebit :: "string \<Rightarrow> int \<Rightarrow> int \<Rightarrow> account \<Rightarrow> debit \<Rightarrow> CreditResult tx" where
  "refundDebit key now asOf a d =
     bind_tx (lift_tx (newCreditAmount (deb_amount d))) (\<lambda>requested.
     if deb_refunded_at d \<noteq> None
     then
       bind_tx (gets (total_atoms a asOf)) (\<lambda>total.
         lift_tx (creditResult Replayed total requested (deb_restored d)))
     else
       bind_tx (refundAtoms key now asOf a d) (\<lambda>restoredAtoms.
       bind_tx (lift_tx (checkedAddAtoms (deb_restored d) restoredAtoms
                  ''product-operation restored credits'')) (\<lambda>persisted.
       if persisted > deb_amount d
       then throw (PlainError ''restored credits exceed the original product debit'')
       else
         bind_tx (update_debits (\<lambda>r. deb_key r = key)
                    (\<lambda>_ r. r\<lparr>deb_restored := persisted, deb_refunded_at := Some now\<rparr>)) (\<lambda>_.
         bind_tx (gets (\<lambda>s. find_account s (acc_id a))) (\<lambda>refreshed.
           case refreshed of
             None \<Rightarrow> throw (PlainError ''billing account disappeared during credit refund'')
           | Some b \<Rightarrow>
               bind_tx (gets (total_atoms b asOf)) (\<lambda>total.
                 lift_tx (creditResult (if restoredAtoms > 0 then Refunded else EpochExpired)
                            total requested persisted)))))))"

definition refund_body :: "string \<Rightarrow> string option \<Rightarrow> int \<Rightarrow> int \<Rightarrow> CreditResult tx" where
  "refund_body key expectedAccountId now asOf =
     bind_tx
       (case expectedAccountId of
          None \<Rightarrow>
            bind_tx (gets (\<lambda>s. find_debit s key)) (\<lambda>found.
              case found of
                None \<Rightarrow> throw (CreditDebitNotFoundError ''credit debit not found'')
              | Some d \<Rightarrow> ret (deb_account d))
        | Some expected \<Rightarrow> ret expected) (\<lambda>accountId.
     bind_tx (gets (\<lambda>s. find_account s accountId)) (\<lambda>found.
       case found of
         None \<Rightarrow> throw CreditAccountNotFoundError
       | Some a \<Rightarrow>
           bind_tx (expireAccountPackLots (acc_id a) asOf) (\<lambda>_.
           bind_tx (gets (\<lambda>s. find_debit s key)) (\<lambda>debit.
             case debit of
               None \<Rightarrow> throw (CreditDebitNotFoundError ''credit debit not found'')
             | Some d \<Rightarrow>
                 if deb_account d \<noteq> acc_id a then throw CreditDebitOwnerMismatchError
                 else if deb_kind d \<noteq> Usage
                 then throw (CreditDebitNotFoundError ''credit debit is not a refundable product operation'')
                 else refundDebit key now asOf a d))))"

definition refund ::
  "jsval \<Rightarrow> string option \<Rightarrow> int \<Rightarrow> int \<Rightarrow> store \<Rightarrow> CreditResult result \<times> store" where
  "refund idempotencyKeyInput expectedAccountId now asOf s =
     (case validateIdempotencyKey idempotencyKeyInput of
        Inl e \<Rightarrow> (Inl e, s)
      | Inr key \<Rightarrow>
          (case expectedAccountId of
             None \<Rightarrow> transaction (refund_body key None now asOf) s
           | Some expected \<Rightarrow>
               (case normalizeUuid expected ''expectedAccountId'' of
                  Inl e \<Rightarrow> (Inl e, s)
                | Inr accountId \<Rightarrow> transaction (refund_body key (Some accountId) now asOf) s)))"

end
