(* ===== verification/Pack_Events.thy ===== *)
theory Pack_Events
  imports Debt_Collection
begin

text \<open>
  The Stripe events of credit packs (typescript/src/credit-pack-events.ts): the payment that funds an
  order with a lot, the Checkout Session that only records identifiers, and the clawback of cash,
  which withdraws what is left of the lot and turns the rest into a debt. Every event is compared
  with the order's own snapshot before anything is written; a mismatch is recorded as an incident.

  \<open>now\<close> is the start of the transaction, \<open>clock\<close> the reading of \<open>clock_timestamp()\<close>. The session
  time zone is UTC, where a day is 86400 seconds.
\<close>

section \<open>Outcomes and incidents\<close>

datatype outcome = Handled | Ignored | AlreadyDone | Duplicate

record ProcessResult =
  pr_outcome :: outcome
  pr_reason :: string
  pr_account :: "string option"

definition ignored :: "string \<Rightarrow> ProcessResult" where
  "ignored reason = \<lparr>pr_outcome = Ignored, pr_reason = reason, pr_account = None\<rparr>"

definition handled :: "string \<Rightarrow> string \<Rightarrow> ProcessResult" where
  "handled reason acc = \<lparr>pr_outcome = Handled, pr_reason = reason, pr_account = Some acc\<rparr>"

definition event_id_text :: "jsval \<Rightarrow> string option" where
  "event_id_text event = (case jprop event ''id'' of JStr s \<Rightarrow> Some s | _ \<Rightarrow> None)"

definition seen_again ::
  "string option \<Rightarrow> string option \<Rightarrow> string option \<Rightarrow> (string \<times> jsval) list \<Rightarrow> incident \<Rightarrow> incident" where
  "seen_again event invoice acc detail i =
     i\<lparr>in_event := event, in_invoice := (if invoice = None then in_invoice i else invoice),
       in_account := (if acc = None then in_account i else acc), in_detail := detail,
       in_seen := in_seen i + 1\<rparr>"

text \<open>
  The upsert of an incident: the unresolved one of the same kind and key is counted again.
\<close>

definition recordIncident ::
  "string \<Rightarrow> jsval \<Rightarrow> string \<Rightarrow> string option \<Rightarrow> string option \<Rightarrow> (string \<times> jsval) list \<Rightarrow> unit tx" where
  "recordIncident kind event dedupe invoice acc detail =
     modify (\<lambda>s.
       let same = (\<lambda>i. in_kind i = kind \<and> in_dedupe i = dedupe \<and> \<not> in_resolved i) in
       if list_ex same (incidents s)
       then s\<lparr>incidents := update_rows same
                (seen_again (event_id_text event) invoice acc detail) (incidents s)\<rparr>
       else s\<lparr>incidents := incidents s @
                [\<lparr>in_kind = kind, in_dedupe = dedupe, in_event = event_id_text event,
                  in_invoice = invoice, in_account = acc, in_detail = detail, in_seen = 1,
                  in_resolved = False\<rparr>]\<rparr>)"

section \<open>The identity of an order\<close>

definition PACK_SCHEMA_VERSION :: string where
  "PACK_SCHEMA_VERSION = ''1''"

definition pack_metadata :: "jsval \<Rightarrow> jsval" where
  "pack_metadata v = (if isPlainRecord v then v else JObj True [])"

definition stripeId :: "jsval \<Rightarrow> string \<Rightarrow> string option" where
  "stripeId v prefix =
     (case asStripeId v of
        None \<Rightarrow> None
      | Some candidate \<Rightarrow> if starts_with prefix candidate then Some candidate else None)"

definition canonicalUuid :: "jsval \<Rightarrow> string option" where
  "canonicalUuid v = (case v of JStr s \<Rightarrow> if UUID s then Some (toLowerCase s) else None | _ \<Rightarrow> None)"

definition eventObject :: "jsval \<Rightarrow> jsval option" where
  "eventObject event =
     (let data = jprop event ''data'' in
      if isPlainRecord data \<and> isPlainRecord (jprop data ''object'')
      then Some (jprop data ''object'') else None)"

definition nullableMatches :: "string option \<Rightarrow> string option \<Rightarrow> bool" where
  "nullableMatches observed expected \<longleftrightarrow> observed = None \<or> observed = expected"

definition orderMetadata :: "string \<Rightarrow> jsval \<Rightarrow> (string \<times> string \<times> string) option" where
  "orderMetadata productLine obj =
     (let values = pack_metadata (jprop obj ''metadata'') in
      if jprop values ''billing_kind'' \<noteq> JStr ''credit_pack''
         \<or> jprop values ''pack_schema_version'' \<noteq> JStr PACK_SCHEMA_VERSION
         \<or> jprop values ''product_line'' \<noteq> JStr productLine
      then None
      else
        case (canonicalUuid (jprop values ''credit_pack_order_id''),
              canonicalUuid (jprop values ''account_id''), jprop values ''pack_key'') of
          (Some orderId, Some accountId, JStr packKey) \<Rightarrow> Some (orderId, accountId, packKey)
        | _ \<Rightarrow> None)"

definition metadataMatchesOrder :: "string \<Rightarrow> jsval \<Rightarrow> pack_order \<Rightarrow> bool result" where
  "metadataMatchesOrder productLine obj po =
     bind_result (creditDecimal (po_pack_credits po) ''credit atoms'') (\<lambda>credits.
       let values = pack_metadata (jprop obj ''metadata'') in
       Inr (list_all (\<lambda>(key, v). jprop values key = JStr v)
         [(''billing_kind'', ''credit_pack''), (''pack_schema_version'', PACK_SCHEMA_VERSION),
          (''product_line'', productLine), (''credit_pack_order_id'', po_id po),
          (''account_id'', po_account po), (''pack_key'', po_pack_key po),
          (''pack_credits'', credits), (''price_amount'', show_int (po_price po)),
          (''currency'', po_currency po), (''expires_days'', show_int (po_expires_days po)),
          (''lookup_key'', po_lookup_key po)]))"

definition lockedOrder :: "string \<Rightarrow> string \<Rightarrow> (account \<times> pack_order) option tx" where
  "lockedOrder orderId accountId =
     gets (\<lambda>s.
       case find_order s orderId of
         None \<Rightarrow> None
       | Some po \<Rightarrow>
           if po_account po \<noteq> accountId then None
           else (case find_account s accountId of
                   None \<Rightarrow> None
                 | Some a \<Rightarrow> if po_account po \<noteq> acc_id a then None else Some (a, po)))"

definition claim_customer :: "account \<Rightarrow> string \<Rightarrow> unit tx" where
  "claim_customer a customer =
     (if acc_customer a = None
      then update_accounts (\<lambda>r. acc_id r = acc_id a) (\<lambda>r. r\<lparr>acc_customer := Some customer\<rparr>)
      else ret ())"

definition coalesce :: "'a option \<Rightarrow> 'a option \<Rightarrow> 'a option" where
  "coalesce x y = (case x of None \<Rightarrow> y | Some v \<Rightarrow> Some v)"

section \<open>A payment\<close>

definition SECOND :: int where "SECOND = 1000000"

definition financial_expiry :: "int \<Rightarrow> int \<Rightarrow> int" where
  "financial_expiry eventCreated days = eventCreated * SECOND + days * 86400 * SECOND"

definition payment_shape_matches ::
  "string \<Rightarrow> jsval \<Rightarrow> string \<Rightarrow> string \<Rightarrow> account \<Rightarrow> pack_order \<Rightarrow> bool result" where
  "payment_shape_matches productLine obj paymentIntentId packKey a po =
     bind_result (metadataMatchesOrder productLine obj po) (\<lambda>metadataOk.
       let customerId = stripeId (jprop obj ''customer'') ''cus_'';
           chargeId = stripeId (jprop obj ''latest_charge'') ''ch_'' in
       Inr (jprop obj ''object'' = JStr ''payment_intent'' \<and>
            jprop obj ''status'' = JStr ''succeeded'' \<and>
            customerId \<noteq> None \<and> chargeId \<noteq> None \<and>
            stripeNonnegativeInteger (jprop obj ''amount'') = Some (po_price po) \<and>
            stripeNonnegativeInteger (jprop obj ''amount_received'') = Some (po_price po) \<and>
            jprop obj ''currency'' = JStr (po_currency po) \<and>
            packKey = po_pack_key po \<and> metadataOk \<and>
            nullableMatches (po_payment_intent po) (Some paymentIntentId) \<and>
            nullableMatches (po_charge po) chargeId \<and>
            nullableMatches (po_request_customer po) customerId \<and>
            nullableMatches (po_customer po) customerId \<and>
            nullableMatches (acc_customer a) customerId))"

definition pay_order ::
  "string \<Rightarrow> string \<Rightarrow> string \<Rightarrow> int \<Rightarrow> payment_status \<Rightarrow> int \<Rightarrow> pack_order \<Rightarrow> pack_order" where
  "pay_order paymentIntentId chargeId customerId amount paymentStatus eventCreated po =
     po\<lparr>po_payment_intent := Some paymentIntentId, po_charge := coalesce (po_charge po) (Some chargeId),
        po_customer := Some customerId, po_amount_paid := Some amount,
        po_payment_status := paymentStatus,
        po_paid_at := coalesce (po_paid_at po) (Some (eventCreated * SECOND)),
        po_checkout_status :=
          (if po_session po = None \<or> po_checkout_status po = CheckoutExpired
           then po_checkout_status po else Completed)\<rparr>"

definition insert_lot :: "funding_lot \<Rightarrow> unit tx" where
  "insert_lot l = modify (\<lambda>s. s\<lparr>lots := lots s @ [l]\<rparr>)"

text \<open>The lot a payment funds, from the order as it was before the payment.\<close>

definition new_lot :: "string \<Rightarrow> pack_order \<Rightarrow> payment_status \<Rightarrow> int \<Rightarrow> int \<Rightarrow> funding_lot" where
  "new_lot lotId po paymentStatus eventCreated clock =
     (let packAtoms = po_pack_credits po; refundedAtoms = po_refunded_credits po;
          remaining = packAtoms - refundedAtoms;
          fundingTerminal = (refundedAtoms = packAtoms \<or> paymentStatus = Disputed);
          financiallyExpired =
            (\<not> fundingTerminal \<and> financial_expiry eventCreated (po_expires_days po) \<le> clock) in
      \<lparr>lot_id = lotId, lot_order = po_id po, lot_account = po_account po, lot_original = packAtoms,
       lot_remaining = (if fundingTerminal \<or> financiallyExpired then 0 else remaining),
       lot_expired = (if financiallyExpired then remaining else 0), lot_clawed = refundedAtoms,
       lot_expires = financial_expiry eventCreated (po_expires_days po),
       lot_status = (if fundingTerminal then (if paymentStatus = Disputed then LotDisputed else LotRefunded)
                     else if financiallyExpired then LotExpired else LotActive),
       lot_closed_at = (if fundingTerminal then Some (eventCreated * SECOND)
                        else if financiallyExpired then Some clock else None)\<rparr>)"

definition fund_order :: "pack_order \<Rightarrow> payment_status \<Rightarrow> int \<Rightarrow> string \<Rightarrow> int \<Rightarrow> int \<Rightarrow> ProcessResult tx" where
  "fund_order po paymentStatus eventCreated accountId now clock =
     bind_tx randomUUID (\<lambda>lotId.
       let lot = new_lot lotId po paymentStatus eventCreated clock in
       bind_tx (insert_lot lot) (\<lambda>_.
       bind_tx (if lot_status lot = LotActive \<and> lot_remaining lot > 0
                then bind_tx (collectPackDebtsFromLot now accountId lotId (lot_remaining lot)) (\<lambda>_. ret ())
                else ret ()) (\<lambda>_.
         ret (handled ''credit-pack funding granted'' accountId))))"

definition paymentSucceeded :: "string \<Rightarrow> jsval \<Rightarrow> int \<Rightarrow> int \<Rightarrow> ProcessResult tx" where
  "paymentSucceeded productLine event now clock =
     (let unauthorized = ignored ''PaymentIntent is not an authorized credit-pack payment'' in
      case eventObject event of
        None \<Rightarrow> ret unauthorized
      | Some obj \<Rightarrow>
          (let paymentIntentId = stripeId (jprop obj ''id'') ''pi_'' in
           case orderMetadata productLine obj of
             None \<Rightarrow>
               (case paymentIntentId of
                  Some pi \<Rightarrow>
                    if jprop (pack_metadata (jprop obj ''metadata'')) ''billing_kind'' = JStr ''credit_pack''
                    then bind_tx (recordIncident ''credit_pack_payment_metadata_invalid'' event pi None None [])
                           (\<lambda>_. ret unauthorized)
                    else ret unauthorized
                | None \<Rightarrow> ret unauthorized)
           | Some (orderId, accountId, packKey) \<Rightarrow>
               (case paymentIntentId of
                  None \<Rightarrow> ret unauthorized
                | Some pi \<Rightarrow>
                    bind_tx (lockedOrder orderId accountId) (\<lambda>locked.
                      case locked of
                        None \<Rightarrow>
                          bind_tx (recordIncident ''credit_pack_payment_identity_conflict'' event pi None None
                                     [(''order_id'', JStr orderId)])
                            (\<lambda>_. ret (ignored ''credit-pack order identity is missing or conflicting''))
                      | Some (a, po) \<Rightarrow>
                          bind_tx (lift_tx (payment_shape_matches productLine obj pi packKey a po)) (\<lambda>shapeMatches.
                            case (shapeMatches, stripeId (jprop obj ''customer'') ''cus_'',
                                  stripeId (jprop obj ''latest_charge'') ''ch_'',
                                  stripeNonnegativeInteger (jprop obj ''amount_received'')) of
                              (True, Some customerId, Some chargeId, Some amount) \<Rightarrow>
                                bind_tx (gets (\<lambda>s. lot_of_order s orderId)) (\<lambda>existingLot.
                                  case stripeNonnegativeInteger (jprop event ''created'') of
                                    None \<Rightarrow> ret (ignored ''credit-pack payment has no valid creation time'')
                                  | Some eventCreated \<Rightarrow>
                                      (let paymentStatus =
                                         (if po_payment_status po = Pending then Paid else po_payment_status po) in
                                       bind_tx (update_orders (\<lambda>r. po_id r = po_id po)
                                         (pay_order pi chargeId customerId amount paymentStatus eventCreated)) (\<lambda>_.
                                       bind_tx (claim_customer a customerId) (\<lambda>_.
                                         if existingLot \<noteq> None
                                         then ret \<lparr>pr_outcome = AlreadyDone,
                                                   pr_reason = ''credit-pack funding lot already exists'',
                                                   pr_account = Some accountId\<rparr>
                                         else fund_order po paymentStatus eventCreated accountId now clock))))
                            | _ \<Rightarrow>
                                bind_tx (recordIncident ''credit_pack_payment_contract_mismatch'' event pi None
                                           (Some (acc_id a)) [(''order_id'', JStr orderId)])
                                  (\<lambda>_. ret (ignored ''credit-pack PaymentIntent does not match its order'')))))))"

section \<open>A Checkout Session\<close>

definition checkout_contract_matches ::
  "string \<Rightarrow> jsval \<Rightarrow> jsval \<Rightarrow> (string \<times> string \<times> string) option \<Rightarrow> account \<Rightarrow> pack_order \<Rightarrow> bool result" where
  "checkout_contract_matches productLine event obj identity a po =
     bind_result (metadataMatchesOrder productLine obj po) (\<lambda>metadataOk.
       let expired = (jprop event ''type'' = JStr ''checkout.session.expired'');
           paymentStatus = jprop obj ''payment_status'';
           customerId = stripeId (jprop obj ''customer'') ''cus_'' in
       Inr (jprop obj ''object'' = JStr ''checkout.session'' \<and>
            jprop obj ''mode'' = JStr ''payment'' \<and>
            jprop obj ''status'' = JStr (if expired then ''expired'' else ''complete'') \<and>
            (if expired then paymentStatus = JStr ''unpaid''
             else paymentStatus = JStr ''paid'' \<or> paymentStatus = JStr ''unpaid'') \<and>
            jprop obj ''client_reference_id'' = JStr (acc_id a) \<and>
            stripeNonnegativeInteger (jprop obj ''amount_total'') = Some (po_price po) \<and>
            jprop obj ''currency'' = JStr (po_currency po) \<and>
            identity = Some (po_id po, acc_id a, po_pack_key po) \<and> metadataOk \<and>
            customerId \<noteq> None \<and> nullableMatches (po_request_customer po) customerId))"

text \<open>The order a Session belongs to: by the recorded Session, else by its metadata.\<close>

definition session_order ::
  "string \<Rightarrow> (string \<times> string \<times> string) option \<Rightarrow> store \<Rightarrow> pack_order option" where
  "session_order sessionId identity s =
     (case find (\<lambda>po. po_session po = Some sessionId) (orders s) of
        Some po \<Rightarrow> Some po
      | None \<Rightarrow>
          (case identity of
             None \<Rightarrow> None
           | Some (orderId, accountId, _) \<Rightarrow>
               (case find_order s orderId of
                  None \<Rightarrow> None
                | Some po \<Rightarrow> if po_account po = accountId then Some po else None)))"

definition record_checkout ::
  "string \<Rightarrow> jsval \<Rightarrow> jsval \<Rightarrow> string \<Rightarrow> account \<Rightarrow> pack_order \<Rightarrow> string \<Rightarrow> ProcessResult tx" where
  "record_checkout productLine event obj sessionId a po customerId =
     bind_tx (if po_session po = None
              then update_orders (\<lambda>r. po_id r = po_id po)
                     (\<lambda>r. r\<lparr>po_session := Some sessionId, po_checkout_status := SessionCreated\<rparr>)
              else ret ()) (\<lambda>_.
     if jprop event ''type'' = JStr ''checkout.session.expired''
     then
       bind_tx (if po_payment_status po = Pending
                then update_orders (\<lambda>r. po_id r = po_id po)
                       (\<lambda>r. r\<lparr>po_checkout_status := CheckoutExpired, po_session_url := None\<rparr>)
                else ret ()) (\<lambda>_.
         ret (handled ''credit-pack Checkout expired'' (acc_id a)))
     else
       (let conflict =
          bind_tx (recordIncident ''credit_pack_checkout_contract_mismatch'' event sessionId None
                     (Some (acc_id a)) [])
            (\<lambda>_. ret (ignored ''credit-pack Checkout identity is conflicting'')) in
        case stripeId (jprop obj ''payment_intent'') ''pi_'' of
          None \<Rightarrow> conflict
        | Some paymentIntentId \<Rightarrow>
            if \<not> nullableMatches (po_payment_intent po) (Some paymentIntentId)
               \<or> \<not> nullableMatches (po_customer po) (Some customerId)
               \<or> \<not> nullableMatches (acc_customer a) (Some customerId)
            then conflict
            else
              bind_tx (update_orders
                (\<lambda>r. po_id r = po_id po \<and>
                     (po_payment_intent r = None \<or> po_payment_intent r = Some paymentIntentId))
                (\<lambda>r. r\<lparr>po_checkout_status := Completed,
                        po_payment_intent := coalesce (po_payment_intent r) (Some paymentIntentId),
                        po_customer := coalesce (po_customer r) (Some customerId)\<rparr>)) (\<lambda>_.
              bind_tx (claim_customer a customerId) (\<lambda>_.
                ret (handled ''credit-pack Checkout recorded; payment webhook remains authoritative''
                       (acc_id a))))))"

definition checkoutEvent :: "string \<Rightarrow> jsval \<Rightarrow> ProcessResult option tx" where
  "checkoutEvent productLine event =
     (case eventObject event of
        None \<Rightarrow> ret None
      | Some obj \<Rightarrow>
          (case stripeId (jprop obj ''id'') ''cs_'' of
             None \<Rightarrow> ret None
           | Some sessionId \<Rightarrow>
               (let identity = orderMetadata productLine obj;
                    missing = ret (Some (ignored ''credit-pack Checkout order is missing'')) in
                bind_tx (gets (session_order sessionId identity)) (\<lambda>found.
                  case found of
                    None \<Rightarrow> (if identity = None then ret None else missing)
                  | Some po \<Rightarrow>
                      bind_tx (gets (\<lambda>s. find_account s (po_account po))) (\<lambda>acc.
                        case acc of
                          None \<Rightarrow> missing
                        | Some a \<Rightarrow>
                            if \<not> nullableMatches (po_session po) (Some sessionId)
                            then ret (Some (ignored ''credit-pack Checkout Session identity is conflicting''))
                            else
                              bind_tx (lift_tx (checkout_contract_matches productLine event obj identity a po))
                                (\<lambda>contractMatches.
                                case (contractMatches, stripeId (jprop obj ''customer'') ''cus_'') of
                                  (True, Some customerId) \<Rightarrow>
                                    bind_tx (record_checkout productLine event obj sessionId a po customerId)
                                      (\<lambda>r. ret (Some r))
                                | _ \<Rightarrow>
                                    bind_tx (recordIncident ''credit_pack_checkout_contract_mismatch'' event
                                               sessionId None (Some (acc_id a)) [])
                                      (\<lambda>_. ret (Some (ignored
                                         ''credit-pack Checkout contract is conflicting'')))))))))"

section \<open>A refund or a dispute\<close>

definition dispute_contract_matches :: "jsval \<Rightarrow> jsval \<Rightarrow> pack_order \<Rightarrow> bool" where
  "dispute_contract_matches raw chg po \<longleftrightarrow>
     stripeId (jprop raw ''id'') ''dp_'' \<noteq> None \<and>
     jprop raw ''object'' = JStr ''dispute'' \<and>
     stripeId (jprop raw ''charge'') ''ch_'' = stripeId (jprop chg ''id'') ''ch_'' \<and>
     (case (stripeNonnegativeInteger (jprop raw ''amount''),
            stripeNonnegativeInteger (jprop chg ''amount'')) of
        (Some disputeAmount, Some amount) \<Rightarrow> 0 < disputeAmount \<and> disputeAmount \<le> amount
      | _ \<Rightarrow> False) \<and>
     jprop raw ''currency'' = JStr (po_currency po) \<and>
     jprop chg ''disputed'' = JBool True"

definition is_bool :: "jsval \<Rightarrow> bool" where
  "is_bool v \<longleftrightarrow> (case v of JBool b \<Rightarrow> True | _ \<Rightarrow> False)"

text \<open>The contract of a clawback: the amount charged and the amount refunded when it holds.\<close>

definition clawback_contract ::
  "string \<Rightarrow> bool \<Rightarrow> jsval \<Rightarrow> jsval \<Rightarrow> jsval \<Rightarrow> string \<Rightarrow> string \<Rightarrow> account \<Rightarrow> pack_order
   \<Rightarrow> (string \<times> string \<times> int \<times> int) option result"
where
  "clawback_contract productLine dispute raw chg paymentIntent paymentIntentId packKey a po =
     bind_result (metadataMatchesOrder productLine paymentIntent po) (\<lambda>metadataOk.
       let chargeId = stripeId (jprop chg ''id'') ''ch_'';
           customerId = stripeId (jprop chg ''customer'') ''cus_'';
           amount = stripeNonnegativeInteger (jprop chg ''amount'');
           chargeAmountRefunded = stripeNonnegativeInteger (jprop chg ''amount_refunded'');
           amountRefunded = (if dispute then amount else chargeAmountRefunded) in
       case (chargeId, customerId, amount, amountRefunded, chargeAmountRefunded) of
         (Some chargeId', Some customerId', Some amount', Some refunded, Some chargeRefunded) \<Rightarrow>
           Inr (if jprop chg ''object'' = JStr ''charge'' \<and>
                   jprop chg ''paid'' = JBool True \<and>
                   amount' = po_price po \<and> refunded \<le> amount' \<and> chargeRefunded \<le> amount' \<and>
                   (dispute \<or> refunded > 0) \<and>
                   jprop chg ''refunded'' = JBool (chargeRefunded = amount') \<and>
                   is_bool (jprop chg ''disputed'') \<and>
                   jprop chg ''currency'' = JStr (po_currency po) \<and>
                   jprop paymentIntent ''object'' = JStr ''payment_intent'' \<and>
                   jprop paymentIntent ''status'' = JStr ''succeeded'' \<and>
                   stripeId (jprop paymentIntent ''customer'') ''cus_'' = customerId \<and>
                   stripeId (jprop paymentIntent ''latest_charge'') ''ch_'' = chargeId \<and>
                   stripeNonnegativeInteger (jprop paymentIntent ''amount'') = amount \<and>
                   stripeNonnegativeInteger (jprop paymentIntent ''amount_received'') = amount \<and>
                   jprop paymentIntent ''currency'' = JStr (po_currency po) \<and>
                   metadataOk \<and> (dispute \<longrightarrow> dispute_contract_matches raw chg po) \<and>
                   packKey = po_pack_key po \<and>
                   nullableMatches (po_payment_intent po) (Some paymentIntentId) \<and>
                   nullableMatches (po_charge po) chargeId \<and>
                   nullableMatches (po_request_customer po) customerId \<and>
                   nullableMatches (po_customer po) customerId \<and>
                   nullableMatches (acc_customer a) customerId
                then Some (chargeId', customerId', amount', refunded) else None)
       | _ \<Rightarrow> Inr None)"

text \<open>The cash facts of an order after a clawback.\<close>

definition target_cash :: "bool \<Rightarrow> int \<Rightarrow> int \<Rightarrow> pack_order \<Rightarrow> int" where
  "target_cash dispute amount amountRefunded po =
     (if dispute then amount
      else if po_amount_refunded po > amountRefunded then po_amount_refunded po else amountRefunded)"

text \<open>The product of non-negative bigints is exact, and \<open>/\<close> truncates: the ceiling of the share.\<close>

definition target_atoms :: "bool \<Rightarrow> int \<Rightarrow> int \<Rightarrow> pack_order \<Rightarrow> int" where
  "target_atoms dispute amount targetCash po =
     (if dispute \<or> targetCash \<ge> amount then po_pack_credits po
      else (po_pack_credits po * targetCash + amount - 1) div amount)"

definition cash_status :: "bool \<Rightarrow> int \<Rightarrow> int \<Rightarrow> payment_status" where
  "cash_status dispute amount targetCash =
     (if dispute then Disputed else if targetCash \<ge> amount then FullyRefunded else PartiallyRefunded)"

definition claw_order ::
  "string \<Rightarrow> string \<Rightarrow> string \<Rightarrow> int \<Rightarrow> int \<Rightarrow> int \<Rightarrow> payment_status \<Rightarrow> pack_order \<Rightarrow> pack_order" where
  "claw_order paymentIntentId chargeId customerId amount targetCash targetAtoms status po =
     po\<lparr>po_payment_intent := coalesce (po_payment_intent po) (Some paymentIntentId),
        po_charge := coalesce (po_charge po) (Some chargeId),
        po_customer := coalesce (po_customer po) (Some customerId), po_amount_paid := Some amount,
        po_amount_refunded := targetCash, po_refunded_credits := targetAtoms,
        po_payment_status := status\<rparr>"

text \<open>
  \<open>delta\<close> atoms are taken from what remains of the lot, then from what it let expire; the result is
  what could be taken.
\<close>

definition claw_lot :: "bool \<Rightarrow> bool \<Rightarrow> int \<Rightarrow> int \<Rightarrow> funding_lot \<Rightarrow> int tx" where
  "claw_lot dispute terminal delta now l =
     (let remainingRemoved =
            (if lot_status l = LotActive
             then (if delta < lot_remaining l then delta else lot_remaining l) else 0);
          wantedExpired = delta - remainingRemoved;
          expiredRemoved = (if wantedExpired < lot_expired l then wantedExpired else lot_expired l);
          removed = remainingRemoved + expiredRemoved in
      bind_tx (lift_tx (checkedAddAtoms (lot_clawed l) removed ''cash-clawed-back pack credits'')) (\<lambda>clawed.
      bind_tx (update_lots (\<lambda>r. lot_id r = lot_id l)
        (\<lambda>r. r\<lparr>lot_remaining := lot_remaining r - remainingRemoved,
                lot_expired := lot_expired r - expiredRemoved, lot_clawed := clawed,
                lot_status := (if terminal then (if dispute then LotDisputed else LotRefunded)
                               else lot_status r),
                lot_closed_at := (if terminal then Some now else lot_closed_at r)\<rparr>)) (\<lambda>_.
        ret removed)))"

definition current_lot :: "int \<Rightarrow> int \<Rightarrow> funding_lot \<Rightarrow> funding_lot tx" where
  "current_lot now clock l =
     (if lot_status l = LotActive \<and> \<not> lot_expires l > clock
      then
        bind_tx (update_lots (\<lambda>r. lot_id r = lot_id l) (expire_lot now)) (\<lambda>_.
        bind_tx (gets (\<lambda>s. find_lot s (lot_id l))) (\<lambda>refreshed.
          case refreshed of
            None \<Rightarrow> throw (PlainError ''credit-pack funding lot disappeared while locked'')
          | Some l' \<Rightarrow> ret l'))
      else ret l)"

definition owe_pack_debt :: "int \<Rightarrow> pack_order \<Rightarrow> int \<Rightarrow> unit tx" where
  "owe_pack_debt clock po missing =
     bind_tx (gets (\<lambda>s. find_debt s (po_id po))) (\<lambda>existing.
       case existing of
         None \<Rightarrow>
           modify (\<lambda>s. s\<lparr>pack_debts := pack_debts s @
             [\<lparr>pd_order = po_id po, pd_account = po_account po, pd_target = missing, pd_collected = 0,
               pd_released = 0, pd_created = clock\<rparr>]\<rparr>)
       | Some d \<Rightarrow>
           bind_tx (lift_tx (checkedAddAtoms (pd_target d) missing ''credit-pack clawback debt target'')) (\<lambda>target.
           bind_tx (update_debts (\<lambda>r. pd_order r = po_id po) (\<lambda>r. r\<lparr>pd_target := target\<rparr>)) (\<lambda>_.
             ret ())))"

definition withdraw_pack :: "bool \<Rightarrow> bool \<Rightarrow> int \<Rightarrow> int \<Rightarrow> int \<Rightarrow> pack_order \<Rightarrow> int tx" where
  "withdraw_pack dispute terminal delta now clock po =
     bind_tx (gets (\<lambda>s. lot_of_order s (po_id po))) (\<lambda>lot.
       case lot of
         None \<Rightarrow> ret 0
       | Some l0 \<Rightarrow>
           bind_tx (current_lot now clock l0) (\<lambda>l.
           bind_tx (claw_lot dispute terminal delta now l) (\<lambda>removed.
           bind_tx (if delta - removed > 0 then owe_pack_debt clock po (delta - removed) else ret ()) (\<lambda>_.
             ret removed))))"

definition apply_clawback ::
  "bool \<Rightarrow> int \<Rightarrow> int \<Rightarrow> string \<Rightarrow> string \<Rightarrow> string \<Rightarrow> int \<Rightarrow> int \<Rightarrow> pack_order \<Rightarrow> ProcessResult tx" where
  "apply_clawback dispute now clock paymentIntentId chargeId customerId amount amountRefunded po =
     (let targetCash = target_cash dispute amount amountRefunded po;
          targetAtoms = target_atoms dispute amount targetCash po;
          status = cash_status dispute amount targetCash in
      if targetAtoms \<le> po_refunded_credits po
      then
        (if targetCash > po_amount_refunded po \<or> status \<noteq> po_payment_status po
         then
           bind_tx (update_orders (\<lambda>r. po_id r = po_id po)
             (\<lambda>r. claw_order paymentIntentId chargeId customerId amount targetCash
                    (po_refunded_credits r) status r)) (\<lambda>_.
           bind_tx (if dispute
                    then update_lots (\<lambda>l. lot_order l = po_id po \<and> lot_remaining l = 0)
                           (\<lambda>l. l\<lparr>lot_status := LotDisputed,
                                   lot_closed_at := coalesce (lot_closed_at l) (Some now)\<rparr>)
                    else ret 0) (\<lambda>_.
             ret (handled ''credit-pack clawback cash facts advanced'' (po_account po))))
         else ret \<lparr>pr_outcome = AlreadyDone, pr_reason = ''credit-pack clawback facts did not advance'',
                   pr_account = Some (po_account po)\<rparr>)
      else
        bind_tx (withdraw_pack dispute (dispute \<or> targetAtoms = po_pack_credits po)
                   (targetAtoms - po_refunded_credits po) now clock po) (\<lambda>removed.
        bind_tx (update_orders (\<lambda>r. po_id r = po_id po)
          (claw_order paymentIntentId chargeId customerId amount targetCash targetAtoms status)) (\<lambda>_.
        bind_tx (lift_tx (creditDecimal removed ''credit atoms'')) (\<lambda>removedText.
          ret (handled (''credit-pack clawback removed '' @ removedText @ '' credits'') (po_account po))))))"

definition pack_clawback :: "string \<Rightarrow> jsval \<Rightarrow> int \<Rightarrow> int \<Rightarrow> ProcessResult option tx" where
  "pack_clawback productLine event now clock =
     (case eventObject event of
        None \<Rightarrow> ret None
      | Some raw \<Rightarrow>
          (let dispute = (jprop event ''type'' = JStr ''charge.dispute.created'');
               chg = (if dispute then jprop raw ''_resolved_charge'' else raw);
               paymentIntent = jprop raw ''_resolved_payment_intent'' in
           if \<not> isPlainRecord chg \<or> \<not> isPlainRecord paymentIntent then ret None
           else
             case (orderMetadata productLine paymentIntent, stripeId (jprop chg ''payment_intent'') ''pi_'') of
               (Some (orderId, accountId, packKey), Some paymentIntentId) \<Rightarrow>
                 if stripeId (jprop paymentIntent ''id'') ''pi_'' \<noteq> Some paymentIntentId then ret None
                 else
                   bind_tx (lockedOrder orderId accountId) (\<lambda>locked.
                     case locked of
                       None \<Rightarrow> ret (Some (ignored ''credit-pack clawback order is missing''))
                     | Some (a, po) \<Rightarrow>
                         bind_tx (lift_tx (clawback_contract productLine dispute raw chg paymentIntent
                                    paymentIntentId packKey a po)) (\<lambda>contract.
                           case contract of
                             None \<Rightarrow>
                               bind_tx (recordIncident ''credit_pack_clawback_contract_mismatch'' event
                                 (case stripeId (jprop chg ''id'') ''ch_'' of
                                    Some k \<Rightarrow> k
                                  | None \<Rightarrow> (case event_id_text event of Some k \<Rightarrow> k | None \<Rightarrow> ''undefined''))
                                 None (Some (acc_id a)) [])
                                 (\<lambda>_. ret (Some (ignored ''credit-pack clawback does not match its order'')))
                           | Some (chargeId, customerId, amount, amountRefunded) \<Rightarrow>
                               bind_tx (claim_customer a customerId) (\<lambda>_.
                               bind_tx (apply_clawback dispute now clock paymentIntentId chargeId customerId
                                          amount amountRefunded po) (\<lambda>r. ret (Some r)))))
             | _ \<Rightarrow> ret None))"

end
