(* ===== verification/Debt_Facts.thy ===== *)
theory Debt_Facts
  imports Debt_Collection
begin

text \<open>
  What the collection of debts does to the ledger: it keeps the invariant, takes the smaller of
  what is available and what is owed, and leaves alone the debts of a given set of orders with the
  collections that pay them. Refunds and pack events rest on these facts.
\<close>

section \<open>Results of a step\<close>

text \<open>
  The two ways a ledger operation may fail for a reason outside the ledger: the subscription balance
  would leave the range of bigint, or \<open>randomUUID\<close> returned a key that is already taken.
\<close>

definition environmental :: "error \<Rightarrow> bool" where
  "environmental e \<longleftrightarrow>
     e = ConstraintViolation ''credit_debits_pkey'' \<or>
     e = RangeError (''refunded subscription credit balance'' @
                     '' exceeds the PostgreSQL bigint atom range'')"

definition yields :: "('a \<Rightarrow> 's \<Rightarrow> bool) \<Rightarrow> ('a \<times> 's) result \<Rightarrow> bool" where
  "yields Q r \<longleftrightarrow> (case r of Inl e \<Rightarrow> environmental e | Inr (x, s) \<Rightarrow> Q x s)"

lemma yields_simps [simp]:
  "yields Q (Inl e) = environmental e" "yields Q (Inr (x, s)) = Q x s"
  by (simp_all add: yields_def)

lemma yields_bind:
  "yields P (m s) \<Longrightarrow> (\<And>x s'. P x s' \<Longrightarrow> yields Q (f x s')) \<Longrightarrow> yields Q (bind_tx m f s)"
  by (cases "m s") (auto simp: bind_tx_def)

lemma yields_mono: "yields P r \<Longrightarrow> (\<And>x s. P x s \<Longrightarrow> Q x s) \<Longrightarrow> yields Q r"
  by (cases r) auto

section \<open>What stays as it was\<close>

text \<open>The debt that is not released yet, over all orders.\<close>

definition unreleased :: "store \<Rightarrow> int" where
  "unreleased s = (\<Sum>d\<leftarrow>pack_debts s. pd_target d - pd_released d)"

text \<open>A debit of a product operation, or of the debt of an order in \<open>V\<close>.\<close>

definition guarded :: "string set \<Rightarrow> debit_kind \<Rightarrow> bool" where
  "guarded V k \<longleftrightarrow> (case k of Usage \<Rightarrow> True | Collection po \<Rightarrow> po \<in> V)"

definition guarded_row :: "string set \<Rightarrow> store \<Rightarrow> allocation \<Rightarrow> bool" where
  "guarded_row V s b \<longleftrightarrow> b \<in> set (allocations s) \<and>
     (case collects s (al_debit b) of None \<Rightarrow> True | Some po \<Rightarrow> po \<in> V)"

definition same_account :: "account \<Rightarrow> account" where
  "same_account a = a\<lparr>acc_balance := 0\<rparr>"

definition same_lot :: "funding_lot \<Rightarrow> funding_lot" where
  "same_lot l = l\<lparr>lot_remaining := 0, lot_expired := 0\<rparr>"

definition same_debt :: "pack_debt \<Rightarrow> string \<times> string \<times> int" where
  "same_debt d = (pd_order d, pd_account d, pd_target d)"

definition same_debit :: "debit \<Rightarrow> string \<times> string \<times> int \<times> debit_kind" where
  "same_debit d = (deb_key d, deb_account d, deb_amount d, deb_kind d)"

definition undisturbed :: "string set \<Rightarrow> store \<Rightarrow> store \<Rightarrow> bool" where
  "undisturbed V s t \<longleftrightarrow>
     orders t = orders s \<and>
     map same_account (accounts t) = map same_account (accounts s) \<and>
     map same_lot (lots t) = map same_lot (lots s) \<and>
     map same_debt (pack_debts t) = map same_debt (pack_debts s) \<and>
     same_debit ` set (debits s) \<subseteq> same_debit ` set (debits t) \<and>
     (\<forall>l. lot_order l \<in> V \<longrightarrow> l \<in> set (lots s) \<longrightarrow> l \<in> set (lots t)) \<and>
     (\<forall>po \<in> V. find_debt t po = find_debt s po) \<and>
     (\<forall>d. guarded V (deb_kind d) \<longrightarrow> d \<in> set (debits s) \<longleftrightarrow> d \<in> set (debits t)) \<and>
     (\<forall>b. guarded_row V s b \<longleftrightarrow> guarded_row V t b) \<and>
     next_allocation s \<le> next_allocation t \<and> unreleased t \<le> unreleased s"

lemma undisturbedD:
  assumes "undisturbed V s t"
  shows "orders t = orders s" "map same_account (accounts t) = map same_account (accounts s)"
    "map same_lot (lots t) = map same_lot (lots s)"
    "map same_debt (pack_debts t) = map same_debt (pack_debts s)"
    "same_debit ` set (debits s) \<subseteq> same_debit ` set (debits t)"
    "\<And>l. lot_order l \<in> V \<Longrightarrow> l \<in> set (lots s) \<Longrightarrow> l \<in> set (lots t)"
    "\<And>po. po \<in> V \<Longrightarrow> find_debt t po = find_debt s po"
    "\<And>d. guarded V (deb_kind d) \<Longrightarrow> d \<in> set (debits s) \<longleftrightarrow> d \<in> set (debits t)"
    "\<And>b. guarded_row V s b \<longleftrightarrow> guarded_row V t b"
    "next_allocation s \<le> next_allocation t" "unreleased t \<le> unreleased s"
  using assms by (simp_all add: undisturbed_def)

lemma undisturbed_refl [simp]: "undisturbed V s s"
  by (simp add: undisturbed_def)

lemma undisturbed_trans:
  assumes "undisturbed V s t" "undisturbed V t u"
  shows "undisturbed V s u"
proof -
  note A = undisturbedD [OF assms(1)] and B = undisturbedD [OF assms(2)]
  have "l \<in> set (lots u)" if "lot_order l \<in> V" "l \<in> set (lots s)" for l
    using that by (intro B(6) A(6))
  moreover have "find_debt u po = find_debt s po" if "po \<in> V" for po
    using A(7) [OF that] B(7) [OF that] by simp
  moreover have "d \<in> set (debits s) \<longleftrightarrow> d \<in> set (debits u)" if "guarded V (deb_kind d)" for d
    using A(8) [OF that] B(8) [OF that] by simp
  moreover have "guarded_row V s b \<longleftrightarrow> guarded_row V u b" for b
    using A(9) [of b] B(9) [of b] by simp
  ultimately show ?thesis
    using A(1-5,10,11) B(1-5,10,11) unfolding undisturbed_def by simp
qed

lemma allocation_key:
  assumes "references_ok s" "b \<in> set (allocations s)"
  shows "find_debit s (al_debit b) \<noteq> None"
  using allocation_debit [OF assms] by (metis find_debit_None image_eqI)

lemma guarded_mono: "V \<subseteq> W \<Longrightarrow> guarded V k \<Longrightarrow> guarded W k"
  by (auto simp: guarded_def split: debit_kind.splits)

text \<open>The kind of an existing debit does not change, so neither does what it collects.\<close>

lemma undisturbed_collects:
  assumes "undisturbed V s t" "keys_ok s" "keys_ok t" "find_debit s k \<noteq> None"
  shows "collects t k = collects s k" "find_debit t k \<noteq> None"
proof -
  from assms(4) obtain d where d: "find_debit s k = Some d" by auto
  have "same_debit d \<in> same_debit ` set (debits t)"
    using find_debit_Some [OF d] undisturbedD(5) [OF assms(1)] by blast
  then obtain e where e: "e \<in> set (debits t)" "same_debit e = same_debit d" by (metis imageE)
  from find_member(5) [OF assms(3) e(1)] e(2) find_debit_Some [OF d]
  have "find_debit t k = Some e" by (simp add: same_debit_def)
  with d e(2) show "collects t k = collects s k" "find_debit t k \<noteq> None"
    by (simp_all add: collects_def same_debit_def)
qed

lemma undisturbed_antimono:
  assumes u: "undisturbed W s t" and V: "V \<subseteq> W" and inv: "ledger_inv \<delta> \<gamma> K s" "ledger_inv \<delta>' \<gamma>' K' t"
  shows "undisturbed V s t"
proof -
  have row: "guarded_row V s b \<longleftrightarrow> guarded_row V t b" for b
  proof -
    have sub: "guarded_row V r b \<Longrightarrow> guarded_row W r b" for r
      using V by (auto simp: guarded_row_def split: option.splits)
    show ?thesis
    proof
      assume g: "guarded_row V s b"
      with sub u have t: "guarded_row W t b" by (metis undisturbedD(9))
      have "find_debit s (al_debit b) \<noteq> None"
        using g allocation_key [OF ledger_invD(3) [OF inv(1)]] by (simp add: guarded_row_def)
      from undisturbed_collects(1) [OF u ledger_invD(2) [OF inv(1)] ledger_invD(2) [OF inv(2)] this] g t
      show "guarded_row V t b" by (simp add: guarded_row_def)
    next
      assume g: "guarded_row V t b"
      with sub u have s: "guarded_row W s b" by (metis undisturbedD(9))
      have "find_debit s (al_debit b) \<noteq> None"
        using s allocation_key [OF ledger_invD(3) [OF inv(1)]] by (simp add: guarded_row_def)
      from undisturbed_collects(1) [OF u ledger_invD(2) [OF inv(1)] ledger_invD(2) [OF inv(2)] this] g s
      show "guarded_row V s b" by (simp add: guarded_row_def)
    qed
  qed
  note D = undisturbedD [OF u]
  have "d \<in> set (debits s) \<longleftrightarrow> d \<in> set (debits t)" if "guarded V (deb_kind d)" for d
    using D(8) [OF guarded_mono [OF V that]] .
  moreover have "l \<in> set (lots t)" if "lot_order l \<in> V" "l \<in> set (lots s)" for l
    using D(6) [of l] that V by blast
  moreover have "find_debt t po = find_debt s po" if "po \<in> V" for po
    using D(7) [of po] that V by blast
  ultimately show ?thesis unfolding undisturbed_def using D(1-5,10,11) row by blast
qed
section \<open>What each statement leaves as it was\<close>

lemma und_frames [simp]:
  "undisturbed V s (set_balance i b s)" "undisturbed V s (s\<lparr>ledger := v\<rparr>)"
  "undisturbed V s (s\<lparr>clawback_debts := w\<rparr>)" "undisturbed V s (s\<lparr>uuid_next := n\<rparr>)"
  by (simp_all add: undisturbed_def guarded_row_def unreleased_def set_balance_def same_account_def
      map_update_rows)

lemma und_lots:
  assumes "\<And>l. l \<in> set (lots s) \<Longrightarrow> P l \<Longrightarrow> same_lot (f l) = same_lot l \<and> lot_order l \<notin> V"
  shows "undisturbed V s (s\<lparr>lots := update_rows P f (lots s)\<rparr>)"
proof -
  have "l \<in> set (update_rows P f (lots s))" if "lot_order l \<in> V" "l \<in> set (lots s)" for l
    using that assms [of l] by (force simp: set_update_rows)
  with assms show ?thesis
    by (simp add: undisturbed_def guarded_row_def unreleased_def map_update_rows)
qed

lemma unreleased_move:
  assumes "keys_ok s" "find_debt s k = Some d"
  shows "unreleased (move_debt k x y s) = unreleased s - y"
proof -
  have dist: "distinct (map pd_order (pack_debts s))" using assms(1) by (simp add: keys_ok_def)
  from find_debt_Some [OF assms(2)] have d: "d \<in> set (pack_debts s)" "k = pd_order d" by auto
  show ?thesis
    unfolding unreleased_def move_debt_def using sum_update_rows [OF dist d(1)]
    by (simp add: d(2))
qed

lemma und_move_debt:
  assumes "keys_ok s" "find_debt s k = Some d" "k \<notin> V" "0 \<le> y"
  shows "undisturbed V s (move_debt k x y s)"
proof -
  have "map same_debt (pack_debts (move_debt k x y s)) = map same_debt (pack_debts s)"
    by (simp add: move_debt_def map_update_rows same_debt_def)
  moreover have "find_debt (move_debt k x y s) po = find_debt s po" if "po \<in> V" for po
    using assms(3) that find_debt_Some [of s po] by (cases "find_debt s po") (auto simp: find_debt_move)
  ultimately show ?thesis
    using assms(4) unreleased_move [OF assms(1,2)]
    by (simp add: undisturbed_def guarded_row_def move_debt_def)
qed

lemma und_insert_debit:
  assumes "references_ok s" "find_debit s (deb_key d) = None" "deb_kind d = Collection po" "po \<notin> V"
  shows "undisturbed V s (s\<lparr>debits := debits s @ [d]\<rparr>)"
proof -
  have "collects (s\<lparr>debits := debits s @ [d]\<rparr>) (al_debit b) = collects s (al_debit b)"
    if "b \<in> set (allocations s)" for b
    using allocation_key [OF assms(1) that] assms(2) by (intro collects_insert) auto
  then have "guarded_row V s b \<longleftrightarrow> guarded_row V (s\<lparr>debits := debits s @ [d]\<rparr>) b" for b
    by (auto simp: guarded_row_def)
  with assms(3,4) show ?thesis
    by (auto simp: undisturbed_def unreleased_def guarded_def)
qed

lemma und_new_allocation:
  assumes "collects s key = Some po" "po \<notin> V"
  shows "undisturbed V s (new_allocation s key acc src x)"
  using assms
  by (auto simp: undisturbed_def guarded_row_def new_allocation_def unreleased_def fun_eq_iff)

lemma und_refund_allocation:
  assumes "keys_ok s" "a \<in> set (allocations s)" "collects s (al_debit a) = Some po" "po \<notin> V"
  shows "undisturbed V s (refund_allocation (al_id a) x s)"
proof -
  have only: "b = a" if "b \<in> set (allocations s)" "al_id b = al_id a" for b
    using that assms(1,2) by (auto simp: keys_ok_def distinct_map dest: inj_onD)
  have row: "guarded_row V s b \<longleftrightarrow> guarded_row V (refund_allocation (al_id a) x s) b" for b
  proof
    assume g: "guarded_row V s b"
    then have "b \<noteq> a" using assms(3,4) by (auto simp: guarded_row_def)
    with g only have "al_id b \<noteq> al_id a" by (auto simp: guarded_row_def)
    with g show "guarded_row V (refund_allocation (al_id a) x s) b"
      by (force simp: guarded_row_def refund_allocation_def set_update_rows)
  next
    assume g: "guarded_row V (refund_allocation (al_id a) x s) b"
    then obtain c where c: "c \<in> set (allocations s)"
      "b = (if al_id c = al_id a then c\<lparr>al_refunded := al_refunded c + x\<rparr> else c)"
      by (auto simp: guarded_row_def refund_allocation_def set_update_rows)
    have "al_id c \<noteq> al_id a"
    proof
      assume "al_id c = al_id a"
      with only c have "al_debit b = al_debit a" by auto
      with g assms(3,4) show False by (simp add: guarded_row_def)
    qed
    with c g show "guarded_row V s b" by (simp add: guarded_row_def)
  qed
  then show ?thesis
    by (simp add: undisturbed_def unreleased_def)
qed

lemma und_set_debit:
  assumes "keys_ok s" "collects s k = Some po" "po \<notin> V"
  shows "undisturbed V s (set_debit k r t s)"
proof -
  from assms(2) obtain d where d: "find_debit s k = Some d" "deb_kind d = Collection po"
    by (auto simp: collects_Some)
  have only: "e = d" if "e \<in> set (debits s)" "deb_key e = k" for e
    using find_member(5) [OF assms(1) that(1)] that(2) d(1) by simp
  have debits: "debits (set_debit k r t s) =
      update_rows (\<lambda>d. deb_key d = k) (\<lambda>d. d\<lparr>deb_restored := r, deb_refunded_at := t\<rparr>) (debits s)"
    by (simp add: set_debit_def)
  have "same_debit ` set (debits (set_debit k r t s)) = same_debit ` set (debits s)"
    unfolding debits by (intro image_update_rows) (simp add: same_debit_def)
  moreover have "e \<in> set (debits s) \<longleftrightarrow> e \<in> set (debits (set_debit k r t s))"
    if g: "guarded V (deb_kind e)" for e
  proof
    assume e: "e \<in> set (debits s)"
    with g only d(2) assms(3) have "deb_key e \<noteq> k" by (auto simp: guarded_def)
    with e show "e \<in> set (debits (set_debit k r t s))" by (force simp: debits set_update_rows)
  next
    assume "e \<in> set (debits (set_debit k r t s))"
    then obtain c where c: "c \<in> set (debits s)"
      "e = (if deb_key c = k then c\<lparr>deb_restored := r, deb_refunded_at := t\<rparr> else c)"
      by (auto simp: debits set_update_rows)
    have "deb_key c \<noteq> k"
    proof
      assume "deb_key c = k"
      with only c d(2) have "deb_kind e = Collection po" by auto
      with g assms(3) show False by (simp add: guarded_def)
    qed
    with c show "e \<in> set (debits s)" by simp
  qed
  ultimately show ?thesis
    by (simp add: undisturbed_def unreleased_def guarded_row_def)
qed
section \<open>One collection\<close>

definition collection_key :: "store \<Rightarrow> string" where
  "collection_key s = ''pack-debt:'' @ uuid_source s (uuid_next s)"

definition collected_state :: "int \<Rightarrow> pack_debt \<Rightarrow> int \<Rightarrow> int \<Rightarrow> source \<Rightarrow> store \<Rightarrow> store" where
  "collected_state now d x epoch src s =
     (let t = move_debt (pd_order d) x 0 s in
      new_allocation
        (t\<lparr>uuid_next := uuid_next s + 1,
           debits := debits s @
             [\<lparr>deb_key = collection_key s, deb_account = pd_account d, deb_amount = x,
               deb_epoch = epoch, deb_kind = Collection (pd_order d), deb_restored = 0,
               deb_created = now, deb_refunded_at = None\<rparr>]\<rparr>)
        (collection_key s) (pd_account d) src x)"

lemma collect_step_run:
  "bind_tx (update_debts (\<lambda>r. pd_order r = pd_order d) (\<lambda>r. r\<lparr>pd_collected := pd_collected r + x\<rparr>))
     (\<lambda>_. recordDebtCollection now d x epoch src) s =
   (if find_debit s (collection_key s) \<noteq> None then Inl (ConstraintViolation ''credit_debits_pkey'')
    else Inr ((), collected_state now d x epoch src s))"
proof -
  have "pack_debts (move_debt (pd_order d) x 0 s) =
      update_rows (\<lambda>r. pd_order r = pd_order d) (\<lambda>r. r\<lparr>pd_collected := pd_collected r + x\<rparr>) (pack_debts s)"
    by (simp add: move_debt_def)
  then show ?thesis
    by (simp add: bind_tx_def update_debts_def recordDebtCollection_def randomUUID_def insert_debit_def
        insert_allocation_def modify_def collected_state_def new_allocation_def collection_key_def
        move_debt_def Let_def)
qed

lemma collected_frame [simp]:
  "accounts (collected_state now d x epoch src s) = accounts s"
  "orders (collected_state now d x epoch src s) = orders s"
  "lots (collected_state now d x epoch src s) = lots s"
  "ledger (collected_state now d x epoch src s) = ledger s"
  "clawback_debts (collected_state now d x epoch src s) = clawback_debts s"
  "pack_debts (collected_state now d x epoch src s) = pack_debts (move_debt (pd_order d) x 0 s)"
  by (simp_all add: collected_state_def new_allocation_def Let_def)

lemma collected_lookups [simp]:
  "find_account (collected_state now d x epoch src s) = find_account s"
  "find_order (collected_state now d x epoch src s) = find_order s"
  "find_lot (collected_state now d x epoch src s) = find_lot s"
  "source_order (collected_state now d x epoch src s) = source_order s"
  "find_debt (collected_state now d x epoch src s) = find_debt (move_debt (pd_order d) x 0 s)"
  by (simp_all add: fun_eq_iff find_account_def find_order_def find_lot_def find_debt_def
      source_order_def split: source.splits)

lemma active_debt_move [simp]: "active_debt (move_debt k x 0 s) = active_debt s"
  by (auto simp: fun_eq_iff active_debt_def debt_target_def debt_released_def find_debt_move
      split: option.splits)

lemma active_debt_collected [simp]: "active_debt (collected_state now d x epoch src s) = active_debt s"
proof -
  have "active_debt (collected_state now d x epoch src s) = active_debt (move_debt (pd_order d) x 0 s)"
    by (rule ext) (simp only: active_debt_def debt_target_def debt_released_def collected_lookups)
  then show ?thesis by simp
qed

text \<open>An outstanding debt of an account, and a source that may pay it.\<close>

definition owed :: "store \<Rightarrow> string \<Rightarrow> pack_debt \<Rightarrow> bool" where
  "owed s acc d \<longleftrightarrow> find_debt s (pd_order d) = Some d \<and> pd_account d = acc \<and>
     pd_collected d + pd_released d < pd_target d"

definition may_pay :: "store \<Rightarrow> string \<Rightarrow> source \<Rightarrow> bool" where
  "may_pay s acc src \<longleftrightarrow>
     (case src of
        FromSubscription e \<Rightarrow> True
      | FromLot k \<Rightarrow> \<exists>l \<in> set (lots s). lot_id l = k \<and> lot_account l = acc \<and>
          active_debt s (lot_order l) = 0 \<and>
          (\<forall>a \<in> set (allocations s). collects s (al_debit a) = Some (lot_order l) \<longrightarrow> pending_of a \<le> 0))"

lemma inv_collected:
  assumes inv: "ledger_inv \<delta> \<gamma> K s" and d: "owed s acc d"
    and x: "0 < x" "x \<le> pd_target d - pd_collected d - pd_released d"
    and fresh: "find_debit s (collection_key s) = None" and acc: "find_account s acc \<noteq> None"
    and src: "may_pay s acc src"
  shows "ledger_inv (bump \<delta> (source_order s src) x) \<gamma> K (collected_state now d x epoch src s)"
proof -
  note i = ledger_invD [OF inv]
  let ?po = "pd_order d" and ?key = "collection_key s"
  have found: "find_debt s ?po = Some d" and da: "pd_account d = acc" using d by (simp_all add: owed_def)
  from find_debt_Some [OF found] i(1) have dok: "debt_check d" by (simp add: rows_ok_def list_all_iff)
  let ?m = "move_debt ?po x 0 s"
  let ?row = "\<lparr>deb_key = ?key, deb_account = pd_account d, deb_amount = x, deb_epoch = epoch,
     deb_kind = Collection ?po, deb_restored = 0, deb_created = now, deb_refunded_at = None\<rparr>"
  let ?u = "?m\<lparr>uuid_next := uuid_next s + 1, debits := debits s @ [?row]\<rparr>"
  have bx: "bigint x" using x dok by (auto simp: bigint_def debt_check_def)
  have m: "ledger_inv \<delta> (bump \<gamma> (Some ?po) x) K (?m\<lparr>uuid_next := uuid_next s + 1\<rparr>)"
    using inv_move_debt [OF inv found, of x 0] x dok by (simp add: inv_uuid debt_check_def)
  have "ledger_inv \<delta> (bump \<gamma> (Some ?po) x) (insert (deb_key ?row) K)
      ((?m\<lparr>uuid_next := uuid_next s + 1\<rparr>)\<lparr>debits := debits (?m\<lparr>uuid_next := uuid_next s + 1\<rparr>) @ [?row]\<rparr>)"
  proof (rule inv_insert_debit [OF m])
    show "find_debit (?m\<lparr>uuid_next := uuid_next s + 1\<rparr>) (deb_key ?row) = None"
      using fresh by (simp add: find_debit_def)
    show "debit_check ?row" using x bx by (simp add: debit_check_def)
    show "find_account (?m\<lparr>uuid_next := uuid_next s + 1\<rparr>) (deb_account ?row) \<noteq> None"
      using acc da by simp
  next
    fix c assume "deb_kind ?row = Collection c"
    moreover have "find_debt ?m ?po \<noteq> None" using found by (simp add: find_debt_move)
    then obtain p where p: "find_debt ?m ?po = Some p" by auto
    moreover have "pd_account p = pd_account d" using p found by (auto simp: find_debt_move)
    ultimately show "\<exists>p\<in>set (pack_debts (?m\<lparr>uuid_next := uuid_next s + 1\<rparr>)). pd_order p = c \<and>
        pd_account p = deb_account ?row"
      using find_debt_Some [OF p] by auto
  qed
  then have u: "ledger_inv \<delta> (bump \<gamma> (Some ?po) x) (insert ?key K) ?u" by simp
  have fd: "find_debit ?u ?key = Some ?row"
    using fresh by (simp add: find_debit_def find_append)
  have col: "collects ?u ?key = Some ?po" using fd by (simp add: collects_def)
  have old: "collects ?u (al_debit a) = collects s (al_debit a)" if a: "a \<in> set (allocations s)" for a
  proof -
    have "find_debit s (al_debit a) \<noteq> None" by (rule allocation_key [OF i(3) a])
    then show ?thesis using fresh by (auto simp: collects_def find_debit_def find_append split: option.splits)
  qed
  have so: "source_order ?u src = source_order s src"
    by (simp add: source_order_def find_lot_def split: source.splits)
  have "ledger_inv (bump \<delta> (source_order ?u src) x) (bump (bump \<gamma> (Some ?po) x) (collects ?u ?key) (- x))
      (insert ?key K) (new_allocation ?u ?key acc src x)"
  proof (rule inv_new_allocation [OF u fd])
    show "deb_account ?row = acc" using da by simp
    show "\<exists>l\<in>set (lots ?u). lot_id l = k \<and> lot_account l = acc" if "src = FromLot k" for k
      using src that by (auto simp: may_pay_def)
    show "al_source a \<noteq> src" if "a \<in> set (allocations ?u)" "al_debit a = ?key" for a
      using that allocation_key [OF i(3), of a] fresh by auto
    fix a k assume k: "collects ?u ?key \<noteq> None" "source_order ?u src = Some k"
    then obtain j where j: "src = FromLot j" by (cases src) (auto simp: source_order_def)
    with src obtain l where l: "l \<in> set (lots s)" "lot_id l = j" "active_debt s (lot_order l) = 0"
      "\<forall>a \<in> set (allocations s). collects s (al_debit a) = Some (lot_order l) \<longrightarrow> pending_of a \<le> 0"
      by (auto simp: may_pay_def)
    have kl: "k = lot_order l"
      using k(2) so j l(2) find_member(3) [OF i(2) l(1)] by (simp add: source_order_def)
    have "active_debt s ?po > 0"
      using d found dok by (simp add: owed_def active_debt_def debt_target_def debt_released_def debt_check_def)
    with l(3) kl col show "collects ?u ?key \<noteq> Some k \<and>
        (a \<in> set (allocations ?u) \<longrightarrow> collects ?u (al_debit a) = Some k \<longrightarrow> pending_of a \<le> 0)"
      using l(4) old by auto
  qed (use x bx in auto)
  then have v: "ledger_inv (bump \<delta> (source_order s src) x) \<gamma> (insert ?key K) (collected_state now d x epoch src s)"
    using so col da by (simp add: collected_state_def Let_def)
  have "ledger_inv (bump \<delta> (source_order s src) x) \<gamma> (K - {?key}) (collected_state now d x epoch src s)"
  proof (rule inv_close_debit [OF v])
    fix e assume "find_debit (collected_state now d x epoch src s) ?key = Some e"
    then have e: "e = ?row"
      using fd by (simp add: collected_state_def Let_def new_allocation_def)
    have none: "a \<in> set (allocations s) \<Longrightarrow> al_debit a \<noteq> ?key" for a
      using allocation_key [OF i(3), of a] fresh by auto
    then have "filter (\<lambda>a. al_debit a = ?key) (allocations s) = []"
      "(\<Sum>a\<leftarrow>allocations s. if al_debit a = ?key then al_amount a else 0) = 0"
      "(\<Sum>a\<leftarrow>allocations s. if al_debit a = ?key then al_refunded a else 0) = 0"
      by (auto simp: filter_empty_conv cong: map_cong)
    then show "debit_state_ok (collected_state now d x epoch src s) e"
      using x by (simp add: e debit_state_ok_def allocated_amount_def allocated_refunded_def
          collected_state_def new_allocation_def Let_def)
  qed
  then show ?thesis by (rule inv_mono) auto
qed

lemma und_collected:
  assumes inv: "ledger_inv \<delta> \<gamma> K s" and d: "owed s acc d" "pd_order d \<notin> V"
    and x: "0 < x" "x \<le> pd_target d - pd_collected d - pd_released d"
    and fresh: "find_debit s (collection_key s) = None"
  shows "undisturbed V s (collected_state now d x epoch src s)"
proof -
  note i = ledger_invD [OF inv]
  let ?n = "(move_debt (pd_order d) x 0 s)\<lparr>uuid_next := uuid_next s + 1\<rparr>"
  let ?row = "\<lparr>deb_key = collection_key s, deb_account = pd_account d, deb_amount = x,
     deb_epoch = epoch, deb_kind = Collection (pd_order d), deb_restored = 0, deb_created = now,
     deb_refunded_at = None\<rparr>"
  from find_debt_Some [of s "pd_order d" d] d(1) i(1) have dok: "debt_check d"
    by (simp add: owed_def rows_ok_def list_all_iff)
  have m: "ledger_inv \<delta> (bump \<gamma> (Some (pd_order d)) x) K ?n"
    using inv_move_debt [OF inv, of "pd_order d" d x 0] d x dok
    by (simp add: inv_uuid debt_check_def owed_def)
  have "undisturbed V s (move_debt (pd_order d) x 0 s)"
    using i(2) d by (intro und_move_debt) (auto simp: owed_def)
  moreover have "undisturbed V (move_debt (pd_order d) x 0 s) ?n" by simp
  moreover have "undisturbed V ?n (?n\<lparr>debits := debits ?n @ [?row]\<rparr>)"
    by (rule und_insert_debit [OF ledger_invD(3) [OF m] _ _ d(2)])
      (use fresh in \<open>simp_all add: find_debit_def\<close>)
  moreover have "find_debit (?n\<lparr>debits := debits ?n @ [?row]\<rparr>) (collection_key s) = Some ?row"
    using fresh by (simp add: find_debit_def find_append)
  then have "undisturbed V (?n\<lparr>debits := debits ?n @ [?row]\<rparr>) (collected_state now d x epoch src s)"
    using und_new_allocation [of "?n\<lparr>debits := debits ?n @ [?row]\<rparr>" "collection_key s" "pd_order d" V
        "pd_account d" src x] d(2)
    by (simp add: collects_def collected_state_def Let_def)
  ultimately show ?thesis by (blast intro: undisturbed_trans)
qed
lemma bind_gets: "bind_tx (gets f) g s = g (f s) s"
  by simp

section \<open>The loops over the debts\<close>

definition owed_total :: "pack_debt list \<Rightarrow> int" where
  "owed_total ds = (\<Sum>d\<leftarrow>ds. pd_target d - pd_collected d - pd_released d)"

lemma owed_total_Cons:
  "owed_total (d # ds) = pd_target d - pd_collected d - pd_released d + owed_total ds"
  by (simp add: owed_total_def)

lemma owed_total_nonneg: "(\<And>d. d \<in> set ds \<Longrightarrow> owed s acc d) \<Longrightarrow> 0 \<le> owed_total ds"
  unfolding owed_total_def by (intro sum_list_int_nonneg) (force simp: owed_def)

lemma collects_collected:
  assumes "find_debit s (collection_key s) = None" "references_ok s" "a \<in> set (allocations s)"
  shows "collects (collected_state now d x epoch src s) (al_debit a) = collects s (al_debit a)"
proof -
  have "find_debit s (al_debit a) \<noteq> None" by (rule allocation_key [OF assms(2,3)])
  then show ?thesis
    using assms(1) by (auto simp: collected_state_def Let_def new_allocation_def collects_def
        find_debit_def find_append split: option.splits)
qed

lemma may_pay_collected:
  assumes inv: "ledger_inv \<delta> \<gamma> K s" and d: "owed s acc d"
    and fresh: "find_debit s (collection_key s) = None" and src: "may_pay s acc src"
  shows "may_pay (collected_state now d x epoch src' s) acc src"
proof (cases src)
  case (FromSubscription e)
  then show ?thesis by (simp add: may_pay_def)
next
  case (FromLot k)
  note i = ledger_invD [OF inv]
  let ?t = "collected_state now d x epoch src' s"
  from src FromLot obtain l where l: "l \<in> set (lots s)" "lot_id l = k" "lot_account l = acc"
    "active_debt s (lot_order l) = 0"
    "\<forall>a \<in> set (allocations s). collects s (al_debit a) = Some (lot_order l) \<longrightarrow> pending_of a \<le> 0"
    by (auto simp: may_pay_def)
  have found: "find_debt s (pd_order d) = Some d" using d by (simp add: owed_def)
  from find_debt_Some [OF found] i(1) have "debt_check d" by (simp add: rows_ok_def list_all_iff)
  then have "active_debt s (pd_order d) > 0"
    using d found by (simp add: owed_def active_debt_def debt_target_def debt_released_def debt_check_def)
  with l(4) have other: "pd_order d \<noteq> lot_order l" by auto
  have new: "collects ?t (collection_key s) = Some (pd_order d)"
    using fresh by (simp add: collected_state_def Let_def new_allocation_def collects_def
        find_debit_def find_append)
  have "pending_of a \<le> 0" if a: "a \<in> set (allocations ?t)" "collects ?t (al_debit a) = Some (lot_order l)" for a
  proof (cases "a \<in> set (allocations s)")
    case True
    with a(2) l(5) collects_collected [OF fresh i(3) True] show ?thesis by simp
  next
    case False
    with a(1) have "al_debit a = collection_key s"
      by (auto simp: collected_state_def Let_def new_allocation_def)
    with a(2) new other show ?thesis by simp
  qed
  then have "\<forall>a \<in> set (allocations ?t). collects ?t (al_debit a) = Some (lot_order l) \<longrightarrow> pending_of a \<le> 0"
    by blast
  with l show ?thesis
    unfolding may_pay_def FromLot source.case by (intro bexI [of _ l]) simp_all
qed

lemma owed_collected:
  assumes "owed s acc d'" "pd_order d' \<noteq> pd_order d"
  shows "owed (collected_state now d x epoch src s) acc d'"
  using assms by (simp add: owed_def find_debt_move)

lemma lot_debt_loop_run:
  assumes "ledger_inv \<delta> \<gamma> K s" and "\<And>d. d \<in> set ds \<Longrightarrow> owed s acc d \<and> pd_order d \<notin> V"
    and "distinct (map pd_order ds)" and "0 \<le> available" and "find_account s acc \<noteq> None"
    and "may_pay s acc (FromLot k)"
  shows "yields (\<lambda>rest t. rest = available - min available (owed_total ds) \<and>
      ledger_inv (bump \<delta> (source_order s (FromLot k)) (available - rest)) \<gamma> K t \<and>
      undisturbed V s t \<and> lots t = lots s \<and> accounts t = accounts s)
    (lot_debt_loop now epoch k ds available s)"
  using assms
proof (induction ds arbitrary: s available \<delta>)
  case Nil
  then show ?case by (simp add: owed_total_def)
next
  case (Cons d ds)
  let ?out = "pd_target d - pd_collected d - pd_released d"
  let ?x = "min available ?out"
  have d: "owed s acc d" "pd_order d \<notin> V" using Cons.prems(2) by auto
  have pos: "0 < ?out" using d by (simp add: owed_def)
  have rest_pos: "0 \<le> owed_total ds" using Cons.prems(2) by (intro owed_total_nonneg) auto
  have amount: "(if available < ?out then available else ?out) = ?x" by simp
  show ?case
  proof (cases "available = 0")
    case True
    with pos rest_pos Cons.prems show ?thesis by (simp add: owed_total_Cons)
  next
    case False
    then have x: "0 < ?x" "?x \<le> ?out" using pos Cons.prems(4) by auto
    let ?t = "collected_state now d ?x epoch (FromLot k) s"
    have loop: "lot_debt_loop now epoch k (d # ds) available s =
        bind_tx (bind_tx (update_debts (\<lambda>r. pd_order r = pd_order d)
            (\<lambda>r. r\<lparr>pd_collected := pd_collected r + ?x\<rparr>))
          (\<lambda>_. recordDebtCollection now d ?x epoch (FromLot k)))
        (\<lambda>_. lot_debt_loop now epoch k ds (available - ?x)) s"
      unfolding lot_debt_loop.simps Let_def amount bind_tx_assoc by (rule if_not_P [THEN fun_cong]) (use x(1) in \<open>simp only: not_le\<close>)
    show ?thesis
    proof (cases "find_debit s (collection_key s) = None")
      case False
      then show ?thesis unfolding loop
        by (simp add: bind_tx_run [where f = "\<lambda>_. lot_debt_loop now epoch k ds (available - ?x)"]
            collect_step_run environmental_def)
    next
      case fresh: True
      have inv: "ledger_inv (bump \<delta> (source_order s (FromLot k)) ?x) \<gamma> K ?t"
        using Cons.prems d x fresh by (intro inv_collected) auto
      have und: "undisturbed V s ?t" using Cons.prems(1) d x fresh by (intro und_collected)
      have "yields (\<lambda>rest u. rest = available - ?x - min (available - ?x) (owed_total ds) \<and>
          ledger_inv (bump (bump \<delta> (source_order s (FromLot k)) ?x) (source_order ?t (FromLot k))
            (available - ?x - rest)) \<gamma> K u \<and>
          undisturbed V ?t u \<and> lots u = lots ?t \<and> accounts u = accounts ?t)
        (lot_debt_loop now epoch k ds (available - ?x) ?t)"
      proof (rule Cons.IH [OF inv])
        show "owed ?t acc d' \<and> pd_order d' \<notin> V" if "d' \<in> set ds" for d'
          using Cons.prems(2) [of d'] Cons.prems(3) that
          by (auto intro!: owed_collected) (metis image_eqI)
        show "may_pay ?t acc (FromLot k)"
          using Cons.prems(1,6) d fresh by (intro may_pay_collected)
      qed (use Cons.prems x in auto)
      then have "yields (\<lambda>rest u. rest = available - min available (owed_total (d # ds)) \<and>
          ledger_inv (bump \<delta> (source_order s (FromLot k)) (available - rest)) \<gamma> K u \<and>
          undisturbed V s u \<and> lots u = lots s \<and> accounts u = accounts s)
        (lot_debt_loop now epoch k ds (available - ?x) ?t)"
        by (rule yields_mono)
          (use und rest_pos Cons.prems(4) pos in \<open>auto simp: owed_total_Cons min_def intro: undisturbed_trans\<close>)
      then show ?thesis unfolding loop
        by (simp add: bind_tx_run [where f = "\<lambda>_. lot_debt_loop now epoch k ds (available - ?x)"]
            collect_step_run fresh)
    qed
  qed
qed

text \<open>The loop over the subscription balance also writes a ledger row per debt.\<close>

lemma inv_ledger_row:
  assumes "ledger_inv \<delta> \<gamma> K s" "bigint (le_balance_after e)" "find_account s (le_account e) \<noteq> None"
  shows "ledger_inv \<delta> \<gamma> K (s\<lparr>ledger := ledger s @ [e]\<rparr>) \<and> undisturbed V s (s\<lparr>ledger := ledger s @ [e]\<rparr>)"
  using inv_ledger [OF assms] by simp

lemma may_pay_ledger [simp]: "may_pay (s\<lparr>ledger := v\<rparr>) acc src = may_pay s acc src"
  by (simp add: may_pay_def cong: source.case_cong)

lemma owed_ledger [simp]: "owed (s\<lparr>ledger := v\<rparr>) acc d = owed s acc d"
  by (simp add: owed_def)

lemma bigint_reduce: "bigint b \<Longrightarrow> 0 \<le> x \<Longrightarrow> x \<le> b \<Longrightarrow> bigint (b - x)"
  by (simp add: bigint_def)

lemma subscription_debt_loop_run:
  assumes "ledger_inv \<delta> \<gamma> K s" and "\<And>d. d \<in> set ds \<Longrightarrow> owed s acc d \<and> pd_order d \<notin> V"
    and "distinct (map pd_order ds)" and "bigint balance" and "find_account s acc \<noteq> None"
  shows "yields (\<lambda>rest t. rest = balance - min balance (owed_total ds) \<and> ledger_inv \<delta> \<gamma> K t \<and>
      undisturbed V s t \<and> lots t = lots s \<and> accounts t = accounts s)
    (subscription_debt_loop now acc epoch event ds balance s)"
  using assms
proof (induction ds arbitrary: s balance)
  case Nil
  then show ?case by (simp add: owed_total_def bigint_def)
next
  case (Cons d ds)
  let ?out = "pd_target d - pd_collected d - pd_released d"
  let ?x = "min balance ?out"
  have d: "owed s acc d" "pd_order d \<notin> V" using Cons.prems(2) by auto
  have pos: "0 < ?out" using d by (simp add: owed_def)
  have rest_pos: "0 \<le> owed_total ds" using Cons.prems(2) by (intro owed_total_nonneg) auto
  have nonneg: "0 \<le> balance" using Cons.prems(4) by (simp add: bigint_def)
  have amount: "(if balance < ?out then balance else ?out) = ?x" by simp
  show ?case
  proof (cases "balance = 0")
    case True
    with pos rest_pos Cons.prems show ?thesis by (simp add: owed_total_Cons)
  next
    case False
    then have x: "0 < ?x" "?x \<le> ?out" using pos nonneg by auto
    let ?src = "FromSubscription epoch"
    let ?t = "collected_state now d ?x epoch ?src s"
    let ?e = "\<lparr>le_account = acc, le_delta = - ?x, le_balance_after = balance - ?x, le_units = 0,
        le_reason = ''credit_pack_debt_collection'', le_epoch = epoch, le_event = Some event,
        le_invoice = None, le_slot = None\<rparr>"
    let ?u = "?t\<lparr>ledger := ledger ?t @ [?e]\<rparr>"
    let ?rest = "\<lambda>_. bind_tx (insert_ledger acc (- ?x) (balance - ?x) ''credit_pack_debt_collection''
        epoch event None) (\<lambda>_. subscription_debt_loop now acc epoch event ds (balance - ?x))"
    have loop: "subscription_debt_loop now acc epoch event (d # ds) balance s =
        bind_tx (bind_tx (update_debts (\<lambda>r. pd_order r = pd_order d)
            (\<lambda>r. r\<lparr>pd_collected := pd_collected r + ?x\<rparr>))
          (\<lambda>_. recordDebtCollection now d ?x epoch ?src)) ?rest s"
      unfolding subscription_debt_loop.simps Let_def amount bind_tx_assoc
      by (rule if_not_P [THEN fun_cong]) (use x(1) in \<open>simp only: not_le\<close>)
    have after: "?rest () ?t = subscription_debt_loop now acc epoch event ds (balance - ?x) ?u"
      by (simp add: bind_tx_def insert_ledger_def modify_def)
    show ?thesis
    proof (cases "find_debit s (collection_key s) = None")
      case False
      then show ?thesis unfolding loop
        by (simp add: bind_tx_run [where f = ?rest] collect_step_run environmental_def)
    next
      case fresh: True
      have "ledger_inv (bump \<delta> (source_order s ?src) ?x) \<gamma> K ?t"
        using Cons.prems d x fresh by (intro inv_collected) (auto simp: may_pay_def)
      then have inv: "ledger_inv \<delta> \<gamma> K ?t" by (simp add: source_order_def)
      have und: "undisturbed V s ?t" using Cons.prems(1) d x fresh by (intro und_collected)
      have row: "ledger_inv \<delta> \<gamma> K ?u \<and> undisturbed V ?t ?u"
      proof (rule inv_ledger_row [OF inv])
        show "bigint (le_balance_after ?e)"
          using bigint_reduce [OF Cons.prems(4), of ?x] x by simp
        show "find_account ?t (le_account ?e) \<noteq> None" using Cons.prems(5) by simp
      qed
      have "yields (\<lambda>rest v. rest = balance - ?x - min (balance - ?x) (owed_total ds) \<and>
          ledger_inv \<delta> \<gamma> K v \<and> undisturbed V ?u v \<and> lots v = lots ?u \<and> accounts v = accounts ?u)
        (subscription_debt_loop now acc epoch event ds (balance - ?x) ?u)"
      proof (rule Cons.IH)
        show "owed ?u acc d' \<and> pd_order d' \<notin> V" if "d' \<in> set ds" for d'
          using Cons.prems(2) [of d'] Cons.prems(3) that
          by (auto intro!: owed_collected) (metis image_eqI)
        show "bigint (balance - ?x)" using x by (intro bigint_reduce [OF Cons.prems(4)]) auto
      qed (use Cons.prems row in auto)
      moreover have "undisturbed V s ?u" by (rule undisturbed_trans [OF und row [THEN conjunct2]])
      ultimately have "yields (\<lambda>rest v. rest = balance - min balance (owed_total (d # ds)) \<and>
          ledger_inv \<delta> \<gamma> K v \<and> undisturbed V s v \<and> lots v = lots s \<and> accounts v = accounts s)
        (subscription_debt_loop now acc epoch event ds (balance - ?x) ?u)"
        by (elim yields_mono)
          (use rest_pos nonneg pos in \<open>auto simp: owed_total_Cons min_def intro: undisturbed_trans\<close>)
      then show ?thesis unfolding loop
        by (simp only: bind_tx_run [where f = ?rest] collect_step_run fresh after bind_result.simps
            prod.case if_False not_not simp_thms)
    qed
  qed
qed

section \<open>Collecting\<close>

text \<open>The debts of the orders in \<open>V\<close> are paid or released in full.\<close>

definition paid_up :: "store \<Rightarrow> string set \<Rightarrow> bool" where
  "paid_up s V \<longleftrightarrow> (\<forall>po \<in> V. \<forall>d. find_debt s po = Some d \<longrightarrow> pd_target d \<le> pd_collected d + pd_released d)"

lemma outstanding_debts_owed:
  assumes "keys_ok s" "paid_up s V"
  shows "d \<in> set (outstanding_debts s acc) \<Longrightarrow> owed s acc d \<and> pd_order d \<notin> V"
    and "distinct (map pd_order (outstanding_debts s acc))"
proof -
  assume "d \<in> set (outstanding_debts s acc)"
  then have d: "d \<in> set (pack_debts s)" "pd_account d = acc" "pd_collected d + pd_released d < pd_target d"
    by (auto simp: outstanding_debts_def)
  have "find_debt s (pd_order d) = Some d" using assms(1) d(1) by (rule find_member(6))
  with d assms(2) show "owed s acc d \<and> pd_order d \<notin> V" by (fastforce simp: owed_def paid_up_def)
next
  have "distinct (map pd_order (pack_debts s))" using assms(1) by (simp add: keys_ok_def)
  then show "distinct (map pd_order (outstanding_debts s acc))"
    using distinct_map_filter [of pd_order "pack_debts s"]
    unfolding outstanding_debts_def distinct_map set_sort distinct_sort by blast
qed

lemma collectPackDebtsFromLot_run:
  assumes inv: "ledger_inv \<delta> \<gamma> K s" and V: "paid_up s V" and l: "l \<in> set (lots s)" "lot_account l = acc"
    "lot_order l \<notin> V" and available: "0 \<le> available" "available \<le> lot_remaining l"
    and pay: "may_pay s acc (FromLot (lot_id l))" and acc: "find_account s acc \<noteq> None"
  shows "yields (\<lambda>collected t. collected = min available (owed_total (outstanding_debts s acc)) \<and>
      ledger_inv \<delta> \<gamma> K t \<and> undisturbed V s t \<and> accounts t = accounts s \<and>
      lots t = update_rows (\<lambda>r. lot_id r = lot_id l)
        (\<lambda>r. r\<lparr>lot_remaining := lot_remaining r - collected\<rparr>) (lots s))
    (collectPackDebtsFromLot now acc (lot_id l) available s)"
proof -
  note i = ledger_invD [OF inv]
  let ?ds = "outstanding_debts s acc"
  let ?c = "min available (owed_total ?ds)"
  note ds = outstanding_debts_owed [OF i(2) V]
  have total: "0 \<le> owed_total ?ds" by (rule owed_total_nonneg) (use ds(1) in blast)
  obtain a where a: "find_account s acc = Some a" using acc by auto
  have order: "source_order s (FromLot (lot_id l)) = Some (lot_order l)"
    using source_order_lot [OF i(2) l(1)] by simp
  have one: "length (filter (\<lambda>r. lot_id r = lot_id l \<and> ?c \<le> lot_remaining r) (lots s)) = 1"
    "update_rows (\<lambda>r. lot_id r = lot_id l \<and> ?c \<le> lot_remaining r) f (lots s)
     = update_rows (\<lambda>r. lot_id r = lot_id l) f (lots s)" for f
    using i(2) l(1) available by (intro one_row; simp add: keys_ok_def)+
  have loop: "yields (\<lambda>rest t. rest = available - ?c \<and>
      ledger_inv (bump \<delta> (Some (lot_order l)) (available - rest)) \<gamma> K t \<and>
      undisturbed V s t \<and> lots t = lots s \<and> accounts t = accounts s)
    (lot_debt_loop now (acc_epoch a) (lot_id l) ?ds available s)"
    using lot_debt_loop_run [OF inv ds available(1) acc pay] by (simp add: order)
  have last: "yields (\<lambda>collected t. collected = ?c \<and> ledger_inv \<delta> \<gamma> K t \<and> undisturbed V s t \<and>
      accounts t = accounts s \<and> lots t = update_rows (\<lambda>r. lot_id r = lot_id l)
        (\<lambda>r. r\<lparr>lot_remaining := lot_remaining r - collected\<rparr>) (lots s))
    ((let collected = available - rest in
      if collected > 0
      then bind_tx (update_lots (\<lambda>r. lot_id r = lot_id l \<and> lot_remaining r \<ge> collected)
             (\<lambda>r. r\<lparr>lot_remaining := lot_remaining r - collected\<rparr>)) (\<lambda>rowCount.
           if rowCount \<noteq> 1
           then throw (PlainError ''pack lot changed while collecting clawback debt'')
           else ret collected)
      else ret collected) t)"
    if t: "rest = available - ?c" "ledger_inv (bump \<delta> (Some (lot_order l)) (available - rest)) \<gamma> K t"
      "undisturbed V s t" "lots t = lots s" "accounts t = accounts s" for rest t
  proof (cases "?c = 0")
    case True
    then have "update_rows (\<lambda>r. lot_id r = lot_id l) (\<lambda>r. r\<lparr>lot_remaining := lot_remaining r - ?c\<rparr>) (lots s) = lots s"
      unfolding True update_rows_def by (intro map_idI) simp
    with t True show ?thesis by simp
  next
    case False
    then have pos: "0 < ?c" using total available by auto
    let ?f = "\<lambda>r. r\<lparr>lot_remaining := lot_remaining r - ?c\<rparr>"
    let ?u = "t\<lparr>lots := update_rows (\<lambda>r. lot_id r = lot_id l) ?f (lots t)\<rparr>"
    have "ledger_inv (bump (bump \<delta> (Some (lot_order l)) ?c) (Some (lot_order l)) (- ?c)) \<gamma> K ?u"
      using t l(1) available pos by (intro inv_lot_remaining) auto
    then have "ledger_inv \<delta> \<gamma> K ?u" by simp
    moreover have "undisturbed V t ?u"
      using l lot_unique(1) [OF i(2) _ l(1)] t(4)
      by (intro und_lots) (auto simp: same_lot_def)
    moreover define c where "c = ?c"
    ultimately have u: "ledger_inv \<delta> \<gamma> K (t\<lparr>lots := update_rows (\<lambda>r. lot_id r = lot_id l)
        (\<lambda>r. r\<lparr>lot_remaining := lot_remaining r - c\<rparr>) (lots s)\<rparr>)"
      "undisturbed V s (t\<lparr>lots := update_rows (\<lambda>r. lot_id r = lot_id l)
        (\<lambda>r. r\<lparr>lot_remaining := lot_remaining r - c\<rparr>) (lots s)\<rparr>)"
      using t undisturbed_trans [OF t(3), of ?u] by simp_all
    have k: "available - rest = c" "0 < c" using t(1) pos by (simp_all add: c_def)
    show ?thesis
      unfolding c_def [symmetric] k(1) Let_def
      using u k(2) t(4,5) one [folded c_def] by (simp add: bind_tx_def update_lots_def)
  qed
  show ?thesis
    unfolding collectPackDebtsFromLot_def
    by (simp only: bind_gets if_not_P [OF leD [OF available(1)]] a option.case)
      (rule yields_bind, rule loop, rule last, auto)
qed

text \<open>Setting the balance of an account that exists.\<close>

lemma balance_statement:
  "update_accounts (\<lambda>r. acc_id r = i) (\<lambda>r. r\<lparr>acc_balance := b\<rparr>) s =
     Inr ((), set_balance i b s)"
  by (simp add: update_accounts_def set_balance_def)

lemma find_set_balance:
  "find_account (set_balance i b s) k =
     map_option (\<lambda>a. if k = i then a\<lparr>acc_balance := b\<rparr> else a) (find_account s k)"
  by (cases "find_account s k")
    (use find_account_Some [of s k] in
      \<open>auto simp: find_account_def set_balance_def find_update_rows_key\<close>)

lemma set_balance_frame [simp]:
  "lots (set_balance i b s) = lots s" "orders (set_balance i b s) = orders s"
  "pack_debts (set_balance i b s) = pack_debts s" "debits (set_balance i b s) = debits s"
  "allocations (set_balance i b s) = allocations s" "ledger (set_balance i b s) = ledger s"
  "clawback_debts (set_balance i b s) = clawback_debts s"
  by (simp_all add: set_balance_def)

lemma find_account_balance:
  assumes "ledger_inv \<delta> \<gamma> K s" "find_account s acc = Some a"
  shows "bigint (acc_balance a)" "acc_id a = acc"
  using ledger_invD(1) [OF assms(1)] find_account_Some [OF assms(2)]
  by (simp_all add: rows_ok_def list_all_iff account_check_def)

lemma collectPackDebtsFromSubscription_run:
  assumes inv: "ledger_inv \<delta> \<gamma> K s" and V: "paid_up s V" and a: "find_account s acc = Some a"
    and nonneg: "0 \<le> acc_balance a"
  shows "yields (\<lambda>collected t. collected = min (acc_balance a) (owed_total (outstanding_debts s acc)) \<and>
      ledger_inv \<delta> \<gamma> K t \<and> undisturbed V s t \<and> lots t = lots s \<and>
      find_account t acc = Some (a\<lparr>acc_balance := acc_balance a - collected\<rparr>))
    (collectPackDebtsFromSubscription now acc epoch event s)"
proof -
  note i = ledger_invD [OF inv]
  let ?ds = "outstanding_debts s acc"
  let ?b = "acc_balance a - min (acc_balance a) (owed_total ?ds)"
  note ds = outstanding_debts_owed [OF i(2) V]
  have total: "0 \<le> owed_total ?ds" by (rule owed_total_nonneg) (use ds(1) in blast)
  have loop: "yields (\<lambda>rest t. rest = ?b \<and> ledger_inv \<delta> \<gamma> K t \<and>
      undisturbed V s t \<and> lots t = lots s \<and> accounts t = accounts s)
    (subscription_debt_loop now acc epoch event ?ds (acc_balance a) s)"
    using a find_account_balance [OF inv a] by (intro subscription_debt_loop_run [OF inv ds]) auto
  have b: "bigint ?b"
    using nonneg total by (intro bigint_reduce find_account_balance(1) [OF inv a]) auto
  have last: "yields (\<lambda>collected t. collected = min (acc_balance a) (owed_total ?ds) \<and>
      ledger_inv \<delta> \<gamma> K t \<and> undisturbed V s t \<and> lots t = lots s \<and>
      find_account t acc = Some (a\<lparr>acc_balance := acc_balance a - collected\<rparr>))
    ((if rest \<noteq> acc_balance a
      then bind_tx (update_accounts (\<lambda>r. acc_id r = acc) (\<lambda>r. r\<lparr>acc_balance := rest\<rparr>))
             (\<lambda>_. ret (acc_balance a - rest))
      else ret (acc_balance a - rest)) t)"
    if t: "rest = ?b" "ledger_inv \<delta> \<gamma> K t" "undisturbed V s t" "lots t = lots s" "accounts t = accounts s"
    for rest t
  proof (cases "rest = acc_balance a")
    case True
    with t a show ?thesis by (simp add: find_account_def)
  next
    case False
    have "ledger_inv \<delta> \<gamma> K (set_balance acc rest t)" using t b by (intro inv_set_balance) auto
    moreover have "undisturbed V s (set_balance acc rest t)"
      using t(3) by (rule undisturbed_trans) simp
    moreover have "find_account (set_balance acc rest t) acc = Some (a\<lparr>acc_balance := rest\<rparr>)"
      using a t(5) by (simp add: find_set_balance) (simp add: find_account_def)
    moreover have "rest = acc_balance a - (acc_balance a - rest)"
      "acc_balance a - rest = min (acc_balance a) (owed_total ?ds)" using t(1) by auto
    ultimately show ?thesis
      using False t(4) by (simp add: bind_tx_def balance_statement)
  qed
  show ?thesis
    unfolding collectPackDebtsFromSubscription_def
    by (simp only: bind_gets a option.case) (rule yields_bind, rule loop, rule last, auto)
qed

section \<open>Collecting the clawback debts of an epoch\<close>

definition unrecovered :: "clawback_debt list \<Rightarrow> int" where
  "unrecovered ds = (\<Sum>d\<leftarrow>ds. cd_target d - cd_collected d)"

abbreviation clawback_key :: "clawback_debt \<Rightarrow> string \<times> int \<times> string" where
  "clawback_key d \<equiv> (cd_account d, cd_epoch d, cd_invoice d)"

lemma unrecovered_Cons: "unrecovered (d # ds) = cd_target d - cd_collected d + unrecovered ds"
  by (simp add: unrecovered_def)

lemma unrecovered_nonneg:
  "(\<And>d. d \<in> set ds \<Longrightarrow> cd_collected d < cd_target d) \<Longrightarrow> 0 \<le> unrecovered ds"
  unfolding unrecovered_def by (intro sum_list_int_nonneg) force

lemma clawback_loop_run:
  assumes "ledger_inv \<delta> \<gamma> K s" and "distinct (map clawback_key ds)"
    and "\<And>d. d \<in> set ds \<Longrightarrow> d \<in> set (clawback_debts s) \<and> cd_account d = acc \<and> cd_epoch d = epoch \<and>
      cd_collected d < cd_target d"
    and "bigint balance" and "find_account s acc \<noteq> None"
  shows "\<exists>t. clawback_loop acc epoch event ds balance collected s =
      Inr ((balance - min balance (unrecovered ds), collected + min balance (unrecovered ds)), t) \<and>
    ledger_inv \<delta> \<gamma> K t \<and> undisturbed V s t \<and> lots t = lots s \<and> accounts t = accounts s \<and>
    pack_debts t = pack_debts s"
  using assms
proof (induction ds arbitrary: s balance collected)
  case Nil
  then show ?case by (simp add: unrecovered_def bigint_def)
next
  case (Cons d ds)
  let ?out = "cd_target d - cd_collected d"
  let ?x = "min balance ?out"
  have d: "d \<in> set (clawback_debts s)" "cd_account d = acc" "cd_epoch d = epoch" "0 < ?out"
    using Cons.prems(3) [of d] by simp_all
  have rest: "0 \<le> unrecovered ds" using Cons.prems(3) [OF list.set_intros(2)] by (intro unrecovered_nonneg) blast
  have nonneg: "0 \<le> balance" using Cons.prems(4) by (simp add: bigint_def)
  have amount: "(if ?out < balance then ?out else balance) = ?x" by simp
  show ?case
  proof (cases "balance = 0")
    case True
    then have "min balance (unrecovered (d # ds)) = 0" using d(4) rest by (simp add: unrecovered_Cons)
    with True d(4) Cons.prems(1) show ?thesis by simp
  next
    case False
    then have x: "0 < ?x" "?x \<le> ?out" "?x \<le> balance" using d(4) nonneg by auto
    let ?P = "\<lambda>r. cd_account r = acc \<and> cd_epoch r = epoch \<and> cd_invoice r = cd_invoice d"
    let ?t = "s\<lparr>clawback_debts := update_rows ?P (\<lambda>r. r\<lparr>cd_collected := cd_collected r + ?x\<rparr>) (clawback_debts s)\<rparr>"
    let ?e = "\<lparr>le_account = acc, le_delta = - ?x, le_balance_after = balance - ?x, le_units = 0,
        le_reason = ''clawback_debt_collection'', le_epoch = epoch, le_event = Some event,
        le_invoice = Some (cd_invoice d), le_slot = None\<rparr>"
    let ?u = "?t\<lparr>ledger := ledger ?t @ [?e]\<rparr>"
    have run: "clawback_loop acc epoch event (d # ds) balance collected s =
        clawback_loop acc epoch event ds (balance - ?x) (collected + ?x) ?u"
      unfolding clawback_loop.simps Let_def amount if_not_P [OF not_le [THEN iffD2, OF x(1)]]
      by (simp add: bind_tx_def update_clawback_debts_def insert_ledger_def modify_def)
    have only: "r = d" if "r \<in> set (clawback_debts s)" "?P r" for r
      using ledger_invD(2) [OF Cons.prems(1)] d that
      by (auto simp: keys_ok_def distinct_map dest: inj_onD)
    have check: "clawback_debt_check d"
      using ledger_invD(1) [OF Cons.prems(1)] d(1) by (simp add: rows_ok_def list_all_iff)
    have t: "ledger_inv \<delta> \<gamma> K ?t"
    proof (rule inv_clawback_debts [OF Cons.prems(1)])
      fix r assume "r \<in> set (clawback_debts s)" "?P r"
      then have "r = d" by (rule only)
      with check x show "clawback_debt_check (r\<lparr>cd_collected := cd_collected r + ?x\<rparr>) \<and>
          clawback_key (r\<lparr>cd_collected := cd_collected r + ?x\<rparr>) = clawback_key r"
        by (simp add: clawback_debt_check_def)
    qed
    have less: "bigint (balance - ?x)" using x by (intro bigint_reduce [OF Cons.prems(4)]) auto
    have u: "ledger_inv \<delta> \<gamma> K ?u \<and> undisturbed V ?t ?u"
      using less Cons.prems(5) by (intro inv_ledger_row [OF t]) simp_all
    have und: "undisturbed V s ?u" by (rule undisturbed_trans [OF _ u [THEN conjunct2]]) simp
    have "\<exists>v. clawback_loop acc epoch event ds (balance - ?x) (collected + ?x) ?u =
        Inr ((balance - ?x - min (balance - ?x) (unrecovered ds),
              collected + ?x + min (balance - ?x) (unrecovered ds)), v) \<and>
      ledger_inv \<delta> \<gamma> K v \<and> undisturbed V ?u v \<and> lots v = lots ?u \<and> accounts v = accounts ?u \<and>
      pack_debts v = pack_debts ?u"
    proof (rule Cons.IH)
      show "e \<in> set (clawback_debts ?u) \<and> cd_account e = acc \<and> cd_epoch e = epoch \<and>
          cd_collected e < cd_target e" if e: "e \<in> set ds" for e
      proof -
        have "clawback_key e \<noteq> clawback_key d"
        proof
          assume eq: "clawback_key e = clawback_key d"
          have "clawback_key d \<in> clawback_key ` set ds" unfolding eq [symmetric] using e by (rule imageI)
          with Cons.prems(2) show False by simp
        qed
        moreover have "e \<in> set (clawback_debts s)" "cd_account e = acc \<and> cd_epoch e = epoch \<and>
            cd_collected e < cd_target e"
          using Cons.prems(3) [of e] e by auto
        ultimately have "e \<in> set (clawback_debts s)" "\<not> ?P e" "cd_account e = acc \<and> cd_epoch e = epoch \<and>
            cd_collected e < cd_target e"
          using d by auto
        then show ?thesis by (force simp: set_update_rows)
      qed
    qed (use Cons.prems(2,5) u less in simp_all)
    then obtain v where v: "clawback_loop acc epoch event ds (balance - ?x) (collected + ?x) ?u =
        Inr ((balance - ?x - min (balance - ?x) (unrecovered ds),
              collected + ?x + min (balance - ?x) (unrecovered ds)), v)"
      "ledger_inv \<delta> \<gamma> K v" "undisturbed V ?u v" "lots v = lots s" "accounts v = accounts s"
      "pack_debts v = pack_debts s" by auto
    have "min balance (unrecovered (d # ds)) = ?x + min (balance - ?x) (unrecovered ds)"
      using rest nonneg d(4) by (auto simp: unrecovered_Cons min_def)
    then show ?thesis
      unfolding run v(1) using v(2,4-) undisturbed_trans [OF und v(3)] by (intro exI [of _ v]) simp
  qed
qed

lemma collectClawbackDebts_run:
  assumes inv: "ledger_inv \<delta> \<gamma> K s" and a: "find_account s acc = Some a"
  shows "\<exists>t. collectClawbackDebts acc epoch event s =
      Inr (min (acc_balance a) (unrecovered (outstanding_clawbacks s acc epoch)), t) \<and>
    ledger_inv \<delta> \<gamma> K t \<and> undisturbed V s t \<and> lots t = lots s \<and> pack_debts t = pack_debts s \<and>
    find_account t acc = Some (a\<lparr>acc_balance := acc_balance a -
      min (acc_balance a) (unrecovered (outstanding_clawbacks s acc epoch))\<rparr>)"
proof -
  let ?ds = "outstanding_clawbacks s acc epoch"
  let ?x = "min (acc_balance a) (unrecovered ?ds)"
  note bal = find_account_balance [OF inv a]
  have mem: "d \<in> set (clawback_debts s) \<and> cd_account d = acc \<and> cd_epoch d = epoch \<and>
      cd_collected d < cd_target d" if "d \<in> set ?ds" for d
    using that by (auto simp: outstanding_clawbacks_def)
  have dist: "distinct (map clawback_key ?ds)"
    using ledger_invD(2) [OF inv] distinct_map_filter [of clawback_key "clawback_debts s"]
    unfolding outstanding_clawbacks_def distinct_map set_sort distinct_sort keys_ok_def by blast
  have x: "0 \<le> ?x" using bal(1) unrecovered_nonneg [of ?ds] mem by (auto simp: bigint_def)
  obtain t where t: "clawback_loop acc epoch event ?ds (acc_balance a) 0 s = Inr ((acc_balance a - ?x, ?x), t)"
    "ledger_inv \<delta> \<gamma> K t" "undisturbed V s t" "lots t = lots s" "accounts t = accounts s"
    "pack_debts t = pack_debts s"
    using clawback_loop_run [OF inv dist mem bal(1), of event 0 V] a by auto
  have run: "collectClawbackDebts acc epoch event s =
      (if 0 < ?x then Inr (?x, set_balance acc (acc_balance a - ?x) t) else Inr (?x, t))"
    unfolding collectClawbackDebts_def
    unfolding bind_gets a option.case
    by (subst bind_tx_run) (simp add: t(1) bind_tx_def balance_statement)
  show ?thesis
  proof (cases "0 < ?x")
    case True
    have "ledger_inv \<delta> \<gamma> K (set_balance acc (acc_balance a - ?x) t)"
      using x by (intro inv_set_balance [OF t(2)] bigint_reduce [OF bal(1)]) auto
    moreover have "undisturbed V s (set_balance acc (acc_balance a - ?x) t)"
      using t(3) by (rule undisturbed_trans) simp
    moreover have "find_account t acc = Some a" using a t(5) by (simp add: find_account_def)
    ultimately show ?thesis unfolding run if_P [OF True] using t(4,6) by (simp add: find_set_balance)
  next
    case False
    with x have "?x = 0" by linarith
    with a t show ?thesis unfolding run if_not_P [OF False] by (simp add: find_account_def)
  qed
qed

end
