(* ===== verification/Refund_Facts.thy ===== *)
theory Refund_Facts
  imports Credit_Refund Debt_Facts
begin

text \<open>
  What the refund of an allocation does to the ledger (credits.ts \<open>#restoreAllocationEffect\<close>): it
  ends, fails for no reason inside the ledger, gives back at most what was drawn, and leaves exactly
  the surplus that the caller removes when it marks the allocation as refunded.
\<close>

section \<open>What an undisturbed ledger keeps\<close>

lemma find_same:
  assumes "map g xs = map g ys" and key: "\<And>x. key x = h (g x)"
  shows "map_option g (find (\<lambda>x. key x = k) xs) = map_option g (find (\<lambda>x. key x = k) ys)"
  using assms(1)
proof (induction xs arbitrary: ys)
  case (Cons x xs)
  then obtain y zs where ys: "ys = y # zs" "g x = g y" "map g xs = map g zs" by auto
  then have "key x = key y" by (simp add: key)
  with ys Cons.IH [of zs] show ?case by simp
qed simp

lemma undisturbed_lookups:
  assumes "undisturbed V s t"
  shows "map_option same_account (find_account t k) = map_option same_account (find_account s k)"
    "map_option same_lot (find_lot t k) = map_option same_lot (find_lot s k)"
    "find_order t = find_order s" "source_order t = source_order s"
proof -
  note D = undisturbedD [OF assms]
  show "map_option same_account (find_account t k) = map_option same_account (find_account s k)"
    unfolding find_account_def
    by (rule find_same [where h = acc_id]) (simp_all add: D(2) same_account_def)
  show lot: "map_option same_lot (find_lot t k) = map_option same_lot (find_lot s k)" for k
    unfolding find_lot_def
    by (rule find_same [where h = lot_id]) (simp_all add: D(3) same_lot_def)
  show "find_order t = find_order s" by (simp add: find_order_def D(1) fun_eq_iff)
  have order: "map_option lot_order m = map_option lot_order (map_option same_lot m)" for m
    by (cases m) (simp_all add: same_lot_def)
  have "map_option lot_order (find_lot t k) = map_option lot_order (find_lot s k)" for k
    by (subst (1 2) order) (simp add: lot)
  then show "source_order t = source_order s"
    by (auto simp: fun_eq_iff source_order_def split: source.splits)
qed

lemma undisturbed_account:
  "undisturbed V s t \<Longrightarrow> find_account t k = None \<longleftrightarrow> find_account s k = None"
  using undisturbed_lookups(1) [of V s t k] by (metis map_option_is_None)

lemma undisturbed_paid_up: "undisturbed V s t \<Longrightarrow> paid_up t V = paid_up s V"
  by (simp add: paid_up_def undisturbedD(7))

text \<open>No active lot of the account is past its window.\<close>

definition no_due :: "store \<Rightarrow> string \<Rightarrow> int \<Rightarrow> bool" where
  "no_due s acc asOf \<longleftrightarrow>
     (\<forall>l \<in> set (lots s). lot_account l = acc \<longrightarrow> lot_status l = LotActive \<longrightarrow> asOf < lot_expires l)"

lemma same_lotD:
  assumes "same_lot m = same_lot l"
  shows "lot_id m = lot_id l" "lot_order m = lot_order l" "lot_account m = lot_account l"
    "lot_status m = lot_status l" "lot_expires m = lot_expires l"
  using assms by (cases m; cases l; auto simp: same_lot_def)+

lemma same_lot_member:
  assumes "map same_lot xs = map same_lot ys" "l \<in> set xs"
  shows "\<exists>m \<in> set ys. same_lot m = same_lot l"
proof -
  have "same_lot l \<in> same_lot ` set ys" using assms by (metis image_eqI list.set_map)
  then show ?thesis by (metis imageE)
qed

lemma undisturbed_no_due:
  assumes "undisturbed V s t" "no_due s acc asOf"
  shows "no_due t acc asOf"
  unfolding no_due_def
proof (intro ballI impI)
  fix l assume l: "l \<in> set (lots t)" "lot_account l = acc" "lot_status l = LotActive"
  from same_lot_member [OF undisturbedD(3) [OF assms(1)] l(1)]
  obtain m where m: "m \<in> set (lots s)" "same_lot m = same_lot l" by blast
  with assms(2) l same_lotD [OF m(2)] show "asOf < lot_expires l" by (auto simp: no_due_def)
qed

section \<open>Back to the subscription\<close>

lemma checkedAddAtoms_run:
  assumes "bigint a" "bigint b"
  shows "checkedAddAtoms a b field =
    (if bigint (a + b) then Inr (a + b)
     else Inl (RangeError (field @ '' exceeds the PostgreSQL bigint atom range'')))"
  using assms by (auto simp: checkedAddAtoms_def bigint_def)

lemma returnSubscriptionAtoms_run:
  assumes inv: "ledger_inv \<delta> \<gamma> K s" and V: "paid_up s V" and a: "find_account s (acc_id a) \<noteq> None"
    and x: "bigint x"
  shows "yields (\<lambda>r t. r = (if subscriptionSpendable a asOf then x else 0) \<and> ledger_inv \<delta> \<gamma> K t \<and>
      undisturbed V s t)
    (returnSubscriptionAtoms now asOf a x event reason s)"
proof (cases "subscriptionSpendable a asOf")
  case False
  with inv show ?thesis by (simp add: returnSubscriptionAtoms_def)
next
  case True
  obtain c where c: "find_account s (acc_id a) = Some c" using a by auto
  note bal = find_account_balance [OF inv c]
  let ?b = "acc_balance c + x"
  show ?thesis
  proof (cases "bigint ?b")
    case False
    with True c x bal(1) show ?thesis
      by (simp add: returnSubscriptionAtoms_def checkedAddAtoms_run environmental_def)
  next
    case b: True
    let ?s = "set_balance (acc_id a) ?b s"
    let ?e = "\<lparr>le_account = acc_id a, le_delta = x, le_balance_after = ?b, le_units = 0,
        le_reason = reason, le_epoch = acc_epoch a, le_event = Some event, le_invoice = None, le_slot = None\<rparr>"
    let ?t = "?s\<lparr>ledger := ledger ?s @ [?e]\<rparr>"
    have s: "ledger_inv \<delta> \<gamma> K ?s" using inv b by (rule inv_set_balance)
    have found: "find_account ?t (acc_id a) = Some (c\<lparr>acc_balance := ?b\<rparr>)"
      using c by (simp add: find_set_balance)
    have t: "ledger_inv \<delta> \<gamma> K ?t" "undisturbed V ?s ?t"
      using inv_ledger_row [OF s, of ?e] b c by (simp_all add: find_set_balance)
    have st: "undisturbed V s ?t" by (rule undisturbed_trans [OF _ t(2)]) simp
    obtain u where u: "collectClawbackDebts (acc_id a) (acc_epoch a) event ?t =
        Inr (min ?b (unrecovered (outstanding_clawbacks ?t (acc_id a) (acc_epoch a))), u)"
      "ledger_inv \<delta> \<gamma> K u" "undisturbed V ?t u"
      "find_account u (acc_id a) = Some (c\<lparr>acc_balance := ?b -
         min ?b (unrecovered (outstanding_clawbacks ?t (acc_id a) (acc_epoch a)))\<rparr>)"
      using collectClawbackDebts_run [OF t(1) found, of "acc_epoch a" event V] by auto
    have su: "undisturbed V s u" by (rule undisturbed_trans [OF st u(3)])
    have "yields (\<lambda>collected v. ledger_inv \<delta> \<gamma> K v \<and> undisturbed V u v)
      (collectPackDebtsFromSubscription now (acc_id a) (acc_epoch a) event u)"
      using find_account_balance(1) [OF u(2,4)] undisturbed_paid_up [OF su] V
      by (intro yields_mono [OF collectPackDebtsFromSubscription_run [OF u(2) _ u(4)]])
        (auto simp: bigint_def)
    then have pack: "yields (\<lambda>collected v. ledger_inv \<delta> \<gamma> K v \<and> undisturbed V s v)
      (collectPackDebtsFromSubscription now (acc_id a) (acc_epoch a) event u)"
      using undisturbed_trans [OF su] by (elim yields_mono) blast
    have run: "returnSubscriptionAtoms now asOf a x event reason s =
        bind_tx (collectPackDebtsFromSubscription now (acc_id a) (acc_epoch a) event) (\<lambda>_. ret x) u"
      using True c x b bal(1) u(1)
      by (simp add: returnSubscriptionAtoms_def checkedAddAtoms_run balance_statement
          insert_ledger_def)
    show ?thesis unfolding run by (rule yields_bind, rule pack) (use True in simp)
  qed
qed

section \<open>A pending allocation and its collections\<close>

text \<open>
  An allocation that may be given back while the debts of the orders in \<open>V\<close> are being reversed: every
  such order has a pending collection that is not younger. Only a collection is reversed that way.
\<close>

definition chained :: "string set \<Rightarrow> store \<Rightarrow> allocation \<Rightarrow> bool" where
  "chained V s a \<longleftrightarrow> (collects s (al_debit a) = None \<longrightarrow> V = {}) \<and>
     (\<forall>P \<in> V. \<exists>b \<in> set (allocations s). collects s (al_debit b) = Some P \<and> 0 < pending_of b \<and>
        al_id b \<le> al_id a)"

lemma chained_older:
  assumes col: "collections_inv s" and al: "a \<in> set (allocations s)" "0 < pending_of a" "chained V s a"
    and l: "l \<in> set (lots s)" "al_source a = FromLot (lot_id l)"
    and c: "c \<in> set (allocations s)" "collects s (al_debit c) = Some (lot_order l)" "0 < pending_of c"
  shows "chained (insert (lot_order l) V) s c"
proof -
  have older: "al_id a < al_id c" if "collects s (al_debit a) \<noteq> None"
    using col al l c that by (auto simp: collections_inv_def)
  have "\<exists>b \<in> set (allocations s). collects s (al_debit b) = Some P \<and> 0 < pending_of b \<and> al_id b \<le> al_id c"
    if P: "P \<in> insert (lot_order l) V" for P
  proof (cases "P = lot_order l")
    case True
    with c show ?thesis by auto
  next
    case False
    with P have "P \<in> V" by simp
    with al(3) obtain b where b: "b \<in> set (allocations s)" "collects s (al_debit b) = Some P"
      "0 < pending_of b" "al_id b \<le> al_id a" and some: "collects s (al_debit a) \<noteq> None"
      by (auto simp: chained_def)
    from older [OF some] b(4) have "al_id b \<le> al_id c" by simp
    with b show ?thesis by blast
  qed
  with c(2) show ?thesis by (simp add: chained_def)
qed

lemma chained_new:
  assumes col: "collections_inv s" and al: "a \<in> set (allocations s)" "0 < pending_of a" "chained V s a"
    and l: "l \<in> set (lots s)" "al_source a = FromLot (lot_id l)"
  shows "lot_order l \<notin> V"
proof
  assume "lot_order l \<in> V"
  with al(3) obtain b where b: "b \<in> set (allocations s)" "collects s (al_debit b) = Some (lot_order l)"
      "0 < pending_of b" "al_id b \<le> al_id a" and some: "collects s (al_debit a) \<noteq> None"
    by (auto simp: chained_def)
  then have "al_id a < al_id b" using col al l by (auto simp: collections_inv_def)
  with b(4) show False by simp
qed

lemma undisturbed_row:
  assumes "undisturbed V s t" "b \<in> set (allocations s)" "collects s (al_debit b) = Some P" "P \<in> V"
  shows "b \<in> set (allocations t)"
proof -
  have "guarded_row V s b" using assms(2-4) by (simp add: guarded_row_def)
  then show ?thesis using undisturbedD(9) [OF assms(1), of b] by (simp add: guarded_row_def)
qed

lemma undisturbed_chained:
  assumes u: "undisturbed V s t" and inv: "ledger_inv \<delta> \<gamma> K s" "ledger_inv \<delta>' \<gamma>' K' t"
    and a: "chained V s a" "find_debit s (al_debit a) \<noteq> None"
  shows "chained V t a"
proof -
  note col = undisturbed_collects [OF u ledger_invD(2) [OF inv(1)] ledger_invD(2) [OF inv(2)]]
  have "\<exists>b \<in> set (allocations t). collects t (al_debit b) = Some P \<and> 0 < pending_of b \<and> al_id b \<le> al_id a"
    if P: "P \<in> V" for P
  proof -
    from a(1) P obtain b where b: "b \<in> set (allocations s)" "collects s (al_debit b) = Some P"
      "0 < pending_of b" "al_id b \<le> al_id a" by (auto simp: chained_def)
    have "find_debit s (al_debit b) \<noteq> None" by (rule allocation_key [OF ledger_invD(3) [OF inv(1)] b(1)])
    from col(1) [OF this] b undisturbed_row [OF u b(1,2) P] show ?thesis by auto
  qed
  with a col(1) [OF a(2)] show ?thesis by (simp add: chained_def)
qed

section \<open>The equations of an order\<close>

lemma allocation_lot:
  assumes "ledger_inv \<delta> \<gamma> K s" "a \<in> set (allocations s)" "al_source a = FromLot k"
  shows "\<exists>l \<in> set (lots s). find_lot s k = Some l \<and> lot_id l = k \<and> lot_account l = al_account a"
proof -
  note i = ledger_invD [OF assms(1)]
  have "case al_source a of FromSubscription e \<Rightarrow> True
      | FromLot k \<Rightarrow> (k, al_account a) \<in> (\<lambda>l. (lot_id l, lot_account l)) ` set (lots s)"
    using i(3) assms(2) unfolding references_ok_def list_all_iff by blast
  then obtain l where "l \<in> set (lots s)" "lot_id l = k" "lot_account l = al_account a"
    using assms(3) by auto
  with find_member(3) [OF i(2)] show ?thesis by blast
qed

lemma lot_order_row:
  assumes "ledger_inv \<delta> \<gamma> K s" "l \<in> set (lots s)"
  shows "\<exists>po. find_order s (lot_order l) = Some po \<and> po_id po = lot_order l \<and> po_account po = lot_account l \<and>
    po_pack_credits po = lot_original l \<and> po_refunded_credits po = lot_clawed l + debt_target s (lot_order l)"
proof -
  note i = ledger_invD [OF assms(1)]
  from i(4) assms(2) obtain po where "po \<in> set (orders s)" "po_id po = lot_order l \<and>
    po_account po = lot_account l \<and> po_pack_credits po = lot_original l \<and>
    po_refunded_credits po = lot_clawed l + debt_target s (lot_order l)"
    unfolding lots_inv_def by blast
  with find_member(2) [OF i(2)] show ?thesis by metis
qed

lemma pending_nonneg: "rows_ok s \<Longrightarrow> a \<in> set (allocations s) \<Longrightarrow> 0 \<le> pending_of a"
  by (auto simp: rows_ok_def list_all_iff allocation_check_def pending_of_def)

lemma pending_allocated:
  assumes "rows_ok s" "a \<in> set (allocations s)" "al_source a = FromLot k"
  shows "pending_of a \<le> allocated_outstanding s k"
  using member_le_sum [of a "allocations s" "\<lambda>b. if al_source b = FromLot k then pending_of b else 0"]
    assms pending_nonneg [OF assms(1)] by (auto simp: allocated_outstanding_def)

lemma pending_collected:
  assumes "rows_ok s" "a \<in> set (allocations s)" "collects s (al_debit a) = Some po"
  shows "pending_of a \<le> collection_outstanding s po"
  using member_le_sum [of a "allocations s" "\<lambda>b. if collects s (al_debit b) = Some po then pending_of b else 0"]
    assms pending_nonneg [OF assms(1)] by (auto simp: collection_outstanding_def)

lemma debt_row:
  assumes "ledger_inv \<delta> \<gamma> K s" "find_debt s po = Some d"
  shows "debt_check d" "pd_order d = po" "pd_collected d = collection_outstanding s po + \<gamma> po"
    "active_debt s po = pd_target d - pd_released d"
    "\<exists>l \<in> set (lots s). lot_order l = po \<and> lot_account l = pd_account d"
proof -
  note i = ledger_invD [OF assms(1)]
  from find_debt_Some [OF assms(2)] have d: "d \<in> set (pack_debts s)" "pd_order d = po" by auto
  show "debt_check d" using i(1) d(1) by (simp add: rows_ok_def list_all_iff)
  show "pd_order d = po" by (rule d(2))
  show "pd_collected d = collection_outstanding s po + \<gamma> po" using i(5) d by (auto simp: debts_inv_def)
  show "active_debt s po = pd_target d - pd_released d"
    using assms(2) by (simp add: active_debt_def debt_target_def debt_released_def)
  have "(pd_order d, pd_account d) \<in> (\<lambda>po. (po_id po, po_account po)) ` set (orders s)"
    using i(3) d(1) by (simp add: references_ok_def list_all_iff)
  then obtain o1 where o1: "o1 \<in> set (orders s)" "po_id o1 = po" "po_account o1 = pd_account d"
    using d(2) by auto
  from i(5) d obtain l where l: "l \<in> set (lots s)" "lot_order l = po" by (auto simp: debts_inv_def)
  from lot_order_row [OF assms(1) l(1)] o1 find_member(2) [OF i(2) o1(1)] l(2)
  have "lot_account l = pd_account d" by auto
  with l show "\<exists>l \<in> set (lots s). lot_order l = po \<and> lot_account l = pd_account d" by blast
qed

section \<open>When an allocation may be given back\<close>

text \<open>
  The state in which a refund calls itself: the debts of \<open>V\<close> are being reversed, the debits in
  \<open>K\<close> are open, those in \<open>ks\<close> are being visited.
\<close>

definition ready :: "string set \<Rightarrow> string set \<Rightarrow> account \<Rightarrow> int \<Rightarrow> (string \<Rightarrow> int) \<Rightarrow> (string \<Rightarrow> int) \<Rightarrow>
  string set \<Rightarrow> store \<Rightarrow> bool" where
  "ready V ks a asOf \<delta> \<gamma> K s \<longleftrightarrow>
     ledger_inv \<delta> \<gamma> K s \<and> find_account s (acc_id a) \<noteq> None \<and> no_due s (acc_id a) asOf \<and> paid_up s V \<and>
     (\<forall>po. po \<notin> V \<longrightarrow> \<delta> po = 0 \<and> \<gamma> po = 0) \<and>
     (\<forall>k \<in> K \<union> ks. find_debit s k \<noteq> None \<and> (\<forall>po. collects s k = Some po \<longrightarrow> po \<in> V))"

definition restorable :: "string set \<Rightarrow> string set \<Rightarrow> account \<Rightarrow> int \<Rightarrow> (string \<Rightarrow> int) \<Rightarrow> (string \<Rightarrow> int) \<Rightarrow>
  string set \<Rightarrow> nat \<Rightarrow> allocation \<Rightarrow> int \<Rightarrow> store \<Rightarrow> bool" where
  "restorable V ks a asOf \<delta> \<gamma> K n al x s \<longleftrightarrow>
     ready V ks a asOf \<delta> \<gamma> K s \<and> nat (unreleased s) < n \<and> al \<in> set (allocations s) \<and>
     al_account al = acc_id a \<and> 0 < x \<and> x \<le> pending_of al \<and> chained V s al \<and>
     (\<forall>po. collects s (al_debit al) = Some po \<longrightarrow> po \<in> V)"

definition given_back :: "string set \<Rightarrow> (string \<Rightarrow> int) \<Rightarrow> (string \<Rightarrow> int) \<Rightarrow> string set \<Rightarrow> store \<Rightarrow>
  allocation \<Rightarrow> int \<Rightarrow> int \<Rightarrow> store \<Rightarrow> bool" where
  "given_back V \<delta> \<gamma> K s al x r t \<longleftrightarrow>
     0 \<le> r \<and> r \<le> x \<and> ledger_inv (bump \<delta> (source_order s (al_source al)) x) \<gamma> K t \<and> undisturbed V s t"

text \<open>The contract of a function that gives allocations back.\<close>

definition restores :: "restorer \<Rightarrow> account \<Rightarrow> int \<Rightarrow> nat \<Rightarrow> bool" where
  "restores R a asOf n \<longleftrightarrow> (\<forall>V visiting \<delta> \<gamma> K al x event reason s.
     restorable V (set visiting) a asOf \<delta> \<gamma> K n al x s \<longrightarrow>
     yields (given_back V \<delta> \<gamma> K s al x) (R al x event reason visiting s))"

lemma ready_later:
  assumes r: "ready V ks a asOf \<delta> \<gamma> K s" and u: "undisturbed U s t" and inv: "ledger_inv \<delta>' \<gamma>' K t"
    and V: "paid_up t V" and zero: "\<And>po. po \<notin> V \<Longrightarrow> \<delta>' po = 0 \<and> \<gamma>' po = 0"
  shows "ready V ks a asOf \<delta>' \<gamma>' K t"
proof -
  have s: "ledger_inv \<delta> \<gamma> K s" using r by (simp add: ready_def)
  note col = undisturbed_collects [OF u ledger_invD(2) [OF s] ledger_invD(2) [OF inv]]
  have "find_debit t k \<noteq> None \<and> (\<forall>po. collects t k = Some po \<longrightarrow> po \<in> V)" if "k \<in> K \<union> ks" for k
  proof -
    have "find_debit s k \<noteq> None" "\<forall>po. collects s k = Some po \<longrightarrow> po \<in> V"
      using r that unfolding ready_def by blast+
    with col [OF this(1)] show ?thesis by simp
  qed
  moreover have "find_account t (acc_id a) \<noteq> None" "no_due t (acc_id a) asOf"
    using r undisturbed_account [OF u] undisturbed_no_due [OF u] by (simp_all add: ready_def)
  ultimately show ?thesis using inv V zero unfolding ready_def by blast
qed

section \<open>One reversed collection\<close>

definition reversing :: "string \<Rightarrow> string set \<Rightarrow> string set \<Rightarrow> account \<Rightarrow> int \<Rightarrow> (string \<Rightarrow> int) \<Rightarrow>
  (string \<Rightarrow> int) \<Rightarrow> string set \<Rightarrow> nat \<Rightarrow> store \<Rightarrow> bool" where
  "reversing po V ks a asOf \<delta> \<gamma> K n s \<longleftrightarrow>
     ready (insert po V) ks a asOf \<delta> \<gamma> K s \<and> po \<notin> V \<and> \<gamma> po = 0 \<and> nat (unreleased s) \<le> n \<and>
     (\<forall>k \<in> K \<union> ks. collects s k \<noteq> Some po) \<and>
     (\<exists>d. find_debt s po = Some d \<and> pd_account d = acc_id a)"

definition reversible :: "string \<Rightarrow> string set \<Rightarrow> store \<Rightarrow> debit \<times> allocation \<Rightarrow> bool" where
  "reversible po V s = (\<lambda>(d, c). d \<in> set (debits s) \<and> deb_kind d = Collection po \<and>
     c \<in> set (allocations s) \<and> al_debit c = deb_key d \<and> 0 < pending_of c \<and>
     chained (insert po V) s c)"

lemma reversibleD:
  assumes "reversible po V s (d, c)" "keys_ok s"
  shows "d \<in> set (debits s)" "deb_kind d = Collection po" "c \<in> set (allocations s)"
    "al_debit c = deb_key d" "0 < pending_of c" "chained (insert po V) s c"
    "find_debit s (deb_key d) = Some d" "collects s (deb_key d) = Some po"
proof -
  show d: "d \<in> set (debits s)" "deb_kind d = Collection po" and "c \<in> set (allocations s)"
    "al_debit c = deb_key d" "0 < pending_of c" "chained (insert po V) s c"
    using assms(1) by (simp_all add: reversible_def)
  show "find_debit s (deb_key d) = Some d" by (rule find_member(5) [OF assms(2) d(1)])
  with d(2) show "collects s (deb_key d) = Some po" by (simp add: collects_Some)
qed

text \<open>A collection has one allocation.\<close>

lemma one_allocation:
  assumes "debit_state_ok s d" "deb_kind d = Collection po" "c \<in> set (allocations s)" "al_debit c = deb_key d"
  shows "filter (\<lambda>a. al_debit a = deb_key d) (allocations s) = [c]"
    "deb_amount d = al_amount c" "deb_restored d \<le> al_refunded c"
    "deb_refunded_at d \<noteq> None \<longleftrightarrow> al_refunded c = al_amount c"
proof -
  have "length (filter (\<lambda>a. al_debit a = deb_key d) (allocations s)) = 1"
    using assms(1,2) by (simp add: debit_state_ok_def)
  then obtain b where b: "filter (\<lambda>a. al_debit a = deb_key d) (allocations s) = [b]"
    by (cases "filter (\<lambda>a. al_debit a = deb_key d) (allocations s)") auto
  have "c \<in> set (filter (\<lambda>a. al_debit a = deb_key d) (allocations s))" using assms(3,4) by simp
  with b show one: "filter (\<lambda>a. al_debit a = deb_key d) (allocations s) = [c]" by simp
  have sum: "(\<Sum>a\<leftarrow>allocations s. if al_debit a = deb_key d then f a else 0) = f c" for f :: "allocation \<Rightarrow> int"
    using arg_cong [OF one, of "\<lambda>xs. \<Sum>a\<leftarrow>xs. f a"] by (simp add: sum_list_map_filter')
  show "deb_amount d = al_amount c" "deb_restored d \<le> al_refunded c"
    "deb_refunded_at d \<noteq> None \<longleftrightarrow> al_refunded c = al_amount c"
    using assms(1) by (simp_all add: debit_state_ok_def allocated_amount_def allocated_refunded_def sum)
qed

lemma open_collection:
  assumes "reversing po V ks a asOf \<delta> \<gamma> K n s" "reversible po V s (d, c)"
  shows "debit_state_ok s d" "deb_key d \<notin> K \<union> ks" "deb_account d = acc_id a" "al_account c = acc_id a"
proof -
  have inv: "ledger_inv \<delta> \<gamma> K s" using assms(1) by (simp add: reversing_def ready_def)
  note i = ledger_invD [OF inv] and r = reversibleD [OF assms(2) ledger_invD(2) [OF inv]]
  show key: "deb_key d \<notin> K \<union> ks" using assms(1) r(8) by (auto simp: reversing_def)
  then show "debit_state_ok s d" using i(6) r(1) by (auto simp: debits_inv_def)
  obtain p where p: "find_debt s po = Some p" "pd_account p = acc_id a"
    using assms(1) by (auto simp: reversing_def)
  have "case deb_kind d of Usage \<Rightarrow> True
      | Collection k \<Rightarrow> (k, deb_account d) \<in> (\<lambda>p. (pd_order p, pd_account p)) ` set (pack_debts s)"
    using i(3) r(1) unfolding references_ok_def list_all_iff by blast
  then obtain q where q: "q \<in> set (pack_debts s)" "pd_order q = po" "pd_account q = deb_account d"
    using r(2) by auto
  from find_member(6) [OF i(2) q(1)] q p show da: "deb_account d = acc_id a" by auto
  from allocation_debit [OF i(3) r(3)] obtain e where e: "e \<in> set (debits s)" "deb_key e = al_debit c"
    "deb_account e = al_account c" by blast
  from find_member(5) [OF i(2) e(1)] e r(4,7) have "e = d" by simp
  with e(3) da show "al_account c = acc_id a" by simp
qed

lemma reversal_starts:
  assumes ok: "reversing po V ks a asOf \<delta> \<gamma> K n s" and r: "reversible po V s (d, c)"
    and x: "0 < x" "x \<le> pending_of c"
  shows "restorable (insert po V) (insert (deb_key d) ks) a asOf (bump \<delta> (Some po) x)
      (bump \<gamma> (Some po) (- x)) K n c x (move_debt po (- x) x s)"
    and "undisturbed V s (move_debt po (- x) x s)"
    and "length (filter (\<lambda>r. pd_order r = po \<and> x \<le> pd_collected r) (pack_debts s)) = 1"
    and "update_rows (\<lambda>r. pd_order r = po \<and> x \<le> pd_collected r)
        (\<lambda>r. r\<lparr>pd_collected := pd_collected r - x, pd_released := pd_released r + x\<rparr>) (pack_debts s)
      = pack_debts (move_debt po (- x) x s)"
proof -
  have rdy: "ready (insert po V) ks a asOf \<delta> \<gamma> K s" and po: "po \<notin> V" "\<gamma> po = 0" and n: "nat (unreleased s) \<le> n"
    and ex: "\<exists>p. find_debt s po = Some p \<and> pd_account p = acc_id a"
    using ok by (auto simp: reversing_def)
  then have inv: "ledger_inv \<delta> \<gamma> K s" by (simp add: ready_def)
  note i = ledger_invD [OF inv] and rc = reversibleD [OF r ledger_invD(2) [OF inv]]
  obtain p where p: "find_debt s po = Some p" using ex by blast
  note row = debt_row [OF inv p]
  have enough: "x \<le> pd_collected p"
    using pending_collected [OF i(1) rc(3), of po] rc(4,8) row(3) po(2) x by simp
  let ?t = "move_debt po (- x) x s"
  have und: "undisturbed V s ?t" using x by (intro und_move_debt [OF i(2) p po(1)]) simp
  then show "undisturbed V s ?t" .
  have t: "ledger_inv (bump \<delta> (Some po) x) (bump \<gamma> (Some po) (- x)) K ?t"
    using inv_move_debt [OF inv p, of "- x" x] enough x row(1) by (simp add: debt_check_def)
  have found: "find_debt ?t po = Some (p\<lparr>pd_collected := pd_collected p - x, pd_released := pd_released p + x\<rparr>)"
    using p row(2) by (simp add: find_debt_move)
  have paid: "paid_up ?t (insert po V)"
  proof -
    have "paid_up s (insert po V)" using rdy by (simp add: ready_def)
    moreover have "find_debt ?t j = find_debt s j" if "j \<in> V" for j by (rule undisturbedD(7) [OF und that])
    ultimately show ?thesis using found p by (simp add: paid_up_def)
  qed
  have zero: "bump \<delta> (Some po) x j = 0 \<and> bump \<gamma> (Some po) (- x) j = 0" if "j \<notin> insert po V" for j
    using rdy that by (auto simp: ready_def bump_def)
  have "ready (insert po V) ks a asOf (bump \<delta> (Some po) x) (bump \<gamma> (Some po) (- x)) K ?t"
    by (rule ready_later [OF rdy und t paid zero])
  moreover have "nat (unreleased ?t) < n"
  proof -
    have "0 \<le> unreleased ?t"
      using ledger_invD(1) [OF t] unfolding unreleased_def
      by (intro sum_list_int_nonneg) (auto simp: rows_ok_def list_all_iff debt_check_def)
    with n x unreleased_move [OF i(2) p, of "- x" x] show ?thesis by simp
  qed
  moreover have "chained (insert po V) ?t c" using rc(6) by (simp add: chained_def)
  ultimately show "restorable (insert po V) (insert (deb_key d) ks) a asOf (bump \<delta> (Some po) x)
      (bump \<gamma> (Some po) (- x)) K n c x ?t"
    using rc x open_collection(4) [OF ok r] by (simp add: restorable_def ready_def)
  have only: "q = p" if "q \<in> set (pack_debts s)" "pd_order q = po" for q
    using find_member(6) [OF i(2) that(1)] that(2) p by simp
  have same: "pd_order q = po \<and> x \<le> pd_collected q \<longleftrightarrow> pd_order q = po" if "q \<in> set (pack_debts s)" for q
    using only [OF that] enough by blast
  have dist: "distinct (map pd_order (pack_debts s))" using i(2) by (simp add: keys_ok_def)
  show "length (filter (\<lambda>r. pd_order r = po \<and> x \<le> pd_collected r) (pack_debts s)) = 1"
  proof -
    have "filter (\<lambda>r. pd_order r = po \<and> x \<le> pd_collected r) (pack_debts s) = filter (\<lambda>r. r = p) (pack_debts s)"
      using same only find_debt_Some [OF p] by (intro filter_cong) auto
    moreover have "distinct (pack_debts s)" using dist by (simp add: distinct_map)
    ultimately show ?thesis
      using find_debt_Some [OF p] by (simp add: distinct_length_filter Int_absorb2 flip: Collect_conv_if)
  qed
  show "update_rows (\<lambda>r. pd_order r = po \<and> x \<le> pd_collected r)
      (\<lambda>r. r\<lparr>pd_collected := pd_collected r - x, pd_released := pd_released r + x\<rparr>) (pack_debts s)
    = pack_debts ?t"
    using same by (simp add: move_debt_def update_rows_def)
qed

text \<open>What the loop writes once the nested call has returned.\<close>

definition reversal_end :: "int \<Rightarrow> debit \<Rightarrow> allocation \<Rightarrow> int \<Rightarrow> int \<Rightarrow> store \<Rightarrow> store" where
  "reversal_end now d c x r t =
     (let u = refund_allocation (al_id c) x t in
      set_debit (deb_key d) (deb_restored d + r)
        (if al_refunded c + x < al_amount c then deb_refunded_at d else Some now) u)"

lemma allocation_unique:
  assumes "keys_ok s" "a \<in> set (allocations s)" "b \<in> set (allocations s)" "al_id a = al_id b"
  shows "a = b"
  using assms by (auto simp: keys_ok_def distinct_map dest: inj_onD)

lemma refunded_statement:
  assumes "keys_ok s" "c \<in> set (allocations s)" "al_refunded c + x \<le> al_amount c"
  shows "update_allocations (\<lambda>r. al_id r = al_id c \<and> al_refunded r + x \<le> al_amount r)
      (\<lambda>r. r\<lparr>al_refunded := al_refunded r + x\<rparr>) s = Inr (1, refund_allocation (al_id c) x s)"
proof -
  have same: "al_id r = al_id c \<and> al_refunded r + x \<le> al_amount r \<longleftrightarrow> r = c"
    "al_id r = al_id c \<longleftrightarrow> r = c" if "r \<in> set (allocations s)" for r
    using allocation_unique [OF assms(1) that assms(2)] assms(3) by auto
  have "filter (\<lambda>r. al_id r = al_id c \<and> al_refunded r + x \<le> al_amount r) (allocations s) =
      filter (\<lambda>r. r = c) (allocations s)"
    using same(1) by (intro filter_cong) auto
  moreover have "distinct (allocations s)" using assms(1) by (simp add: keys_ok_def distinct_map)
  ultimately have "length (filter (\<lambda>r. al_id r = al_id c \<and> al_refunded r + x \<le> al_amount r) (allocations s)) = 1"
    using assms(2) by (simp add: distinct_length_filter Int_absorb2 flip: Collect_conv_if)
  moreover have "update_rows (\<lambda>r. al_id r = al_id c \<and> al_refunded r + x \<le> al_amount r)
      (\<lambda>r. r\<lparr>al_refunded := al_refunded r + x\<rparr>) (allocations s) = allocations (refund_allocation (al_id c) x s)"
    using same by (simp add: refund_allocation_def update_rows_def)
  ultimately show ?thesis by (simp add: update_allocations_def refund_allocation_def)
qed

lemma debit_statement:
  assumes "keys_ok t" "d \<in> set (debits t)" "filter (\<lambda>a. al_debit a = deb_key d) (allocations t) = [c]"
  shows "update_debits (\<lambda>r. deb_key r = deb_key d)
      (\<lambda>s r. r\<lparr>deb_restored := v,
               deb_refunded_at := (if list_ex (\<lambda>b. al_debit b = deb_key r \<and> al_refunded b < al_amount b)
                 (allocations s) then deb_refunded_at r else Some now)\<rparr>) t =
    Inr ((), set_debit (deb_key d) v (if al_refunded c < al_amount c then deb_refunded_at d else Some now) t)"
proof -
  have only: "r = d" if "r \<in> set (debits t)" "deb_key r = deb_key d" for r
    using find_member(5) [OF assms(1) that(1)] find_member(5) [OF assms(1,2)] that(2) by (metis option.inject)
  have "list_ex (\<lambda>b. al_debit b = deb_key d \<and> al_refunded b < al_amount b) (allocations t) \<longleftrightarrow>
      list_ex (\<lambda>b. al_refunded b < al_amount b) (filter (\<lambda>a. al_debit a = deb_key d) (allocations t))"
    by (auto simp: list_ex_iff)
  then have ex: "list_ex (\<lambda>b. al_debit b = deb_key d \<and> al_refunded b < al_amount b) (allocations t) \<longleftrightarrow>
      al_refunded c < al_amount c"
    by (simp add: assms(3))
  let ?at = "if al_refunded c < al_amount c then deb_refunded_at d else Some now"
  let ?f = "\<lambda>r. r\<lparr>deb_restored := v,
               deb_refunded_at := (if list_ex (\<lambda>b. al_debit b = deb_key r \<and> al_refunded b < al_amount b)
                 (allocations t) then deb_refunded_at r else Some now)\<rparr>"
  have "(if deb_key r = deb_key d then ?f r else r) =
      (if deb_key r = deb_key d then r\<lparr>deb_restored := v, deb_refunded_at := ?at\<rparr> else r)"
    if r: "r \<in> set (debits t)" for r
  proof (cases "deb_key r = deb_key d")
    case True
    from only [OF r True] ex show ?thesis by simp
  qed simp
  then show ?thesis
    by (simp add: update_debits_def set_debit_def update_rows_def cong: map_cong)
qed

lemma filter_refunded:
  assumes "filter (\<lambda>a. al_debit a = k) (allocations t) = [c]"
  shows "filter (\<lambda>a. al_debit a = k) (allocations (refund_allocation (al_id c) x t)) =
    [c\<lparr>al_refunded := al_refunded c + x\<rparr>]"
  using assms filter_update_rows [where P = "\<lambda>a. al_id a = al_id c" and Q = "\<lambda>a. al_debit a = k"
      and f = "\<lambda>a. a\<lparr>al_refunded := al_refunded a + x\<rparr>" and xs = "allocations t"]
  by (simp add: refund_allocation_def)

lemma reversal_ends:
  assumes ok: "reversing po V ks a asOf \<delta> \<gamma> K n s" and r: "reversible po V s (d, c)"
    and x: "0 < x" "x \<le> pending_of c"
    and given: "given_back (insert po V) (bump \<delta> (Some po) x) (bump \<gamma> (Some po) (- x)) K
      (move_debt po (- x) x s) c x v t"
  shows "bigint (deb_restored d) \<and> bigint v \<and> bigint (deb_restored d + v)"
    and "keys_ok t" "c \<in> set (allocations t)" "d \<in> set (debits t)"
    and "filter (\<lambda>a. al_debit a = deb_key d) (allocations t) = [c]"
    and "reversing po V ks a asOf (bump \<delta> (Some po) x) \<gamma> K n (reversal_end now d c x v t)"
    and "undisturbed V s (reversal_end now d c x v t)"
    and "l \<in> set (lots s) \<Longrightarrow> lot_order l = po \<Longrightarrow> l \<in> set (lots (reversal_end now d c x v t))"
    and "reversible po V s e \<Longrightarrow> deb_key (fst e) \<noteq> deb_key d \<Longrightarrow>
      reversible po V (reversal_end now d c x v t) e"
    and "active_debt (reversal_end now d c x v t) po = active_debt s po - x"
proof -
  have rdy: "ready (insert po V) ks a asOf \<delta> \<gamma> K s" and po: "po \<notin> V" "\<gamma> po = 0" and n: "nat (unreleased s) \<le> n"
    and away: "\<forall>k \<in> K \<union> ks. collects s k \<noteq> Some po"
    and ex: "\<exists>p. find_debt s po = Some p \<and> pd_account p = acc_id a"
    using ok by (auto simp: reversing_def)
  then have inv: "ledger_inv \<delta> \<gamma> K s" by (simp add: ready_def)
  note i = ledger_invD [OF inv] and rc = reversibleD [OF r ledger_invD(2) [OF inv]]
    and oc = open_collection [OF ok r] and start = reversal_starts [OF ok r x]
  let ?m = "move_debt po (- x) x s" and ?W = "insert po V"
  let ?t1 = "refund_allocation (al_id c) x t" and ?u = "reversal_end now d c x v t"
  have m: "ledger_inv (bump \<delta> (Some po) x) (bump \<gamma> (Some po) (- x)) K ?m"
    using start(1) by (simp add: restorable_def ready_def)
  have v: "0 \<le> v" "v \<le> x" and mt: "undisturbed ?W ?m t"
    and t: "ledger_inv (bump (bump \<delta> (Some po) x) (source_order t (al_source c)) x)
      (bump \<gamma> (Some po) (- x)) K t"
    using given undisturbed_lookups(4) [of ?W ?m t] by (auto simp: given_back_def)
  note j = ledger_invD [OF t]
  have cm: "collects ?m (al_debit c) = Some po" using rc(4,8) by simp
  show ct: "c \<in> set (allocations t)" using undisturbed_row [OF mt _ cm] rc(3) by simp
  show dt: "d \<in> set (debits t)"
    using undisturbedD(8) [OF mt, of d] rc(1,2) by (simp add: guarded_def)
  show "keys_ok t" by (rule j(2))
  have fd: "find_debit t (deb_key d) = Some d" by (rule find_member(5) [OF j(2) dt])
  have cd: "collects t (deb_key d) = Some po" using fd rc(2) by (simp add: collects_Some)
  have dok: "debit_state_ok t d" using j(6) dt oc(2) by (auto simp: debits_inv_def)
  note one = one_allocation [OF dok rc(2) ct rc(4)]
  show "filter (\<lambda>a. al_debit a = deb_key d) (allocations t) = [c]" by (rule one(1))
  have fit: "al_refunded c + x \<le> al_amount c" using x(2) by (simp add: pending_of_def)
  have dc: "debit_check d" using j(1) dt by (simp add: rows_ok_def list_all_iff)
  have sum: "deb_restored d + v \<le> deb_amount d" using one(2,3) v(2) fit by linarith
  show "bigint (deb_restored d) \<and> bigint v \<and> bigint (deb_restored d + v)"
    using dc v sum by (auto simp: debit_check_def bigint_def)

  have ck: "collects t (al_debit c) = Some po" using cd rc(4) by simp
  have "ledger_inv (bump \<delta> (Some po) x) \<gamma> (insert (deb_key d) K) ?t1"
    using inv_refund_allocation [OF inv_mono [OF t subset_insertI] ct, of "deb_key d" x] rc(4) x(1) fit ck
    by simp
  then have u1: "ledger_inv (bump \<delta> (Some po) x) \<gamma> (insert (deb_key d) K) ?u"
    unfolding reversal_end_def Let_def
    by (rule inv_set_debit [where d = d]) (use fd dc v sum in \<open>auto simp: debit_check_def\<close>)
  have "ledger_inv (bump \<delta> (Some po) x) \<gamma> (K - {deb_key d}) ?u"
  proof (rule inv_close_debit [OF u1])
    fix e assume e: "find_debit ?u (deb_key d) = Some e"
    have e_eq: "e = d\<lparr>deb_restored := deb_restored d + v,
        deb_refunded_at := (if al_refunded c + x < al_amount c then deb_refunded_at d else Some now)\<rparr>"
      using e fd by (simp add: reversal_end_def Let_def find_debit_set)
    have rows: "filter (\<lambda>a. al_debit a = deb_key d) (allocations ?u) = [c\<lparr>al_refunded := al_refunded c + x\<rparr>]"
      using filter_refunded [OF one(1), of x] by (simp add: reversal_end_def Let_def)
    have total: "(\<Sum>a\<leftarrow>allocations ?u. if al_debit a = deb_key d then f a else 0) =
        f (c\<lparr>al_refunded := al_refunded c + x\<rparr>)" for f :: "allocation \<Rightarrow> int"
      using arg_cong [OF rows, of "\<lambda>xs. \<Sum>a\<leftarrow>xs. f a"] by (simp add: sum_list_map_filter')
    show "debit_state_ok ?u e"
      using one(2-4) v x fit rows
      by (auto simp: debit_state_ok_def allocated_amount_def allocated_refunded_def total e_eq)
  qed
  then have u: "ledger_inv (bump \<delta> (Some po) x) \<gamma> K ?u" by (rule inv_mono) auto

  have "undisturbed V ?m t" by (rule undisturbed_antimono [OF mt _ m t]) auto
  moreover have "undisturbed V t ?t1" by (rule und_refund_allocation [OF j(2) ct ck po(1)])
  moreover have "undisturbed V ?t1 ?u"
    unfolding reversal_end_def Let_def
    by (rule und_set_debit [OF _ _ po(1)])
      (use ledger_invD(2) [OF \<open>ledger_inv (bump \<delta> (Some po) x) \<gamma> (insert (deb_key d) K) ?t1\<close>] cd in simp_all)
  ultimately show su: "undisturbed V s ?u"
    using start(2) by (blast intro: undisturbed_trans)
  note sv = undisturbed_collects [OF su i(2) ledger_invD(2) [OF u]]

  obtain p where p: "find_debt s po = Some p" "pd_account p = acc_id a" using ex by blast
  have "find_debt ?u po = find_debt ?m po"
    using undisturbedD(7) [OF mt, of po] by (simp add: reversal_end_def Let_def)
  then have pu: "find_debt ?u po = Some (p\<lparr>pd_collected := pd_collected p - x, pd_released := pd_released p + x\<rparr>)"
    using p find_debt_Some [OF p(1)] by (simp add: find_debt_move)
  show "active_debt ?u po = active_debt s po - x"
    using pu p(1) by (simp add: active_debt_def debt_target_def debt_released_def)
  have paid: "paid_up ?u ?W"
  proof -
    have "paid_up s ?W" using rdy by (simp add: ready_def)
    moreover have "find_debt ?u j = find_debt s j" if "j \<in> V" for j by (rule undisturbedD(7) [OF su that])
    ultimately show ?thesis using pu p(1) by (simp add: paid_up_def)
  qed
  have "ready ?W ks a asOf (bump \<delta> (Some po) x) \<gamma> K ?u"
    by (rule ready_later [OF rdy su u paid]) (use rdy in \<open>auto simp: ready_def bump_def\<close>)
  moreover have "collects ?u k \<noteq> Some po" if "k \<in> K \<union> ks" for k
  proof -
    have "find_debit s k \<noteq> None" using rdy that unfolding ready_def by blast
    from sv(1) [OF this] away that show ?thesis by simp
  qed
  moreover have "nat (unreleased ?u) \<le> n" using n undisturbedD(11) [OF su] by linarith
  ultimately show "reversing po V ks a asOf (bump \<delta> (Some po) x) \<gamma> K n ?u"
    using po pu p(2) by (simp add: reversing_def)

  show "l \<in> set (lots ?u)" if "l \<in> set (lots s)" "lot_order l = po"
    using undisturbedD(6) [OF mt, of l] that by (simp add: reversal_end_def Let_def)

  show "reversible po V ?u e" if e: "reversible po V s e" "deb_key (fst e) \<noteq> deb_key d"
  proof -
    obtain d' c' where e': "e = (d', c')" by (cases e)
    with e have rv: "reversible po V s (d', c')" "deb_key d' \<noteq> deb_key d" by simp_all
    note r' = reversibleD [OF rv(1) i(2)]
    have "d' \<in> set (debits t)"
      using undisturbedD(8) [OF mt, of d'] r'(1,2) by (simp add: guarded_def)
    then have "d' \<in> set (debits ?u)"
      using rv(2) by (force simp: reversal_end_def Let_def set_debit_def set_update_rows)
    moreover have c't: "c' \<in> set (allocations t)"
      using undisturbed_row [OF mt, of c' po] r'(3,4,8) by simp
    moreover have "al_id c' \<noteq> al_id c"
      using allocation_unique [OF j(2) c't ct] rv(2) r'(4) rc(4) by auto
    then have "c' \<in> set (allocations ?u)"
      using c't by (force simp: reversal_end_def Let_def refund_allocation_def set_update_rows)
    moreover have "chained ?W ?u c'"
    proof -
      have "chained V s c'" using r'(6,8,4) by (simp add: chained_def)
      then have "chained V ?u c'"
        using r'(4,7) by (intro undisturbed_chained [OF su inv u]) simp_all
      moreover have "collects ?u (al_debit c') = Some po" using sv(1) r'(4,7,8) by simp
      moreover note \<open>c' \<in> set (allocations ?u)\<close> r'(5)
      ultimately show ?thesis by (auto simp: chained_def)
    qed
    ultimately show ?thesis using r'(2,4,5) by (simp add: e' reversible_def)
  qed
qed

lemma keys_ok_refund: "keys_ok s \<Longrightarrow> keys_ok (refund_allocation i x s)"
  by (simp add: keys_ok_def refund_allocation_def map_update_rows)

lemma reverse_collections_run:
  assumes R: "restores R a asOf n" and "reversing po V (set visiting) a asOf \<delta> \<gamma> K n s"
    and "\<And>e. e \<in> set cs \<Longrightarrow> reversible po V s e" and "distinct (map (\<lambda>e. deb_key (fst e)) cs)"
    and "0 \<le> remaining" "remaining \<le> (\<Sum>e\<leftarrow>cs. pending_of (snd e))"
  shows "yields (\<lambda>(left, total) t. left = 0 \<and> recovered \<le> total \<and> total \<le> recovered + remaining \<and>
      ledger_inv (bump \<delta> (Some po) remaining) \<gamma> K t \<and> undisturbed V s t \<and>
      active_debt t po = active_debt s po - remaining \<and>
      (\<forall>l \<in> set (lots s). lot_order l = po \<longrightarrow> l \<in> set (lots t)))
    (reverse_collections R now (acc_id a) po visiting cs remaining recovered s)"
  using assms(2-)
proof (induction cs arbitrary: s remaining recovered \<delta>)
  case Nil
  then show ?case by (simp add: reversing_def ready_def)
next
  case (Cons e cs)
  obtain d c where e: "e = (d, c)" by (cases e)
  have inv: "ledger_inv \<delta> \<gamma> K s" using Cons.prems(1) by (simp add: reversing_def ready_def)
  have rd: "reversible po V s (d, c)" using Cons.prems(2) [of e] by (simp add: e)
  note rc = reversibleD [OF rd ledger_invD(2) [OF inv]] and oc = open_collection [OF Cons.prems(1) rd]
  show ?case
  proof (cases "remaining = 0")
    case True
    with inv show ?thesis by (simp add: e)
  next
    case False
    obtain x where x: "x = (if remaining < al_amount c - al_refunded c then remaining else al_amount c - al_refunded c)"
      by blast
    have pos: "0 < x" "x \<le> pending_of c" "x \<le> remaining"
      using False Cons.prems(4) rc(5) by (auto simp: x pending_of_def)
    note start = reversal_starts [OF Cons.prems(1) rd pos(1,2)]
    let ?m = "move_debt po (- x) x s"
    let ?k = "\<lambda>restored. bind_tx (lift_tx (checkedAddAtoms (deb_restored d) restored
                       ''debt-collection restored credits'')) (\<lambda>newRestored.
            bind_tx (update_allocations (\<lambda>r. al_id r = al_id c \<and> al_refunded r + x \<le> al_amount r)
                       (\<lambda>r. r\<lparr>al_refunded := al_refunded r + x\<rparr>)) (\<lambda>rowCount.
            if rowCount \<noteq> 1
            then throw (PlainError ''debt collection allocation changed during reversal'')
            else
              bind_tx (update_debits (\<lambda>r. deb_key r = deb_key d)
                (\<lambda>s r. r\<lparr>deb_restored := newRestored,
                         deb_refunded_at :=
                           (if list_ex (\<lambda>b. al_debit b = deb_key r \<and> al_refunded b < al_amount b)
                                 (allocations s)
                            then deb_refunded_at r else Some now)\<rparr>)) (\<lambda>_.
                reverse_collections R now (acc_id a) po visiting cs (remaining - x)
                  (recovered + restored))))"
    have debts: "update_debts (\<lambda>r. pd_order r = po \<and> x \<le> pd_collected r)
        (\<lambda>r. r\<lparr>pd_collected := pd_collected r - x, pd_released := pd_released r + x\<rparr>) s = Inr (1, ?m)"
      using start(3,4) by (simp add: update_debts_def move_debt_def)
    have run: "reverse_collections R now (acc_id a) po visiting (e # cs) remaining recovered s =
        bind_tx (R c x (''pack-debt-release:'' @ deb_key d) ''credit_pack_debt_refund''
          (deb_key d # visiting)) ?k ?m"
    proof -
      have "\<not> remaining \<le> 0" "deb_key d \<notin> set visiting" "\<not> x \<le> 0"
        "\<not> (deb_account d \<noteq> acc_id a \<or> al_account c \<noteq> acc_id a)" "\<not> deb_amount d \<noteq> al_amount c"
        using False Cons.prems(4) pos(1) oc one_allocation(2) [OF oc(1) rc(2-4)] by auto
      then show ?thesis
        unfolding e reverse_collections.simps Let_def x [symmetric]
        by (simp only: if_False bind_tx_run [where m = "update_debts P f" for P f] debts
            bind_result.simps prod.case simp_thms)
    qed
    have nested: "yields (given_back (insert po V) (bump \<delta> (Some po) x) (bump \<gamma> (Some po) (- x)) K ?m c x)
      (R c x (''pack-debt-release:'' @ deb_key d) ''credit_pack_debt_refund'' (deb_key d # visiting) ?m)"
      using R start(1) by (simp add: restores_def)
    show ?thesis
      unfolding run
    proof (rule yields_bind, rule nested)
      fix v t
      assume g: "given_back (insert po V) (bump \<delta> (Some po) x) (bump \<gamma> (Some po) (- x)) K ?m c x v t"
      note en = reversal_ends [OF Cons.prems(1) rd pos(1,2) g]
      have v: "0 \<le> v" "v \<le> x" using g by (simp_all add: given_back_def)
      let ?u = "reversal_end now d c x v t" and ?t = "refund_allocation (al_id c) x t"
      have add: "checkedAddAtoms (deb_restored d) v f = Inr (deb_restored d + v)" for f
        using en(1) by (simp add: checkedAddAtoms_run)
      have fit: "al_refunded c + x \<le> al_amount c" using pos(2) by (simp add: pending_of_def)
      let ?at = "if al_refunded c + x < al_amount c then deb_refunded_at d else Some now"
      have written: "update_debits (\<lambda>r. deb_key r = deb_key d)
          (\<lambda>s r. r\<lparr>deb_restored := deb_restored d + v,
             deb_refunded_at := (if list_ex (\<lambda>b. al_debit b = deb_key r \<and> al_refunded b < al_amount b)
               (allocations s) then deb_refunded_at r else Some now)\<rparr>) ?t =
          Inr ((), set_debit (deb_key d) (deb_restored d + v) ?at ?t)"
        using debit_statement [OF keys_ok_refund [OF en(2), of "al_id c" x] _ filter_refunded [OF en(5), of x], where now = now] en(4)
        by simp
      have step: "?k v t = reverse_collections R now (acc_id a) po visiting cs (remaining - x) (recovered + v) ?u"
        unfolding add lift_tx_run bind_tx_run refunded_statement [OF en(2,3) fit] bind_result.simps prod.case
        by (simp add: written reversal_end_def)
      have "yields (\<lambda>(left, total) w. left = 0 \<and> recovered + v \<le> total \<and>
          total \<le> recovered + v + (remaining - x) \<and>
          ledger_inv (bump (bump \<delta> (Some po) x) (Some po) (remaining - x)) \<gamma> K w \<and> undisturbed V ?u w \<and>
          active_debt w po = active_debt ?u po - (remaining - x) \<and>
          (\<forall>l \<in> set (lots ?u). lot_order l = po \<longrightarrow> l \<in> set (lots w)))
        (reverse_collections R now (acc_id a) po visiting cs (remaining - x) (recovered + v) ?u)"
      proof (rule Cons.IH [OF en(6)])
        show "reversible po V ?u e'" if "e' \<in> set cs" for e'
        proof (rule en(9))
          show "reversible po V s e'" using Cons.prems(2) that by simp
          have "deb_key (fst e') \<in> (\<lambda>e. deb_key (fst e)) ` set cs" using that by (rule imageI)
          with Cons.prems(3) show "deb_key (fst e') \<noteq> deb_key d"
            unfolding list.map distinct.simps list.set_map e fst_conv by metis
        qed
        show "remaining - x \<le> (\<Sum>e\<leftarrow>cs. pending_of (snd e))"
        proof (cases "x = pending_of c")
          case True
          with Cons.prems(5) show ?thesis by (simp add: e)
        next
          case False
          then have "remaining = x" by (auto simp: x pending_of_def split: if_splits)
          moreover have "0 \<le> (\<Sum>e\<leftarrow>cs. pending_of (snd e))"
            using Cons.prems(2) by (intro sum_list_int_nonneg) (force simp: reversible_def)
          ultimately show ?thesis by simp
        qed
      qed (use Cons.prems(3) pos(3) in \<open>simp_all add: e\<close>)
      then show "yields (\<lambda>(left, total) t. left = 0 \<and> recovered \<le> total \<and> total \<le> recovered + remaining \<and>
          ledger_inv (bump \<delta> (Some po) remaining) \<gamma> K t \<and> undisturbed V s t \<and>
          active_debt t po = active_debt s po - remaining \<and>
          (\<forall>l \<in> set (lots s). lot_order l = po \<longrightarrow> l \<in> set (lots t))) (?k v t)"
        unfolding step
        by (rule yields_mono) (use v en(7,8,10) undisturbed_trans [OF en(7)] in \<open>auto\<close>)
    qed
  qed
qed

section \<open>The pending collections of an order\<close>

lemma sum_of_matching:
  fixes f :: "'a \<Rightarrow> int"
  assumes "distinct (map key ds)"
  shows "(\<Sum>d\<leftarrow>ds. \<Sum>a\<leftarrow>filter (\<lambda>a. g a = key d \<and> Q a) as. f a) =
    (\<Sum>a\<leftarrow>as. if g a \<in> key ` set ds \<and> Q a then f a else 0)"
  using assms
proof (induction ds)
  case (Cons d ds)
  have "(\<Sum>a\<leftarrow>filter (\<lambda>a. g a = key d \<and> Q a) as. f a) +
      (\<Sum>a\<leftarrow>as. if g a \<in> key ` set ds \<and> Q a then f a else 0) =
      (\<Sum>a\<leftarrow>as. if g a \<in> key ` set (d # ds) \<and> Q a then f a else 0)"
    using Cons.prems by (induction as) auto
  with Cons show ?case by simp
qed simp

lemma sum_of_pairs:
  fixes f :: "'a \<Rightarrow> int"
  shows "(\<Sum>e\<leftarrow>concat (map (\<lambda>d. map (Pair d) (F d)) ds). f (snd e)) = (\<Sum>d\<leftarrow>ds. \<Sum>a\<leftarrow>F d. f a)"
  by (induction ds) (simp_all add: comp_def)

lemma distinct_matching:
  assumes "distinct (map key ds)" and "\<And>d. d \<in> set ds \<Longrightarrow> length (F d) \<le> 1"
  shows "distinct (map (\<lambda>e. key (fst e)) (concat (map (\<lambda>d. map (Pair d) (F d)) ds)))"
  using assms
proof (induction ds)
  case (Cons d ds)
  then have F: "length (F d) \<le> 1" by simp
  then have "F d = [] \<or> (\<exists>a. F d = [a])" by (cases "F d") auto
  with Cons show ?case by (auto simp: image_iff)
qed simp

lemma pending_collections_set:
  "(d, a) \<in> set (pending_collections s po) \<longleftrightarrow>
     d \<in> set (debits s) \<and> deb_kind d = Collection po \<and> a \<in> set (allocations s) \<and>
     al_debit a = deb_key d \<and> al_refunded a < al_amount a"
  by (auto simp: pending_collections_def)

lemma pending_collections_facts:
  assumes inv: "ledger_inv \<delta> \<gamma> K s" and K: "\<And>k. k \<in> K \<Longrightarrow> collects s k \<noteq> Some po"
  shows "distinct (map (\<lambda>e. deb_key (fst e)) (pending_collections s po))"
    and "(\<Sum>e\<leftarrow>pending_collections s po. pending_of (snd e)) = collection_outstanding s po"
proof -
  note i = ledger_invD [OF inv]
  let ?ds = "filter (\<lambda>d. deb_kind d = Collection po) (debits s)"
  let ?F = "\<lambda>d. filter (\<lambda>a. al_debit a = deb_key d \<and> al_refunded a < al_amount a) (allocations s)"
  let ?cs = "concat (map (\<lambda>d. map (Pair d) (?F d)) ?ds)"
  have key: "collects s (deb_key d) = Some po" if "d \<in> set ?ds" for d
    using that find_member(5) [OF i(2), of d] by (simp add: collects_Some)
  have one: "length (?F d) \<le> 1" if d: "d \<in> set ?ds" for d
  proof -
    have "debit_state_ok s d" using i(6) d K [of "deb_key d"] key [OF d] by (auto simp: debits_inv_def)
    then have "length (filter (\<lambda>a. al_debit a = deb_key d) (allocations s)) = 1"
      using d by (simp add: debit_state_ok_def)
    moreover have "?F d = filter (\<lambda>a. al_refunded a < al_amount a) (filter (\<lambda>a. al_debit a = deb_key d) (allocations s))"
      by (simp add: conj_commute)
    ultimately show ?thesis by (metis length_filter_le)
  qed
  have keys: "distinct (map deb_key ?ds)"
    using i(2) distinct_map_filter by (auto simp: keys_ok_def)
  have perm: "mset (pending_collections s po) = mset ?cs"
    unfolding pending_collections_def by (simp only: mset_sort)
  have "distinct (map (\<lambda>e. deb_key (fst e)) ?cs)" by (rule distinct_matching [OF keys]) (rule one)
  then show "distinct (map (\<lambda>e. deb_key (fst e)) (pending_collections s po))"
    unfolding pending_collections_def distinct_map set_sort distinct_sort by blast
  have "(\<Sum>e\<leftarrow>pending_collections s po. pending_of (snd e)) = (\<Sum>e\<leftarrow>?cs. pending_of (snd e))"
    unfolding sum_mset_sum_list [symmetric] mset_map perm ..
  also have "\<dots> = (\<Sum>d\<leftarrow>?ds. \<Sum>a\<leftarrow>?F d. pending_of a)"
    by (rule sum_of_pairs)
  also have "\<dots> = (\<Sum>a\<leftarrow>allocations s. if al_debit a \<in> deb_key ` set ?ds \<and> al_refunded a < al_amount a
      then pending_of a else 0)"
    by (rule sum_of_matching [OF keys])
  also have "\<dots> = collection_outstanding s po"
    unfolding collection_outstanding_def
  proof (rule sum_cong_rows)
    fix a assume a: "a \<in> set (allocations s)"
    have "al_debit a \<in> deb_key ` set ?ds \<longleftrightarrow> collects s (al_debit a) = Some po"
    proof
      assume "al_debit a \<in> deb_key ` set ?ds" then show "collects s (al_debit a) = Some po" using key by auto
    next
      assume "collects s (al_debit a) = Some po"
      then obtain d where "find_debit s (al_debit a) = Some d" "deb_kind d = Collection po"
        by (auto simp: collects_Some)
      then show "al_debit a \<in> deb_key ` set ?ds"
        using find_debit_Some [of s "al_debit a" d] by force
    qed
    moreover have "al_refunded a < al_amount a \<longleftrightarrow> pending_of a \<noteq> 0"
      using pending_nonneg [OF i(1) a] by (auto simp: pending_of_def)
    ultimately show "(if al_debit a \<in> deb_key ` set ?ds \<and> al_refunded a < al_amount a then pending_of a else 0) =
        (if collects s (al_debit a) = Some po then pending_of a else 0)"
      by auto
  qed
  finally show "(\<Sum>e\<leftarrow>pending_collections s po. pending_of (snd e)) = collection_outstanding s po" .
qed

section \<open>The relief of a debt\<close>

lemma active_debt_moved:
  "find_debt s po = Some p \<Longrightarrow> active_debt (move_debt po x y s) po = active_debt s po - y"
  using find_debt_Some [of s po p]
  by (simp add: active_debt_def debt_target_def debt_released_def find_debt_move)

lemma relievePackDebt_run:
  assumes R: "restores R a asOf n" and rdy: "ready V (set visiting) a asOf \<delta> \<gamma> K s"
    and n: "nat (unreleased s) \<le> n" and po: "po \<notin> V"
    and lot: "l \<in> set (lots s)" "lot_order l = po" "lot_account l = acc_id a" and x: "0 < x"
    and chain: "\<And>c. c \<in> set (allocations s) \<Longrightarrow> collects s (al_debit c) = Some po \<Longrightarrow> 0 < pending_of c \<Longrightarrow>
      chained (insert po V) s c"
  shows "yields (\<lambda>(relieved, recovered) t. relieved = min x (active_debt s po) \<and> 0 \<le> recovered \<and>
      recovered \<le> relieved \<and> ledger_inv (bump \<delta> (Some po) relieved) \<gamma> K t \<and> undisturbed V s t \<and>
      active_debt t po = active_debt s po - relieved \<and> l \<in> set (lots t))
    (relievePackDebt R now (acc_id a) po x visiting s)"
proof -
  have inv: "ledger_inv \<delta> \<gamma> K s" and zero: "\<gamma> po = 0" using rdy po by (auto simp: ready_def)
  note i = ledger_invD [OF inv]
  have away: "collects s k \<noteq> Some po" if "k \<in> K \<union> set visiting" for k
    using rdy that po unfolding ready_def by blast
  show ?thesis
  proof (cases "find_debt s po")
    case None
    then have "active_debt s po = 0" by (simp add: active_debt_def debt_target_def debt_released_def)
    with None inv lot x show ?thesis by (simp add: relievePackDebt_def)
  next
    case (Some p)
    note row = debt_row [OF inv Some]
    have acc: "pd_account p = acc_id a" using row(5) lot lot_unique(2) [OF i(2) _ lot(1)] by auto
    let ?act = "active_debt s po"
    have act: "?act = pd_target p - pd_released p" by (rule row(4))
    have nonneg: "0 \<le> ?act - pd_collected p" "0 \<le> pd_collected p" using row(1) act by (auto simp: debt_check_def)
    show ?thesis
    proof (cases "?act = 0")
      case True
      with Some inv lot x acc act show ?thesis by (simp add: relievePackDebt_def)
    next
      case False
      obtain relief where relief: "relief = (if x < pd_target p - pd_released p then x else pd_target p - pd_released p)"
        by blast
      obtain rel where rel: "rel = (if relief < pd_target p - pd_released p - pd_collected p then relief
          else pd_target p - pd_released p - pd_collected p)" by blast
      have pos: "0 < relief" "relief \<le> ?act" "0 \<le> rel" "rel \<le> relief" "relief = min x ?act"
        "rel + pd_collected p \<le> ?act"
        using False x nonneg act by (auto simp: relief rel)
      let ?t = "move_debt po 0 rel s"
      have t: "ledger_inv (bump \<delta> (Some po) rel) \<gamma> K ?t"
        using inv_move_debt [OF inv Some, of 0 rel] pos(3,6) nonneg act by simp
      have st: "undisturbed V s ?t" by (rule und_move_debt [OF i(2) Some po pos(3)])
      have at: "active_debt ?t po = ?act - rel" by (rule active_debt_moved [OF Some])
      obtain k where first: "(if rel > 0 then update_debts (\<lambda>r. pd_order r = po)
          (\<lambda>r. r\<lparr>pd_released := pd_released r + rel\<rparr>) else ret 0) s = Inr (k, ?t)"
      proof (cases "0 < rel")
        case True
        then show ?thesis using that by (simp add: update_debts_def move_debt_def)
      next
        case False
        with pos(3) have "rel = 0" by simp
        moreover have "move_debt po 0 0 s = s"
          unfolding move_debt_def update_rows_def by (simp add: map_idI)
        ultimately show ?thesis using that by simp
      qed
      let ?rest = "\<lambda>_. let reverseCollected = relief - rel in
               if reverseCollected \<le> 0 then ret (relief, 0)
               else
                 bind_tx (gets (\<lambda>s. pending_collections s po)) (\<lambda>cs.
                 bind_tx (reverse_collections R now (acc_id a) po visiting cs reverseCollected 0)
                   (\<lambda>(remaining, recovered).
                   if remaining \<noteq> 0
                   then throw (PlainError ''credit-pack debt has no reversible funding allocation'')
                   else ret (relief, recovered)))"
      have run: "relievePackDebt R now (acc_id a) po x visiting s = ?rest k ?t"
      proof -
        have "\<not> x \<le> 0" "\<not> pd_account p \<noteq> acc_id a" "\<not> relief \<le> 0" using x acc pos(1) by simp_all
        then show ?thesis
          unfolding relievePackDebt_def bind_gets Some option.case Let_def relief [symmetric] rel [symmetric]
          by (simp only: if_False bind_tx_run [where m = "if rel > 0 then A else B" for A B] first
              bind_result.simps prod.case)
      qed
      show ?thesis
      proof (cases "relief = rel")
        case True
        with pos t st at lot(1) show ?thesis unfolding run by (simp add: Let_def)
      next
        case False
        let ?rev = "relief - rel"
        have rev: "0 < ?rev" using False pos(4) by simp
        have full: "rel = ?act - pd_collected p" using False act by (auto simp: rel)
        have found: "find_debt ?t po = Some (p\<lparr>pd_released := pd_released p + rel\<rparr>)"
          using Some row(2) by (simp add: find_debt_move)
        have "paid_up ?t (insert po V)"
        proof -
          have "paid_up ?t V" using undisturbed_paid_up [OF st] rdy by (simp add: ready_def)
          with found full act show ?thesis by (simp add: paid_up_def)
        qed
        then have "ready (insert po V) (set visiting) a asOf (bump \<delta> (Some po) rel) \<gamma> K ?t"
          using rdy t undisturbed_account [OF st] undisturbed_no_due [OF st]
          by (auto simp: ready_def bump_def)
        then have ok: "reversing po V (set visiting) a asOf (bump \<delta> (Some po) rel) \<gamma> K n ?t"
          using po zero n undisturbedD(11) [OF st] away found acc by (simp add: reversing_def)
        have cs: "pending_collections ?t po = pending_collections s po"
          by (simp add: pending_collections_def)
        note facts = pending_collections_facts [OF inv away [OF UnI1]]
        have rows: "reversible po V ?t e" if e: "e \<in> set (pending_collections s po)" for e
        proof -
          obtain d c where dc: "e = (d, c)" by (cases e)
          with e have "d \<in> set (debits s)" "deb_kind d = Collection po" "c \<in> set (allocations s)"
            "al_debit c = deb_key d" "0 < pending_of c"
            by (auto simp: pending_collections_set pending_of_def)
          moreover from this have "collects s (al_debit c) = Some po"
            using find_member(5) [OF i(2)] by (simp add: collects_Some)
          ultimately show ?thesis
            using chain by (simp add: dc reversible_def chained_def)
        qed
        have bound: "?rev \<le> (\<Sum>e\<leftarrow>pending_collections s po. pending_of (snd e))"
          using facts(2) row(3) zero full pos(2) by simp
        have loop: "yields (\<lambda>(left, total) u. left = 0 \<and> 0 \<le> total \<and> total \<le> 0 + ?rev \<and>
            ledger_inv (bump (bump \<delta> (Some po) rel) (Some po) ?rev) \<gamma> K u \<and> undisturbed V ?t u \<and>
            active_debt u po = active_debt ?t po - ?rev \<and>
            (\<forall>l \<in> set (lots ?t). lot_order l = po \<longrightarrow> l \<in> set (lots u)))
          (reverse_collections R now (acc_id a) po visiting (pending_collections s po) ?rev 0 ?t)"
          using rev by (intro reverse_collections_run [OF R ok rows facts(1) _ bound]) simp_all
        have "?rest k ?t = bind_tx (reverse_collections R now (acc_id a) po visiting (pending_collections s po) ?rev 0)
            (\<lambda>(remaining, recovered). if remaining \<noteq> 0
               then throw (PlainError ''credit-pack debt has no reversible funding allocation'')
               else ret (relief, recovered)) ?t"
          using rev by (simp add: Let_def cs)
        then show ?thesis
          unfolding run
          by (simp only:) (rule yields_bind, rule loop,
            use pos(3,5) st lot at in \<open>auto intro: undisturbed_trans\<close>)
      qed
    qed
  qed
qed

section \<open>Back to the lot\<close>

lemma min_nonneg_enough: "0 \<le> y \<Longrightarrow> y \<le> h \<Longrightarrow> min_nonneg y h = y"
  by (simp add: min_nonneg_def Let_def)

lemma settled_order:
  assumes "ledger_inv \<delta> \<gamma> K s" "\<gamma> po = 0" "active_debt s po = 0"
    and a: "a \<in> set (allocations s)" "collects s (al_debit a) = Some po"
  shows "pending_of a \<le> 0"
proof -
  note i = ledger_invD [OF assms(1)]
  from collects_debt [OF i(3) a(2)] obtain p where "p \<in> set (pack_debts s)" "pd_order p = po" by blast
  with find_member(6) [OF i(2)] have p: "find_debt s po = Some p" by blast
  note row = debt_row [OF assms(1) p]
  have "collection_outstanding s po \<le> 0" using row(1,3,4) assms(2,3) by (auto simp: debt_check_def)
  with pending_collected [OF i(1) a] show ?thesis by simp
qed

lemma inv_grow_lot:
  assumes inv: "ledger_inv \<delta> \<gamma> K s" and l: "l \<in> set (lots s)" and y: "0 < y"
    and free: "active_debt s (lot_order l) = 0"
    and room: "y + lot_remaining l + lot_expired l + lot_clawed l \<le> lot_original l"
    and f: "f = (\<lambda>r. r\<lparr>lot_remaining := lot_remaining r + y\<rparr>) \<and> lot_status l = LotActive \<or>
      f = (\<lambda>r. r\<lparr>lot_expired := lot_expired r + y\<rparr>) \<and> lot_status l = LotExpired"
  shows "ledger_inv (bump \<delta> (Some (lot_order l)) y) \<gamma> K
    (s\<lparr>lots := update_rows (\<lambda>r. lot_id r = lot_id l) f (lots s)\<rparr>)"
proof -
  note i = ledger_invD [OF inv]
  show ?thesis
  proof (rule inv_update_lots [OF inv])
    fix r assume r: "r \<in> set (lots s)" and id: "lot_id r = lot_id l"
    with lot_unique(1) [OF i(2) r l] have rl: "r = l" by simp
    have il: "(lot_status l = LotActive \<longrightarrow> lot_expired l = 0) \<and> (0 < lot_remaining l \<longrightarrow> active_debt s (lot_order l) = 0)"
      using i(4) l by (auto simp: lots_inv_def)
    show "lot_id (f r) = lot_id r \<and> lot_order (f r) = lot_order r \<and> lot_account (f r) = lot_account r \<and>
        lot_original (f r) = lot_original r \<and> lot_clawed (f r) = lot_clawed r"
      using f by auto
    show "lot_check r \<Longrightarrow> lot_check (f r)" using f y room by (auto simp: rl lot_check_def)
    show "(lot_status (f r) = LotActive \<longrightarrow> lot_expired (f r) = 0) \<and>
        (0 < lot_remaining (f r) \<longrightarrow> active_debt s (lot_order r) = 0) \<and>
        (lot_status (f r) \<in> {LotRefunded, LotDisputed} \<longrightarrow> lot_status r \<in> {LotRefunded, LotDisputed})"
      using f il free by (auto simp: rl)
  next
    fix r assume r: "r \<in> set (lots s)"
    from lot_unique [OF i(2) r l] f show "bump \<delta> (Some (lot_order l)) y (lot_order r) = \<delta> (lot_order r) +
        (if lot_id r = lot_id l then lot_remaining (f r) + lot_expired (f r) - lot_remaining r - lot_expired r else 0)"
      by (auto simp: bump_def)
  qed
qed

lemma returnToLot_run:
  assumes inv: "ledger_inv \<delta> \<gamma> K s" and V: "paid_up s V" and l: "l \<in> set (lots s)" "lot_order l \<notin> V"
    and acc: "lot_account l = acc" "find_account s acc \<noteq> None"
    and po: "po_pack_credits po = lot_original l" "po_refunded_credits po = lot_clawed l + debt_target s (lot_order l)"
    and y: "0 \<le> y" "y + \<delta> (lot_order l) \<le> allocated_outstanding s (lot_id l)" "0 \<le> \<delta> (lot_order l)"
    and free: "0 < y \<Longrightarrow> active_debt s (lot_order l) = 0" and zero: "\<gamma> (lot_order l) = 0"
  shows "yields (\<lambda>r t. 0 \<le> r \<and> r \<le> y \<and> ledger_inv (bump \<delta> (Some (lot_order l)) y) \<gamma> K t \<and> undisturbed V s t)
    (returnToLot now acc l po y s)"
proof (cases "y = 0")
  case True
  with inv show ?thesis by (simp add: returnToLot_def)
next
  case False
  with y have pos: "0 < y" by simp
  note i = ledger_invD [OF inv]
  have lc: "lot_check l" using i(1) l(1) by (simp add: rows_ok_def list_all_iff)
  have il: "funding_gap s l = \<delta> (lot_order l)" "lot_status l = LotActive \<longrightarrow> lot_expired l = 0"
    "lot_status l \<in> {LotRefunded, LotDisputed} \<longrightarrow> lot_clawed l + debt_target s (lot_order l) = lot_original l"
    using i(4) l(1) by (auto simp: lots_inv_def)
  have target: "debt_target s (lot_order l) = debt_released s (lot_order l)"
    using free [OF pos] by (simp add: active_debt_def)
  have rel: "0 \<le> debt_released s (lot_order l)"
    using i(1) find_debt_Some [of s "lot_order l"]
    by (auto simp: debt_released_def rows_ok_def list_all_iff debt_check_def split: option.splits)
  let ?o = "allocated_outstanding s (lot_id l)"
  have gap: "lot_original l = lot_remaining l + lot_expired l + lot_clawed l +
      debt_target s (lot_order l) + ?o - \<delta> (lot_order l)"
    using il(1) target by (simp add: funding_gap_def)
  have room: "y + lot_remaining l + lot_expired l + lot_clawed l \<le> lot_original l"
    using gap y(2) rel target by linarith
  let ?P = "\<lambda>r. lot_id r = lot_id l"
  have und: "undisturbed V s (s\<lparr>lots := update_rows ?P f (lots s)\<rparr>)"
    if "f = (\<lambda>r. r\<lparr>lot_remaining := lot_remaining r + y\<rparr>) \<or> f = (\<lambda>r. r\<lparr>lot_expired := lot_expired r + y\<rparr>)" for f
    using that l lot_unique(1) [OF i(2) _ l(1)] by (intro und_lots) (auto simp: same_lot_def)
  consider "lot_status l = LotActive" | "lot_status l = LotExpired" | "lot_status l \<in> {LotRefunded, LotDisputed}"
    by (cases "lot_status l") auto
  then show ?thesis
  proof cases
    case 1
    let ?f = "\<lambda>r. r\<lparr>lot_remaining := lot_remaining r + y\<rparr>"
    let ?t = "s\<lparr>lots := update_rows ?P ?f (lots s)\<rparr>"
    have wanted: "min_nonneg y (po_pack_credits po - po_refunded_credits po - lot_remaining l) = y"
      using 1 il(2) gap y po by (intro min_nonneg_enough) auto
    have add: "checkedAddAtoms (lot_remaining l) y field = Inr (lot_remaining l + y)" for field
      using lc room pos by (simp add: checkedAddAtoms_def lot_check_def bigint_def)
    have t: "ledger_inv (bump \<delta> (Some (lot_order l)) y) \<gamma> K ?t"
      using 1 by (intro inv_grow_lot [OF inv l(1) pos free [OF pos] room]) simp
    let ?l = "l\<lparr>lot_remaining := lot_remaining l + y\<rparr>"
    have lt: "?l \<in> set (lots ?t)" using l(1) by (force simp: set_update_rows)
    have pay: "may_pay ?t acc (FromLot (lot_id l))"
    proof -
      have "pending_of a \<le> 0" if "a \<in> set (allocations s)" "collects s (al_debit a) = Some (lot_order l)" for a
        by (rule settled_order [OF inv zero free [OF pos] that])
      then show ?thesis
        unfolding may_pay_def source.case using lt acc(1) free [OF pos]
        by (intro bexI [OF _ lt]) (simp add: active_debt_def)
    qed
    have Vt: "paid_up ?t V" using V undisturbed_paid_up [OF und] by blast
    have collect: "yields (\<lambda>c u. ledger_inv (bump \<delta> (Some (lot_order l)) y) \<gamma> K u \<and> undisturbed V ?t u)
      (collectPackDebtsFromLot now acc (lot_id l) y ?t)"
    proof -
      have "yields (\<lambda>c u. c = min y (owed_total (outstanding_debts ?t acc)) \<and>
          ledger_inv (bump \<delta> (Some (lot_order l)) y) \<gamma> K u \<and> undisturbed V ?t u \<and> accounts u = accounts ?t \<and>
          lots u = update_rows (\<lambda>r. lot_id r = lot_id ?l)
            (\<lambda>r. r\<lparr>lot_remaining := lot_remaining r - c\<rparr>) (lots ?t))
        (collectPackDebtsFromLot now acc (lot_id ?l) y ?t)"
        by (rule collectPackDebtsFromLot_run [OF t Vt lt])
          (use acc l(2) pos pay lc in \<open>simp_all add: lot_check_def\<close>)
      moreover have "lot_id ?l = lot_id l" by simp
      ultimately show ?thesis unfolding \<open>lot_id ?l = lot_id l\<close> by (elim yields_mono) blast
    qed
    have run: "returnToLot now acc l po y s =
        bind_tx (collectPackDebtsFromLot now acc (lot_id l) y) (\<lambda>_. ret y) ?t"
      using pos 1 by (simp add: returnToLot_def wanted add update_lots_def)
    show ?thesis
      unfolding run using undisturbed_trans [OF und, of ?f] pos
      by (intro yields_bind) (rule collect, auto)
  next
    case 2
    let ?f = "\<lambda>r. r\<lparr>lot_expired := lot_expired r + y\<rparr>"
    let ?t = "s\<lparr>lots := update_rows ?P ?f (lots s)\<rparr>"
    have wanted: "min_nonneg y (po_pack_credits po - po_refunded_credits po - lot_expired l) = y"
      using gap y po lc by (intro min_nonneg_enough) (auto simp: lot_check_def)
    have add: "checkedAddAtoms (lot_expired l) y field = Inr (lot_expired l + y)" for field
      using lc room pos by (simp add: checkedAddAtoms_def lot_check_def bigint_def)
    have t: "ledger_inv (bump \<delta> (Some (lot_order l)) y) \<gamma> K ?t"
      using 2 by (intro inv_grow_lot [OF inv l(1) pos free [OF pos] room]) simp
    show ?thesis
      using pos 2 t und [of ?f] by (simp add: returnToLot_def wanted add update_lots_def)
  next
    case 3
    with il(3) gap y pos lc show ?thesis by (auto simp: lot_check_def)
  qed
qed

section \<open>One allocation given back\<close>

lemma undisturbed_pending:
  assumes "undisturbed V s t" "a \<in> set (allocations s)" "\<And>po. collects s (al_debit a) = Some po \<Longrightarrow> po \<in> V"
  shows "a \<in> set (allocations t)"
proof -
  have "guarded_row V s a" using assms(2,3) by (auto simp: guarded_row_def split: option.splits)
  then show ?thesis using undisturbedD(9) [OF assms(1), of a] by (simp add: guarded_row_def)
qed

lemma lockedLot_run:
  assumes "find_lot s k = Some l" "l \<in> set (lots s)" "lot_account l = acc" "no_due s acc asOf"
  shows "lockedLot asOf acc k s = Inr (l, s)"
proof -
  have "\<not> (lot_status l = LotActive \<and> lot_expires l \<le> asOf)" using assms(2-4) by (auto simp: no_due_def)
  with assms(1,3) show ?thesis by (auto simp: lockedLot_def)
qed

lemma lot_given_back:
  assumes R: "restores R a asOf n" and ok: "restorable V (set visiting) a asOf \<delta> \<gamma> K (Suc n) al x s"
    and src: "al_source al = FromLot k"
  shows "\<exists>l po. find_lot s k = Some l \<and> lockedLot asOf (acc_id a) k s = Inr (l, s) \<and>
    find_order s (lot_order l) = Some po \<and> po_account po = acc_id a \<and>
    yields (given_back V \<delta> \<gamma> K s al x)
      (bind_tx (relievePackDebt R now (acc_id a) (po_id po) x visiting) (\<lambda>(relieved, recovered).
       bind_tx (returnToLot now (acc_id a) l po (x - relieved)) (\<lambda>returned. ret (recovered + returned))) s)"
proof -
  have rdy: "ready V (set visiting) a asOf \<delta> \<gamma> K s" and n: "nat (unreleased s) \<le> n"
    and al: "al \<in> set (allocations s)" "al_account al = acc_id a" and x: "0 < x" "x \<le> pending_of al"
    and ch: "chained V s al" and col: "\<And>po. collects s (al_debit al) = Some po \<Longrightarrow> po \<in> V"
    using ok by (simp_all add: restorable_def)
  then have inv: "ledger_inv \<delta> \<gamma> K s" and V: "paid_up s V" and due: "no_due s (acc_id a) asOf"
    and acc: "find_account s (acc_id a) \<noteq> None" and vanish: "\<And>po. po \<notin> V \<Longrightarrow> \<delta> po = 0 \<and> \<gamma> po = 0"
    by (simp_all add: ready_def)
  note i = ledger_invD [OF inv]
  from allocation_lot [OF inv al(1) src] al(2) obtain l where l: "l \<in> set (lots s)" "find_lot s k = Some l"
    "lot_id l = k" "lot_account l = acc_id a" by auto
  from lot_order_row [OF inv l(1)] l(4) obtain po where po: "find_order s (lot_order l) = Some po"
    "po_id po = lot_order l" "po_account po = acc_id a" by auto
  have pend: "0 < pending_of al" using x by simp
  have src': "al_source al = FromLot (lot_id l)" using src l(3) by simp
  have fresh: "lot_order l \<notin> V" by (rule chained_new [OF i(7) al(1) pend ch l(1) src'])
  have so: "source_order s (al_source al) = Some (lot_order l)"
    using source_order_lot [OF i(2) l(1)] src' by simp
  have relief: "yields (\<lambda>(relieved, recovered) t. relieved = min x (active_debt s (lot_order l)) \<and> 0 \<le> recovered \<and>
      recovered \<le> relieved \<and> ledger_inv (bump \<delta> (Some (lot_order l)) relieved) \<gamma> K t \<and> undisturbed V s t \<and>
      active_debt t (lot_order l) = active_debt s (lot_order l) - relieved \<and> l \<in> set (lots t))
    (relievePackDebt R now (acc_id a) (lot_order l) x visiting s)"
    using chained_older [OF i(7) al(1) pend ch l(1) src']
    by (intro relievePackDebt_run [OF R rdy n fresh l(1) refl l(4) x(1)])
  have "yields (given_back V \<delta> \<gamma> K s al x)
      (bind_tx (relievePackDebt R now (acc_id a) (lot_order l) x visiting) (\<lambda>(relieved, recovered).
       bind_tx (returnToLot now (acc_id a) l po (x - relieved)) (\<lambda>returned. ret (recovered + returned))) s)"
  proof (rule yields_bind, rule relief, unfold split_paired_all prod.case, elim conjE)
    fix relieved recovered t
    assume r: "relieved = min x (active_debt s (lot_order l))" "0 \<le> recovered" "recovered \<le> relieved"
      and t: "ledger_inv (bump \<delta> (Some (lot_order l)) relieved) \<gamma> K t" and st: "undisturbed V s t"
      and act: "active_debt t (lot_order l) = active_debt s (lot_order l) - relieved" and lt: "l \<in> set (lots t)"
    from lot_order_row [OF t lt] po(1) undisturbed_lookups(3) [OF st]
    have row: "po_pack_credits po = lot_original l" "po_refunded_credits po = lot_clawed l + debt_target t (lot_order l)"
      by auto
    have "pending_of al \<le> allocated_outstanding t (lot_id l)"
      by (rule pending_allocated [OF ledger_invD(1) [OF t] undisturbed_pending [OF st al(1) col] src'])
    then have enough: "x - relieved + bump \<delta> (Some (lot_order l)) relieved (lot_order l)
        \<le> allocated_outstanding t (lot_id l)"
      using x vanish [OF fresh] by (simp add: bump_same)
    have "yields (\<lambda>y u. 0 \<le> y \<and> y \<le> x - relieved \<and>
        ledger_inv (bump (bump \<delta> (Some (lot_order l)) relieved) (Some (lot_order l)) (x - relieved)) \<gamma> K u \<and>
        undisturbed V t u)
      (returnToLot now (acc_id a) l po (x - relieved) t)"
    proof (rule returnToLot_run [OF t _ lt fresh l(4) _ row _ enough])
      show "paid_up t V" using V undisturbed_paid_up [OF st] by simp
      show "find_account t (acc_id a) \<noteq> None" using acc undisturbed_account [OF st] by simp
      show "0 \<le> x - relieved" using r(1) by simp
      show "0 \<le> bump \<delta> (Some (lot_order l)) relieved (lot_order l)"
        using r vanish [OF fresh] by (simp add: bump_same)
      show "active_debt t (lot_order l) = 0" if "0 < x - relieved" using that r(1) act by simp
      show "\<gamma> (lot_order l) = 0" using vanish [OF fresh] by simp
    qed
    then show "yields (given_back V \<delta> \<gamma> K s al x)
        (bind_tx (returnToLot now (acc_id a) l po (x - relieved)) (\<lambda>returned. ret (recovered + returned)) t)"
      by (rule yields_bind)
        (use r undisturbed_trans [OF st] so in \<open>auto simp: given_back_def\<close>)
  qed
  then have "yields (given_back V \<delta> \<gamma> K s al x)
      (bind_tx (relievePackDebt R now (acc_id a) (po_id po) x visiting) (\<lambda>(relieved, recovered).
       bind_tx (returnToLot now (acc_id a) l po (x - relieved)) (\<lambda>returned. ret (recovered + returned))) s)"
    by (simp only: po(2))
  with lockedLot_run [OF l(2,1,4) due] l(2) po(1,3) show ?thesis by blast
qed

lemma restoreAllocationEffect_restores: "restores (restoreAllocationEffect n now asOf a) a asOf n"
proof (induction n)
  case 0
  then show ?case by (simp add: restores_def restorable_def)
next
  case (Suc n)
  show ?case
    unfolding restores_def
  proof (intro allI impI)
    fix V visiting \<delta> \<gamma> K al x event reason s
    assume ok: "restorable V (set visiting) a asOf \<delta> \<gamma> K (Suc n) al x s"
    then have rdy: "ready V (set visiting) a asOf \<delta> \<gamma> K s" and al: "al \<in> set (allocations s)"
      and x: "0 < x" "x \<le> pending_of al"
      by (simp_all add: restorable_def)
    then have inv: "ledger_inv \<delta> \<gamma> K s" by (simp add: ready_def)
    have "allocation_check al" using ledger_invD(1) [OF inv] al by (simp add: rows_ok_def list_all_iff)
    then have bx: "bigint x" using x by (auto simp: allocation_check_def pending_of_def bigint_def)
    show "yields (given_back V \<delta> \<gamma> K s al x)
        (restoreAllocationEffect (Suc n) now asOf a al x event reason visiting s)"
    proof (cases "al_source al")
      case (FromSubscription epoch)
      have "yields (\<lambda>r t. r = (if subscriptionSpendable a asOf then x else 0) \<and> ledger_inv \<delta> \<gamma> K t \<and>
          undisturbed V s t) (returnSubscriptionAtoms now asOf a x event reason s)"
        using rdy by (intro returnSubscriptionAtoms_run [OF inv _ _ bx]) (simp_all add: ready_def)
      then have "yields (given_back V \<delta> \<gamma> K s al x) (returnSubscriptionAtoms now asOf a x event reason s)"
        by (rule yields_mono)
          (use x FromSubscription in \<open>auto simp: given_back_def source_order_def\<close>)
      with FromSubscription inv x show ?thesis by (simp add: given_back_def source_order_def)
    next
      case (FromLot k)
      from lot_given_back [OF Suc.IH ok FromLot, of now] obtain l po where
        l: "lockedLot asOf (acc_id a) k s = Inr (l, s)" "find_order s (lot_order l) = Some po"
          "po_account po = acc_id a"
        and y: "yields (given_back V \<delta> \<gamma> K s al x)
          (bind_tx (relievePackDebt (restoreAllocationEffect n now asOf a) now (acc_id a) (po_id po) x visiting)
            (\<lambda>(relieved, recovered). bind_tx (returnToLot now (acc_id a) l po (x - relieved))
              (\<lambda>returned. ret (recovered + returned))) s)"
        by blast
      have "restoreAllocationEffect (Suc n) now asOf a al x event reason visiting s =
          bind_tx (relievePackDebt (restoreAllocationEffect n now asOf a) now (acc_id a) (po_id po) x visiting)
            (\<lambda>(relieved, recovered). bind_tx (returnToLot now (acc_id a) l po (x - relieved))
              (\<lambda>returned. ret (recovered + returned))) s"
        using l by (simp add: FromLot)
      with y show ?thesis by simp
    qed
  qed
qed

section \<open>All allocations of a debit\<close>

lemma allocated_amount_undisturbed:
  assumes u: "undisturbed {} s t" and keys: "keys_ok s" "keys_ok t"
    and k: "collects s k = None" "collects t k = None"
  shows "allocated_amount t k = allocated_amount s k"
proof -
  have sum: "allocated_amount r k = (\<Sum>b \<in> {b \<in> set (allocations r). al_debit b = k}. al_amount b)"
    if "keys_ok r" for r
  proof -
    have "distinct (filter (\<lambda>b. al_debit b = k) (allocations r))"
      using that by (simp add: keys_ok_def distinct_map)
    then show ?thesis
      by (simp add: allocated_amount_def sum_list_map_filter' [symmetric] sum_list_distinct_conv_sum_set)
  qed
  have "guarded_row {} r b \<longleftrightarrow> b \<in> set (allocations r)" if "al_debit b = k" "collects r k = None" for r b
    using that by (simp add: guarded_row_def)
  with k undisturbedD(9) [OF u] have "b \<in> set (allocations s) \<longleftrightarrow> b \<in> set (allocations t)" if "al_debit b = k" for b
    using that by metis
  then have "{b \<in> set (allocations s). al_debit b = k} = {b \<in> set (allocations t). al_debit b = k}"
    by auto
  then show ?thesis by (simp add: sum keys)
qed

lemma allocated_amount_refund [simp]:
  "allocated_amount (refund_allocation i x s) k = allocated_amount s k"
  by (simp add: allocated_amount_def refund_allocation_def sum_update_rows_same)

text \<open>The state of the loop over the allocations of a product debit.\<close>

definition refunding :: "string \<Rightarrow> account \<Rightarrow> int \<Rightarrow> nat \<Rightarrow> store \<Rightarrow> bool" where
  "refunding key a asOf n s \<longleftrightarrow>
     ready {} {key} a asOf (\<lambda>_. 0) (\<lambda>_. 0) {key} s \<and> nat (unreleased s) < n \<and> collects s key = None"

lemma refunding_step:
  assumes ok: "refunding key a asOf n s" and al: "al \<in> set (allocations s)" "al_debit al = key"
    "al_account al = acc_id a" "0 < pending_of al"
    and given: "given_back {} (\<lambda>_. 0) (\<lambda>_. 0) {key} s al (pending_of al) v t"
  shows "refunding key a asOf n (refund_allocation (al_id al) (pending_of al) t)"
    and "al \<in> set (allocations t)" "keys_ok t" "undisturbed {} s t"
    and "allocated_amount t key = allocated_amount s key"
    and "\<And>b. al_debit b = key \<Longrightarrow> b \<in> set (allocations t) \<longleftrightarrow> b \<in> set (allocations s)"
proof -
  have rdy: "ready {} {key} a asOf (\<lambda>_. 0) (\<lambda>_. 0) {key} s" and n: "nat (unreleased s) < n"
    and col: "collects s key = None" using ok by (simp_all add: refunding_def)
  then have inv: "ledger_inv (\<lambda>_. 0) (\<lambda>_. 0) {key} s" and key: "find_debit s key \<noteq> None"
    by (simp_all add: ready_def)
  show st: "undisturbed {} s t" using given by (simp add: given_back_def)
  have t: "ledger_inv (bump (\<lambda>_. 0) (source_order t (al_source al)) (pending_of al)) (\<lambda>_. 0) {key} t"
    using given undisturbed_lookups(4) [OF st] by (simp add: given_back_def)
  show keys: "keys_ok t" by (rule ledger_invD(2) [OF t])
  have colt: "collects t key = None" and keyt: "find_debit t key \<noteq> None"
    using undisturbed_collects [OF st ledger_invD(2) [OF inv] keys key] col by simp_all
  show rows: "b \<in> set (allocations t) \<longleftrightarrow> b \<in> set (allocations s)" if "al_debit b = key" for b
    using undisturbedD(9) [OF st, of b] that col colt by (simp add: guarded_row_def)
  show "allocated_amount t key = allocated_amount s key"
    by (rule allocated_amount_undisturbed [OF st ledger_invD(2) [OF inv] keys col colt])
  show alt: "al \<in> set (allocations t)" using rows [OF al(2)] al(1) by simp
  let ?u = "refund_allocation (al_id al) (pending_of al) t"
  have "ledger_inv (bump (bump (\<lambda>_. 0) (source_order t (al_source al)) (pending_of al))
      (source_order t (al_source al)) (- pending_of al)) (bump (\<lambda>_. 0) (collects t (al_debit al)) (pending_of al)) {key} ?u"
    using al(2,4) by (intro inv_refund_allocation [OF t alt]) (simp_all add: pending_of_def)
  then have u: "ledger_inv (\<lambda>_. 0) (\<lambda>_. 0) {key} ?u" using al(2) colt by simp
  have "no_due t (acc_id a) asOf" "find_account t (acc_id a) \<noteq> None"
    using rdy undisturbed_no_due [OF st] undisturbed_account [OF st] by (simp_all add: ready_def)
  then have "ready {} {key} a asOf (\<lambda>_. 0) (\<lambda>_. 0) {key} ?u"
    using u colt keyt by (simp add: ready_def no_due_def paid_up_def)
  then show "refunding key a asOf n ?u"
    using n colt undisturbedD(11) [OF st] by (simp add: refunding_def unreleased_def)
qed

lemma restore_all_run:
  assumes R: "restores R a asOf n" and "refunding key a asOf n s"
    and "\<And>al. al \<in> set als \<Longrightarrow> al \<in> set (allocations s) \<and> al_debit al = key \<and> al_account al = acc_id a"
    and "distinct (map al_id als)"
  shows "yields (\<lambda>total t. restored \<le> total \<and> total \<le> restored + (\<Sum>al\<leftarrow>als. pending_of al) \<and>
      refunding key a asOf n t \<and> allocated_amount t key = allocated_amount s key \<and>
      map same_account (accounts t) = map same_account (accounts s) \<and>
      (\<forall>d \<in> set (debits s). deb_kind d = Usage \<longrightarrow> d \<in> set (debits t)) \<and>
      (\<forall>b \<in> set (allocations t). al_debit b = key \<longrightarrow> pending_of b = 0 \<or>
         b \<in> set (allocations s) \<and> b \<notin> set als))
    (restore_all R key als restored s)"
  using assms(2-)
proof (induction als arbitrary: s restored)
  case Nil
  then show ?case by simp
next
  case (Cons al als)
  have al: "al \<in> set (allocations s)" "al_debit al = key" "al_account al = acc_id a"
    using Cons.prems(2) [of al] by simp_all
  have inv: "ledger_inv (\<lambda>_. 0) (\<lambda>_. 0) {key} s" using Cons.prems(1) by (simp add: refunding_def ready_def)
  have nonneg: "0 \<le> pending_of al" by (rule pending_nonneg [OF ledger_invD(1) [OF inv] al(1)])
  show ?case
  proof (cases "pending_of al = 0")
    case True
    have "yields (\<lambda>total t. restored \<le> total \<and> total \<le> restored + (\<Sum>al\<leftarrow>als. pending_of al) \<and>
        refunding key a asOf n t \<and> allocated_amount t key = allocated_amount s key \<and>
        map same_account (accounts t) = map same_account (accounts s) \<and>
        (\<forall>d \<in> set (debits s). deb_kind d = Usage \<longrightarrow> d \<in> set (debits t)) \<and>
        (\<forall>b \<in> set (allocations t). al_debit b = key \<longrightarrow> pending_of b = 0 \<or>
           b \<in> set (allocations s) \<and> b \<notin> set als))
      (restore_all R key als restored s)"
      using Cons.prems by (intro Cons.IH) simp_all
    then have "yields (\<lambda>total t. restored \<le> total \<and> total \<le> restored + (\<Sum>al\<leftarrow>al # als. pending_of al) \<and>
        refunding key a asOf n t \<and> allocated_amount t key = allocated_amount s key \<and>
        map same_account (accounts t) = map same_account (accounts s) \<and>
        (\<forall>d \<in> set (debits s). deb_kind d = Usage \<longrightarrow> d \<in> set (debits t)) \<and>
        (\<forall>b \<in> set (allocations t). al_debit b = key \<longrightarrow> pending_of b = 0 \<or>
           b \<in> set (allocations s) \<and> b \<notin> set (al # als)))
      (restore_all R key als restored s)"
      by (rule yields_mono) (use True in auto)
    with True show ?thesis by (simp add: pending_of_def)
  next
    case False
    with nonneg have pos: "0 < pending_of al" by simp
    let ?x = "al_amount al - al_refunded al"
    let ?k = "\<lambda>r. bind_tx (update_allocations (\<lambda>b. al_id b = al_id al \<and> al_refunded b + ?x \<le> al_amount b)
                   (\<lambda>b. b\<lparr>al_refunded := al_refunded b + ?x\<rparr>)) (\<lambda>rowCount.
        if rowCount \<noteq> 1 then throw (PlainError ''credit allocation changed during refund'')
        else restore_all R key als (restored + r))"
    have run: "restore_all R key (al # als) restored s =
        bind_tx (R al ?x (''usage-refund:'' @ key) ''usage_refund'' [key]) ?k s"
      using pos by (simp add: pending_of_def Let_def)
    have "restorable {} (set [key]) a asOf (\<lambda>_. 0) (\<lambda>_. 0) {key} n al (pending_of al) s"
      using Cons.prems(1) al pos by (simp add: restorable_def refunding_def chained_def)
    then have first: "yields (given_back {} (\<lambda>_. 0) (\<lambda>_. 0) {key} s al (pending_of al))
        (R al ?x (''usage-refund:'' @ key) ''usage_refund'' [key] s)"
      using R by (simp add: restores_def pending_of_def)
    show ?thesis
      unfolding run
    proof (rule yields_bind, rule first)
      fix v t assume g: "given_back {} (\<lambda>_. 0) (\<lambda>_. 0) {key} s al (pending_of al) v t"
      note st = refunding_step [OF Cons.prems(1) al pos g]
      let ?u = "refund_allocation (al_id al) (pending_of al) t"
      have v: "0 \<le> v" "v \<le> pending_of al" using g by (simp_all add: given_back_def)
      have step: "?k v t = restore_all R key als (restored + v) ?u"
        using refunded_statement [OF st(3,2), of ?x] by (simp add: pending_of_def)
      have other: "b \<in> set (allocations ?u) \<longleftrightarrow> b \<in> set (allocations s)"
        if b: "al_debit b = key" "al_id b \<noteq> al_id al" for b
        using st(6) [OF b(1)] b(2) by (force simp: refund_allocation_def set_update_rows)
      have mine: "pending_of b = 0" if "b \<in> set (allocations ?u)" "al_id b = al_id al" for b
      proof -
        from that obtain c where c: "c \<in> set (allocations t)" "al_id c = al_id al"
          "b = c\<lparr>al_refunded := al_refunded c + pending_of al\<rparr>"
          by (auto simp: refund_allocation_def set_update_rows split: if_splits)
        from allocation_unique [OF st(3) c(1) st(2) c(2)] c(3) show ?thesis by (simp add: pending_of_def)
      qed
      have fresh: "al_id c \<noteq> al_id al" if "c \<in> set als" for c
      proof -
        have "al_id c \<in> al_id ` set als" using that by (rule imageI)
        with Cons.prems(3) show ?thesis by auto
      qed
      have "yields (\<lambda>total w. restored + v \<le> total \<and> total \<le> restored + v + (\<Sum>al\<leftarrow>als. pending_of al) \<and>
          refunding key a asOf n w \<and> allocated_amount w key = allocated_amount ?u key \<and>
          map same_account (accounts w) = map same_account (accounts ?u) \<and>
          (\<forall>d \<in> set (debits ?u). deb_kind d = Usage \<longrightarrow> d \<in> set (debits w)) \<and>
          (\<forall>b \<in> set (allocations w). al_debit b = key \<longrightarrow> pending_of b = 0 \<or>
             b \<in> set (allocations ?u) \<and> b \<notin> set als))
        (restore_all R key als (restored + v) ?u)"
      proof (rule Cons.IH [OF st(1)])
        fix c assume c: "c \<in> set als"
        then have "al_debit c = key" "c \<in> set (allocations s)" "al_account c = acc_id a"
          using Cons.prems(2) [of c] by auto
        with other [of c] fresh [OF c] show "c \<in> set (allocations ?u) \<and> al_debit c = key \<and> al_account c = acc_id a"
          by simp
      qed (use Cons.prems(3) in simp)
      then show "yields (\<lambda>total t. restored \<le> total \<and> total \<le> restored + (\<Sum>al\<leftarrow>al # als. pending_of al) \<and>
          refunding key a asOf n t \<and> allocated_amount t key = allocated_amount s key \<and>
          map same_account (accounts t) = map same_account (accounts s) \<and>
          (\<forall>d \<in> set (debits s). deb_kind d = Usage \<longrightarrow> d \<in> set (debits t)) \<and>
          (\<forall>b \<in> set (allocations t). al_debit b = key \<longrightarrow> pending_of b = 0 \<or>
             b \<in> set (allocations s) \<and> b \<notin> set (al # als))) (?k v t)"
        unfolding step
      proof (rule yields_mono, elim conjE, intro conjI ballI impI)
        fix total w d assume "\<forall>d \<in> set (debits ?u). deb_kind d = Usage \<longrightarrow> d \<in> set (debits w)"
          and "d \<in> set (debits s)" "deb_kind d = Usage"
        then show "d \<in> set (debits w)" using undisturbedD(8) [OF st(4), of d] by (simp add: guarded_def)
      next
        fix total w b assume rows: "\<forall>b \<in> set (allocations w). al_debit b = key \<longrightarrow> pending_of b = 0 \<or>
            b \<in> set (allocations ?u) \<and> b \<notin> set als" and b: "b \<in> set (allocations w)" "al_debit b = key"
        show "pending_of b = 0 \<or> b \<in> set (allocations s) \<and> b \<notin> set (al # als)"
        proof (cases "al_id b = al_id al")
          case True
          with rows b mine show ?thesis by blast
        next
          case False
          with rows b other [OF b(2) False] show ?thesis by auto
        qed
      qed (use v st(5) undisturbedD(2) [OF st(4)] in simp_all)
    qed
  qed
qed

section \<open>The refund of a product debit\<close>

lemma ready_settled:
  assumes "settled s" "find_account s (acc_id a) \<noteq> None" "no_due s (acc_id a) asOf"
    and "find_debit s key \<noteq> None" "collects s key = None"
  shows "refunding key a asOf (debt_fuel s) s"
proof -
  have "ledger_inv (\<lambda>_. 0) (\<lambda>_. 0) {key} s"
    using assms(1) inv_mono unfolding settled_def by blast
  with assms show ?thesis
    by (simp add: refunding_def ready_def paid_up_def debt_fuel_def unreleased_def)
qed

lemma pending_sum:
  "(\<Sum>al\<leftarrow>filter (\<lambda>al. al_debit al = key) als. pending_of al) =
   (\<Sum>a\<leftarrow>als. if al_debit a = key then al_amount a else 0) -
   (\<Sum>a\<leftarrow>als. if al_debit a = key then al_refunded a else 0)"
  by (induction als) (simp_all add: pending_of_def)

lemma refundAtoms_run:
  assumes s: "settled s" "find_account s (acc_id a) \<noteq> None" "no_due s (acc_id a) asOf"
    and d: "find_debit s key = Some d" "deb_kind d = Usage" "deb_account d = acc_id a"
  shows "yields (\<lambda>r t. 0 \<le> r \<and> deb_restored d + r \<le> deb_amount d \<and>
      settled (set_debit key (deb_restored d + r) (Some now) t) \<and> find_debit t key = Some d \<and>
      map same_account (accounts t) = map same_account (accounts s))
    (refundAtoms key now asOf a d s)"
proof -
  have inv: "ledger_inv (\<lambda>_. 0) (\<lambda>_. 0) {} s" using s(1) by (simp add: settled_def)
  note i = ledger_invD [OF inv] and dk = find_debit_Some [OF d(1)]
  have ds: "d \<in> set (debits s)" "deb_key d = key" using dk by auto
  have col: "collects s key = None" using d(1,2) by (simp add: collects_def)
  let ?als = "sort_key al_id (filter (\<lambda>al. al_debit al = key) (allocations s))"
  have dok: "debit_state_ok s d" and dc: "debit_check d"
    using i(1,6) ds by (simp_all add: debits_inv_def rows_ok_def list_all_iff)
  then have total: "allocated_amount s key = deb_amount d" "deb_restored d \<le> allocated_refunded s key" "0 < deb_amount d"
    using ds(2) by (simp_all add: debit_state_ok_def debit_check_def)
  have ne: "?als \<noteq> []"
  proof
    assume "?als = []"
    then have "filter (\<lambda>al. al_debit al = key) (allocations s) = []" by (metis set_empty set_sort)
    then have "allocated_amount s key = 0"
      by (simp add: allocated_amount_def sum_list_map_filter' [symmetric])
    with total show False by simp
  qed
  have mem: "al \<in> set (allocations s) \<and> al_debit al = key \<and> al_account al = acc_id a" if "al \<in> set ?als" for al
  proof -
    have al: "al \<in> set (allocations s)" "al_debit al = key" using that by auto
    from allocation_debit [OF i(3) al(1)] obtain e where e: "e \<in> set (debits s)" "deb_key e = al_debit al"
      "deb_account e = al_account al" by blast
    from find_member(5) [OF i(2) e(1)] e(2) al(2) d(1) have "e = d" by simp
    with e(3) d(3) al show ?thesis by simp
  qed
  have dist: "distinct (map al_id ?als)"
    using i(2) distinct_map_filter [of al_id "allocations s"]
    unfolding distinct_map set_sort distinct_sort keys_ok_def by blast
  have pend: "(\<Sum>al\<leftarrow>?als. pending_of al) = deb_amount d - allocated_refunded s key"
  proof -
    have "(\<Sum>al\<leftarrow>?als. pending_of al) = (\<Sum>al\<leftarrow>filter (\<lambda>al. al_debit al = key) (allocations s). pending_of al)"
      unfolding sum_mset_sum_list [symmetric] mset_map mset_sort ..
    also have "\<dots> = allocated_amount s key - allocated_refunded s key"
      unfolding allocated_amount_def allocated_refunded_def by (rule pending_sum)
    finally show ?thesis by (simp only: total(1))
  qed
  have run: "refundAtoms key now asOf a d s =
      restore_all (restoreAllocationEffect (debt_fuel s) now asOf a) key ?als 0 s"
    using ne by (simp add: refundAtoms_def bind_gets)
  have rest: "yields (\<lambda>r t. 0 \<le> r \<and> r \<le> 0 + (\<Sum>al\<leftarrow>?als. pending_of al) \<and>
      refunding key a asOf (debt_fuel s) t \<and> allocated_amount t key = allocated_amount s key \<and>
      map same_account (accounts t) = map same_account (accounts s) \<and>
      (\<forall>d \<in> set (debits s). deb_kind d = Usage \<longrightarrow> d \<in> set (debits t)) \<and>
      (\<forall>b \<in> set (allocations t). al_debit b = key \<longrightarrow> pending_of b = 0 \<or>
         b \<in> set (allocations s) \<and> b \<notin> set ?als))
    (restore_all (restoreAllocationEffect (debt_fuel s) now asOf a) key ?als 0 s)"
    using d(1) col s by (intro restore_all_run [OF restoreAllocationEffect_restores ready_settled mem dist]) simp_all
  show ?thesis
    unfolding run
  proof (rule yields_mono [OF rest], elim conjE)
    fix r t
    assume r: "0 \<le> r" "r \<le> 0 + (\<Sum>al\<leftarrow>?als. pending_of al)" and t: "refunding key a asOf (debt_fuel s) t"
      and amount: "allocated_amount t key = allocated_amount s key"
      and acc: "map same_account (accounts t) = map same_account (accounts s)"
      and keep: "\<forall>d \<in> set (debits s). deb_kind d = Usage \<longrightarrow> d \<in> set (debits t)"
      and rows: "\<forall>b \<in> set (allocations t). al_debit b = key \<longrightarrow> pending_of b = 0 \<or>
         b \<in> set (allocations s) \<and> b \<notin> set ?als"
    have ti: "ledger_inv (\<lambda>_. 0) (\<lambda>_. 0) {key} t" using t by (simp add: refunding_def ready_def)
    have dt: "d \<in> set (debits t)" using keep ds(1) d(2) by blast
    with find_member(5) [OF ledger_invD(2) [OF ti]] ds(2) have fd: "find_debit t key = Some d" by blast
    have bound: "deb_restored d + r \<le> deb_amount d" using r(2) pend total(2) by simp
    have none: "pending_of b = 0" if "b \<in> set (allocations t)" "al_debit b = key" for b
      using rows that by auto
    let ?u = "set_debit key (deb_restored d + r) (Some now) t"
    have refunded: "allocated_refunded t key = allocated_amount t key"
      unfolding allocated_refunded_def allocated_amount_def
      by (rule sum_cong_rows) (use none in \<open>auto simp: pending_of_def\<close>)
    have u: "ledger_inv (\<lambda>_. 0) (\<lambda>_. 0) {key} ?u"
      using r(1) bound dc by (intro inv_set_debit [OF ti _ fd]) (simp_all add: debit_check_def)
    have "ledger_inv (\<lambda>_. 0) (\<lambda>_. 0) ({key} - {key}) ?u"
    proof (rule inv_close_debit)
      show "ledger_inv (\<lambda>_. 0) (\<lambda>_. 0) (insert key {key}) ?u" using u by simp
      fix e assume "find_debit ?u key = Some e"
      then have e: "e = d\<lparr>deb_restored := deb_restored d + r, deb_refunded_at := Some now\<rparr>"
        using fd ds(2) by (simp add: find_debit_set)
      show "debit_state_ok ?u e"
        using bound total(1) amount refunded d(2) ds(2) by (simp add: e debit_state_ok_def)
    qed
    then have "settled ?u" by (simp add: settled_def)
    with r(1) bound fd acc show "0 \<le> r \<and> deb_restored d + r \<le> deb_amount d \<and> settled ?u \<and>
        find_debit t key = Some d \<and> map same_account (accounts t) = map same_account (accounts s)"
      by simp
  qed
qed

section \<open>The refund operation\<close>

lemma spendable_nonneg:
  assumes "settled s"
  shows "0 \<le> spendable s acc asOf"
proof -
  have "rows_ok s" using assms ledger_invD(1) by (auto simp: settled_def)
  then have "0 \<le> packBalanceAtoms s acc asOf"
    unfolding packBalanceAtoms_def
    by (intro sum_list_int_nonneg) (auto simp: active_lots_def rows_ok_def list_all_iff lot_check_def)
  moreover have "0 \<le> (case find_account s acc of None \<Rightarrow> 0 | Some a \<Rightarrow> subscriptionAtoms a asOf)"
    by (auto simp: subscriptionAtoms_def bigint_def split: option.splits)
  ultimately show ?thesis by (simp add: spendable_def)
qed

lemma creditResult_run:
  "0 \<le> balance \<Longrightarrow> 0 \<le> restored \<Longrightarrow> creditResult outcome balance n restored =
    Inr \<lparr>cr_outcome = outcome, cr_balance = CreditAmount balance, cr_requested = n,
         cr_restored = CreditAmount restored\<rparr>"
  by (simp add: creditResult_def newCreditAmount_def)

lemma no_due_expired: "no_due (expired acc asOf s) acc asOf"
  unfolding no_due_def
proof (intro ballI impI)
  fix l assume l: "l \<in> set (lots (expired acc asOf s))" "lot_account l = acc" "lot_status l = LotActive"
  from l(1) consider m where "lot_due acc asOf m" "l = expire_lot asOf m" | "\<not> lot_due acc asOf l"
    unfolding expired_def by (simp add: set_update_rows image_iff) blast
  then show "asOf < lot_expires l"
    by cases (use l(2,3) in \<open>auto simp: lot_due_def expire_lot_def\<close>)
qed

text \<open>The result of the refund of a product debit in a settled store.\<close>

definition refund_result :: "string \<Rightarrow> int \<Rightarrow> int \<Rightarrow> debit \<Rightarrow> store \<Rightarrow> CreditResult \<Rightarrow> store \<Rightarrow> bool" where
  "refund_result key now asOf d s res t \<longleftrightarrow>
     settled t \<and>
     (if deb_refunded_at d \<noteq> None
      then t = s \<and> res = \<lparr>cr_outcome = Replayed, cr_balance = CreditAmount (spendable s (deb_account d) asOf),
             cr_requested = CreditAmount (deb_amount d), cr_restored = CreditAmount (deb_restored d)\<rparr>
      else \<exists>r. 0 \<le> r \<and> deb_restored d + r \<le> deb_amount d \<and>
             find_debit t key = Some (d\<lparr>deb_restored := deb_restored d + r, deb_refunded_at := Some now\<rparr>) \<and>
             map same_account (accounts t) = map same_account (accounts s) \<and>
             res = \<lparr>cr_outcome = (if 0 < r then Refunded else EpochExpired),
               cr_balance = CreditAmount (spendable t (deb_account d) asOf),
               cr_requested = CreditAmount (deb_amount d), cr_restored = CreditAmount (deb_restored d + r)\<rparr>)"

lemma refundDebit_replay:
  assumes s: "settled s" and a: "find_account s (acc_id a) = Some a"
    and d: "find_debit s key = Some d" "deb_account d = acc_id a" "deb_refunded_at d \<noteq> None"
  shows "refundDebit key now asOf a d s =
    Inr (\<lparr>cr_outcome = Replayed, cr_balance = CreditAmount (spendable s (acc_id a) asOf),
          cr_requested = CreditAmount (deb_amount d), cr_restored = CreditAmount (deb_restored d)\<rparr>, s)"
proof -
  have "debit_check d" using s ledger_invD(1) find_debit_Some [OF d(1)]
    by (auto simp: settled_def rows_ok_def list_all_iff)
  moreover have "total_atoms a asOf s = spendable s (acc_id a) asOf"
    using a by (simp add: total_atoms_def spendable_def)
  ultimately show ?thesis
    using d(3) spendable_nonneg [OF s]
    by (simp add: refundDebit_def newCreditAmount_def creditResult_run debit_check_def)
qed

lemma refundDebit_run:
  assumes s: "settled s" and a: "find_account s (acc_id a) = Some a" and due: "no_due s (acc_id a) asOf"
    and d: "find_debit s key = Some d" "deb_kind d = Usage" "deb_account d = acc_id a"
  shows "yields (refund_result key now asOf d s) (refundDebit key now asOf a d s)"
proof -
  have inv: "ledger_inv (\<lambda>_. 0) (\<lambda>_. 0) {} s" using s by (simp add: settled_def)
  have dc: "debit_check d" using ledger_invD(1) [OF inv] find_debit_Some [OF d(1)]
    by (simp add: rows_ok_def list_all_iff)
  have amount: "newCreditAmount (deb_amount d) = Inr (CreditAmount (deb_amount d))"
    using dc by (simp add: newCreditAmount_def debit_check_def)
  show ?thesis
  proof (cases "deb_refunded_at d")
    case (Some t)
    then show ?thesis
      using refundDebit_replay [OF s a d(1,3)] s d(3) by (simp add: refund_result_def)
  next
    case None
    let ?k = "\<lambda>restoredAtoms. bind_tx (lift_tx (checkedAddAtoms (deb_restored d) restoredAtoms
                  ''product-operation restored credits'')) (\<lambda>persisted.
       if persisted > deb_amount d
       then throw (PlainError ''restored credits exceed the original product debit'')
       else
         bind_tx (update_debits (\<lambda>r. deb_key r = key)
                    (\<lambda>_ r. r\<lparr>deb_restored := persisted, deb_refunded_at := Some now\<rparr>)) (\<lambda>_.
         bind_tx (gets (\<lambda>s. find_account s (acc_id a))) (\<lambda>refreshed.
           case refreshed of
             None \<Rightarrow> throw (PlainError ''billing account disappeared during credit refund'')
           | Some b \<Rightarrow>
               bind_tx (gets (total_atoms b asOf)) (\<lambda>total.
                 lift_tx (creditResult (if restoredAtoms > 0 then Refunded else EpochExpired)
                            total (CreditAmount (deb_amount d)) persisted)))))"
    have run: "refundDebit key now asOf a d s = bind_tx (refundAtoms key now asOf a d) ?k s"
      by (simp add: refundDebit_def amount None)
    have acc: "find_account s (acc_id a) \<noteq> None" using a by simp
    show ?thesis
      unfolding run
    proof (rule yields_bind, rule refundAtoms_run [OF s acc due d, where now = now], elim conjE)
      fix r t
      let ?p = "deb_restored d + r"
      let ?u = "set_debit key ?p (Some now) t"
      assume r: "0 \<le> r" "?p \<le> deb_amount d" and u: "settled ?u" and fd: "find_debit t key = Some d"
        and same: "map same_account (accounts t) = map same_account (accounts s)"
      have add: "checkedAddAtoms (deb_restored d) r field = Inr ?p" for field
        using r dc by (auto simp: checkedAddAtoms_def debit_check_def bigint_def)
      have upd: "update_debits (\<lambda>r. deb_key r = key)
          (\<lambda>_ r. r\<lparr>deb_restored := ?p, deb_refunded_at := Some now\<rparr>) t = Inr ((), ?u)"
        by (simp add: update_debits_def set_debit_def)
      have "map_option same_account (find_account t (acc_id a)) = map_option same_account (find_account s (acc_id a))"
        unfolding find_account_def by (rule find_same [OF same, where h = acc_id]) (simp add: same_account_def)
      with a obtain b where b: "find_account t (acc_id a) = Some b" by auto
      have total: "total_atoms b asOf ?u = spendable ?u (acc_id a) asOf"
        using b find_account_Some [OF b] by (simp add: total_atoms_def spendable_def)
      have "?k r t = Inr (\<lparr>cr_outcome = (if 0 < r then Refunded else EpochExpired),
               cr_balance = CreditAmount (spendable ?u (acc_id a) asOf),
               cr_requested = CreditAmount (deb_amount d), cr_restored = CreditAmount ?p\<rparr>, ?u)"
        using r(1) b spendable_nonneg [OF u, of "acc_id a" asOf] dc
        unfolding add lift_tx_run bind_tx_run bind_result.simps prod.case if_not_P [OF leD [OF r(2)]] upd gets_run
        by (simp add: total creditResult_run debit_check_def)
      moreover have "refund_result key now asOf d s (\<lparr>cr_outcome = (if 0 < r then Refunded else EpochExpired),
               cr_balance = CreditAmount (spendable ?u (acc_id a) asOf),
               cr_requested = CreditAmount (deb_amount d), cr_restored = CreditAmount ?p\<rparr>) ?u"
        unfolding refund_result_def using None u r fd d(3) same find_debit_Some [OF fd]
        by (auto simp: find_debit_set intro!: exI [of _ r])
      ultimately show "yields (refund_result key now asOf d s) (?k r t)" by simp
    qed
  qed
qed

end
