(* ===== verification/Refund_Properties.thy ===== *)
theory Refund_Properties
  imports Refund_Facts
begin

text \<open>
  What the refund of a product debit and the collection of debts promise (credits.ts \<open>refund\<close>,
  clawbacks.ts, credit-pack-funding.ts): the results of every branch, idempotence, and the
  invariant of the ledger.
\<close>

section \<open>The transaction of a refund\<close>

text \<open>The account a refund is bound to: none, or the owner of the debit written as a UUID.\<close>

definition bound_to :: "string option \<Rightarrow> string \<Rightarrow> bool" where
  "bound_to expected acc \<longleftrightarrow>
     (case expected of None \<Rightarrow> True
      | Some e \<Rightarrow> normalizeUuid e ''expectedAccountId'' = Inr acc)"

lemma refund_body_bound:
  "refund_body key None now asOf s =
     (case find_debit s key of
        None \<Rightarrow> Inl (CreditDebitNotFoundError ''credit debit not found'')
      | Some d \<Rightarrow> refund_body key (Some (deb_account d)) now asOf s)"
  by (cases "find_debit s key") (simp_all add: refund_body_def)

lemma refund_body_owner:
  assumes "find_account s acc = Some a"
  shows "refund_body key (Some acc) now asOf s =
     (case find_debit s key of
        None \<Rightarrow> Inl (CreditDebitNotFoundError ''credit debit not found'')
      | Some d \<Rightarrow>
          if deb_account d \<noteq> acc then Inl CreditDebitOwnerMismatchError
          else if deb_kind d \<noteq> Usage
          then Inl (CreditDebitNotFoundError ''credit debit is not a refundable product operation'')
          else refundDebit key now asOf a d (expired acc asOf s))"
  using assms find_account_Some [OF assms]
  by (cases "find_debit s key")
    (simp_all add: refund_body_def expireAccountPackLots_def expired_def [symmetric])

lemma refund_run:
  assumes "validateIdempotencyKey keyv = Inr key" "find_debit s key = Some d" "bound_to expected (deb_account d)"
  shows "refund keyv expected now asOf s = transaction (refund_body key (Some (deb_account d)) now asOf) s"
  using assms
  by (cases expected) (simp_all add: refund_def bound_to_def transaction_def refund_body_bound)

text \<open>A refund of a product debit in a settled store: only a first refund can fail.\<close>

lemma refund_owner:
  assumes "settled s" "find_debit s key = Some d" "deb_kind d = Usage"
  obtains a where "find_account s (deb_account d) = Some a" "acc_id a = deb_account d"
    "refund_body key (Some (deb_account d)) now asOf s =
       refundDebit key now asOf a d (expired (deb_account d) asOf s)"
proof -
  have inv: "ledger_inv (\<lambda>_. 0) (\<lambda>_. 0) {} s" using assms(1) by (simp add: settled_def)
  have "deb_account d \<in> acc_id ` set (accounts s)"
    using ledger_invD(3) [OF inv] find_debit_Some [OF assms(2)] by (simp add: references_ok_def list_all_iff)
  then obtain b where "b \<in> set (accounts s)" "acc_id b = deb_account d" by auto
  with find_member(1) [OF ledger_invD(2) [OF inv]] obtain a where
    a: "find_account s (deb_account d) = Some a" "acc_id a = deb_account d" by metis
  with assms(2,3) have "refund_body key (Some (deb_account d)) now asOf s =
       refundDebit key now asOf a d (expired (deb_account d) asOf s)"
    by (simp add: refund_body_owner [OF a(1)])
  with a that show thesis by blast
qed

lemma refund_usage_run:
  assumes s: "settled s" and key: "validateIdempotencyKey keyv = Inr key"
    and d: "find_debit s key = Some d" "deb_kind d = Usage" and who: "bound_to expected (deb_account d)"
  shows "(\<exists>e. refund keyv expected now asOf s = (Inl e, s) \<and> environmental e) \<or>
    (\<exists>res t. refund keyv expected now asOf s = (Inr res, t) \<and>
       refund_result key now asOf d (expired (deb_account d) asOf s) res t)"
proof -
  let ?u = "expired (deb_account d) asOf s"
  obtain a where a: "find_account s (deb_account d) = Some a" "acc_id a = deb_account d"
    and run: "refund_body key (Some (deb_account d)) now asOf s = refundDebit key now asOf a d ?u"
    by (rule refund_owner [OF s d])
  have "yields (refund_result key now asOf d ?u) (refundDebit key now asOf a d ?u)"
    using a d settled_expired [OF s] no_due_expired [of "deb_account d" asOf s]
    by (intro refundDebit_run) simp_all
  then consider e where "refundDebit key now asOf a d ?u = Inl e" "environmental e"
    | res t where "refundDebit key now asOf a d ?u = Inr (res, t)" "refund_result key now asOf d ?u res t"
    by (cases "refundDebit key now asOf a d ?u") auto
  then show ?thesis
  proof cases
    case 1
    then show ?thesis by (simp add: refund_run [OF key d(1) who] run transaction_throws)
  next
    case 2
    then have "consistent t" by (simp add: refund_result_def settled_consistent)
    with 2 show ?thesis by (simp add: refund_run [OF key d(1) who] run transaction_commits)
  qed
qed

lemma refund_replay_run:
  assumes s: "settled s" and key: "validateIdempotencyKey keyv = Inr key"
    and d: "find_debit s key = Some d" "deb_kind d = Usage" "deb_refunded_at d \<noteq> None"
    and who: "bound_to expected (deb_account d)"
  shows "refund keyv expected now asOf s =
    (Inr \<lparr>cr_outcome = Replayed, cr_balance = CreditAmount (spendable s (deb_account d) asOf),
          cr_requested = CreditAmount (deb_amount d), cr_restored = CreditAmount (deb_restored d)\<rparr>,
     expired (deb_account d) asOf s)"
proof -
  let ?u = "expired (deb_account d) asOf s"
  obtain a where a: "find_account s (deb_account d) = Some a" "acc_id a = deb_account d"
    and run: "refund_body key (Some (deb_account d)) now asOf s = refundDebit key now asOf a d ?u"
    by (rule refund_owner [OF s d(1,2)])
  have u: "settled ?u" using s by (rule settled_expired)
  have "refundDebit key now asOf a d ?u =
      Inr (\<lparr>cr_outcome = Replayed, cr_balance = CreditAmount (spendable ?u (acc_id a) asOf),
            cr_requested = CreditAmount (deb_amount d), cr_restored = CreditAmount (deb_restored d)\<rparr>, ?u)"
    by (rule refundDebit_replay [OF u]) (use a d in simp_all)
  then show ?thesis
    unfolding refund_run [OF key d(1) who] a(2) spendable_expired
    by (intro transaction_commits settled_consistent [OF u]) (simp only: run)
qed

section \<open>A store with debts\<close>

text \<open>
  The order \<open>o1\<close> was refunded in cash after 40 of its 100 credits had been spent: of its debt of 40,
  30 have been collected from the subscription. The invoice \<open>in_0\<close> left a clawback debt of 5.
\<close>

definition refunded_order :: pack_order where
  "refunded_order = (sample_order ''o1'' 100)\<lparr>po_payment_status := FullyRefunded,
     po_amount_refunded := 1500, po_refunded_credits := 100\<rparr>"

definition refunded_lot :: funding_lot where
  "refunded_lot = (sample_lot ''l1'' ''o1'' 100 0 500)\<lparr>lot_clawed := 60, lot_status := LotRefunded,
     lot_closed_at := Some 50\<rparr>"

definition indebted_store :: store where
  "indebted_store =
     \<lparr>accounts = [sample_account], orders = [refunded_order, sample_order ''o2'' 200],
      lots = [sample_lot ''l2'' ''o2'' 200 200 2000, refunded_lot],
      debits = [\<lparr>deb_key = ''job-0'', deb_account = ''acct'', deb_amount = 40, deb_epoch = 4,
                 deb_kind = Usage, deb_restored = 0, deb_created = 0, deb_refunded_at = None\<rparr>,
                \<lparr>deb_key = ''pack-debt:c1'', deb_account = ''acct'', deb_amount = 30, deb_epoch = 4,
                 deb_kind = Collection ''o1'', deb_restored = 0, deb_created = 60, deb_refunded_at = None\<rparr>],
      allocations = [\<lparr>al_id = 1, al_debit = ''job-0'', al_account = ''acct'', al_source = FromLot ''l1'',
                      al_amount = 40, al_refunded = 0\<rparr>,
                     \<lparr>al_id = 2, al_debit = ''pack-debt:c1'', al_account = ''acct'',
                      al_source = FromSubscription 4, al_amount = 30, al_refunded = 0\<rparr>],
      pack_debts = [\<lparr>pd_order = ''o1'', pd_account = ''acct'', pd_target = 40, pd_collected = 30,
                     pd_released = 0, pd_created = 50\<rparr>],
      clawback_debts = [\<lparr>cd_account = ''acct'', cd_epoch = 4, cd_invoice = ''in_0'', cd_target = 5,
                        cd_collected = 0, cd_created = 40\<rparr>],
      ledger = [], incidents = [], next_allocation = 3,
      uuid_source = (\<lambda>n. replicate n (CHR ''u'')), uuid_next = 0\<rparr>"

lemmas indebted_defs = indebted_store_def refunded_order_def refunded_lot_def sample_account_def
  sample_order_def sample_lot_def

lemma indebted_parts:
  "rows_ok indebted_store" "keys_ok indebted_store" "references_ok indebted_store"
  "lots_inv (\<lambda>_. 0) indebted_store" "debts_inv (\<lambda>_. 0) indebted_store"
  "debits_inv {} indebted_store" "collections_inv indebted_store"
  subgoal by (simp add: rows_ok_def indebted_defs account_check_def order_check_def lot_check_def
        debit_check_def allocation_check_def debt_check_def clawback_debt_check_def bigint_def bound_defs)
  subgoal by (simp add: keys_ok_def indebted_defs nullable_unique_def)
  subgoal by (simp add: references_ok_def indebted_defs)
  subgoal by (simp add: lots_inv_def indebted_defs funding_gap_def debt_released_def find_debt_def
        allocated_outstanding_def pending_of_def debt_target_def active_debt_def)
  subgoal by (simp add: debts_inv_def indebted_defs collection_outstanding_def collects_def find_debit_def
        pending_of_def)
  subgoal by (simp add: debits_inv_def indebted_defs debit_state_ok_def allocated_amount_def
        allocated_refunded_def)
  subgoal by (simp add: collections_inv_def indebted_defs collects_def find_debit_def)
  done

lemma indebted_settled: "settled indebted_store"
  by (simp add: settled_def ledger_inv_def indebted_parts)

definition job_debit :: debit where
  "job_debit = \<lparr>deb_key = ''job-0'', deb_account = ''acct'', deb_amount = 40, deb_epoch = 4,
     deb_kind = Usage, deb_restored = 0, deb_created = 0, deb_refunded_at = None\<rparr>"

lemma indebted_lookup:
  "find_debit indebted_store ''job-0'' = Some job_debit"
  "find_account indebted_store ''acct'' = Some sample_account"
  by (simp_all add: indebted_store_def find_debit_def find_account_def job_debit_def sample_account_def)

section \<open>Properties of the refund\<close>

text \<open>
  C21: the refund of a product debit ends and never fails for a reason inside the ledger: neither a
  cycle of debt collections nor a missing reversible funding can be reached. Unless the balance
  would leave the range of bigint or a random key collides, it succeeds, gives back at most what was
  charged, marks the debit as refunded, reports the exact new balance, and every constraint of the
  schema holds afterwards.
\<close>

theorem refund_restores:
  assumes "settled s" "validateIdempotencyKey keyv = Inr key" "find_debit s key = Some d"
    and "deb_kind d = Usage" "deb_refunded_at d = None" "bound_to expected (deb_account d)"
  shows "(\<exists>e. refund keyv expected now asOf s = (Inl e, s) \<and> environmental e) \<or>
    (\<exists>r s'. 0 \<le> r \<and> deb_restored d + r \<le> deb_amount d \<and>
       refund keyv expected now asOf s =
         (Inr \<lparr>cr_outcome = (if 0 < r then Refunded else EpochExpired),
               cr_balance = CreditAmount (spendable s' (deb_account d) asOf),
               cr_requested = CreditAmount (deb_amount d), cr_restored = CreditAmount (deb_restored d + r)\<rparr>, s') \<and>
       settled s' \<and> consistent s' \<and>
       find_debit s' key = Some (d\<lparr>deb_restored := deb_restored d + r, deb_refunded_at := Some now\<rparr>))"
  using refund_usage_run [OF assms(1-4,6), of now asOf]
proof (elim disjE exE conjE)
  fix res t
  assume run: "refund keyv expected now asOf s = (Inr res, t)"
    and "refund_result key now asOf d (expired (deb_account d) asOf s) res t"
  then obtain r where "settled t" "0 \<le> r" "deb_restored d + r \<le> deb_amount d"
    "find_debit t key = Some (d\<lparr>deb_restored := deb_restored d + r, deb_refunded_at := Some now\<rparr>)"
    "res = \<lparr>cr_outcome = (if 0 < r then Refunded else EpochExpired),
       cr_balance = CreditAmount (spendable t (deb_account d) asOf),
       cr_requested = CreditAmount (deb_amount d), cr_restored = CreditAmount (deb_restored d + r)\<rparr>"
    using assms(5) by (auto simp: refund_result_def)
  with run settled_consistent show ?thesis by blast
qed blast

lemma job_key: "validateIdempotencyKey (JStr ''job-0'') = Inr ''job-0''"
  by (rule sample_request(3))

lemma refund_restores_witness:
  "(\<exists>e. refund (JStr ''job-0'') None 100 100 indebted_store = (Inl e, indebted_store) \<and> environmental e) \<or>
    (\<exists>r s'. 0 \<le> r \<and> r \<le> 40 \<and>
       refund (JStr ''job-0'') None 100 100 indebted_store =
         (Inr \<lparr>cr_outcome = (if 0 < r then Refunded else EpochExpired),
               cr_balance = CreditAmount (spendable s' ''acct'' 100),
               cr_requested = CreditAmount 40, cr_restored = CreditAmount r\<rparr>, s') \<and>
       settled s' \<and> consistent s')"
  using refund_restores [OF indebted_settled job_key indebted_lookup(1), of None 100 100]
  by (auto simp: job_debit_def bound_to_def)

text \<open>
  C22: a refund is idempotent: after one that succeeded, every further refund of the same debit is a
  replay that reports the same restored amount and the current balance, and changes nothing but the
  expiry of lots that are past their window.
\<close>

theorem refund_idempotent:
  assumes "settled s" "validateIdempotencyKey keyv = Inr key" "find_debit s key = Some d"
    and "deb_kind d = Usage" "bound_to expected (deb_account d)"
    and "refund keyv expected now asOf s = (Inr res, s1)"
  shows "refund keyv expected now' asOf' s1 =
    (Inr \<lparr>cr_outcome = Replayed, cr_balance = CreditAmount (spendable s1 (deb_account d) asOf'),
          cr_requested = cr_requested res, cr_restored = cr_restored res\<rparr>,
     expired (deb_account d) asOf' s1)"
proof -
  from refund_usage_run [OF assms(1-5), of now asOf] assms(6)
  have r: "refund_result key now asOf d (expired (deb_account d) asOf s) res s1" by auto
  then have s1: "settled s1" by (simp add: refund_result_def)
  have "\<exists>d'. find_debit s1 key = Some d' \<and> deb_refunded_at d' \<noteq> None \<and>
    deb_kind d' = deb_kind d \<and> deb_account d' = deb_account d \<and> cr_requested res = CreditAmount (deb_amount d') \<and>
    cr_restored res = CreditAmount (deb_restored d')"
  proof (cases "deb_refunded_at d")
    case None
    with r obtain x where "find_debit s1 key = Some (d\<lparr>deb_restored := deb_restored d + x, deb_refunded_at := Some now\<rparr>)"
      "cr_requested res = CreditAmount (deb_amount d)" "cr_restored res = CreditAmount (deb_restored d + x)"
      by (auto simp: refund_result_def)
    then show ?thesis by simp
  next
    case (Some t)
    with r assms(3) show ?thesis by (simp add: refund_result_def)
  qed
  then obtain d' where d': "find_debit s1 key = Some d'" "deb_refunded_at d' \<noteq> None"
    "deb_kind d' = deb_kind d" "deb_account d' = deb_account d" "cr_requested res = CreditAmount (deb_amount d')"
    "cr_restored res = CreditAmount (deb_restored d')"
    by blast
  from refund_replay_run [OF s1 assms(2) d'(1) _ d'(2), of expected now' asOf'] d'(3-6) assms(4,5)
  show ?thesis by simp
qed

lemma refund_idempotent_witness:
  "case refund (JStr ''job-0'') None 100 100 indebted_store of
     (Inl e, s1) \<Rightarrow> True
   | (Inr res, s1) \<Rightarrow> refund (JStr ''job-0'') None 200 200 s1 =
       (Inr \<lparr>cr_outcome = Replayed, cr_balance = CreditAmount (spendable s1 ''acct'' 200),
             cr_requested = cr_requested res, cr_restored = cr_restored res\<rparr>, expired ''acct'' 200 s1)"
  using refund_idempotent [OF indebted_settled job_key indebted_lookup(1), of None 100 100 _ _ 200 200]
  by (auto simp: job_debit_def bound_to_def split: sum.splits)

lemma refund_body_settled:
  assumes s: "settled s" and run: "refund_body key expected now asOf s = Inr (res, t)"
  shows "settled t"
proof -
  have owner: "settled t" if "refund_body key (Some acc) now asOf s = Inr (res, t)" for acc
  proof (cases "find_account s acc")
    case None
    with that show ?thesis by (simp add: refund_body_def)
  next
    case (Some a)
    with that obtain d where d: "find_debit s key = Some d" "deb_account d = acc" "deb_kind d = Usage"
      "refundDebit key now asOf a d (expired acc asOf s) = Inr (res, t)"
      by (auto simp: refund_body_owner split: option.splits if_splits)
    have a: "acc_id a = acc" using find_account_Some [OF Some] by simp
    have "yields (refund_result key now asOf d (expired acc asOf s)) (refundDebit key now asOf a d (expired acc asOf s))"
      using d Some a settled_expired [OF s] no_due_expired [of acc asOf s] by (intro refundDebit_run) simp_all
    then show ?thesis by (simp add: d(4) refund_result_def)
  qed
  show ?thesis
    using run owner by (cases expected) (auto simp: refund_body_bound split: option.splits)
qed

text \<open>
  Whatever its arguments and outcome, a refund leaves a settled store settled: the funding,
  debt and debit equations and the order of the collections survive every branch.
\<close>

lemma refund_settled:
  assumes "settled s"
  shows "settled (snd (refund keyv expected now asOf s))"
proof -
  have "settled (snd (transaction (refund_body key e now asOf) s))" for key e
    using refund_body_settled [OF assms, of key e now asOf] assms
    by (auto simp: transaction_def split: sum.splits)
  then show ?thesis
    using assms by (auto simp: refund_def split: sum.splits option.splits)
qed

lemma refund_settled_witness: "settled (snd (refund (JStr ''job-0'') None 100 100 indebted_store))"
  by (rule refund_settled [OF indebted_settled])

text \<open>
  C23: a refund is refused without any change when there is no such debit, when the debit belongs to
  another account than the one named, and when it is a collection of a pack debt.
\<close>

theorem refund_refused:
  assumes "validateIdempotencyKey keyv = Inr key"
  shows "case find_debit s key of
      None \<Rightarrow> refund keyv None now asOf s = (Inl (CreditDebitNotFoundError ''credit debit not found''), s)
    | Some d \<Rightarrow>
        (\<forall>e acc. normalizeUuid e ''expectedAccountId'' = Inr acc \<and> find_account s acc \<noteq> None \<and>
           deb_account d \<noteq> acc \<longrightarrow> refund keyv (Some e) now asOf s = (Inl CreditDebitOwnerMismatchError, s)) \<and>
        (deb_kind d \<noteq> Usage \<and> find_account s (deb_account d) \<noteq> None \<longrightarrow> refund keyv None now asOf s =
           (Inl (CreditDebitNotFoundError ''credit debit is not a refundable product operation''), s))"
  using assms
  by (auto simp: refund_def refund_body_bound refund_body_owner transaction_def split: option.splits)

lemma refund_refused_witness:
  "refund (JStr ''pack-debt:c1'') None 100 100 indebted_store =
     (Inl (CreditDebitNotFoundError ''credit debit is not a refundable product operation''), indebted_store)"
proof -
  have key: "validateIdempotencyKey (JStr ''pack-debt:c1'') = Inr ''pack-debt:c1''" by code_simp
  let ?d = "\<lparr>deb_key = ''pack-debt:c1'', deb_account = ''acct'', deb_amount = 30, deb_epoch = 4,
     deb_kind = Collection ''o1'', deb_restored = 0, deb_created = 60, deb_refunded_at = None\<rparr>"
  have "find_debit indebted_store ''pack-debt:c1'' = Some ?d"
    by (simp add: indebted_store_def find_debit_def)
  with refund_refused [OF key, where s = indebted_store and now = 100 and asOf = 100] indebted_lookup(2) show ?thesis by simp
qed

section \<open>Properties of the collections\<close>

text \<open>
  C24: the collection of the clawback debts of an epoch takes the smaller of the balance and what
  is unrecovered, takes it from the balance alone, and keeps the invariant of the ledger.
\<close>

theorem clawback_debts_collected:
  assumes "settled s" "find_account s acc = Some a"
  shows "let taken = min (acc_balance a) (unrecovered (outstanding_clawbacks s acc epoch)) in
    \<exists>t. collectClawbackDebts acc epoch event s = Inr (taken, t) \<and> settled t \<and>
      find_account t acc = Some (a\<lparr>acc_balance := acc_balance a - taken\<rparr>) \<and>
      lots t = lots s \<and> pack_debts t = pack_debts s"
  using collectClawbackDebts_run [OF assms(1) [unfolded settled_def] assms(2), of epoch event "{}"]
  by (auto simp: Let_def settled_def)

lemma clawback_debts_collected_witness:
  "\<exists>t. collectClawbackDebts ''acct'' 4 ''evt'' indebted_store = Inr (5, t) \<and> settled t \<and>
    find_account t ''acct'' = Some (sample_account\<lparr>acc_balance := 295\<rparr>)"
proof -
  have "unrecovered (outstanding_clawbacks indebted_store ''acct'' 4) = 5" "acc_balance sample_account = 300"
    by (simp_all add: indebted_store_def outstanding_clawbacks_def unrecovered_def sample_account_def)
  then show ?thesis
    using clawback_debts_collected [OF indebted_settled indebted_lookup(2), of 4 "''evt''"]
    by (auto simp: Let_def)
qed

text \<open>
  New subscription funding pays the pack debts of the account, oldest first: the smaller of the
  balance and what is owed, by one collection per debt, and the invariant of the ledger is kept. The
  only possible failure is a random key that is taken.
\<close>

theorem pack_debts_collected_from_subscription:
  assumes "settled s" "find_account s acc = Some a"
  shows "case collectPackDebtsFromSubscription now acc epoch event s of
      Inl e \<Rightarrow> environmental e
    | Inr (taken, t) \<Rightarrow> taken = min (acc_balance a) (owed_total (outstanding_debts s acc)) \<and> settled t \<and>
        find_account t acc = Some (a\<lparr>acc_balance := acc_balance a - taken\<rparr>) \<and> lots t = lots s"
proof -
  have "0 \<le> acc_balance a"
    using find_account_balance(1) [OF assms(1) [unfolded settled_def] assms(2)] by (simp add: bigint_def)
  from collectPackDebtsFromSubscription_run [OF assms(1) [unfolded settled_def] _ assms(2) this,
      of "{}" now epoch event]
  show ?thesis by (auto simp: yields_def settled_def paid_up_def split: sum.splits)
qed

lemma pack_debts_collected_from_subscription_witness:
  "case collectPackDebtsFromSubscription 100 ''acct'' 4 ''evt'' indebted_store of
      Inl e \<Rightarrow> environmental e
    | Inr (taken, t) \<Rightarrow> taken = 10 \<and> settled t"
proof -
  have "owed_total (outstanding_debts indebted_store ''acct'') = 10" "acc_balance sample_account = 300"
    by (simp_all add: indebted_store_def outstanding_debts_def owed_total_def sample_account_def)
  then show ?thesis
    using pack_debts_collected_from_subscription [OF indebted_settled indebted_lookup(2), of 100 4 "''evt''"]
    by (auto split: sum.splits)
qed

text \<open>
  A lot that owes nothing itself pays the pack debts of the account with at most the atoms
  offered: the smaller of the offer and what is owed leaves the lot and nothing else does.
\<close>

theorem pack_debts_collected_from_lot:
  assumes "settled s" "l \<in> set (lots s)" "find_account s (lot_account l) \<noteq> None"
    and "active_debt s (lot_order l) = 0" "0 \<le> available" "available \<le> lot_remaining l"
  shows "case collectPackDebtsFromLot now (lot_account l) (lot_id l) available s of
      Inl e \<Rightarrow> environmental e
    | Inr (taken, t) \<Rightarrow> taken = min available (owed_total (outstanding_debts s (lot_account l))) \<and>
        settled t \<and> accounts t = accounts s \<and>
        lots t = update_rows (\<lambda>r. lot_id r = lot_id l)
          (\<lambda>r. r\<lparr>lot_remaining := lot_remaining r - taken\<rparr>) (lots s)"
proof -
  note inv = assms(1) [unfolded settled_def]
  have "may_pay s (lot_account l) (FromLot (lot_id l))"
    unfolding may_pay_def source.case
    by (rule bexI [OF _ assms(2)]) (use settled_order [OF inv _ assms(4)] assms(4) in auto)
  from collectPackDebtsFromLot_run [OF inv _ assms(2) refl _ assms(5,6) this assms(3), of "{}" now]
  show ?thesis by (auto simp: yields_def settled_def paid_up_def split: sum.splits)
qed

lemma pack_debts_collected_from_lot_witness:
  "case collectPackDebtsFromLot 100 ''acct'' ''l2'' 4 indebted_store of
      Inl e \<Rightarrow> environmental e
    | Inr (taken, t) \<Rightarrow> taken = 4 \<and> settled t"
proof -
  have l: "sample_lot ''l2'' ''o2'' 200 200 2000 \<in> set (lots indebted_store)"
    "lot_id (sample_lot ''l2'' ''o2'' 200 200 2000) = ''l2''"
    "lot_account (sample_lot ''l2'' ''o2'' 200 200 2000) = ''acct''"
    "lot_order (sample_lot ''l2'' ''o2'' 200 200 2000) = ''o2''"
    "lot_remaining (sample_lot ''l2'' ''o2'' 200 200 2000) = 200"
    by (simp_all add: indebted_store_def sample_lot_def)
  have "active_debt indebted_store ''o2'' = 0"
    "owed_total (outstanding_debts indebted_store ''acct'') = 10"
    by (simp_all add: indebted_store_def active_debt_def debt_target_def debt_released_def find_debt_def
        outstanding_debts_def owed_total_def)
  then show ?thesis
    using pack_debts_collected_from_lot [OF indebted_settled l(1), of 4 100] indebted_lookup(2)
    by (auto simp: l split: sum.splits)
qed

end
