(* ===== verification/Pack_Event_Properties.thy ===== *)
theory Pack_Event_Properties
  imports Pack_Events Refund_Facts
begin

text \<open>
  What the Stripe events of credit packs promise (typescript/src/credit-pack-events.ts): every
  delivery in any order keeps the invariant of the ledger, an order is funded once, and a clawback
  withdraws exactly the refunded share. The commit checks the constraints of the schema, so the
  handlers only have to keep what the schema does not say: \<open>orderly\<close>.
\<close>

section \<open>The invariant beyond the schema\<close>

definition orderly :: "store \<Rightarrow> bool" where
  "orderly s \<longleftrightarrow> (\<forall>l \<in> set (lots s).
     (lot_status l = LotActive \<longrightarrow> lot_expired l = 0) \<and>
     (0 < lot_remaining l \<longrightarrow> active_debt s (lot_order l) = 0) \<and>
     (lot_status l \<in> {LotRefunded, LotDisputed} \<longrightarrow>
        lot_clawed l + debt_target s (lot_order l) = lot_original l)) \<and> collections_inv s"

lemma settled_orderly: "settled s \<Longrightarrow> orderly s"
  by (simp add: settled_def ledger_inv_def lots_inv_def orderly_def)

lemma consistent_order:
  assumes "consistent s" "l \<in> set (lots s)"
  obtains po where "po \<in> set (orders s)" "po_id po = lot_order l" "po_account po = lot_account l"
    "lot_of_order s (po_id po) = Some l" "pack_state_ok s po"
proof -
  from assms have keys: "keys_ok s" and refs: "references_ok s" by (simp_all add: consistent_def)
  from refs assms(2) have "(lot_order l, lot_account l) \<in> (\<lambda>po. (po_id po, po_account po)) ` set (orders s)"
    by (simp add: references_ok_def list_all_iff)
  then obtain po where po: "po \<in> set (orders s)" "po_id po = lot_order l" "po_account po = lot_account l"
    by auto
  moreover have "lot_of_order s (po_id po) = Some l" using find_member(4) [OF keys assms(2)] po(2) by simp
  moreover have "pack_state_ok s po" using assms(1) po(1) by (simp add: consistent_def list_all_iff)
  ultimately show thesis by (rule that)
qed

lemma consistent_settled:
  assumes c: "consistent s" and o: "orderly s"
  shows "settled s"
proof -
  have rows: "rows_ok s" and keys: "keys_ok s" and refs: "references_ok s"
    using c by (simp_all add: consistent_def)
  have "lots_inv (\<lambda>_. 0) s"
    unfolding lots_inv_def
  proof (intro ballI)
    fix l assume l: "l \<in> set (lots s)"
    obtain po where po: "po \<in> set (orders s)" "po_id po = lot_order l" "po_account po = lot_account l"
      "lot_of_order s (po_id po) = Some l" "pack_state_ok s po"
      by (rule consistent_order [OF c l])
    then have "po_pack_credits po = lot_original l" "po_refunded_credits po = lot_clawed l + debt_target s (lot_order l)"
      "funding_gap s l = 0"
      by (simp_all add: pack_state_ok_def funding_gap_def)
    with po l o show "(\<exists>po\<in>set (orders s). po_id po = lot_order l \<and> po_account po = lot_account l \<and>
           po_pack_credits po = lot_original l \<and>
           po_refunded_credits po = lot_clawed l + debt_target s (lot_order l)) \<and>
         funding_gap s l = 0 \<and> (lot_status l = LotActive \<longrightarrow> lot_expired l = 0) \<and>
         (0 < lot_remaining l \<longrightarrow> active_debt s (lot_order l) = 0) \<and>
         (lot_status l \<in> {LotRefunded, LotDisputed} \<longrightarrow>
          lot_clawed l + debt_target s (lot_order l) = lot_original l)"
      unfolding orderly_def by blast
  qed
  moreover have "debts_inv (\<lambda>_. 0) s"
    unfolding debts_inv_def
  proof (intro ballI)
    fix d assume d: "d \<in> set (pack_debts s)"
    then have "(pd_order d, pd_account d) \<in> (\<lambda>po. (po_id po, po_account po)) ` set (orders s)"
      using refs by (simp add: references_ok_def list_all_iff)
    then obtain po where po: "po \<in> set (orders s)" "po_id po = pd_order d" by auto
    have found: "find_debt s (pd_order d) = Some d" by (rule find_member(6) [OF keys d])
    have "pack_state_ok s po" using c po(1) by (simp add: consistent_def list_all_iff)
    with found po(2) obtain l where "lot_of_order s (pd_order d) = Some l"
      "debt_collected s (pd_order d) = collection_outstanding s (pd_order d)"
      by (auto simp: pack_state_ok_def split: option.splits)
    with lot_of_order_Some [of s "pd_order d" l] found imageI [of l "set (lots s)" lot_order]
    show "pd_order d \<in> lot_order ` set (lots s) \<and> pd_collected d - collection_outstanding s (pd_order d) = 0"
      by (auto simp: debt_collected_def)
  qed
  moreover have "debits_inv {} s" using c by (simp add: debits_inv_def consistent_def list_all_iff)
  ultimately show ?thesis using rows keys refs o by (simp add: settled_def ledger_inv_def orderly_def)
qed

lemma transaction_settled:
  assumes "settled s" "\<And>x t. operation s = Inr (x, t) \<Longrightarrow> consistent t \<Longrightarrow> orderly t"
  shows "settled (snd (transaction operation s))"
  using assms consistent_settled by (auto simp: transaction_def split: sum.splits)

lemma orderly_frame [simp]:
  "orderly (s\<lparr>accounts := v0\<rparr>) = orderly s" "orderly (s\<lparr>orders := v1\<rparr>) = orderly s"
  "orderly (s\<lparr>clawback_debts := v6\<rparr>) = orderly s" "orderly (s\<lparr>ledger := v7\<rparr>) = orderly s"
  "orderly (s\<lparr>incidents := v8\<rparr>) = orderly s" "orderly (s\<lparr>uuid_next := v10\<rparr>) = orderly s"
  by (simp_all add: orderly_def)

section \<open>Steps that keep a predicate\<close>

definition keeps :: "('s \<Rightarrow> bool) \<Rightarrow> ('s, 'a) step \<Rightarrow> bool" where
  "keeps P m \<longleftrightarrow> (\<forall>s x t. P s \<longrightarrow> m s = Inr (x, t) \<longrightarrow> P t)"

named_theorems keeps_rules

lemma keepsD: "keeps P m \<Longrightarrow> P s \<Longrightarrow> m s = Inr (x, t) \<Longrightarrow> P t"
  unfolding keeps_def by blast

lemma keeps_bind [keeps_rules]: "keeps P m \<Longrightarrow> (\<And>x. keeps P (f x)) \<Longrightarrow> keeps P (bind_tx m f)"
  unfolding keeps_def bind_tx_Inr_iff by blast

lemma keeps_pure [keeps_rules]:
  "keeps P (ret x)" "keeps P (throw e)" "keeps P (gets f)" "keeps P (lift_tx r)"
  by (cases r; auto simp: keeps_def)+

lemma keeps_modify: "(\<And>s. P s \<Longrightarrow> P (f s)) \<Longrightarrow> keeps P (modify f)"
  by (auto simp: keeps_def)

lemma keeps_if [keeps_rules]: "keeps P m \<Longrightarrow> keeps P n \<Longrightarrow> keeps P (if b then m else n)"
  by simp

lemma keeps_option [keeps_rules]:
  "keeps P n \<Longrightarrow> (\<And>x. keeps P (f x)) \<Longrightarrow> keeps P (case v of None \<Rightarrow> n | Some x \<Rightarrow> f x)"
  by (cases v) simp_all

lemma keeps_pair [keeps_rules]:
  "(\<And>x y. keeps P (f x y)) \<Longrightarrow> keeps P (case v of (x, y) \<Rightarrow> f x y)"
  by (cases v) simp

lemma keeps_bool [keeps_rules]:
  "keeps P m \<Longrightarrow> keeps P n \<Longrightarrow> keeps P (case b of True \<Rightarrow> m | False \<Rightarrow> n)"
  by (cases b) simp_all

lemma keeps_updates [keeps_rules]:
  "keeps orderly (update_orders Q f)" "keeps orderly (update_accounts R g)"
  "keeps orderly (recordIncident kind event dedupe invoice acc detail)"
  by (auto simp: keeps_def update_orders_def update_accounts_def recordIncident_def Let_def)

lemma keeps_claim [keeps_rules]: "keeps orderly (claim_customer a customer)"
  unfolding claim_customer_def by (intro keeps_rules)

lemma keeps_checkout: "keeps orderly (checkoutEvent productLine event)"
  unfolding checkoutEvent_def record_checkout_def Let_def by (intro keeps_rules)

section \<open>A clawback keeps the invariant\<close>

text \<open>A row of the table of lots replaced.\<close>

definition put_lot :: "funding_lot \<Rightarrow> store \<Rightarrow> store" where
  "put_lot l s = s\<lparr>lots := update_rows (\<lambda>r. lot_id r = lot_id l) (\<lambda>_. l) (lots s)\<rparr>"

definition clawed_lot :: "bool \<Rightarrow> bool \<Rightarrow> int \<Rightarrow> int \<Rightarrow> funding_lot \<Rightarrow> funding_lot" where
  "clawed_lot dispute terminal delta now l =
     (let fromRemaining = (if lot_status l = LotActive then min delta (lot_remaining l) else 0);
          fromExpired = min (delta - fromRemaining) (lot_expired l) in
      l\<lparr>lot_remaining := lot_remaining l - fromRemaining, lot_expired := lot_expired l - fromExpired,
        lot_clawed := lot_clawed l + (fromRemaining + fromExpired),
        lot_status := (if terminal then (if dispute then LotDisputed else LotRefunded) else lot_status l),
        lot_closed_at := (if terminal then Some now else lot_closed_at l)\<rparr>)"

lemma update_one_lot:
  assumes "keys_ok s" "l \<in> set (lots s)"
  shows "update_rows (\<lambda>r. lot_id r = lot_id l) f (lots s) = update_rows (\<lambda>r. lot_id r = lot_id l) (\<lambda>_. f l) (lots s)"
proof -
  have "(if lot_id r = lot_id l then f r else r) = (if lot_id r = lot_id l then f l else r)"
    if "r \<in> set (lots s)" for r
    using lot_unique(1) [OF assms(1) that assms(2)] by simp
  then show ?thesis by (simp add: update_rows_def cong: map_cong)
qed

lemma put_same_lot: "keys_ok s \<Longrightarrow> l \<in> set (lots s) \<Longrightarrow> put_lot l s = s"
  using update_one_lot [of s l "\<lambda>r. r"] by (simp add: put_lot_def update_rows_def)

lemma put_lot_member:
  assumes "keys_ok s" "l \<in> set (lots s)" "lot_id l' = lot_id l" "lot_order l' = lot_order l"
  shows "keys_ok (put_lot l' s)" "l' \<in> set (lots (put_lot l' s))"
    "r \<in> set (lots (put_lot l' s)) \<Longrightarrow> r = l' \<or> r \<in> set (lots s) \<and> lot_order r \<noteq> lot_order l"
proof -
  have row: "lot_id r = lot_id l' \<longleftrightarrow> r = l" if "r \<in> set (lots s)" for r
    using lot_unique(1) [OF assms(1) that assms(2)] assms(3) by simp
  have "map lot_id (lots (put_lot l' s)) = map lot_id (lots s)"
    unfolding put_lot_def by (simp add: map_update_rows)
  moreover have "map lot_order (lots (put_lot l' s)) = map lot_order (lots s)"
    unfolding put_lot_def using row assms(4) by (simp, intro map_update_rows) simp
  ultimately show "keys_ok (put_lot l' s)" using assms(1) by (simp add: keys_ok_def put_lot_def)
  show "l' \<in> set (lots (put_lot l' s))"
    using assms(2,3) by (force simp: put_lot_def set_update_rows)
  show "r = l' \<or> r \<in> set (lots s) \<and> lot_order r \<noteq> lot_order l" if "r \<in> set (lots (put_lot l' s))"
    using that row lot_unique(2) [OF assms(1) _ assms(2)] by (auto simp: put_lot_def set_update_rows)
qed

lemma put_put_lot: "lot_id l = lot_id l' \<Longrightarrow> put_lot l' (put_lot l s) = put_lot l' s"
  by (simp add: put_lot_def update_rows_def)

lemma put_lot_frame [simp]:
  "orders (put_lot l s) = orders s" "accounts (put_lot l s) = accounts s"
  "pack_debts (put_lot l s) = pack_debts s" "allocations (put_lot l s) = allocations s"
  "debits (put_lot l s) = debits s" "next_allocation (put_lot l s) = next_allocation s"
  "active_debt (put_lot l s) = active_debt s" "debt_target (put_lot l s) = debt_target s"
  "debt_released (put_lot l s) = debt_released s" "find_debt (put_lot l s) = find_debt s"
  "collects (put_lot l s) = collects s"
  by (simp_all add: put_lot_def fun_eq_iff)

lemma current_lot_result:
  assumes "current_lot now clock l s = Inr (l', t)" "keys_ok s" "l \<in> set (lots s)"
  shows "t = put_lot l' s" "l' = l \<or> lot_status l = LotActive \<and> l' = expire_lot now l"
proof -
  have "t = put_lot l' s \<and> (l' = l \<or> lot_status l = LotActive \<and> l' = expire_lot now l)"
  proof (cases "lot_status l = LotActive \<and> \<not> lot_expires l > clock")
    case True
    have put: "s\<lparr>lots := update_rows (\<lambda>r. lot_id r = lot_id l) (expire_lot now) (lots s)\<rparr> = put_lot (expire_lot now l) s"
      using update_one_lot [OF assms(2,3), of "expire_lot now"] by (simp add: put_lot_def expire_lot_def)
    have "lot_id (expire_lot now l) = lot_id l" "lot_order (expire_lot now l) = lot_order l"
      by (simp_all add: expire_lot_def)
    from put_lot_member [OF assms(2,3) this] find_member(3) [of "put_lot (expire_lot now l) s" "expire_lot now l"]
    have "find_lot (put_lot (expire_lot now l) s) (lot_id l) = Some (expire_lot now l)"
      by (simp add: expire_lot_def)
    with assms(1) True put show ?thesis
      by (auto simp: current_lot_def update_lots_def bind_tx_def)
  next
    case False
    with assms put_same_lot show ?thesis by (auto simp: current_lot_def)
  qed
  then show "t = put_lot l' s" "l' = l \<or> lot_status l = LotActive \<and> l' = expire_lot now l" by blast+
qed

lemma claw_lot_result:
  assumes "claw_lot dispute terminal delta now l s = Inr (removed, t)" "keys_ok s" "l \<in> set (lots s)"
  shows "t = put_lot (clawed_lot dispute terminal delta now l) s"
    "removed = lot_clawed (clawed_lot dispute terminal delta now l) - lot_clawed l"
proof -
  let ?f = "\<lambda>x y r. r\<lparr>lot_remaining := lot_remaining r - x, lot_expired := lot_expired r - y,
      lot_clawed := lot_clawed l + (x + y),
      lot_status := (if terminal then (if dispute then LotDisputed else LotRefunded) else lot_status r),
      lot_closed_at := (if terminal then Some now else lot_closed_at r)\<rparr>"
  obtain x where x: "x = (if lot_status l = LotActive then (if delta < lot_remaining l then delta else lot_remaining l) else 0)"
    by blast
  obtain y where y: "y = (if delta - x < lot_expired l then delta - x else lot_expired l)" by blast
  have min: "x = (if lot_status l = LotActive then min delta (lot_remaining l) else 0)" "y = min (delta - x) (lot_expired l)"
    by (auto simp: x y)
  from assms(1) have add: "checkedAddAtoms (lot_clawed l) (x + y) ''cash-clawed-back pack credits'' = Inr (lot_clawed l + (x + y))"
    and run: "removed = x + y \<and> t = s\<lparr>lots := update_rows (\<lambda>r. lot_id r = lot_id l) (?f x y) (lots s)\<rparr>"
    unfolding claw_lot_def Let_def x [symmetric] y [symmetric]
    by (auto simp: bind_tx_Inr_iff lift_tx_def update_lots_def checkedAddAtoms_def bind_result_Inr_iff split: if_splits)
  have clawed: "clawed_lot dispute terminal delta now l = ?f x y l" "lot_id (?f x y l) = lot_id l"
    by (simp_all add: clawed_lot_def Let_def min [symmetric])
  show "t = put_lot (clawed_lot dispute terminal delta now l) s"
    unfolding put_lot_def clawed using run update_one_lot [OF assms(2,3), of "?f x y"] by (simp only:)
  show "removed = lot_clawed (clawed_lot dispute terminal delta now l) - lot_clawed l"
    using run by (simp add: clawed_lot_def Let_def min [symmetric])
qed

lemma owe_pack_debt_result:
  assumes "owe_pack_debt clock po missing s = Inr (x, t)"
  shows "debt_target t k = debt_target s k + (if k = po_id po then missing else 0)"
    "debt_released t k = debt_released s k" "lots t = lots s" "orders t = orders s"
    "allocations t = allocations s" "collects t = collects s" "next_allocation t = next_allocation s"
proof -
  have run: "t = s\<lparr>pack_debts := pack_debts t\<rparr>" "debt_target t k = debt_target s k + (if k = po_id po then missing else 0) \<and>
      debt_released t k = debt_released s k"
    subgoal using assms
      by (auto simp: owe_pack_debt_def bind_tx_Inr_iff update_debts_def lift_tx_def bind_result_Inr_iff
          split: option.splits)
    subgoal
    proof (cases "find_debt s (po_id po)")
      case None
      with assms show ?thesis
        by (auto simp: owe_pack_debt_def debt_target_def debt_released_def find_debt_def find_append split: option.splits)
    next
      case (Some d)
      with assms find_debt_Some [OF Some] show ?thesis
        by (auto simp: owe_pack_debt_def bind_tx_Inr_iff update_debts_def lift_tx_def bind_result_Inr_iff
            debt_target_def debt_released_def find_debt_def find_update_rows_key checkedAddAtoms_def
            split: option.splits if_splits dest: find_SomeD)
    qed
    done
  then show "debt_target t k = debt_target s k + (if k = po_id po then missing else 0)"
    "debt_released t k = debt_released s k" by blast+
  show "lots t = lots s" "orders t = orders s" "allocations t = allocations s"
    "collects t = collects s" "next_allocation t = next_allocation s"
    using arg_cong [OF run(1), of lots] arg_cong [OF run(1), of orders] arg_cong [OF run(1), of allocations]
      arg_cong [OF run(1), of collects] arg_cong [OF run(1), of next_allocation]
    by (simp_all add: fun_eq_iff)
qed

lemma collections_inv_cong:
  assumes "collections_inv s" "allocations t = allocations s" "collects t = collects s"
    "next_allocation t = next_allocation s"
    "(\<lambda>l. (lot_id l, lot_order l)) ` set (lots t) = (\<lambda>l. (lot_id l, lot_order l)) ` set (lots s)"
  shows "collections_inv t"
proof -
  have "\<exists>m \<in> set (lots s). lot_id m = lot_id l \<and> lot_order m = lot_order l" if "l \<in> set (lots t)" for l
  proof -
    have "(lot_id l, lot_order l) \<in> (\<lambda>l. (lot_id l, lot_order l)) ` set (lots s)"
      using imageI [OF that, of "\<lambda>l. (lot_id l, lot_order l)"] assms(5) by simp
    then show ?thesis by auto
  qed
  with assms(1-4) show ?thesis unfolding collections_inv_def by metis
qed

lemma put_lot_image:
  assumes "keys_ok s" "l \<in> set (lots s)" "lot_id l' = lot_id l" "lot_order l' = lot_order l"
  shows "(\<lambda>l. (lot_id l, lot_order l)) ` set (lots (put_lot l' s)) = (\<lambda>l. (lot_id l, lot_order l)) ` set (lots s)"
  unfolding put_lot_def using lot_unique(1) [OF assms(1) _ assms(2)] assms(3,4)
  by simp (rule image_update_rows, auto)

lemma withdrawal_orderly:
  assumes o: "orderly s" and keys: "keys_ok s" and rows: "rows_ok s" and po: "lot_of_order s (po_id po) = Some l0"
    and delta: "0 < delta"
    and run: "withdraw_pack dispute terminal delta now clock po s = Inr (removed, t)"
    and opened: "terminal \<or> lot_status l0 \<notin> {LotRefunded, LotDisputed}"
    and closed: "\<And>l. terminal \<Longrightarrow> l \<in> set (lots t) \<Longrightarrow> lot_order l = po_id po \<Longrightarrow> lot_clawed l + debt_target t (po_id po) = lot_original l"
  shows "orderly t"
proof -
  from lot_of_order_Some [OF po] have l0: "l0 \<in> set (lots s)" "lot_order l0 = po_id po" by auto
  from run po obtain l u x where
    cur: "current_lot now clock l0 s = Inr (l, u)" and rest:
    "bind_tx (claw_lot dispute terminal delta now l) (\<lambda>removed.
       bind_tx (if delta - removed > 0 then owe_pack_debt clock po (delta - removed) else ret ()) (\<lambda>_. ret removed)) u
      = Inr (removed, t)"
    by (auto simp: withdraw_pack_def bind_tx_Inr_iff)
  note u = current_lot_result [OF cur keys l0(1)]
  have same: "lot_id l = lot_id l0" "lot_order l = lot_order l0" using u(2) by (auto simp: expire_lot_def)
  note put = put_lot_member [OF keys l0(1) same]
  from rest obtain v where claw: "claw_lot dispute terminal delta now l u = Inr (removed, v)" and
    owe: "(if delta - removed > 0 then owe_pack_debt clock po (delta - removed) else ret ()) v = Inr ((), t)"
    by (auto simp: bind_tx_Inr_iff)
  note v = claw_lot_result [OF claw put(1,2) [folded u(1)]]
  let ?l = "clawed_lot dispute terminal delta now l"
  have same': "lot_id ?l = lot_id l0" "lot_order ?l = lot_order l0"
    using same by (simp_all add: clawed_lot_def Let_def)
  have vs: "v = put_lot ?l s" using v(1) u(1) same same' by (simp add: put_put_lot)
  have lt: "lots t = lots v" and dt: "debt_target t k = debt_target v k + (if k = po_id po then max 0 (delta - removed) else 0)"
    and rt: "debt_released t k = debt_released v k" and other: "allocations t = allocations v"
      "collects t = collects v" "next_allocation t = next_allocation v" for k
    using owe_pack_debt_result [of clock po "delta - removed" v "()" t] owe by (auto split: if_splits)
  have lc: "lot_check l0" using rows l0(1) by (simp add: rows_ok_def list_all_iff)
  have lc': "0 \<le> lot_remaining l" "0 \<le> lot_expired l" "lot_status l = LotActive \<or> lot_remaining l = 0"
    using u(2) lc by (auto simp: lot_check_def expire_lot_def)
  have il: "(lot_status l0 = LotActive \<longrightarrow> lot_expired l0 = 0) \<and> (0 < lot_remaining l0 \<longrightarrow> active_debt s (lot_order l0) = 0)"
    using o l0(1) by (simp add: orderly_def)
  have active: "active_debt t k = active_debt s k + (if k = po_id po then max 0 (delta - removed) else 0)" for k
    using dt [of k] rt [of k] vs by (simp add: active_debt_def)
  have removed: "removed = (if lot_status l = LotActive then min delta (lot_remaining l) else 0)
      + min (delta - (if lot_status l = LotActive then min delta (lot_remaining l) else 0)) (lot_expired l)"
    using v(2) by (simp add: clawed_lot_def Let_def)
  show ?thesis
    unfolding orderly_def
  proof (intro conjI ballI)
    show "collections_inv t"
    proof (rule collections_inv_cong)
      show "collections_inv s" using o by (simp add: orderly_def)
      show "(\<lambda>l. (lot_id l, lot_order l)) ` set (lots t) = (\<lambda>l. (lot_id l, lot_order l)) ` set (lots s)"
        using put_lot_image [OF keys l0(1) same'] lt vs by simp
    qed (simp_all add: other vs)
  next
    fix r assume r: "r \<in> set (lots t)"
    then consider "r = ?l" | "r \<in> set (lots s)" "lot_order r \<noteq> po_id po"
      using put_lot_member(3) [OF keys l0(1) same'] lt vs l0(2) by auto
    then have "(lot_status r = LotActive \<longrightarrow> lot_expired r = 0) \<and>
         (0 < lot_remaining r \<longrightarrow> active_debt t (lot_order r) = 0) \<and>
         (lot_status r \<in> {LotRefunded, LotDisputed} \<longrightarrow> lot_clawed r + debt_target t (lot_order r) = lot_original r)"
    proof cases
      case 1
      have ord: "lot_order r = po_id po" using 1 same' l0(2) by simp
      have "lot_status r = LotActive \<longrightarrow> lot_expired r = 0"
        using 1 u(2) il lc' delta by (auto simp: clawed_lot_def Let_def expire_lot_def)
      moreover have "0 < lot_remaining r \<longrightarrow> active_debt t (lot_order r) = 0"
        using 1 u(2) il lc' delta removed l0(2)
        by (auto simp: ord active clawed_lot_def Let_def expire_lot_def min_def split: if_splits)
      moreover have "terminal \<or> lot_status r \<notin> {LotRefunded, LotDisputed}"
        using 1 u(2) opened by (auto simp: clawed_lot_def Let_def expire_lot_def)
      ultimately show ?thesis using closed [OF _ r ord] ord by auto
    next
      case 2
      have "debt_target t (lot_order r) = debt_target s (lot_order r)" using dt 2(2) vs by simp
      with 2 o active show ?thesis by (simp add: orderly_def)
    qed
    then show "lot_status r = LotActive \<longrightarrow> lot_expired r = 0"
      "0 < lot_remaining r \<longrightarrow> active_debt t (lot_order r) = 0"
      "lot_status r \<in> {LotRefunded, LotDisputed} \<longrightarrow> lot_clawed r + debt_target t (lot_order r) = lot_original r"
      by blast+
  qed
qed


lemma keeps_withdraw: "keeps (\<lambda>s. orders s = os \<and> accounts s = as) (withdraw_pack dispute terminal delta now clock po)"
proof -
  have "keeps (\<lambda>s. orders s = os \<and> accounts s = as) (update_lots P f)"
    "keeps (\<lambda>s. orders s = os \<and> accounts s = as) (update_debts Q g)"
    "keeps (\<lambda>s. orders s = os \<and> accounts s = as) (modify (\<lambda>s. s\<lparr>pack_debts := h s\<rparr>))" for P f Q g h
    by (auto simp: keeps_def update_lots_def update_debts_def)
  then show ?thesis
    unfolding withdraw_pack_def current_lot_def claw_lot_def owe_pack_debt_def Let_def
    by (intro keeps_rules)
qed

lemma find_updated_order:
  assumes "find_order s (po_id po) = Some po" "\<And>r. po_id (f r) = po_id r"
  shows "find_order (s\<lparr>orders := update_rows (\<lambda>r. po_id r = po_id po) f (orders s)\<rparr>) (po_id po) = Some (f po)"
proof -
  have "find (\<lambda>r. po_id r = po_id po) (update_rows (\<lambda>r. po_id r = po_id po) f (orders s)) =
      map_option (\<lambda>r. if po_id r = po_id po then f r else r) (find (\<lambda>r. po_id r = po_id po) (orders s))"
    by (rule find_update_rows_key) (rule assms(2))
  with assms(1) show ?thesis by (simp add: find_order_def)
qed

text \<open>What the commit says of the lot of an order.\<close>

lemma committed_lot:
  assumes "consistent t" "l \<in> set (lots t)" "find_order t (lot_order l) = Some q"
  shows "po_pack_credits q = lot_original l" "po_refunded_credits q = lot_clawed l + debt_target t (lot_order l)"
    "po_refunded_credits q \<le> po_pack_credits q"
    "po_payment_status q = Disputed \<Longrightarrow> po_refunded_credits q = po_pack_credits q"
proof -
  obtain po where po: "po \<in> set (orders t)" "po_id po = lot_order l" "lot_of_order t (po_id po) = Some l" "pack_state_ok t po"
    by (rule consistent_order [OF assms(1,2)])
  have "find_order t (po_id po) = Some po"
    using assms(1) po(1) find_member(2) by (simp add: consistent_def)
  with po(2) assms(3) have q: "q = po" by simp
  from po show "po_pack_credits q = lot_original l" "po_refunded_credits q = lot_clawed l + debt_target t (lot_order l)"
    by (simp_all add: q pack_state_ok_def)
  have "order_check q" using assms(1) po(1) by (simp add: q consistent_def rows_ok_def list_all_iff)
  then show "po_refunded_credits q \<le> po_pack_credits q"
    "po_payment_status q = Disputed \<Longrightarrow> po_refunded_credits q = po_pack_credits q"
    by (simp_all add: order_check_def)
qed

lemma disputed_orderly:
  assumes o: "orderly s" and closed: "\<And>l. l \<in> set (lots t) \<Longrightarrow> lot_order l = k \<Longrightarrow>
      lot_clawed l + debt_target s k = lot_original l"
    and t: "t = s\<lparr>orders := os, lots := update_rows (\<lambda>l. lot_order l = k \<and> lot_remaining l = 0)
      (\<lambda>l. l\<lparr>lot_status := LotDisputed, lot_closed_at := coalesce (lot_closed_at l) (Some now)\<rparr>) (lots s)\<rparr>"
  shows "orderly t"
  unfolding orderly_def
proof (intro conjI ballI)
  show "collections_inv t"
  proof (rule collections_inv_cong)
    show "collections_inv s" using o by (simp add: orderly_def)
    show "(\<lambda>l. (lot_id l, lot_order l)) ` set (lots t) = (\<lambda>l. (lot_id l, lot_order l)) ` set (lots s)"
      unfolding t by simp (rule image_update_rows, simp)
  qed (simp_all add: t fun_eq_iff)
next
  fix r assume r: "r \<in> set (lots t)"
  have frame: "active_debt t = active_debt s" "debt_target t = debt_target s"
    by (simp_all add: t fun_eq_iff active_debt_def)
  from r consider "r \<in> set (lots s)" | l where "l \<in> set (lots s)" "lot_order l = k" "lot_remaining l = 0"
      "r = l\<lparr>lot_status := LotDisputed, lot_closed_at := coalesce (lot_closed_at l) (Some now)\<rparr>"
    by (auto simp: t set_update_rows split: if_splits)
  then have "(lot_status r = LotActive \<longrightarrow> lot_expired r = 0) \<and>
       (0 < lot_remaining r \<longrightarrow> active_debt t (lot_order r) = 0) \<and>
       (lot_status r \<in> {LotRefunded, LotDisputed} \<longrightarrow> lot_clawed r + debt_target t (lot_order r) = lot_original r)"
  proof cases
    case 1
    then show ?thesis using o by (simp add: orderly_def frame)
  next
    case 2
    then show ?thesis using closed [OF r] by (simp add: frame)
  qed
  then show "lot_status r = LotActive \<longrightarrow> lot_expired r = 0"
    "0 < lot_remaining r \<longrightarrow> active_debt t (lot_order r) = 0"
    "lot_status r \<in> {LotRefunded, LotDisputed} \<longrightarrow> lot_clawed r + debt_target t (lot_order r) = lot_original r"
    by blast+
qed

lemma apply_clawback_orderly:
  assumes o: "orderly s" and keys: "keys_ok s" and rows: "rows_ok s" and po: "find_order s (po_id po) = Some po"
    and eqs: "\<And>l. l \<in> set (lots s) \<Longrightarrow> lot_order l = po_id po \<Longrightarrow>
      po_pack_credits po = lot_original l \<and> po_refunded_credits po = lot_clawed l + debt_target s (po_id po)"
    and run: "apply_clawback dispute now clock pi ch cus amount refunded po s = Inr (r, t)" and c: "consistent t"
  shows "orderly t"
proof -
  let ?cash = "target_cash dispute amount refunded po"
  let ?atoms = "target_atoms dispute amount ?cash po"
  let ?status = "cash_status dispute amount ?cash"
  show ?thesis
  proof (cases "?atoms \<le> po_refunded_credits po")
    case True
    show ?thesis
    proof (cases "?cash > po_amount_refunded po \<or> ?status \<noteq> po_payment_status po")
      case advanced: True
      let ?f = "\<lambda>r. claw_order pi ch cus amount ?cash (po_refunded_credits r) ?status r"
      let ?os = "update_rows (\<lambda>r. po_id r = po_id po) ?f (orders s)"
      show ?thesis
      proof (cases dispute)
        case d: True
        have t: "t = s\<lparr>orders := ?os, lots := update_rows (\<lambda>l. lot_order l = po_id po \<and> lot_remaining l = 0)
            (\<lambda>l. l\<lparr>lot_status := LotDisputed, lot_closed_at := coalesce (lot_closed_at l) (Some now)\<rparr>) (lots s)\<rparr>"
          using run True advanced d
          by (simp add: apply_clawback_def Let_def bind_tx_def update_orders_def update_lots_def split: if_splits)
        have found: "find_order t (po_id po) = Some (?f po)"
          using find_updated_order [OF po, of ?f] by (simp add: t claw_order_def)
        show ?thesis
        proof (rule disputed_orderly [OF o _ t])
          fix l assume l: "l \<in> set (lots t)" "lot_order l = po_id po"
          have f: "find_order t (lot_order l) = Some (?f po)" using found l(2) by simp
          have "po_refunded_credits (?f po) = po_pack_credits (?f po)"
            by (rule committed_lot(4) [OF c l(1) f]) (simp add: claw_order_def cash_status_def d)
          with committed_lot(1,2) [OF c l(1) f] l(2)
          have "lot_clawed l + debt_target t (po_id po) = lot_original l" by simp
          moreover have "debt_target t = debt_target s" by (simp add: t fun_eq_iff)
          ultimately show "lot_clawed l + debt_target s (po_id po) = lot_original l" by simp
        qed
      next
        case False
        then have "t = s\<lparr>orders := ?os\<rparr>"
          using run True advanced by (auto simp: apply_clawback_def Let_def bind_tx_def update_orders_def split: if_splits)
        with o show ?thesis by simp
      qed
    next
      case False
      with run True o show ?thesis by (simp add: apply_clawback_def Let_def)
    qed
  next
    case False
    let ?terminal = "dispute \<or> ?atoms = po_pack_credits po"
    let ?delta = "?atoms - po_refunded_credits po"
    let ?f = "claw_order pi ch cus amount ?cash ?atoms ?status"
    from run False obtain removed u where w: "withdraw_pack dispute ?terminal ?delta now clock po s = Inr (removed, u)"
      and t: "t = u\<lparr>orders := update_rows (\<lambda>r. po_id r = po_id po) ?f (orders u)\<rparr>"
      by (auto simp: apply_clawback_def Let_def bind_tx_Inr_iff update_orders_def lift_tx_def bind_result_Inr_iff)
    have "orderly u"
    proof (cases "lot_of_order s (po_id po)")
      case None
      with w o show ?thesis by (simp add: withdraw_pack_def)
    next
      case (Some l0)
      from lot_of_order_Some [OF Some] have l0: "l0 \<in> set (lots s)" "lot_order l0 = po_id po" by auto
      have frames: "orders u = orders s" using keepsD [OF keeps_withdraw _ w] by blast
      have found: "find_order t (po_id po) = Some (?f po)"
        using find_updated_order [of u po ?f] po frames by (simp add: t claw_order_def find_order_def)
      have credits: "?atoms \<le> po_pack_credits po"
        using find_order_Some [OF found] c
        by (auto simp: consistent_def rows_ok_def list_all_iff order_check_def claw_order_def)
      show ?thesis
      proof (rule withdrawal_orderly [OF o keys rows Some _ w])
        show "0 < ?delta" using False by simp
        have "lot_status l0 \<in> {LotRefunded, LotDisputed} \<Longrightarrow> po_refunded_credits po = po_pack_credits po"
          using eqs [OF l0] o l0 by (auto simp: orderly_def)
        with credits False show "?terminal \<or> lot_status l0 \<notin> {LotRefunded, LotDisputed}" by auto
        fix l assume terminal: ?terminal and l: "l \<in> set (lots u)" "lot_order l = po_id po"
        have "po_refunded_credits (?f po) = po_pack_credits po"
          using terminal by (auto simp: claw_order_def target_atoms_def)
        moreover have "find_order t (lot_order l) = Some (?f po)" using found l(2) by simp
        moreover have "l \<in> set (lots t)" using l(1) by (simp add: t)
        moreover have "debt_target t = debt_target u" by (simp add: t fun_eq_iff)
        ultimately show "lot_clawed l + debt_target u (po_id po) = lot_original l"
          using committed_lot(1,2) [OF c, of l "?f po"] l(2) by (simp add: claw_order_def)
      qed
    qed
    then show ?thesis by (simp add: t)
  qed
qed

section \<open>Where a step can end\<close>

definition leads :: "('a \<Rightarrow> 's \<Rightarrow> bool) \<Rightarrow> ('s, 'a) step \<Rightarrow> 's \<Rightarrow> bool" where
  "leads Q m s \<longleftrightarrow> (\<forall>x t. m s = Inr (x, t) \<longrightarrow> Q x t)"

named_theorems leads_rules

lemma leadsD: "leads Q m s \<Longrightarrow> m s = Inr (x, t) \<Longrightarrow> Q x t"
  unfolding leads_def by blast

lemma leads_bind [leads_rules]:
  "(\<And>x t. m s = Inr (x, t) \<Longrightarrow> leads Q (f x) t) \<Longrightarrow> leads Q (bind_tx m f) s"
  unfolding leads_def bind_tx_Inr_iff by blast

lemma leads_gets [leads_rules]: "leads Q (f (g s)) s \<Longrightarrow> leads Q (bind_tx (gets g) f) s"
  by (simp add: leads_def)

lemma leads_lift [leads_rules]:
  "(\<And>x. r = Inr x \<Longrightarrow> leads Q (f x) s) \<Longrightarrow> leads Q (bind_tx (lift_tx r) f) s"
  by (cases r) (simp_all add: leads_def)

lemma leads_pure [leads_rules]: "Q x s \<Longrightarrow> leads Q (ret x) s" "leads Q (throw e) s"
  by (simp_all add: leads_def)

lemma leads_if [leads_rules]:
  "(b \<Longrightarrow> leads Q m s) \<Longrightarrow> (\<not> b \<Longrightarrow> leads Q n s) \<Longrightarrow> leads Q (if b then m else n) s"
  by simp

lemma leads_option [leads_rules]:
  "(v = None \<Longrightarrow> leads Q n s) \<Longrightarrow> (\<And>x. v = Some x \<Longrightarrow> leads Q (f x) s) \<Longrightarrow>
   leads Q (case v of None \<Rightarrow> n | Some x \<Rightarrow> f x) s"
  by (cases v) simp_all

lemma leads_pair [leads_rules]:
  "(\<And>x y. v = (x, y) \<Longrightarrow> leads Q (f x y) s) \<Longrightarrow> leads Q (case v of (x, y) \<Rightarrow> f x y) s"
  by (cases v) simp

lemma leads_bool [leads_rules]:
  "(b \<Longrightarrow> leads Q m s) \<Longrightarrow> (\<not> b \<Longrightarrow> leads Q n s) \<Longrightarrow> leads Q (case b of True \<Rightarrow> m | False \<Rightarrow> n) s"
  by (cases b) simp_all

lemma keeps_accounts_clawback:
  "keeps (\<lambda>s. accounts s = as) (apply_clawback dispute now clock pi ch cus amount refunded po)"
proof -
  have "keeps (\<lambda>s. accounts s = as) (update_lots P f)"
    "keeps (\<lambda>s. accounts s = as) (update_debts Q g)" "keeps (\<lambda>s. accounts s = as) (update_orders R k)"
    "keeps (\<lambda>s. accounts s = as) (modify (\<lambda>s. s\<lparr>pack_debts := h s\<rparr>))" for P f Q g h R k
    by (auto simp: keeps_def update_lots_def update_debts_def update_orders_def)
  then show ?thesis
    unfolding apply_clawback_def withdraw_pack_def current_lot_def claw_lot_def owe_pack_debt_def Let_def
    by (intro keeps_rules)
qed

lemma claim_customer_result:
  assumes "claim_customer a customer s = Inr (x, t)"
  shows "t = s\<lparr>accounts := accounts t\<rparr>" "rows_ok s \<Longrightarrow> rows_ok t" "acc_id ` set (accounts t) = acc_id ` set (accounts s)"
proof -
  let ?as = "update_rows (\<lambda>r. acc_id r = acc_id a) (\<lambda>r. r\<lparr>acc_customer := Some customer\<rparr>) (accounts s)"
  have ids: "acc_id ` set ?as = acc_id ` set (accounts s)" by (simp add: image_update_rows)
  have "account_check (if acc_id r = acc_id a then r\<lparr>acc_customer := Some customer\<rparr> else r) = account_check r" for r
    by (simp add: account_check_def)
  then have rows: "rows_ok (s\<lparr>accounts := ?as\<rparr>) = rows_ok s"
    by (simp add: rows_ok_def list_all_iff ball_update_rows)
  from assms consider "t = s" | "t = s\<lparr>accounts := ?as\<rparr>"
    by (auto simp: claim_customer_def update_accounts_def split: if_splits)
  then show "t = s\<lparr>accounts := accounts t\<rparr>" "rows_ok s \<Longrightarrow> rows_ok t"
    "acc_id ` set (accounts t) = acc_id ` set (accounts s)"
    by (cases; simp add: ids rows)+
qed

lemma keys_ok_accounts:
  "keys_ok s \<Longrightarrow> keys_ok t \<Longrightarrow> accounts t = as \<Longrightarrow> keys_ok (s\<lparr>accounts := as\<rparr>)"
  by (auto simp: keys_ok_def)

lemma lockedOrder_result:
  assumes "lockedOrder orderId accountId s = Inr (Some (a, po), t)"
  shows "t = s" "find_order s orderId = Some po" "po_id po = orderId" "po_account po = accountId"
    "find_account s accountId = Some a" "acc_id a = accountId"
  using assms find_order_Some [of s orderId po] find_account_Some [of s accountId a]
  by (auto simp: lockedOrder_def split: option.splits if_splits)

lemma settled_lot_order:
  assumes "settled s" "find_order s (po_id po) = Some po" "l \<in> set (lots s)" "lot_order l = po_id po"
  shows "po_pack_credits po = lot_original l \<and> po_refunded_credits po = lot_clawed l + debt_target s (po_id po) \<and>
    lot_account l = po_account po"
  using lot_order_row [OF assms(1) [unfolded settled_def] assms(3)] assms(2,4) by auto

text \<open>Where a clawback ends: nothing, an incident, or a withdrawal from the locked order.\<close>

lemma lockedOrder_state: "lockedOrder orderId accountId s = Inr (v, t) \<Longrightarrow> t = s"
  by (simp add: lockedOrder_def)

lemma lift_tx_state: "lift_tx r s = Inr (v, t) \<longleftrightarrow> r = Inr v \<and> t = s"
  by (cases r) auto

definition withdraws :: "int \<Rightarrow> int \<Rightarrow> store \<Rightarrow> store \<Rightarrow> bool" where
  "withdraws now clock s t \<longleftrightarrow> (\<exists>dispute orderId accountId a po pi ch cus amount refunded x s1 x'.
     lockedOrder orderId accountId s = Inr (Some (a, po), s) \<and> claim_customer a cus s = Inr (x, s1) \<and>
     apply_clawback dispute now clock pi ch cus amount refunded po s1 = Inr (x', t))"

definition incident_only :: "store \<Rightarrow> store \<Rightarrow> bool" where
  "incident_only s t \<longleftrightarrow> (\<exists>v. t = s\<lparr>incidents := v\<rparr>)"

lemma incident_only_same: "incident_only s s"
  unfolding incident_only_def by (rule exI [of _ "incidents s"]) simp

lemma recordIncident_result: "recordIncident kind ev k invoice acc det s = Inr (x, t) \<Longrightarrow> incident_only s t"
  by (auto simp: recordIncident_def Let_def incident_only_def split: if_splits)

lemma clawback_ends:
  "leads (\<lambda>r t. incident_only s t \<or> withdraws now clock s t) (pack_clawback productLine event now clock) s"
  unfolding pack_clawback_def Let_def
  apply (intro leads_rules)
  apply (simp_all add: incident_only_same recordIncident_result lift_tx_state)
  subgoal by (auto dest!: lockedOrder_state simp: incident_only_same)
  subgoal by (auto dest!: lockedOrder_state recordIncident_result)
  subgoal premises p for raw a b x orderId y accountId
    using p lockedOrder_state unfolding withdraws_def by metis
  done

lemma incident_only_orderly: "incident_only s t \<Longrightarrow> orderly s \<Longrightarrow> orderly t"
  by (auto simp: incident_only_def)

lemma clawback_orderly:
  assumes s: "settled s" and run: "pack_clawback productLine event now clock s = Inr (r, t)" and c: "consistent t"
  shows "orderly t"
proof -
  have o: "orderly s" using s by (rule settled_orderly)
  from leadsD [OF clawback_ends run] show ?thesis
  proof
    assume "incident_only s t" then show ?thesis using o by (rule incident_only_orderly)
  next
    assume "withdraws now clock s t"
    then obtain dispute orderId accountId a po pi ch cus amount refunded x s1 x' where
      locked: "lockedOrder orderId accountId s = Inr (Some (a, po), s)" and claim: "claim_customer a cus s = Inr (x, s1)"
      and apply': "apply_clawback dispute now clock pi ch cus amount refunded po s1 = Inr (x', t)"
      unfolding withdraws_def by blast
    note l = lockedOrder_result [OF locked] and cl = claim_customer_result [OF claim]
    have inv: "rows_ok s" "keys_ok s" using s ledger_invD by (auto simp: settled_def)
    have acc: "accounts t = accounts s1" by (rule keepsD [OF keeps_accounts_clawback refl apply'])
    have po: "find_order s (po_id po) = Some po" using l by simp
    let ?u = "s\<lparr>accounts := accounts s1\<rparr>"
    have "orderly ?u" "find_order ?u (po_id po) = Some po" using o po by simp_all
    moreover have "keys_ok ?u" using keys_ok_accounts [OF inv(2) _ acc] c by (simp add: consistent_def)
    moreover have "po_pack_credits po = lot_original l \<and> po_refunded_credits po = lot_clawed l + debt_target ?u (po_id po)"
      if "l \<in> set (lots ?u)" "lot_order l = po_id po" for l
      using settled_lot_order [OF s po] that by simp
    ultimately show "orderly t"
      using apply_clawback_orderly [OF _ _ cl(2) [OF inv(1)] _ _ apply' c] cl(1) by metis
  qed
qed

section \<open>A payment keeps the invariant\<close>

definition same_tables :: "store \<Rightarrow> store \<Rightarrow> bool" where
  "same_tables u t \<longleftrightarrow> accounts t = accounts u \<and> orders t = orders u \<and> incidents t = incidents u \<and>
     map lot_id (lots t) = map lot_id (lots u) \<and> map lot_order (lots t) = map lot_order (lots u) \<and>
     map (\<lambda>l. (lot_account l, lot_original l, lot_expires l)) (lots t) =
     map (\<lambda>l. (lot_account l, lot_original l, lot_expires l)) (lots u)"

lemma keeps_same_tables:
  "keeps (same_tables u) (update_debts Q g)" "keeps (same_tables u) (modify (\<lambda>s. s\<lparr>allocations := h s, next_allocation := n s\<rparr>))"
  "keeps (same_tables u) randomUUID" "keeps (same_tables u) (insert_debit d)"
  "(\<And>l. lot_id (f l) = lot_id l \<and> lot_order (f l) = lot_order l \<and> lot_account (f l) = lot_account l \<and>
      lot_original (f l) = lot_original l \<and> lot_expires (f l) = lot_expires l) \<Longrightarrow> keeps (same_tables u) (update_lots P f)"
  by (auto simp: keeps_def same_tables_def update_debts_def randomUUID_def insert_debit_def update_lots_def
      map_update_rows split: if_splits)

lemma keeps_lot_debt_loop: "keeps (same_tables u) (lot_debt_loop now epoch k ds available)"
proof (induction ds arbitrary: available)
  case (Cons d ds)
  show ?case
    unfolding lot_debt_loop.simps Let_def recordDebtCollection_def insert_allocation_def
    by (intro keeps_rules keeps_same_tables Cons.IH)
qed (simp add: keeps_pure)

lemma keeps_collect_from_lot: "keeps (same_tables u) (collectPackDebtsFromLot now acc k available)"
  unfolding collectPackDebtsFromLot_def Let_def
  by (intro keeps_rules keeps_same_tables keeps_lot_debt_loop) simp

lemma no_lot_no_debt:
  assumes "settled s" "lot_of_order s k = None"
  shows "find_debt s k = None" "collects s key \<noteq> Some k"
proof -
  note i = ledger_invD [OF assms(1) [unfolded settled_def]]
  show none: "find_debt s k = None"
  proof (rule ccontr)
    assume "find_debt s k \<noteq> None"
    then obtain d where "find_debt s k = Some d" by auto
    with find_debt_Some [OF this] i(5) have "k \<in> lot_order ` set (lots s)" by (auto simp: debts_inv_def)
    with assms(2) show False by (simp add: lot_of_order_None)
  qed
  show "collects s key \<noteq> Some k"
    using collects_debt [OF i(3), of key k] none by (auto simp: find_debt_def find_None)
qed

lemma new_lot_facts:
  assumes "order_check po" "status = (if po_payment_status po = Pending then Paid else po_payment_status po)"
    and "l = new_lot k po status at clock"
  shows "lot_check l" "lot_status l = LotActive \<longrightarrow> lot_expired l = 0" "lot_id l = k" "lot_order l = po_id po"
    "lot_account l = po_account po" "lot_original l = po_pack_credits po" "lot_clawed l = po_refunded_credits po"
    "lot_remaining l + lot_expired l + lot_clawed l = lot_original l \<or> lot_status l \<in> {LotRefunded, LotDisputed}"
    "lot_status l \<in> {LotRefunded, LotDisputed} \<longrightarrow> lot_clawed l = lot_original l \<and> lot_remaining l = 0 \<and> lot_expired l = 0"
proof -
  have full: "po_payment_status po = Disputed \<Longrightarrow> po_refunded_credits po = po_pack_credits po"
    using assms(1) by (simp add: order_check_def)
  have bounds: "0 < po_pack_credits po" "bigint (po_pack_credits po)" "0 \<le> po_refunded_credits po"
    "po_refunded_credits po \<le> po_pack_credits po"
    using assms(1) by (simp_all add: order_check_def bigint_def)
  have disputed: "status = Disputed \<longleftrightarrow> po_payment_status po = Disputed" using assms(2) by auto
  show "lot_check l" "lot_status l = LotActive \<longrightarrow> lot_expired l = 0"
    "lot_remaining l + lot_expired l + lot_clawed l = lot_original l \<or> lot_status l \<in> {LotRefunded, LotDisputed}"
    "lot_status l \<in> {LotRefunded, LotDisputed} \<longrightarrow> lot_clawed l = lot_original l \<and> lot_remaining l = 0 \<and> lot_expired l = 0"
    using bounds full disputed by (auto simp: assms(3) new_lot_def Let_def lot_check_def)
qed (simp_all add: assms(3) new_lot_def Let_def)

text \<open>The state in which a new lot pays the debts of its account.\<close>

definition funded :: "pack_order list \<Rightarrow> account list \<Rightarrow> funding_lot \<Rightarrow> store \<Rightarrow> store" where
  "funded os as l s = s\<lparr>orders := os, accounts := as, uuid_next := uuid_next s + 1, lots := lots s @ [l]\<rparr>"

lemma funded_frame [simp]:
  "lots (funded os as l s) = lots s @ [l]" "orders (funded os as l s) = os" "accounts (funded os as l s) = as"
  "debits (funded os as l s) = debits s" "allocations (funded os as l s) = allocations s"
  "pack_debts (funded os as l s) = pack_debts s" "clawback_debts (funded os as l s) = clawback_debts s"
  "ledger (funded os as l s) = ledger s" "incidents (funded os as l s) = incidents s"
  "next_allocation (funded os as l s) = next_allocation s"
  "debt_target (funded os as l s) = debt_target s" "debt_released (funded os as l s) = debt_released s"
  "active_debt (funded os as l s) = active_debt s" "collects (funded os as l s) = collects s"
  "allocated_outstanding (funded os as l s) = allocated_outstanding s"
  "collection_outstanding (funded os as l s) = collection_outstanding s"
  "debit_state_ok (funded os as l s) = debit_state_ok s" "find_debt (funded os as l s) = find_debt s"
  by (simp_all add: funded_def fun_eq_iff)

lemma funded_inv:
  assumes s: "settled s" and po: "find_order s (po_id po) = Some po" "lot_of_order s (po_id po) = None"
    and l: "l = new_lot k po status at clock" "status = (if po_payment_status po = Pending then Paid else po_payment_status po)"
    and os: "os = update_rows (\<lambda>r. po_id r = po_id po) f (orders s)"
      "\<And>r. po_id (f r) = po_id r \<and> po_account (f r) = po_account r \<and> po_pack_credits (f r) = po_pack_credits r \<and>
        po_refunded_credits (f r) = po_refunded_credits r"
    and as: "acc_id ` set as = acc_id ` set (accounts s)"
    and t: "consistent t" "same_tables (funded os as l s) t"
  shows "ledger_inv (\<lambda>_. 0) (\<lambda>_. 0) {} (funded os as l s)"
proof -
  let ?u = "funded os as l s"
  note i = ledger_invD [OF s [unfolded settled_def]]
  have tables: "accounts t = as" "orders t = os" "incidents t = incidents s"
    "map lot_id (lots t) = map lot_id (lots s) @ [k]" "map lot_order (lots t) = map lot_order (lots s) @ [po_id po]"
    using t(2) by (simp_all add: same_tables_def l(1) new_lot_def Let_def)
  have ct: "rows_ok t" "keys_ok t" using t(1) by (simp_all add: consistent_def)
  have oc: "order_check po" using find_order_Some [OF po(1)] i(1) by (simp add: rows_ok_def list_all_iff)
  note lf = new_lot_facts [OF oc l(2,1)]
  have pairs: "(\<lambda>r. (po_id r, po_account r)) ` set os = (\<lambda>r. (po_id r, po_account r)) ` set (orders s)"
    unfolding os(1) using os(2) by (intro image_update_rows) simp
  have po_in: "po \<in> set (orders s)" using find_order_Some [OF po(1)] by simp
  have fresh: "k \<notin> lot_id ` set (lots s)" "po_id po \<notin> lot_order ` set (lots s)"
    using ct(2) po(2) by (auto simp: keys_ok_def tables lot_of_order_None)
  have rows: "rows_ok ?u" using i(1) ct(1) lf(1) by (simp add: rows_ok_def tables)
  have keys: "keys_ok ?u"
    using i(2) ct(2) lf(3,4) by (simp add: keys_ok_def tables)
  have refs: "references_ok ?u"
  proof -
    have "po_account r \<in> acc_id ` set (accounts s)" if "r \<in> set os" for r
    proof -
      have "(po_id r, po_account r) \<in> (\<lambda>r. (po_id r, po_account r)) ` set (orders s)"
        using imageI [OF that, of "\<lambda>r. (po_id r, po_account r)"] pairs by simp
      then show ?thesis using i(3) by (auto simp: references_ok_def list_all_iff)
    qed
    moreover have "(lot_order l, lot_account l) \<in> (\<lambda>r. (po_id r, po_account r)) ` set (orders s)"
      using po_in lf(4,5) by force
    moreover have "case al_source a of FromSubscription e \<Rightarrow> True
        | FromLot j \<Rightarrow> (j, al_account a) \<in> (\<lambda>l. (lot_id l, lot_account l)) ` set (lots s @ [l])"
      if "a \<in> set (allocations s)" for a
      using i(3) that by (auto simp: references_ok_def list_all_iff split: source.splits)
    ultimately show ?thesis
      using i(3) unfolding references_ok_def
      by (simp add: pairs as list_all_iff cong: debit_kind.case_cong source.case_cong)
  qed
  have nodebt: "find_debt s (po_id po) = None" "\<And>key. collects s key \<noteq> Some (po_id po)"
    using no_lot_no_debt [OF s po(2)] by blast+
  then have zero: "debt_target s (po_id po) = 0" "debt_released s (po_id po) = 0" "active_debt s (po_id po) = 0"
    by (simp_all add: debt_target_def debt_released_def active_debt_def)
  have unused: "al_source a \<noteq> FromLot k" if "a \<in> set (allocations s)" for a
    using allocation_lot [OF s [unfolded settled_def] that, of k] fresh(1) by auto
  then have free: "allocated_outstanding s k = 0" by (simp add: allocated_outstanding_def cong: map_cong)
  have "\<exists>r \<in> set os. po_id r = j \<and> po_account r = c \<and> po_pack_credits r = x \<and> po_refunded_credits r = y"
    if "\<exists>r \<in> set (orders s). po_id r = j \<and> po_account r = c \<and> po_pack_credits r = x \<and> po_refunded_credits r = y" for j c x y
  proof -
    from that obtain r where r: "r \<in> set (orders s)" "po_id r = j" "po_account r = c" "po_pack_credits r = x"
      "po_refunded_credits r = y" by blast
    let ?r = "if po_id r = po_id po then f r else r"
    have "?r \<in> set os" unfolding os(1) set_update_rows using r(1) by (rule imageI)
    moreover have "po_id ?r = j" "po_account ?r = c" "po_pack_credits ?r = x" "po_refunded_credits ?r = y"
      using r os(2) by simp_all
    ultimately show ?thesis by blast
  qed
  note rows_of = this
  have "lots_inv (\<lambda>_. 0) ?u"
    unfolding lots_inv_def
  proof (intro ballI)
    fix r assume "r \<in> set (lots ?u)"
    then consider "r \<in> set (lots s)" | "r = l" by auto
    then show "(\<exists>po\<in>set (orders ?u). po_id po = lot_order r \<and> po_account po = lot_account r \<and>
           po_pack_credits po = lot_original r \<and>
           po_refunded_credits po = lot_clawed r + debt_target ?u (lot_order r)) \<and>
         funding_gap ?u r = 0 \<and> (lot_status r = LotActive \<longrightarrow> lot_expired r = 0) \<and>
         (0 < lot_remaining r \<longrightarrow> active_debt ?u (lot_order r) = 0) \<and>
         (lot_status r \<in> {LotRefunded, LotDisputed} \<longrightarrow>
          lot_clawed r + debt_target ?u (lot_order r) = lot_original r)"
    proof cases
      case 1
      have "funding_gap ?u r = funding_gap s r" by (simp add: funding_gap_def)
      with i(4) 1 rows_of show ?thesis by (simp add: lots_inv_def)
    next
      case 2
      have "\<exists>r \<in> set os. po_id r = po_id po \<and> po_account r = po_account po \<and>
          po_pack_credits r = po_pack_credits po \<and> po_refunded_credits r = po_refunded_credits po"
        by (rule rows_of) (use po_in in blast)
      moreover have "funding_gap ?u l = 0"
        using lf(3,4,6,7,8,9) zero free by (auto simp: funding_gap_def)
      ultimately show ?thesis using lf zero 2 by simp
    qed
  qed
  moreover have "debts_inv (\<lambda>_. 0) ?u" using i(5) by (auto simp: debts_inv_def)
  moreover have "collections_inv ?u"
    using i(7) nodebt(2) lf(3,4) unused by (auto simp: collections_inv_def)
  ultimately show ?thesis
    using rows keys refs i(6) by (simp add: ledger_inv_def debits_inv_def)
qed

lemma funded_find_account: "find_account (funded os as l s) = (\<lambda>k. find (\<lambda>r. acc_id r = k) as)"
  by (simp add: find_account_def fun_eq_iff)

text \<open>What a payment does to the order, in any state of the payment.\<close>

lemma pay_order_frame [simp]:
  "po_id (pay_order pi ch cus amount st ev r) = po_id r" "po_account (pay_order pi ch cus amount st ev r) = po_account r"
  "po_pack_credits (pay_order pi ch cus amount st ev r) = po_pack_credits r"
  "po_refunded_credits (pay_order pi ch cus amount st ev r) = po_refunded_credits r"
  by (simp_all add: pay_order_def)

text \<open>Where a payment ends: an incident, an order that was already funded, or a new lot.\<close>

definition repeats :: "store \<Rightarrow> store \<Rightarrow> bool" where
  "repeats s t \<longleftrightarrow> (\<exists>os as. t = s\<lparr>orders := os, accounts := as\<rparr>)"

definition funds :: "string \<Rightarrow> int \<Rightarrow> int \<Rightarrow> store \<Rightarrow> store \<Rightarrow> bool" where
  "funds orderId now clock s t \<longleftrightarrow> (\<exists>accountId a po pi ch cus amount eventCreated status x s1 r.
     lockedOrder orderId accountId s = Inr (Some (a, po), s) \<and> lot_of_order s orderId = None \<and>
     status = (if po_payment_status po = Pending then Paid else po_payment_status po) \<and>
     claim_customer a cus (s\<lparr>orders := update_rows (\<lambda>r. po_id r = po_id po)
       (pay_order pi ch cus amount status eventCreated) (orders s)\<rparr>) = Inr (x, s1) \<and>
     fund_order po status eventCreated accountId now clock s1 = Inr (r, t))"

lemma paid_again:
  assumes "lockedOrder orderId accountId s = Inr (v, u)" "update_orders P f u = Inr (x, u')"
    "claim_customer a cus u' = Inr (y, t)"
  shows "repeats s t"
proof -
  have "t = s\<lparr>orders := update_rows P f (orders s), accounts := accounts t\<rparr>"
    using assms lockedOrder_state [OF assms(1)] claim_customer_result(1) [OF assms(3)] by (simp add: update_orders_def)
  then show ?thesis unfolding repeats_def by blast
qed

lemma paid_first:
  assumes "lockedOrder orderId accountId s = Inr (Some (a, po), u)" "lot_of_order u orderId = None"
    "update_orders (\<lambda>r. po_id r = po_id po) (pay_order pi ch cus amount
       (if po_payment_status po = Pending then Paid else po_payment_status po) eventCreated) u = Inr (x, u')"
    "claim_customer a cus u' = Inr (y, v)"
  shows "leads (\<lambda>r t. incident_only s t \<and> pr_outcome r = Ignored \<or>
      repeats s t \<and> pr_outcome r = AlreadyDone \<or> funds orderId now clock s t)
    (fund_order po (if po_payment_status po = Pending then Paid else po_payment_status po) eventCreated accountId now clock) v"
proof -
  have u: "u = s" using assms(1) by (rule lockedOrder_state)
  have "u' = s\<lparr>orders := update_rows (\<lambda>r. po_id r = po_id po) (pay_order pi ch cus amount
       (if po_payment_status po = Pending then Paid else po_payment_status po) eventCreated) (orders s)\<rparr>"
    using assms(3) by (simp add: update_orders_def u)
  with assms u show ?thesis unfolding leads_def funds_def by blast
qed

lemma payment_ends:
  "leads (\<lambda>r t. incident_only s t \<and> pr_outcome r = Ignored \<or> repeats s t \<and> pr_outcome r = AlreadyDone \<or>
     (\<exists>obj orderId rest. eventObject event = Some obj \<and> orderMetadata productLine obj = Some (orderId, rest) \<and>
        funds orderId now clock s t))
     (paymentSucceeded productLine event now clock) s"
  unfolding paymentSucceeded_def Let_def
  apply (intro leads_rules)
  apply (simp_all add: incident_only_same recordIncident_result lift_tx_state)
  apply (simp_all add: ignored_def handled_def)
  subgoal by (auto dest!: lockedOrder_state recordIncident_result)
  subgoal by (auto dest!: lockedOrder_state recordIncident_result)
  subgoal by (auto dest!: lockedOrder_state recordIncident_result)
  subgoal by (auto dest!: lockedOrder_state recordIncident_result)
  subgoal by (auto dest!: lockedOrder_state simp: incident_only_same)
  subgoal premises p for obj x orderId y accountId packKey pi xa t xb a po xc ta aa b aaa ba customerId aab bb
      chargeId amount eventCreated tc td
    using p paid_again [of orderId accountId s _ ta] by metis
  subgoal premises p for obj x orderId y accountId packKey pi xa t xb a po xc ta aa b aaa ba customerId aab bb
      chargeId amount eventCreated tc td
    using paid_first [OF p(6) p(17) p(19) p(20), of now clock] by (simp split: if_splits)
  subgoal by (auto dest!: lockedOrder_state recordIncident_result)
  done


text \<open>The state in which a payment has funded its order: the new lot, and what it paid of the debts.\<close>

lemma funds_ends:
  assumes "funds orderId now clock s t"
  obtains po pi ch cus amount at status as l u where
    "find_order s orderId = Some po" "lot_of_order s orderId = None" "find_account s (po_account po) \<noteq> None"
    "status = (if po_payment_status po = Pending then Paid else po_payment_status po)"
    "acc_id ` set as = acc_id ` set (accounts s)" "l = new_lot (uuid_source s (uuid_next s)) po status at clock"
    "u = funded (update_rows (\<lambda>r. po_id r = po_id po) (pay_order pi ch cus amount status at) (orders s)) as l s"
    "t = u \<or> 0 < lot_remaining l \<and>
       (\<exists>got. collectPackDebtsFromLot now (po_account po) (lot_id l) (lot_remaining l) u = Inr (got, t))"
proof -
  from assms obtain accountId a po pi ch cus amount at status x s1 r where
    locked: "lockedOrder orderId accountId s = Inr (Some (a, po), s)" and none: "lot_of_order s orderId = None"
    and status: "status = (if po_payment_status po = Pending then Paid else po_payment_status po)"
    and claim: "claim_customer a cus (s\<lparr>orders := update_rows (\<lambda>r. po_id r = po_id po)
       (pay_order pi ch cus amount status at) (orders s)\<rparr>) = Inr (x, s1)"
    and fund: "fund_order po status at accountId now clock s1 = Inr (r, t)"
    unfolding funds_def by blast
  note lk = lockedOrder_result [OF locked] and cl = claim_customer_result [OF claim]
  let ?os = "update_rows (\<lambda>r. po_id r = po_id po) (pay_order pi ch cus amount status at) (orders s)"
  let ?k = "uuid_source s (uuid_next s)"
  let ?l = "new_lot ?k po status at clock"
  let ?u = "funded ?os (accounts s1) ?l s"
  have s1: "s1 = s\<lparr>orders := ?os, accounts := accounts s1\<rparr>" using cl(1) by simp
  have step: "randomUUID s1 = Inr (?k, s1\<lparr>uuid_next := Suc (uuid_next s1)\<rparr>)"
    "insert_lot ?l (s1\<lparr>uuid_next := Suc (uuid_next s1)\<rparr>) = Inr ((), ?u)"
    by (simp_all add: randomUUID_def insert_lot_def funded_def) (subst s1, simp)+
  from fund have ends: "(if lot_status ?l = LotActive \<and> 0 < lot_remaining ?l
      then bind_tx (collectPackDebtsFromLot now accountId ?k (lot_remaining ?l)) (\<lambda>_. ret ()) else ret ()) ?u = Inr ((), t)"
    unfolding fund_order_def Let_def bind_tx_Inr_iff by (auto simp: step simp del: if_split)
  have kl: "lot_id ?l = ?k" by (simp add: new_lot_def Let_def)
  have "t = ?u \<or> 0 < lot_remaining ?l \<and>
       (\<exists>got. collectPackDebtsFromLot now (po_account po) (lot_id ?l) (lot_remaining ?l) ?u = Inr (got, t))"
  proof (cases "lot_status ?l = LotActive \<and> lot_remaining ?l > 0")
    case False
    then show ?thesis using ends unfolding if_not_P [OF False] by simp
  next
    case True
    then show ?thesis using ends unfolding if_P [OF True] bind_tx_Inr_iff lk(4) kl by auto
  qed
  moreover have "acc_id ` set (accounts s1) = acc_id ` set (accounts s)" using cl(3) by simp
  ultimately show thesis using that [of po status "accounts s1" ?l at ?u pi ch cus amount] lk none status by simp
qed

lemma funds_same_tables:
  assumes "t = u \<or> 0 < x \<and> (\<exists>got. collectPackDebtsFromLot now acc k x u = Inr (got, t))"
  shows "same_tables u t"
proof -
  have refl: "same_tables u u" by (simp add: same_tables_def)
  from assms keepsD [OF keeps_collect_from_lot refl] refl show ?thesis by blast
qed

lemma funding_orderly:
  assumes s: "settled s" and f: "funds orderId now clock s t" and c: "consistent t"
  shows "orderly t"
proof -
  from f obtain po pi ch cus amount at status as l u where
    po': "find_order s orderId = Some po" "lot_of_order s orderId = None" and acc': "find_account s (po_account po) \<noteq> None"
    and status: "status = (if po_payment_status po = Pending then Paid else po_payment_status po)"
    and as: "acc_id ` set as = acc_id ` set (accounts s)" and l: "l = new_lot (uuid_source s (uuid_next s)) po status at clock"
    and u: "u = funded (update_rows (\<lambda>r. po_id r = po_id po) (pay_order pi ch cus amount status at) (orders s)) as l s"
    and ends: "t = u \<or> 0 < lot_remaining l \<and>
       (\<exists>got. collectPackDebtsFromLot now (po_account po) (lot_id l) (lot_remaining l) u = Inr (got, t))"
    by (rule funds_ends)
  have po: "find_order s (po_id po) = Some po" "lot_of_order s (po_id po) = None"
    using po' find_order_Some [OF po'(1)] by simp_all
  have inv: "settled u"
    unfolding settled_def u
    by (rule funded_inv [OF s po l status refl _ as c]) (use funds_same_tables [OF ends] u in simp_all)
  have kl: "lot_order l = po_id po" "lot_account l = po_account po" by (simp_all add: l new_lot_def Let_def)
  from ends show ?thesis
  proof (elim disjE conjE exE)
    assume "t = u" then show ?thesis using inv settled_orderly by metis
  next
    fix got assume rem: "0 < lot_remaining l"
      and collect: "collectPackDebtsFromLot now (po_account po) (lot_id l) (lot_remaining l) u = Inr (got, t)"
    have nodebt: "find_debt s (po_id po) = None" "\<And>key. collects s key \<noteq> Some (po_id po)"
      using no_lot_no_debt [OF s po(2)] by blast+
    have "active_debt s (po_id po) = 0" using nodebt(1) by (simp add: active_debt_def debt_target_def debt_released_def)
    with nodebt have pay: "may_pay u (po_account po) (FromLot (lot_id l))"
      using kl unfolding u by (simp add: may_pay_def)
    from acc' obtain a where "find_account s (po_account po) = Some a" by auto
    from find_account_Some [OF this] have "po_account po \<in> acc_id ` set as" unfolding as by (metis imageI)
    then have acc: "find_account u (po_account po) \<noteq> None"
      unfolding find_account_def find_None u funded_frame by auto
    have "paid_up u {}" by (simp add: paid_up_def)
    moreover have "l \<in> set (lots u)" by (simp add: u)
    ultimately have "settled t"
      using collectPackDebtsFromLot_run [OF inv [unfolded settled_def], of "{}" l "po_account po" "lot_remaining l" now]
        collect kl rem pay acc by (simp add: yields_def settled_def)
    then show ?thesis by (rule settled_orderly)
  qed
qed

end
