(* ===== verification/Ledger_History.thy ===== *)
theory Ledger_History
  imports Complex_Main Pack_Event_Properties Refund_Properties
begin

text \<open>
  Histories of the credit ledger: any sequence of charges, refunds and credit-pack events, in any
  order and with any repetition, each in its transaction (credits.ts, credit-pack-events.ts,
  database.ts). The invariant of the ledger holds after every history, an order is funded once, and
  a clawback withdraws the exact share of the cash that was refunded.
\<close>

section \<open>Each transaction keeps the invariant\<close>

lemma payment_settled:
  assumes s: "settled s"
  shows "settled (snd (transaction (paymentSucceeded productLine event now clock) s))"
proof (rule transaction_settled [OF s])
  fix r t assume run: "paymentSucceeded productLine event now clock s = Inr (r, t)" and c: "consistent t"
  from leadsD [OF payment_ends run] consider "incident_only s t" | "repeats s t" | k where "funds k now clock s t"
    by blast
  then show "orderly t"
  proof cases
    case 1
    then show ?thesis using settled_orderly [OF s] by (rule incident_only_orderly)
  next
    case 2
    then obtain os as where "t = s\<lparr>orders := os, accounts := as\<rparr>" unfolding repeats_def by blast
    then show ?thesis using settled_orderly [OF s] by simp
  next
    case 3
    then show ?thesis by (rule funding_orderly [OF s _ c])
  qed
qed

lemma checkout_settled:
  assumes "settled s"
  shows "settled (snd (transaction (checkoutEvent productLine event) s))"
  by (rule transaction_settled [OF assms]) (rule keepsD [OF keeps_checkout settled_orderly [OF assms]])

lemma clawback_settled:
  assumes "settled s"
  shows "settled (snd (transaction (pack_clawback productLine event now clock) s))"
  by (rule transaction_settled [OF assms]) (rule clawback_orderly [OF assms])

section \<open>Histories\<close>

inductive ledger_step :: "store \<Rightarrow> store \<Rightarrow> bool" where
  charged: "valid_input amount \<Longrightarrow> ledger_step s (snd (charge acc amount keyv now asOf s))"
| refunded: "ledger_step s (snd (refund keyv expected now asOf s))"
| paid: "ledger_step s (snd (transaction (paymentSucceeded productLine event now clock) s))"
| checked_out: "ledger_step s (snd (transaction (checkoutEvent productLine event) s))"
| clawed_back: "ledger_step s (snd (transaction (pack_clawback productLine event now clock) s))"

lemma ledger_step_settled: "ledger_step s t \<Longrightarrow> settled s \<Longrightarrow> settled t"
  by (induction rule: ledger_step.induct)
    (simp_all add: charge_settled refund_settled payment_settled checkout_settled clawback_settled)




section \<open>An order is funded once\<close>

text \<open>
  C13: a payment of an order that has its lot funds nothing: no lot, allocation, debit or debt changes,
  however often and in whatever form the payment is delivered.
\<close>

theorem payment_funds_once:
  assumes "eventObject event = Some obj" "orderMetadata productLine obj = Some (orderId, acc, pack)"
    and "lot_of_order s orderId \<noteq> None"
  shows "\<exists>os as is. snd (transaction (paymentSucceeded productLine event now clock) s) =
    s\<lparr>orders := os, accounts := as, incidents := is\<rparr>"
proof -
  have "\<exists>os as is. t = s\<lparr>orders := os, accounts := as, incidents := is\<rparr>"
    if "paymentSucceeded productLine event now clock s = Inr (r, t)" for r t
    using leadsD [OF payment_ends that]
  proof (elim disjE conjE exE)
    assume "incident_only s t"
    then obtain v where "t = s\<lparr>orders := orders s, accounts := accounts s, incidents := v\<rparr>"
      by (auto simp: incident_only_def)
    then show ?thesis by blast
  next
    assume "repeats s t"
    then obtain os as where "t = s\<lparr>orders := os, accounts := as, incidents := incidents s\<rparr>"
      by (auto simp: repeats_def)
    then show ?thesis by blast
  next
    fix obj' k rest assume k: "eventObject event = Some obj'" "orderMetadata productLine obj' = Some (k, rest)" "funds k now clock s t"
    from k(1,2) assms(1,2) have "k = orderId" by simp
    moreover from k(3) have "lot_of_order s k = None" by (rule funds_ends)
    ultimately show ?thesis using assms(3) by simp
  qed
  moreover have "\<exists>os as is. s = s\<lparr>orders := os, accounts := as, incidents := is\<rparr>"
    by (rule exI [of _ "orders s"], rule exI [of _ "accounts s"], rule exI [of _ "incidents s"]) simp
  ultimately show ?thesis by (auto simp: transaction_def split: sum.splits)
qed


section \<open>The share a clawback withdraws\<close>

lemma target_atoms_ceiling:
  assumes "0 < amount"
  shows "target_atoms dispute amount (target_cash dispute amount refunded po) po =
    (if dispute \<or> amount \<le> max (po_amount_refunded po) refunded then po_pack_credits po
     else ceiling (real_of_int (po_pack_credits po * max (po_amount_refunded po) refunded) / real_of_int amount))"
proof -
  have "(x + amount - 1) div amount = ceiling (real_of_int x / real_of_int amount)" for x
    using assms ceil_div_bounds [of amount x]
    by (intro ceiling_unique [symmetric]) (simp_all add: field_simps flip: of_int_mult of_int_add of_int_diff)
  then show ?thesis by (simp add: target_atoms_def target_cash_def max_def)
qed

lemma apply_clawback_order:
  assumes run: "apply_clawback dispute now clock intent ch cus amount refunded po s = Inr (r, t)"
    and po: "find_order s (po_id po) = Some po"
  obtains po' where "find_order t (po_id po) = Some po'" "po_pack_credits po' = po_pack_credits po"
    "po_refunded_credits po' = max (po_refunded_credits po)
       (target_atoms dispute amount (target_cash dispute amount refunded po) po)"
    "\<not> dispute \<Longrightarrow> po_amount_refunded po \<le> po_amount_refunded po'"
proof -
  let ?cash = "target_cash dispute amount refunded po"
  let ?atoms = "target_atoms dispute amount ?cash po"
  let ?status = "cash_status dispute amount ?cash"
  let ?claw = "\<lambda>x. claw_order intent ch cus amount ?cash x ?status"
  have claw: "po_id (?claw x r) = po_id r" "po_pack_credits (?claw x r) = po_pack_credits r"
    "po_refunded_credits (?claw x r) = x" "po_amount_refunded (?claw x r) = ?cash" for x r
    by (simp_all add: claw_order_def)
  show thesis
  proof (cases "?atoms \<le> po_refunded_credits po")
    case True
    let ?os = "update_rows (\<lambda>r. po_id r = po_id po) (\<lambda>r. ?claw (po_refunded_credits r) r) (orders s)"
    have "orders t = orders s \<or> orders t = ?os"
      using run True by (auto simp: apply_clawback_def Let_def bind_tx_def update_orders_def update_lots_def split: if_splits)
    then show thesis
    proof
      assume "orders t = orders s"
      with po have "find_order t (po_id po) = Some po" by (simp add: find_order_def)
      then show thesis by (rule that) (use True in simp_all)
    next
      assume "orders t = ?os"
      with find_updated_order [OF po, of "\<lambda>r. ?claw (po_refunded_credits r) r"] claw
      have "find_order t (po_id po) = Some (?claw (po_refunded_credits po) po)" by (simp add: find_order_def)
      then show thesis by (rule that) (use True in \<open>simp_all add: claw_order_def target_cash_def\<close>)
    qed
  next
    case False
    from run False obtain removed u where w: "withdraw_pack dispute (dispute \<or> ?atoms = po_pack_credits po)
        (?atoms - po_refunded_credits po) now clock po s = Inr (removed, u)"
      and t: "orders t = update_rows (\<lambda>r. po_id r = po_id po) (?claw ?atoms) (orders u)"
      by (auto simp: apply_clawback_def Let_def bind_tx_Inr_iff update_orders_def lift_tx_def bind_result_Inr_iff)
    have "orders u = orders s" using keepsD [OF keeps_withdraw _ w] by blast
    with t find_updated_order [OF po, of "?claw ?atoms"] claw
    have "find_order t (po_id po) = Some (?claw ?atoms po)" by (simp add: find_order_def)
    then show thesis by (rule that) (use False in \<open>simp_all add: claw_order_def target_cash_def\<close>)
  qed
qed


text \<open>
  C14: a clawback withdraws the exact share of the cash that was refunded, rounded up: afterwards the
  refunded credits of the order are the ceiling of its credits times the largest cumulative refund over the
  amount paid, everything after a dispute or a full refund, and never less than before. What the
  lot could not give back is its debt.
\<close>

theorem clawback_share:
  assumes "0 < amount" "find_order s (po_id po) = Some po"
    and "transaction (apply_clawback dispute now clock intent ch cus amount refunded po) s = (Inr r, t)"
  shows "\<exists>po'. find_order t (po_id po) = Some po' \<and> po_pack_credits po' = po_pack_credits po \<and>
    po_refunded_credits po' = max (po_refunded_credits po)
      (if dispute \<or> amount \<le> max (po_amount_refunded po) refunded then po_pack_credits po
       else ceiling (real_of_int (po_pack_credits po * max (po_amount_refunded po) refunded) / real_of_int amount)) \<and>
    (\<forall>l. lot_of_order t (po_id po) = Some l \<longrightarrow>
       lot_clawed l + debt_target t (po_id po) = po_refunded_credits po' \<and> po_refunded_credits po' \<le> lot_original l)"
proof -
  have run: "apply_clawback dispute now clock intent ch cus amount refunded po s = Inr (r, t)" and c: "consistent t"
    using assms(3) by (auto simp: transaction_def split: sum.splits if_splits)
  obtain po' where po': "find_order t (po_id po) = Some po'" "po_pack_credits po' = po_pack_credits po"
    "po_refunded_credits po' = max (po_refunded_credits po)
       (target_atoms dispute amount (target_cash dispute amount refunded po) po)"
    by (rule apply_clawback_order [OF run assms(2)])
  have "lot_clawed l + debt_target t (po_id po) = po_refunded_credits po' \<and> po_refunded_credits po' \<le> lot_original l"
    if "lot_of_order t (po_id po) = Some l" for l
    using lot_of_order_Some [OF that] committed_lot(1-3) [OF c, of l po'] po'(1) by simp
  with po' show ?thesis unfolding target_atoms_ceiling [OF assms(1)] by blast
qed

section \<open>A payment to evaluate\<close>

definition order_uuid :: string where
  "order_uuid = ''11111111-1111-4111-8111-111111111111''"

definition account_uuid :: string where
  "account_uuid = ''22222222-2222-4222-8222-222222222222''"

definition pending_order :: pack_order where
  "pending_order = (sample_order order_uuid 2000000)\<lparr>po_account := account_uuid, po_payment_status := Pending,
     po_payment_intent := None, po_charge := None, po_customer := None, po_amount_paid := None, po_paid_at := None\<rparr>"

definition pending_store :: store where
  "pending_store =
     \<lparr>accounts = [sample_account\<lparr>acc_id := account_uuid\<rparr>], orders = [pending_order], lots = [], debits = [],
      allocations = [], pack_debts = [], clawback_debts = [], ledger = [], incidents = [], next_allocation = 1,
      uuid_source = (\<lambda>n. replicate n (CHR ''u'')), uuid_next = 0\<rparr>"

definition payment_object :: jsval where
  "payment_object = JObj True
     [(''id'', JStr ''pi_1''), (''object'', JStr ''payment_intent''), (''status'', JStr ''succeeded''),
      (''customer'', JStr ''cus_1''), (''latest_charge'', JStr ''ch_1''), (''amount'', JInt 1500),
      (''amount_received'', JInt 1500), (''currency'', JStr ''usd''),
      (''metadata'', JObj True
         [(''billing_kind'', JStr ''credit_pack''), (''pack_schema_version'', JStr ''1''),
          (''product_line'', JStr ''billing''), (''credit_pack_order_id'', JStr order_uuid),
          (''account_id'', JStr account_uuid), (''pack_key'', JStr ''boost-100''), (''pack_credits'', JStr ''2''),
          (''price_amount'', JStr ''1500''), (''currency'', JStr ''usd''), (''expires_days'', JStr ''365''),
          (''lookup_key'', JStr ''billing_pack_boost-100'')])]"

definition payment_event :: jsval where
  "payment_event = JObj True [(''id'', JStr ''evt_1''), (''type'', JStr ''payment_intent.succeeded''),
     (''created'', JInt 5), (''data'', JObj True [(''object'', payment_object)])]"

lemma pending_settled: "settled pending_store"
proof -
  note defs = pending_store_def pending_order_def order_uuid_def account_uuid_def sample_account_def sample_order_def
  have "rows_ok pending_store" by (simp add: rows_ok_def defs account_check_def order_check_def bigint_def bound_defs)
  moreover have "keys_ok pending_store" by (simp add: keys_ok_def defs nullable_unique_def)
  moreover have "references_ok pending_store" by (simp add: references_ok_def defs)
  moreover have "lots_inv (\<lambda>_. 0) pending_store" "debts_inv (\<lambda>_. 0) pending_store"
    "debits_inv {} pending_store" "collections_inv pending_store"
    by (simp_all add: lots_inv_def debts_inv_def debits_inv_def collections_inv_def defs)
  ultimately show ?thesis by (simp add: settled_def ledger_inv_def)
qed

lemma payment_run:
  "fst (transaction (paymentSucceeded ''billing'' payment_event 9000000 9000000) pending_store) =
   Inr (handled ''credit-pack funding granted'' account_uuid)"
  by code_simp


lemma payment_identity:
  "eventObject payment_event = Some payment_object"
  "orderMetadata ''billing'' payment_object = Some (order_uuid, account_uuid, ''boost-100'')"
  by code_simp+

lemma payment_funds_once_witness:
  "lots (snd (transaction (paymentSucceeded ''billing'' payment_event 9000000 9000000)
     (pending_store\<lparr>lots := [sample_lot ''l1'' order_uuid 100 60 500]\<rparr>))) = [sample_lot ''l1'' order_uuid 100 60 500]"
proof -
  have "lot_of_order (pending_store\<lparr>lots := [sample_lot ''l1'' order_uuid 100 60 500]\<rparr>) order_uuid \<noteq> None"
    by (simp add: lot_of_order_def sample_lot_def)
  from payment_funds_once [OF payment_identity this, of 9000000 9000000] show ?thesis by auto
qed

lemma clawback_run:
  "fst (transaction (apply_clawback False 100 100 ''pi_o1'' ''ch_o1'' ''cus_1'' 1500 500 (sample_order ''o1'' 100)) sample_store) =
   Inr (handled ''credit-pack clawback removed 0.000034 credits'' ''acct'')"
  by code_simp

lemma clawback_share_witness:
  "\<exists>po'. find_order (snd (transaction (apply_clawback False 100 100 ''pi_o1'' ''ch_o1'' ''cus_1'' 1500 500
       (sample_order ''o1'' 100)) sample_store)) ''o1'' = Some po' \<and> po_refunded_credits po' = 34"
proof -
  let ?run = "transaction (apply_clawback False 100 100 ''pi_o1'' ''ch_o1'' ''cus_1'' 1500 500 (sample_order ''o1'' 100)) sample_store"
  obtain t where t: "?run = (Inr (handled ''credit-pack clawback removed 0.000034 credits'' ''acct''), t)"
    using clawback_run by (cases ?run) simp
  have po: "find_order sample_store (po_id (sample_order ''o1'' 100)) = Some (sample_order ''o1'' 100)"
    by (simp add: sample_store_def sample_order_def find_order_def)
  have "ceiling (real_of_int 50000 / real_of_int 1500) = 34" by (simp add: ceiling_unique)
  with clawback_share [OF _ po t] t show ?thesis by (auto simp: sample_order_def)
qed

end
