(* ===== verification/Billing_State.thy ===== *)
theory Billing_State
  imports Pack_Events Transitions Stripe_Policies Event_Audit
begin

text \<open>
  The state of the billing backend around the credit ledger (migrations/001_v3_baseline.sql): the
  inbox of webhook events, what is known of each Stripe invoice, plan changes with their funding
  allocations, and Checkout claims; and the services of \<open>EventProcessor\<close> that every projector uses
  (typescript/src/event-processor.ts): account locking and the order of events on an account.
\<close>

section \<open>Tables\<close>

record webhook_event =
  we_id :: string
  we_type :: string
  we_livemode :: bool
  we_payload :: jsval
  we_outcome :: "outcome option"
  we_reason :: "string option"

record invoice_state =
  is_invoice :: string
  is_account :: "string option"
  is_total :: int
  is_refunded :: int
  is_fully_refunded :: bool
  is_disputed :: bool
  is_units_per_slot :: int
  is_issued :: int
  is_closure_applied :: bool

datatype plan_change_status =
  Reserving | Previewed | Applying | Scheduled | Applied | RequiresAction | CompletedChange | FailedChange

record plan_change =
  pc_id :: string
  pc_account :: string
  pc_key :: string
  pc_subscription :: string
  pc_from_plan :: string
  pc_from_interval :: BillingInterval
  pc_target_plan :: string
  pc_target_interval :: BillingInterval
  pc_mode :: EffectiveMode
  pc_status :: plan_change_status
  pc_effective_at :: "int option"
  pc_schedule :: "string option"
  pc_request_key :: string
  pc_expected_epoch :: int
  pc_expected_period_end :: "int option"
  pc_expected_status :: subscription_status
  pc_expected_cancel :: bool
  pc_proration_date :: "int option"
  pc_amount_due :: "int option"
  pc_credit_applied :: "int option"
  pc_balance_credit :: "int option"
  pc_currency :: "string option"
  pc_preview_expires :: "int option"
  pc_lease :: "string option"
  pc_lease_expires :: "int option"
  pc_pending_expires :: "int option"
  pc_recovery_url :: "string option"
  pc_last_error :: "string option"
  pc_policy :: TransitionPolicy
  pc_expected_source :: "string option"
  pc_expected_delta :: "int option"
  pc_expected_revoked :: bool
  pc_settlement :: "string option"
  pc_remote_started :: "int option"
  pc_source_proration :: "int option"
  pc_target_proration :: "int option"
  pc_period_start :: "int option"
  pc_period_end :: "int option"
  pc_created :: int
  pc_completed :: "int option"
  pc_snapshot_version :: "int option"
  pc_snapshot :: "jsval option"

datatype allocation_status = FundingActive | FundingPartial | FundingClosed | FundingDisputed

record funding_allocation =
  fa_id :: int
  fa_account :: string
  fa_plan_change :: string
  fa_invoice :: string
  fa_source_invoice :: string
  fa_event :: string
  fa_source_plan :: string
  fa_source_interval :: BillingInterval
  fa_target_plan :: string
  fa_target_interval :: BillingInterval
  fa_source_line :: string
  fa_target_line :: string
  fa_delta :: int
  fa_refunded :: int
  fa_source_credit :: int
  fa_target_charge :: int
  fa_paid :: int
  fa_currency :: string
  fa_period_start :: int
  fa_period_end :: int
  fa_epoch :: int
  fa_status :: allocation_status

record checkout_claim =
  cc_account :: string
  cc_token :: string
  cc_session :: "string option"
  cc_plan :: string
  cc_interval :: BillingInterval
  cc_customer :: "string option"
  cc_expires :: int
  cc_request_key :: "string option"
  cc_url :: "string option"
  cc_snapshot_version :: "int option"
  cc_snapshot :: "jsval option"

record billing =
  core :: store
  inbox :: "webhook_event list"
  invoice_states :: "invoice_state list"
  plan_changes :: "plan_change list"
  funding_allocations :: "funding_allocation list"
  checkout_claims :: "checkout_claim list"
  next_funding :: int

type_synonym 'a btx = "(billing, 'a) step"

text \<open>A statement on the tables of the ledger.\<close>

definition on_core :: "'a tx \<Rightarrow> 'a btx" where
  "on_core m = (\<lambda>b. bind_result (m (core b)) (\<lambda>(x, s). Inr (x, b\<lparr>core := s\<rparr>)))"

lemma on_core_Inr_iff [result_simps]:
  "on_core m b = Inr (x, b') \<longleftrightarrow> (\<exists>s. m (core b) = Inr (x, s) \<and> b' = b\<lparr>core := s\<rparr>)"
  by (auto simp: on_core_def bind_result_Inr_iff)

section \<open>Constraints\<close>

definition smallint_slots :: "int \<Rightarrow> bool" where
  "smallint_slots n \<longleftrightarrow> 0 \<le> n \<and> n \<le> 12"

definition invoice_check :: "invoice_state \<Rightarrow> bool" where
  "invoice_check i \<longleftrightarrow> bigint (is_total i) \<and> bigint (is_refunded i) \<and>
     (is_refunded i \<le> is_total i \<or> is_total i = 0) \<and> smallint_slots (is_issued i)"

definition grant_row_check :: "ledger_entry \<Rightarrow> bool" where
  "grant_row_check e \<longleftrightarrow> 0 \<le> le_units e \<and>
     (case le_slot e of None \<Rightarrow> True | Some n \<Rightarrow> 1 \<le> n \<and> n \<le> 12)"

definition change_check :: "plan_change \<Rightarrow> bool" where
  "change_check c \<longleftrightarrow> (case pc_expected_delta c of None \<Rightarrow> True | Some d \<Rightarrow> 0 < d)"

definition funding_check :: "funding_allocation \<Rightarrow> bool" where
  "funding_check a \<longleftrightarrow> 0 < fa_delta a \<and> 0 < fa_source_credit a \<and> 0 < fa_target_charge a \<and> 0 < fa_paid a \<and>
     fa_source_line a \<noteq> fa_target_line a \<and> fa_source_plan a \<noteq> fa_target_plan a \<and>
     fa_source_interval a = Month \<and> fa_target_interval a = Month \<and>
     fa_source_credit a < fa_target_charge a \<and> fa_paid a = fa_target_charge a - fa_source_credit a \<and>
     0 \<le> fa_refunded a \<and> fa_refunded a \<le> fa_delta a \<and> fa_period_start a < fa_period_end a"

definition pending_change :: "plan_change \<Rightarrow> bool" where
  "pending_change c \<longleftrightarrow> pc_status c \<in> {Reserving, Previewed, Applying, Scheduled, Applied, RequiresAction}"

text \<open>
  What migrations/002_stripe_request_snapshots.sql allows of the two columns it adds to plan changes, claims
  and orders: a row before the migration, a reserved one, or one with a frozen snapshot.
\<close>

definition snapshot_state :: "int option \<Rightarrow> jsval option \<Rightarrow> bool" where
  "snapshot_state version snapshot \<longleftrightarrow>
     (version = None \<and> snapshot = None) \<or> (version = Some 0 \<and> snapshot = None) \<or>
     (version = Some 1 \<and> (case snapshot of Some v \<Rightarrow> isPlainRecord v | None \<Rightarrow> False))"

definition snapshots_ok :: "billing \<Rightarrow> bool" where
  "snapshots_ok b \<longleftrightarrow>
     list_all (\<lambda>c. snapshot_state (pc_snapshot_version c) (pc_snapshot c)) (plan_changes b) \<and>
     list_all (\<lambda>c. snapshot_state (cc_snapshot_version c) (cc_snapshot c)) (checkout_claims b) \<and>
     list_all (\<lambda>po. snapshot_state (po_snapshot_version po) (po_snapshot po)) (orders (core b))"

text \<open>The unique index of the grants: one row of the ledger for an invoice and a slot.\<close>

definition granted_slots :: "ledger_entry list \<Rightarrow> (string \<times> int) list" where
  "granted_slots es = List.map_filter (\<lambda>e. case (le_invoice e, le_slot e) of
     (Some i, Some n) \<Rightarrow> Some (i, n) | _ \<Rightarrow> None) es"

definition billing_keys_ok :: "billing \<Rightarrow> bool" where
  "billing_keys_ok b \<longleftrightarrow>
     distinct (map we_id (inbox b)) \<and> distinct (map is_invoice (invoice_states b)) \<and>
     distinct (map pc_id (plan_changes b)) \<and> distinct (map (\<lambda>c. (pc_account c, pc_key c)) (plan_changes b)) \<and>
     distinct (map pc_request_key (plan_changes b)) \<and> nullable_unique pc_schedule (plan_changes b) \<and>
     distinct (map pc_account (filter pending_change (plan_changes b))) \<and>
     nullable_unique pc_settlement (plan_changes b) \<and>
     distinct (map fa_id (funding_allocations b)) \<and> distinct (map fa_plan_change (funding_allocations b)) \<and>
     distinct (map fa_invoice (funding_allocations b)) \<and>
     distinct (map cc_account (checkout_claims b)) \<and> distinct (map cc_token (checkout_claims b)) \<and>
     nullable_unique cc_session (checkout_claims b) \<and>
     distinct (map (\<lambda>po. (po_account po, po_client_key po)) (orders (core b))) \<and>
     distinct (map po_stripe_key (orders (core b))) \<and>
     distinct (granted_slots (ledger (core b)))"

definition billing_references_ok :: "billing \<Rightarrow> bool" where
  "billing_references_ok b \<longleftrightarrow>
     (let accs = acc_id ` set (accounts (core b)) in
     list_all (\<lambda>i. set_option (is_account i) \<subseteq> accs) (invoice_states b) \<and>
     list_all (\<lambda>c. pc_account c \<in> accs) (plan_changes b) \<and>
     list_all (\<lambda>c. cc_account c \<in> accs) (checkout_claims b) \<and>
     list_all (\<lambda>a. fa_account a \<in> accs \<and> fa_plan_change a \<in> pc_id ` set (plan_changes b)) (funding_allocations b) \<and>
     list_all (\<lambda>d. cd_invoice d \<in> is_invoice ` set (invoice_states b)) (clawback_debts (core b)))"

definition billing_consistent :: "billing \<Rightarrow> bool" where
  "billing_consistent b \<longleftrightarrow> consistent (core b) \<and> billing_keys_ok b \<and> billing_references_ok b \<and>
     list_all invoice_check (invoice_states b) \<and> list_all grant_row_check (ledger (core b)) \<and>
     list_all change_check (plan_changes b) \<and> list_all funding_check (funding_allocations b) \<and>
     snapshots_ok b"

text \<open>\<open>Database.transaction\<close>: all statements commit together, or none does.\<close>

definition billing_transaction :: "'a btx \<Rightarrow> billing \<Rightarrow> 'a result \<times> billing" where
  "billing_transaction operation b =
     (case operation b of
        Inl e \<Rightarrow> (Inl e, b)
      | Inr (x, b') \<Rightarrow>
          if billing_consistent b' then (Inr x, b')
          else (Inl (ConstraintViolation ''check_violation''), b))"

section \<open>The configuration of the processor\<close>

record processor_config =
  cfg_catalog :: PlanCatalog
  cfg_productLine :: string
  cfg_livemode :: bool
  cfg_apiVersion :: "string option"

section \<open>Rows of the ledger\<close>

text \<open>\<open>insert into credit_ledger\<close> with the units and the slot of a grant.\<close>

definition insert_entry ::
  "string \<Rightarrow> int \<Rightarrow> int \<Rightarrow> int \<Rightarrow> string \<Rightarrow> int \<Rightarrow> string \<Rightarrow> string option \<Rightarrow> int option \<Rightarrow> unit tx" where
  "insert_entry acc delta after units reason epoch event invoice slot =
     modify (\<lambda>s. s\<lparr>ledger := ledger s @
         [\<lparr>le_account = acc, le_delta = delta, le_balance_after = after, le_units = units, le_reason = reason,
           le_epoch = epoch, le_event = Some event, le_invoice = invoice, le_slot = slot\<rparr>]\<rparr>)"

section \<open>Accounts of an event\<close>

definition lower_uuid :: "jsval \<Rightarrow> string option" where
  "lower_uuid v = (case v of JStr s \<Rightarrow> if UUID s \<and> toLowerCase s = s then Some s else None | _ \<Rightarrow> None)"

definition nullish :: "jsval \<Rightarrow> jsval \<Rightarrow> jsval" where
  "nullish v w = (if isAbsent v then w else v)"

definition plain_or_empty :: "jsval \<Rightarrow> jsval" where
  "plain_or_empty v = (if isPlainRecord v then v else JObj True [])"

text \<open>
  The account of a Stripe object, by the binding of its metadata first: \<open>metadata\<close> is \<open>undefined\<close>
  when the caller supplies none.
\<close>

definition lockAccount :: "jsval \<Rightarrow> jsval \<Rightarrow> account option tx" where
  "lockAccount obj metadata =
     gets (\<lambda>s.
       let vals = plain_or_empty (nullish metadata (jprop obj ''metadata''));
           externalRef = nullish (jprop vals ''external_ref'') (jprop obj ''client_reference_id'');
           byReference = (case externalRef of
             JStr r \<Rightarrow> if r \<noteq> [] then find (\<lambda>a. acc_external_ref a = r) (accounts s) else None | _ \<Rightarrow> None);
           subscription = (case subscriptionId obj of Some k \<Rightarrow> Some k | None \<Rightarrow> asStripeId (jprop obj ''id''));
           bySubscription = (case subscription of
             Some k \<Rightarrow> find (\<lambda>a. acc_subscription a = Some k) (accounts s) | None \<Rightarrow> None);
           byCustomer = (case asStripeId (jprop obj ''customer'') of
             Some k \<Rightarrow> find (\<lambda>a. acc_customer a = Some k) (accounts s) | None \<Rightarrow> None) in
       case lower_uuid (jprop vals ''account_id'') of
         Some accountId \<Rightarrow> find_account s accountId
       | None \<Rightarrow>
           (case byReference of
              Some a \<Rightarrow> Some a
            | None \<Rightarrow> (case bySubscription of Some a \<Rightarrow> Some a | None \<Rightarrow> byCustomer)))"

definition nullable_text :: "string option \<Rightarrow> jsval" where
  "nullable_text v = (case v of None \<Rightarrow> JNull | Some s \<Rightarrow> JStr s)"

fun is_number :: "jsval \<Rightarrow> bool" where
  "is_number (JInt n) = True"
| "is_number JReal = True"
| "is_number _ = False"

text \<open>\<open>pgBigInt\<close> on a value that is a text: a canonical decimal integer.\<close>

definition pgBigIntText :: "string \<Rightarrow> string \<Rightarrow> int result" where
  "pgBigIntText s field =
     (let digits = (case s of CHR ''-'' # r \<Rightarrow> r | _ \<Rightarrow> s) in
      if digits = ''0'' \<or> (digits \<noteq> [] \<and> list_all is_digit digits \<and> hd digits \<noteq> CHR ''0'')
      then Inr (if digits = s then int (digits_value digits) else - int (digits_value digits))
      else Inl (TypeError (field @ '' must be an exact PostgreSQL integer string'')))"

text \<open>
  Whether an event is newer than what the account projects. A reconciled event carries the account
  it was built for and wins only if that account has not changed since.
\<close>

definition eventWinsAccount :: "account \<Rightarrow> jsval \<Rightarrow> bool result" where
  "eventWinsAccount a event =
     (if jprop event ''_remote_verified'' = JBool True
      then
        (let expected = jprop event ''_expected_account'' in
         if \<not> isPlainRecord expected then Inr False
         else case jprop expected ''event_created'' of
           JStr expectedCreated \<Rightarrow>
             if \<not> is_number (jprop expected ''event_rank'') then Inr False
             else if jprop expected ''stripe_subscription_id'' \<noteq> nullable_text (acc_subscription a) then Inr False
             else bind_result (pgBigIntText expectedCreated ''expected event_created'') (\<lambda>n.
               Inr (n = acc_event_created a \<and> jprop expected ''event_rank'' = JInt (acc_event_rank a)))
         | _ \<Rightarrow> Inr False)
      else case jprop event ''created'' of
          JInt n \<Rightarrow> Inr (isSafeInteger (JInt n) \<and>
            eventWins (acc_event_created a) (acc_event_rank a) n
              (rankFor (event_type_text (jprop event ''type''))))
        | _ \<Rightarrow> Inr False)"

definition projectedCursor :: "account \<Rightarrow> jsval \<Rightarrow> ProjectionCursor" where
  "projectedCursor a event = projectionOrder (Cursor (acc_event_created a) (acc_event_rank a)) event"

definition eventCreated :: "jsval \<Rightarrow> int" where
  "eventCreated event = (case stripeNonnegativeInteger (jprop event ''created'') of None \<Rightarrow> 0 | Some n \<Rightarrow> n)"

definition orderingTie :: "account \<Rightarrow> jsval \<Rightarrow> bool" where
  "orderingTie a event \<longleftrightarrow> jprop event ''_remote_verified'' \<noteq> JBool True \<and>
     acc_event_created a = eventCreated event \<and>
     acc_event_rank a = rankFor (event_type_text (jprop event ''type''))"

text \<open>\<open>recordIncident\<close> of the processor is the upsert of the credit-pack events.\<close>

definition incident :: "string \<Rightarrow> jsval \<Rightarrow> string \<Rightarrow> string option \<Rightarrow> string option \<Rightarrow> (string \<times> jsval) list \<Rightarrow> unit btx" where
  "incident kind event dedupe invoice acc detail = on_core (recordIncident kind event dedupe invoice acc detail)"

definition refused :: "string \<Rightarrow> string \<Rightarrow> ProcessResult" where
  "refused reason acc = \<lparr>pr_outcome = Ignored, pr_reason = reason, pr_account = Some acc\<rparr>"

definition replayed :: "string \<Rightarrow> string \<Rightarrow> ProcessResult" where
  "replayed reason acc = \<lparr>pr_outcome = AlreadyDone, pr_reason = reason, pr_account = Some acc\<rparr>"

end
