(* ===== verification/Calendar.thy ===== *)
theory Calendar
  imports Subscription_State
begin

text \<open>
  The interval arithmetic of the statements (annual.ts, subscription-projector.ts): a timestamp plus
  a number of months, as PostgreSQL computes it in the session time zone UTC that database.ts sets.
  Timestamps are microseconds since the epoch. The day of the month is kept, or is the last day of
  a shorter month; the time of day is kept.
\<close>

section \<open>Months as a line\<close>

definition DAY_MICROS :: int where
  "DAY_MICROS = 86400000000"

text \<open>Month \<open>k\<close> is month \<open>k mod 12 + 1\<close> of year \<open>k div 12\<close>.\<close>

definition month_start :: "int \<Rightarrow> int" where
  "month_start k = daysFromCivil (k div 12) (k mod 12 + 1) 1"

definition month_length :: "int \<Rightarrow> int" where
  "month_length k = daysInMonth (k div 12) (k mod 12 + 1)"

definition year_of_day :: "int \<Rightarrow> int" where
  "year_of_day z =
     (let y = 400 * z div 146097 + 1970 in
      if z < daysFromCivil y 1 1 then y - 1 else if z \<ge> daysFromCivil (y + 1) 1 1 then y + 1 else y)"

definition month_of_day :: "int \<Rightarrow> int" where
  "month_of_day z =
     (let y = year_of_day z in
      12 * y + int (length (filter (\<lambda>m. daysFromCivil y m 1 \<le> z) [2, 3, 4, 5, 6, 7, 8, 9, 10, 11, 12])))"

definition plus_months :: "int \<Rightarrow> int \<Rightarrow> int" where
  "plus_months t n =
     (let day = t div DAY_MICROS; k = month_of_day day; d = day - month_start k; k' = k + n in
      (month_start k' + min d (month_length k' - 1)) * DAY_MICROS + t mod DAY_MICROS)"

lemma daysInMonth_bounds: "1 \<le> m \<Longrightarrow> m \<le> 12 \<Longrightarrow> 28 \<le> daysInMonth y m \<and> daysInMonth y m \<le> 31"
  by (erule (1) month_cases) simp_all

lemma month_length_bounds: "28 \<le> month_length k" "month_length k \<le> 31"
proof -
  have "28 \<le> month_length k \<and> month_length k \<le> 31"
    unfolding month_length_def by (rule daysInMonth_bounds) simp_all
  then show "28 \<le> month_length k" "month_length k \<le> 31" by blast+
qed

lemma day_in_month: "daysFromCivil y m d = daysFromCivil y m 1 + d - 1"
  by (simp add: daysFromCivil_march)

lemma next_month_start:
  assumes "1 \<le> m" "m \<le> 12"
  shows "(if m < 12 then daysFromCivil y (m + 1) 1 else daysFromCivil (y + 1) 1 1) = daysFromCivil y m 1 + daysInMonth y m"
proof -
  have "valid_date y m (daysInMonth y m)"
    using assms daysInMonth_bounds [OF assms, of y] by (simp add: valid_date_def)
  from daysFromCivil_next [OF this] day_in_month [of y m "daysInMonth y m"]
  show ?thesis by (cases "m < 12") (simp_all add: next_date_def)
qed

lemma next_month_index:
  fixes k :: int
  shows "(k + 1) div 12 = (if k mod 12 < 11 then k div 12 else k div 12 + 1)"
    and "(k + 1) mod 12 = (if k mod 12 < 11 then k mod 12 + 1 else 0)"
proof -
  have k: "k + 1 = 12 * (k div 12) + (k mod 12 + 1)" by simp
  have r: "0 \<le> k mod 12" "k mod 12 < 12" by simp_all
  show "(k + 1) div 12 = (if k mod 12 < 11 then k div 12 else k div 12 + 1)"
  proof (cases "k mod 12 < 11")
    case True
    have "(k + 1) div 12 = k div 12"
      by (rule int_div_pos_eq [OF k]) (use r True in simp_all)
    with True show ?thesis by simp
  next
    case False
    with r have "k mod 12 = 11" by simp
    with k have "k + 1 = 12 * (k div 12 + 1) + 0" by simp
    then have "(k + 1) div 12 = k div 12 + 1" by (rule int_div_pos_eq) simp_all
    with False show ?thesis by simp
  qed
  then have "12 * (if k mod 12 < 11 then k div 12 else k div 12 + 1) + (k + 1) mod 12 = k + 1"
    using mult_div_mod_eq [of 12 "k + 1"] by simp
  note sum = this
  show "(k + 1) mod 12 = (if k mod 12 < 11 then k mod 12 + 1 else 0)"
  proof (cases "k mod 12 < 11")
    case True
    with sum show ?thesis by (simp add: minus_mod_eq_mult_div [symmetric])
  next
    case False
    with r have "k mod 12 = 11" by simp
    with sum show ?thesis by (simp add: minus_mod_eq_mult_div [symmetric] distrib_left)
  qed
qed

lemma month_start_step: "month_start (k + 1) = month_start k + month_length k"
proof -
  have "month_start (k + 1) = (if k mod 12 + 1 < 12 then daysFromCivil (k div 12) (k mod 12 + 1 + 1) 1
      else daysFromCivil (k div 12 + 1) 1 1)"
    unfolding month_start_def next_month_index by simp
  also have "\<dots> = month_start k + month_length k"
    unfolding month_start_def month_length_def by (rule next_month_start) simp_all
  finally show ?thesis .
qed

lemma month_start_mono: "j < k \<Longrightarrow> month_start j + month_length j \<le> month_start k"
proof (induction k rule: int_gr_induct [where k = j])
  case base
  then show ?case by (simp add: month_start_step)
next
  case (step i)
  then show ?case using month_start_step [of i] month_length_bounds(1) [of i] by simp
qed

section \<open>The month of a day\<close>

lemma year_start: "daysFromCivil y 1 1 = march_days (y - 1) + 306 - 719468"
  by (simp add: daysFromCivil_march)

text \<open>400 years have 146097 days, and no year start is two days away from that average.\<close>

lemma average_bounds:
  fixes a q4 q100 q400 r4 r100 r400 :: int
  assumes "4 * q4 + r4 = a" "100 * q100 + r100 = a" "400 * q400 + r400 = a"
    "0 \<le> r4" "r4 \<le> 3" "0 \<le> r100" "r100 \<le> 99" "0 \<le> r400" "r400 \<le> 399"
  shows "400 * (365 * a + q4 - q100 + q400) \<le> 146097 * a + 396"
    "146097 * a - 699 \<le> 400 * (365 * a + q4 - q100 + q400)"
  using assms by (simp_all add: algebra_simps)

lemma march_days_average: "400 * march_days a \<le> 146097 * a + 396" "146097 * a - 699 \<le> 400 * march_days a"
  unfolding march_days_def
  by (rule average_bounds [of _ "a mod 4" _ _ "a mod 100" _ "a mod 400"]; simp)+

lemma year_bounds:
  fixes d1 d2 q r z :: int
  assumes "146097 * q + r = 400 * z" "0 \<le> r" "r < 146097"
    "400 * d1 \<le> 146097 * (q + 1968) + 396 + 400 * (306 - 719468)"
    "146097 * (q + 1971) - 699 + 400 * (306 - 719468) \<le> 400 * d2"
  shows "d1 \<le> z" "z < d2"
  using assms by (simp_all add: algebra_simps)

lemma year_of_day:
  "daysFromCivil (year_of_day z) 1 1 \<le> z \<and> z < daysFromCivil (year_of_day z + 1) 1 1"
proof -
  let ?q = "400 * z div 146097"
  have "400 * daysFromCivil (?q + 1969) 1 1 \<le> 146097 * (?q + 1968) + 396 + 400 * (306 - 719468)"
    "146097 * (?q + 1971) - 699 + 400 * (306 - 719468) \<le> 400 * daysFromCivil (?q + 1972) 1 1"
    using march_days_average(1) [of "?q + 1968"] march_days_average(2) [of "?q + 1971"]
    by (simp_all add: year_start algebra_simps)
  moreover have "146097 * ?q + 400 * z mod 146097 = 400 * z" "0 \<le> 400 * z mod 146097" "400 * z mod 146097 < 146097"
    by simp_all
  ultimately have "daysFromCivil (?q + 1969) 1 1 \<le> z" "z < daysFromCivil (?q + 1972) 1 1"
    using year_bounds by blast+
  moreover have shift: "?q + 1970 - 1 = ?q + 1969" "?q + 1970 + 1 = ?q + 1971" "?q + 1969 + 1 = ?q + 1970"
    "?q + 1971 + 1 = ?q + 1972" by simp_all
  ultimately show ?thesis unfolding year_of_day_def Let_def shift by (simp add: shift split: if_split)
qed


lemma month_starts_of_year:
  fixes y :: int
  defines "c \<equiv> daysFromCivil y 1 1" and "l \<equiv> if isLeapYear y then 29 else 28 :: int"
  shows "daysFromCivil y 2 1 = c + 31" "daysFromCivil y 3 1 = c + 31 + l" "daysFromCivil y 4 1 = c + 62 + l"
    "daysFromCivil y 5 1 = c + 92 + l" "daysFromCivil y 6 1 = c + 123 + l" "daysFromCivil y 7 1 = c + 153 + l"
    "daysFromCivil y 8 1 = c + 184 + l" "daysFromCivil y 9 1 = c + 215 + l" "daysFromCivil y 10 1 = c + 245 + l"
    "daysFromCivil y 11 1 = c + 276 + l" "daysFromCivil y 12 1 = c + 306 + l" "daysFromCivil (y + 1) 1 1 = c + 337 + l"
  using next_month_start [of 1 y] next_month_start [of 2 y] next_month_start [of 3 y] next_month_start [of 4 y]
    next_month_start [of 5 y] next_month_start [of 6 y] next_month_start [of 7 y] next_month_start [of 8 y]
    next_month_start [of 9 y] next_month_start [of 10 y] next_month_start [of 11 y] next_month_start [of 12 y]
  by (simp_all add: c_def l_def)

lemma month_start_year: "0 \<le> i \<Longrightarrow> i < 12 \<Longrightarrow> month_start (12 * y + i) = daysFromCivil y (i + 1) 1"
  by (simp add: month_start_def)

text \<open>The month of a day is the one that starts last on or before it.\<close>

lemma month_of_day: "month_start (month_of_day z) \<le> z" "z < month_start (month_of_day z + 1)"
proof -
  let ?y = "year_of_day z" and ?c = "\<lambda>m. daysFromCivil (year_of_day z) m 1"
  note starts = month_starts_of_year [of ?y]
  have year: "?c 1 \<le> z" "z < daysFromCivil (?y + 1) 1 1" using year_of_day by blast+
  have leap: "28 \<le> (if isLeapYear ?y then 29 else 28 :: int)" "(if isLeapYear ?y then 29 else 28 :: int) \<le> 29" by simp_all
  have of_month: "month_start (month_of_day z) \<le> z \<and> z < month_start (month_of_day z + 1)"
    if n: "length (filter (\<lambda>m. ?c m \<le> z) [2, 3, 4, 5, 6, 7, 8, 9, 10, 11, 12]) = n" "n \<le> 11"
      "?c (int n + 1) \<le> z" "z < (if n = 11 then daysFromCivil (?y + 1) 1 1 else ?c (int n + 2))" for n
  proof -
    have k: "month_of_day z = 12 * ?y + int n" by (simp only: month_of_day_def Let_def n(1))
    have "month_start (12 * ?y + int n) = ?c (int n + 1)" using n(2) by (intro month_start_year) simp_all
    moreover have "month_start (12 * ?y + int n + 1) = (if n = 11 then daysFromCivil (?y + 1) 1 1 else ?c (int n + 2))"
    proof (cases "n = 11")
      case True
      then show ?thesis using month_start_year [of 0 "?y + 1"] by (simp add: algebra_simps)
    next
      case False
      with n(2) show ?thesis using month_start_year [of "int n + 1" ?y] by (simp add: algebra_simps)
    qed
    ultimately show ?thesis using n(3,4) k by simp
  qed
  consider "z < ?c 2" | "?c 2 \<le> z" "z < ?c 3" | "?c 3 \<le> z" "z < ?c 4" | "?c 4 \<le> z" "z < ?c 5"
    | "?c 5 \<le> z" "z < ?c 6" | "?c 6 \<le> z" "z < ?c 7" | "?c 7 \<le> z" "z < ?c 8" | "?c 8 \<le> z" "z < ?c 9"
    | "?c 9 \<le> z" "z < ?c 10" | "?c 10 \<le> z" "z < ?c 11" | "?c 11 \<le> z" "z < ?c 12" | "?c 12 \<le> z"
    by linarith
  then have "month_start (month_of_day z) \<le> z \<and> z < month_start (month_of_day z + 1)"
  proof cases
    case 1
    then show ?thesis by (intro of_month [of 0]) (use year leap in \<open>simp_all add: starts\<close>)
  next
    case 2
    then show ?thesis by (intro of_month [of 1]) (use year leap in \<open>simp_all add: starts\<close>)
  next
    case 3
    then show ?thesis by (intro of_month [of 2]) (use year leap in \<open>simp_all add: starts\<close>)
  next
    case 4
    then show ?thesis by (intro of_month [of 3]) (use year leap in \<open>simp_all add: starts\<close>)
  next
    case 5
    then show ?thesis by (intro of_month [of 4]) (use year leap in \<open>simp_all add: starts\<close>)
  next
    case 6
    then show ?thesis by (intro of_month [of 5]) (use year leap in \<open>simp_all add: starts\<close>)
  next
    case 7
    then show ?thesis by (intro of_month [of 6]) (use year leap in \<open>simp_all add: starts\<close>)
  next
    case 8
    then show ?thesis by (intro of_month [of 7]) (use year leap in \<open>simp_all add: starts\<close>)
  next
    case 9
    then show ?thesis by (intro of_month [of 8]) (use year leap in \<open>simp_all add: starts\<close>)
  next
    case 10
    then show ?thesis by (intro of_month [of 9]) (use year leap in \<open>simp_all add: starts\<close>)
  next
    case 11
    then show ?thesis by (intro of_month [of 10]) (use year leap in \<open>simp_all add: starts\<close>)
  next
    case 12
    then show ?thesis by (intro of_month [of 11]) (use year leap in \<open>simp_all add: starts\<close>)
  qed
  then show "month_start (month_of_day z) \<le> z" "z < month_start (month_of_day z + 1)" by blast+
qed

section \<open>Adding months\<close>

lemma plus_months_day:
  obtains d e where "0 \<le> d" "0 \<le> e" "e < DAY_MICROS"
    "\<And>n. plus_months t n = (month_start (month_of_day (t div DAY_MICROS) + n)
        + min d (month_length (month_of_day (t div DAY_MICROS) + n) - 1)) * DAY_MICROS + e"
proof (rule that)
  show "0 \<le> t div DAY_MICROS - month_start (month_of_day (t div DAY_MICROS))" using month_of_day(1) by simp
  show "0 \<le> t mod DAY_MICROS" "t mod DAY_MICROS < DAY_MICROS" by (simp_all add: DAY_MICROS_def)
qed (simp add: plus_months_def Let_def)

text \<open>More months are later, whatever the day of the month; no month is the same instant.\<close>

lemma plus_months_strict_mono:
  assumes "m < n" shows "plus_months t m < plus_months t n"
proof -
  obtain d e where de: "0 \<le> d" "0 \<le> e" "e < DAY_MICROS"
    and eq: "\<And>n. plus_months t n = (month_start (month_of_day (t div DAY_MICROS) + n)
        + min d (month_length (month_of_day (t div DAY_MICROS) + n) - 1)) * DAY_MICROS + e"
    by (rule plus_months_day [of t]) blast
  let ?k = "month_of_day (t div DAY_MICROS)"
  have "month_start (?k + m) + month_length (?k + m) \<le> month_start (?k + n)"
    using assms by (intro month_start_mono) simp
  moreover have "min d (month_length (?k + m) - 1) < month_length (?k + m)" by simp
  moreover have "0 \<le> min d (month_length (?k + n) - 1)" using de(1) month_length_bounds(1) [of "?k + n"] by simp
  ultimately have "month_start (?k + m) + min d (month_length (?k + m) - 1)
      < month_start (?k + n) + min d (month_length (?k + n) - 1)" by linarith
  then show ?thesis by (simp add: eq DAY_MICROS_def)
qed

lemma plus_months_mono: "m \<le> n \<Longrightarrow> plus_months t m \<le> plus_months t n"
  using plus_months_strict_mono [of m n t] by (cases "m = n") simp_all

lemma plus_months_zero [simp]: "plus_months t 0 = t"
proof -
  let ?day = "t div DAY_MICROS"
  have "?day - month_start (month_of_day ?day) \<le> month_length (month_of_day ?day) - 1"
    using month_of_day(2) [of ?day] by (simp add: month_start_step)
  then have "plus_months t 0 = ?day * DAY_MICROS + t mod DAY_MICROS"
    by (simp add: plus_months_def Let_def min_def)
  then show ?thesis by simp
qed

text \<open>The last day of January and a leap February: 2024-01-31 12:00 plus one, two and thirteen months.\<close>

lemma plus_months_clamps:
  "plus_months ((daysFromCivil 2024 1 31) * DAY_MICROS + 43200000000) 1 = (daysFromCivil 2024 2 29) * DAY_MICROS + 43200000000"
  "plus_months ((daysFromCivil 2024 1 31) * DAY_MICROS + 43200000000) 2 = (daysFromCivil 2024 3 31) * DAY_MICROS + 43200000000"
  "plus_months ((daysFromCivil 2024 1 31) * DAY_MICROS + 43200000000) 13 = (daysFromCivil 2025 2 28) * DAY_MICROS + 43200000000"
  by code_simp+

end
