(* ===== verification/Subscription_Projector.thy ===== *)
theory Subscription_Projector
  imports Billing_State Calendar
begin

text \<open>
  The projection of Stripe subscription events on accounts (typescript/src/subscription-projector.ts):
  a paid invoice funds a period or an upgrade, a failed one marks the account, a refund or a dispute
  claws the funding back, a subscription update moves the projected state, a deletion ends it, and a
  completed Checkout binds the subscription. Whatever does not match the catalog, the account or the
  durable intent is recorded as an incident and changes no funding.

  \<open>now\<close> is the start of the transaction.
\<close>

section \<open>Reading the event\<close>

definition PAID_REASONS :: "string list" where
  "PAID_REASONS = [''subscription_create'', ''subscription_cycle'', ''subscription_update'']"

definition CLAWBACK_REASONS :: "string list" where
  "CLAWBACK_REASONS = [''refund_clawback'', ''dispute_clawback'', ''clawback_debt_collection'']"

definition SUBSCRIPTION_STATUSES :: "string list" where
  "SUBSCRIPTION_STATUSES =
     [''active'', ''canceled'', ''incomplete'', ''incomplete_expired'', ''past_due'', ''paused'', ''trialing'', ''unpaid'']"

definition required :: "'a option \<Rightarrow> string \<Rightarrow> 'a result" where
  "required v message = (case v of None \<Rightarrow> Inl (PlainError message) | Some x \<Rightarrow> Inr x)"

definition requiredEventObject :: "jsval \<Rightarrow> jsval result" where
  "requiredEventObject event = required (eventObject event) ''validated Stripe Event has no data.object''"

definition requiredEventId :: "jsval \<Rightarrow> string result" where
  "requiredEventId event = required (asStripeId (jprop event ''id'')) ''validated Stripe Event has no identity''"

definition requiredObjectId :: "jsval \<Rightarrow> string result" where
  "requiredObjectId obj = required (asStripeId (jprop obj ''id'')) ''validated Stripe object has no identity''"

definition stripeLines :: "jsval \<Rightarrow> jsval list option" where
  "stripeLines invoice =
     (let container = jprop invoice ''lines'' in
      if \<not> isPlainRecord container then None
      else case jprop container ''data'' of
          JArr ls \<Rightarrow> if list_all isPlainRecord ls then Some ls else None
        | _ \<Rightarrow> None)"

definition has_field :: "jsval \<Rightarrow> string \<Rightarrow> bool" where
  "has_field v k = (case v of JObj plain fs \<Rightarrow> has_own fs k | _ \<Rightarrow> False)"

definition lower_text :: "jsval \<Rightarrow> string \<Rightarrow> string" where
  "lower_text v fallback = (case v of JStr s \<Rightarrow> toLowerCase s | _ \<Rightarrow> fallback)"

definition nullable_int :: "int option \<Rightarrow> jsval" where
  "nullable_int v = (case v of None \<Rightarrow> JNull | Some n \<Rightarrow> JStr (show_int n))"

definition nullish_null :: "jsval \<Rightarrow> jsval" where
  "nullish_null v = nullish v JNull"

definition to_timestamp :: "int \<Rightarrow> int" where
  "to_timestamp seconds = seconds * SECOND"

definition month_price :: "Plan \<Rightarrow> BillingInterval \<Rightarrow> int" where
  "month_price plan interval = (case interval of Month \<Rightarrow> p_monthUsd plan | Year \<Rightarrow> p_yearUsd plan) * 100"

section \<open>Refusals\<close>

text \<open>
  A refusal records an incident and ignores the event: its kind, its key, its details and the reason
  that is returned. The guards of a handler are tried in order.
\<close>

type_synonym refusal = "string \<times> string \<times> (string \<times> jsval) list \<times> string"

fun first_refusal :: "(bool \<times> refusal) list \<Rightarrow> refusal option" where
  "first_refusal [] = None"
| "first_refusal ((holds, r) # rs) = (if holds then Some r else first_refusal rs)"

definition refuse :: "jsval \<Rightarrow> string option \<Rightarrow> string \<Rightarrow> refusal \<Rightarrow> ProcessResult btx" where
  "refuse event invoice acc r =
     (case r of (kind, dedupe, detail, reason) \<Rightarrow>
        bind_tx (incident kind event dedupe invoice (Some acc) detail) (\<lambda>_. ret (refused reason acc)))"

definition guarded_by :: "refusal option \<Rightarrow> (refusal \<Rightarrow> 'a btx) \<Rightarrow> 'a btx \<Rightarrow> 'a btx" where
  "guarded_by r no yes = (case r of None \<Rightarrow> yes | Some x \<Rightarrow> no x)"

definition customer_conflicts :: "account \<Rightarrow> string option \<Rightarrow> bool" where
  "customer_conflicts a customer \<longleftrightarrow>
     customer = None \<or> (acc_customer a \<noteq> None \<and> acc_customer a \<noteq> customer)"

definition binding :: "string option \<Rightarrow> string option \<Rightarrow> (string \<times> jsval) list" where
  "binding bound incoming = [(''bound'', nullable_text bound), (''incoming'', nullable_text incoming)]"

section \<open>Statements of the projector\<close>

definition set_account :: "string \<Rightarrow> (account \<Rightarrow> account) \<Rightarrow> unit btx" where
  "set_account acc f = on_core (update_accounts (\<lambda>r. acc_id r = acc) f)"

definition entry :: "string \<Rightarrow> int \<Rightarrow> int \<Rightarrow> int \<Rightarrow> string \<Rightarrow> int \<Rightarrow> string \<Rightarrow> string option \<Rightarrow> int option \<Rightarrow> unit btx" where
  "entry acc delta after units reason epoch event invoice slot =
     on_core (insert_entry acc delta after units reason epoch event invoice slot)"

definition update_invoices :: "string \<Rightarrow> (invoice_state \<Rightarrow> invoice_state) \<Rightarrow> unit btx" where
  "update_invoices k f =
     modify (\<lambda>b. b\<lparr>invoice_states := update_rows (\<lambda>i. is_invoice i = k) f (invoice_states b)\<rparr>)"

text \<open>An update of plan changes that returns whether a row was updated.\<close>

definition update_changes :: "(plan_change \<Rightarrow> bool) \<Rightarrow> (plan_change \<Rightarrow> plan_change) \<Rightarrow> bool btx" where
  "update_changes P f =
     (\<lambda>b. Inr (list_ex P (plan_changes b), b\<lparr>plan_changes := update_rows P f (plan_changes b)\<rparr>))"

definition update_funding :: "int \<Rightarrow> (funding_allocation \<Rightarrow> funding_allocation) \<Rightarrow> unit btx" where
  "update_funding k f =
     modify (\<lambda>b. b\<lparr>funding_allocations := update_rows (\<lambda>a. fa_id a = k) f (funding_allocations b)\<rparr>)"

definition delete_claims :: "(checkout_claim \<Rightarrow> bool) \<Rightarrow> unit btx" where
  "delete_claims P = modify (\<lambda>b. b\<lparr>checkout_claims := filter (\<lambda>c. \<not> P c) (checkout_claims b)\<rparr>)"

definition find_claim :: "billing \<Rightarrow> string \<Rightarrow> checkout_claim option" where
  "find_claim b acc = find (\<lambda>c. cc_account c = acc) (checkout_claims b)"

definition find_invoice :: "billing \<Rightarrow> string \<Rightarrow> invoice_state option" where
  "find_invoice b k = find (\<lambda>i. is_invoice i = k) (invoice_states b)"

definition find_funding :: "billing \<Rightarrow> string \<Rightarrow> funding_allocation option" where
  "find_funding b k = find (\<lambda>a. fa_invoice a = k) (funding_allocations b)"

text \<open>\<open>order by created_at desc limit 1\<close>\<close>

definition latest_change :: "(plan_change \<Rightarrow> bool) \<Rightarrow> billing \<Rightarrow> plan_change option" where
  "latest_change P b =
     (case sort_key (\<lambda>c. - pc_created c) (filter P (plan_changes b)) of [] \<Rightarrow> None | c # cs \<Rightarrow> Some c)"

text \<open>The grant of an invoice for a slot.\<close>

definition find_grant :: "store \<Rightarrow> string \<Rightarrow> int \<Rightarrow> ledger_entry option" where
  "find_grant s invoice slot = find (\<lambda>e. le_invoice e = Some invoice \<and> le_slot e = Some slot) (ledger s)"

definition resolve_incidents :: "(incident \<Rightarrow> bool) \<Rightarrow> unit btx" where
  "resolve_incidents P =
     on_core (modify (\<lambda>s. s\<lparr>incidents :=
       update_rows (\<lambda>i. \<not> in_resolved i \<and> P i) (\<lambda>i. i\<lparr>in_resolved := True\<rparr>) (incidents s)\<rparr>))"

definition resolvePlanChangeIncidents :: "string \<Rightarrow> string \<Rightarrow> string \<Rightarrow> unit btx" where
  "resolvePlanChangeIncidents acc invoice change =
     resolve_incidents (\<lambda>i. in_account i = Some acc \<and>
       (in_invoice i = Some invoice \<and>
          in_kind i \<in> {''plan_change_payment_failed'', ''unbound_plan_change_payment_failed''} \<or>
        in_kind i = ''plan_change_recovery_required'' \<and>
          map_of (in_detail i) ''plan_change_id'' = Some (JStr change)))"

text \<open>The claim of an invoice by an account: the row of its state, unless another account owns it.\<close>

definition claimInvoiceState :: "jsval \<Rightarrow> string \<Rightarrow> string \<Rightarrow> int \<Rightarrow> invoice_state option btx" where
  "claimInvoiceState event acc invoice amountTotal =
     (let conflict = bind_tx (incident ''invoice_account_identity_conflict'' event invoice (Some invoice) (Some acc) [])
            (\<lambda>_. ret None) in
      bind_tx (gets (\<lambda>b. find_invoice b invoice)) (\<lambda>prior.
        case prior of
          None \<Rightarrow>
            (let i = \<lparr>is_invoice = invoice, is_account = Some acc, is_total = amountTotal, is_refunded = 0,
               is_fully_refunded = False, is_disputed = False, is_units_per_slot = 0, is_issued = 0,
               is_closure_applied = False\<rparr> in
             bind_tx (modify (\<lambda>b. b\<lparr>invoice_states := invoice_states b @ [i]\<rparr>)) (\<lambda>_. ret (Some i)))
        | Some i \<Rightarrow>
            if is_account i \<noteq> None \<and> is_account i \<noteq> Some acc then conflict
            else
              bind_tx (update_invoices invoice
                (\<lambda>i. i\<lparr>is_account := coalesce (is_account i) (Some acc), is_total := max (is_total i) amountTotal\<rparr>)) (\<lambda>_.
              gets (\<lambda>b. find_invoice b invoice))))"

section \<open>Clawing a grant back\<close>

definition clawed_since :: "store \<Rightarrow> string \<Rightarrow> nat \<Rightarrow> int" where
  "clawed_since s invoice grant =
     sum_list (map (\<lambda>e. - le_delta e)
       (filter (\<lambda>e. le_invoice e = Some invoice \<and> le_reason e \<in> set CLAWBACK_REASONS)
          (drop (Suc grant) (ledger s))))"

definition oweClawback :: "int \<Rightarrow> string \<Rightarrow> int \<Rightarrow> string \<Rightarrow> int \<Rightarrow> int \<Rightarrow> unit tx" where
  "oweClawback now acc epoch invoice target collected =
     modify (\<lambda>s.
       let same = (\<lambda>d. cd_account d = acc \<and> cd_epoch d = epoch \<and> cd_invoice d = invoice) in
       if list_ex same (clawback_debts s)
       then s\<lparr>clawback_debts := update_rows same
                (\<lambda>d. d\<lparr>cd_target := max (cd_target d) target, cd_collected := max (cd_collected d) collected\<rparr>)
                (clawback_debts s)\<rparr>
       else s\<lparr>clawback_debts := clawback_debts s @
                [\<lparr>cd_account = acc, cd_epoch = epoch, cd_invoice = invoice, cd_target = target,
                  cd_collected = collected, cd_created = now\<rparr>]\<rparr>)"

text \<open>
  The grant is row \<open>grant\<close> of the ledger, whose identities grow: what an invoice has lost since is in
  the rows after it. What the balance cannot give back is owed.
\<close>

definition applyClawbackToGrant ::
  "int \<Rightarrow> string \<Rightarrow> string \<Rightarrow> nat \<Rightarrow> int \<Rightarrow> int \<Rightarrow> int \<Rightarrow> bool \<Rightarrow> string \<Rightarrow> string \<Rightarrow> int tx" where
  "applyClawbackToGrant now acc invoice grant units amount amountRefunded full reason event =
     (let target = (if full then units else ceilRatio units amountRefunded amount) in
      bind_tx (gets (\<lambda>s. clawed_since s invoice grant)) (\<lambda>already.
      bind_tx (gets (\<lambda>s. find_account s acc)) (\<lambda>found.
        case found of
          None \<Rightarrow> throw (PlainError ''account disappeared while applying a clawback'')
        | Some a \<Rightarrow>
            let outstanding = (if target > already then target - already else 0);
                removed = (if outstanding < acc_balance a then outstanding else acc_balance a);
                remaining = acc_balance a - removed in
            bind_tx (if removed > 0
                     then bind_tx (update_accounts (\<lambda>r. acc_id r = acc) (\<lambda>r. r\<lparr>acc_balance := remaining\<rparr>))
                            (\<lambda>_. insert_entry acc (- removed) remaining 0 reason (acc_epoch a) event (Some invoice) None)
                     else ret ()) (\<lambda>_.
            bind_tx (if target > 0
                     then oweClawback now acc (acc_epoch a) invoice target
                            (if target < already + removed then target else already + removed)
                     else ret ()) (\<lambda>_.
              ret removed)))))"

section \<open>A paid invoice of a full period\<close>

definition invoiceCurrency :: "jsval \<Rightarrow> string" where
  "invoiceCurrency invoice = lower_text (jprop invoice ''currency'') []"

text \<open>The amounts of an invoice that pays for exactly one period of one price.\<close>

definition full_period_amounts_match :: "jsval \<Rightarrow> jsval \<Rightarrow> jsval list \<Rightarrow> Plan \<Rightarrow> BillingInterval \<Rightarrow> bool" where
  "full_period_amounts_match invoice line lines plan interval \<longleftrightarrow>
     (let expected = Some (month_price plan interval);
          invoiceTotal = stripeInteger (jprop invoice ''total'');
          amountDue = (if has_field invoice ''amount_due'' then stripeInteger (jprop invoice ''amount_due'') else invoiceTotal);
          subtotal = (if has_field invoice ''subtotal'' then stripeInteger (jprop invoice ''subtotal'') else invoiceTotal) in
      stripeInteger (jprop line ''quantity'') = Some 1 \<and> stripeInteger (jprop line ''amount'') = expected \<and>
      stripeInteger (jprop invoice ''amount_paid'') = expected \<and> invoiceTotal = expected \<and>
      amountDue = expected \<and> subtotal = expected \<and> invoiceCurrency invoice = p_currency plan \<and>
      lower_text (jprop line ''currency'') (invoiceCurrency invoice) = p_currency plan \<and>
      \<not> hasUnsupportedInvoiceAdjustments invoice (JArr lines))"

definition line_period :: "jsval \<Rightarrow> (int \<times> int) option" where
  "line_period line =
     (let period = jprop line ''period'' in
      if \<not> isPlainRecord period then None
      else case (stripeNonnegativeInteger (jprop period ''start''), stripeNonnegativeInteger (jprop period ''end'')) of
          (Some periodStart, Some periodEnd) \<Rightarrow> if periodEnd \<le> periodStart then None else Some (periodStart, periodEnd)
        | _ \<Rightarrow> None)"

definition sku :: "string \<Rightarrow> BillingInterval option \<Rightarrow> string" where
  "sku plan interval = plan @ '':'' @ (case interval of None \<Rightarrow> [] | Some i \<Rightarrow> interval_text i)"

text \<open>Which Checkout claim lets a new subscription fund an account.\<close>

definition checkoutAuthorized ::
  "account \<Rightarrow> checkout_claim option \<Rightarrow> string option \<Rightarrow> jsval \<Rightarrow> Plan \<Rightarrow> BillingInterval \<Rightarrow> bool" where
  "checkoutAuthorized a claim subscription metadata plan interval \<longleftrightarrow>
     subscription \<noteq> None \<and>
     (acc_subscription a = subscription \<or>
      (case claim of
         None \<Rightarrow> False
       | Some c \<Rightarrow> cc_plan c = p_key plan \<and> cc_interval c = interval \<and>
           jprop metadata ''claim_token'' = JStr (cc_token c)))"

definition intended_change ::
  "string \<Rightarrow> string option \<Rightarrow> Plan \<Rightarrow> BillingInterval \<Rightarrow> string \<Rightarrow> plan_change_status set \<Rightarrow> plan_change \<Rightarrow> bool" where
  "intended_change acc subscription plan interval invoice statuses c \<longleftrightarrow>
     pc_account c = acc \<and> Some (pc_subscription c) = subscription \<and> pc_target_plan c = p_key plan \<and>
     pc_target_interval c = interval \<and> (pc_settlement c = None \<or> pc_settlement c = Some invoice) \<and>
     pc_status c \<in> statuses"

text \<open>Binding the invoice to a plan change: it fails when another invoice settles the change.\<close>

definition bind_settlement :: "string \<Rightarrow> string \<Rightarrow> (plan_change \<Rightarrow> plan_change) \<Rightarrow> unit btx" where
  "bind_settlement change invoice f =
     bind_tx (update_changes (\<lambda>c. pc_id c = change \<and> (pc_settlement c = None \<or> pc_settlement c = Some invoice))
       (\<lambda>c. f (c\<lparr>pc_settlement := coalesce (pc_settlement c) (Some invoice), pc_lease := None,
                pc_lease_expires := None\<rparr>))) (\<lambda>bound.
       if bound then ret () else throw (PlainError ''plan-change settlement Invoice binding changed''))"

definition complete_change :: "int \<Rightarrow> plan_change \<Rightarrow> plan_change" where
  "complete_change now c = c\<lparr>pc_status := CompletedChange, pc_completed := Some now\<rparr>"

definition fail_change :: "int \<Rightarrow> string \<Rightarrow> plan_change \<Rightarrow> plan_change" where
  "fail_change now reason c =
     c\<lparr>pc_status := FailedChange, pc_last_error := Some reason, pc_completed := Some now\<rparr>"

text \<open>The account after the grant of a period.\<close>

definition fund_account ::
  "Plan \<Rightarrow> BillingInterval \<Rightarrow> string \<Rightarrow> string option \<Rightarrow> string \<Rightarrow> int \<Rightarrow> int \<Rightarrow> int \<Rightarrow> ProjectionCursor
   \<Rightarrow> bool \<Rightarrow> account \<Rightarrow> account"
where
  "fund_account plan interval customer subscription invoice periodStart periodEnd allowed cursor wins a =
     a\<lparr>acc_customer := coalesce (acc_customer a) (Some customer),
       acc_subscription := coalesce subscription (acc_subscription a),
       acc_plan_key := p_key plan, acc_plan_interval := Some interval,
       acc_status := (if wins then SubActive else acc_status a), acc_revoked := False,
       acc_balance := atoms (p_monthlyCredits plan), acc_epoch := acc_epoch a + 1,
       acc_event_created := created cursor, acc_event_rank := rank cursor,
       acc_period_end := Some (to_timestamp periodEnd), acc_entitlement_end := Some (to_timestamp periodEnd),
       acc_credit_expires :=
         Some (if interval = Year then min (to_timestamp periodEnd) (plus_months (to_timestamp periodStart) 1)
               else to_timestamp periodEnd),
       acc_annual_anchor := (if interval = Year then Some (to_timestamp periodStart) else None),
       acc_annual_issued := (if interval = Year then 1 else 0), acc_annual_allowed := allowed,
       acc_funding_invoice := (if interval = Year then Some invoice else None)\<rparr>"

definition mark_granted :: "string \<Rightarrow> int \<Rightarrow> bool \<Rightarrow> unit btx" where
  "mark_granted invoice units closed =
     update_invoices invoice (\<lambda>i. i\<lparr>is_units_per_slot := units, is_issued := 1,
       is_closure_applied := (if closed then True else is_closure_applied i)\<rparr>)"

text \<open>The refusals of an invoice line before the invoice is looked up.\<close>

definition line_refusal ::
  "processor_config \<Rightarrow> string \<Rightarrow> jsval \<Rightarrow> jsval \<Rightarrow> jsval list \<Rightarrow> Plan \<Rightarrow> BillingInterval \<Rightarrow> bool \<Rightarrow> refusal option" where
  "line_refusal cfg invoiceId invoice line lines plan interval priceMatches =
     first_refusal
       [(\<not> priceMatches,
         (''invoice_price_identity_mismatch'', invoiceId,
          [(''lookup_key'', nullable_text (lineLookup line)),
           (''price_id'', nullable_text (asStripeId (jprop line ''price''))), (''plan'', JStr (p_key plan)),
           (''interval'', JStr (interval_text interval))],
          ''Invoice Price or Product identity does not match the catalog'')),
        (\<not> full_period_amounts_match invoice line lines plan interval,
         (''invoice_catalog_amount_mismatch'', invoiceId,
          [(''plan'', JStr (p_key plan)), (''interval'', JStr (interval_text interval)),
           (''expected_amount'', JStr (show_int (month_price plan interval))),
           (''quantity'', nullable_int (stripeInteger (jprop line ''quantity''))),
           (''unsupported_adjustments'', JBool (hasUnsupportedInvoiceAdjustments invoice (JArr lines)))],
          ''invoice amount or currency does not match the catalog''))]"

definition replay_grant :: "jsval \<Rightarrow> string \<Rightarrow> account \<Rightarrow> ledger_entry \<Rightarrow> ProcessResult btx" where
  "replay_grant event invoiceId a existing =
     (if le_account existing \<noteq> acc_id a
      then bind_tx (incident ''invoice_grant_identity_conflict'' event invoiceId (Some invoiceId) (Some (acc_id a)) [])
             (\<lambda>_. ret (ignored ''invoice grant belongs to another account''))
      else
        bind_tx (lift_tx (eventWinsAccount a event)) (\<lambda>wins.
        bind_tx (if wins
                 then let cursor = projectedCursor a event in
                      set_account (acc_id a) (\<lambda>r. r\<lparr>acc_event_created := created cursor,
                        acc_event_rank := rank cursor, acc_status := SubActive\<rparr>)
                 else ret ()) (\<lambda>_.
          ret (replayed ''invoice grant slot already exists'' (acc_id a)))))"

text \<open>The refusals after the authority of the event is known.\<close>

definition funding_refusal ::
  "string \<Rightarrow> account \<Rightarrow> string option \<Rightarrow> jsval list \<Rightarrow> jsval list \<Rightarrow> refusal option" where
  "funding_refusal invoiceId a subscription lines prorations =
     first_refusal
       [(prorations \<noteq> [],
         (''unsafe_cross_invoice_proration'', invoiceId, [(''line_count'', JInt (int (length prorations)))],
          ''cross-invoice proration is unsafe'')),
        (length lines \<noteq> 1,
         (''ambiguous_invoice_lines'', invoiceId,
          [(''grant_line_count'', JInt (int (length (filter (\<lambda>l. \<not> lineIsProration l) lines)))),
           (''line_count'', JInt (int (length lines)))],
          ''invoice must have exactly one grant line'')),
        (acc_subscription a \<noteq> None \<and> subscription \<noteq> acc_subscription a,
         (''paid_subscription_identity_conflict'', acc_id a @ '':'' @ invoiceId, binding (acc_subscription a) subscription,
          ''invoice belongs to a different subscription''))]"

definition stale_refusal ::
  "string \<Rightarrow> account \<Rightarrow> bool \<Rightarrow> int \<Rightarrow> int \<Rightarrow> jsval \<Rightarrow> refusal option" where
  "stale_refusal invoiceId a remoteCasFailed periodEnd amountPaid invoice =
     first_refusal
       [(remoteCasFailed \<or>
         (case acc_entitlement_end a of None \<Rightarrow> False | Some t \<Rightarrow> to_timestamp periodEnd \<le> t),
         (''stale_paid_event'', acc_id a @ '':'' @ invoiceId,
          [(''applied_created'', JStr (show_int (acc_event_created a)))], ''older than the paid entitlement period'')),
        (amountPaid \<le> 0,
         (''invoice_without_new_funding'', invoiceId, [(''total'', nullish_null (jprop invoice ''total''))],
          ''paid invoice has no new cash funding''))]"

text \<open>The slots that the cash of the invoice still funds: blocked, or the slots allowed.\<close>

definition funded_slots :: "BillingInterval \<Rightarrow> invoice_state \<Rightarrow> (bool \<times> int) result" where
  "funded_slots interval i =
     (let closed = is_fully_refunded i \<or> is_disputed i in
      case interval of
        Year \<Rightarrow>
          bind_result (if closed then Inr 0 else annualSlotsAllowed (is_total i) (is_refunded i) 0) (\<lambda>fundedAllowed.
            Inr (fundedAllowed < 1, max 1 fundedAllowed))
      | Month \<Rightarrow> Inr (closed, 12))"

definition block_grant :: "int \<Rightarrow> string \<Rightarrow> string \<Rightarrow> account \<Rightarrow> Plan \<Rightarrow> plan_change option \<Rightarrow> ProcessResult btx" where
  "block_grant now eventId invoiceId a plan transition =
     bind_tx (entry (acc_id a) 0 (acc_balance a) 0 ''subscription_grant_blocked'' (acc_epoch a) eventId
                (Some invoiceId) (Some 1)) (\<lambda>_.
     bind_tx (mark_granted invoiceId (atoms (p_monthlyCredits plan)) True) (\<lambda>_.
     bind_tx (case transition of
                None \<Rightarrow> ret ()
              | Some c \<Rightarrow> bind_settlement (pc_id c) invoiceId (fail_change now ''invoice_funding_closed'')) (\<lambda>_.
       ret (refused ''invoice funding does not cover an entitlement slot'' (acc_id a)))))"

definition grant_period ::
  "int \<Rightarrow> jsval \<Rightarrow> string \<Rightarrow> string \<Rightarrow> account \<Rightarrow> Plan \<Rightarrow> BillingInterval \<Rightarrow> string \<Rightarrow> string option \<Rightarrow> int \<Rightarrow> int
   \<Rightarrow> int \<Rightarrow> invoice_state \<Rightarrow> plan_change option \<Rightarrow> ProcessResult btx"
where
  "grant_period now event eventId invoiceId a plan interval customer subscription periodStart periodEnd allowed state transition =
     (let credits = atoms (p_monthlyCredits plan); newEpoch = acc_epoch a + 1 in
      bind_tx (lift_tx (eventWinsAccount a event)) (\<lambda>wins.
      let cursor = (if wins then projectedCursor a event else Cursor (acc_event_created a) (acc_event_rank a)) in
      bind_tx (set_account (acc_id a)
                 (fund_account plan interval customer subscription invoiceId periodStart periodEnd allowed cursor wins)) (\<lambda>_.
      bind_tx (gets (\<lambda>b. length (ledger (core b)))) (\<lambda>grantId.
      bind_tx (entry (acc_id a) (credits - acc_balance a) credits credits ''subscription_grant'' newEpoch eventId
                 (Some invoiceId) (Some 1)) (\<lambda>_.
      bind_tx (mark_granted invoiceId credits False) (\<lambda>_.
      bind_tx (if interval = Month \<and> is_refunded state > 0
               then bind_tx (on_core (applyClawbackToGrant now (acc_id a) invoiceId grantId credits (is_total state)
                      (is_refunded state) False ''refund_clawback'' eventId)) (\<lambda>_. ret ())
               else ret ()) (\<lambda>_.
      bind_tx (on_core (collectPackDebtsFromSubscription now (acc_id a) newEpoch (''pack-debt:'' @ eventId))) (\<lambda>_.
      bind_tx (case transition of
                 Some c \<Rightarrow> ret (Some c)
               | None \<Rightarrow> gets (latest_change (intended_change (acc_id a) subscription plan interval invoiceId
                            {Scheduled, Applied, RequiresAction}))) (\<lambda>settled_change.
      bind_tx (case settled_change of
                 None \<Rightarrow> ret ()
               | Some c \<Rightarrow>
                   bind_tx (bind_settlement (pc_id c) invoiceId (complete_change now)) (\<lambda>_.
                     resolvePlanChangeIncidents (acc_id a) invoiceId (pc_id c))) (\<lambda>_.
        ret \<lparr>pr_outcome = Handled, pr_reason = [], pr_account = Some (acc_id a)\<rparr>))))))))))"


text \<open>The plan change that authorizes an invoice, when one must: \<open>None\<close> when it is missing.\<close>

definition authorizing_change ::
  "string \<Rightarrow> account \<Rightarrow> Plan \<Rightarrow> BillingInterval \<Rightarrow> string option \<Rightarrow> string \<Rightarrow> billing \<Rightarrow> plan_change option option" where
  "authorizing_change billingReason a plan interval subscription invoiceId b =
     (if billingReason = ''subscription_update'' \<or>
         (billingReason = ''subscription_cycle'' \<and>
          sku (p_key plan) (Some interval) \<noteq> sku (acc_plan_key a) (acc_plan_interval a))
      then case latest_change (intended_change (acc_id a) subscription plan interval invoiceId
                  {Applying, Scheduled, Applied, RequiresAction}) b of
          None \<Rightarrow> None
        | Some c \<Rightarrow> if billingReason = ''subscription_update'' \<and> pc_mode c \<noteq> immediate then None else Some (Some c)
      else Some None)"

definition invoicePaidFullPeriod ::
  "processor_config \<Rightarrow> int \<Rightarrow> jsval \<Rightarrow> jsval \<Rightarrow> account \<Rightarrow> jsval list \<Rightarrow> string \<Rightarrow> string option \<Rightarrow> string
   \<Rightarrow> jsval list \<Rightarrow> ProcessResult btx"
where
  "invoicePaidFullPeriod cfg now event invoice a lines billingReason subscription customer prorations =
     bind_tx (lift_tx (requiredObjectId invoice)) (\<lambda>invoiceId.
     bind_tx (lift_tx (requiredEventId event)) (\<lambda>eventId.
     let no = refuse event (Some invoiceId) (acc_id a) in
     case filter (\<lambda>l. \<not> lineIsProration l) lines of
       [line] \<Rightarrow>
         (case parseLookupKey (cfg_catalog cfg) (lineLookup line) of
            None \<Rightarrow>
              no (''unknown_price'', invoiceId, [(''lookup_key'', nullable_text (lineLookup line))],
                  ''price lookup key is not in the catalog'')
          | Some (plan, interval) \<Rightarrow>
              bind_tx (lift_tx (catalogLineMatches (cfg_catalog cfg) (cfg_productLine cfg) line plan interval)) (\<lambda>priceMatches.
              guarded_by (line_refusal cfg invoiceId invoice line lines plan interval priceMatches) no (
              case line_period line of
                None \<Rightarrow> no (''invalid_entitlement_period'', invoiceId, [], ''invoice service period is invalid'')
              | Some (periodStart, periodEnd) \<Rightarrow>
              bind_tx (gets (\<lambda>b. find_grant (core b) invoiceId 1)) (\<lambda>existing.
              case existing of
                Some e \<Rightarrow> replay_grant event invoiceId a e
              | None \<Rightarrow>
              bind_tx (gets (\<lambda>b. find_claim b (acc_id a))) (\<lambda>claim.
              if billingReason = ''subscription_create'' \<and>
                 \<not> checkoutAuthorized a claim subscription (subscriptionMetadata invoice) plan interval
              then no (''subscription_create_without_checkout'', invoiceId, [],
                       ''subscription create lacks a live Checkout claim'')
              else
              bind_tx (gets (authorizing_change billingReason a plan interval subscription invoiceId)) (\<lambda>authority.
              case authority of
                None \<Rightarrow>
                  no (''paid_plan_change_without_intent'', invoiceId,
                      [(''plan'', JStr (p_key plan)), (''interval'', JStr (interval_text interval))],
                      ''paid plan change lacks an authenticated intent'')
              | Some transition \<Rightarrow>
              guarded_by (funding_refusal invoiceId a subscription lines prorations) no (
              bind_tx (lift_tx (if jprop event ''_remote_verified'' = JBool True
                                then bind_result (eventWinsAccount a event) (\<lambda>wins. Inr (\<not> wins))
                                else Inr False)) (\<lambda>remoteCasFailed.
              guarded_by (stale_refusal invoiceId a remoteCasFailed periodEnd (month_price plan interval) invoice) no (
              bind_tx (claimInvoiceState event (acc_id a) invoiceId (month_price plan interval)) (\<lambda>state.
              case state of
                None \<Rightarrow> ret (refused ''invoice is owned by another account'' (acc_id a))
              | Some i \<Rightarrow>
                  bind_tx (lift_tx (funded_slots interval i)) (\<lambda>(blocked, allowed).
                  if blocked then block_grant now eventId invoiceId a plan transition
                  else grant_period now event eventId invoiceId a plan interval customer subscription
                         periodStart periodEnd allowed i transition)))))))))))
     | ls \<Rightarrow>
         no (''ambiguous_invoice_lines'', invoiceId,
             [(''grant_line_count'', JInt (int (length ls))), (''line_count'', JInt (int (length lines)))],
             ''invoice must have exactly one grant line'')))"

section \<open>A paid upgrade\<close>

record prorated_shape =
  sh_source :: Plan
  sh_target :: Plan
  sh_source_line :: string
  sh_target_line :: string
  sh_source_credit :: int
  sh_target_charge :: int
  sh_paid :: int
  sh_currency :: string
  sh_start :: int
  sh_end :: int

definition demand :: "bool \<Rightarrow> string \<Rightarrow> unit result" where
  "demand holds message = (if holds then Inr () else Inl (PlainError message))"

fun error_message :: "error \<Rightarrow> string" where
  "error_message (TypeError m) = m"
| "error_message (RangeError m) = m"
| "error_message (PlainError m) = m"
| "error_message _ = ''invalid prorated delta Invoice''"

text \<open>
  The loop over the lines: the line of the plan that is left and the line of the plan that is
  entered, each at most once.
\<close>

fun classify_lines ::
  "processor_config \<Rightarrow> plan_change \<Rightarrow> jsval list \<Rightarrow> (jsval \<times> Plan) option \<Rightarrow> (jsval \<times> Plan) option
   \<Rightarrow> ((jsval \<times> Plan) option \<times> (jsval \<times> Plan) option) result"
where
  "classify_lines cfg c [] source target = Inr (source, target)"
| "classify_lines cfg c (line # lines) source target =
     bind_result (demand (lineIsProration line) ''both prorated delta lines must be prorations'') (\<lambda>_.
     bind_result (demand (stripeInteger (jprop line ''quantity'') = Some 1 \<and> asStripeId (jprop line ''id'') \<noteq> None)
       ''prorated delta lines require identity and quantity one'') (\<lambda>_.
     bind_result (required (parseLookupKey (cfg_catalog cfg) (lineLookup line))
       ''every prorated delta line must use a catalog Price'') (\<lambda>(plan, interval).
     bind_result (demand (interval = Month) ''prorated delta is supported only for monthly Prices'') (\<lambda>_.
     bind_result (catalogLineMatches (cfg_catalog cfg) (cfg_productLine cfg) line plan interval) (\<lambda>matches.
     bind_result (demand matches ''Invoice Price or Product identity differs from the catalog'') (\<lambda>_.
       if p_key plan = pc_from_plan c
       then bind_result (demand (source = None) ''multiple source Price lines are ambiguous'') (\<lambda>_.
              classify_lines cfg c lines (Some (line, plan)) target)
       else if p_key plan = pc_target_plan c
       then bind_result (demand (target = None) ''multiple target Price lines are ambiguous'') (\<lambda>_.
              classify_lines cfg c lines source (Some (line, plan)))
       else Inl (PlainError ''Invoice contains a Price outside the authorized transition'')))))))"

text \<open>The two proration amounts are a credit and a larger charge, for one fraction of the period.\<close>

definition check_amounts :: "Plan \<Rightarrow> Plan \<Rightarrow> int \<Rightarrow> int \<Rightarrow> unit result" where
  "check_amounts sourcePlan targetPlan sourceAmount targetAmount =
     (let sourceCatalog = p_monthUsd sourcePlan * 100; targetCatalog = p_monthUsd targetPlan * 100 in
      bind_result (demand (sourceAmount < 0 \<and> 0 < targetAmount \<and> - sourceAmount < targetAmount)
        ''Invoice does not contain a positive net upgrade difference'') (\<lambda>_.
      bind_result (demand (- sourceAmount \<le> sourceCatalog \<and> targetAmount \<le> targetCatalog)
        ''proration amounts cannot exceed one complete monthly Price'') (\<lambda>_.
        demand (\<bar>- sourceAmount * targetCatalog - targetAmount * sourceCatalog\<bar> \<le> max sourceCatalog targetCatalog)
          ''source and target prorations use inconsistent period fractions'')))"

text \<open>The cash of the invoice: its total is the net of the two lines and was paid in full.\<close>

definition check_cash :: "jsval \<Rightarrow> jsval list \<Rightarrow> Plan \<Rightarrow> int \<Rightarrow> int \<Rightarrow> int result" where
  "check_cash invoice lines targetPlan sourceAmount targetAmount =
     (let currency = invoiceCurrency invoice;
          amountTotal = stripeInteger (jprop invoice ''total'');
          amountPaid = stripeInteger (jprop invoice ''amount_paid'');
          amountDue = (if has_field invoice ''amount_due'' then stripeInteger (jprop invoice ''amount_due'') else amountTotal);
          subtotal = (if has_field invoice ''subtotal'' then stripeInteger (jprop invoice ''subtotal'') else amountTotal) in
      bind_result (demand (currency \<noteq> []) ''source and target Prices must use one currency'') (\<lambda>_.
      bind_result (demand (list_all (\<lambda>l. lower_text (jprop l ''currency'') currency = currency) lines \<and>
          currency = p_currency targetPlan) ''Invoice and line currencies do not match the catalog'') (\<lambda>_.
      case amountPaid of
        None \<Rightarrow> Inl (PlainError ''Invoice net total must be fully paid by new cash'')
      | Some paid \<Rightarrow>
          bind_result (demand (0 < paid \<and> amountTotal = Some paid \<and> amountDue = Some paid \<and> subtotal = amountTotal \<and>
              sourceAmount + targetAmount = paid) ''Invoice net total must be fully paid by new cash'') (\<lambda>_.
          bind_result (demand (\<not> hasUnsupportedInvoiceAdjustments invoice (JArr lines))
            ''balance, credit notes, taxes and discounts are not supported'') (\<lambda>_.
            Inr paid)))))"

text \<open>Both lines cover the same service period.\<close>

definition shared_period :: "jsval \<Rightarrow> jsval \<Rightarrow> (int \<times> int) result" where
  "shared_period sourceLine targetLine =
     (let sourcePeriod = jprop sourceLine ''period''; targetPeriod = jprop targetLine ''period'';
          mismatch = Inl (PlainError ''source and target proration periods must match'') in
      if \<not> isPlainRecord sourcePeriod \<or> \<not> isPlainRecord targetPeriod then mismatch
      else case (stripeNonnegativeInteger (jprop targetPeriod ''start''), stripeNonnegativeInteger (jprop targetPeriod ''end'')) of
          (Some periodStart, Some periodEnd) \<Rightarrow>
            if stripeNonnegativeInteger (jprop sourcePeriod ''start'') \<noteq> Some periodStart \<or>
               stripeNonnegativeInteger (jprop sourcePeriod ''end'') \<noteq> Some periodEnd then mismatch
            else if periodEnd \<le> periodStart then Inl (PlainError ''proration service period is invalid'')
            else Inr (periodStart, periodEnd)
        | _ \<Rightarrow> mismatch)"

text \<open>The facts of the durable preview: the customer paid exactly what was shown.\<close>

definition check_preview :: "plan_change \<Rightarrow> int \<Rightarrow> int \<Rightarrow> int \<Rightarrow> string \<Rightarrow> int \<Rightarrow> int \<Rightarrow> unit result" where
  "check_preview c sourceAmount targetAmount paid currency periodStart periodEnd =
     (case pc_proration_date c of
        None \<Rightarrow> Inl (TypeError ''proration_date must be an exact PostgreSQL integer string'')
      | Some date \<Rightarrow>
          bind_result (demand (periodStart = date) ''Invoice proration date differs from the durable preview'') (\<lambda>_.
          bind_result (demand (pc_expected_period_end c = Some (to_timestamp periodEnd))
            ''Invoice period end differs from the funded entitlement period'') (\<lambda>_.
          case (pc_source_proration c, pc_target_proration c, pc_amount_due c, pc_period_start c, pc_period_end c, pc_currency c) of
            (Some source, Some target, Some due, Some previewStart, Some previewEnd, Some previewCurrency) \<Rightarrow>
              demand (source = - sourceAmount \<and> target = targetAmount \<and> due = paid \<and>
                  previewStart = to_timestamp periodStart \<and> previewEnd = to_timestamp periodEnd \<and>
                  toLowerCase previewCurrency = currency)
                ''paid Invoice differs from the durable prorated preview''
          | _ \<Rightarrow> Inl (PlainError ''durable prorated preview facts are incomplete''))))"

definition parseProratedDeltaShape ::
  "processor_config \<Rightarrow> jsval \<Rightarrow> plan_change \<Rightarrow> jsval list \<Rightarrow> prorated_shape result" where
  "parseProratedDeltaShape cfg invoice c lines =
     (let container = jprop invoice ''lines'' in
      bind_result (demand (\<not> (isPlainRecord container \<and> jprop container ''has_more'' = JBool True))
        ''Invoice line pagination was not completed'') (\<lambda>_.
      bind_result (demand (length lines = 2) ''prorated delta requires exactly two Invoice lines'') (\<lambda>_.
      bind_result (classify_lines cfg c lines None None) (\<lambda>found.
      case found of
        (Some (sourceLine, sourcePlan), Some (targetLine, targetPlan)) \<Rightarrow>
          bind_result (demand (pc_from_interval c = Month \<and> pc_target_interval c = Month \<and> p_rank sourcePlan < p_rank targetPlan)
            ''intent is not a supported monthly tier upgrade'') (\<lambda>_.
          case (stripeInteger (jprop sourceLine ''amount''), stripeInteger (jprop targetLine ''amount'')) of
            (Some sourceAmount, Some targetAmount) \<Rightarrow>
              bind_result (check_amounts sourcePlan targetPlan sourceAmount targetAmount) (\<lambda>_.
              bind_result (check_cash invoice lines targetPlan sourceAmount targetAmount) (\<lambda>paid.
              bind_result (shared_period sourceLine targetLine) (\<lambda>(periodStart, periodEnd).
              bind_result (check_preview c sourceAmount targetAmount paid (invoiceCurrency invoice) periodStart periodEnd) (\<lambda>_.
              bind_result (requiredObjectId sourceLine) (\<lambda>sourceId.
              bind_result (requiredObjectId targetLine) (\<lambda>targetId.
                Inr \<lparr>sh_source = sourcePlan, sh_target = targetPlan, sh_source_line = sourceId, sh_target_line = targetId,
                     sh_source_credit = - sourceAmount, sh_target_charge = targetAmount, sh_paid = paid,
                     sh_currency = invoiceCurrency invoice, sh_start = periodStart, sh_end = periodEnd\<rparr>))))))
          | _ \<Rightarrow> Inl (PlainError ''prorated delta amounts must be integers''))
      | _ \<Rightarrow> Inl (PlainError ''Invoice is missing the authorized source or target Price line'')))))"

text \<open>The invoice that funds the epoch of an account now: ledger and allocations are in the order of their identities.\<close>

definition latestFundingInvoice :: "string \<Rightarrow> int \<Rightarrow> billing \<Rightarrow> string option" where
  "latestFundingInvoice acc epoch b =
     (case rev (filter (\<lambda>e. le_account e = acc \<and> le_epoch e = epoch \<and> le_slot e \<noteq> None \<and> le_units e > 0 \<and>
              le_reason e \<in> {''subscription_grant'', ''upgrade_delta_grant''}) (ledger (core b))) of
        e # _ \<Rightarrow> le_invoice e
      | [] \<Rightarrow>
          (case rev (filter (\<lambda>a. fa_account a = acc \<and> fa_epoch a = epoch \<and>
                   fa_status a \<in> {FundingClosed, FundingDisputed}) (funding_allocations b)) of
             a # _ \<Rightarrow> Some (fa_source_invoice a)
           | [] \<Rightarrow> None))"

definition sameTimestamp :: "int option \<Rightarrow> int option \<Rightarrow> bool" where
  "sameTimestamp left right \<longleftrightarrow> left \<noteq> None \<and> left = right"

definition allocation_status_of :: "invoice_state \<Rightarrow> int \<Rightarrow> allocation_status" where
  "allocation_status_of i refundUnits =
     (if is_disputed i then FundingDisputed
      else if is_fully_refunded i then FundingClosed
      else if refundUnits > 0 then FundingPartial
      else FundingActive)"

definition delta_snapshot_matches :: "account \<Rightarrow> plan_change \<Rightarrow> bool" where
  "delta_snapshot_matches a c \<longleftrightarrow>
     acc_subscription a = Some (pc_subscription c) \<and> acc_plan_key a = pc_from_plan c \<and>
     acc_plan_interval a = Some (pc_from_interval c) \<and> acc_epoch a = pc_expected_epoch c \<and>
     sameTimestamp (acc_entitlement_end a) (pc_expected_period_end c) \<and>
     \<not> acc_revoked a \<and> \<not> pc_expected_revoked c"

text \<open>
  \<open>insert \<dots> on conflict(stripe_invoice_id) do nothing\<close>: whether a row was inserted. The source
  invoice is \<open>not null\<close>.
\<close>

definition insert_funding ::
  "string \<Rightarrow> plan_change \<Rightarrow> string \<Rightarrow> string \<Rightarrow> prorated_shape \<Rightarrow> int \<Rightarrow> int \<Rightarrow> int \<Rightarrow> allocation_status \<Rightarrow> bool btx" where
  "insert_funding acc c invoice event shape delta refundUnits epoch status =
     bind_tx (gets (\<lambda>b. find_funding b invoice)) (\<lambda>present.
     case (pc_expected_source c, present) of
       (None, _) \<Rightarrow> throw (ConstraintViolation ''not_null_violation'')
     | (Some _, Some _) \<Rightarrow> ret False
     | (Some source, None) \<Rightarrow>
         bind_tx (modify (\<lambda>b. b\<lparr>next_funding := next_funding b + 1,
           funding_allocations := funding_allocations b @
             [\<lparr>fa_id = next_funding b, fa_account = acc, fa_plan_change = pc_id c, fa_invoice = invoice,
               fa_source_invoice = source, fa_event = event, fa_source_plan = p_key (sh_source shape),
               fa_source_interval = Month, fa_target_plan = p_key (sh_target shape), fa_target_interval = Month,
               fa_source_line = sh_source_line shape, fa_target_line = sh_target_line shape, fa_delta = delta,
               fa_refunded = refundUnits, fa_source_credit = sh_source_credit shape,
               fa_target_charge = sh_target_charge shape, fa_paid = sh_paid shape, fa_currency = sh_currency shape,
               fa_period_start = to_timestamp (sh_start shape), fa_period_end = to_timestamp (sh_end shape),
               fa_epoch = epoch, fa_status = status\<rparr>]\<rparr>))
           (\<lambda>_. ret True))"

definition settle_change :: "string \<Rightarrow> string \<Rightarrow> (plan_change \<Rightarrow> plan_change) \<Rightarrow> unit btx" where
  "settle_change change invoice f =
     bind_tx (update_changes (\<lambda>c. pc_id c = change)
       (\<lambda>c. f (c\<lparr>pc_settlement := Some invoice, pc_lease := None, pc_lease_expires := None\<rparr>))) (\<lambda>_. ret ())"

definition block_delta ::
  "int \<Rightarrow> jsval \<Rightarrow> string \<Rightarrow> string \<Rightarrow> account \<Rightarrow> plan_change \<Rightarrow> int \<Rightarrow> ProcessResult btx" where
  "block_delta now event eventId invoiceId a c delta =
     bind_tx (entry (acc_id a) 0 (acc_balance a) 0 ''upgrade_delta_blocked'' (acc_epoch a) eventId
                (Some invoiceId) (Some 1)) (\<lambda>_.
     bind_tx (mark_granted invoiceId delta True) (\<lambda>_.
     bind_tx (settle_change (pc_id c) invoiceId (fail_change now ''invoice_funding_closed'')) (\<lambda>_.
       refuse event (Some invoiceId) (acc_id a)
         (''prorated_delta_funding_closed'', invoiceId, [], ''upgrade invoice funding was already closed''))))"

text \<open>The account after the grant of an upgrade: the period and the epoch stay.\<close>

definition upgrade_account :: "Plan \<Rightarrow> string option \<Rightarrow> int \<Rightarrow> ProjectionCursor \<Rightarrow> bool \<Rightarrow> account \<Rightarrow> account" where
  "upgrade_account plan customer balance cursor wins a =
     a\<lparr>acc_customer := coalesce (acc_customer a) customer, acc_plan_key := p_key plan,
       acc_plan_interval := Some Month, acc_status := (if wins then SubActive else acc_status a),
       acc_balance := balance, acc_revoked := False,
       acc_event_created := created cursor, acc_event_rank := rank cursor\<rparr>"

definition grant_delta ::
  "int \<Rightarrow> jsval \<Rightarrow> string \<Rightarrow> jsval \<Rightarrow> string \<Rightarrow> account \<Rightarrow> plan_change \<Rightarrow> prorated_shape \<Rightarrow> invoice_state
   \<Rightarrow> int \<Rightarrow> int \<Rightarrow> ProcessResult btx"
where
  "grant_delta now event eventId invoice invoiceId a c shape state delta refundUnits =
     (bind_tx (lift_tx (eventWinsAccount a event)) (\<lambda>wins.
      let cursor = (if wins then projectedCursor a event else Cursor (acc_event_created a) (acc_event_rank a)) in
      bind_tx (lift_tx (checkedAddAtoms (acc_balance a) delta ''prorated upgrade credit balance'')) (\<lambda>newBalance.
      bind_tx (set_account (acc_id a)
                 (upgrade_account (sh_target shape) (asStripeId (jprop invoice ''customer'')) newBalance cursor wins)) (\<lambda>_.
      bind_tx (gets (\<lambda>b. length (ledger (core b)))) (\<lambda>grantId.
      bind_tx (entry (acc_id a) delta newBalance delta ''upgrade_delta_grant'' (acc_epoch a) eventId
                 (Some invoiceId) (Some 1)) (\<lambda>_.
      bind_tx (mark_granted invoiceId delta False) (\<lambda>_.
      bind_tx (on_core (collectClawbackDebts (acc_id a) (acc_epoch a) eventId)) (\<lambda>_.
      bind_tx (on_core (collectPackDebtsFromSubscription now (acc_id a) (acc_epoch a) (''pack-debt:'' @ eventId))) (\<lambda>_.
      bind_tx (if refundUnits > 0
               then bind_tx (on_core (applyClawbackToGrant now (acc_id a) invoiceId grantId delta (is_total state)
                      (is_refunded state) False ''refund_clawback'' eventId)) (\<lambda>_. ret ())
               else ret ()) (\<lambda>_.
      bind_tx (settle_change (pc_id c) invoiceId (complete_change now)) (\<lambda>_.
      bind_tx (resolvePlanChangeIncidents (acc_id a) invoiceId (pc_id c)) (\<lambda>_.
        ret \<lparr>pr_outcome = Handled, pr_reason = [], pr_account = Some (acc_id a)\<rparr>))))))))))))"

definition delta_stale :: "account \<Rightarrow> plan_change \<Rightarrow> string \<Rightarrow> string option \<Rightarrow> refusal option" where
  "delta_stale a c invoiceId latestFunding =
     first_refusal
       [(\<not> delta_snapshot_matches a c \<or> latestFunding \<noteq> pc_expected_source c,
         (''stale_prorated_delta_invoice'', invoiceId,
          [(''expected_source_invoice'', nullable_text (pc_expected_source c)),
           (''observed_source_invoice'', nullable_text latestFunding)],
          ''entitlement snapshot or funding lineage changed''))]"

definition delta_mismatch :: "prorated_shape \<Rightarrow> int \<Rightarrow> string \<Rightarrow> refusal option" where
  "delta_mismatch shape expectedDelta invoiceId =
     (let actualDelta = atoms (p_monthlyCredits (sh_target shape)) - atoms (p_monthlyCredits (sh_source shape)) in
      first_refusal
        [(expectedDelta \<le> 0 \<or> actualDelta \<noteq> expectedDelta,
          (''prorated_delta_entitlement_mismatch'', invoiceId,
           [(''expected_delta_atoms'', JStr (show_int expectedDelta)),
            (''actual_delta_atoms'', JStr (show_int actualDelta))],
           ''entitlement delta does not match intent''))])"

text \<open>The invoice is claimed, its allocation recorded, and the difference granted or blocked.\<close>

definition fund_delta ::
  "int \<Rightarrow> jsval \<Rightarrow> string \<Rightarrow> jsval \<Rightarrow> string \<Rightarrow> account \<Rightarrow> plan_change \<Rightarrow> prorated_shape \<Rightarrow> int \<Rightarrow> ProcessResult btx" where
  "fund_delta now event eventId invoice invoiceId a c shape delta =
     bind_tx (claimInvoiceState event (acc_id a) invoiceId (sh_paid shape)) (\<lambda>state.
     case state of
       None \<Rightarrow> ret (refused ''invoice is owned by another account'' (acc_id a))
     | Some i \<Rightarrow>
         let closed = is_fully_refunded i \<or> is_disputed i;
             refundUnits = (if closed then delta else ceilRatio delta (is_refunded i) (is_total i)) in
         bind_tx (insert_funding (acc_id a) c invoiceId eventId shape delta refundUnits (acc_epoch a)
                    (allocation_status_of i refundUnits)) (\<lambda>inserted.
         if \<not> inserted
         then refuse event (Some invoiceId) (acc_id a)
                (''funding_allocation_conflict'', invoiceId, [], ''funding allocation already exists'')
         else if closed then block_delta now event eventId invoiceId a c delta
         else grant_delta now event eventId invoice invoiceId a c shape i delta refundUnits))"

definition invoicePaidProratedDelta ::
  "processor_config \<Rightarrow> int \<Rightarrow> jsval \<Rightarrow> jsval \<Rightarrow> account \<Rightarrow> plan_change \<Rightarrow> jsval list \<Rightarrow> ProcessResult btx" where
  "invoicePaidProratedDelta cfg now event invoice a c lines =
     bind_tx (lift_tx (requiredObjectId invoice)) (\<lambda>invoiceId.
     bind_tx (lift_tx (requiredEventId event)) (\<lambda>eventId.
     let no = refuse event (Some invoiceId) (acc_id a) in
     bind_tx (gets (\<lambda>b. find_grant (core b) invoiceId 1)) (\<lambda>existing.
     case existing of
       Some e \<Rightarrow>
         if le_account e \<noteq> acc_id a
         then bind_tx (incident ''invoice_grant_identity_conflict'' event invoiceId (Some invoiceId) (Some (acc_id a)) [])
                (\<lambda>_. ret (ignored ''invoice grant belongs to another account''))
         else ret (replayed ''invoice grant slot already exists'' (acc_id a))
     | None \<Rightarrow>
     bind_tx (gets (latestFundingInvoice (acc_id a) (acc_epoch a))) (\<lambda>latestFunding.
     guarded_by (delta_stale a c invoiceId latestFunding) no (
     case parseProratedDeltaShape cfg invoice c lines of
       Inl e \<Rightarrow>
         no (''invalid_prorated_delta_invoice'', invoiceId, [(''reason'', JStr (error_message e))], error_message e)
     | Inr shape \<Rightarrow>
     (case pc_expected_delta c of
        None \<Rightarrow> throw (TypeError ''expected_credit_delta must be an exact PostgreSQL integer string'')
      | Some delta \<Rightarrow>
          guarded_by (delta_mismatch shape delta invoiceId) no (
            fund_delta now event eventId invoice invoiceId a c shape delta)))))))"

section \<open>A paid invoice\<close>

text \<open>The upgrade that an invoice settles: bound to it, or still open and immediate.\<close>

definition prorated_transition :: "string \<Rightarrow> string \<Rightarrow> string option \<Rightarrow> string \<Rightarrow> billing \<Rightarrow> plan_change option" where
  "prorated_transition billingReason acc subscription invoiceId b =
     (if billingReason = ''subscription_update'' \<and> subscription \<noteq> None
      then latest_change (\<lambda>c. pc_account c = acc \<and> Some (pc_subscription c) = subscription \<and>
             pc_policy c = prorated_delta \<and>
             (pc_settlement c = Some invoiceId \<or>
              pc_settlement c = None \<and> pc_mode c = immediate \<and>
              pc_status c \<in> {Applying, Applied, RequiresAction})) b
      else None)"

definition invoice_refusal :: "string \<Rightarrow> account \<Rightarrow> jsval \<Rightarrow> refusal option" where
  "invoice_refusal invoiceId a invoice =
     (let customer = asStripeId (jprop invoice ''customer'');
          billingReason = jprop invoice ''billing_reason'';
          preparationError = jprop invoice ''_preparation_error'';
          container = jprop invoice ''lines'';
          lines = (case stripeLines invoice of None \<Rightarrow> [] | Some ls \<Rightarrow> ls);
          lineIds = map (\<lambda>l. asStripeId (jprop l ''id'')) lines in
      first_refusal
        [(customer_conflicts a customer,
          (''paid_customer_identity_conflict'', acc_id a @ '':'' @ invoiceId, binding (acc_customer a) customer,
           ''invoice customer identity is missing or conflicting'')),
         (billingReason \<notin> JStr ` set PAID_REASONS,
          (''unexpected_billing_reason'', invoiceId, [(''billing_reason'', nullish_null billingReason)],
           ''unexpected billing reason'')),
         (jprop invoice ''_unsupported_invoice_payment_shape'' = JBool True \<or> hasUnsupportedInvoicePaymentShape invoice,
          (''unsupported_invoice_payment_shape'', invoiceId, [],
           ''Invoice payment collection is outside the single-payment model'')),
         (\<not> isAbsent preparationError,
          (''invoice_preparation_failed'', invoiceId,
           [(''reason'', JStr (case preparationError of JStr s \<Rightarrow> take 500 s | _ \<Rightarrow> ''invalid preparation error marker''))],
           ''Invoice could not be materialized safely'')),
         (\<not> isPlainRecord container \<or> jprop container ''has_more'' = JBool True,
          (''incomplete_invoice_lines'', invoiceId, [], ''Invoice line pagination is incomplete'')),
         (stripeLines invoice = None,
          (''invalid_invoice_line_shape'', invoiceId, [], ''Invoice lines must be an array of objects'')),
         (None \<in> set lineIds \<or> \<not> distinct lineIds,
          (''invalid_invoice_line_shape'', invoiceId, [(''reason'', JStr ''line ids must be stable and unique'')],
           ''Invoice lines require stable unique identities'')),
         (list_ex (\<lambda>l. stripeInteger (jprop l ''amount'') = None) lines,
          (''invalid_invoice_line_shape'', invoiceId, [(''reason'', JStr ''line amount must be an integer'')],
           ''Invoice line amounts must be integers''))])"

definition invoicePaid :: "processor_config \<Rightarrow> int \<Rightarrow> jsval \<Rightarrow> ProcessResult btx" where
  "invoicePaid cfg now event =
     bind_tx (lift_tx (requiredEventObject event)) (\<lambda>invoice.
     bind_tx (lift_tx (requiredObjectId invoice)) (\<lambda>invoiceId.
     bind_tx (on_core (lockAccount invoice (subscriptionMetadata invoice))) (\<lambda>found.
     case found of
       None \<Rightarrow>
         bind_tx (incident ''paid_unknown_account'' event invoiceId (Some invoiceId) None
                    [(''customer'', nullable_text (asStripeId (jprop invoice ''customer'')))])
           (\<lambda>_. ret (ignored ''account not found''))
     | Some a \<Rightarrow>
         guarded_by (invoice_refusal invoiceId a invoice) (refuse event (Some invoiceId) (acc_id a)) (
         case (jprop invoice ''billing_reason'', asStripeId (jprop invoice ''customer''), stripeLines invoice) of
           (JStr billingReason, Some customer, Some lines) \<Rightarrow>
             let subscription = subscriptionId invoice;
                 prorations = filter (\<lambda>l. lineIsProration l \<and> stripeInteger (jprop l ''amount'') \<noteq> Some 0) lines in
             bind_tx (gets (prorated_transition billingReason (acc_id a) subscription invoiceId)) (\<lambda>transition.
             case transition of
               Some c \<Rightarrow> invoicePaidProratedDelta cfg now event invoice a c lines
             | None \<Rightarrow>
                 invoicePaidFullPeriod cfg now event invoice a lines billingReason subscription customer prorations)
         | _ \<Rightarrow> ret (refused ''unexpected billing reason'' (acc_id a))))))"

section \<open>A refund or a dispute of an invoice\<close>

definition downstreamAllocationCount :: "string \<Rightarrow> string \<Rightarrow> billing \<Rightarrow> nat" where
  "downstreamAllocationCount acc invoice b =
     length (filter (\<lambda>a. fa_account a = acc \<and> fa_source_invoice a = invoice \<and> fa_invoice a \<noteq> invoice)
       (funding_allocations b))"

text \<open>
  The recursive query: the allocations of the epoch, and then again and again the allocations of
  the account that funded them. The set of rows can grow only as often as there are allocations.
\<close>

definition chain_step ::
  "string \<Rightarrow> funding_allocation list \<Rightarrow> (string \<times> string) set \<Rightarrow> (string \<times> string) set" where
  "chain_step acc rows chain =
     chain \<union> (\<lambda>p. (fa_invoice p, fa_source_invoice p)) ` {p \<in> set rows. fa_account p = acc \<and> fa_invoice p \<in> snd ` chain}"

definition funding_chain :: "string \<Rightarrow> int \<Rightarrow> billing \<Rightarrow> (string \<times> string) set" where
  "funding_chain acc epoch b =
     (let rows = funding_allocations b in
      (chain_step acc rows ^^ length rows)
        ((\<lambda>p. (fa_invoice p, fa_source_invoice p)) ` {p \<in> set rows. fa_account p = acc \<and> fa_epoch p = epoch}))"

definition invoiceInActiveLineage :: "string \<Rightarrow> int \<Rightarrow> string \<Rightarrow> billing \<Rightarrow> bool" where
  "invoiceInActiveLineage acc epoch invoice b \<longleftrightarrow>
     (\<exists>r \<in> funding_chain acc epoch b. fst r = invoice \<or> snd r = invoice)"

text \<open>What a charge says was given back.\<close>

record clawback_shape =
  cs_customer :: string
  cs_amount :: int
  cs_refunded :: int
  cs_full :: bool

definition clawback_shape_of :: "jsval \<Rightarrow> bool \<Rightarrow> clawback_shape option" where
  "clawback_shape_of charge_obj dispute =
     (let amount = stripeInteger (jprop charge_obj ''amount'');
          amountRefunded = (if dispute then amount else stripeInteger (jprop charge_obj ''amount_refunded''));
          refundedFlag = jprop charge_obj ''refunded'' in
      case (asStripeId (jprop charge_obj ''customer''), amount, amountRefunded) of
        (Some customer, Some n, Some r) \<Rightarrow>
          if n \<le> 0 \<or> r < 0 \<or> r > n \<or> (\<not> isAbsent refundedFlag \<and> \<not> is_boolean refundedFlag) then None
          else Some \<lparr>cs_customer = customer, cs_amount = n, cs_refunded = r,
                     cs_full = (dispute \<or> refundedFlag = JBool True \<or> r = n)\<rparr>
      | _ \<Rightarrow> None)"

text \<open>The upsert of the refund on the state of its invoice.\<close>

definition refund_invoice :: "clawback_shape \<Rightarrow> bool \<Rightarrow> string option \<Rightarrow> invoice_state \<Rightarrow> invoice_state" where
  "refund_invoice shape dispute acc i =
     i\<lparr>is_account := coalesce (is_account i) acc, is_total := max (is_total i) (cs_amount shape),
       is_refunded := max (is_refunded i) (cs_refunded shape),
       is_fully_refunded := (is_fully_refunded i \<or> cs_full shape), is_disputed := (is_disputed i \<or> dispute)\<rparr>"

definition upsert_refund :: "string \<Rightarrow> string option \<Rightarrow> clawback_shape \<Rightarrow> bool \<Rightarrow> invoice_state btx" where
  "upsert_refund invoice acc shape dispute =
     bind_tx (gets (\<lambda>b. find_invoice b invoice)) (\<lambda>prior.
     case prior of
       Some i \<Rightarrow>
         bind_tx (update_invoices invoice (refund_invoice shape dispute acc)) (\<lambda>_.
           ret (refund_invoice shape dispute acc i))
     | None \<Rightarrow>
         let i = \<lparr>is_invoice = invoice, is_account = acc, is_total = cs_amount shape, is_refunded = cs_refunded shape,
           is_fully_refunded = cs_full shape, is_disputed = dispute, is_units_per_slot = 0, is_issued = 0,
           is_closure_applied = False\<rparr> in
         bind_tx (modify (\<lambda>b. b\<lparr>invoice_states := invoice_states b @ [i]\<rparr>)) (\<lambda>_. ret i))"

text \<open>The latest grant of an invoice, with its place in the ledger.\<close>

definition last_grant :: "string \<Rightarrow> store \<Rightarrow> (nat \<times> ledger_entry) option" where
  "last_grant invoice s =
     (case rev (filter (\<lambda>(k, e). le_invoice e = Some invoice \<and> le_slot e \<noteq> None)
             (zip [0..<length (ledger s)] (ledger s))) of
        [] \<Rightarrow> None | p # _ \<Rightarrow> Some p)"

definition overgranted :: "string \<Rightarrow> store \<Rightarrow> int" where
  "overgranted invoice s =
     sum_list (map (\<lambda>e. - le_delta e)
       (filter (\<lambda>e. le_invoice e = Some invoice \<and> le_reason e = ''annual_refund_overgrant'') (ledger s)))"

text \<open>
  A partial refund of an annual invoice takes back the slots that were granted beyond what is still
  funded.
\<close>

definition withdraw_overgrant :: "string \<Rightarrow> string \<Rightarrow> account \<Rightarrow> invoice_state \<Rightarrow> int btx" where
  "withdraw_overgrant eventId invoice a i =
     bind_tx (lift_tx (annualSlotsAllowed (is_total i) (is_refunded i) 0)) (\<lambda>allowed.
     bind_tx (gets (\<lambda>b. overgranted invoice (core b))) (\<lambda>already.
     let target = max (acc_annual_issued a - allowed) 0 * is_units_per_slot i;
         outstanding = (if target > already then target - already else 0);
         removed = (if outstanding < acc_balance a then outstanding else acc_balance a);
         next_balance = acc_balance a - removed in
     if removed > 0
     then bind_tx (set_account (acc_id a) (\<lambda>r. r\<lparr>acc_balance := next_balance\<rparr>)) (\<lambda>_.
          bind_tx (entry (acc_id a) (- removed) next_balance 0 ''annual_refund_overgrant'' (acc_epoch a) eventId
                     (Some invoice) None) (\<lambda>_. ret removed))
     else ret removed))"

text \<open>Nothing was built on the upgrade: the account returns to the plan it left.\<close>

definition revert_delta ::
  "jsval \<Rightarrow> string \<Rightarrow> string \<Rightarrow> account \<Rightarrow> funding_allocation \<Rightarrow> invoice_state \<Rightarrow> unit btx" where
  "revert_delta event eventId invoice a f i =
     (let newEpoch = acc_epoch a + 1 in
      bind_tx (gets (\<lambda>b. find_account (core b) (acc_id a))) (\<lambda>current.
      case current of
        None \<Rightarrow> throw (PlainError ''account disappeared during delta funding reversion'')
      | Some r \<Rightarrow>
          bind_tx (set_account (acc_id a) (\<lambda>r. r\<lparr>acc_plan_key := fa_source_plan f,
            acc_plan_interval := Some (fa_source_interval f), acc_epoch := newEpoch, acc_revoked := False\<rparr>)) (\<lambda>_.
          bind_tx (update_funding (fa_id f) (\<lambda>f. f\<lparr>fa_epoch := newEpoch\<rparr>)) (\<lambda>_.
          bind_tx (entry (acc_id a) 0 (acc_balance r) 0 ''upgrade_funding_reverted'' newEpoch eventId (Some invoice) None) (\<lambda>_.
          bind_tx (update_changes (\<lambda>c. pc_id c = fa_plan_change f)
            (\<lambda>c. c\<lparr>pc_status := FailedChange, pc_last_error := Some ''settlement_funding_closed''\<rparr>)) (\<lambda>_.
          incident ''upgrade_funding_closed_reverted'' event invoice (Some invoice) (Some (acc_id a))
            [(''reverted_to'', JStr (fa_source_plan f)), (''disputed'', JBool (is_disputed i))]))))))"

text \<open>
  The allocation of an upgrade follows its invoice: whether the closure was there before, unless the
  allocation belongs to another account.
\<close>

definition refund_allocation_row :: "invoice_state \<Rightarrow> funding_allocation \<Rightarrow> funding_allocation" where
  "refund_allocation_row i f =
     (let closed = is_fully_refunded i \<or> is_disputed i;
          units = (if closed then fa_delta f else ceilRatio (fa_delta f) (is_refunded i) (is_total i)) in
      f\<lparr>fa_refunded := max (fa_refunded f) units, fa_status := allocation_status_of i units\<rparr>)"

definition funding_closed :: "funding_allocation \<Rightarrow> bool" where
  "funding_closed f \<longleftrightarrow> fa_status f \<in> {FundingClosed, FundingDisputed}"

text \<open>The entitlement of the account ends with the funding of its period.\<close>

definition revoke_account :: "int \<Rightarrow> account \<Rightarrow> account" where
  "revoke_account now r =
     r\<lparr>acc_epoch := acc_epoch r + 1, acc_revoked := True,
       acc_credit_expires := Some (min (case acc_credit_expires r of None \<Rightarrow> now | Some t \<Rightarrow> t) now)\<rparr>"

definition cap_annual :: "account \<Rightarrow> invoice_state \<Rightarrow> bool \<Rightarrow> unit btx" where
  "cap_annual a i closed =
     bind_tx (lift_tx (if closed then Inr (acc_annual_issued a)
                       else annualSlotsAllowed (is_total i) (is_refunded i) 0)) (\<lambda>fundedAllowed.
       set_account (acc_id a) (\<lambda>r. r\<lparr>acc_annual_allowed :=
         min (acc_annual_allowed r) (max (acc_annual_issued a) fundedAllowed)\<rparr>))"

definition annual_overgrant :: "account \<Rightarrow> invoice_state \<Rightarrow> bool result" where
  "annual_overgrant a i =
     bind_result (annualSlotsAllowed (is_total i) (is_refunded i) 0) (\<lambda>n. Inr (n < acc_annual_issued a))"

text \<open>The grant of the invoice is the row \<open>grantId\<close> of the ledger.\<close>

definition apply_refund ::
  "int \<Rightarrow> jsval \<Rightarrow> bool \<Rightarrow> string \<Rightarrow> string \<Rightarrow> account \<Rightarrow> invoice_state \<Rightarrow> nat \<Rightarrow> ledger_entry \<Rightarrow> funding_allocation option
   \<Rightarrow> ProcessResult btx"
where
  "apply_refund now event dispute eventId invoice a i grantId grant allocation =
     (let closed = is_fully_refunded i \<or> is_disputed i;
          annualFunding = (acc_funding_invoice a = Some invoice) in
      bind_tx (if annualFunding \<and> \<not> closed then withdraw_overgrant eventId invoice a i
               else on_core (applyClawbackToGrant now (acc_id a) invoice grantId (le_units grant) (is_total i) (is_refunded i)
                      closed (if dispute then ''dispute_clawback'' else ''refund_clawback'') eventId)) (\<lambda>removed.
      bind_tx (gets (downstreamAllocationCount (acc_id a) invoice)) (\<lambda>downstream.
      let leaf = (case allocation of None \<Rightarrow> None
            | Some f \<Rightarrow> if closed \<and> downstream = 0 \<and> acc_plan_key a = fa_target_plan f \<and>
                 acc_plan_interval a = Some (fa_target_interval f) \<and> acc_epoch a = fa_epoch f then Some f else None) in
      bind_tx (case leaf of None \<Rightarrow> ret () | Some f \<Rightarrow> revert_delta event eventId invoice a f i) (\<lambda>_.
      bind_tx (if annualFunding then cap_annual a i closed else ret ()) (\<lambda>_.
      bind_tx (lift_tx (if annualFunding \<and> \<not> closed then annual_overgrant a i else Inr False)) (\<lambda>annualOvergrant.
      let revoke = ((closed \<and> leaf = None) \<or> annualOvergrant) \<and> \<not> acc_revoked a in
      bind_tx (if revoke then set_account (acc_id a) (revoke_account now) else ret ()) (\<lambda>_.
      bind_tx (if revoke \<and> closed \<and> downstream > 0
               then incident ''funding_lineage_closed'' event (invoice @ '':'' @ show_int (le_epoch grant)) (Some invoice)
                      (Some (acc_id a)) [(''downstream_allocations'', JInt (int downstream))]
               else ret ()) (\<lambda>_.
      bind_tx (if closed then update_invoices invoice (\<lambda>r. r\<lparr>is_closure_applied := True\<rparr>) else ret ()) (\<lambda>_.
      bind_tx (lift_tx (creditDecimal removed ''credit atoms'')) (\<lambda>amount.
        ret (handled (''removed '' @ amount @ '' credits'') (acc_id a))))))))))))"

definition clawback_charge :: "jsval \<Rightarrow> bool \<Rightarrow> jsval" where
  "clawback_charge raw dispute =
     (if dispute \<and> isPlainRecord (jprop raw ''_resolved_charge'') then jprop raw ''_resolved_charge'' else raw)"

definition clawback_account :: "string \<Rightarrow> string \<Rightarrow> billing \<Rightarrow> account option" where
  "clawback_account customer invoice b =
     (case find (\<lambda>a. acc_customer a = Some customer) (accounts (core b)) of
        Some a \<Rightarrow> Some a
      | None \<Rightarrow>
          (case find_invoice b invoice of
             None \<Rightarrow> None
           | Some i \<Rightarrow> (case is_account i of None \<Rightarrow> None | Some k \<Rightarrow> find_account (core b) k)))"

text \<open>The refund of an invoice of a known account, after its state holds the refund.\<close>

definition clawback_funding ::
  "int \<Rightarrow> jsval \<Rightarrow> bool \<Rightarrow> string \<Rightarrow> string \<Rightarrow> account \<Rightarrow> invoice_state \<Rightarrow> nat \<Rightarrow> ledger_entry \<Rightarrow> ProcessResult btx" where
  "clawback_funding now event dispute eventId invoice a i grantId grant =
     (let no = refuse event (Some invoice) (acc_id a);
          closed = is_fully_refunded i \<or> is_disputed i;
          go = (\<lambda>allocation.
            bind_tx (gets (invoiceInActiveLineage (acc_id a) (acc_epoch a) invoice)) (\<lambda>activeLineage.
            if le_epoch grant \<noteq> acc_epoch a \<and> acc_funding_invoice a \<noteq> Some invoice \<and> \<not> activeLineage
            then ret (refused ''the refunded invoice belongs to an older entitlement epoch'' (acc_id a))
            else apply_refund now event dispute eventId invoice a i grantId grant allocation)) in
      bind_tx (gets (\<lambda>b. find_funding b invoice)) (\<lambda>allocation.
      case allocation of
        None \<Rightarrow> go None
      | Some f \<Rightarrow>
          if fa_account f \<noteq> acc_id a
          then no (''clawback_allocation_identity_conflict'', acc_id a @ '':'' @ invoice,
                   [(''allocation_account_id'', JStr (fa_account f))],
                   ''funding allocation belongs to a different account'')
          else
            bind_tx (update_funding (fa_id f) (refund_allocation_row i)) (\<lambda>_.
            if closed \<and> funding_closed f then ret (replayed ''clawback was already applied'' (acc_id a))
            else go (Some f))))"

definition clawback_known ::
  "int \<Rightarrow> jsval \<Rightarrow> bool \<Rightarrow> string \<Rightarrow> string \<Rightarrow> account \<Rightarrow> clawback_shape \<Rightarrow> ProcessResult btx" where
  "clawback_known now event dispute eventId invoice a shape =
     (let no = refuse event (Some invoice) (acc_id a); k = acc_id a @ '':'' @ invoice in
      if acc_customer a \<noteq> Some (cs_customer shape)
      then no (''clawback_customer_identity_conflict'', k, binding (acc_customer a) (Some (cs_customer shape)),
               ''clawback belongs to a different customer'')
      else
        bind_tx (gets (\<lambda>b. find_invoice b invoice)) (\<lambda>known.
        guarded_by (first_refusal
            [(known \<noteq> None \<and> is_account (the known) \<noteq> None \<and> is_account (the known) \<noteq> Some (acc_id a),
              (''clawback_invoice_identity_conflict'', k,
               [(''invoice_account_id'', nullable_text (is_account (the known)))],
               ''invoice belongs to a different account''))]) no (
        bind_tx (upsert_refund invoice (Some (acc_id a)) shape dispute) (\<lambda>i.
        if (is_fully_refunded i \<or> is_disputed i) \<and> is_closure_applied i
        then ret (replayed ''invoice closure was already applied'' (acc_id a))
        else
          bind_tx (gets (\<lambda>b. last_grant invoice (core b))) (\<lambda>found.
          case found of
            None \<Rightarrow> ret (refused ''clawback stored before grant'' (acc_id a))
          | Some (grantId, grant) \<Rightarrow>
              if le_account grant \<noteq> acc_id a
              then no (''clawback_grant_identity_conflict'', k, [(''grant_account_id'', JStr (le_account grant))],
                       ''invoice grant belongs to a different account'')
              else clawback_funding now event dispute eventId invoice a i grantId grant)))))"

definition subscription_clawback :: "int \<Rightarrow> jsval \<Rightarrow> ProcessResult btx" where
  "subscription_clawback now event =
     bind_tx (lift_tx (requiredEventObject event)) (\<lambda>raw.
     bind_tx (lift_tx (requiredEventId event)) (\<lambda>eventId.
     let dispute = (jprop event ''type'' = JStr ''charge.dispute.created'');
         charge_obj = clawback_charge raw dispute;
         invoiceId = coalesce (asStripeId (jprop raw ''_resolved_invoice_id'')) (asStripeId (jprop charge_obj ''invoice''));
         chargeId = (case coalesce (asStripeId (jprop charge_obj ''id'')) (asStripeId (jprop raw ''id'')) of
                       None \<Rightarrow> eventId | Some k \<Rightarrow> k) in
     if jprop raw ''_unsupported_invoice_payment_shape'' = JBool True
     then bind_tx (incident ''unsupported_invoice_payment_shape'' event
                     (case invoiceId of None \<Rightarrow> chargeId | Some k \<Rightarrow> k) invoiceId None
                     [(''charge'', JStr chargeId), (''operation'', JStr ''clawback'')])
            (\<lambda>_. ret (ignored ''Invoice payment collection is outside the single-payment model''))
     else case invoiceId of
       None \<Rightarrow>
         bind_tx (incident ''clawback_without_invoice'' event chargeId None None [(''charge'', JStr chargeId)])
           (\<lambda>_. ret (ignored ''charge cannot be attributed to an invoice''))
     | Some invoice \<Rightarrow>
         (case clawback_shape_of charge_obj dispute of
            None \<Rightarrow>
              let amount = stripeInteger (jprop charge_obj ''amount'') in
              bind_tx (incident ''invalid_clawback_shape'' event chargeId (Some invoice) None
                [(''customer_present'', JBool (asStripeId (jprop charge_obj ''customer'') \<noteq> None)),
                 (''amount_is_integer'', JBool (amount \<noteq> None)),
                 (''amount_refunded_is_integer'',
                  JBool ((if dispute then amount else stripeInteger (jprop charge_obj ''amount_refunded'')) \<noteq> None))])
                (\<lambda>_. ret (ignored ''clawback Charge shape is invalid''))
          | Some shape \<Rightarrow>
              bind_tx (gets (clawback_account (cs_customer shape) invoice)) (\<lambda>found.
              case found of
                None \<Rightarrow>
                  bind_tx (upsert_refund invoice None shape dispute) (\<lambda>_.
                  bind_tx (incident ''clawback_unknown_account'' event (cs_customer shape @ '':'' @ invoice) (Some invoice) None
                             [(''customer'', JStr (cs_customer shape))])
                    (\<lambda>_. ret (ignored ''account not found; invoice flag retained'')))
              | Some a \<Rightarrow> clawback_known now event dispute eventId invoice a shape))))"

section \<open>A failed payment\<close>

definition failed_change :: "string \<Rightarrow> string \<Rightarrow> string option \<Rightarrow> plan_change \<Rightarrow> bool" where
  "failed_change acc subscription invoice c \<longleftrightarrow>
     pc_account c = acc \<and> pc_subscription c = subscription \<and> invoice \<noteq> None \<and> pc_settlement c = invoice \<and>
     pc_mode c = immediate \<and> pc_status c \<in> {Applying, Applied, RequiresAction, CompletedChange}"

definition open_change :: "string \<Rightarrow> string \<Rightarrow> plan_change \<Rightarrow> bool" where
  "open_change acc subscription c \<longleftrightarrow>
     pc_account c = acc \<and> pc_subscription c = subscription \<and> pc_mode c = immediate \<and>
     pc_status c \<in> {Applying, Applied, RequiresAction}"

text \<open>The failed payment of an optional upgrade leaves the paid entitlement as it is.\<close>

definition failed_update ::
  "jsval \<Rightarrow> account \<Rightarrow> string \<Rightarrow> string option \<Rightarrow> string \<Rightarrow> ProcessResult btx" where
  "failed_update event a subscription invoiceId dedupe =
     bind_tx (gets (latest_change (failed_change (acc_id a) subscription invoiceId))) (\<lambda>pending.
     bind_tx (gets (\<lambda>b. list_ex (\<lambda>e. le_account e = acc_id a \<and> invoiceId \<noteq> None \<and> le_invoice e = invoiceId \<and>
                                   le_slot e = Some 1) (ledger (core b)))) (\<lambda>granted.
     bind_tx (gets (latest_change (open_change (acc_id a) subscription))) (\<lambda>unbound.
     let unbound_failure = refuse event invoiceId (acc_id a)
           (''unbound_plan_change_payment_failed'', dedupe,
            [(''subscription'', JStr subscription),
             (''pending_change_id'', nullable_text (map_option pc_id unbound))],
            ''subscription-update failure is not bound to the current plan change'') in
     case pending of
       None \<Rightarrow> unbound_failure
     | Some c \<Rightarrow>
         if pc_status c = CompletedChange
         then (if granted then ret (replayed ''settlement invoice already granted'' (acc_id a)) else unbound_failure)
         else
           bind_tx (update_changes (\<lambda>r. pc_id r = pc_id c) (\<lambda>r. r\<lparr>pc_status := RequiresAction\<rparr>)) (\<lambda>_.
             refuse event invoiceId (acc_id a)
               (''plan_change_payment_failed'', dedupe, [(''subscription'', JStr subscription)],
                ''optional plan change payment failed; paid entitlement retained'')))))"

definition set_cursor :: "ProjectionCursor \<Rightarrow> account \<Rightarrow> account" where
  "set_cursor cursor r = r\<lparr>acc_event_created := created cursor, acc_event_rank := rank cursor\<rparr>"

definition paymentFailed :: "jsval \<Rightarrow> ProcessResult btx" where
  "paymentFailed event =
     bind_tx (lift_tx (requiredEventObject event)) (\<lambda>invoice.
     bind_tx (lift_tx (requiredEventId event)) (\<lambda>eventId.
     bind_tx (on_core (lockAccount invoice (subscriptionMetadata invoice))) (\<lambda>found.
     case found of
       None \<Rightarrow> ret (ignored ''account not found'')
     | Some a \<Rightarrow>
         let invoiceId = asStripeId (jprop invoice ''id''); subscription = subscriptionId invoice;
             customer = asStripeId (jprop invoice ''customer''); billingReason = jprop invoice ''billing_reason'';
             dedupe = (case invoiceId of None \<Rightarrow> eventId | Some k \<Rightarrow> k) in
         guarded_by (first_refusal
           [(customer_conflicts a customer,
             (''payment_failed_customer_identity_conflict'', acc_id a @ '':'' @ dedupe, binding (acc_customer a) customer,
              ''failed invoice customer identity is missing or conflicting'')),
            (subscription = None \<or> subscription \<noteq> acc_subscription a,
             (''payment_failed_subscription_identity_conflict'', acc_id a @ '':'' @ dedupe,
              binding (acc_subscription a) subscription, ''failed invoice belongs to a different subscription'')),
            (billingReason \<notin> JStr ` set PAID_REASONS,
             (''unexpected_payment_failed_reason'', dedupe,
              [(''billing_reason'', case billingReason of JStr s \<Rightarrow> JStr s | _ \<Rightarrow> JNull)],
              ''failed Invoice has an unsupported billing reason''))])
           (refuse event invoiceId (acc_id a)) (
         case subscription of
           None \<Rightarrow> ret (refused ''failed invoice belongs to a different subscription'' (acc_id a))
         | Some k \<Rightarrow>
             if billingReason = JStr ''subscription_update'' then failed_update event a k invoiceId dedupe
             else
               bind_tx (lift_tx (eventWinsAccount a event)) (\<lambda>wins.
               if \<not> wins then ret (refused ''older or weaker than the applied state'' (acc_id a))
               else
                 bind_tx (set_account (acc_id a) (\<lambda>r. set_cursor (projectedCursor a event) (r\<lparr>acc_status := SubPastDue\<rparr>))) (\<lambda>_.
                   ret (handled [] (acc_id a))))))))"

section \<open>A subscription that changed\<close>

text \<open>The only item of a subscription, when it has exactly one.\<close>

definition single_item :: "jsval \<Rightarrow> jsval option" where
  "single_item subscription =
     (let container = jprop subscription ''items'' in
      if \<not> isPlainRecord container then None
      else if jprop container ''has_more'' \<noteq> JUndef \<and> jprop container ''has_more'' \<noteq> JBool False then None
      else case jprop container ''data'' of
          JArr [item] \<Rightarrow> if isPlainRecord item then Some item else None
        | _ \<Rightarrow> None)"

definition subscriptionPlan :: "processor_config \<Rightarrow> jsval \<Rightarrow> (Plan \<times> BillingInterval) option result" where
  "subscriptionPlan cfg subscription =
     (case single_item subscription of
        None \<Rightarrow> Inr None
      | Some item \<Rightarrow>
          if stripeInteger (jprop item ''quantity'') \<noteq> Some 1 then Inr None
          else case parseLookupKey (cfg_catalog cfg) (lineLookup item) of
              None \<Rightarrow> Inr None
            | Some (plan, interval) \<Rightarrow>
                bind_result (catalogLineMatches (cfg_catalog cfg) (cfg_productLine cfg) item plan interval) (\<lambda>matches.
                  Inr (if matches then Some (plan, interval) else None)))"

definition subscriptionPeriodEnd :: "jsval \<Rightarrow> int option" where
  "subscriptionPeriodEnd subscription =
     stripeNonnegativeInteger
       (nullish (case single_item subscription of None \<Rightarrow> JUndef | Some item \<Rightarrow> jprop item ''current_period_end'')
         (jprop subscription ''current_period_end''))"

definition event_created_text :: "jsval \<Rightarrow> string" where
  "event_created_text event = (case jprop event ''created'' of JInt n \<Rightarrow> show_int n | JStr s \<Rightarrow> s | _ \<Rightarrow> [])"

definition project_subscription ::
  "string \<Rightarrow> string \<Rightarrow> jsval \<Rightarrow> int \<Rightarrow> bool \<Rightarrow> ProjectionCursor \<Rightarrow> account \<Rightarrow> account" where
  "project_subscription customer subscription status periodEnd cancels cursor r =
     set_cursor cursor
       (r\<lparr>acc_customer := coalesce (acc_customer r) (Some customer), acc_subscription := Some subscription,
          acc_status := projectSubscriptionStatus status, acc_period_end := Some (to_timestamp periodEnd),
          acc_cancel_at_period_end := cancels,
          acc_pending_free_at := (if cancels then Some (to_timestamp periodEnd) else None)\<rparr>)"

definition update_refusal :: "account \<Rightarrow> string \<Rightarrow> jsval \<Rightarrow> refusal option" where
  "update_refusal a incoming subscription =
     (let customer = asStripeId (jprop subscription ''customer''); k = acc_id a @ '':'' @ incoming;
          status = jprop subscription ''status''; cancels = jprop subscription ''cancel_at_period_end'';
          periodEnd = subscriptionPeriodEnd subscription in
      first_refusal
        [(customer_conflicts a customer,
          (''subscription_customer_identity_conflict'', k, binding (acc_customer a) customer,
           ''subscription customer identity is missing or conflicting'')),
         (status \<notin> JStr ` set SUBSCRIPTION_STATUSES \<or> \<not> is_boolean cancels \<or> periodEnd = None,
          (''invalid_subscription_projection'', k,
           [(''status'', case status of JStr s \<Rightarrow> JStr s | _ \<Rightarrow> JNull),
            (''cancel_at_period_end_is_boolean'', JBool (is_boolean cancels)),
            (''period_end_present'', JBool (periodEnd \<noteq> None))],
           ''Subscription projection shape is invalid'')),
         (acc_subscription a \<noteq> None \<and> acc_subscription a \<noteq> Some incoming,
          (''subscription_identity_conflict'', k,
           [(''bound'', nullable_text (acc_subscription a)), (''incoming'', JStr incoming)],
           ''a different subscription is already bound''))])"

definition update_authorized :: "checkout_claim option \<Rightarrow> jsval \<Rightarrow> Plan \<Rightarrow> BillingInterval \<Rightarrow> bool" where
  "update_authorized claim metadata plan interval \<longleftrightarrow>
     (case claim of
        None \<Rightarrow> False
      | Some c \<Rightarrow> jprop metadata ''claim_token'' = JStr (cc_token c) \<and> cc_plan c = p_key plan \<and> cc_interval c = interval)"

definition losing_update :: "jsval \<Rightarrow> account \<Rightarrow> string \<Rightarrow> jsval \<Rightarrow> jsval \<Rightarrow> ProcessResult btx" where
  "losing_update event a incoming status cancels =
     bind_tx (if orderingTie a event
              then incident ''event_order_tie'' event
                     (acc_id a @ '':'' @ event_type_text (jprop event ''type'') @ '':'' @ event_created_text event @ '':'' @
                      show_int (acc_event_rank a)) None (Some (acc_id a))
                     [(''subscription_id'', JStr incoming), (''status'', status), (''cancel_at_period_end'', cancels)]
              else ret ()) (\<lambda>_.
       ret (refused ''older or weaker than the applied state'' (acc_id a)))"

definition subscriptionUpdated :: "processor_config \<Rightarrow> jsval \<Rightarrow> ProcessResult btx" where
  "subscriptionUpdated cfg event =
     bind_tx (lift_tx (requiredEventObject event)) (\<lambda>subscription.
     bind_tx (on_core (lockAccount subscription JUndef)) (\<lambda>found.
     case found of
       None \<Rightarrow> ret (ignored ''account not found'')
     | Some a \<Rightarrow>
         bind_tx (lift_tx (requiredObjectId subscription)) (\<lambda>incoming.
         let no = refuse event None (acc_id a); k = acc_id a @ '':'' @ incoming;
             status = jprop subscription ''status''; cancels = jprop subscription ''cancel_at_period_end'' in
         guarded_by (update_refusal a incoming subscription) no (
         bind_tx (lift_tx (subscriptionPlan cfg subscription)) (\<lambda>parsed.
         case (parsed, asStripeId (jprop subscription ''customer''), subscriptionPeriodEnd subscription) of
           (Some (plan, interval), Some customer, Some periodEnd) \<Rightarrow>
             bind_tx (gets (\<lambda>b. find_claim b (acc_id a))) (\<lambda>claim.
             if acc_subscription a = None \<and>
                \<not> update_authorized claim (plain_or_empty (jprop subscription ''metadata'')) plan interval
             then no (''subscription_update_without_authority'', k, [],
                      ''unbound subscription lacks a live Checkout claim'')
             else
             bind_tx (lift_tx (eventWinsAccount a event)) (\<lambda>wins.
             if \<not> wins then losing_update event a incoming status cancels
             else
             bind_tx (set_account (acc_id a) (project_subscription customer incoming status periodEnd
                        (cancels = JBool True) (projectedCursor a event))) (\<lambda>_.
             bind_tx (case claim of
                        Some c \<Rightarrow> if acc_subscription a = None
                                  then delete_claims (\<lambda>r. cc_account r = acc_id a \<and> cc_token r = cc_token c)
                                  else ret ()
                      | None \<Rightarrow> ret ()) (\<lambda>_.
               ret (handled [] (acc_id a))))))
         | _ \<Rightarrow> no (''ambiguous_subscription_items'', k, [], ''subscription must contain one catalog item''))))))"

section \<open>A subscription that ended\<close>

text \<open>The account returns to the free plan; nothing of the ended subscription funds it any more.\<close>

definition end_subscription :: "ProjectionCursor \<Rightarrow> account \<Rightarrow> account" where
  "end_subscription cursor r =
     set_cursor cursor
       (r\<lparr>acc_subscription := None, acc_plan_key := ''free'', acc_plan_interval := None, acc_status := SubCanceled,
          acc_balance := 0, acc_epoch := acc_epoch r + 1, acc_period_end := None, acc_entitlement_end := None,
          acc_credit_expires := None, acc_revoked := True, acc_cancel_at_period_end := False,
          acc_pending_free_at := None, acc_annual_anchor := None, acc_annual_issued := 0, acc_annual_allowed := 12,
          acc_funding_invoice := None\<rparr>)"

definition subscriptionDeleted :: "int \<Rightarrow> jsval \<Rightarrow> ProcessResult btx" where
  "subscriptionDeleted now event =
     bind_tx (lift_tx (requiredEventObject event)) (\<lambda>subscription.
     bind_tx (lift_tx (requiredEventId event)) (\<lambda>eventId.
     bind_tx (on_core (lockAccount subscription JUndef)) (\<lambda>found.
     case found of
       None \<Rightarrow> ret (ignored ''account not found'')
     | Some a \<Rightarrow>
         let incoming = asStripeId (jprop subscription ''id''); customer = asStripeId (jprop subscription ''customer'');
             k = acc_id a @ '':'' @ (case incoming of None \<Rightarrow> eventId | Some s \<Rightarrow> s) in
         guarded_by (first_refusal
           [(incoming = None \<or> acc_subscription a \<noteq> incoming,
             (''subscription_deleted_identity_conflict'', k, binding (acc_subscription a) incoming,
              ''deleted event belongs to an unbound subscription'')),
            (customer_conflicts a customer,
             (''subscription_customer_identity_conflict'', k, binding (acc_customer a) customer,
              ''deleted subscription customer identity is missing or conflicting''))])
           (refuse event None (acc_id a)) (
         bind_tx (lift_tx (eventWinsAccount a event)) (\<lambda>wins.
         if \<not> wins then ret (refused ''older than the applied state'' (acc_id a))
         else
         bind_tx (delete_claims (\<lambda>c. cc_account c = acc_id a)) (\<lambda>_.
         bind_tx (set_account (acc_id a) (end_subscription (projectedCursor a event))) (\<lambda>_.
         bind_tx (if acc_balance a > 0
                  then entry (acc_id a) (- acc_balance a) 0 0 ''subscription_ended'' (acc_epoch a + 1) eventId None None
                  else ret ()) (\<lambda>_.
         bind_tx (update_changes
                    (\<lambda>c. pc_account c = acc_id a \<and> Some (pc_subscription c) = incoming \<and> pending_change c)
                    (\<lambda>c. c\<lparr>pc_status := FailedChange, pc_last_error := Some ''subscription_deleted'',
                           pc_completed := coalesce (pc_completed c) (Some now), pc_lease := None,
                           pc_lease_expires := None\<rparr>)) (\<lambda>_.
         bind_tx (resolve_incidents (\<lambda>i. in_account i = Some (acc_id a) \<and>
                    in_kind i \<in> {''plan_change_payment_failed'', ''unbound_plan_change_payment_failed'',
                                 ''plan_change_recovery_required''})) (\<lambda>_.
           ret (handled [] (acc_id a))))))))))))"

section \<open>Checkout\<close>

text \<open>An account that had no subscription starts the order of its events anew.\<close>

definition bind_checkout :: "string \<Rightarrow> string \<Rightarrow> account \<Rightarrow> account" where
  "bind_checkout customer subscription r =
     r\<lparr>acc_customer := coalesce (acc_customer r) (Some customer),
       acc_event_created := (if acc_subscription r = None then 0 else acc_event_created r),
       acc_event_rank := (if acc_subscription r = None then 0 else acc_event_rank r),
       acc_subscription := Some subscription\<rparr>"

definition claim_refusal :: "account \<Rightarrow> checkout_claim \<Rightarrow> string \<Rightarrow> string \<Rightarrow> jsval \<Rightarrow> refusal option" where
  "claim_refusal a c sessionId subscription metadata =
     first_refusal
       [(cc_session c \<noteq> Some sessionId \<and>
         \<not> (cc_session c = None \<and> jprop metadata ''claim_token'' = JStr (cc_token c)),
         (''stale_checkout_completion'', acc_id a @ '':'' @ sessionId, [(''active_session'', nullable_text (cc_session c))],
          ''another checkout owns the active claim'')),
        (acc_subscription a \<noteq> None \<and> acc_subscription a \<noteq> Some subscription,
         (''multiple_subscriptions'', acc_id a @ '':'' @ subscription, [],
          ''a different subscription is already bound''))]"

definition checkoutCompleted :: "jsval \<Rightarrow> ProcessResult btx" where
  "checkoutCompleted event =
     bind_tx (lift_tx (requiredEventObject event)) (\<lambda>session_obj.
     bind_tx (on_core (lockAccount session_obj JUndef)) (\<lambda>found.
     case found of
       None \<Rightarrow> ret (ignored ''account not found'')
     | Some a \<Rightarrow>
         bind_tx (gets (\<lambda>b. find_claim b (acc_id a))) (\<lambda>claim.
         bind_tx (lift_tx (requiredObjectId session_obj)) (\<lambda>sessionId.
         let subscription = asStripeId (jprop session_obj ''subscription'');
             customer = asStripeId (jprop session_obj ''customer'');
             k = acc_id a @ '':'' @ sessionId; no = refuse event None (acc_id a) in
         case subscription of
           None \<Rightarrow> no (''checkout_completed_without_subscription'', k, [], ''completed Checkout has no subscription'')
         | Some incoming \<Rightarrow>
             guarded_by (first_refusal
               [(customer_conflicts a customer,
                 (''checkout_customer_identity_conflict'', k, binding (acc_customer a) customer,
                  ''Checkout customer identity is missing or conflicting''))]) no (
             case (claim, customer) of
               (Some c, Some incomingCustomer) \<Rightarrow>
                 guarded_by (claim_refusal a c sessionId incoming (plain_or_empty (jprop session_obj ''metadata''))) no (
                 bind_tx (set_account (acc_id a) (bind_checkout incomingCustomer incoming)) (\<lambda>_.
                 bind_tx (delete_claims (\<lambda>r. cc_account r = acc_id a \<and>
                            (cc_session r = Some sessionId \<or> cc_token r = cc_token c))) (\<lambda>_.
                   ret (handled [] (acc_id a)))))
             | _ \<Rightarrow>
                 if acc_subscription a = Some incoming
                 then ret (replayed ''subscription is already bound'' (acc_id a))
                 else no (''checkout_completed_without_claim'', k, [], ''checkout claim is missing''))))))"

definition checkoutExpired :: "jsval \<Rightarrow> ProcessResult btx" where
  "checkoutExpired event =
     bind_tx (lift_tx (requiredEventObject event)) (\<lambda>session_obj.
     bind_tx (lift_tx (requiredObjectId session_obj)) (\<lambda>sessionId.
     bind_tx (gets (\<lambda>b. find (\<lambda>c. cc_session c = Some sessionId) (checkout_claims b))) (\<lambda>claim.
     bind_tx (delete_claims (\<lambda>c. cc_session c = Some sessionId)) (\<lambda>_.
       ret (case claim of
              None \<Rightarrow> ignored ''session no longer owns a claim''
            | Some c \<Rightarrow> handled [] (cc_account c))))))"

end
