(* ===== verification/Event_Processor.thy ===== *)
theory Event_Processor
  imports Subscription_Projector Ledger_History
begin

text \<open>
  The processor of verified webhook events (typescript/src/event-processor.ts): one transaction per
  event, in which the inbox claims the identity of the event, the shape and the contract of the event are
  checked, the handler of its type runs, and the outcome is stored beside the claim.

  \<open>now\<close> is the start of the transaction, \<open>clock\<close> the clock inside it.
\<close>

section \<open>The inbox\<close>

definition find_event :: "billing \<Rightarrow> string \<Rightarrow> webhook_event option" where
  "find_event b k = find (\<lambda>e. we_id e = k) (inbox b)"

definition hasCommittedEvent :: "billing \<Rightarrow> jsval \<Rightarrow> bool" where
  "hasCommittedEvent b eventId =
     (case eventId of
        JStr k \<Rightarrow> validEventIdentifier (JStr k) 512 \<and> find_event b k \<noteq> None
      | _ \<Rightarrow> False)"

text \<open>\<open>insert \<dots> on conflict do nothing\<close>: whether the event was claimed.\<close>

definition claim_event :: "string \<Rightarrow> string \<Rightarrow> jsval \<Rightarrow> bool btx" where
  "claim_event eventId eventType event =
     bind_tx (gets (\<lambda>b. find_event b eventId)) (\<lambda>present.
     case present of
       Some _ \<Rightarrow> ret False
     | None \<Rightarrow>
         bind_tx (modify (\<lambda>b. b\<lparr>inbox := inbox b @
           [\<lparr>we_id = eventId, we_type = eventType, we_livemode = (jprop event ''livemode'' = JBool True),
             we_payload = redactedEventSnapshot event, we_outcome = None, we_reason = None\<rparr>]\<rparr>)) (\<lambda>_. ret True))"

definition record_outcome :: "string \<Rightarrow> outcome \<Rightarrow> string \<Rightarrow> unit btx" where
  "record_outcome eventId result_outcome reason =
     modify (\<lambda>b. b\<lparr>inbox := update_rows (\<lambda>e. we_id e = eventId)
       (\<lambda>e. e\<lparr>we_outcome := Some result_outcome, we_reason := (if reason = [] then None else Some reason)\<rparr>) (inbox b)\<rparr>)"

section \<open>The lease of a reconciliation\<close>

definition creditPackReconcileClaimCurrent :: "int \<Rightarrow> jsval \<Rightarrow> bool btx" where
  "creditPackReconcileClaimCurrent clock event =
     (let guard = jprop event ''_credit_pack_reconcile_claim'' in
      if isAbsent guard then ret True
      else if jprop event ''_remote_verified'' \<noteq> JBool True \<or> \<not> isPlainRecord guard then ret False
      else case (lower_uuid (jprop guard ''order_id''), lower_uuid (jprop guard ''account_id''), lower_uuid (jprop guard ''token'')) of
          (Some orderId, Some accountId, Some token) \<Rightarrow>
            gets (\<lambda>b. case find_order (core b) orderId of
                None \<Rightarrow> False
              | Some po \<Rightarrow> po_account po = accountId \<and> find_account (core b) accountId \<noteq> None \<and>
                  po_claim_token po = Some token \<and>
                  (case po_claim_expires po of None \<Rightarrow> False | Some t \<Rightarrow> clock < t))
        | _ \<Rightarrow> ret False)"

section \<open>Processing an event\<close>

definition pack_first :: "ProcessResult option tx \<Rightarrow> ProcessResult btx \<Rightarrow> ProcessResult btx" where
  "pack_first pack subscription =
     bind_tx (on_core pack) (\<lambda>r. case r of Some result_of \<Rightarrow> ret result_of | None \<Rightarrow> subscription)"

definition dispatch :: "processor_config \<Rightarrow> int \<Rightarrow> int \<Rightarrow> jsval \<Rightarrow> ProcessResult btx" where
  "dispatch cfg now clock event =
     (let type_is = (\<lambda>s. jprop event ''type'' = JStr s); line = cfg_productLine cfg in
      if type_is ''payment_intent.succeeded'' then on_core (paymentSucceeded line event now clock)
      else if type_is ''invoice.paid'' then invoicePaid cfg now event
      else if type_is ''invoice.payment_failed'' then paymentFailed event
      else if type_is ''customer.subscription.updated'' then subscriptionUpdated cfg event
      else if type_is ''customer.subscription.deleted'' then subscriptionDeleted now event
      else if type_is ''charge.refunded'' \<or> type_is ''charge.dispute.created''
      then pack_first (pack_clawback line event now clock) (subscription_clawback now event)
      else if type_is ''checkout.session.completed''
      then pack_first (checkoutEvent line event) (checkoutCompleted event)
      else if type_is ''checkout.session.expired''
      then pack_first (checkoutEvent line event) (checkoutExpired event)
      else ret (ignored ''event type is outside the reference contract''))"

definition contract_mismatch :: "processor_config \<Rightarrow> jsval \<Rightarrow> string option" where
  "contract_mismatch cfg event =
     (if jprop event ''_remote_verified'' = JBool True then None
      else if jprop event ''livemode'' \<noteq> JBool (cfg_livemode cfg)
      then Some ''event livemode does not match the configured Stripe key mode''
      else case cfg_apiVersion cfg of
          None \<Rightarrow> None
        | Some version \<Rightarrow>
            if jprop event ''api_version'' \<noteq> JStr version
            then Some ''event API version does not match the pinned webhook endpoint'' else None)"

definition reject_event :: "jsval \<Rightarrow> string \<Rightarrow> string \<Rightarrow> (string \<times> jsval) list \<Rightarrow> string \<Rightarrow> ProcessResult btx" where
  "reject_event event eventId kind detail reason =
     bind_tx (incident kind event eventId None None detail) (\<lambda>_.
     bind_tx (record_outcome eventId Ignored reason) (\<lambda>_. ret (ignored reason)))"

definition process_claimed :: "processor_config \<Rightarrow> int \<Rightarrow> int \<Rightarrow> string \<Rightarrow> string \<Rightarrow> jsval \<Rightarrow> ProcessResult btx" where
  "process_claimed cfg now clock eventId eventType event =
     (case eventShapeError event of
        Some shapeError \<Rightarrow>
          reject_event event eventId ''invalid_event_shape''
            [(''event_type'', JStr eventType), (''reason'', JStr shapeError)] shapeError
      | None \<Rightarrow>
          (case contract_mismatch cfg event of
             Some mismatch \<Rightarrow>
               reject_event event eventId ''webhook_contract_mismatch''
                 [(''expected_livemode'', JBool (cfg_livemode cfg)),
                  (''expected_api_version'', nullable_text (cfg_apiVersion cfg)),
                  (''event_api_version'', nullish_null (jprop event ''api_version''))] mismatch
           | None \<Rightarrow>
               bind_tx (dispatch cfg now clock event) (\<lambda>r.
               bind_tx (record_outcome eventId (pr_outcome r) (pr_reason r)) (\<lambda>_. ret r))))"

definition process_event :: "processor_config \<Rightarrow> int \<Rightarrow> int \<Rightarrow> string \<Rightarrow> string \<Rightarrow> jsval \<Rightarrow> ProcessResult btx" where
  "process_event cfg now clock eventId eventType event =
     bind_tx (creditPackReconcileClaimCurrent clock event) (\<lambda>current.
     if \<not> current then ret (ignored ''credit-pack reconciliation lease lost'')
     else
     bind_tx (claim_event eventId eventType event) (\<lambda>claimed_now.
     if \<not> claimed_now
     then ret \<lparr>pr_outcome = Duplicate, pr_reason = ''event id already committed'', pr_account = None\<rparr>
     else process_claimed cfg now clock eventId eventType event))"

text \<open>\<open>EventProcessor.process\<close>.\<close>

definition process :: "processor_config \<Rightarrow> int \<Rightarrow> int \<Rightarrow> jsval \<Rightarrow> billing \<Rightarrow> ProcessResult result \<times> billing" where
  "process cfg now clock event b =
     (let nothing = (\<lambda>reason. (Inr (ignored reason), b)) in
      if \<not> isPlainRecord event then nothing ''Stripe Event requires a stable visible string id''
      else case jprop event ''id'' of
          JStr eventId \<Rightarrow>
            if \<not> validEventIdentifier (JStr eventId) 512 then nothing ''Stripe Event requires a stable visible string id''
            else (case jprop event ''type'' of
                JStr eventType \<Rightarrow>
                  if \<not> validEventIdentifier (JStr eventType) 255
                  then nothing ''Stripe Event requires a stable visible string type''
                  else billing_transaction (process_event cfg now clock eventId eventType event) b
              | _ \<Rightarrow> nothing ''Stripe Event requires a stable visible string type'')
        | _ \<Rightarrow> nothing ''Stripe Event requires a stable visible string id'')"

end
