(* ===== verification/Event_Properties.thy ===== *)
theory Event_Properties
  imports Event_Processor
begin

text \<open>
  What a webhook event can change (event-processor.ts, subscription-projector.ts): no handler touches
  the inbox, and the handlers of subscriptions reach the tables of the credit packs only through the
  collection of pack debts. So an event is processed once, and every event keeps the invariant of the
  ledger.
\<close>

section \<open>Rules for the steps of a handler\<close>

lemma keeps_guarded [keeps_rules]:
  "(\<And>x. keeps P (no x)) \<Longrightarrow> keeps P yes \<Longrightarrow> keeps P (guarded_by r no yes)"
  by (cases r) (simp_all add: guarded_by_def)

lemma keeps_json [keeps_rules]:
  "keeps P a \<Longrightarrow> keeps P b \<Longrightarrow> (\<And>x. keeps P (c x)) \<Longrightarrow> (\<And>x. keeps P (d x)) \<Longrightarrow> keeps P e \<Longrightarrow>
   (\<And>x. keeps P (f x)) \<Longrightarrow> (\<And>x. keeps P (g x)) \<Longrightarrow> (\<And>x. keeps P (h x)) \<Longrightarrow> (\<And>x y. keeps P (k x y)) \<Longrightarrow>
   keeps P (case v of JUndef \<Rightarrow> a | JNull \<Rightarrow> b | JBool x \<Rightarrow> c x | JInt x \<Rightarrow> d x | JReal \<Rightarrow> e | JBig x \<Rightarrow> f x |
     JStr x \<Rightarrow> g x | JArr x \<Rightarrow> h x | JObj x y \<Rightarrow> k x y)"
  by (cases v) simp_all

lemma keeps_list [keeps_rules]:
  "keeps P n \<Longrightarrow> (\<And>x xs. keeps P (f x xs)) \<Longrightarrow> keeps P (case v of [] \<Rightarrow> n | x # xs \<Rightarrow> f x xs)"
  by (cases v) simp_all

lemma keeps_sum [keeps_rules]:
  "(\<And>x. keeps P (f x)) \<Longrightarrow> (\<And>x. keeps P (g x)) \<Longrightarrow> keeps P (case v of Inl x \<Rightarrow> f x | Inr x \<Rightarrow> g x)"
  by (cases v) simp_all

lemma keeps_on_core:
  "keeps Q m \<Longrightarrow> (\<And>s t. Q s \<Longrightarrow> P (b\<lparr>core := s\<rparr>)) \<Longrightarrow> (P b \<Longrightarrow> Q (core b)) \<Longrightarrow> P b \<Longrightarrow>
   on_core m b = Inr (x, b') \<Longrightarrow> P b'"
  by (auto simp: on_core_Inr_iff dest: keepsD)

section \<open>The tables of the credit packs\<close>

definition pack_tables where
  "pack_tables s = (orders s, lots s, debits s, allocations s, pack_debts s, next_allocation s)"

lemma pack_tables_updates [simp]:
  "pack_tables (s\<lparr>accounts := a\<rparr>) = pack_tables s" "pack_tables (s\<lparr>ledger := l\<rparr>) = pack_tables s"
  "pack_tables (s\<lparr>incidents := i\<rparr>) = pack_tables s" "pack_tables (s\<lparr>clawback_debts := d\<rparr>) = pack_tables s"
  by (simp_all add: pack_tables_def)

lemma keeps_pack_tables [keeps_rules]:
  "keeps (\<lambda>s. pack_tables s = T) (update_accounts Q f)"
  "keeps (\<lambda>s. pack_tables s = T) (insert_entry acc delta after units reason epoch event invoice slot)"
  "keeps (\<lambda>s. pack_tables s = T) (insert_ledger acc delta after reason epoch event invoice)"
  "keeps (\<lambda>s. pack_tables s = T) (update_clawback_debts R g)"
  "keeps (\<lambda>s. pack_tables s = T) (oweClawback now acc epoch invc target collected)"
  "keeps (\<lambda>s. pack_tables s = T) (recordIncident kind event' dedupe invoice' acc' detail)"
  by (auto simp: keeps_def update_accounts_def insert_entry_def insert_ledger_def update_clawback_debts_def
      oweClawback_def recordIncident_def Let_def)

lemma clawback_loop_pack_tables [keeps_rules]:
  "keeps (\<lambda>s. pack_tables s = T) (clawback_loop acc epoch event ds balance collected)"
  by (induction ds arbitrary: balance collected) (simp_all add: Let_def keeps_rules)

lemma clawback_pack_tables [keeps_rules]:
  "keeps (\<lambda>s. pack_tables s = T) (collectClawbackDebts acc epoch event)"
  "keeps (\<lambda>s. pack_tables s = T) (applyClawbackToGrant now acc invoice grant units amount amountRefunded full reason event)"
  unfolding collectClawbackDebts_def applyClawbackToGrant_def Let_def by (intro keeps_rules)+

section \<open>Invariants of the handlers of subscriptions\<close>

text \<open>
  What a handler does to a plan change: it may settle, fail or complete it and take its lease away, and it
  never changes whose intent it is, the request that was frozen for Stripe or when it was first sent.
\<close>

definition request_of where
  "request_of c =
     (pc_id c, pc_account c, pc_key c, pc_subscription c, (pc_from_plan c, pc_from_interval c),
      (pc_target_plan c, pc_target_interval c), pc_mode c, pc_policy c, pc_request_key c, pc_remote_started c,
      pc_snapshot_version c, pc_snapshot c)"

definition handled_change :: "plan_change \<Rightarrow> plan_change \<Rightarrow> bool" where
  "handled_change c c' \<longleftrightarrow> request_of c' = request_of c \<and> pc_lease c' \<in> {pc_lease c, None} \<and>
     pc_status c' \<in> {pc_status c, CompletedChange, FailedChange, RequiresAction}"

lemma handled_refl [simp]: "handled_change c c"
  by (simp add: handled_change_def)

lemma handled_changes_refl [simp]: "list_all2 handled_change cs cs"
  by (simp add: list_all2_refl)

lemma handled_rows: "(\<And>c. handled_change c (f c)) \<Longrightarrow> list_all2 handled_change cs (update_rows Q f cs)"
  by (induction cs) (simp_all add: update_rows_def)

text \<open>
  A predicate that the handlers of subscriptions keep: it depends on the inbox, on the tables of the
  credit packs, on the plan changes up to what handlers do to them and on the claims left, and the
  collection of pack debts keeps it.
\<close>

locale subscription_invariant =
  fixes P :: "billing \<Rightarrow> bool"
  assumes frame: "inbox t = inbox b \<Longrightarrow> pack_tables (core t) = pack_tables (core b) \<Longrightarrow>
      list_all2 handled_change (plan_changes b) (plan_changes t) \<Longrightarrow>
      set (checkout_claims t) \<subseteq> set (checkout_claims b) \<Longrightarrow> P b \<Longrightarrow> P t"
    and collect: "keeps P (on_core (collectPackDebtsFromSubscription now acc epoch event))"
begin

lemma core_step:
  assumes "\<And>T. keeps (\<lambda>s. pack_tables s = T) m"
  shows "keeps P (on_core m)"
  unfolding keeps_def
proof (intro allI impI)
  fix b x t assume b: "P b" and "on_core m b = Inr (x, t)"
  then obtain s where s: "m (core b) = Inr (x, s)" and t: "t = b\<lparr>core := s\<rparr>" by (auto simp: on_core_Inr_iff)
  from keepsD [OF assms refl s] have "pack_tables s = pack_tables (core b)" .
  then show "P t" using frame [OF _ _ _ _ b, of t] by (simp add: t)
qed

lemma table_step:
  "(\<And>b. inbox (f b) = inbox b \<and> core (f b) = core b \<and> plan_changes (f b) = plan_changes b \<and>
     set (checkout_claims (f b)) \<subseteq> set (checkout_claims b)) \<Longrightarrow> keeps P (modify f)"
  unfolding keeps_def modify_def using frame by simp

lemma change_step: "(\<And>c. handled_change c (u c)) \<Longrightarrow> keeps P (update_changes Q u)"
  unfolding keeps_def update_changes_def using frame [of "b\<lparr>plan_changes := update_rows Q u (plan_changes b)\<rparr>" b for b] handled_rows
  by simp

lemma changes:
  "keeps P (update_changes Q (\<lambda>c. c\<lparr>pc_status := RequiresAction\<rparr>))"
  "keeps P (update_changes Q (\<lambda>c. c\<lparr>pc_status := FailedChange, pc_last_error := Some m\<rparr>))"
  "keeps P (update_changes Q (\<lambda>c. c\<lparr>pc_status := FailedChange, pc_last_error := Some m,
     pc_completed := coalesce (pc_completed c) (Some n), pc_lease := None, pc_lease_expires := None\<rparr>))"
  by (rule change_step; simp add: handled_change_def request_of_def)+

lemma settlements:
  "keeps P (bind_settlement change invoice (complete_change now))"
  "keeps P (bind_settlement change invoice (fail_change now m))"
  "keeps P (settle_change change invoice (complete_change now))"
  "keeps P (settle_change change invoice (fail_change now m))"
  unfolding bind_settlement_def settle_change_def
  by (intro keeps_rules change_step; simp add: handled_change_def request_of_def complete_change_def fail_change_def)+

lemma statements:
  "keeps P (incident kind event dedupe invoice owner detail)" "keeps P (set_account acc f)"
  "keeps P (entry acc delta after units reason epoch ev invoice slot)"
  "keeps P (update_invoices k g)" "keeps P (update_funding n h)" "keeps P (delete_claims R)"
  "keeps P (resolve_incidents S)"
  "keeps P (on_core (collectClawbackDebts acc epoch ev))"
  "keeps P (on_core (applyClawbackToGrant now acc invc grant units amount amountRefunded full reason ev))"
  "keeps P (on_core (lockAccount obj metadata))"
proof -
  show "keeps P (resolve_incidents S)" unfolding resolve_incidents_def
    by (rule core_step) (simp add: keeps_def)
qed (unfold incident_def set_account_def entry_def update_invoices_def update_funding_def delete_claims_def
    lockAccount_def, (intro core_step table_step keeps_rules conjI; auto)+)

lemmas rules = keeps_rules statements changes settlements collect

lemma refuse_keeps: "keeps P (refuse event invoice acc r)"
  unfolding refuse_def by (intro rules)

lemma claim_keeps: "keeps P (claimInvoiceState event acc invoice amount)"
  unfolding claimInvoiceState_def Let_def by (intro rules table_step) simp_all

lemma helpers:
  "keeps P (resolvePlanChangeIncidents acc invoice change)" "keeps P (mark_granted invoice units shut)"
  "keeps P (replay_grant event invoice a e)"
  "keeps P (insert_funding acc c invoice ev shape delta refundUnits epoch status)"
  "keeps P (upsert_refund invoice owner sh dispute)"
  unfolding resolvePlanChangeIncidents_def mark_granted_def replay_grant_def
    insert_funding_def upsert_refund_def Let_def
  by (intro rules table_step; simp)+

lemmas handler_rules = rules refuse_keeps claim_keeps helpers

lemma grants:
  "keeps P (block_grant now ev invoice a plan transition)"
  "keeps P (grant_period now event ev invoice a plan interval customer subscription periodStart periodEnd allowed state transition)"
  "keeps P (block_delta now event ev invoice a c delta)"
  "keeps P (grant_delta now event ev obj invoice a c shape state delta refundUnits)"
  unfolding block_grant_def grant_period_def block_delta_def grant_delta_def Let_def
  by (intro handler_rules)+

lemma fund_delta_keeps: "keeps P (fund_delta now event ev obj invoice a c shape delta)"
  unfolding fund_delta_def Let_def by (intro handler_rules grants)

lemma invoicePaid_keeps: "keeps P (invoicePaid cfg now event)"
  unfolding invoicePaid_def invoicePaidProratedDelta_def invoicePaidFullPeriod_def Let_def
  by (intro handler_rules grants fund_delta_keeps)

lemma refunds:
  "keeps P (withdraw_overgrant ev invoice a i)" "keeps P (revert_delta event ev invoice a f i)"
  "keeps P (cap_annual a i shut)"
  unfolding withdraw_overgrant_def revert_delta_def cap_annual_def Let_def by (intro handler_rules)+

lemma apply_refund_keeps: "keeps P (apply_refund now event dispute ev invoice a i grantId grant allocation)"
  unfolding apply_refund_def Let_def by (intro handler_rules refunds)

lemma subscription_clawback_keeps: "keeps P (subscription_clawback now event)"
  unfolding subscription_clawback_def clawback_known_def clawback_funding_def Let_def
  by (intro handler_rules apply_refund_keeps)

lemma paymentFailed_keeps: "keeps P (paymentFailed event)"
  unfolding paymentFailed_def failed_update_def Let_def by (intro handler_rules)

lemma updates_keep:
  "keeps P (subscriptionUpdated cfg event)" "keeps P (subscriptionDeleted now event)"
  "keeps P (checkoutCompleted event)" "keeps P (checkoutExpired event)"
  unfolding subscriptionUpdated_def losing_update_def subscriptionDeleted_def checkoutCompleted_def checkoutExpired_def Let_def
  by (intro handler_rules)+

end

section \<open>No handler touches the inbox\<close>

lemma keeps_inbox_core: "keeps (\<lambda>b. inbox b = I) (on_core m)"
  by (auto simp: keeps_def on_core_Inr_iff)

interpretation inbox_frame: subscription_invariant "\<lambda>b. inbox b = I" for I
  by unfold_locales (simp_all add: keeps_inbox_core)

lemma keeps_pack_first [keeps_rules]:
  "keeps P (on_core pack) \<Longrightarrow> keeps P subscription \<Longrightarrow> keeps P (pack_first pack subscription)"
  unfolding pack_first_def by (intro keeps_rules)

lemma dispatch_inbox: "keeps (\<lambda>b. inbox b = I) (dispatch cfg now clock event)"
  unfolding dispatch_def Let_def
  by (intro keeps_rules keeps_inbox_core inbox_frame.invoicePaid_keeps inbox_frame.subscription_clawback_keeps
      inbox_frame.paymentFailed_keeps inbox_frame.updates_keep)

text \<open>Once an event is in the inbox, it stays there.\<close>

lemma process_claimed_inbox:
  "keeps (\<lambda>b. map we_id (inbox b) = ids) (process_claimed cfg now clock eventId eventType event)"
proof -
  have "keeps (\<lambda>b. map we_id (inbox b) = ids) (dispatch cfg now clock event)"
    using dispatch_inbox unfolding keeps_def by metis
  moreover have "keeps (\<lambda>b. map we_id (inbox b) = ids) (on_core m)" for m :: "unit tx"
    by (auto simp: keeps_def on_core_Inr_iff)
  moreover have "keeps (\<lambda>b. map we_id (inbox b) = ids) (record_outcome k out reason)" for k out reason
    unfolding record_outcome_def by (rule keeps_modify) (simp add: update_rows_def if_distrib comp_def cong: if_cong)
  ultimately show ?thesis unfolding process_claimed_def reject_event_def incident_def by (intro keeps_rules)
qed

lemma find_event_iff: "find_event b k \<noteq> None \<longleftrightarrow> k \<in> set (map we_id (inbox b))"
  by (auto simp: find_event_def find_None_iff)

lemma claim_event_seen: "find_event b k = Some e \<Longrightarrow> claim_event k ty event b = Inr (False, b)"
  by (simp add: claim_event_def)

lemma process_event_seen:
  assumes "find_event b k = Some e" "isAbsent (jprop event ''_credit_pack_reconcile_claim'')"
  shows "process_event cfg now clock k ty event b =
    Inr (\<lparr>pr_outcome = Duplicate, pr_reason = ''event id already committed'', pr_account = None\<rparr>, b)"
  using assms(2)
  by (simp add: process_event_def creditPackReconcileClaimCurrent_def
      bind_tx_simps(1) [where m = "claim_event k ty event" and s = b, OF claim_event_seen [OF assms(1)]])

lemma process_event_claims:
  assumes run: "process_event cfg now clock eventId eventType event b = Inr (r, b')" and free: "isAbsent (jprop event ''_credit_pack_reconcile_claim'')"
  shows "find_event b' eventId \<noteq> None"
proof -
  have current: "creditPackReconcileClaimCurrent clock event b = Inr (True, b)"
    using free by (simp add: creditPackReconcileClaimCurrent_def)
  show ?thesis
  proof (cases "find_event b eventId")
    case None
    let ?e = "\<lparr>we_id = eventId, we_type = eventType, we_livemode = (jprop event ''livemode'' = JBool True),
      we_payload = redactedEventSnapshot event, we_outcome = None, we_reason = None\<rparr>"
    have "process_claimed cfg now clock eventId eventType event (b\<lparr>inbox := inbox b @ [?e]\<rparr>) = Inr (r, b')"
      using run None by (simp add: process_event_def current claim_event_def)
    from keepsD [OF process_claimed_inbox refl this] have "eventId \<in> set (map we_id (inbox b'))" by simp
    then show ?thesis by (subst find_event_iff)
  next
    case (Some e)
    from process_event_seen [OF Some free] run have "b' = b" by simp
    with Some show ?thesis by simp
  qed
qed


text \<open>What every delivery of an event must carry to reach the inbox, when no lease guards it.\<close>

definition deliverable :: "string \<Rightarrow> jsval \<Rightarrow> bool" where
  "deliverable k event \<longleftrightarrow> isPlainRecord event \<and> jprop event ''id'' = JStr k \<and>
     validEventIdentifier (jprop event ''id'') 512 \<and> validEventIdentifier (jprop event ''type'') 255 \<and>
     isAbsent (jprop event ''_credit_pack_reconcile_claim'')"

lemma deliverable_process:
  assumes "deliverable k event"
  obtains ty where "jprop event ''type'' = JStr ty"
    "process cfg now clock event b = billing_transaction (process_event cfg now clock k ty event) b"
  using assms by (cases "jprop event ''type''") (auto simp: deliverable_def process_def)


section \<open>Every event keeps the invariant of the ledger\<close>

text \<open>The part of the invariant that no constraint of the schema states.\<close>

definition tidy :: "store \<Rightarrow> bool" where
  "tidy s \<longleftrightarrow> orderly s \<and> (\<forall>a \<in> set (allocations s). find_debit s (al_debit a) \<noteq> None)"

lemma tidy_tables: "pack_tables t = pack_tables s \<Longrightarrow> tidy s \<Longrightarrow> tidy t"
  by (simp add: pack_tables_def tidy_def orderly_def collections_inv_def active_debt_def debt_target_def
      debt_released_def find_debt_def collects_def find_debit_def)

lemma settled_tidy: "settled s \<Longrightarrow> tidy s"
  using settled_orderly allocation_key ledger_invD(3) by (auto simp: tidy_def settled_def)

lemma tidy_collected:
  assumes t: "tidy s" and fresh: "find_debit s (collection_key s) = None"
  shows "tidy (collected_state now d x epoch (FromSubscription e) s)"
proof -
  let ?s = "collected_state now d x epoch (FromSubscription e) s"
  have tables: "next_allocation ?s = next_allocation s + 1"
    "allocations ?s = allocations s @ [\<lparr>al_id = next_allocation s, al_debit = collection_key s,
       al_account = pd_account d, al_source = FromSubscription e, al_amount = x, al_refunded = 0\<rparr>]"
    by (simp_all add: collected_state_def Let_def new_allocation_def move_debt_def)
  have old: "collects ?s (al_debit a) = collects s (al_debit a)" "find_debit ?s (al_debit a) \<noteq> None"
    if "a \<in> set (allocations s)" for a
    using that t fresh
    by (auto simp: tidy_def collected_state_def Let_def new_allocation_def collects_def find_debit_def move_debt_def
        find_append)
  have key: "find_debit ?s (collection_key s) \<noteq> None"
    using fresh
    by (simp add: collected_state_def Let_def new_allocation_def find_debit_def move_debt_def find_append)
  have target: "debt_target ?s = debt_target s"
    by (auto simp: fun_eq_iff debt_target_def find_debt_move split: option.splits)
  have ids: "\<forall>a \<in> set (allocations s). al_id a < next_allocation s"
    and inv: "\<forall>a \<in> set (allocations s). \<forall>b \<in> set (allocations s). \<forall>l \<in> set (lots s).
        collects s (al_debit a) \<noteq> None \<longrightarrow> al_source a = FromLot (lot_id l) \<longrightarrow> 0 < pending_of a \<longrightarrow>
        collects s (al_debit b) = Some (lot_order l) \<longrightarrow> 0 < pending_of b \<longrightarrow> al_id a < al_id b"
    using t unfolding tidy_def orderly_def collections_inv_def by simp_all
  have "collections_inv ?s"
    unfolding collections_inv_def
  proof (intro conjI ballI impI)
    fix a assume "a \<in> set (allocations ?s)"
    then have "a \<in> set (allocations s) \<or> al_id a = next_allocation s" unfolding tables by auto
    then show "al_id a < next_allocation ?s" using ids unfolding tables by force
  next
    fix a b l assume a: "a \<in> set (allocations ?s)" and b: "b \<in> set (allocations ?s)" and l: "l \<in> set (lots ?s)"
      and c: "collects ?s (al_debit a) \<noteq> None" "al_source a = FromLot (lot_id l)" "0 < pending_of a"
        "collects ?s (al_debit b) = Some (lot_order l)" "0 < pending_of b"
    from a c(2) have a': "a \<in> set (allocations s)" unfolding tables by auto
    show "al_id a < al_id b"
    proof (cases "b \<in> set (allocations s)")
      case True
      have "l \<in> set (lots s)" using l by simp
      with inv [rule_format, OF a' True] c old(1) [OF a'] old(1) [OF True] show ?thesis by metis
    next
      case False
      with b have "al_id b = next_allocation s" unfolding tables by auto
      then show ?thesis using ids a' by simp
    qed
  qed
  then show ?thesis using t old(2) key by (auto simp: tidy_def orderly_def target tables)
qed

lemma tidy_debt_loop: "keeps tidy (subscription_debt_loop now acc epoch event ds balance)"
proof (induction ds arbitrary: balance)
  case (Cons d ds)
  have step: "keeps tidy (bind_tx (update_debts (\<lambda>r. pd_order r = pd_order d) (\<lambda>r. r\<lparr>pd_collected := pd_collected r + x\<rparr>))
      (\<lambda>_. recordDebtCollection now d x epoch (FromSubscription epoch)))" for x
    by (auto simp: keeps_def collect_step_run tidy_collected split: if_splits)
  have row: "keeps tidy (insert_ledger acc delta after reason epoch event invoice)" for delta after reason invoice
    unfolding insert_ledger_def by (rule keeps_modify) (rule tidy_tables; simp)
  show ?case
    unfolding subscription_debt_loop.simps Let_def bind_tx_assoc [symmetric]
    by (intro keeps_rules step [unfolded bind_tx_assoc] row Cons.IH)
qed (simp add: keeps_rules)

lemma tidy_collect: "keeps (\<lambda>b. tidy (core b)) (on_core (collectPackDebtsFromSubscription now acc epoch event))"
proof -
  have "keeps tidy (update_accounts Q f)" for Q f
    unfolding update_accounts_def by (rule keeps_modify) (rule tidy_tables; simp)
  then have "keeps tidy (collectPackDebtsFromSubscription now acc epoch event)"
    unfolding collectPackDebtsFromSubscription_def by (intro keeps_rules tidy_debt_loop)
  then show ?thesis by (auto simp: keeps_def on_core_Inr_iff)
qed

interpretation ledger_frame: subscription_invariant "\<lambda>b. tidy (core b)"
  by unfold_locales (auto intro: tidy_tables tidy_collect)

text \<open>An event that is no event of a credit pack leaves the store to the handler of subscriptions.\<close>

lemma leads_false: "(\<And>x t. Q x t) \<Longrightarrow> leads Q m s"
  by (simp add: leads_def)

lemma clawback_passes: "leads (\<lambda>r t. r = None \<longrightarrow> t = s) (pack_clawback productLine event now clock) s"
  unfolding pack_clawback_def apply_clawback_def Let_def
  by (intro leads_rules leads_false) (auto dest!: lockedOrder_state simp: lift_tx_state)

lemma checkout_passes: "leads (\<lambda>r t. r = None \<longrightarrow> t = s) (checkoutEvent productLine event) s"
  unfolding checkoutEvent_def Let_def
  by (intro leads_rules leads_false) (auto dest!: lockedOrder_state simp: lift_tx_state)

text \<open>The ends of a handler, by the part of the store it may reach.\<close>

lemma on_core_orderly:
  assumes "\<And>x t. m (core b) = Inr (x, t) \<Longrightarrow> consistent t \<Longrightarrow> orderly t"
    and "on_core m b = Inr (r, b')" "consistent (core b')"
  shows "orderly (core b')"
  using assms by (auto simp: on_core_Inr_iff)

lemma pack_first_orderly:
  assumes s: "settled (core b)" and run: "pack_first pack subscription b = Inr (r, b')" and c: "consistent (core b')"
    and pack: "\<And>x t. pack (core b) = Inr (x, t) \<Longrightarrow> consistent t \<Longrightarrow> orderly t"
    and passes: "leads (\<lambda>r t. r = None \<longrightarrow> t = core b) pack (core b)"
    and other: "keeps (\<lambda>b. tidy (core b)) subscription"
  shows "orderly (core b')"
proof -
  from run obtain x u where x: "pack (core b) = Inr (x, u)"
    and rest: "(case x of Some y \<Rightarrow> ret y | None \<Rightarrow> subscription) (b\<lparr>core := u\<rparr>) = Inr (r, b')"
    by (auto simp: pack_first_def bind_tx_Inr_iff on_core_Inr_iff)
  show ?thesis
  proof (cases x)
    case None
    with leadsD [OF passes x] have "u = core b" by simp
    with None rest have "subscription b = Inr (r, b')" by simp
    from keepsD [OF other settled_tidy [OF s] this] show ?thesis by (simp add: tidy_def)
  next
    case (Some y)
    with rest have "b' = b\<lparr>core := u\<rparr>" by simp
    then show ?thesis using pack [OF x] c by simp
  qed
qed

lemma payment_orderly:
  assumes s: "settled s" and run: "paymentSucceeded productLine event now clock s = Inr (r, t)" and c: "consistent t"
  shows "orderly t"
proof -
  have "transaction (paymentSucceeded productLine event now clock) s = (Inr r, t)" using run c by (simp add: transaction_def)
  with payment_settled [OF s, of productLine event now clock] show ?thesis by (simp add: settled_orderly)
qed

lemma dispatch_orderly:
  assumes s: "settled (core b)" and run: "dispatch cfg now clock event b = Inr (r, b')" and c: "consistent (core b')"
  shows "orderly (core b')"
proof -
  have tidy: "orderly (core b')" if "keeps (\<lambda>b. tidy (core b)) m" "m b = Inr (r, b')" for m :: "ProcessResult btx"
    using keepsD [OF that(1) settled_tidy [OF s] that(2)] by (simp add: tidy_def)
  let ?line = "cfg_productLine cfg"
  have pay: "orderly (core b')" if "on_core (paymentSucceeded ?line event now clock) b = Inr (r, b')"
    by (rule on_core_orderly [OF payment_orderly [OF s] that c])
  have claw: "orderly (core b')"
    if "pack_first (pack_clawback ?line event now clock) (subscription_clawback now event) b = Inr (r, b')"
    by (rule pack_first_orderly [OF s that c clawback_orderly [OF s] clawback_passes ledger_frame.subscription_clawback_keeps])
  have check: "orderly (core b')" if "pack_first (checkoutEvent ?line event) m b = Inr (r, b')"
    "keeps (\<lambda>b. tidy (core b)) m" for m
    by (rule pack_first_orderly [OF s that(1) c keepsD [OF keeps_checkout settled_orderly [OF s]] checkout_passes that(2)])
  note subscription = tidy [OF ledger_frame.invoicePaid_keeps] tidy [OF ledger_frame.paymentFailed_keeps]
    tidy [OF ledger_frame.updates_keep(1)] tidy [OF ledger_frame.updates_keep(2)]
    check [OF _ ledger_frame.updates_keep(3)] check [OF _ ledger_frame.updates_keep(4)]
    tidy [OF keeps_pure(1)] pay claw
  show ?thesis
    using run unfolding dispatch_def Let_def by (auto split: if_splits intro: subscription)
qed

lemma process_claimed_orderly:
  assumes s: "settled (core b)" and run: "process_claimed cfg now clock eventId eventType event b = Inr (r, b')"
    and c: "consistent (core b')"
  shows "orderly (core b')"
proof -
  have reject: "keeps (\<lambda>b. tidy (core b)) (reject_event event eventId kind detail reason)" for kind detail reason
    unfolding reject_event_def record_outcome_def
    by (intro keeps_rules ledger_frame.statements keeps_modify) simp
  have "orderly (core b')" if "reject_event event eventId kind detail reason b = Inr (r, b')" for kind detail reason
    using keepsD [OF reject settled_tidy [OF s] that] by (simp add: tidy_def)
  moreover have "orderly (core b')"
    if "bind_tx (dispatch cfg now clock event) (\<lambda>r. bind_tx (record_outcome eventId (pr_outcome r) (pr_reason r)) (\<lambda>_. ret r)) b =
      Inr (r, b')"
  proof -
    from that obtain b1 where "dispatch cfg now clock event b = Inr (r, b1)" "core b' = core b1"
      by (auto simp: bind_tx_Inr_iff record_outcome_def)
    with dispatch_orderly [OF s this(1)] c show ?thesis by simp
  qed
  ultimately show ?thesis using run unfolding process_claimed_def by (auto split: option.splits)
qed

lemma process_event_orderly:
  assumes s: "settled (core b)" and run: "process_event cfg now clock eventId eventType event b = Inr (r, b')"
    and c: "consistent (core b')"
  shows "orderly (core b')"
proof -
  have current: "leads (\<lambda>x t. t = b) (creditPackReconcileClaimCurrent clock event) b"
    unfolding creditPackReconcileClaimCurrent_def Let_def by (auto simp: leads_def split: option.splits)
  have claim: "leads (\<lambda>x t. core t = core b) (claim_event eventId eventType event) b"
    unfolding claim_event_def by (auto simp: leads_def split: option.splits)
  from run obtain x b1 where "creditPackReconcileClaimCurrent clock event b = Inr (x, b1)"
    and rest: "b' = b1 \<or> (\<exists>y b2. claim_event eventId eventType event b1 = Inr (y, b2) \<and>
      (b' = b2 \<or> process_claimed cfg now clock eventId eventType event b2 = Inr (r, b')))"
    by (auto simp: process_event_def bind_tx_Inr_iff split: if_splits)
  from leadsD [OF current this(1)] rest consider "b' = b"
    | y b2 where "claim_event eventId eventType event b = Inr (y, b2)"
      "b' = b2 \<or> process_claimed cfg now clock eventId eventType event b2 = Inr (r, b')"
    by auto
  then show ?thesis
  proof cases
    case 1
    then show ?thesis using settled_orderly [OF s] by simp
  next
    case 2
    from leadsD [OF claim 2(1)] s have "settled (core b2)" by simp
    with 2(2) c process_claimed_orderly show ?thesis using settled_orderly by blast
  qed
qed

lemma billing_transaction_settled:
  assumes "settled (core b)" "\<And>x t. operation b = Inr (x, t) \<Longrightarrow> consistent (core t) \<Longrightarrow> orderly (core t)"
  shows "settled (core (snd (billing_transaction operation b)))"
  using assms consistent_settled by (auto simp: billing_transaction_def billing_consistent_def split: sum.splits)

text \<open>
  Every webhook event, whatever it is and in whatever order it arrives, keeps the invariant of the
  credit ledger: all constraints and equations of the packs, their lots, debts and charges.
\<close>

theorem process_settled:
  assumes "settled (core b)"
  shows "settled (core (snd (process cfg now clock event b)))"
proof -
  have "settled (core (snd (billing_transaction (process_event cfg now clock eventId eventType event) b)))" for eventId eventType
    using assms by (rule billing_transaction_settled) (rule process_event_orderly [OF assms])
  then show ?thesis using assms by (auto simp: process_def Let_def split: jsval.splits)
qed

section \<open>A database to evaluate\<close>

text \<open>An account with an annual plan, whose first month was granted and not used.\<close>

definition annual_account :: account where
  "annual_account =
     \<lparr>acc_id = ''acct'', acc_external_ref = ''owner-1'', acc_customer = Some ''cus_1'', acc_subscription = Some ''sub_1'',
      acc_plan_key = ''pro'', acc_plan_interval = Some Year, acc_status = SubActive,
      acc_balance = 1000000000, acc_epoch = 1, acc_event_created = 7, acc_event_rank = 50,
      acc_period_end = Some (365 * DAY_MICROS), acc_annual_anchor = Some 0, acc_annual_issued = 1,
      acc_annual_allowed = 12, acc_funding_invoice = Some ''in_1'',
      acc_cancel_at_period_end = False, acc_pending_free_at = None,
      acc_entitlement_end = Some (365 * DAY_MICROS), acc_credit_expires = Some (31 * DAY_MICROS),
      acc_revoked = False\<rparr>"

definition annual_store :: store where
  "annual_store =
     \<lparr>accounts = [annual_account], orders = [], lots = [], debits = [], allocations = [], pack_debts = [],
      clawback_debts = [],
      ledger = [\<lparr>le_account = ''acct'', le_delta = 1000000000, le_balance_after = 1000000000, le_units = 1000000000,
                 le_reason = ''subscription_grant'', le_epoch = 1, le_event = Some ''evt_0'', le_invoice = Some ''in_1'',
                 le_slot = Some 1\<rparr>],
      incidents = [], next_allocation = 1, uuid_source = (\<lambda>n. replicate n (CHR ''u'')), uuid_next = 0\<rparr>"

definition annual_billing :: billing where
  "annual_billing =
     \<lparr>core = annual_store, inbox = [],
      invoice_states = [\<lparr>is_invoice = ''in_1'', is_account = Some ''acct'', is_total = 35300, is_refunded = 0,
        is_fully_refunded = False, is_disputed = False, is_units_per_slot = 1000000000, is_issued = 1,
        is_closure_applied = False\<rparr>],
      plan_changes = [], funding_allocations = [], checkout_claims = [], next_funding = 1\<rparr>"

lemmas annual_defs = annual_billing_def annual_store_def annual_account_def

lemma annual_settled: "settled annual_store"
  by (simp add: settled_def ledger_inv_def rows_ok_def keys_ok_def references_ok_def lots_inv_def debts_inv_def
      debits_inv_def collections_inv_def annual_defs account_check_def bigint_def bound_defs nullable_unique_def
      ledger_check_def)

lemma annual_consistent: "billing_consistent annual_billing"
proof -
  have "consistent annual_store" by (rule settled_consistent [OF annual_settled])
  then show ?thesis
    by (simp add: billing_consistent_def billing_keys_ok_def billing_references_ok_def annual_billing_def nullable_unique_def snapshots_ok_def
        invoice_check_def smallint_slots_def grant_row_check_def bigint_def bound_defs annual_store_def annual_account_def granted_slots_def
        List.map_filter_def)
qed

definition sample_config :: processor_config where
  "sample_config = \<lparr>cfg_catalog = reference_catalog ''billing'', cfg_productLine = ''line'', cfg_livemode = False, cfg_apiVersion = None\<rparr>"

text \<open>The end of the subscription of that account.\<close>

definition deletion_event :: jsval where
  "deletion_event = JObj True
     [(''id'', JStr ''evt_1''), (''type'', JStr ''customer.subscription.deleted''), (''created'', JInt 8), (''livemode'', JBool False),
      (''data'', JObj True [(''object'', JObj True
        [(''id'', JStr ''sub_1''), (''customer'', JStr ''cus_1''), (''status'', JStr ''canceled''),
         (''metadata'', JObj True [(''external_ref'', JStr ''owner-1'')])])])]"

lemma deletion_run: "is_ok (fst (process sample_config 100 100 deletion_event annual_billing))"
  by code_simp

lemma deletion_deliverable: "deliverable ''evt_1'' deletion_event"
  by code_simp


lemma process_settled_witness:
  "settled (core (snd (process sample_config 100 100 deletion_event annual_billing)))"
proof -
  have "settled (core annual_billing)" using annual_settled by (simp add: annual_billing_def)
  then show ?thesis by (rule process_settled)
qed

end
