(* ===== verification/Ledger_Audit.thy ===== *)
theory Ledger_Audit
  imports Event_Properties
begin

text \<open>
  The audit of the credit ledger (\<open>credit_ledger\<close>): every row states the running balance of its
  account, and the balance of every account is the sum of its rows. Charges, refunds and every webhook
  event keep it.
\<close>

section \<open>The books\<close>

definition total_of :: "string \<Rightarrow> ledger_entry list \<Rightarrow> int" where
  "total_of acc es = (\<Sum>e\<leftarrow>es. if le_account e = acc then le_delta e else 0)"

text \<open>Every row states the balance of its account after it.\<close>

definition running :: "ledger_entry list \<Rightarrow> bool" where
  "running es \<longleftrightarrow> (\<forall>n < length es. le_balance_after (es ! n) = total_of (le_account (es ! n)) (take (Suc n) es))"

definition audited :: "store \<Rightarrow> bool" where
  "audited s \<longleftrightarrow> running (ledger s) \<and> (\<forall>a \<in> set (accounts s). acc_balance a = total_of (acc_id a) (ledger s))"

text \<open>In the middle of a transaction: the rows of one account add up to \<open>n\<close>, its balance is still \<open>b\<close>.\<close>

definition books :: "string \<Rightarrow> int \<Rightarrow> int \<Rightarrow> store \<Rightarrow> bool" where
  "books acc b n s \<longleftrightarrow> running (ledger s) \<and> total_of acc (ledger s) = n \<and>
     (\<forall>a \<in> set (accounts s). acc_balance a = (if acc_id a = acc then b else total_of (acc_id a) (ledger s)))"

lemma total_of_simps [simp]:
  "total_of acc [] = 0" "total_of acc (es @ fs) = total_of acc es + total_of acc fs"
  "total_of acc (e # es) = (if le_account e = acc then le_delta e else 0) + total_of acc es"
  by (simp_all add: total_of_def)

lemma running_row:
  "running (es @ [e]) \<longleftrightarrow> running es \<and> le_balance_after e = total_of (le_account e) es + le_delta e"
proof -
  have "take (Suc n) (es @ [e]) = take (Suc n) es" "(es @ [e]) ! n = es ! n" if "n < length es" for n
    using that by (simp_all add: nth_append)
  then show ?thesis
    by (auto simp: running_def less_Suc_eq)
qed

lemma books_audited: "books acc n n s \<Longrightarrow> audited s"
  by (auto simp: books_def audited_def)

lemma audited_books: "audited s \<Longrightarrow> a \<in> set (accounts s) \<Longrightarrow> books (acc_id a) (acc_balance a) (acc_balance a) s"
  by (auto simp: books_def audited_def)

lemma audited_found: "audited s \<Longrightarrow> find_account s acc = Some a \<Longrightarrow> books acc (acc_balance a) (acc_balance a) s"
  using audited_books find_account_Some by metis

section \<open>Moving a balance\<close>

lemma leads_then:
  "leads R m s \<Longrightarrow> (\<And>x t. R x t \<Longrightarrow> leads Q (f x) t) \<Longrightarrow> leads Q (bind_tx m f) s"
  unfolding leads_def bind_tx_Inr_iff by blast

lemma leads_keep:
  "keeps P m \<Longrightarrow> P s \<Longrightarrow> (\<And>x t. P t \<Longrightarrow> leads Q (f x) t) \<Longrightarrow> leads Q (bind_tx m f) s"
  unfolding leads_def keeps_def bind_tx_Inr_iff by blast

lemma keeps_leads: "keeps P m \<longleftrightarrow> (\<forall>s. P s \<longrightarrow> leads (\<lambda>_. P) m s)"
  unfolding keeps_def leads_def by blast

lemma books_set:
  assumes "books acc b n s" "\<And>r. acc_id (f r) = acc_id r" "\<And>r. acc_balance (f r) = b'"
  shows "leads (\<lambda>_ t. books acc b' n t) (update_accounts (\<lambda>r. acc_id r = acc) f) s"
  using assms by (auto simp: leads_def update_accounts_def books_def set_update_rows)

lemma books_rows:
  assumes "books acc b n s"
  shows "leads (\<lambda>_ t. books acc b (n + d) t) (insert_ledger acc d (n + d) reason epoch event invoice) s"
    "leads (\<lambda>_ t. books acc b (n + d) t) (insert_entry acc d (n + d) units reason epoch event invoice slot) s"
  using assms by (auto simp: leads_def insert_ledger_def insert_entry_def books_def running_row)

section \<open>Statements that leave the books alone\<close>

definition account_tables where
  "account_tables s = (map (\<lambda>a. (acc_id a, acc_balance a)) (accounts s), ledger s)"

lemma account_tables_updates [simp]:
  "account_tables (s\<lparr>orders := os\<rparr>) = account_tables s" "account_tables (s\<lparr>lots := ls\<rparr>) = account_tables s"
  "account_tables (s\<lparr>debits := ds\<rparr>) = account_tables s" "account_tables (s\<lparr>allocations := as\<rparr>) = account_tables s"
  "account_tables (s\<lparr>pack_debts := ps\<rparr>) = account_tables s" "account_tables (s\<lparr>clawback_debts := cs\<rparr>) = account_tables s"
  "account_tables (s\<lparr>incidents := is\<rparr>) = account_tables s" "account_tables (s\<lparr>next_allocation := n\<rparr>) = account_tables s"
  "account_tables (s\<lparr>uuid_next := u\<rparr>) = account_tables s"
  by (simp_all add: account_tables_def)

lemma books_frame:
  assumes "account_tables t = account_tables s" "books acc b n s"
  shows "books acc b n t"
proof -
  have l: "ledger t = ledger s" and m: "map (\<lambda>a. (acc_id a, acc_balance a)) (accounts t) = map (\<lambda>a. (acc_id a, acc_balance a)) (accounts s)"
    using assms(1) by (simp_all add: account_tables_def)
  have "\<exists>c \<in> set (accounts s). acc_id c = acc_id a \<and> acc_balance c = acc_balance a" if "a \<in> set (accounts t)" for a
  proof -
    have "(acc_id a, acc_balance a) \<in> set (map (\<lambda>a. (acc_id a, acc_balance a)) (accounts t))" using that by force
    then show ?thesis unfolding m by force
  qed
  with assms(2) show ?thesis unfolding books_def l by metis
qed

lemma audited_iff_books: "audited s \<longleftrightarrow> (\<forall>acc. books acc (total_of acc (ledger s)) (total_of acc (ledger s)) s)"
  by (auto simp: audited_def books_def)

lemma audited_frame: "account_tables t = account_tables s \<Longrightarrow> audited s \<Longrightarrow> audited t"
  using books_frame unfolding audited_iff_books by (simp add: account_tables_def)

text \<open>A predicate on the store that only balances and rows of the ledger can change.\<close>

locale account_invariant =
  fixes P :: "store \<Rightarrow> bool"
  assumes frame: "account_tables t = account_tables s \<Longrightarrow> P s \<Longrightarrow> P t"
begin

lemma frame_step: "(\<And>s x t. m s = Inr (x, t) \<Longrightarrow> account_tables t = account_tables s) \<Longrightarrow> keeps P m"
  unfolding keeps_def using frame by blast

lemma statements:
  "keeps P (update_orders R1 f1)" "keeps P (update_lots R2 f2)" "keeps P (update_debts R3 f3)"
  "keeps P (update_allocations R4 f4)" "keeps P (update_debits R5 f5)" "keeps P (update_clawback_debts R6 f6)"
  "keeps P (insert_debit d)" "keeps P (insert_debit_if_new d)" "keeps P (insert_allocation k acc src x)"
  "keeps P (insert_lot l)" "keeps P randomUUID" "keeps P (recordIncident kind event dedupe invoice owner detail)"
  "keeps P (oweClawback now acc epoch invc target collected)" "keeps P (expireAccountPackLots acc asOf)"
  "keeps P (modify (\<lambda>s. s\<lparr>pack_debts := h s\<rparr>))"
  by (rule frame_step; auto simp: update_orders_def update_lots_def update_debts_def update_allocations_def update_debits_def
      update_clawback_debts_def insert_debit_def insert_debit_if_new_def insert_allocation_def insert_lot_def randomUUID_def
      recordIncident_def oweClawback_def expireAccountPackLots_def account_tables_def Let_def split: if_splits)+

lemma customer: "(\<And>r. acc_id (f r) = acc_id r \<and> acc_balance (f r) = acc_balance r) \<Longrightarrow> keeps P (update_accounts R f)"
  by (rule frame_step) (auto simp: update_accounts_def account_tables_def update_rows_def)

lemma claim: "keeps P (claim_customer a cus)"
  unfolding claim_customer_def by (intro keeps_rules customer) simp

lemmas rules = keeps_rules statements claim

lemma collection: "keeps P (recordDebtCollection now d amount epoch src)"
  unfolding recordDebtCollection_def by (intro rules)

lemma lot_loop: "keeps P (lot_debt_loop now epoch k ds available)"
  by (induction ds arbitrary: available) (simp_all add: Let_def rules collection)

lemma from_lot: "keeps P (collectPackDebtsFromLot now acc k available)"
  unfolding collectPackDebtsFromLot_def Let_def by (intro rules lot_loop)

lemma consume: "keeps P (consumeLots key acc ls remaining)"
proof (induction ls arbitrary: remaining)
  case (Cons l ls)
  have "keeps P (consumeLot key acc l remaining)" unfolding consumeLot_def Let_def by (intro rules)
  then show ?case using Cons by (simp add: keeps_bind)
qed (simp add: rules)

lemma consume_subscription: "keeps P (consumeSubscription key a available remaining)"
  unfolding consumeSubscription_def Let_def by (intro rules)

lemma to_lot: "keeps P (lockedLot asOf acc k)" "keeps P (returnToLot now acc l po amount)"
  unfolding lockedLot_def returnToLot_def Let_def by (intro rules from_lot)+

lemma pack_events:
  "keeps P (checkoutEvent productLine event)" "keeps P (paymentSucceeded productLine event now clock)"
  "keeps P (pack_clawback productLine event now clock)"
  unfolding checkoutEvent_def record_checkout_def paymentSucceeded_def fund_order_def pack_clawback_def apply_clawback_def
    withdraw_pack_def current_lot_def claw_lot_def owe_pack_debt_def lockedOrder_def Let_def
  by (intro rules from_lot)+

end

interpretation books: account_invariant "books acc b n" for acc b n
  by unfold_locales (rule books_frame)

interpretation audit: account_invariant audited
  by unfold_locales (rule audited_frame)

section \<open>The operations of the ledger\<close>

text \<open>The loops over debts: the rows follow the balance that the loop carries.\<close>

lemma books_withdraw:
  assumes "books acc b n s"
  shows "leads (\<lambda>_. books acc b (n - x)) (insert_ledger acc (- x) (n - x) reason epoch event invoice) s"
    "leads (\<lambda>_. books acc b (n - x)) (insert_entry acc (- x) (n - x) units reason epoch event invoice slot) s"
  using books_rows [OF assms, of "- x"] by simp_all

lemma clawback_loop_books:
  "books acc b balance s \<Longrightarrow>
   leads (\<lambda>(rest, got) t. books acc b rest t \<and> rest + got = balance + collected \<and> collected \<le> got)
     (clawback_loop acc epoch event ds balance collected) s"
proof (induction ds arbitrary: balance collected s)
  case (Cons d ds)
  let ?x = "if cd_target d - cd_collected d < balance then cd_target d - cd_collected d else balance"
  show ?case
  proof (cases "?x \<le> 0")
    case True
    then show ?thesis using Cons.prems by (simp add: leads_def)
  next
    case False
    have next_loop: "leads (\<lambda>(rest, got) t. books acc b rest t \<and> rest + got = balance + collected \<and> collected \<le> got)
        (clawback_loop acc epoch event ds (balance - ?x) (collected + ?x)) t" if "books acc b (balance - ?x) t" for t
      using Cons.IH [OF that, of "collected + ?x"] False by (auto simp: leads_def)
    show ?thesis
      unfolding clawback_loop.simps Let_def if_not_P [OF False]
      by (rule leads_keep [OF books.statements(6) Cons.prems], rule leads_then [OF books_withdraw(1)], assumption, rule next_loop)
  qed
qed (simp add: leads_def)

lemma debt_loop_books:
  "books acc b balance s \<Longrightarrow>
   leads (\<lambda>rest. books acc b rest) (subscription_debt_loop now acc epoch event ds balance) s"
proof (induction ds arbitrary: balance s)
  case (Cons d ds)
  let ?o = "pd_target d - pd_collected d - pd_released d"
  let ?x = "if balance < ?o then balance else ?o"
  show ?case
  proof (cases "?x \<le> 0")
    case True
    then show ?thesis using Cons.prems by (simp add: leads_def)
  next
    case False
    show ?thesis
      unfolding subscription_debt_loop.simps Let_def if_not_P [OF False]
      by (rule leads_keep [OF books.statements(3) Cons.prems], rule leads_keep [OF books.collection], assumption,
          rule leads_then [OF books_withdraw(1)], assumption, rule Cons.IH)
  qed
qed (simp add: leads_def)

text \<open>Setting the balance of the account to the sum of its rows closes the books.\<close>

lemma books_close:
  assumes "books acc b n s" "\<And>r. acc_id (f r) = acc_id r" "\<And>r. acc_balance (f r) = n"
    and "\<And>t. audited t \<Longrightarrow> leads (\<lambda>_. audited) g t"
  shows "leads (\<lambda>_. audited) (bind_tx (update_accounts (\<lambda>r. acc_id r = acc) f) (\<lambda>_. g)) s"
  by (rule leads_then [OF books_set [OF assms(1-3)]]) (rule assms(4) [OF books_audited])

lemma books_closed: "books acc b n t \<Longrightarrow> b = n \<Longrightarrow> audited t"
  by (simp add: books_audited)

lemma leads_mono: "leads R m s \<Longrightarrow> (\<And>x t. R x t \<Longrightarrow> Q x t) \<Longrightarrow> leads Q m s"
  by (auto simp: leads_def)

lemma leads_ret: "audited t \<Longrightarrow> leads (\<lambda>_. audited) (ret x) t"
  by (simp add: leads_def)

lemma audit_clawback_debts: "keeps audited (collectClawbackDebts acc epoch event)"
  unfolding keeps_leads
proof (intro allI impI)
  fix s assume s: "audited s"
  show "leads (\<lambda>_. audited) (collectClawbackDebts acc epoch event) s"
    unfolding collectClawbackDebts_def
  proof (intro leads_gets leads_option)
    fix a assume "find_account s acc = Some a"
    with s have b: "books acc (acc_balance a) (acc_balance a) s" by (rule audited_found)
    show "leads (\<lambda>_. audited) (bind_tx (clawback_loop acc epoch event (outstanding_clawbacks s acc epoch) (acc_balance a) 0)
       (\<lambda>(balance, collected). if collected > 0
          then bind_tx (update_accounts (\<lambda>r. acc_id r = acc) (\<lambda>r. r\<lparr>acc_balance := balance\<rparr>)) (\<lambda>_. ret collected)
          else ret collected)) s"
      by (rule leads_then [OF clawback_loop_books [OF b]])
        (auto intro!: leads_if books_close leads_ret elim!: books_closed)
  qed (simp add: leads_def)
qed

lemma audit_pack_debts: "keeps audited (collectPackDebtsFromSubscription now acc epoch event)"
  unfolding keeps_leads
proof (intro allI impI)
  fix s assume s: "audited s"
  show "leads (\<lambda>_. audited) (collectPackDebtsFromSubscription now acc epoch event) s"
    unfolding collectPackDebtsFromSubscription_def
  proof (intro leads_gets leads_option)
    fix a assume "find_account s acc = Some a"
    with s have b: "books acc (acc_balance a) (acc_balance a) s" by (rule audited_found)
    show "leads (\<lambda>_. audited) (bind_tx (subscription_debt_loop now acc epoch event (outstanding_debts s acc) (acc_balance a))
       (\<lambda>balance. if balance \<noteq> acc_balance a
          then bind_tx (update_accounts (\<lambda>r. acc_id r = acc) (\<lambda>r. r\<lparr>acc_balance := balance\<rparr>)) (\<lambda>_. ret (acc_balance a - balance))
          else ret (acc_balance a - balance))) s"
      by (rule leads_then [OF debt_loop_books [OF b]])
        (auto intro!: leads_if books_close leads_ret intro: books_audited)
  qed (simp add: leads_def)
qed

text \<open>A withdrawal from the balance with its row.\<close>

lemma audit_withdraw:
  assumes "audited s" "find_account s acc = Some a" "n = acc_balance a - x"
  shows "leads (\<lambda>_. audited) (bind_tx (update_accounts (\<lambda>r. acc_id r = acc) (\<lambda>r. r\<lparr>acc_balance := n\<rparr>))
    (\<lambda>_. insert_entry acc (- x) n units reason epoch event invoice slot)) s"
  unfolding assms(3)
proof -
  let ?n = "acc_balance a - x"
  have "leads (\<lambda>_. books acc ?n (acc_balance a)) (update_accounts (\<lambda>r. acc_id r = acc) (\<lambda>r. r\<lparr>acc_balance := ?n\<rparr>)) s"
    by (rule books_set [OF audited_found [OF assms(1,2)]]) simp_all
  then show "leads (\<lambda>_. audited) (bind_tx (update_accounts (\<lambda>r. acc_id r = acc) (\<lambda>r. r\<lparr>acc_balance := ?n\<rparr>))
      (\<lambda>_. insert_entry acc (- x) ?n units reason epoch event invoice slot)) s"
    by (rule leads_then) (rule leads_mono [OF books_withdraw(2)], assumption, rule books_audited)
qed

lemma audit_apply_clawback:
  "keeps audited (applyClawbackToGrant now acc invoice grant units amount amountRefunded full reason event)"
  unfolding keeps_leads
proof (intro allI impI)
  fix s assume s: "audited s"
  have rest: "keeps audited (bind_tx (if T > 0 then oweClawback now acc ep invoice T C else ret ()) (\<lambda>_. ret x))" for T C ep and x :: int
    by (intro audit.rules)
  show "leads (\<lambda>_. audited) (applyClawbackToGrant now acc invoice grant units amount amountRefunded full reason event) s"
    unfolding applyClawbackToGrant_def Let_def
    by (intro leads_gets leads_option leads_pure)
      (rule leads_then [where R = "\<lambda>_. audited"], rule leads_if, rule audit_withdraw [OF s], assumption, rule refl,
        rule leads_ret, rule s, rule rest [unfolded keeps_leads, rule_format])
qed

lemmas audit_steps = audit.rules audit_clawback_debts audit_pack_debts audit_apply_clawback

text \<open>A deposit and a withdrawal inside a transaction, with their rows.\<close>

lemma books_entry:
  assumes s: "books acc b b s" and n: "n = b + x" and g: "keeps audited g"
    and f: "\<And>r. acc_id (f r) = acc_id r" "\<And>r. acc_balance (f r) = n"
  shows "leads (\<lambda>_. audited) (bind_tx (update_accounts (\<lambda>r. acc_id r = acc) f)
    (\<lambda>_. bind_tx (insert_ledger acc x n reason epoch event invoice) (\<lambda>_. g))) s"
proof (rule leads_then [OF books_set [OF s f]])
  fix u :: unit and t assume t: "books acc n b t"
  have "leads (\<lambda>_. books acc n n) (insert_ledger acc x n reason epoch event invoice) t"
    using books_rows(1) [OF t, of x] by (simp add: n)
  then show "leads (\<lambda>_. audited) (bind_tx (insert_ledger acc x n reason epoch event invoice) (\<lambda>_. g)) t"
    by (rule leads_then) (use g books_audited in \<open>auto simp: keeps_leads\<close>)
qed

lemma books_last:
  assumes s: "books acc b b s" and n: "n = b + x"
    and f: "\<And>r. acc_id (f r) = acc_id r" "\<And>r. acc_balance (f r) = n"
  shows "leads (\<lambda>_. audited) (bind_tx (update_accounts (\<lambda>r. acc_id r = acc) f)
    (\<lambda>_. insert_ledger acc x n reason epoch event invoice)) s"
proof (rule leads_then [OF books_set [OF s f]])
  fix u :: unit and t assume "books acc n b t"
  then show "leads (\<lambda>_. audited) (insert_ledger acc x n reason epoch event invoice) t"
    unfolding n by (rule leads_mono [OF books_rows(1)]) (rule books_audited)
qed

lemmas audit_entry = books_entry [OF audited_found]

lemma audit_return: "keeps audited (returnSubscriptionAtoms now asOf a amount event reason)"
  unfolding keeps_leads
proof (intro allI impI)
  fix s assume s: "audited s"
  have rest: "keeps audited (bind_tx (collectClawbackDebts (acc_id a) (acc_epoch a) event)
      (\<lambda>_. bind_tx (collectPackDebtsFromSubscription now (acc_id a) (acc_epoch a) event) (\<lambda>_. ret amount)))"
    by (intro audit_steps)
  show "leads (\<lambda>_. audited) (returnSubscriptionAtoms now asOf a amount event reason) s"
    unfolding returnSubscriptionAtoms_def
    by (intro leads_if leads_gets leads_option leads_lift leads_ret leads_pure s audit_entry [OF s _ _ rest])
      (auto simp: checkedAddAtoms_def split: if_splits)
qed

text \<open>Every step of a refund.\<close>

lemma audit_reverse:
  assumes "\<And>a x ev r v. keeps audited (restore a x ev r v)"
  shows "keeps audited (reverse_collections restore now acc orderId visiting cs remaining recovered)"
proof (induction cs arbitrary: remaining recovered)
  case (Cons c cs)
  then show ?case
    by (cases c) (simp only: reverse_collections.simps Let_def, intro audit.rules assms, assumption+)
qed (simp add: audit.rules)

lemma audit_relieve:
  assumes "\<And>a x ev r v. keeps audited (restore a x ev r v)"
  shows "keeps audited (relievePackDebt restore now acc orderId amount visiting)"
  unfolding relievePackDebt_def Let_def by (intro audit.rules audit_reverse assms)

lemma keeps_source [keeps_rules]:
  "(\<And>e. keeps P (f e)) \<Longrightarrow> (\<And>k. keeps P (g k)) \<Longrightarrow> keeps P (case src of FromSubscription e \<Rightarrow> f e | FromLot k \<Rightarrow> g k)"
  by (cases src) simp_all

lemma audit_restore: "keeps audited (restoreAllocationEffect fuel now asOf a al amount event reason visiting)"
proof (induction fuel arbitrary: al amount event reason visiting)
  case (Suc fuel)
  show ?case
    unfolding restoreAllocationEffect.simps
    by (intro audit.rules keeps_source audit_return audit.to_lot audit_relieve Suc.IH)
qed (simp add: audit.rules)

lemma audit_restore_all:
  "keeps audited (restore_all (restoreAllocationEffect fuel now asOf a) key als restored)"
proof (induction als arbitrary: restored)
  case (Cons al als)
  show ?case unfolding restore_all.simps Let_def by (intro audit.rules audit_restore Cons.IH)
qed (simp add: audit.rules)

lemma audit_refund_body: "keeps audited (refund_body key expected now asOf)"
  unfolding refund_body_def refundDebit_def refundAtoms_def Let_def
  by (intro audit.rules audit_return audit_restore_all)

text \<open>A charge takes what it uses of the balance it read, whatever it consumed before.\<close>

lemma audit_charge_body: "keeps audited (charge_body acc n key now asOf)"
  unfolding keeps_leads
proof (intro allI impI)
  fix s assume s: "audited s"
  have replay: "keeps audited (replayCharge acc n key a ls asOf)" for a ls
    unfolding replayCharge_def by (intro audit.rules)
  have fresh: "leads (\<lambda>_. audited) (freshCharge n key a ls w asOf) t" if t: "books (acc_id a) (acc_balance a) (acc_balance a) t" for a ls w t
  proof -
    let ?P = "books (acc_id a) (acc_balance a) (acc_balance a)"
    have use': "leads (\<lambda>_. audited) (bind_tx (recordSubscriptionUse key a available used) (\<lambda>_. lift_tx r)) u"
      if u: "?P u" and used: "used > 0 \<longrightarrow> available = acc_balance a" for available used r u
    proof (cases "used > 0")
      case True
      have "leads (\<lambda>_. audited) (recordSubscriptionUse key a available used) u"
        unfolding recordSubscriptionUse_def Let_def if_P [OF True]
        using True used by (intro books_last [OF u]) simp_all
      then show ?thesis by (rule leads_then) (simp add: leads_def lift_tx_def bind_result_Inr_iff)
    next
      case False
      then show ?thesis using books_audited [OF u] by (auto simp: recordSubscriptionUse_def leads_def lift_tx_def bind_result_Inr_iff)
    qed
    have consumed: "leads (\<lambda>(rest, used) u. ?P u \<and> (used > 0 \<longrightarrow> available > 0)) (consumeSubscription key a available remaining) u"
      if "?P u" for available remaining u
      using keepsD [OF books.consume_subscription that] unfolding consumeSubscription_def
      by (auto simp: leads_def Let_def bind_tx_Inr_iff split: if_splits)
    show ?thesis
      unfolding freshCharge_def Let_def
      apply (intro leads_if)
        apply (simp_all only: if_True if_False leads_pure)
      apply (rule leads_keep [OF books.consume t])
      apply (rule leads_then [OF consumed], assumption)
      apply (rule leads_pair)
      apply (simp only: prod.case)
      apply (elim conjE)
      apply (rule leads_keep [OF books.consume], assumption)
      apply (intro leads_if leads_pure(2))
      apply (rule use', assumption)
      apply (simp split: if_splits)
      done
  qed
  show "leads (\<lambda>_. audited) (charge_body acc n key now asOf) s"
    unfolding charge_body_def
  proof (intro leads_gets leads_option)
    fix a assume a: "find_account s acc = Some a"
    from audited_found [OF s a] find_account_Some [OF a]
    have b: "books (acc_id a) (acc_balance a) (acc_balance a) s" by simp
    show "leads (\<lambda>_. audited) (bind_tx (expireAccountPackLots (acc_id a) asOf) (\<lambda>packWindowExpired.
        bind_tx (gets (\<lambda>s. active_lots s (acc_id a) asOf)) (\<lambda>ls.
        bind_tx (insert_debit_if_new \<lparr>deb_key = key, deb_account = acc_id a, deb_amount = atoms n, deb_epoch = acc_epoch a,
            deb_kind = Usage, deb_restored = 0, deb_created = now, deb_refunded_at = None\<rparr>) (\<lambda>claimed.
          if \<not> claimed then replayCharge acc n key a ls asOf else freshCharge n key a ls packWindowExpired asOf)))) s"
      by (rule leads_keep [OF books.statements(14) b], intro leads_gets, rule leads_keep [OF books.statements(8)], assumption)
        (auto intro!: leads_if fresh replay [unfolded keeps_leads, rule_format] dest: books_audited)
  qed (simp add: leads_def)
qed

section \<open>Statements of the event handlers\<close>

context account_invariant begin

lemma on_core_step: "keeps P m \<Longrightarrow> keeps (\<lambda>b. P (core b)) (on_core m)"
  by (auto simp: keeps_def on_core_Inr_iff)

lemma table_step: "(\<And>b. core (f b) = core b) \<Longrightarrow> keeps (\<lambda>b. P (core b)) (modify f)"
  by (rule keeps_modify) simp

lemma account_step:
  "(\<And>r. acc_id (f r) = acc_id r \<and> acc_balance (f r) = acc_balance r) \<Longrightarrow> keeps (\<lambda>b. P (core b)) (set_account acc f)"
  unfolding set_account_def by (intro on_core_step customer)

lemma billing_statements:
  "keeps (\<lambda>b. P (core b)) (incident kind event dedupe invoice owner detail)"
  "keeps (\<lambda>b. P (core b)) (update_invoices k g)" "keeps (\<lambda>b. P (core b)) (update_funding i h)"
  "keeps (\<lambda>b. P (core b)) (delete_claims R)" "keeps (\<lambda>b. P (core b)) (resolve_incidents S)"
  "keeps (\<lambda>b. P (core b)) (update_changes Q u)" "keeps (\<lambda>b. P (core b)) (on_core (lockAccount obj metadata))"
proof -
  show "keeps (\<lambda>b. P (core b)) (update_changes Q u)" by (simp add: keeps_def update_changes_def)
  have "keeps P (modify (\<lambda>s. s\<lparr>incidents := f s\<rparr>))" for f by (rule frame_step) (auto simp: account_tables_def)
  then show "keeps (\<lambda>b. P (core b)) (resolve_incidents S)" unfolding resolve_incidents_def by (rule on_core_step)
qed (unfold incident_def update_invoices_def update_funding_def delete_claims_def lockAccount_def,
    (intro on_core_step table_step statements keeps_rules; simp)+)

lemmas billing_rules = keeps_rules billing_statements

lemma billing_helpers:
  "keeps (\<lambda>b. P (core b)) (refuse event invoice acc r)"
  "keeps (\<lambda>b. P (core b)) (claimInvoiceState event acc k amount)"
  "keeps (\<lambda>b. P (core b)) (bind_settlement change k f)" "keeps (\<lambda>b. P (core b)) (settle_change change k f)"
  "keeps (\<lambda>b. P (core b)) (resolvePlanChangeIncidents acc k change)" "keeps (\<lambda>b. P (core b)) (mark_granted k units shut)"
  "keeps (\<lambda>b. P (core b)) (insert_funding acc c k ev shape delta refundUnits epoch status)"
  "keeps (\<lambda>b. P (core b)) (upsert_refund k owner sh dispute)"
  unfolding refuse_def claimInvoiceState_def bind_settlement_def settle_change_def resolvePlanChangeIncidents_def
    mark_granted_def insert_funding_def upsert_refund_def Let_def
  by (intro billing_rules table_step; simp)+

lemma replay_step: "keeps (\<lambda>b. P (core b)) (replay_grant event k a e)"
  unfolding replay_grant_def Let_def by (intro billing_rules account_step) simp

lemma cap_step: "keeps (\<lambda>b. P (core b)) (cap_annual a i shut)"
  unfolding cap_annual_def by (intro billing_rules account_step) simp

lemmas handler_rules = billing_rules billing_helpers replay_step cap_step

end

section \<open>The handlers of subscriptions\<close>

text \<open>
  A handler that holds an account whose rows add up to its balance \<open>n\<close>, and ends with closed books.
\<close>

definition hands :: "string \<Rightarrow> int \<Rightarrow> 'a btx \<Rightarrow> bool" where
  "hands acc n m \<longleftrightarrow> (\<forall>b. books acc n n (core b) \<longrightarrow> leads (\<lambda>_ t. audited (core t)) m b)"

named_theorems hands_rules

lemma hands_done: "keeps (\<lambda>b. books acc n n (core b)) m \<Longrightarrow> hands acc n m"
  unfolding hands_def leads_def keeps_def using books_audited by blast

lemma hands_pure [hands_rules]: "hands acc n (ret x)" "hands acc n (throw e)"
  by (rule hands_done, intro keeps_rules)+

lemma hands_keep:
  "keeps (\<lambda>b. books acc n n (core b)) m \<Longrightarrow> (\<And>x. hands acc n (f x)) \<Longrightarrow> hands acc n (bind_tx m f)"
  unfolding hands_def by (auto intro: leads_keep [where P = "\<lambda>b. books acc n n (core b)"])

lemma hands_if [hands_rules]: "hands acc n m \<Longrightarrow> hands acc n k \<Longrightarrow> hands acc n (if c then m else k)"
  by simp

lemma hands_option [hands_rules]:
  "hands acc n k \<Longrightarrow> (\<And>x. hands acc n (f x)) \<Longrightarrow> hands acc n (case v of None \<Rightarrow> k | Some x \<Rightarrow> f x)"
  by (cases v) simp_all

lemma hands_pair [hands_rules]: "(\<And>x y. hands acc n (f x y)) \<Longrightarrow> hands acc n (case v of (x, y) \<Rightarrow> f x y)"
  by (cases v) simp

lemma hands_list [hands_rules]:
  "hands acc n k \<Longrightarrow> (\<And>x xs. hands acc n (f x xs)) \<Longrightarrow> hands acc n (case v of [] \<Rightarrow> k | x # xs \<Rightarrow> f x xs)"
  by (cases v) simp_all

lemma hands_sum [hands_rules]:
  "(\<And>x. hands acc n (f x)) \<Longrightarrow> (\<And>x. hands acc n (g x)) \<Longrightarrow> hands acc n (case v of Inl x \<Rightarrow> f x | Inr x \<Rightarrow> g x)"
  by (cases v) simp_all

lemma hands_json [hands_rules]:
  "hands acc n a \<Longrightarrow> hands acc n b \<Longrightarrow> (\<And>x. hands acc n (c x)) \<Longrightarrow> (\<And>x. hands acc n (d x)) \<Longrightarrow> hands acc n e \<Longrightarrow>
   (\<And>x. hands acc n (f x)) \<Longrightarrow> (\<And>x. hands acc n (g x)) \<Longrightarrow> (\<And>x. hands acc n (h x)) \<Longrightarrow> (\<And>x y. hands acc n (k x y)) \<Longrightarrow>
   hands acc n (case v of JUndef \<Rightarrow> a | JNull \<Rightarrow> b | JBool x \<Rightarrow> c x | JInt x \<Rightarrow> d x | JReal \<Rightarrow> e | JBig x \<Rightarrow> f x |
     JStr x \<Rightarrow> g x | JArr x \<Rightarrow> h x | JObj x y \<Rightarrow> k x y)"
  by (cases v) simp_all

lemma hands_guarded [hands_rules]:
  "(\<And>x. hands acc n (no x)) \<Longrightarrow> hands acc n yes \<Longrightarrow> hands acc n (guarded_by r no yes)"
  by (cases r) (simp_all add: guarded_by_def)

text \<open>The two statements that move a balance.\<close>

lemma set_books:
  assumes "books acc b n (core s)" "\<And>r. acc_id (f r) = acc_id r" "\<And>r. acc_balance (f r) = b'"
  shows "leads (\<lambda>_ t. books acc b' n (core t)) (set_account acc f) s"
  using books_set [OF assms] by (auto simp: leads_def set_account_def on_core_Inr_iff)

lemma entry_books:
  assumes "books acc b n (core s)" "m = n + d"
  shows "leads (\<lambda>_ t. books acc b m (core t)) (entry acc d m units reason epoch event invoice slot) s"
  using books_rows(2) [OF assms(1), of d] by (auto simp: assms(2) leads_def entry_def on_core_Inr_iff)

lemma blank_entry: "keeps (\<lambda>b. books acc n n (core b)) (entry acc 0 n units reason epoch event invoice slot)"
  unfolding keeps_leads using entry_books [where d = 0] by simp

lemma hands_lift [hands_rules]: "(\<And>x. r = Inr x \<Longrightarrow> hands acc n (f x)) \<Longrightarrow> hands acc n (bind_tx (lift_tx r) f)"
  unfolding hands_def by (auto intro: leads_lift)

lemma hands_gets [hands_rules]: "(\<And>x. hands acc n (f x)) \<Longrightarrow> hands acc n (bind_tx (gets q) f)"
  by (rule hands_keep) (rule keeps_pure)

text \<open>After the books are closed, the rest keeps them.\<close>

lemma hands_first:
  "hands acc n m \<Longrightarrow> (\<And>x. keeps (\<lambda>b. audited (core b)) (f x)) \<Longrightarrow> hands acc n (bind_tx m f)"
  unfolding hands_def keeps_leads by (auto intro: leads_then)

lemma close_books:
  assumes "books acc m n (core t)" "m = n + d" "keeps (\<lambda>b. audited (core b)) g"
  shows "leads (\<lambda>_ t. audited (core t)) (bind_tx (entry acc d m units reason epoch event invoice slot) (\<lambda>_. g)) t"
  by (rule leads_then [OF entry_books [OF assms(1,2)]]) (use assms(3) books_audited in \<open>auto simp: keeps_leads\<close>)

lemma hands_move:
  assumes f: "\<And>r. acc_id (f r) = acc_id r" "\<And>r. acc_balance (f r) = m" and n: "m = n + d"
    and rest: "keeps (\<lambda>b. audited (core b)) g"
  shows "hands acc n (bind_tx (set_account acc f) (\<lambda>_. bind_tx (entry acc d m units reason epoch event invoice slot) (\<lambda>_. g)))"
  unfolding hands_def by (intro allI impI, rule leads_then, rule set_books, assumption, rule f, rule f)
    (rule close_books [OF _ n rest])

lemma hands_grant:
  assumes f: "\<And>r. acc_id (f r) = acc_id r" "\<And>r. acc_balance (f r) = m" and n: "m = n + d"
    and rest: "\<And>k. keeps (\<lambda>b. audited (core b)) (g k)"
  shows "hands acc n (bind_tx (set_account acc f) (\<lambda>_. bind_tx (gets q) (\<lambda>k.
    bind_tx (entry acc d m units reason epoch event invoice slot) (\<lambda>_. g k))))"
  unfolding hands_def by (intro allI impI, rule leads_then, rule set_books, assumption, rule f, rule f)
    (rule leads_gets, rule close_books [OF _ n rest])

text \<open>The grants: the new balance, and its difference as a row.\<close>

lemmas audit_rules = audit.handler_rules audit.account_step audit.on_core_step audit_clawback_debts audit_pack_debts
  audit_apply_clawback

lemmas pinned_rules = hands_rules hands_keep books.handler_rules blank_entry

lemma grant_hands:
  "hands (acc_id a) (acc_balance a) (block_grant now ev k a plan transition)"
  "hands (acc_id a) (acc_balance a) (block_delta now event ev k a c delta)"
  "hands (acc_id a) (acc_balance a) (grant_period now event ev k a plan interval customer subscription periodStart periodEnd
     allowed state transition)"
  "hands (acc_id a) (acc_balance a) (grant_delta now event ev obj k a c shape state delta refundUnits)"
proof -
  show "hands (acc_id a) (acc_balance a) (block_grant now ev k a plan transition)"
    "hands (acc_id a) (acc_balance a) (block_delta now event ev k a c delta)"
    unfolding block_grant_def block_delta_def by (intro hands_done books.handler_rules blank_entry)+
  show "hands (acc_id a) (acc_balance a) (grant_period now event ev k a plan interval customer subscription periodStart periodEnd
     allowed state transition)"
    unfolding grant_period_def Let_def
    by (intro hands_lift hands_grant audit_rules) (simp_all add: fund_account_def)
  show "hands (acc_id a) (acc_balance a) (grant_delta now event ev obj k a c shape state delta refundUnits)"
    unfolding grant_delta_def Let_def
    by (intro hands_lift hands_grant audit_rules)
      (auto simp: upgrade_account_def checkedAddAtoms_def split: if_splits)
qed

lemma fund_delta_hands: "hands (acc_id a) (acc_balance a) (fund_delta now event ev obj k a c shape delta)"
  unfolding fund_delta_def Let_def
  by (intro hands_rules grant_hands hands_keep books.handler_rules hands_done [OF books.billing_helpers(1)])

lemma paid_hands:
  "hands (acc_id a) (acc_balance a) (invoicePaidProratedDelta cfg now event invoice a c ls)"
  "hands (acc_id a) (acc_balance a) (invoicePaidFullPeriod cfg now event invoice a ls billingReason subscription customer prorations)"
  unfolding invoicePaidProratedDelta_def invoicePaidFullPeriod_def Let_def
  by (intro hands_rules grant_hands fund_delta_hands hands_keep books.handler_rules
      hands_done [OF books.billing_helpers(1)] hands_done [OF books.replay_step])+

text \<open>A withdrawal, when anything is withdrawn.\<close>

lemma withdraw_hands: "hands (acc_id a) (acc_balance a) (withdraw_overgrant ev k a i)"
  unfolding withdraw_overgrant_def Let_def
  by (intro hands_rules hands_move keeps_rules) simp_all

lemma opens_account:
  assumes "\<And>r. find_account (core b) acc = Some r \<Longrightarrow> audited (core b) \<Longrightarrow> leads (\<lambda>_ t. audited (core t)) (f (Some r)) b"
    "leads (\<lambda>_ t. audited (core t)) (f None) b" "audited (core b)"
  shows "leads (\<lambda>_ t. audited (core t)) (bind_tx (gets (\<lambda>b. find_account (core b) acc)) f) b"
  by (rule leads_gets) (cases "find_account (core b) acc"; simp add: assms)

lemma revert_audit: "keeps (\<lambda>b. audited (core b)) (revert_delta event ev k a f i)"
  unfolding keeps_leads
proof (intro allI impI)
  fix b :: billing assume b: "audited (core b)"
  have body: "hands (acc_id a) (acc_balance r) (bind_tx (set_account (acc_id a) (\<lambda>r. r\<lparr>acc_plan_key := fa_source_plan f,
            acc_plan_interval := Some (fa_source_interval f), acc_epoch := newEpoch, acc_revoked := False\<rparr>)) (\<lambda>_.
          bind_tx (update_funding (fa_id f) (\<lambda>f. f\<lparr>fa_epoch := newEpoch\<rparr>)) (\<lambda>_.
          bind_tx (entry (acc_id a) 0 (acc_balance r) 0 ''upgrade_funding_reverted'' newEpoch ev (Some k) None) (\<lambda>_.
          bind_tx (update_changes (\<lambda>c. pc_id c = fa_plan_change f)
            (\<lambda>c. c\<lparr>pc_status := FailedChange, pc_last_error := Some ''settlement_funding_closed''\<rparr>)) (\<lambda>_.
          incident ''upgrade_funding_closed_reverted'' event k (Some k) (Some (acc_id a))
            [(''reverted_to'', JStr (fa_source_plan f)), (''disputed'', JBool (is_disputed i))])))))" for r newEpoch
    by (intro hands_done books.handler_rules books.account_step blank_entry) simp
  show "leads (\<lambda>_ t. audited (core t)) (revert_delta event ev k a f i) b"
    unfolding revert_delta_def Let_def
    by (rule opens_account [OF _ _ b], simp only: option.case, rule body [unfolded hands_def, rule_format],
        rule audited_found) (simp_all add: leads_def)
qed

lemma refund_hands: "hands (acc_id a) (acc_balance a) (apply_refund now event dispute ev k a i grantId grant allocation)"
proof -
  have claw: "hands (acc_id a) (acc_balance a) (on_core (applyClawbackToGrant now acc k' grantId' units amount refunded' full reason ev))"
    for acc k' grantId' units amount refunded' full reason
    using audit.on_core_step [OF audit_apply_clawback] books_audited unfolding hands_def keeps_leads by blast
  have revoke: "acc_id (revoke_account now r) = acc_id r \<and> acc_balance (revoke_account now r) = acc_balance r" for r
    by (simp add: revoke_account_def)
  show ?thesis
    unfolding apply_refund_def Let_def
    by (intro hands_first hands_if withdraw_hands claw audit_rules revert_audit revoke)
qed

lemma known_hands: "hands (acc_id a) (acc_balance a) (clawback_known now event dispute ev k a shape)"
  unfolding clawback_known_def clawback_funding_def Let_def
  by (intro hands_rules hands_keep books.handler_rules refund_hands hands_done [OF books.billing_helpers(1)])

lemma failed_hands: "hands acc n (failed_update event a k invoice dedupe)"
  unfolding failed_update_def Let_def by (intro hands_done books.handler_rules)

lemma losing_hands: "hands acc n (losing_update event a incoming status cancels)"
  unfolding losing_update_def by (intro hands_done books.handler_rules)

section \<open>Finding the account\<close>

text \<open>A handler that starts with closed books and finds its account.\<close>

definition solvent :: "store \<Rightarrow> bool" where
  "solvent s \<longleftrightarrow> audited s \<and> (\<forall>a \<in> set (accounts s). 0 \<le> acc_balance a)"

definition opens :: "'a btx \<Rightarrow> bool" where
  "opens m \<longleftrightarrow> (\<forall>b. solvent (core b) \<longrightarrow> leads (\<lambda>_ t. audited (core t)) m b)"

named_theorems opens_rules

lemma opens_done: "keeps (\<lambda>b. audited (core b)) m \<Longrightarrow> opens m"
  by (simp add: opens_def keeps_leads solvent_def)

lemma opens_lift [opens_rules]: "(\<And>x. opens (f x)) \<Longrightarrow> opens (bind_tx (lift_tx r) f)"
  unfolding opens_def by (auto intro: leads_lift)

lemma opens_if [opens_rules]: "opens m \<Longrightarrow> opens k \<Longrightarrow> opens (if c then m else k)"
  by simp

lemma opens_option [opens_rules]: "opens k \<Longrightarrow> (\<And>x. opens (f x)) \<Longrightarrow> opens (case v of None \<Rightarrow> k | Some x \<Rightarrow> f x)"
  by (cases v) simp_all

lemma opens_found:
  assumes member: "\<And>b a. q b = Some a \<Longrightarrow> a \<in> set (accounts (core b))"
    and none: "keeps (\<lambda>b. audited (core b)) m"
    and found: "\<And>a. 0 \<le> acc_balance a \<Longrightarrow> hands (acc_id a) (acc_balance a) (f a)"
  shows "opens (bind_tx (gets q) (\<lambda>v. case v of None \<Rightarrow> m | Some a \<Rightarrow> f a))"
  unfolding opens_def
proof (intro allI impI leads_gets leads_option)
  fix b :: billing assume b: "solvent (core b)"
  then show "leads (\<lambda>_ t. audited (core t)) m b" using none by (simp add: keeps_leads solvent_def)
  fix a assume "q b = Some a"
  then have "a \<in> set (accounts (core b))" by (rule member)
  with b have "0 \<le> acc_balance a" "books (acc_id a) (acc_balance a) (acc_balance a) (core b)"
    by (auto simp: solvent_def intro: audited_books)
  with found show "leads (\<lambda>_ t. audited (core t)) (f a) b" by (simp add: hands_def)
qed

lemma find_account_member: "find_account s k = Some a \<Longrightarrow> a \<in> set (accounts s)"
  using find_account_Some by blast

lemma find_member_set: "find Q xs = Some a \<Longrightarrow> a \<in> set xs"
  by (auto simp: find_Some_iff)

lemma opens_lock [opens_rules]:
  assumes "keeps (\<lambda>b. audited (core b)) m"
    and "\<And>a. 0 \<le> acc_balance a \<Longrightarrow> hands (acc_id a) (acc_balance a) (f a)"
  shows "opens (bind_tx (on_core (lockAccount obj metadata)) (\<lambda>v. case v of None \<Rightarrow> m | Some a \<Rightarrow> f a))"
proof -
  obtain q where q: "lockAccount obj metadata = gets q" and member: "\<And>s a. q s = Some a \<Longrightarrow> a \<in> set (accounts s)"
  proof
    show "lockAccount obj metadata = gets (\<lambda>s. fst (the_elem {p. lockAccount obj metadata s = Inr p}))"
      by (simp add: lockAccount_def gets_def)
  qed (auto simp: lockAccount_def gets_def Let_def split: option.splits jsval.splits if_splits
      dest: find_account_member find_member_set)
  have "on_core (lockAccount obj metadata) = gets (\<lambda>b. q (core b))"
    by (simp add: q on_core_def gets_def fun_eq_iff)
  then show ?thesis using opens_found [OF _ assms] member by simp
qed

lemma handlers_open:
  "opens (invoicePaid cfg now event)" "opens (paymentFailed event)" "opens (subscriptionUpdated cfg event)"
  "opens (checkoutCompleted event)"
  unfolding invoicePaid_def paymentFailed_def subscriptionUpdated_def checkoutCompleted_def Let_def
  by (intro opens_rules hands_rules paid_hands failed_hands losing_hands hands_keep books.handler_rules books.account_step
      hands_done [OF books.billing_helpers(1)] audit.handler_rules;
      simp add: set_cursor_def project_subscription_def bind_checkout_def)+

lemma ret_bind: "bind_tx (ret x) f = f x"
  by (rule ext) simp

lemma deletion_opens: "opens (subscriptionDeleted now event)"
proof -
  have move: "hands acc n (bind_tx (set_account acc f) (\<lambda>_. bind_tx (if n > 0 then entry acc (- n) 0 u reason ep ev k slot else ret ()) (\<lambda>_. g)))"
    if "\<And>r. acc_id (f r) = acc_id r \<and> acc_balance (f r) = 0" "keeps (\<lambda>b. audited (core b)) g" "0 \<le> n"
    for acc n f u reason ep ev k slot and g :: "ProcessResult btx"
  proof (cases "n > 0")
    case True
    then show ?thesis using that by (simp add: hands_move)
  next
    case False
    with that(3) have n: "n = 0" by simp
    have "hands acc n (set_account acc f)"
      unfolding hands_def n using that(1) set_books [where b' = 0 and n = 0, THEN leads_mono] books_audited by auto
    then have "hands acc n (bind_tx (set_account acc f) (\<lambda>_. g))" using that(2) by (rule hands_first)
    with False show ?thesis by (simp add: ret_bind)
  qed
  show ?thesis
    unfolding subscriptionDeleted_def Let_def
    by (intro opens_rules hands_rules hands_keep [OF books.billing_statements(4)] move audit.handler_rules
        hands_done [OF books.billing_helpers(1)])
      (simp_all add: end_subscription_def set_cursor_def)
qed

lemma expired_opens: "opens (checkoutExpired event)"
  unfolding checkoutExpired_def by (intro opens_done audit.handler_rules)

lemma clawback_opens: "opens (subscription_clawback now event)"
  unfolding subscription_clawback_def Let_def
  by (intro opens_rules opens_found opens_done audit.handler_rules known_hands)
    (auto simp: clawback_account_def split: option.splits dest: find_member_set find_account_member)


section \<open>Every operation keeps the audit\<close>

lemma settled_solvent: "settled s \<Longrightarrow> audited s \<Longrightarrow> solvent s"
  using ledger_invD(1) by (auto simp: solvent_def settled_def rows_ok_def list_all_iff account_check_def bigint_def)

lemma transaction_audited: "keeps audited m \<Longrightarrow> audited s \<Longrightarrow> audited (snd (transaction m s))"
  by (auto simp: transaction_def split: sum.splits dest: keepsD)

lemma charge_audited: "audited s \<Longrightarrow> audited (snd (charge acc amount key now asOf s))"
  by (auto simp: charge_def intro: transaction_audited [OF audit_charge_body] split: sum.splits)

lemma refund_audited: "audited s \<Longrightarrow> audited (snd (refund key expected now asOf s))"
  by (auto simp: refund_def intro: transaction_audited [OF audit_refund_body] split: sum.splits option.splits)

lemma opens_pack_first:
  assumes pack: "\<And>s x t. audited s \<Longrightarrow> pack s = Inr (x, t) \<Longrightarrow> audited t \<and> (x = None \<longrightarrow> t = s)" and "opens subscription"
  shows "opens (pack_first pack subscription)"
  unfolding opens_def pack_first_def
proof (intro allI impI leads_bind)
  fix b :: billing and x t assume b: "solvent (core b)" and "on_core pack b = Inr (x, t)"
  then have t: "audited (core t)" "x = None \<longrightarrow> t = b"
    using pack [of "core b"] by (auto simp: on_core_Inr_iff solvent_def)
  show "leads (\<lambda>_ t. audited (core t)) (case x of None \<Rightarrow> subscription | Some y \<Rightarrow> ret y) t"
    using t b assms(2) by (cases x) (auto simp: opens_def leads_def)
qed

lemma dispatch_opens: "opens (dispatch cfg now clock event)"
proof -
  have claw: "audited t \<and> (x = None \<longrightarrow> t = s)" if "audited s" "pack_clawback line event now clock s = Inr (x, t)" for line s x t
    using keepsD [OF audit.pack_events(3) that] leadsD [OF clawback_passes that(2)] by simp
  have check: "audited t \<and> (x = None \<longrightarrow> t = s)" if "audited s" "checkoutEvent line event s = Inr (x, t)" for line s x t
    using keepsD [OF audit.pack_events(1) that] leadsD [OF checkout_passes that(2)] by simp
  show ?thesis
    unfolding dispatch_def Let_def
    by (intro opens_if handlers_open deletion_opens opens_pack_first claw check clawback_opens expired_opens
        opens_done audit.on_core_step audit.pack_events keeps_rules)
qed

lemma opens_keep: "keeps (\<lambda>b. solvent (core b)) m \<Longrightarrow> (\<And>x. opens (f x)) \<Longrightarrow> opens (bind_tx m f)"
  unfolding opens_def by (auto intro: leads_keep [where P = "\<lambda>b. solvent (core b)"])

lemma opens_then:
  "opens m \<Longrightarrow> (\<And>x. keeps (\<lambda>b. audited (core b)) (f x)) \<Longrightarrow> opens (bind_tx m f)"
  unfolding opens_def keeps_leads by (auto intro: leads_then)

lemma process_event_opens: "opens (process_event cfg now clock eventId eventType event)"
proof -
  have outcome: "keeps (\<lambda>b. audited (core b)) (record_outcome k out reason)" for k out reason
    unfolding record_outcome_def by (rule audit.table_step) simp
  have reject: "keeps (\<lambda>b. audited (core b)) (reject_event event eventId kind detail reason)" for kind detail reason
    unfolding reject_event_def by (intro audit.handler_rules outcome)
  have claimed: "opens (process_claimed cfg now clock eventId eventType event)"
    unfolding process_claimed_def
    by (intro opens_option opens_done [OF reject] opens_then [OF dispatch_opens] audit.handler_rules outcome)
  have lease: "keeps (\<lambda>b. solvent (core b)) (creditPackReconcileClaimCurrent clock event)"
    unfolding creditPackReconcileClaimCurrent_def Let_def by (intro keeps_rules)
  have claim: "keeps (\<lambda>b. solvent (core b)) (claim_event eventId eventType event)"
    unfolding claim_event_def by (intro keeps_rules keeps_modify) simp
  show ?thesis
    unfolding process_event_def by (intro opens_keep [OF lease] opens_keep [OF claim] opens_if claimed opens_done keeps_rules)
qed

text \<open>
  Whatever webhook event arrives, the ledger explains every balance afterwards: each row states the
  running balance of its account, and the balance of each account is the sum of its rows.
\<close>

theorem process_audited:
  assumes "settled (core b)" "audited (core b)"
  shows "audited (core (snd (process cfg now clock event b)))"
proof -
  note s = settled_solvent [OF assms]
  have "audited (core (snd (billing_transaction (process_event cfg now clock k ty event) b)))" for k ty
    using process_event_opens [unfolded opens_def leads_def, rule_format, OF s] assms(2)
    by (auto simp: billing_transaction_def split: sum.splits)
  then show ?thesis using assms(2) by (auto simp: process_def Let_def split: jsval.splits)
qed

lemma process_audited_witness:
  "audited (core (snd (process sample_config 100 100 deletion_event annual_billing)))"
proof -
  have "settled (core annual_billing)" using annual_settled by (simp add: annual_billing_def)
  moreover have "audited (core annual_billing)" by (simp add: annual_defs audited_def running_def)
  ultimately show ?thesis by (rule process_audited)
qed

end
