(* ===== verification/Annual_Grants.thy ===== *)
theory Annual_Grants
  imports Ledger_Audit
begin

text \<open>
  The monthly grants of annual plans (typescript/src/annual.ts): the accounts that are due, the grant of
  the slot of the current month after Stripe confirmed the subscription, and the bookkeeping of failed
  candidates. \<open>updated_at\<close>, which only orders the candidates, is a map beside the state.
\<close>

section \<open>The inputs of the worker\<close>

definition ZONED_INSTANT :: "string \<Rightarrow> bool" where
  "ZONED_INSTANT s \<longleftrightarrow> ends_with ''Z'' s \<or>
     (6 \<le> length s \<and> (case drop (length s - 6) s of
        [sign, a, b, colon, c, d] \<Rightarrow> sign \<in> {CHR ''+'', CHR ''-''} \<and> colon = CHR '':'' \<and> list_all is_digit [a, b, c, d]
      | _ \<Rightarrow> False))"

definition validatedWorkerTime :: "string option \<Rightarrow> string option result" where
  "validatedWorkerTime v =
     (case v of
        None \<Rightarrow> Inr None
      | Some s \<Rightarrow>
          if s = [] \<or> \<not> ZONED_INSTANT s
          then Inl (TypeError ''annual worker time must be a timezone-aware timestamp string'') else Inr (Some s))"

definition positiveLimit :: "jsval \<Rightarrow> nat result" where
  "positiveLimit v =
     (case v of
        JInt n \<Rightarrow>
          if \<not> isSafeInteger (JInt n) \<or> n \<le> 0
          then Inl (RangeError ''annual worker candidate limit must be a positive integer'') else Inr (nat n)
      | _ \<Rightarrow> Inl (RangeError ''annual worker candidate limit must be a positive integer''))"

record SubscriptionSnapshot =
  sn_subscription :: string
  sn_status :: string
  sn_lookup :: "string option"
  sn_period_end :: "int option"
  sn_price :: "jsval option"
  sn_quantity :: "int option"
  sn_complete :: bool

section \<open>Due accounts\<close>

definition annual_due :: "int \<Rightarrow> account \<Rightarrow> bool" where
  "annual_due now a \<longleftrightarrow>
     acc_plan_interval a = Some Year \<and> acc_status a = SubActive \<and> \<not> acc_revoked a \<and>
     (case acc_entitlement_end a of None \<Rightarrow> False | Some t \<Rightarrow> now < t) \<and>
     acc_funding_invoice a \<noteq> None \<and> acc_annual_issued a < acc_annual_allowed a \<and>
     (case acc_annual_anchor a of None \<Rightarrow> False | Some t \<Rightarrow> plus_months t (acc_annual_issued a) \<le> now)"

definition dueAccounts :: "int \<Rightarrow> nat \<Rightarrow> string set \<Rightarrow> (string \<Rightarrow> int) \<Rightarrow> billing \<Rightarrow> (string \<times> string option) list" where
  "dueAccounts now limit excluded updated b =
     map (\<lambda>a. (acc_id a, acc_subscription a)) (take limit
       (sort_key (\<lambda>a. (updated (acc_id a), acc_id a))
         (filter (\<lambda>a. annual_due now a \<and> acc_id a \<notin> excluded) (accounts (core b)))))"

definition deferCandidate :: "string \<Rightarrow> int \<Rightarrow> (string \<Rightarrow> int) \<Rightarrow> (string \<Rightarrow> int)" where
  "deferCandidate acc clock updated = updated(acc := clock)"

text \<open>An upsert of an incident that keeps the event, the account and the invoice of the row.\<close>

definition note_incident ::
  "string \<Rightarrow> string \<Rightarrow> string \<Rightarrow> string option \<Rightarrow> (string \<times> jsval) list \<Rightarrow> unit btx" where
  "note_incident kind dedupe acc invoice detail =
     on_core (modify (\<lambda>s.
       let same = (\<lambda>i. in_kind i = kind \<and> in_dedupe i = dedupe \<and> \<not> in_resolved i) in
       if list_ex same (incidents s)
       then s\<lparr>incidents := update_rows same (\<lambda>i. i\<lparr>in_detail := detail, in_seen := in_seen i + 1\<rparr>) (incidents s)\<rparr>
       else s\<lparr>incidents := incidents s @
                [\<lparr>in_kind = kind, in_dedupe = dedupe, in_event = None, in_invoice = invoice, in_account = Some acc,
                  in_detail = detail, in_seen = 1, in_resolved = False\<rparr>]\<rparr>))"

definition recordFailure :: "string \<Rightarrow> string \<Rightarrow> string \<Rightarrow> unit btx" where
  "recordFailure acc subscription reason =
     note_incident ''annual_grant_failed'' (acc @ '':'' @ subscription) acc None
       [(''subscription_id'', JStr subscription), (''reason'', JStr reason)]"

section \<open>The grant of a slot\<close>

text \<open>The month of the annual period that \<open>now\<close> is in, within what is allowed.\<close>

definition passed_slots :: "int option \<Rightarrow> int \<Rightarrow> int list" where
  "passed_slots anchor now =
     (case anchor of None \<Rightarrow> [] | Some t \<Rightarrow> filter (\<lambda>slot. plus_months t slot \<le> now) [1..12])"

definition target_slot :: "int option \<Rightarrow> int \<Rightarrow> int \<Rightarrow> int" where
  "target_slot anchor now allowed = min (min (fold max (passed_slots anchor now) 0 + 1) allowed) 12"

definition periods_match :: "account \<Rightarrow> SubscriptionSnapshot \<Rightarrow> bool" where
  "periods_match a sn \<longleftrightarrow> sn_period_end sn \<noteq> None \<and>
     sn_period_end sn = acc_entitlement_end a \<and> sn_period_end sn = acc_period_end a"

definition snapshot_matches :: "processor_config \<Rightarrow> account \<Rightarrow> SubscriptionSnapshot \<Rightarrow> Plan option result" where
  "snapshot_matches cfg a sn =
     (case parseLookupKey (cfg_catalog cfg) (sn_lookup sn) of
        None \<Rightarrow> Inr None
      | Some (plan, interval) \<Rightarrow>
          bind_result
            (case sn_price sn of
               None \<Rightarrow> Inr False
             | Some price \<Rightarrow>
                 if \<not> sn_complete sn \<or> sn_quantity sn \<noteq> Some 1 then Inr False
                 else bind_result (lookupKey (cfg_catalog cfg) (p_key plan) Year) (\<lambda>key.
                   Inr (catalogPriceMatches price
                     \<lparr>expectedCurrency = p_currency plan, expectedUnitAmount = JInt (p_yearUsd plan * 100),
                      expectedInterval = Year, expectedProductLine = cfg_productLine cfg, expectedPlanKey = p_key plan,
                      expectedLookupKey = Some key, expectedPriceId = None, requireActive = JBool False\<rparr>)))
            (\<lambda>priceMatches.
               Inr (if p_key plan = acc_plan_key a \<and> interval = Year \<and> periods_match a sn \<and> priceMatches
                    then Some plan else None)))"

definition annual_key :: "account \<Rightarrow> string" where
  "annual_key a = acc_id a @ '':'' @ (case acc_subscription a of None \<Rightarrow> [] | Some k \<Rightarrow> k)"

text \<open>The detail also names the two period ends, which are instants here, not texts.\<close>

definition recordMismatch :: "account \<Rightarrow> SubscriptionSnapshot \<Rightarrow> unit btx" where
  "recordMismatch a sn =
     note_incident ''annual_plan_mismatch'' (annual_key a) (acc_id a) (acc_funding_invoice a)
       [(''remote_lookup_key'', nullable_text (sn_lookup sn)),
        (''remote_price_id'',
         case sn_price sn of None \<Rightarrow> JNull | Some p \<Rightarrow> (case jprop p ''id'' of JStr s \<Rightarrow> JStr s | _ \<Rightarrow> JNull)),
        (''remote_quantity'', nullable_int (sn_quantity sn)), (''remote_items_complete'', JBool (sn_complete sn)),
        (''local_plan'', JStr (acc_plan_key a))]"

definition resolveFailure :: "string \<Rightarrow> unit btx" where
  "resolveFailure acc = resolve_incidents (\<lambda>i. in_account i = Some acc \<and> in_kind i = ''annual_grant_failed'')"

text \<open>\<open>least\<close> of two nullable instants.\<close>

definition least_instant :: "int option \<Rightarrow> int option \<Rightarrow> int option" where
  "least_instant x y = (case x of None \<Rightarrow> y | Some s \<Rightarrow> (case y of None \<Rightarrow> Some s | Some t \<Rightarrow> Some (min s t)))"

definition grant_slot :: "Plan \<Rightarrow> int \<Rightarrow> account \<Rightarrow> account" where
  "grant_slot plan slot a =
     a\<lparr>acc_balance := atoms (p_monthlyCredits plan), acc_epoch := acc_epoch a + 1, acc_annual_issued := slot,
       acc_credit_expires :=
         least_instant (acc_entitlement_end a) (map_option (\<lambda>t. plus_months t slot) (acc_annual_anchor a))\<rparr>"

definition issue_slot :: "int \<Rightarrow> account \<Rightarrow> Plan \<Rightarrow> string \<Rightarrow> int \<Rightarrow> ProcessResult btx" where
  "issue_slot now a plan invoice slot =
     (let credits = atoms (p_monthlyCredits plan); newEpoch = acc_epoch a + 1;
          event = ''annual:'' @ invoice @ '':'' @ show_int slot in
      bind_tx (set_account (acc_id a) (grant_slot plan slot)) (\<lambda>_.
      bind_tx (entry (acc_id a) (credits - acc_balance a) credits credits ''subscription_grant'' newEpoch event
                 (Some invoice) (Some slot)) (\<lambda>_.
      bind_tx (update_invoices invoice (\<lambda>i. i\<lparr>is_issued := max (is_issued i) slot\<rparr>)) (\<lambda>_.
      bind_tx (on_core (collectPackDebtsFromSubscription now (acc_id a) newEpoch (''pack-debt:'' @ event))) (\<lambda>_.
      bind_tx (resolveFailure (acc_id a)) (\<lambda>_.
        ret (handled (''granted annual slot '' @ show_int slot) (acc_id a))))))))"

definition fund_slot :: "int \<Rightarrow> account \<Rightarrow> Plan \<Rightarrow> int \<Rightarrow> ProcessResult btx" where
  "fund_slot now a plan slot =
     (if slot \<le> acc_annual_issued a
      then bind_tx (resolveFailure (acc_id a)) (\<lambda>_.
             ret (replayed ''the current annual slot was already granted'' (acc_id a)))
      else case acc_funding_invoice a of
          None \<Rightarrow> ret (refused ''funding invoice state is missing'' (acc_id a))
        | Some invoice \<Rightarrow>
            bind_tx (gets (\<lambda>b. find_invoice b invoice)) (\<lambda>found.
            case found of
              None \<Rightarrow> ret (refused ''funding invoice state is missing'' (acc_id a))
            | Some i \<Rightarrow>
                if is_fully_refunded i \<or> is_disputed i
                then bind_tx (set_account (acc_id a) (\<lambda>r. r\<lparr>acc_annual_allowed := acc_annual_issued r\<rparr>)) (\<lambda>_.
                       ret (refused ''funding invoice is closed'' (acc_id a)))
                else issue_slot now a plan invoice slot))"

text \<open>The refusals before Stripe's catalog is compared.\<close>

definition annual_refusal :: "int \<Rightarrow> account \<Rightarrow> SubscriptionSnapshot \<Rightarrow> string option" where
  "annual_refusal effectiveNow a sn =
     (if acc_status a \<noteq> SubActive \<or> acc_plan_interval a \<noteq> Some Year
      then Some ''account is not an active annual plan''
      else if acc_revoked a then Some ''annual entitlement is revoked''
      else if (case acc_entitlement_end a of None \<Rightarrow> True | Some t \<Rightarrow> t \<le> effectiveNow)
      then Some ''annual entitlement period has ended''
      else if Some (sn_subscription sn) \<noteq> acc_subscription a
      then Some ''subscription changed during remote verification''
      else if sn_status sn \<notin> {''active'', ''trialing''} then Some ''Stripe subscription is not active''
      else None)"

definition grant_due :: "processor_config \<Rightarrow> int \<Rightarrow> int \<Rightarrow> string \<Rightarrow> SubscriptionSnapshot \<Rightarrow> ProcessResult btx" where
  "grant_due cfg now effectiveNow acc sn =
     bind_tx (gets (\<lambda>b. find_account (core b) acc)) (\<lambda>found.
     case found of
       None \<Rightarrow> ret (ignored ''account not found'')
     | Some a \<Rightarrow>
         (case annual_refusal effectiveNow a sn of
            Some reason \<Rightarrow> ret (refused reason (acc_id a))
          | None \<Rightarrow>
              bind_tx (lift_tx (snapshot_matches cfg a sn)) (\<lambda>matched.
              case matched of
                None \<Rightarrow>
                  bind_tx (recordMismatch a sn) (\<lambda>_. ret (refused ''remote and local annual plans differ'' (acc_id a)))
              | Some plan \<Rightarrow>
                  bind_tx (resolve_incidents (\<lambda>i. in_kind i = ''annual_plan_mismatch'' \<and> in_dedupe i = annual_key a)) (\<lambda>_.
                    fund_slot now a plan (target_slot (acc_annual_anchor a) effectiveNow (acc_annual_allowed a))))))"

text \<open>\<open>AnnualGrantService.grantDue\<close>: \<open>effectiveNow\<close> is the worker's time, or the clock.\<close>

definition grantDue ::
  "processor_config \<Rightarrow> int \<Rightarrow> int \<Rightarrow> string \<Rightarrow> SubscriptionSnapshot \<Rightarrow> billing \<Rightarrow> ProcessResult result \<times> billing" where
  "grantDue cfg now effectiveNow acc sn = billing_transaction (grant_due cfg now effectiveNow acc sn)"

end
