(* ===== verification/Annual_Properties.thy ===== *)
theory Annual_Properties
  imports Annual_Grants
begin

text \<open>
  Annual plans (annual.ts): an account is due exactly when a month of its period began that was not
  granted; the grant issues that month once, and a due account that Stripe confirms is granted.
\<close>

section \<open>The slot of the month\<close>

lemma fold_max_start: "m \<le> fold max xs (m :: int)"
proof (induction xs arbitrary: m)
  case (Cons y ys)
  from Cons.IH [of "max y m"] show ?case by simp
qed simp

lemma fold_max: "x \<in> set xs \<Longrightarrow> x \<le> fold max xs (m :: int)"
proof (induction xs arbitrary: m)
  case (Cons y ys)
  then show ?case using fold_max_start [of "max y m" ys] by auto
qed simp

lemma target_slot_bounds:
  assumes "annual_due now a" "0 \<le> acc_annual_issued a" "acc_annual_allowed a \<le> 12"
  shows "acc_annual_issued a < target_slot (acc_annual_anchor a) now (acc_annual_allowed a)"
    "target_slot (acc_annual_anchor a) now (acc_annual_allowed a) \<le> acc_annual_allowed a"
    "target_slot (acc_annual_anchor a) now (acc_annual_allowed a) \<le> 12"
proof -
  obtain t where t: "acc_annual_anchor a = Some t" "plus_months t (acc_annual_issued a) \<le> now"
    and less: "acc_annual_issued a < acc_annual_allowed a"
    using assms(1) by (auto simp: annual_due_def split: option.splits)
  let ?slots = "passed_slots (acc_annual_anchor a) now"
  have "acc_annual_issued a \<le> fold max ?slots 0"
  proof (cases "acc_annual_issued a = 0")
    case False
    with t less assms(2,3) have "acc_annual_issued a \<in> set ?slots" by (auto simp: passed_slots_def)
    then show ?thesis by (rule fold_max)
  qed (simp add: fold_max_start)
  with less assms(3) show "acc_annual_issued a < target_slot (acc_annual_anchor a) now (acc_annual_allowed a)"
    by (simp add: target_slot_def)
qed (simp_all add: target_slot_def)

text \<open>The slot reaches the month of \<open>now\<close>, so the account is due again only from the next month on.\<close>

lemma target_slot_next:
  assumes "target_slot (Some t) now allowed < allowed" "allowed \<le> 12" "0 \<le> allowed"
  shows "now < plus_months t (target_slot (Some t) now allowed)"
proof (rule ccontr)
  let ?slots = "passed_slots (Some t) now" and ?m = "fold max (passed_slots (Some t) now) 0"
  assume "\<not> now < plus_months t (target_slot (Some t) now allowed)"
  moreover have m: "target_slot (Some t) now allowed = ?m + 1" using assms by (simp add: target_slot_def)
  moreover have "0 \<le> ?m" by (rule fold_max_start)
  ultimately have "?m + 1 \<in> set ?slots" using assms by (simp add: passed_slots_def)
  then have "?m + 1 \<le> ?m" by (rule fold_max)
  then show False by simp
qed

lemma granted_not_due:
  assumes "0 \<le> acc_annual_allowed a" "acc_annual_allowed a \<le> 12"
    and "acc_annual_issued a' = target_slot (acc_annual_anchor a) now (acc_annual_allowed a)"
      "acc_annual_anchor a' = acc_annual_anchor a" "acc_annual_allowed a' = acc_annual_allowed a"
  shows "\<not> annual_due now a'"
proof
  assume "annual_due now a'"
  then obtain t where "acc_annual_anchor a = Some t" "plus_months t (target_slot (Some t) now (acc_annual_allowed a)) \<le> now"
    "target_slot (Some t) now (acc_annual_allowed a) < acc_annual_allowed a"
    using assms(3-5) by (auto simp: annual_due_def split: option.splits)
  with target_slot_next [OF this(3) assms(2,1)] show False by simp
qed

section \<open>Invariants\<close>

context subscription_invariant begin

lemma note_keeps: "keeps P (note_incident kind dedupe acc invoice detail)"
  unfolding note_incident_def by (rule core_step) (simp add: keeps_def Let_def)

lemma grant_due_keeps: "keeps P (grant_due cfg now effectiveNow acc sn)"
  unfolding grant_due_def fund_slot_def issue_slot_def recordMismatch_def resolveFailure_def Let_def
  by (intro handler_rules note_keeps)

end

lemma grantDue_settled: "settled (core b) \<Longrightarrow> settled (core (snd (grantDue cfg now effectiveNow acc sn b)))"
  unfolding grantDue_def
  by (rule billing_transaction_settled)
    (use keepsD [OF ledger_frame.grant_due_keeps settled_tidy] in \<open>auto simp: tidy_def\<close>)

context account_invariant begin

lemma note_step: "keeps (\<lambda>b. P (core b)) (note_incident kind dedupe acc invoice detail)"
  unfolding note_incident_def by (intro on_core_step frame_step) (auto simp: account_tables_def Let_def split: if_splits)

lemma resolve_step: "keeps (\<lambda>b. P (core b)) (resolveFailure acc)"
  unfolding resolveFailure_def by (rule billing_statements)

end

lemma issue_hands: "hands (acc_id a) (acc_balance a) (issue_slot now a plan invoice slot)"
  unfolding issue_slot_def Let_def
  by (intro hands_move audit_rules audit.resolve_step) (simp_all add: grant_slot_def)

lemma grant_due_opens: "opens (grant_due cfg now effectiveNow acc sn)"
  unfolding grant_due_def fund_slot_def recordMismatch_def
  by (intro opens_found audit_rules hands_rules issue_hands hands_keep books.handler_rules books.account_step books.resolve_step books.note_step)
    (auto dest: find_account_member)

lemma grantDue_audited:
  assumes "settled (core b)" "audited (core b)"
  shows "audited (core (snd (grantDue cfg now effectiveNow acc sn b)))"
  using grant_due_opens [unfolded opens_def leads_def, rule_format, OF settled_solvent [OF assms]] assms(2)
  by (auto simp: grantDue_def billing_transaction_def split: sum.splits)

section \<open>What a grant does\<close>

lemma find_same_account:
  assumes "map same_account xs = map same_account ys" "find (\<lambda>a. acc_id a = k) ys = Some a"
  shows "\<exists>a'. find (\<lambda>a. acc_id a = k) xs = Some a' \<and> same_account a' = same_account a"
  using assms
proof (induction xs arbitrary: ys)
  case (Cons x xs)
  then obtain y zs where ys: "ys = y # zs" "same_account x = same_account y" "map same_account xs = map same_account zs"
    by (cases ys) auto
  from ys(2) have "acc_id x = acc_id y" by (metis same_account_def account.select_convs(1) account.surjective account.update_convs(8))
  with ys Cons show ?case by (auto split: if_splits)
qed simp

text \<open>The collection of pack debts only appends to the ledger, and of an account it changes the balance.\<close>

definition after_rows :: "account list \<Rightarrow> ledger_entry list \<Rightarrow> store \<Rightarrow> bool" where
  "after_rows as L s \<longleftrightarrow> map same_account (accounts s) = as \<and> (\<exists>es. ledger s = L @ es \<and> list_all (\<lambda>e. le_slot e = None \<and> le_units e = 0) es)"

lemma after_rows_keeps: "keeps (after_rows as L) (collectPackDebtsFromSubscription now acc epoch event)"
proof -
  have frame: "keeps (after_rows as L) (update_debts P f)" "keeps (after_rows as L) (recordDebtCollection now d x ep src)" for P f d x ep src
    by (auto simp: keeps_def after_rows_def update_debts_def recordDebtCollection_def randomUUID_def insert_debit_def
        insert_allocation_def modify_def bind_tx_Inr_iff split: if_splits)
  have row: "keeps (after_rows as L) (insert_ledger acc delta after reason ep event invoice)" for delta after reason ep invoice
    unfolding insert_ledger_def by (rule keeps_modify) (auto simp: after_rows_def)
  have balance: "keeps (after_rows as L) (update_accounts (\<lambda>r. acc_id r = acc) (\<lambda>r. r\<lparr>acc_balance := n\<rparr>))" for n
    unfolding update_accounts_def
    by (rule keeps_modify) (auto simp: after_rows_def update_rows_def same_account_def comp_def)
  have loop: "keeps (after_rows as L) (subscription_debt_loop now acc epoch event ds n)" for ds n
    by (induction ds arbitrary: n) (simp_all add: Let_def keeps_rules frame row)
  show ?thesis unfolding collectPackDebtsFromSubscription_def by (intro keeps_rules loop balance)
qed

definition slot_entry :: "account \<Rightarrow> Plan \<Rightarrow> string \<Rightarrow> int \<Rightarrow> ledger_entry" where
  "slot_entry a plan invoice slot =
     \<lparr>le_account = acc_id a, le_delta = atoms (p_monthlyCredits plan) - acc_balance a,
      le_balance_after = atoms (p_monthlyCredits plan), le_units = atoms (p_monthlyCredits plan),
      le_reason = ''subscription_grant'', le_epoch = acc_epoch a + 1,
      le_event = Some (''annual:'' @ invoice @ '':'' @ show_int slot), le_invoice = Some invoice, le_slot = Some slot\<rparr>"

lemma issue_effects:
  assumes "issue_slot now a plan invoice slot b = Inr (r, b')"
  shows "after_rows (map same_account (update_rows (\<lambda>r. acc_id r = acc_id a) (grant_slot plan slot) (accounts (core b))))
    (ledger (core b) @ [slot_entry a plan invoice slot]) (core b')"
proof -
  let ?s = "(core b)\<lparr>accounts := update_rows (\<lambda>r. acc_id r = acc_id a) (grant_slot plan slot) (accounts (core b)),
    ledger := ledger (core b) @ [slot_entry a plan invoice slot]\<rparr>"
  let ?R = "after_rows (map same_account (accounts ?s)) (ledger ?s)"
  from assms obtain x t where c: "collectPackDebtsFromSubscription now (acc_id a) (acc_epoch a + 1)
        (''pack-debt:'' @ ''annual:'' @ invoice @ '':'' @ show_int slot) ?s = Inr (x, t)"
    and b': "core b' = t\<lparr>incidents := incidents (core b')\<rparr>"
    by (auto simp: issue_slot_def Let_def bind_tx_Inr_iff on_core_Inr_iff set_account_def entry_def insert_entry_def
        update_accounts_def update_invoices_def resolveFailure_def resolve_incidents_def slot_entry_def)
  have "?R ?s" by (simp add: after_rows_def)
  from keepsD [OF after_rows_keeps this c] have "?R t" .
  then have "?R (core b')" by (subst b') (simp add: after_rows_def)
  then show ?thesis by simp
qed

lemma handled_fund:
  "leads (\<lambda>r t. pr_outcome r = Handled \<longrightarrow> acc_annual_issued a < slot \<and>
      (\<exists>invoice. acc_funding_invoice a = Some invoice \<and> issue_slot now a plan invoice slot b = Inr (r, t)))
    (fund_slot now a plan slot) b"
  unfolding fund_slot_def
  by (intro leads_if leads_option leads_pure leads_gets leads_bind)
    (simp_all add: replayed_def refused_def leads_def)

lemma handled_issue:
  "leads (\<lambda>r t. pr_outcome r = Handled \<longrightarrow> (\<exists>a plan invoice b1. find_account (core b) acc = Some a \<and>
      acc_annual_issued a < target_slot (acc_annual_anchor a) effectiveNow (acc_annual_allowed a) \<and>
      acc_funding_invoice a = Some invoice \<and>
      accounts (core b1) = accounts (core b) \<and> ledger (core b1) = ledger (core b) \<and>
      issue_slot now a plan invoice (target_slot (acc_annual_anchor a) effectiveNow (acc_annual_allowed a)) b1 = Inr (r, t)))
    (grant_due cfg now effectiveNow acc sn) b"
  unfolding grant_due_def
proof (intro leads_gets leads_option leads_lift)
  fix a matched plan
  assume a: "find_account (core b) acc = Some a"
  show "leads (\<lambda>r t. pr_outcome r = Handled \<longrightarrow> (\<exists>a plan invoice b1. find_account (core b) acc = Some a \<and>
      acc_annual_issued a < target_slot (acc_annual_anchor a) effectiveNow (acc_annual_allowed a) \<and>
      acc_funding_invoice a = Some invoice \<and>
      accounts (core b1) = accounts (core b) \<and> ledger (core b1) = ledger (core b) \<and>
      issue_slot now a plan invoice (target_slot (acc_annual_anchor a) effectiveNow (acc_annual_allowed a)) b1 = Inr (r, t)))
    (bind_tx (resolve_incidents (\<lambda>i. in_kind i = ''annual_plan_mismatch'' \<and> in_dedupe i = annual_key a))
      (\<lambda>_. fund_slot now a plan (target_slot (acc_annual_anchor a) effectiveNow (acc_annual_allowed a)))) b"
  proof (rule leads_bind)
    fix x t assume "resolve_incidents (\<lambda>i. in_kind i = ''annual_plan_mismatch'' \<and> in_dedupe i = annual_key a) b = Inr (x, t)"
    then have "accounts (core t) = accounts (core b)" "ledger (core t) = ledger (core b)"
      by (auto simp: resolve_incidents_def on_core_Inr_iff)
    then show "leads (\<lambda>r t. pr_outcome r = Handled \<longrightarrow> (\<exists>a plan invoice b1. find_account (core b) acc = Some a \<and>
      acc_annual_issued a < target_slot (acc_annual_anchor a) effectiveNow (acc_annual_allowed a) \<and>
      acc_funding_invoice a = Some invoice \<and>
      accounts (core b1) = accounts (core b) \<and> ledger (core b1) = ledger (core b) \<and>
      issue_slot now a plan invoice (target_slot (acc_annual_anchor a) effectiveNow (acc_annual_allowed a)) b1 = Inr (r, t)))
      (fund_slot now a plan (target_slot (acc_annual_anchor a) effectiveNow (acc_annual_allowed a))) t"
      using a by (intro leads_mono [OF handled_fund]) blast
  qed
qed (auto simp: leads_def ignored_def refused_def bind_tx_Inr_iff)

lemma granted_slots_append: "granted_slots (xs @ ys) = granted_slots xs @ granted_slots ys"
  by (simp add: granted_slots_def List.map_filter_def)

lemma granted_slots_member:
  "(i, n) \<in> set (granted_slots es) \<longleftrightarrow> (\<exists>e \<in> set es. le_invoice e = Some i \<and> le_slot e = Some n)"
  by (auto simp: granted_slots_def List.map_filter_def split: option.splits) force

lemma find_grant_iff: "find_grant s i n = None \<longleftrightarrow> (i, n) \<notin> set (granted_slots (ledger s))"
  by (auto simp: find_grant_def find_None_iff granted_slots_member)

lemma account_check_bounds:
  assumes "consistent s" "find_account s acc = Some a"
  shows "0 \<le> acc_annual_issued a" "0 \<le> acc_annual_allowed a" "acc_annual_allowed a \<le> 12"
  using assms find_account_Some [OF assms(2)] by (auto simp: consistent_def rows_ok_def list_all_iff account_check_def)

text \<open>
  C10: a grant that reports that it was handled issued the month of an annual plan exactly once: the slot is
  later than all issued before and within what the invoice funds, no grant of it existed, one exists now,
  the account starts a new epoch, and it is not due again at the same instant.
\<close>

theorem annual_grant_once:
  assumes "billing_consistent b" "grantDue cfg now effectiveNow acc sn b = (Inr r, b')" "pr_outcome r = Handled"
  shows "\<exists>a a' invoice slot. find_account (core b) acc = Some a \<and> find_account (core b') acc = Some a' \<and>
    acc_funding_invoice a = Some invoice \<and>
    acc_annual_issued a < slot \<and> slot \<le> acc_annual_allowed a \<and> acc_annual_issued a' = slot \<and>
    acc_epoch a' = acc_epoch a + 1 \<and> find_grant (core b) invoice slot = None \<and> find_grant (core b') invoice slot \<noteq> None \<and>
    \<not> annual_due effectiveNow a'"
proof -
  from assms(2) have run: "grant_due cfg now effectiveNow acc sn b = Inr (r, b')" and c: "billing_consistent b'"
    by (auto simp: grantDue_def billing_transaction_def split: sum.splits if_splits)
  from leadsD [OF handled_issue run] assms(3) obtain a plan invoice b1 where a: "find_account (core b) acc = Some a"
    and slot: "acc_annual_issued a < target_slot (acc_annual_anchor a) effectiveNow (acc_annual_allowed a)"
    and invoice: "acc_funding_invoice a = Some invoice"
    and b1: "accounts (core b1) = accounts (core b)" "ledger (core b1) = ledger (core b)"
    and issue: "issue_slot now a plan invoice (target_slot (acc_annual_anchor a) effectiveNow (acc_annual_allowed a)) b1 = Inr (r, b')"
    by blast
  let ?slot = "target_slot (acc_annual_anchor a) effectiveNow (acc_annual_allowed a)"
  let ?as = "update_rows (\<lambda>r. acc_id r = acc_id a) (grant_slot plan ?slot) (accounts (core b))"
  note bounds = account_check_bounds [OF _ a] and id = find_account_Some [OF a]
  have consistent: "consistent (core b)" using assms(1) by (simp add: billing_consistent_def)
  from issue_effects [OF issue] obtain es where as: "map same_account (accounts (core b')) = map same_account ?as"
    and es: "ledger (core b') = ledger (core b) @ slot_entry a plan invoice ?slot # es"
    by (auto simp: after_rows_def b1)
  have "find (\<lambda>r. acc_id r = acc) ?as = Some (grant_slot plan ?slot a)"
    using a id by (simp add: find_account_def find_update_rows_key grant_slot_def)
  with as obtain a' where a': "find_account (core b') acc = Some a'" "same_account a' = same_account (grant_slot plan ?slot a)"
    using find_same_account unfolding find_account_def by blast
  have fields: "acc_annual_issued a' = ?slot" "acc_epoch a' = acc_epoch a + 1" "acc_annual_anchor a' = acc_annual_anchor a"
    "acc_annual_allowed a' = acc_annual_allowed a"
    using a'(2) by (simp_all add: same_account_def grant_slot_def) (cases a'; cases a; simp)+
  have distinct: "distinct (granted_slots (ledger (core b')))" using c by (simp add: billing_consistent_def billing_keys_ok_def)
  have member: "(invoice, ?slot) \<in> set (granted_slots (slot_entry a plan invoice ?slot # es))"
    unfolding granted_slots_member by (rule bexI [of _ "slot_entry a plan invoice ?slot"]) (simp_all add: slot_entry_def)
  from distinct member have "(invoice, ?slot) \<notin> set (granted_slots (ledger (core b)))"
    unfolding es granted_slots_append by auto
  then have fresh: "find_grant (core b) invoice ?slot = None" by (simp add: find_grant_iff)
  from member have granted: "find_grant (core b') invoice ?slot \<noteq> None"
    unfolding find_grant_iff es granted_slots_append by auto
  have "?slot \<le> acc_annual_allowed a" by (simp add: target_slot_def)
  moreover have "\<not> annual_due effectiveNow a'"
    by (rule granted_not_due [OF bounds(2,3) fields(1,3,4)]) (rule consistent)+
  ultimately show ?thesis using a a'(1) invoice slot fields(1,2) fresh granted by blast
qed

section \<open>A due account is granted\<close>

lemma settled_accounts:
  assumes s: "settled s" and f: "\<And>r. (acc_id (f r), acc_external_ref (f r), acc_customer (f r), acc_subscription (f r)) =
      (acc_id r, acc_external_ref r, acc_customer r, acc_subscription r)"
    and check: "\<And>r. r \<in> set (accounts s) \<Longrightarrow> Q r \<Longrightarrow> account_check (f r)"
  shows "settled (s\<lparr>accounts := update_rows Q f (accounts s)\<rparr>)"
proof -
  note inv = ledger_invD [OF s [unfolded settled_def]]
  let ?A = "update_rows Q f (accounts s)" and ?s = "s\<lparr>accounts := update_rows Q f (accounts s)\<rparr>"
  have ids: "map acc_id ?A = map acc_id (accounts s)" "acc_id ` set ?A = acc_id ` set (accounts s)"
    "map acc_customer ?A = map acc_customer (accounts s)" "map acc_subscription ?A = map acc_subscription (accounts s)"
    "map acc_external_ref ?A = map acc_external_ref (accounts s)"
    using f by (simp_all add: map_update_rows image_update_rows)
  have "rows_ok ?s" using inv(1) check by (simp add: rows_ok_def list_all_iff ball_update_rows)
  moreover have "keys_ok ?s" using inv(2) by (simp add: keys_ok_def nullable_unique_def ids)
  moreover have "references_ok ?s"
    using inv(3) by (simp add: references_ok_def ids cong: debit_kind.case_cong source.case_cong)
  ultimately show ?thesis using inv(4-7) by (simp add: settled_def ledger_inv_def)
qed

lemma settled_resolve:
  assumes "settled s"
  shows "settled (s\<lparr>incidents := update_rows (\<lambda>i. \<not> in_resolved i \<and> Q i) (\<lambda>i. i\<lparr>in_resolved := True\<rparr>) (incidents s)\<rparr>)"
proof -
  note inv = ledger_invD [OF assms [unfolded settled_def]]
  let ?I = "update_rows (\<lambda>i. \<not> in_resolved i \<and> Q i) (\<lambda>i. i\<lparr>in_resolved := True\<rparr>) (incidents s)"
  have open_rows: "filter (\<lambda>i. \<not> in_resolved i)
      (update_rows (\<lambda>i. \<not> in_resolved i \<and> Q i) (\<lambda>i. i\<lparr>in_resolved := True\<rparr>) is) =
      filter (\<lambda>i. \<not> Q i) (filter (\<lambda>i. \<not> in_resolved i) is)" for "is"
    by (induction "is") (auto simp: update_rows_def)
  have "distinct (map (\<lambda>i. (in_kind i, in_dedupe i)) (filter (\<lambda>i. \<not> in_resolved i) ?I))"
    unfolding open_rows by (rule distinct_map_filter) (use inv(2) in \<open>simp add: keys_ok_def\<close>)
  moreover have "list_all (\<lambda>i. set_option (in_account i) \<subseteq> A) ?I = list_all (\<lambda>i. set_option (in_account i) \<subseteq> A) (incidents s)" for A
    by (auto simp: list_all_iff ball_update_rows)
  ultimately have "keys_ok (s\<lparr>incidents := ?I\<rparr>)" "references_ok (s\<lparr>incidents := ?I\<rparr>)"
    using inv(2,3) by (simp_all add: keys_ok_def references_ok_def cong: debit_kind.case_cong source.case_cong)
  then show ?thesis using inv by (simp add: settled_def ledger_inv_def rows_ok_def)
qed

lemma keeps_debts_orders: "keeps (\<lambda>s. clawback_debts s = C \<and> orders s = ords) (collectPackDebtsFromSubscription now acc epoch event)"
proof -
  have frame: "keeps (\<lambda>s. clawback_debts s = C \<and> orders s = ords) (update_debts P f)" "keeps (\<lambda>s. clawback_debts s = C \<and> orders s = ords) (recordDebtCollection now d x ep src)"
    "keeps (\<lambda>s. clawback_debts s = C \<and> orders s = ords) (insert_ledger acc' delta after reason ep ev invoice)"
    "keeps (\<lambda>s. clawback_debts s = C \<and> orders s = ords) (update_accounts R g)" for P f d x ep src acc' delta after reason ev invoice R g
    by (auto simp: keeps_def update_debts_def recordDebtCollection_def randomUUID_def insert_debit_def
        insert_allocation_def insert_ledger_def update_accounts_def modify_def bind_tx_Inr_iff split: if_splits)
  have "keeps (\<lambda>s. clawback_debts s = C \<and> orders s = ords) (subscription_debt_loop now acc epoch event ds n)" for ds n
    by (induction ds arbitrary: n) (simp_all add: Let_def keeps_rules frame)
  then show ?thesis unfolding collectPackDebtsFromSubscription_def by (intro keeps_rules frame)
qed


text \<open>The run of a grant, up to the collection of pack debts, and its commit.\<close>

lemma issue_run:
  assumes s: "settled (core b)" and a: "find_account (core b) (acc_id a) = Some a"
    and credits: "bigint (atoms (p_monthlyCredits plan))" and slot: "0 \<le> slot" "slot \<le> 12"
  shows "yields (\<lambda>r b'. pr_outcome r = Handled \<and> settled (core b') \<and> clawback_debts (core b') = clawback_debts (core b) \<and>
      orders (core b') = orders (core b) \<and>
      b' = b\<lparr>core := core b', invoice_states := update_rows (\<lambda>i. is_invoice i = invoice)
        (\<lambda>i. i\<lparr>is_issued := max (is_issued i) slot\<rparr>) (invoice_states b)\<rparr>)
    (issue_slot now a plan invoice slot b)"
proof -
  let ?s1 = "(core b)\<lparr>accounts := update_rows (\<lambda>r. acc_id r = acc_id a) (grant_slot plan slot) (accounts (core b))\<rparr>"
  let ?s2 = "?s1\<lparr>ledger := ledger ?s1 @ [slot_entry a plan invoice slot]\<rparr>"
  let ?collect = "collectPackDebtsFromSubscription now (acc_id a) (acc_epoch a + 1)
      (''pack-debt:'' @ ''annual:'' @ invoice @ '':'' @ show_int slot)"
  have rows: "account_check r" if "r \<in> set (accounts (core b))" for r
    using that ledger_invD(1) [OF s [unfolded settled_def]] by (simp add: rows_ok_def list_all_iff)
  have s1: "settled ?s1"
  proof (rule settled_accounts [OF s])
    show "account_check (grant_slot plan slot r)" if "r \<in> set (accounts (core b))" for r
      using rows [OF that] credits slot by (simp add: account_check_def grant_slot_def)
  qed (simp add: grant_slot_def)
  have found: "find_account ?s1 (acc_id a) = Some (grant_slot plan slot a)"
    using a by (simp add: find_account_def find_update_rows_key grant_slot_def)
  have s2: "ledger_inv (\<lambda>_. 0) (\<lambda>_. 0) {} ?s2"
    by (rule inv_ledger [OF s1 [unfolded settled_def]]) (use found credits in \<open>simp_all add: slot_entry_def\<close>)
  have "yields (\<lambda>_ t. ledger_inv (\<lambda>_. 0) (\<lambda>_. 0) {} t) (?collect ?s2)"
    by (rule yields_mono [OF collectPackDebtsFromSubscription_run [OF s2, of "{}"]])
      (use found credits in \<open>auto simp: paid_up_def find_account_def grant_slot_def bigint_def\<close>)
  then have "yields (\<lambda>_ t. settled t \<and> clawback_debts t = clawback_debts (core b) \<and> orders t = orders (core b)) (?collect ?s2)"
    using keepsD [OF keeps_debts_orders [where C = "clawback_debts (core b)" and ords = "orders (core b)"], of ?s2]
    by (auto simp: yields_def settled_def split: sum.splits)
  then show ?thesis
    by (cases "?collect ?s2")
      (auto simp: issue_slot_def Let_def set_account_def entry_def insert_entry_def update_accounts_def update_invoices_def
        resolveFailure_def resolve_incidents_def slot_entry_def on_core_def handled_def bind_tx_def modify_def
        settled_resolve)
qed


text \<open>The commit accepts the grant of a slot that was not granted before.\<close>

lemma issue_consistent:
  assumes c: "billing_consistent b" and issue: "issue_slot now a plan invoice slot b = Inr (r, b')"
    and settled': "settled (core b')" and debts: "clawback_debts (core b') = clawback_debts (core b)"
    and orders: "orders (core b') = orders (core b)"
    and tables: "b' = b\<lparr>core := core b', invoice_states := update_rows (\<lambda>i. is_invoice i = invoice)
        (\<lambda>i. i\<lparr>is_issued := max (is_issued i) slot\<rparr>) (invoice_states b)\<rparr>"
    and slot: "1 \<le> slot" "slot \<le> 12" and credits: "0 \<le> atoms (p_monthlyCredits plan)"
    and fresh: "find_grant (core b) invoice slot = None"
  shows "billing_consistent b'"
proof -
  let ?I = "update_rows (\<lambda>i. is_invoice i = invoice) (\<lambda>i. i\<lparr>is_issued := max (is_issued i) slot\<rparr>) (invoice_states b)"
  have same: "inbox b' = inbox b" "plan_changes b' = plan_changes b" "funding_allocations b' = funding_allocations b"
    "checkout_claims b' = checkout_claims b" "invoice_states b' = ?I"
    by (subst tables, simp)+
  from issue_effects [OF issue] obtain es where
    as: "map same_account (accounts (core b')) =
      map same_account (update_rows (\<lambda>r. acc_id r = acc_id a) (grant_slot plan slot) (accounts (core b)))"
    and es: "ledger (core b') = ledger (core b) @ slot_entry a plan invoice slot # es" "list_all (\<lambda>e. le_slot e = None \<and> le_units e = 0) es"
    by (auto simp: after_rows_def)
  have ids: "acc_id ` set (accounts (core b')) = acc_id ` set (accounts (core b))"
  proof -
    have "map acc_id xs = map acc_id (map same_account xs)" for xs by (simp add: same_account_def)
    then have "map acc_id (accounts (core b')) =
        map acc_id (update_rows (\<lambda>r. acc_id r = acc_id a) (grant_slot plan slot) (accounts (core b)))"
      using as by metis
    also have "\<dots> = map acc_id (accounts (core b))" by (simp add: map_update_rows grant_slot_def)
    finally show ?thesis by (metis image_set)
  qed
  have invoices: "map is_invoice ?I = map is_invoice (invoice_states b)" "is_invoice ` set ?I = is_invoice ` set (invoice_states b)"
    by (simp_all add: map_update_rows image_update_rows)
  have "granted_slots es = []"
    using es(2) by (auto simp: granted_slots_def List.map_filter_def filter_empty_conv list_all_iff split: option.splits)
  moreover have "granted_slots (slot_entry a plan invoice slot # es) = (invoice, slot) # granted_slots es"
    by (simp add: granted_slots_def List.map_filter_def slot_entry_def)
  ultimately have "distinct (granted_slots (ledger (core b')))"
    using c fresh unfolding es(1) granted_slots_append find_grant_iff by (simp add: billing_consistent_def billing_keys_ok_def)
  then have "billing_keys_ok b'" using c by (simp add: billing_consistent_def billing_keys_ok_def same invoices orders)
  moreover have "billing_references_ok b'"
    using c by (auto simp: billing_consistent_def billing_references_ok_def same ids invoices debts list_all_iff ball_update_rows)
  moreover have "list_all invoice_check ?I"
    using c slot by (auto simp: billing_consistent_def list_all_iff ball_update_rows invoice_check_def smallint_slots_def)
  moreover have "list_all grant_row_check (ledger (core b'))"
    using c es(2) slot credits by (auto simp: es(1) billing_consistent_def list_all_iff grant_row_check_def slot_entry_def)
  ultimately show ?thesis
    using c settled_consistent [OF settled'] by (simp add: billing_consistent_def snapshots_ok_def same orders)
qed

lemma find_account_id: "find_account s acc = Some a \<Longrightarrow> acc_id a = acc"
  using find_account_Some by blast

text \<open>
  C11: no month of an annual plan is lost: an account that is due, whose subscription Stripe confirms and
  whose invoice is neither refunded nor disputed, is granted by the next attempt, unless a random
  identity collides.
\<close>

theorem due_account_granted:
  assumes "billing_consistent b" "settled (core b)" "find_account (core b) acc = Some a" "annual_due effectiveNow a"
    and "acc_subscription a = Some (sn_subscription sn)" "sn_status sn \<in> {''active'', ''trialing''}"
    and "snapshot_matches cfg a sn = Inr (Some plan)" "bigint (atoms (p_monthlyCredits plan))"
    and "acc_funding_invoice a = Some invoice" "find_invoice b invoice = Some i" "\<not> is_fully_refunded i" "\<not> is_disputed i"
    and "\<And>n. acc_annual_issued a < n \<Longrightarrow> find_grant (core b) invoice n = None"
  shows "(\<exists>r. fst (grantDue cfg now effectiveNow acc sn b) = Inr r \<and> pr_outcome r = Handled) \<or>
    (\<exists>e. fst (grantDue cfg now effectiveNow acc sn b) = Inl e \<and> environmental e)"
proof -
  let ?slot = "target_slot (acc_annual_anchor a) effectiveNow (acc_annual_allowed a)"
  let ?Q = "\<lambda>i. in_kind i = ''annual_plan_mismatch'' \<and> in_dedupe i = annual_key a"
  let ?s1 = "(core b)\<lparr>incidents := update_rows (\<lambda>i. \<not> in_resolved i \<and> ?Q i) (\<lambda>i. i\<lparr>in_resolved := True\<rparr>) (incidents (core b))\<rparr>"
  let ?b1 = "b\<lparr>core := ?s1\<rparr>"
  note bounds = account_check_bounds [OF settled_consistent [OF assms(2)] assms(3)] and id = find_account_id [OF assms(3)]
  have s1: "settled ?s1" by (rule settled_resolve [OF assms(2)])
  have c1: "billing_consistent ?b1"
    using assms(1) settled_consistent [OF s1]
    by (simp add: billing_consistent_def billing_keys_ok_def billing_references_ok_def snapshots_ok_def)
  have slot: "acc_annual_issued a < ?slot" "?slot \<le> 12"
    using target_slot_bounds [OF assms(4) bounds(1,3)] by simp_all
  have resolve: "resolve_incidents ?Q b = Inr ((), ?b1)" by (simp add: resolve_incidents_def on_core_def)
  have refusal: "annual_refusal effectiveNow a sn = None"
    using assms(4-6) by (auto simp: annual_due_def annual_refusal_def split: option.splits)
  have run: "grant_due cfg now effectiveNow acc sn b = issue_slot now a plan invoice ?slot ?b1"
    using assms(3,7,9-12) refusal slot(1) by (simp add: grant_due_def resolve fund_slot_def find_invoice_def)
  have a1: "find_account (core ?b1) (acc_id a) = Some a" using assms(3) id by (simp add: find_account_def)
  have fresh: "find_grant (core ?b1) invoice ?slot = None" using assms(13) [OF slot(1)] by (simp add: find_grant_def)
  from slot(1) bounds(1) have lower: "1 \<le> ?slot" by simp
  note issued = issue_run [OF _ a1 assms(8), where slot = ?slot and now = now and invoice = invoice] and committed = issue_consistent [OF c1]
  show ?thesis
  proof (cases "issue_slot now a plan invoice ?slot ?b1")
    case (Inl e)
    with issued s1 lower slot(2) show ?thesis by (simp add: grantDue_def billing_transaction_def run)
  next
    case (Inr p)
    then obtain r b' where p: "issue_slot now a plan invoice ?slot ?b1 = Inr (r, b')" by (cases p) simp
    with issued s1 lower slot(2) have "pr_outcome r = Handled" and s': "settled (core b')"
      "clawback_debts (core b') = clawback_debts (core ?b1)" "orders (core b') = orders (core ?b1)"
      "b' = ?b1\<lparr>core := core b', invoice_states := update_rows (\<lambda>i. is_invoice i = invoice)
        (\<lambda>i. i\<lparr>is_issued := max (is_issued i) ?slot\<rparr>) (invoice_states ?b1)\<rparr>"
      by simp_all
    moreover have "billing_consistent b'"
      using assms(8) by (intro committed [OF p s' lower slot(2) _ fresh]) (simp add: bigint_def)
    ultimately show ?thesis by (simp add: grantDue_def billing_transaction_def run p)
  qed
qed

text \<open>The second month of the account of \<open>annual_billing\<close>, and its subscription at Stripe.\<close>

definition year_price :: jsval where
  "year_price = JObj True
     [(''id'', JStr ''price_2''), (''lookup_key'', JStr ''billing_pro_year''), (''currency'', JStr ''usd''),
      (''unit_amount'', JInt (p_yearUsd pro_plan * 100)), (''recurring'', JObj True [(''interval'', JStr ''year'')]),
      (''product'', JObj True [(''metadata'', JObj True [(''plan'', JStr ''pro'')])])]"

definition annual_snapshot :: SubscriptionSnapshot where
  "annual_snapshot =
     \<lparr>sn_subscription = ''sub_1'', sn_status = ''active'', sn_lookup = Some ''billing_pro_year'',
      sn_period_end = Some (365 * DAY_MICROS), sn_price = Some year_price, sn_quantity = Some 1, sn_complete = True\<rparr>"

lemma annual_snapshot_matches: "snapshot_matches sample_config annual_account annual_snapshot = Inr (Some pro_plan)"
  by code_simp

lemma second_month_due: "annual_due (32 * DAY_MICROS) annual_account"
  by code_simp

lemma second_month_slot: "target_slot (acc_annual_anchor annual_account) (32 * DAY_MICROS) (acc_annual_allowed annual_account) = 2"
  by code_simp

lemma annual_rows:
  "find_account (core annual_billing) ''acct'' = Some annual_account" "acc_id annual_account = ''acct''"
  "acc_annual_issued annual_account = 1" "acc_funding_invoice annual_account = Some ''in_1''"
  "find_invoice annual_billing ''in_1'' = Some (hd (invoice_states annual_billing))"
  "\<not> is_fully_refunded (hd (invoice_states annual_billing))" "\<not> is_disputed (hd (invoice_states annual_billing))"
  by (simp_all add: find_account_def find_invoice_def annual_defs)

text \<open>The grant of that month commits.\<close>

lemma second_month_run:
  obtains r b' where
    "grantDue sample_config (32 * DAY_MICROS) (32 * DAY_MICROS) ''acct'' annual_snapshot annual_billing = (Inr r, b')"
    "pr_outcome r = Handled"
proof -
  let ?t = "32 * DAY_MICROS"
  let ?issue = "issue_slot ?t annual_account pro_plan ''in_1'' 2 annual_billing"
  have account: "find_account (core annual_billing) (acc_id annual_account) = Some annual_account"
    by (simp add: annual_rows)
  have settled: "settled (core annual_billing)" using annual_settled by (simp add: annual_billing_def)
  have credits: "bigint (atoms (p_monthlyCredits pro_plan))" "atoms (p_monthlyCredits pro_plan) = 1000000000"
    by (simp_all add: pro_plan_def credits_of_def bigint_def bound_defs CREDIT_SCALE_def)
  have "is_ok ?issue"
    by (simp add: issue_slot_def Let_def set_account_def entry_def insert_entry_def update_accounts_def update_invoices_def
        resolveFailure_def resolve_incidents_def on_core_def bind_tx_def modify_def update_rows_def
        collectPackDebtsFromSubscription_def gets_def find_account_def annual_defs grant_slot_def outstanding_debts_def ret_def)
  then obtain r b' where issue: "?issue = Inr (r, b')" by (cases ?issue) auto
  note run = issue_run [OF settled account credits(1), where slot = 2 and now = ?t and invoice = "''in_1''", unfolded issue, simplified]
  have "billing_consistent b'"
    by (rule issue_consistent [OF annual_consistent issue])
      (use run credits in \<open>auto simp: find_grant_def annual_defs\<close>)
  moreover have "annual_refusal ?t annual_account annual_snapshot = None" by code_simp
  moreover have "resolve_incidents P annual_billing = Inr ((), annual_billing)" for P
    by (simp add: resolve_incidents_def on_core_def modify_def annual_defs update_rows_def)
  ultimately have "grantDue sample_config ?t ?t ''acct'' annual_snapshot annual_billing = (Inr r, b')"
    using issue
    by (simp add: grantDue_def billing_transaction_def grant_due_def annual_snapshot_matches second_month_slot fund_slot_def
        annual_rows)
  with run that show ?thesis by blast
qed

lemma annual_grant_once_witness:
  "\<exists>a' slot. find_account (core (snd (grantDue sample_config (32 * DAY_MICROS) (32 * DAY_MICROS) ''acct'' annual_snapshot
     annual_billing))) ''acct'' = Some a' \<and> 1 < slot \<and> acc_annual_issued a' = slot \<and> acc_epoch a' = 2"
proof -
  obtain r b' where "grantDue sample_config (32 * DAY_MICROS) (32 * DAY_MICROS) ''acct'' annual_snapshot annual_billing = (Inr r, b')"
    "pr_outcome r = Handled" by (rule second_month_run)
  with annual_grant_once [OF annual_consistent this] show ?thesis by (auto simp: annual_rows annual_account_def)
qed

lemma due_account_granted_witness:
  "\<exists>r. fst (grantDue sample_config (32 * DAY_MICROS) (32 * DAY_MICROS) ''acct'' annual_snapshot annual_billing) = Inr r \<and>
     pr_outcome r = Handled"
proof -
  have "settled (core annual_billing)" using annual_settled by (simp add: annual_billing_def)
  moreover have "acc_subscription annual_account = Some (sn_subscription annual_snapshot)"
    "sn_status annual_snapshot \<in> {''active'', ''trialing''}" "bigint (atoms (p_monthlyCredits pro_plan))"
    by (simp_all add: annual_account_def annual_snapshot_def pro_plan_def credits_of_def bigint_def bound_defs CREDIT_SCALE_def)
  moreover have "find_grant (core annual_billing) ''in_1'' n = None" if "acc_annual_issued annual_account < n" for n
    using that by (simp add: find_grant_def annual_defs)
  ultimately have "(\<exists>r. fst (grantDue sample_config (32 * DAY_MICROS) (32 * DAY_MICROS) ''acct'' annual_snapshot annual_billing) =
        Inr r \<and> pr_outcome r = Handled) \<or>
      (\<exists>e. fst (grantDue sample_config (32 * DAY_MICROS) (32 * DAY_MICROS) ''acct'' annual_snapshot annual_billing) = Inl e \<and>
        environmental e)"
    using annual_rows
    by (intro due_account_granted [OF annual_consistent _ _ second_month_due _ _ annual_snapshot_matches]) blast+
  then show ?thesis by (auto intro: second_month_run)
qed

end
