(* ===== verification/Entitlements.thy ===== *)
theory Entitlements
  imports Ledger_History
begin

text \<open>
  Entitlement checks and the credit operations of an owner (typescript/src/entitlements.ts): what an
  owner may use, and charges and refunds that name the owner instead of the account. The instant of
  the database is an argument.
\<close>

section \<open>Decisions\<close>

datatype EntitlementReason =
  Allowed | OwnerNotFound | EntitlementNotEnforceable | FeatureNotAvailable | LimitNotAvailable | LimitExceeded

record LimitDecision =
  ld_requested :: int
  ld_maximum :: "int option"
  ld_allowed :: bool

record EntitlementCheck =
  ec_allowed :: bool
  ec_reason :: EntitlementReason
  ec_enforceable :: bool
  ec_planKey :: string
  ec_planInterval :: "BillingInterval option"
  ec_status :: subscription_status
  ec_creditsSpendable :: bool
  ec_creditBalance :: CreditAmount
  ec_creditExpiresAt :: "int option"
  ec_features :: "(string \<times> bool) list"
  ec_limits :: "(string \<times> LimitDecision) list"

section \<open>The requests\<close>

definition validateOperationKey :: "jsval \<Rightarrow> string result" where
  "validateOperationKey v =
     (case v of
        JStr s \<Rightarrow>
          if s = [] \<or> s \<noteq> trim s \<or> byteLength s > 200 \<or> \<not> isPrintable s
          then Inl (InvalidCreditRequestError ''idempotency key is invalid'') else Inr s
      | _ \<Rightarrow> Inl (InvalidCreditRequestError ''idempotency key is invalid''))"

definition feature_key :: "jsval \<Rightarrow> string result" where
  "feature_key v =
     (case v of
        JStr s \<Rightarrow> if ENTITLEMENT_KEY s then Inr s else Inl (TypeError ''requiredFeatures contains an invalid or duplicate key'')
      | _ \<Rightarrow> Inl (TypeError ''requiredFeatures contains an invalid or duplicate key''))"

definition limit_entry :: "string \<times> jsval \<Rightarrow> (string \<times> int) result" where
  "limit_entry p =
     (case p of
        (k, JInt n) \<Rightarrow>
          if \<not> ENTITLEMENT_KEY k \<or> \<not> isSafeInteger (JInt n) \<or> n < 0 \<or> n > JSON_SAFE_INTEGER_MAX
          then Inl (TypeError ''requiredLimits contains an invalid key or value'') else Inr (k, n)
      | _ \<Rightarrow> Inl (TypeError ''requiredLimits contains an invalid key or value''))"

definition validateRequirements :: "jsval list \<Rightarrow> jsval \<Rightarrow> (string list \<times> (string \<times> int) list) result" where
  "validateRequirements requiredFeatures requiredLimits =
     (if length requiredFeatures > 64 \<or> \<not> distinct requiredFeatures
      then Inl (TypeError ''requiredFeatures contains an invalid or duplicate key'')
      else
        bind_result (map_result feature_key requiredFeatures) (\<lambda>features.
        case requiredLimits of
          JObj plain entries \<Rightarrow>
            if length entries > 64 then Inl (TypeError ''requiredLimits contains an invalid key or value'')
            else bind_result (map_result limit_entry entries) (\<lambda>limits. Inr (features, limits))
        | _ \<Rightarrow> Inl (TypeError ''requiredLimits must be a plain record'')))"

section \<open>The check\<close>

definition find_owner :: "store \<Rightarrow> string \<Rightarrow> account option" where
  "find_owner s ref = find (\<lambda>a. acc_external_ref a = ref) (accounts s)"

text \<open>The lots that count: the aggregate over no row is null.\<close>

definition counted_lots :: "store \<Rightarrow> string \<Rightarrow> int \<Rightarrow> funding_lot list" where
  "counted_lots s acc now =
     filter (\<lambda>l. lot_account l = acc \<and> lot_status l = LotActive \<and> lot_remaining l > 0 \<and> lot_expires l > now) (lots s)"

definition next_pack_expiry :: "store \<Rightarrow> string \<Rightarrow> int \<Rightarrow> int option" where
  "next_pack_expiry s acc now =
     (case map lot_expires (counted_lots s acc now) of [] \<Rightarrow> None | t # ts \<Rightarrow> Some (fold min ts t))"

definition feature_decisions :: "bool \<Rightarrow> Plan option \<Rightarrow> string list \<Rightarrow> (string \<times> bool) list" where
  "feature_decisions enforceable plan features =
     map (\<lambda>f. (f, enforceable \<and> (case plan of None \<Rightarrow> False | Some p \<Rightarrow> f \<in> set (p_features p)))) features"

definition limit_decisions :: "bool \<Rightarrow> Plan option \<Rightarrow> (string \<times> int) list \<Rightarrow> (string \<times> LimitDecision) list" where
  "limit_decisions enforceable plan limits =
     map (\<lambda>(k, requested).
       let maximum = (case plan of None \<Rightarrow> None | Some p \<Rightarrow> map_of (p_limits p) k) in
       (k, \<lparr>ld_requested = requested, ld_maximum = maximum,
            ld_allowed = (enforceable \<and> (case maximum of None \<Rightarrow> False | Some m \<Rightarrow> requested \<le> m))\<rparr>)) limits"

definition decide_reason :: "bool \<Rightarrow> (string \<times> bool) list \<Rightarrow> (string \<times> LimitDecision) list \<Rightarrow> EntitlementReason" where
  "decide_reason enforceable features limits =
     (if \<not> enforceable then EntitlementNotEnforceable
      else if list_ex (\<lambda>(k, held). \<not> held) features then FeatureNotAvailable
      else if list_ex (\<lambda>(k, d). ld_maximum d = None) limits then LimitNotAvailable
      else if list_ex (\<lambda>(k, d). \<not> ld_allowed d) limits then LimitExceeded
      else Allowed)"

text \<open>The instant at which the earliest of the spendable funds ends.\<close>

definition least_expiry :: "int option \<Rightarrow> int option \<Rightarrow> int option" where
  "least_expiry x y = (case x of None \<Rightarrow> y | Some s \<Rightarrow> (case y of None \<Rightarrow> Some s | Some t \<Rightarrow> Some (min s t)))"

definition funding_expiry :: "account \<Rightarrow> int \<Rightarrow> int \<Rightarrow> int option \<Rightarrow> int option" where
  "funding_expiry a subscription pack packExpiry =
     (if subscription > 0 \<and> pack > 0 then least_expiry (acc_credit_expires a) packExpiry
      else if subscription > 0 then acc_credit_expires a
      else if pack > 0 then packExpiry
      else None)"

definition check_owner ::
  "PlanCatalog \<Rightarrow> string \<Rightarrow> jsval list \<Rightarrow> jsval \<Rightarrow> int \<Rightarrow> store \<Rightarrow> EntitlementCheck result" where
  "check_owner cat owner requiredFeatures requiredLimits now s =
     bind_result (validateOwnerExternalRef owner) (\<lambda>ref.
     bind_result (validateRequirements requiredFeatures requiredLimits) (\<lambda>(features, limits).
     case find_owner s ref of
       None \<Rightarrow>
         Inr \<lparr>ec_allowed = False, ec_reason = OwnerNotFound, ec_enforceable = False, ec_planKey = ''free'',
              ec_planInterval = None, ec_status = SubNone, ec_creditsSpendable = False,
              ec_creditBalance = CreditAmount 0, ec_creditExpiresAt = None,
              ec_features = map (\<lambda>f. (f, False)) features,
              ec_limits = map (\<lambda>(k, requested). (k, \<lparr>ld_requested = requested, ld_maximum = None, ld_allowed = False\<rparr>)) limits\<rparr>
     | Some a \<Rightarrow>
         let plan = planOf cat (acc_plan_key a);
             enforceable = (plan \<noteq> None \<and> subscriptionSpendable a now);
             subscription = subscriptionAtoms a now;
             pack = (\<Sum>l\<leftarrow>counted_lots s (acc_id a) now. lot_remaining l);
             featureDecisions = feature_decisions enforceable plan features;
             limitDecisions = limit_decisions enforceable plan limits;
             reason = decide_reason enforceable featureDecisions limitDecisions in
         bind_result (newCreditAmount (subscription + pack)) (\<lambda>balance.
           Inr \<lparr>ec_allowed = (reason = Allowed), ec_reason = reason, ec_enforceable = enforceable,
                ec_planKey = acc_plan_key a, ec_planInterval = acc_plan_interval a, ec_status = acc_status a,
                ec_creditsSpendable = (subscription + pack > 0), ec_creditBalance = balance,
                ec_creditExpiresAt = funding_expiry a subscription pack (next_pack_expiry s (acc_id a) now),
                ec_features = featureDecisions, ec_limits = limitDecisions\<rparr>)))"

section \<open>Charges and refunds of an owner\<close>

definition charge_error :: "error \<Rightarrow> error" where
  "charge_error e =
     (if e = CreditAccountNotFoundError then BillingOwnerNotFoundError
      else if e = TypeError ''idempotency key was already used with different parameters'' then CreditIdempotencyConflictError
      else e)"

definition refund_error :: "error \<Rightarrow> error" where
  "refund_error e =
     (case e of
        CreditDebitOwnerMismatchError \<Rightarrow> CreditOperationNotFoundError
      | CreditDebitNotFoundError _ \<Rightarrow> CreditOperationNotFoundError
      | CreditAccountNotFoundError \<Rightarrow> CreditOperationNotFoundError
      | _ \<Rightarrow> e)"

definition rethrow :: "(error \<Rightarrow> error) \<Rightarrow> 'a result \<times> store \<Rightarrow> 'a result \<times> store" where
  "rethrow f r = (case r of (Inl e, s) \<Rightarrow> (Inl (f e), s) | (Inr x, s) \<Rightarrow> (Inr x, s))"

definition owner_amount :: "jsval \<Rightarrow> CreditAmount result" where
  "owner_amount amount =
     (case amount of
        JStr _ \<Rightarrow>
          (case parseCreditAmount amount ''credit amount'' False of
             Inl e \<Rightarrow> Inl (InvalidCreditRequestError ''credit amount is invalid'')
           | Inr n \<Rightarrow> Inr n)
      | _ \<Rightarrow> Inl (InvalidCreditRequestError ''credit amount must be an exact decimal string''))"

definition charge_owner ::
  "string \<Rightarrow> jsval \<Rightarrow> jsval \<Rightarrow> int \<Rightarrow> int \<Rightarrow> store \<Rightarrow> CreditResult result \<times> store" where
  "charge_owner owner amount idempotencyKey now asOf s =
     (case bind_result (validateOwnerExternalRef owner) (\<lambda>ref.
           bind_result (validateOperationKey idempotencyKey) (\<lambda>key.
           bind_result (owner_amount amount) (\<lambda>n. Inr (ref, key, n)))) of
        Inl e \<Rightarrow> (Inl e, s)
      | Inr (ref, key, n) \<Rightarrow>
          (case find_owner s ref of
             None \<Rightarrow> (Inl BillingOwnerNotFoundError, s)
           | Some a \<Rightarrow> rethrow charge_error (charge (acc_id a) (AmountObject n) (JStr key) now asOf s)))"

definition refund_owner :: "string \<Rightarrow> jsval \<Rightarrow> int \<Rightarrow> int \<Rightarrow> store \<Rightarrow> CreditResult result \<times> store" where
  "refund_owner owner idempotencyKey now asOf s =
     (case bind_result (validateOwnerExternalRef owner) (\<lambda>ref.
           bind_result (validateOperationKey idempotencyKey) (\<lambda>key. Inr (ref, key))) of
        Inl e \<Rightarrow> (Inl e, s)
      | Inr (ref, key) \<Rightarrow>
          (case find_owner s ref of
             None \<Rightarrow> (Inl CreditOperationNotFoundError, s)
           | Some a \<Rightarrow> rethrow refund_error (refund (JStr key) (Some (acc_id a)) now asOf s)))"

section \<open>What a check promises\<close>

lemma requirement_errors: "feature_key v = Inr f \<Longrightarrow> v = JStr f"
  by (auto simp: feature_key_def split: jsval.splits if_splits)

lemma validateOwnerExternalRef_same: "validateOwnerExternalRef owner = Inr ref \<Longrightarrow> ref = owner"
  by (simp add: validateOwnerExternalRef_def split: if_splits)

lemma decide_allowed:
  "decide_reason True (feature_decisions True (Some p) features) (limit_decisions True (Some p) limits) = Allowed \<longleftrightarrow>
     set features \<subseteq> set (p_features p) \<and>
     (\<forall>(k, n) \<in> set limits. \<exists>m. map_of (p_limits p) k = Some m \<and> n \<le> m)"
  "decide_reason False fs ls \<noteq> Allowed"
proof -
  have features: "list_ex (\<lambda>(k, held). \<not> held) (feature_decisions True (Some p) features) \<longleftrightarrow>
      \<not> set features \<subseteq> set (p_features p)"
    by (auto simp: feature_decisions_def list_ex_iff)
  have limits: "list_ex (\<lambda>(k, d). ld_maximum d = None) (limit_decisions True (Some p) limits) \<or>
      list_ex (\<lambda>(k, d). \<not> ld_allowed d) (limit_decisions True (Some p) limits) \<longleftrightarrow>
      \<not> (\<forall>(k, n) \<in> set limits. \<exists>m. map_of (p_limits p) k = Some m \<and> n \<le> m)"
    by (induction limits) (auto simp: limit_decisions_def Let_def split: option.splits)
  show "decide_reason True (feature_decisions True (Some p) features) (limit_decisions True (Some p) limits) = Allowed \<longleftrightarrow>
     set features \<subseteq> set (p_features p) \<and>
     (\<forall>(k, n) \<in> set limits. \<exists>m. map_of (p_limits p) k = Some m \<and> n \<le> m)"
    using features limits unfolding decide_reason_def by (smt (verit) EntitlementReason.distinct)
qed (simp add: decide_reason_def)

text \<open>The balance that a check shows is the balance that a charge may spend.\<close>

lemma counted_lots_balance:
  assumes "rows_ok s"
  shows "(\<Sum>l\<leftarrow>counted_lots s acc now. lot_remaining l) = packBalanceAtoms s acc now"
proof -
  have "0 \<le> lot_remaining l" if "l \<in> set (lots s)" for l
    using assms that by (auto simp: rows_ok_def list_all_iff lot_check_def)
  then have "(\<Sum>l\<leftarrow>filter (\<lambda>l. lot_account l = acc \<and> lot_status l = LotActive \<and> lot_remaining l > 0 \<and> lot_expires l > now) ls.
        lot_remaining l) =
      (\<Sum>l\<leftarrow>filter (\<lambda>l. lot_account l = acc \<and> lot_status l = LotActive \<and> lot_expires l > now) ls. lot_remaining l)"
    if "set ls \<subseteq> set (lots s)" for ls
    using that by (induction ls) force+
  then have "(\<Sum>l\<leftarrow>counted_lots s acc now. lot_remaining l) =
      (\<Sum>l\<leftarrow>filter (\<lambda>l. lot_account l = acc \<and> lot_status l = LotActive \<and> lot_expires l > now) (lots s). lot_remaining l)"
    by (simp add: counted_lots_def)
  also have "\<dots> = packBalanceAtoms s acc now"
    unfolding packBalanceAtoms_def active_lots_def sum_mset_sum_list [symmetric] mset_map by simp
  finally show ?thesis .
qed

lemma owner_account:
  assumes "keys_ok s" "find_owner s ref = Some a"
  shows "find_account s (acc_id a) = Some a"
  using find_member(1) [OF assms(1)] find_SomeD [OF assms(2) [unfolded find_owner_def]] by simp

lemma check_balance:
  assumes s: "settled s" and c: "check_owner cat owner fs ls now s = Inr c" and a: "find_owner s owner = Some a"
  shows "ec_creditBalance c = CreditAmount (spendable s (acc_id a) now)"
proof -
  note inv = ledger_invD [OF s [unfolded settled_def]]
  have "find_account s (acc_id a) = Some a" by (rule owner_account [OF inv(2) a])
  then show ?thesis
    using c a by (auto simp: check_owner_def result_simps Let_def spendable_def newCreditAmount_def
        counted_lots_balance [OF inv(1)] dest!: validateOwnerExternalRef_same split: if_splits)
qed

lemma check_runs:
  assumes s: "settled s" and a: "find_owner s owner = Some a"
    and "validateOwnerExternalRef owner = Inr owner" "validateRequirements fs ls = Inr r"
  shows "\<exists>c. check_owner cat owner fs ls now s = Inr c"
proof -
  note inv = ledger_invD [OF s [unfolded settled_def]]
  have account: "find_account s (acc_id a) = Some a" by (rule owner_account [OF inv(2) a])
  have "0 \<le> packBalanceAtoms s (acc_id a) now"
    unfolding packBalanceAtoms_def using inv(1)
    by (intro sum_list_nonneg) (auto simp: active_lots_def rows_ok_def list_all_iff lot_check_def)
  moreover have "0 \<le> subscriptionAtoms a now" by (simp add: subscriptionAtoms_def bigint_def)
  ultimately show ?thesis
    using assms by (cases r) (simp add: check_owner_def Let_def counted_lots_balance [OF inv(1)] newCreditAmount_def)
qed

lemma find_update_other:
  "(\<And>x. Q (f x) \<longleftrightarrow> Q x) \<Longrightarrow> find Q (update_rows P f xs) = map_option (\<lambda>x. if P x then f x else x) (find Q xs)"
  by (induction xs) (auto simp: update_rows_def)

lemma owner_charged:
  assumes "find_owner s ref = Some a"
  shows "\<exists>a'. find_owner (charged key b n now asOf s) ref = Some a' \<and> acc_id a' = acc_id a"
  using assms
  by (auto simp: find_owner_def charged_def settle_subscription_def set_balance_def find_update_other)

section \<open>Properties\<close>

text \<open>
  C16: a check allows exactly when the owner has an active subscription to a plan of the catalog that is
  spendable now, the plan has every required feature and every required limit is within its maximum.
\<close>

theorem check_decides:
  assumes "check_owner cat owner fs ls now s = Inr c" "validateRequirements fs ls = Inr (features, limits)"
  shows "ec_allowed c \<longleftrightarrow>
    (\<exists>a p. find_owner s owner = Some a \<and> planOf cat (acc_plan_key a) = Some p \<and> subscriptionSpendable a now \<and>
       set features \<subseteq> set (p_features p) \<and>
       (\<forall>(k, n) \<in> set limits. \<exists>m. map_of (p_limits p) k = Some m \<and> n \<le> m))"
proof -
  have owner: "validateOwnerExternalRef owner = Inr owner"
    using assms(1) by (auto simp: check_owner_def result_simps dest: validateOwnerExternalRef_same)
  show ?thesis
  proof (cases "find_owner s owner")
    case None
    with assms owner show ?thesis by (auto simp: check_owner_def result_simps)
  next
    case (Some a)
    let ?p = "planOf cat (acc_plan_key a)"
    let ?e = "?p \<noteq> None \<and> subscriptionSpendable a now"
    have c: "ec_allowed c \<longleftrightarrow> decide_reason ?e (feature_decisions ?e ?p features) (limit_decisions ?e ?p limits) = Allowed"
      using assms owner Some by (auto simp: check_owner_def result_simps Let_def)
    show ?thesis
    proof (cases ?e)
      case True
      then obtain p where "?p = Some p" "subscriptionSpendable a now" by blast
      with Some c show ?thesis by (simp add: decide_allowed(1))
    next
      case False
      with c have "\<not> ec_allowed c" by (simp only: decide_allowed(2) simp_thms)
      with False Some show ?thesis by auto
    qed
  qed
qed

lemma owner_charge:
  assumes "validateOwnerExternalRef owner = Inr owner" "find_owner s owner = Some a"
    and "validateOperationKey keyv = Inr key" "owner_amount amount = Inr n"
  shows "charge_owner owner amount keyv now asOf s =
    rethrow charge_error (charge (acc_id a) (AmountObject n) (JStr key) now asOf s)"
  using assms by (simp add: charge_owner_def)

lemma operation_key: "validateOperationKey keyv = Inr key \<Longrightarrow> validateIdempotencyKey (JStr key) = Inr key"
  by (auto simp: validateOperationKey_def validateIdempotencyKey_def split: jsval.splits if_splits)

lemma owner_amount_ok:
  assumes "owner_amount amount = Inr n"
  shows "0 < atoms n \<and> bigint (atoms n) \<and> normalizeAmount (AmountObject n) = Inr n"
proof -
  from assms have n: "parseCreditAmount amount ''credit amount'' False = Inr n"
    by (auto simp: owner_amount_def split: jsval.splits sum.splits)
  then have "creditAtoms amount ''credit amount'' False = Inr (atoms n)"
    by (auto simp: parseCreditAmount_def newCreditAmount_def result_simps split: if_splits)
  then have "atoms n \<noteq> 0" "0 \<le> atoms n" "atoms n \<le> MAX_CREDIT_ATOMS"
    by (auto elim: creditAtoms_InrD dest: creditAtoms_nonneg)
  then show ?thesis by (simp add: normalizeAmount_def bigint_def)
qed

text \<open>
  C15: the balance a check shows is exactly what the owner can charge at that instant: a charge with a new
  key within it succeeds and the next check shows the rest, and a charge beyond it is refused and
  changes nothing.
\<close>

theorem checked_balance_chargeable:
  assumes "settled s" "check_owner cat owner fs ls asOf s = Inr c" "find_owner s owner = Some a"
    and "validateOperationKey keyv = Inr key" "find_debit s key = None" "owner_amount amount = Inr n"
  shows "if atoms n \<le> atoms (ec_creditBalance c)
    then \<exists>s' c'. charge_owner owner amount keyv now asOf s =
           (Inr \<lparr>cr_outcome = Charged, cr_balance = CreditAmount (atoms (ec_creditBalance c) - atoms n),
                 cr_requested = n, cr_restored = CreditAmount 0\<rparr>, s') \<and>
         check_owner cat owner fs ls asOf s' = Inr c' \<and>
         ec_creditBalance c' = CreditAmount (atoms (ec_creditBalance c) - atoms n)
    else \<exists>e. charge_owner owner amount keyv now asOf s = (Inl e, s)"
proof -
  note balance = check_balance [OF assms(1-3)]
  note account = owner_account [OF ledger_invD(2) [OF assms(1) [unfolded settled_def]] assms(3)]
  note key = operation_key [OF assms(4)] and amount = owner_amount_ok [OF assms(6)]
  obtain r where valid: "validateOwnerExternalRef owner = Inr owner" "validateRequirements fs ls = Inr r"
    using assms(2) by (auto simp: check_owner_def result_simps dest: validateOwnerExternalRef_same)
  note charge = owner_charge [OF valid(1) assms(3,4,6)]
  show ?thesis
  proof (cases "atoms n \<le> spendable s (acc_id a) asOf")
    case True
    let ?s = "charged key a (atoms n) now asOf s"
    from amount have n: "0 < atoms n" "bigint (atoms n)" "normalizeAmount (AmountObject n) = Inr n" by simp_all
    have run: "charge_owner owner amount keyv now asOf s =
        (Inr \<lparr>cr_outcome = Charged, cr_balance = CreditAmount (spendable s (acc_id a) asOf - atoms n),
              cr_requested = n, cr_restored = CreditAmount 0\<rparr>, ?s)"
      using charge_run [OF assms(1) account n(3) key assms(5) n(1) True, of now] charge by (simp add: rethrow_def)
    have s': "settled ?s" by (rule settled_charged [OF assms(1) account assms(5) n(1,2) True])
    from owner_charged [OF assms(3)] obtain a' where a': "find_owner ?s owner = Some a'" "acc_id a' = acc_id a" by blast
    from check_runs [OF s' a'(1) valid] obtain c' where c': "check_owner cat owner fs ls asOf ?s = Inr c'" by blast
    with check_balance [OF s' c' a'(1)] spendable_charged [OF assms(1) account assms(5) n(1,2) True, of now]
    show ?thesis using run True by (simp add: balance a'(2))
  next
    case False
    then have "\<exists>e. charge_body (acc_id a) n key now asOf s = Inl e"
      using charge_body_refused [OF assms(1) account assms(5)] amount by fastforce
    then have "\<exists>e. charge_owner owner amount keyv now asOf s = (Inl e, s)"
      using amount key charge by (auto simp: charge_def rethrow_def transaction_throws)
    then show ?thesis using False by (simp add: balance)
  qed
qed

text \<open>
  C17: an owner cannot tell the operation of another owner, or a collection of a debt, from one that does
  not exist: its refund is the same refusal, and changes nothing.
\<close>

theorem foreign_operation_hidden:
  assumes "settled s" "find_owner s owner = Some a" "normalizeUuid (acc_id a) ''expectedAccountId'' = Inr (acc_id a)"
    and "validateOwnerExternalRef owner = Inr owner" "validateOperationKey keyv = Inr key"
    and "\<And>d. find_debit s key = Some d \<Longrightarrow> deb_account d \<noteq> acc_id a \<or> deb_kind d \<noteq> Usage"
  shows "refund_owner owner keyv now asOf s = (Inl CreditOperationNotFoundError, s)"
proof -
  note account = owner_account [OF ledger_invD(2) [OF assms(1) [unfolded settled_def]] assms(2)]
  have "\<exists>e. refund_body key (Some (acc_id a)) now asOf s = Inl e \<and> refund_error e = CreditOperationNotFoundError"
    using assms(6) refund_body_owner [OF account, of key now asOf]
    by (auto simp: refund_error_def split: option.splits)
  then show ?thesis
    using assms(2-5) operation_key [OF assms(5)]
    by (auto simp: refund_owner_def refund_def rethrow_def transaction_throws)
qed

section \<open>Witnesses\<close>

lemma pending_owner: "find_owner pending_store ''owner-1'' = Some (sample_account\<lparr>acc_id := account_uuid\<rparr>)"
  by (simp add: find_owner_def pending_store_def sample_account_def)

abbreviation sample_check :: "EntitlementCheck result" where
  "sample_check \<equiv> check_owner (reference_catalog ''billing'') ''owner-1'' [JStr ''api_access'']
     (JObj True [(''api_keys'', JInt 5)]) 100 pending_store"

lemma sample_check_run:
  "case sample_check of Inl _ \<Rightarrow> False | Inr c \<Rightarrow> ec_allowed c \<and> ec_creditBalance c = CreditAmount 300"
  by code_simp

lemma sample_requirements:
  "validateRequirements [JStr ''api_access''] (JObj True [(''api_keys'', JInt 5)]) = Inr ([''api_access''], [(''api_keys'', 5)])"
  "validateOwnerExternalRef ''owner-1'' = Inr ''owner-1''"
  "validateOperationKey (JStr ''job-1'') = Inr ''job-1''" "owner_amount (JStr ''0.0002'') = Inr (CreditAmount 200)"
  "normalizeUuid account_uuid ''expectedAccountId'' = Inr account_uuid"
  by code_simp+

lemma check_decides_witness:
  "\<exists>p. planOf (reference_catalog ''billing'') ''pro'' = Some p \<and> ''api_access'' \<in> set (p_features p)"
proof -
  obtain c where c: "sample_check = Inr c" "ec_allowed c" using sample_check_run by (cases sample_check) auto
  from check_decides [OF c(1) sample_requirements(1)] c(2) show ?thesis
    by (auto simp: pending_owner sample_account_def)
qed

lemma checked_balance_chargeable_witness:
  "\<exists>r. fst (charge_owner ''owner-1'' (JStr ''0.0002'') (JStr ''job-1'') 100 100 pending_store) = Inr r \<and>
     cr_balance r = CreditAmount 100"
proof -
  obtain c where c: "sample_check = Inr c" "ec_creditBalance c = CreditAmount 300"
    using sample_check_run by (cases sample_check) auto
  have "find_debit pending_store ''job-1'' = None" by (simp add: pending_store_def find_debit_def)
  from checked_balance_chargeable [OF pending_settled c(1) pending_owner sample_requirements(3) this sample_requirements(4), of 100] c(2)
  show ?thesis by auto
qed

lemma foreign_operation_hidden_witness:
  "refund_owner ''owner-1'' (JStr ''job-1'') 100 100 pending_store = (Inl CreditOperationNotFoundError, pending_store)"
  by (rule foreign_operation_hidden [OF pending_settled pending_owner _ sample_requirements(2,3)])
    (simp_all add: sample_requirements(5) find_debit_def pending_store_def)

end
