(* ===== verification/Billing_History.thy ===== *)
theory Billing_History
  imports Annual_Properties Entitlements
begin

text \<open>
  The program over time: webhook events, the charges and refunds of owners and the annual worker, each
  with any arguments and in any order, and what holds after all of them.
\<close>

section \<open>Steps\<close>

text \<open>An operation on the tables of the ledger, in the database.\<close>

definition on_ledger :: "(store \<Rightarrow> 'a result \<times> store) \<Rightarrow> billing \<Rightarrow> billing" where
  "on_ledger f b = b\<lparr>core := snd (f (core b))\<rparr>"

inductive billing_step :: "billing \<Rightarrow> billing \<Rightarrow> bool" where
  event: "billing_step b (snd (process cfg now clock event b))"
| charge: "billing_step b (on_ledger (charge_owner owner amount idempotencyKey now asOf) b)"
| refund: "billing_step b (on_ledger (refund_owner owner idempotencyKey now asOf) b)"
| annual: "billing_step b (snd (grantDue cfg now effectiveNow acc sn b))"
| failure: "billing_step b (snd (billing_transaction (recordFailure acc subscription reason) b))"

inductive_cases billing_stepE: "billing_step b b'"

lemma rethrow_state [simp]: "snd (rethrow f r) = snd r"
  by (simp add: rethrow_def split: prod.splits sum.splits)

lemma charge_owner_cases:
  obtains "snd (charge_owner owner amount k now asOf s) = s"
  | acc n key where "bigint (atoms n)"
      "snd (charge_owner owner amount k now asOf s) = snd (charge acc (AmountObject n) (JStr key) now asOf s)"
proof (cases "bind_result (validateOwnerExternalRef owner) (\<lambda>ref. bind_result (validateOperationKey k) (\<lambda>key.
    bind_result (owner_amount amount) (\<lambda>n. Inr (ref, key, n))))")
  case (Inl e)
  then show ?thesis using that(1) by (simp add: charge_owner_def)
next
  case (Inr p)
  then obtain ref key n where p: "p = (ref, key, n)" and "owner_amount amount = Inr n"
    by (auto simp: result_simps)
  then have "bigint (atoms n)" using owner_amount_ok by blast
  with Inr p that show ?thesis by (cases "find_owner s ref") (auto simp: charge_owner_def)
qed

lemma refund_owner_cases:
  obtains "snd (refund_owner owner k now asOf s) = s"
  | acc key where "snd (refund_owner owner k now asOf s) = snd (refund (JStr key) (Some acc) now asOf s)"
proof (cases "bind_result (validateOwnerExternalRef owner) (\<lambda>ref. bind_result (validateOperationKey k) (\<lambda>key. Inr (ref, key)))")
  case (Inl e)
  then show ?thesis using that(1) by (simp add: refund_owner_def)
next
  case (Inr p)
  with that show ?thesis by (cases p; cases "find_owner s (fst p)") (auto simp: refund_owner_def)
qed

section \<open>The invariant of a history\<close>

definition sound_books :: "billing \<Rightarrow> bool" where
  "sound_books b \<longleftrightarrow> settled (core b) \<and> audited (core b)"

lemma failure_books: "sound_books b \<Longrightarrow> sound_books (snd (billing_transaction (recordFailure acc subscription reason) b))"
proof -
  assume b: "sound_books b"
  have "settled (core (snd (billing_transaction (recordFailure acc subscription reason) b)))"
    unfolding recordFailure_def
    by (rule billing_transaction_settled)
      (use b keepsD [OF ledger_frame.note_keeps settled_tidy] in \<open>auto simp: sound_books_def tidy_def\<close>)
  moreover have "keeps (\<lambda>b. audited (core b)) (recordFailure acc subscription reason)"
    unfolding recordFailure_def by (rule audit.note_step)
  with b have "audited (core (snd (billing_transaction (recordFailure acc subscription reason) b)))"
    unfolding keeps_def sound_books_def billing_transaction_def by (auto split: sum.splits)
  ultimately show ?thesis by (simp add: sound_books_def)
qed

lemma step_books: "billing_step b b' \<Longrightarrow> sound_books b \<Longrightarrow> sound_books b'"
proof (induction rule: billing_step.induct)
  case (charge b owner amount k now asOf)
  then show ?case
    by (cases rule: charge_owner_cases [of owner amount k now asOf "core b"])
      (auto simp: sound_books_def on_ledger_def bigint_def intro!: charge_settled charge_audited)
next
  case (refund b owner k now asOf)
  then show ?case
    by (cases rule: refund_owner_cases [of owner k now asOf "core b"])
      (auto simp: sound_books_def on_ledger_def intro!: refund_settled refund_audited)
qed (auto simp: sound_books_def intro: process_settled process_audited grantDue_settled grantDue_audited
    failure_books [unfolded sound_books_def, THEN conjunct1] failure_books [unfolded sound_books_def, THEN conjunct2])

text \<open>
  C3: after any history of webhook events, charges, refunds, annual grants and recorded failures, whatever
  their arguments, order and repetition, every constraint of the ledger holds, the balance of each
  account is the sum of its rows and each row states the balance after it, and the credits of each lot
  are exactly what remains, expired, was clawed back, was released to its debt and is still charged.
\<close>

theorem billing_history:
  assumes "billing_step\<^sup>*\<^sup>* b b'" "settled (core b)" "audited (core b)"
  shows "consistent (core b') \<and>
    (\<forall>a \<in> set (accounts (core b')). acc_balance a = total_of (acc_id a) (ledger (core b'))) \<and>
    (\<forall>n < length (ledger (core b')). le_balance_after (ledger (core b') ! n) =
       total_of (le_account (ledger (core b') ! n)) (take (Suc n) (ledger (core b')))) \<and>
    (\<forall>l \<in> set (lots (core b')). lot_original l = lot_remaining l + lot_expired l + lot_clawed l +
       debt_released (core b') (lot_order l) + allocated_outstanding (core b') (lot_id l))"
proof -
  from assms have "sound_books b'"
    by (induction rule: rtranclp_induct) (auto simp: sound_books_def [of b] intro: step_books)
  then have s: "settled (core b')" and a: "audited (core b')" by (simp_all add: sound_books_def)
  have "lots_inv (\<lambda>_. 0) (core b')" using ledger_invD(4) [OF s [unfolded settled_def]] .
  with settled_consistent [OF s] a show ?thesis
    by (auto simp: audited_def running_def lots_inv_def funding_gap_def)
qed

lemma billing_history_witness:
  "consistent (core (on_ledger (charge_owner ''owner-1'' (JStr ''0.5'') (JStr ''job-1'') 100 100)
     (snd (process sample_config 100 100 deletion_event annual_billing))))"
proof -
  let ?b = "snd (process sample_config 100 100 deletion_event annual_billing)"
  have "billing_step annual_billing ?b" by (rule event)
  then have "billing_step\<^sup>*\<^sup>* annual_billing (on_ledger (charge_owner ''owner-1'' (JStr ''0.5'') (JStr ''job-1'') 100 100) ?b)"
    by (rule converse_rtranclp_into_rtranclp) (rule r_into_rtranclp, rule charge)
  moreover have "settled (core annual_billing)" using annual_settled by (simp add: annual_billing_def)
  moreover have "audited (core annual_billing)" by (simp add: annual_defs audited_def running_def)
  ultimately show ?thesis by (blast dest: billing_history)
qed

end
