(* ===== verification/Request_Snapshots.thy ===== *)
theory Request_Snapshots
  imports Billing_State "HOL-Library.AList"
begin

text \<open>
  The requests to Stripe that are frozen in the database before they are sent
  (typescript/src/stripe-request-snapshots.ts): how a snapshot is built, what a stored or returned value
  must be to count as one, and the context a plan change reads back from it. A snapshot is JSON: it has a
  text, which bounds its size and must show no secret.

  The URL parser of the platform (WHATWG \<open>URL\<close>) is the parameter \<open>parseUrl\<close>: \<open>None\<close> where the constructor
  throws. The text of a Number that is no integer is not modelled (it is written as \<open>null\<close>): no such
  Number is accepted anywhere in a snapshot.
\<close>

section \<open>JSON\<close>

text \<open>The escapes of \<open>JSON.stringify\<close> on Latin-1.\<close>

definition hex_digit :: "nat \<Rightarrow> char" where
  "hex_digit d = (if d < 10 then char_of (48 + d) else char_of (87 + d))"

definition escape_char :: "char \<Rightarrow> string" where
  "escape_char c =
     (if code c = 34 \<or> code c = 92 then [char_of (92::nat), c]
      else if code c = 8 then [char_of (92::nat), CHR ''b'']
      else if code c = 9 then [char_of (92::nat), CHR ''t'']
      else if code c = 10 then [char_of (92::nat), CHR ''n'']
      else if code c = 12 then [char_of (92::nat), CHR ''f'']
      else if code c = 13 then [char_of (92::nat), CHR ''r'']
      else if code c < 32 then [char_of (92::nat), CHR ''u'', CHR ''0'', CHR ''0'', hex_digit (code c div 16), hex_digit (code c mod 16)]
      else [c])"

definition json_string :: "string \<Rightarrow> string" where
  "json_string s = char_of (34::nat) # concat (map escape_char s) @ [char_of (34::nat)]"

fun comma_separated :: "string list \<Rightarrow> string" where
  "comma_separated [] = []"
| "comma_separated [t] = t"
| "comma_separated (t # ts) = t @ '','' @ comma_separated ts"

text \<open>
  \<open>JSON.stringify\<close>: an exception for a BigInt, no text for undefined. In an array undefined is written
  as null; in an object its field is left out. A repeated key stands for its first binding.
\<close>

definition field_texts :: "(string \<times> string option) list \<Rightarrow> string list" where
  "field_texts entries = List.map_filter (\<lambda>(k, t). case t of None \<Rightarrow> None | Some w \<Rightarrow> Some (json_string k @ '':'' @ w)) entries"

definition all_texts :: "'a result list \<Rightarrow> 'a list result" where
  "all_texts rs = map_result id rs"

primrec stringify :: "jsval \<Rightarrow> string option result" where
  "stringify JUndef = Inr None"
| "stringify JNull = Inr (Some ''null'')"
| "stringify (JBool b) = Inr (Some (if b then ''true'' else ''false''))"
| "stringify (JInt n) = Inr (Some (show_int n))"
| "stringify JReal = Inr (Some ''null'')"
| "stringify (JBig n) = Inl (TypeError ''Do not know how to serialize a BigInt'')"
| "stringify (JStr s) = Inr (Some (json_string s))"
| "stringify (JArr vs) =
     bind_result (all_texts (map stringify vs)) (\<lambda>ts.
       Inr (Some (''['' @ comma_separated (map (\<lambda>t. case t of None \<Rightarrow> ''null'' | Some w \<Rightarrow> w) ts) @ '']'')))"
| "stringify (JObj plain fs) =
     bind_result (all_texts (map (\<lambda>(k, r). bind_result r (\<lambda>t. Inr (k, t))) (AList.clearjunk (map (map_prod id stringify) fs))))
       (\<lambda>ts. Inr (Some (''{'' @ comma_separated (field_texts ts) @ ''}'')))"

text \<open>\<open>cloneJson\<close>: the value that the text denotes, as data.\<close>

definition null_for_undefined :: "jsval \<Rightarrow> jsval" where
  "null_for_undefined v = (if v = JUndef then JNull else v)"

definition kept_fields :: "(string \<times> jsval) list \<Rightarrow> (string \<times> jsval) list" where
  "kept_fields fs = filter (\<lambda>(k, v). v \<noteq> JUndef) (AList.clearjunk fs)"

primrec cloneJson :: "jsval \<Rightarrow> jsval" where
  "cloneJson JUndef = JUndef"
| "cloneJson JNull = JNull"
| "cloneJson (JBool b) = JBool b"
| "cloneJson (JInt n) = JInt n"
| "cloneJson JReal = JReal"
| "cloneJson (JBig n) = JBig n"
| "cloneJson (JStr s) = JStr s"
| "cloneJson (JArr vs) = JArr (map null_for_undefined (map cloneJson vs))"
| "cloneJson (JObj plain fs) = JObj True (kept_fields (map (map_prod id cloneJson) fs))"

text \<open>\<open>jsonEqual\<close>: objects are compared by their sets of keys and field by field.\<close>

definition same_keys :: "(string \<times> 'a) list \<Rightarrow> (string \<times> 'b) list \<Rightarrow> bool" where
  "same_keys fs gs \<longleftrightarrow> set (map fst fs) = set (map fst gs)"

primrec jsonEqual :: "jsval \<Rightarrow> jsval \<Rightarrow> bool" where
  "jsonEqual JUndef = (\<lambda>r. r = JUndef)"
| "jsonEqual JNull = (\<lambda>r. r = JNull)"
| "jsonEqual (JBool b) = (\<lambda>r. r = JBool b)"
| "jsonEqual (JInt n) = (\<lambda>r. r = JInt n)"
| "jsonEqual JReal = (\<lambda>r. r = JReal)"
| "jsonEqual (JBig n) = (\<lambda>r. r = JBig n)"
| "jsonEqual (JStr s) = (\<lambda>r. r = JStr s)"
| "jsonEqual (JArr vs) = (\<lambda>r. case r of JArr ws \<Rightarrow> list_all2 (\<lambda>f w. f w) (map jsonEqual vs) ws | _ \<Rightarrow> False)"
| "jsonEqual (JObj plain fs) = (\<lambda>r. case r of
     JObj plain' gs \<Rightarrow> same_keys fs gs \<and>
       list_all (\<lambda>(k, f). f (prop_get gs k)) (AList.clearjunk (map (map_prod id jsonEqual) fs))
   | _ \<Rightarrow> False)"


section \<open>The readers of a snapshot\<close>

definition PLAN_CHANGE_SNAPSHOT_SCHEMA :: string where "PLAN_CHANGE_SNAPSHOT_SCHEMA = ''stripe.plan_change.request''"
definition PLAN_CHANGE_SNAPSHOT_VERSION :: int where "PLAN_CHANGE_SNAPSHOT_VERSION = 1"
definition CHECKOUT_SNAPSHOT_SCHEMA :: string where "CHECKOUT_SNAPSHOT_SCHEMA = ''stripe.checkout.session.create''"
definition CHECKOUT_SNAPSHOT_VERSION :: int where "CHECKOUT_SNAPSHOT_VERSION = 1"

definition SECRET_MARKERS :: "string list" where
  "SECRET_MARKERS = [''sk_test_'', ''sk_live_'', ''rk_test_'', ''rk_live_'', ''whsec_'']"

definition MAX_STRIPE_TIMESTAMP :: int where "MAX_STRIPE_TIMESTAMP = 253402300799"
definition MAX_STRIPE_AMOUNT :: int where "MAX_STRIPE_AMOUNT = 99999999"

definition shows_secret :: "string \<Rightarrow> bool" where
  "shows_secret s \<longleftrightarrow> list_ex (\<lambda>marker. includes_str marker s) SECRET_MARKERS"

definition refuse_snapshot :: "string \<Rightarrow> 'a result" where
  "refuse_snapshot message = Inl (StripeRequestSnapshotError message)"

text \<open>
  \<open>exactRecord\<close>: the sorted keys of the object are the sorted keys expected. Keys are distinct, so the
  sorted lists agree when the sets do.
\<close>

definition exactRecord :: "jsval \<Rightarrow> string list \<Rightarrow> string \<Rightarrow> jsval result" where
  "exactRecord value keys field =
     (if isPlainRecord value \<and> set (object_keys value) = set keys then Inr value
      else refuse_snapshot (field @ '' has an unsupported shape''))"

definition textValue :: "jsval \<Rightarrow> string \<Rightarrow> nat \<Rightarrow> string result" where
  "textValue value field maximum =
     (case value of
        JStr s \<Rightarrow>
          if \<not> visible_text s maximum then refuse_snapshot (field @ '' is invalid'')
          else if shows_secret s then refuse_snapshot (field @ '' contains a prohibited secret marker'')
          else Inr s
      | _ \<Rightarrow> refuse_snapshot (field @ '' is invalid''))"

definition snapshotStripeId :: "jsval \<Rightarrow> string \<Rightarrow> string \<Rightarrow> string result" where
  "snapshotStripeId value prefix field =
     bind_result (textValue value field 255) (\<lambda>s.
       if starts_with prefix s then Inr s else refuse_snapshot (field @ '' is invalid''))"

definition boundedInteger :: "jsval \<Rightarrow> string \<Rightarrow> int \<Rightarrow> int result" where
  "boundedInteger value field maximum =
     (case value of
        JInt n \<Rightarrow> if isSafeInteger value \<and> 0 \<le> n \<and> n \<le> maximum then Inr n else refuse_snapshot (field @ '' is invalid'')
      | _ \<Rightarrow> refuse_snapshot (field @ '' is invalid''))"

definition stripeTimestamp :: "jsval \<Rightarrow> string \<Rightarrow> int result" where
  "stripeTimestamp value field = boundedInteger value field MAX_STRIPE_TIMESTAMP"

definition stripeAmount :: "jsval \<Rightarrow> string \<Rightarrow> int result" where
  "stripeAmount value field = boundedInteger value field MAX_STRIPE_AMOUNT"

definition bigintNumber :: "int \<Rightarrow> string \<Rightarrow> int result" where
  "bigintNumber n field =
     (if n < 0 \<or> n > js_max_safe_integer then refuse_snapshot (field @ '' is invalid'') else Inr n)"

definition bigintAmount :: "int \<Rightarrow> string \<Rightarrow> int result" where
  "bigintAmount n field =
     (if n < 0 \<or> n > MAX_STRIPE_AMOUNT then refuse_snapshot (field @ '' is invalid'') else Inr n)"

record parsed_url =
  url_protocol :: string
  url_host :: string
  url_username :: string
  url_password :: string

type_synonym url_parser = "string \<Rightarrow> parsed_url option"

definition httpUrl :: "url_parser \<Rightarrow> jsval \<Rightarrow> string \<Rightarrow> string result" where
  "httpUrl parseUrl value field =
     bind_result (textValue value field 2048) (\<lambda>s.
       case parseUrl s of
         None \<Rightarrow> refuse_snapshot (field @ '' is not an origin-safe HTTP(S) URL'')
       | Some u \<Rightarrow>
           if (url_protocol u \<noteq> ''http:'' \<and> url_protocol u \<noteq> ''https:'') \<or> url_host u = [] \<or>
              url_username u \<noteq> [] \<or> url_password u \<noteq> []
           then refuse_snapshot (field @ '' is not an origin-safe HTTP(S) URL'')
           else Inr s)"

definition safeJson :: "jsval \<Rightarrow> unit result" where
  "safeJson value =
     (case stringify value of
        Inr (Some encoded) \<Rightarrow>
          if byteLength encoded > 32 * 1024 then refuse_snapshot ''request snapshot exceeds 32 KiB''
          else if shows_secret encoded then refuse_snapshot ''request snapshot contains a prohibited secret marker''
          else Inr ()
      | _ \<Rightarrow> refuse_snapshot ''request snapshot is not JSON serializable'')"

definition currencyText :: "jsval \<Rightarrow> string \<Rightarrow> string \<Rightarrow> string result" where
  "currencyText value field message =
     bind_result (textValue value field 3) (\<lambda>currency.
       if length currency \<noteq> 3 \<or> currency \<noteq> toLowerCase currency then refuse_snapshot message else Inr currency)"

section \<open>Checkout\<close>

datatype checkout_kind = SubscriptionCheckout | PackCheckout

definition checkout_kind_text :: "checkout_kind \<Rightarrow> string" where
  "checkout_kind_text k = (case k of SubscriptionCheckout \<Rightarrow> ''subscription'' | PackCheckout \<Rightarrow> ''credit_pack'')"

record CheckoutSnapshotExpectation =
  x_kind :: "checkout_kind option"
  x_accountId :: "string option"
  x_requestIdentity :: "string option"
  x_lookupKey :: "string option"
  x_currency :: "string option"
  x_unitAmount :: "int option"
  x_interval :: "BillingInterval option"
  x_offeringKey :: "string option"
  x_expiresAt :: "int option"
  x_customerId :: "string option option"
  x_packCredits :: "string option"
  x_expiresDays :: "int option"
  x_productLine :: "string option"

definition no_expectation :: CheckoutSnapshotExpectation where
  "no_expectation =
     \<lparr>x_kind = None, x_accountId = None, x_requestIdentity = None, x_lookupKey = None, x_currency = None,
      x_unitAmount = None, x_interval = None, x_offeringKey = None, x_expiresAt = None, x_customerId = None,
      x_packCredits = None, x_expiresDays = None, x_productLine = None\<rparr>"

definition CHECKOUT_FIELDS :: "string list" where
  "CHECKOUT_FIELDS =
     [''schema'', ''version'', ''kind'', ''request_api_version'', ''idempotency_key'', ''customer_mode'',
      ''resolved_price'', ''params'']"

definition PRICE_FIELDS :: "string list" where
  "PRICE_FIELDS =
     [''price_id'', ''lookup_key'', ''currency'', ''unit_amount'', ''price_type'', ''interval'', ''product_line'',
      ''offering_key'']"

record checkout_evidence =
  ce_price :: string
  ce_lookup :: string
  ce_currency :: string
  ce_amount :: int
  ce_line :: string
  ce_offering :: string
  ce_interval :: jsval

definition checkoutKind :: "jsval \<Rightarrow> checkout_kind result" where
  "checkoutKind v =
     (if v = JStr ''subscription'' then Inr SubscriptionCheckout
      else if v = JStr ''credit_pack'' then Inr PackCheckout
      else refuse_snapshot ''unsupported Checkout request snapshot kind'')"

text \<open>The customer mode: whether the Customer exists already.\<close>

definition customerExists :: "jsval \<Rightarrow> bool result" where
  "customerExists v =
     (if v = JStr ''existing'' then Inr True
      else if v = JStr ''create'' then Inr False
      else refuse_snapshot ''Checkout customer mode is invalid'')"

definition priceEvidence :: "checkout_kind \<Rightarrow> jsval \<Rightarrow> checkout_evidence result" where
  "priceEvidence kind value =
     bind_result (exactRecord value PRICE_FIELDS ''Checkout resolved Price evidence'') (\<lambda>evidence.
     bind_result (snapshotStripeId (jprop evidence ''price_id'') ''price_'' ''Checkout Price id'') (\<lambda>priceId.
     bind_result (textValue (jprop evidence ''lookup_key'') ''Checkout lookup key'' 200) (\<lambda>lookup.
     bind_result (currencyText (jprop evidence ''currency'') ''Checkout currency'' ''Checkout currency is invalid'') (\<lambda>currency.
     bind_result (stripeAmount (jprop evidence ''unit_amount'') ''Checkout unit amount'') (\<lambda>amount.
     bind_result (textValue (jprop evidence ''product_line'') ''product line'' 200) (\<lambda>line.
     bind_result (textValue (jprop evidence ''offering_key'') ''offering key'' 64) (\<lambda>offering.
       let interval = jprop evidence ''interval'' in
       if kind = SubscriptionCheckout \<and>
          (jprop evidence ''price_type'' \<noteq> JStr ''recurring'' \<or> (interval \<noteq> JStr ''month'' \<and> interval \<noteq> JStr ''year''))
       then refuse_snapshot ''subscription Price evidence is invalid''
       else if kind = PackCheckout \<and> (jprop evidence ''price_type'' \<noteq> JStr ''one_time'' \<or> interval \<noteq> JNull)
       then refuse_snapshot ''credit-pack Price evidence is invalid''
       else Inr \<lparr>ce_price = priceId, ce_lookup = lookup, ce_currency = currency, ce_amount = amount,
                 ce_line = line, ce_offering = offering, ce_interval = interval\<rparr>)))))))"

definition dataBranch :: "checkout_kind \<Rightarrow> string" where
  "dataBranch kind = (case kind of SubscriptionCheckout \<Rightarrow> ''subscription_data'' | PackCheckout \<Rightarrow> ''payment_intent_data'')"

definition paramKeys :: "checkout_kind \<Rightarrow> bool \<Rightarrow> string list" where
  "paramKeys kind existing =
     [''mode'', ''client_reference_id'', ''line_items'', ''success_url'', ''cancel_url'', ''expires_at'', ''metadata'',
      dataBranch kind] @
     (if kind = PackCheckout then [''payment_method_types''] else []) @
     (if existing then [''customer''] else if kind = PackCheckout then [''customer_creation''] else [])"

text \<open>The one item that is bought.\<close>

definition line_item :: "string \<Rightarrow> jsval" where
  "line_item price = JArr [JObj True [(''price'', JStr price), (''quantity'', JInt 1)]]"

record checkout_params =
  cp_params :: jsval
  cp_account :: string
  cp_expires :: int
  cp_customer :: "string option"
  cp_metadata :: jsval

definition checkoutCustomer :: "checkout_kind \<Rightarrow> bool \<Rightarrow> jsval \<Rightarrow> string option result" where
  "checkoutCustomer kind existing params =
     (if existing
      then bind_result (snapshotStripeId (jprop params ''customer'') ''cus_'' ''Checkout Customer id'') (\<lambda>c. Inr (Some c))
      else if kind = PackCheckout \<and> jprop params ''customer_creation'' \<noteq> JStr ''always''
      then refuse_snapshot ''credit-pack Customer create mode drifted''
      else Inr None)"

definition checkoutParams ::
  "url_parser \<Rightarrow> checkout_kind \<Rightarrow> bool \<Rightarrow> string \<Rightarrow> jsval \<Rightarrow> checkout_params result"
where
  "checkoutParams parseUrl kind existing priceId value =
     bind_result (exactRecord value (paramKeys kind existing) ''Checkout Session create params'') (\<lambda>params.
     bind_result (textValue (jprop params ''client_reference_id'') ''Checkout account id'' 64) (\<lambda>accountId.
     if \<not> jsonEqual (jprop params ''line_items'') (line_item priceId)
     then refuse_snapshot ''Checkout line item drifted''
     else bind_result (httpUrl parseUrl (jprop params ''success_url'') ''Checkout success URL'') (\<lambda>_.
     bind_result (httpUrl parseUrl (jprop params ''cancel_url'') ''Checkout cancel URL'') (\<lambda>_.
     bind_result (stripeTimestamp (jprop params ''expires_at'') ''Checkout expiry'') (\<lambda>expiresAt.
     bind_result (checkoutCustomer kind existing params) (\<lambda>customer.
     bind_result (exactRecord (jprop params (dataBranch kind)) [''metadata''] (dataBranch kind)) (\<lambda>wrapper.
     if \<not> jsonEqual (jprop params ''metadata'') (jprop wrapper ''metadata'')
     then refuse_snapshot ''Checkout metadata copies drifted''
     else Inr \<lparr>cp_params = params, cp_account = accountId, cp_expires = expiresAt, cp_customer = customer,
               cp_metadata = jprop params ''metadata''\<rparr>)))))))"

definition subscriptionMetadataOf :: "string \<Rightarrow> string \<Rightarrow> string \<Rightarrow> jsval" where
  "subscriptionMetadataOf claimToken accountId productLine =
     JObj True [(''claim_token'', JStr claimToken), (''account_id'', JStr accountId), (''product_line'', JStr productLine)]"

definition packMetadataOf ::
  "string \<Rightarrow> string \<Rightarrow> string \<Rightarrow> string \<Rightarrow> string \<Rightarrow> string \<Rightarrow> string \<Rightarrow> string \<Rightarrow> string \<Rightarrow> jsval"
where
  "packMetadataOf productLine orderId accountId packKey packCredits priceAmount currency expiresDays lookup =
     JObj True [(''billing_kind'', JStr ''credit_pack''), (''pack_schema_version'', JStr ''1''),
       (''product_line'', JStr productLine), (''credit_pack_order_id'', JStr orderId), (''account_id'', JStr accountId),
       (''pack_key'', JStr packKey), (''pack_credits'', JStr packCredits), (''price_amount'', JStr priceAmount),
       (''currency'', JStr currency), (''expires_days'', JStr expiresDays), (''lookup_key'', JStr lookup)]"

text \<open>The identity of the request: the claim token or the order, bound to the idempotency key and the metadata.\<close>

definition subscriptionIdentity :: "string \<Rightarrow> checkout_evidence \<Rightarrow> checkout_params \<Rightarrow> (string \<times> string) result" where
  "subscriptionIdentity key e p =
     (let prefix = ''checkout:'' @ cp_account p @ '':'' in
      if \<not> starts_with prefix key then refuse_snapshot ''Checkout Stripe idempotency identity drifted''
      else
        let requestIdentity = drop (length prefix) key in
        if jprop (cp_params p) ''mode'' \<noteq> JStr ''subscription'' \<or>
           \<not> jsonEqual (cp_metadata p) (subscriptionMetadataOf requestIdentity (cp_account p) (ce_line e))
        then refuse_snapshot ''subscription Checkout metadata drifted''
        else Inr (requestIdentity, prefix @ requestIdentity))"

definition packIdentity :: "checkout_evidence \<Rightarrow> checkout_params \<Rightarrow> (string \<times> string) result" where
  "packIdentity e p =
     (if jprop (cp_params p) ''mode'' \<noteq> JStr ''payment'' \<or>
         \<not> jsonEqual (jprop (cp_params p) ''payment_method_types'') (JArr [JStr ''card'']) \<or> \<not> isPlainRecord (cp_metadata p)
      then refuse_snapshot ''credit-pack Checkout payment policy drifted''
      else bind_result (textValue (jprop (cp_metadata p) ''credit_pack_order_id'') ''credit-pack order id'' 64) (\<lambda>requestIdentity.
      bind_result (textValue (jprop (cp_metadata p) ''pack_credits'') ''pack credits'' 64) (\<lambda>packCredits.
      bind_result (textValue (jprop (cp_metadata p) ''expires_days'') ''pack expiry'' 16) (\<lambda>expiresDays.
        if \<not> jsonEqual (cp_metadata p)
             (packMetadataOf (ce_line e) requestIdentity (cp_account p) (ce_offering e) packCredits
               (show_int (ce_amount e)) (ce_currency e) expiresDays (ce_lookup e))
        then refuse_snapshot ''credit-pack Checkout metadata drifted''
        else Inr (requestIdentity, ''credit-pack:'' @ requestIdentity)))))"

definition opt_result :: "('a \<Rightarrow> 'b result) \<Rightarrow> 'a option \<Rightarrow> 'b option result" where
  "opt_result f v = (case v of None \<Rightarrow> Inr None | Some x \<Rightarrow> bind_result (f x) (\<lambda>y. Inr (Some y)))"

definition differs :: "'a option \<Rightarrow> 'a \<Rightarrow> bool" where
  "differs expected observed \<longleftrightarrow> (case expected of None \<Rightarrow> False | Some e \<Rightarrow> e \<noteq> observed)"

text \<open>The comparisons with what the caller expects, in the order of the source.\<close>

definition checkoutComparisons ::
  "CheckoutSnapshotExpectation \<Rightarrow> int option \<Rightarrow> int option \<Rightarrow> checkout_kind \<Rightarrow> checkout_evidence \<Rightarrow> checkout_params \<Rightarrow>
   string \<Rightarrow> (bool \<times> string) list"
where
  "checkoutComparisons x unitAmount expiresAt kind e p requestIdentity =
     [(differs (x_kind x) kind, ''kind''), (differs (x_accountId x) (cp_account p), ''account''),
      (differs (x_requestIdentity x) requestIdentity, ''request identity''),
      (differs (x_lookupKey x) (ce_lookup e), ''lookup key''), (differs (x_currency x) (ce_currency e), ''currency''),
      (differs unitAmount (ce_amount e), ''unit amount''),
      (differs (map_option (\<lambda>i. JStr (interval_text i)) (x_interval x)) (ce_interval e), ''interval''),
      (differs (x_offeringKey x) (ce_offering e), ''offering key''), (differs (x_productLine x) (ce_line e), ''product line''),
      (differs expiresAt (cp_expires p), ''expiry'')]"

definition customerRefusal :: "CheckoutSnapshotExpectation \<Rightarrow> bool \<Rightarrow> checkout_params \<Rightarrow> unit result" where
  "customerRefusal x existing p =
     (case x_customerId x of
        None \<Rightarrow> Inr ()
      | Some expectedCustomer \<Rightarrow>
          if expectedCustomer \<noteq> cp_customer p then refuse_snapshot ''Checkout Customer drifted''
          else if expectedCustomer = None \<and> existing then refuse_snapshot ''Checkout Customer mode drifted''
          else Inr ())"

definition packRefusal :: "CheckoutSnapshotExpectation \<Rightarrow> checkout_kind \<Rightarrow> checkout_params \<Rightarrow> unit result" where
  "packRefusal x kind p =
     bind_result
       (case x_packCredits x of
          None \<Rightarrow> Inr ()
        | Some expectedCredits \<Rightarrow>
            if kind \<noteq> PackCheckout \<or> \<not> isPlainRecord (cp_metadata p)
            then refuse_snapshot ''Checkout pack credits drifted''
            else bind_result (textValue (jprop (cp_metadata p) ''pack_credits'') ''pack credits'' 64) (\<lambda>observed.
              if observed \<noteq> expectedCredits then refuse_snapshot ''Checkout pack credits drifted'' else Inr ())) (\<lambda>_.
     case x_expiresDays x of
       None \<Rightarrow> Inr ()
     | Some days \<Rightarrow>
         if kind \<noteq> PackCheckout \<or> \<not> isSafeInteger (JInt days) \<or> days \<le> 0 \<or> \<not> isPlainRecord (cp_metadata p) \<or>
            jprop (cp_metadata p) ''expires_days'' \<noteq> JStr (show_int days)
         then refuse_snapshot ''Checkout pack expiry drifted'' else Inr ())"

definition checkExpectations ::
  "CheckoutSnapshotExpectation \<Rightarrow> checkout_kind \<Rightarrow> bool \<Rightarrow> checkout_evidence \<Rightarrow> checkout_params \<Rightarrow> string \<Rightarrow> unit result"
where
  "checkExpectations x kind existing e p requestIdentity =
     bind_result (opt_result (\<lambda>n. bigintAmount n ''expected unit amount'') (x_unitAmount x)) (\<lambda>unitAmount.
     bind_result (opt_result (\<lambda>n. bigintNumber n ''expected expiry'') (x_expiresAt x)) (\<lambda>expiresAt.
       case find fst (checkoutComparisons x unitAmount expiresAt kind e p requestIdentity) of
         Some (_, field) \<Rightarrow> refuse_snapshot (''Checkout '' @ field @ '' drifted'')
       | None \<Rightarrow> bind_result (customerRefusal x existing p) (\<lambda>_. packRefusal x kind p)))"

text \<open>What a value holds that is a snapshot at all, before it is compared with expectations.\<close>

definition checkoutContents ::
  "url_parser \<Rightarrow> jsval \<Rightarrow> (checkout_kind \<times> bool \<times> checkout_evidence \<times> checkout_params \<times> string) result"
where
  "checkoutContents parseUrl value =
     bind_result (safeJson value) (\<lambda>_.
     bind_result (exactRecord value CHECKOUT_FIELDS ''Checkout request snapshot'') (\<lambda>root.
     if jprop root ''schema'' \<noteq> JStr CHECKOUT_SNAPSHOT_SCHEMA \<or> jprop root ''version'' \<noteq> JInt CHECKOUT_SNAPSHOT_VERSION
     then refuse_snapshot ''unsupported Checkout request snapshot version''
     else bind_result (checkoutKind (jprop root ''kind'')) (\<lambda>kind.
     bind_result (textValue (jprop root ''request_api_version'') ''request API version'' 64) (\<lambda>_.
     bind_result (textValue (jprop root ''idempotency_key'') ''Stripe idempotency key'' 255) (\<lambda>idempotencyKey.
     bind_result (customerExists (jprop root ''customer_mode'')) (\<lambda>existing.
     bind_result (priceEvidence kind (jprop root ''resolved_price'')) (\<lambda>e.
     bind_result (checkoutParams parseUrl kind existing (ce_price e) (jprop root ''params'')) (\<lambda>p.
     bind_result (if kind = SubscriptionCheckout then subscriptionIdentity idempotencyKey e p else packIdentity e p)
       (\<lambda>(requestIdentity, derivedKey).
     if idempotencyKey \<noteq> derivedKey then refuse_snapshot ''Checkout Stripe idempotency identity drifted''
     else Inr (kind, existing, e, p, requestIdentity))))))))))"

definition validateCheckoutRequestSnapshot ::
  "url_parser \<Rightarrow> jsval \<Rightarrow> CheckoutSnapshotExpectation \<Rightarrow> jsval result"
where
  "validateCheckoutRequestSnapshot parseUrl value x =
     bind_result (checkoutContents parseUrl value) (\<lambda>(kind, existing, e, p, requestIdentity).
     bind_result (checkExpectations x kind existing e p requestIdentity) (\<lambda>_. Inr (cloneJson value)))"

section \<open>Building a Checkout snapshot\<close>

record SubscriptionCheckoutInput =
  sc_accountId :: string
  sc_claimToken :: string
  sc_customerId :: "string option"
  sc_priceId :: string
  sc_lookupKey :: string
  sc_currency :: string
  sc_unitAmount :: int
  sc_interval :: BillingInterval
  sc_planKey :: string
  sc_productLine :: string
  sc_successUrl :: string
  sc_cancelUrl :: string
  sc_expiresAt :: int
  sc_requestApiVersion :: string

record PackCheckoutInput =
  kc_orderId :: string
  kc_accountId :: string
  kc_customerId :: "string option"
  kc_priceId :: string
  kc_lookupKey :: string
  kc_currency :: string
  kc_unitAmount :: int
  kc_packKey :: string
  kc_packCredits :: string
  kc_expiresDays :: int
  kc_productLine :: string
  kc_successUrl :: string
  kc_cancelUrl :: string
  kc_expiresAt :: int
  kc_requestApiVersion :: string

definition customer_mode_text :: "string option \<Rightarrow> jsval" where
  "customer_mode_text customer = (case customer of None \<Rightarrow> JStr ''create'' | Some _ \<Rightarrow> JStr ''existing'')"

definition subscription_params :: "SubscriptionCheckoutInput \<Rightarrow> int \<Rightarrow> jsval" where
  "subscription_params i expiresAt =
     (let metadata = subscriptionMetadataOf (sc_claimToken i) (sc_accountId i) (sc_productLine i) in
      JObj True
        ([(''mode'', JStr ''subscription''), (''client_reference_id'', JStr (sc_accountId i)),
          (''line_items'', line_item (sc_priceId i)), (''subscription_data'', JObj True [(''metadata'', metadata)]),
          (''success_url'', JStr (sc_successUrl i)), (''cancel_url'', JStr (sc_cancelUrl i)),
          (''expires_at'', JInt expiresAt), (''metadata'', metadata)] @
         (case sc_customerId i of None \<Rightarrow> [] | Some c \<Rightarrow> [(''customer'', JStr c)])))"

definition subscription_snapshot :: "SubscriptionCheckoutInput \<Rightarrow> int \<Rightarrow> int \<Rightarrow> jsval" where
  "subscription_snapshot i expiresAt unitAmount =
     JObj True [(''schema'', JStr CHECKOUT_SNAPSHOT_SCHEMA), (''version'', JInt CHECKOUT_SNAPSHOT_VERSION),
       (''kind'', JStr ''subscription''), (''request_api_version'', JStr (sc_requestApiVersion i)),
       (''idempotency_key'', JStr (''checkout:'' @ sc_accountId i @ '':'' @ sc_claimToken i)),
       (''customer_mode'', customer_mode_text (sc_customerId i)),
       (''resolved_price'', JObj True [(''price_id'', JStr (sc_priceId i)), (''lookup_key'', JStr (sc_lookupKey i)),
          (''currency'', JStr (sc_currency i)), (''unit_amount'', JInt unitAmount), (''price_type'', JStr ''recurring''),
          (''interval'', JStr (interval_text (sc_interval i))), (''product_line'', JStr (sc_productLine i)),
          (''offering_key'', JStr (sc_planKey i))]),
       (''params'', subscription_params i expiresAt)]"

definition buildSubscriptionCheckoutRequestSnapshot :: "url_parser \<Rightarrow> SubscriptionCheckoutInput \<Rightarrow> jsval result" where
  "buildSubscriptionCheckoutRequestSnapshot parseUrl i =
     bind_result (bigintNumber (sc_expiresAt i) ''Checkout expiry'') (\<lambda>expiresAt.
     bind_result (bigintAmount (sc_unitAmount i) ''Checkout unit amount'') (\<lambda>unitAmount.
       validateCheckoutRequestSnapshot parseUrl (subscription_snapshot i expiresAt unitAmount) no_expectation))"

definition pack_params :: "PackCheckoutInput \<Rightarrow> int \<Rightarrow> jsval" where
  "pack_params i expiresAt =
     (let metadata = packMetadataOf (kc_productLine i) (kc_orderId i) (kc_accountId i) (kc_packKey i) (kc_packCredits i)
            (show_int (kc_unitAmount i)) (kc_currency i) (show_int (kc_expiresDays i)) (kc_lookupKey i) in
      JObj True
        ([(''mode'', JStr ''payment''), (''payment_method_types'', JArr [JStr ''card'']),
          (''client_reference_id'', JStr (kc_accountId i)), (''line_items'', line_item (kc_priceId i)),
          (''payment_intent_data'', JObj True [(''metadata'', metadata)]),
          (''success_url'', JStr (kc_successUrl i)), (''cancel_url'', JStr (kc_cancelUrl i)),
          (''expires_at'', JInt expiresAt), (''metadata'', metadata)] @
         (case kc_customerId i of None \<Rightarrow> [(''customer_creation'', JStr ''always'')] | Some c \<Rightarrow> [(''customer'', JStr c)])))"

definition pack_snapshot :: "PackCheckoutInput \<Rightarrow> int \<Rightarrow> int \<Rightarrow> jsval" where
  "pack_snapshot i expiresAt unitAmount =
     JObj True [(''schema'', JStr CHECKOUT_SNAPSHOT_SCHEMA), (''version'', JInt CHECKOUT_SNAPSHOT_VERSION),
       (''kind'', JStr ''credit_pack''), (''request_api_version'', JStr (kc_requestApiVersion i)),
       (''idempotency_key'', JStr (''credit-pack:'' @ kc_orderId i)),
       (''customer_mode'', customer_mode_text (kc_customerId i)),
       (''resolved_price'', JObj True [(''price_id'', JStr (kc_priceId i)), (''lookup_key'', JStr (kc_lookupKey i)),
          (''currency'', JStr (kc_currency i)), (''unit_amount'', JInt unitAmount), (''price_type'', JStr ''one_time''),
          (''interval'', JNull), (''product_line'', JStr (kc_productLine i)), (''offering_key'', JStr (kc_packKey i))]),
       (''params'', pack_params i expiresAt)]"

definition buildCreditPackCheckoutRequestSnapshot :: "url_parser \<Rightarrow> PackCheckoutInput \<Rightarrow> jsval result" where
  "buildCreditPackCheckoutRequestSnapshot parseUrl i =
     bind_result (bigintNumber (kc_expiresAt i) ''Checkout expiry'') (\<lambda>expiresAt.
     bind_result (bigintAmount (kc_unitAmount i) ''Checkout unit amount'') (\<lambda>unitAmount.
       validateCheckoutRequestSnapshot parseUrl (pack_snapshot i expiresAt unitAmount) no_expectation))"

section \<open>Plan changes\<close>

record PlanChangeContext =
  x_subscriptionId :: string
  x_subscriptionItemId :: string
  x_currentPriceId :: string
  x_currentLookupKey :: string
  x_targetPriceId :: string
  x_targetInterval :: BillingInterval
  x_currentPeriodStart :: int
  x_currentPeriodEnd :: int
  x_scheduleId :: "string option"
  x_subscriptionStatus :: string
  x_cancelAtPeriodEnd :: bool
  x_pendingUpdate :: bool
  x_pendingExpiresAt :: "int option"
  x_recoveryUrl :: "string option"
  x_clientSecret :: "string option"

record PlanChangeSnapshotInput =
  pi_context :: PlanChangeContext
  pi_immediate :: bool
  pi_policy :: TransitionPolicy
  pi_prorationDate :: "int option"
  pi_idempotencyKey :: string
  pi_requestApiVersion :: string
  pi_productLine :: string
  pi_sourceLookupKey :: string
  pi_targetLookupKey :: string
  pi_sourcePlanKey :: string
  pi_targetPlanKey :: string
  pi_sourceCurrency :: string
  pi_targetCurrency :: string
  pi_sourceUnitAmount :: int
  pi_targetUnitAmount :: int

record PlanChangeSnapshotExpectation =
  y_idempotencyKey :: "string option"
  y_subscriptionId :: "string option"
  y_immediate :: "bool option"
  y_policy :: "TransitionPolicy option"

definition no_change_expectation :: PlanChangeSnapshotExpectation where
  "no_change_expectation = \<lparr>y_idempotencyKey = None, y_subscriptionId = None, y_immediate = None, y_policy = None\<rparr>"

definition policy_text :: "TransitionPolicy \<Rightarrow> string" where
  "policy_text p = (case p of full_period_reset \<Rightarrow> ''full_period_reset'' | prorated_delta \<Rightarrow> ''prorated_delta'')"

definition CHANGE_FIELDS :: "string list" where
  "CHANGE_FIELDS =
     [''schema'', ''version'', ''kind'', ''request_api_version'', ''idempotency_key'', ''product_line'', ''context'',
      ''price_evidence'', ''policy'', ''params'']"

definition CONTEXT_FIELDS :: "string list" where
  "CONTEXT_FIELDS =
     [''subscription_id'', ''subscription_item_id'', ''current_price_id'', ''current_lookup_key'', ''target_price_id'',
      ''target_interval'', ''current_period_start'', ''current_period_end'', ''schedule_id'', ''subscription_status'',
      ''cancel_at_period_end'', ''pending_update'']"

definition EVIDENCE_FIELDS :: "string list" where
  "EVIDENCE_FIELDS =
     [''source_price_id'', ''source_lookup_key'', ''source_plan_key'', ''source_currency'', ''source_unit_amount'',
      ''target_price_id'', ''target_lookup_key'', ''target_plan_key'', ''target_currency'', ''target_unit_amount'']"

definition changeKind :: "jsval \<Rightarrow> bool result" where
  "changeKind v =
     (if v = JStr ''plan_change_immediate'' then Inr True
      else if v = JStr ''plan_change_schedule'' then Inr False
      else refuse_snapshot ''unsupported plan-change request snapshot kind'')"

definition policyOf :: "jsval \<Rightarrow> TransitionPolicy result" where
  "policyOf v =
     (if v = JStr ''full_period_reset'' then Inr full_period_reset
      else if v = JStr ''prorated_delta'' then Inr prorated_delta
      else refuse_snapshot ''plan-change policy is invalid'')"

definition intervalOf :: "jsval \<Rightarrow> BillingInterval result" where
  "intervalOf v =
     (if v = JStr ''month'' then Inr Month else if v = JStr ''year'' then Inr Year
      else refuse_snapshot ''target interval is invalid'')"

fun is_bool :: "jsval \<Rightarrow> bool" where
  "is_bool (JBool b) = True"
| "is_bool _ = False"

text \<open>The checks of the context, which yield what the rest of the snapshot must repeat.\<close>

record change_context =
  cx_subscription :: string
  cx_item :: string
  cx_source_price :: string
  cx_target_price :: string
  cx_source_lookup :: string
  cx_interval :: BillingInterval
  cx_period_end :: int

definition changeContext :: "jsval \<Rightarrow> change_context result" where
  "changeContext value =
     bind_result (exactRecord value CONTEXT_FIELDS ''plan-change context'') (\<lambda>c.
     bind_result (snapshotStripeId (jprop c ''subscription_id'') ''sub_'' ''Subscription id'') (\<lambda>subscription.
     bind_result (snapshotStripeId (jprop c ''subscription_item_id'') ''si_'' ''Subscription item id'') (\<lambda>item.
     bind_result (snapshotStripeId (jprop c ''current_price_id'') ''price_'' ''source Price id'') (\<lambda>sourcePrice.
     bind_result (snapshotStripeId (jprop c ''target_price_id'') ''price_'' ''target Price id'') (\<lambda>targetPrice.
     bind_result (textValue (jprop c ''current_lookup_key'') ''source lookup key'' 200) (\<lambda>sourceLookup.
     bind_result (intervalOf (jprop c ''target_interval'')) (\<lambda>targetInterval.
     bind_result (stripeTimestamp (jprop c ''current_period_start'') ''current period start'') (\<lambda>periodStart.
     bind_result (stripeTimestamp (jprop c ''current_period_end'') ''current period end'') (\<lambda>periodEnd.
     if periodEnd \<le> periodStart then refuse_snapshot ''plan-change period is invalid''
     else bind_result
       (if jprop c ''schedule_id'' = JNull then Inr []
        else snapshotStripeId (jprop c ''schedule_id'') ''sub_sched_'' ''Subscription Schedule id'') (\<lambda>_.
     bind_result (textValue (jprop c ''subscription_status'') ''Subscription status'' 64) (\<lambda>_.
     if \<not> is_bool (jprop c ''cancel_at_period_end'') \<or> \<not> is_bool (jprop c ''pending_update'')
     then refuse_snapshot ''plan-change boolean context is invalid''
     else Inr \<lparr>cx_subscription = subscription, cx_item = item, cx_source_price = sourcePrice,
               cx_target_price = targetPrice, cx_source_lookup = sourceLookup, cx_interval = targetInterval,
               cx_period_end = periodEnd\<rparr>)))))))))))"

definition changeEvidence :: "change_context \<Rightarrow> jsval \<Rightarrow> unit result" where
  "changeEvidence cx value =
     bind_result (exactRecord value EVIDENCE_FIELDS ''plan-change price evidence'') (\<lambda>e.
     bind_result (snapshotStripeId (jprop e ''source_price_id'') ''price_'' ''evidence source Price id'') (\<lambda>sourcePrice.
     if sourcePrice \<noteq> cx_source_price cx then refuse_snapshot ''plan-change price evidence conflicts with context''
     else bind_result (snapshotStripeId (jprop e ''target_price_id'') ''price_'' ''evidence target Price id'') (\<lambda>targetPrice.
     if targetPrice \<noteq> cx_target_price cx then refuse_snapshot ''plan-change price evidence conflicts with context''
     else bind_result (textValue (jprop e ''source_lookup_key'') ''evidence source lookup'' 200) (\<lambda>sourceLookup.
     if sourceLookup \<noteq> cx_source_lookup cx then refuse_snapshot ''plan-change price evidence conflicts with context''
     else bind_result (textValue (jprop e ''source_plan_key'') ''source_plan_key'' 64) (\<lambda>_.
     bind_result (textValue (jprop e ''target_plan_key'') ''target_plan_key'' 64) (\<lambda>_.
     bind_result (currencyText (jprop e ''source_currency'') ''source_currency'' ''source_currency is invalid'') (\<lambda>_.
     bind_result (currencyText (jprop e ''target_currency'') ''target_currency'' ''target_currency is invalid'') (\<lambda>_.
     bind_result (stripeAmount (jprop e ''source_unit_amount'') ''source_unit_amount'') (\<lambda>_.
     bind_result (stripeAmount (jprop e ''target_unit_amount'') ''target_unit_amount'') (\<lambda>_.
     bind_result (textValue (jprop e ''target_lookup_key'') ''target lookup key'' 200) (\<lambda>_. Inr ())))))))))))"

definition immediateKeys :: "TransitionPolicy \<Rightarrow> string list" where
  "immediateKeys policy =
     (case policy of
        full_period_reset \<Rightarrow> [''items'', ''billing_cycle_anchor'', ''proration_behavior'', ''payment_behavior'', ''expand'']
      | prorated_delta \<Rightarrow> [''items'', ''proration_behavior'', ''proration_date'', ''payment_behavior'', ''expand''])"

definition immediateParams :: "change_context \<Rightarrow> TransitionPolicy \<Rightarrow> jsval \<Rightarrow> unit result" where
  "immediateParams cx policy value =
     bind_result (exactRecord value (immediateKeys policy) ''immediate mutation params'') (\<lambda>p.
     if \<not> jsonEqual (jprop p ''items'') (JArr [JObj True [(''id'', JStr (cx_item cx)), (''price'', JStr (cx_target_price cx))]]) \<or>
        jprop p ''payment_behavior'' \<noteq> JStr ''pending_if_incomplete'' \<or>
        \<not> jsonEqual (jprop p ''expand'') (JArr [JStr ''latest_invoice.confirmation_secret''])
     then refuse_snapshot ''immediate mutation policy drifted''
     else case policy of
       full_period_reset \<Rightarrow>
         if jprop p ''billing_cycle_anchor'' \<noteq> JStr ''now'' \<or> jprop p ''proration_behavior'' \<noteq> JStr ''none''
         then refuse_snapshot ''full-period mutation policy drifted'' else Inr ()
     | prorated_delta \<Rightarrow>
         if jprop p ''proration_behavior'' \<noteq> JStr ''always_invoice'' then refuse_snapshot ''prorated mutation policy drifted''
         else bind_result (stripeTimestamp (jprop p ''proration_date'') ''proration date'') (\<lambda>_. Inr ()))"

definition scheduleMetadata :: "string \<Rightarrow> string \<Rightarrow> jsval" where
  "scheduleMetadata productLine key = JObj True [(''product_line'', JStr productLine), (''plan_change_key'', JStr key)]"

definition scheduleParams :: "change_context \<Rightarrow> string \<Rightarrow> string \<Rightarrow> jsval \<Rightarrow> unit result" where
  "scheduleParams cx productLine key value =
     bind_result (exactRecord value [''create'', ''configure''] ''schedule params'') (\<lambda>p.
     if \<not> jsonEqual (jprop p ''create'') (JObj True [(''from_subscription'', JStr (cx_subscription cx))])
     then refuse_snapshot ''Schedule create params drifted''
     else bind_result
       (exactRecord (jprop p ''configure'')
          [''boundary'', ''target_price_id'', ''target_interval'', ''end_behavior'', ''proration_behavior'', ''metadata'']
          ''Schedule configure params'') (\<lambda>c.
     bind_result (stripeTimestamp (jprop c ''boundary'') ''Schedule boundary'') (\<lambda>boundary.
     if boundary \<noteq> cx_period_end cx \<or> jprop c ''target_price_id'' \<noteq> JStr (cx_target_price cx) \<or>
        jprop c ''target_interval'' \<noteq> JStr (interval_text (cx_interval cx)) \<or> jprop c ''end_behavior'' \<noteq> JStr ''release'' \<or>
        jprop c ''proration_behavior'' \<noteq> JStr ''none'' \<or> \<not> jsonEqual (jprop c ''metadata'') (scheduleMetadata productLine key)
     then refuse_snapshot ''Schedule configure policy drifted''
     else Inr ())))"

definition changeExpectations ::
  "PlanChangeSnapshotExpectation \<Rightarrow> string \<Rightarrow> change_context \<Rightarrow> bool \<Rightarrow> TransitionPolicy \<Rightarrow> unit result"
where
  "changeExpectations y key cx now policy =
     (if differs (y_idempotencyKey y) key then refuse_snapshot ''plan-change Stripe idempotency identity drifted''
      else if differs (y_subscriptionId y) (cx_subscription cx) then refuse_snapshot ''plan-change Subscription identity drifted''
      else if differs (y_immediate y) now then refuse_snapshot ''plan-change timing drifted''
      else if differs (y_policy y) policy then refuse_snapshot ''plan-change policy drifted''
      else Inr ())"

definition changeContents :: "PlanChangeSnapshotExpectation \<Rightarrow> jsval \<Rightarrow> (bool \<times> TransitionPolicy \<times> change_context \<times> string) result" where
  "changeContents y value =
     bind_result (safeJson value) (\<lambda>_.
     bind_result (exactRecord value CHANGE_FIELDS ''plan-change request snapshot'') (\<lambda>root.
     if jprop root ''schema'' \<noteq> JStr PLAN_CHANGE_SNAPSHOT_SCHEMA \<or>
        jprop root ''version'' \<noteq> JInt PLAN_CHANGE_SNAPSHOT_VERSION
     then refuse_snapshot ''unsupported plan-change request snapshot version''
     else bind_result (changeKind (jprop root ''kind'')) (\<lambda>atOnce.
     bind_result (textValue (jprop root ''request_api_version'') ''request API version'' 64) (\<lambda>_.
     bind_result (textValue (jprop root ''idempotency_key'') ''Stripe idempotency key'' 255) (\<lambda>key.
     bind_result (textValue (jprop root ''product_line'') ''product line'' 200) (\<lambda>productLine.
     bind_result (policyOf (jprop root ''policy'')) (\<lambda>policy.
     bind_result (changeContext (jprop root ''context'')) (\<lambda>cx.
     bind_result (changeEvidence cx (jprop root ''price_evidence'')) (\<lambda>_.
     bind_result (changeExpectations y key cx atOnce policy) (\<lambda>_.
     bind_result
       (if atOnce then immediateParams cx policy (jprop root ''params'')
        else scheduleParams cx productLine key (jprop root ''params'')) (\<lambda>_.
     Inr (atOnce, policy, cx, key))))))))))))"

definition validatePlanChangeRequestSnapshot :: "jsval \<Rightarrow> PlanChangeSnapshotExpectation \<Rightarrow> jsval result" where
  "validatePlanChangeRequestSnapshot value y = bind_result (changeContents y value) (\<lambda>_. Inr (cloneJson value))"

definition immediate_params :: "PlanChangeSnapshotInput \<Rightarrow> jsval result" where
  "immediate_params i =
     bind_result
       (case pi_policy i of
          full_period_reset \<Rightarrow> Inr [(''billing_cycle_anchor'', JStr ''now''), (''proration_behavior'', JStr ''none'')]
        | prorated_delta \<Rightarrow>
            (case pi_prorationDate i of
               None \<Rightarrow> refuse_snapshot ''prorated_delta requires a proration date''
             | Some d \<Rightarrow> bind_result (bigintNumber d ''proration date'') (\<lambda>n.
                 Inr [(''proration_behavior'', JStr ''always_invoice''), (''proration_date'', JInt n)]))) (\<lambda>settlement.
     Inr (JObj True
       ([(''items'', JArr [JObj True [(''id'', JStr (x_subscriptionItemId (pi_context i))),
                                     (''price'', JStr (x_targetPriceId (pi_context i)))]])] @ settlement @
        [(''payment_behavior'', JStr ''pending_if_incomplete''),
         (''expand'', JArr [JStr ''latest_invoice.confirmation_secret''])])))"

definition schedule_params :: "PlanChangeSnapshotInput \<Rightarrow> jsval result" where
  "schedule_params i =
     bind_result (bigintNumber (x_currentPeriodEnd (pi_context i)) ''current period end'') (\<lambda>boundary.
     Inr (JObj True
       [(''create'', JObj True [(''from_subscription'', JStr (x_subscriptionId (pi_context i)))]),
        (''configure'', JObj True [(''boundary'', JInt boundary), (''target_price_id'', JStr (x_targetPriceId (pi_context i))),
           (''target_interval'', JStr (interval_text (x_targetInterval (pi_context i)))), (''end_behavior'', JStr ''release''),
           (''proration_behavior'', JStr ''none''), (''metadata'', scheduleMetadata (pi_productLine i) (pi_idempotencyKey i))])]))"

definition context_json :: "PlanChangeContext \<Rightarrow> int \<Rightarrow> int \<Rightarrow> jsval" where
  "context_json c periodStart periodEnd =
     JObj True [(''subscription_id'', JStr (x_subscriptionId c)), (''subscription_item_id'', JStr (x_subscriptionItemId c)),
       (''current_price_id'', JStr (x_currentPriceId c)), (''current_lookup_key'', JStr (x_currentLookupKey c)),
       (''target_price_id'', JStr (x_targetPriceId c)), (''target_interval'', JStr (interval_text (x_targetInterval c))),
       (''current_period_start'', JInt periodStart), (''current_period_end'', JInt periodEnd),
       (''schedule_id'', nullable_text (x_scheduleId c)), (''subscription_status'', JStr (x_subscriptionStatus c)),
       (''cancel_at_period_end'', JBool (x_cancelAtPeriodEnd c)), (''pending_update'', JBool (x_pendingUpdate c))]"

definition evidence_json :: "PlanChangeSnapshotInput \<Rightarrow> int \<Rightarrow> int \<Rightarrow> jsval" where
  "evidence_json i sourceAmount targetAmount =
     JObj True [(''source_price_id'', JStr (x_currentPriceId (pi_context i))), (''source_lookup_key'', JStr (pi_sourceLookupKey i)),
       (''source_plan_key'', JStr (pi_sourcePlanKey i)), (''source_currency'', JStr (pi_sourceCurrency i)),
       (''source_unit_amount'', JInt sourceAmount), (''target_price_id'', JStr (x_targetPriceId (pi_context i))),
       (''target_lookup_key'', JStr (pi_targetLookupKey i)), (''target_plan_key'', JStr (pi_targetPlanKey i)),
       (''target_currency'', JStr (pi_targetCurrency i)), (''target_unit_amount'', JInt targetAmount)]"

definition change_snapshot :: "PlanChangeSnapshotInput \<Rightarrow> jsval \<Rightarrow> jsval \<Rightarrow> jsval \<Rightarrow> jsval" where
  "change_snapshot i ctxt evidence params =
     JObj True [(''schema'', JStr PLAN_CHANGE_SNAPSHOT_SCHEMA), (''version'', JInt PLAN_CHANGE_SNAPSHOT_VERSION),
       (''kind'', JStr (if pi_immediate i then ''plan_change_immediate'' else ''plan_change_schedule'')),
       (''request_api_version'', JStr (pi_requestApiVersion i)), (''idempotency_key'', JStr (pi_idempotencyKey i)),
       (''product_line'', JStr (pi_productLine i)), (''context'', ctxt), (''price_evidence'', evidence),
       (''policy'', JStr (policy_text (pi_policy i))), (''params'', params)]"

definition buildPlanChangeRequestSnapshot :: "PlanChangeSnapshotInput \<Rightarrow> jsval result" where
  "buildPlanChangeRequestSnapshot i =
     bind_result (if pi_immediate i then immediate_params i else schedule_params i) (\<lambda>params.
     bind_result (bigintNumber (x_currentPeriodStart (pi_context i)) ''current period start'') (\<lambda>periodStart.
     bind_result (bigintNumber (x_currentPeriodEnd (pi_context i)) ''current period end'') (\<lambda>periodEnd.
     bind_result (bigintAmount (pi_sourceUnitAmount i) ''source unit amount'') (\<lambda>sourceAmount.
     bind_result (bigintAmount (pi_targetUnitAmount i) ''target unit amount'') (\<lambda>targetAmount.
       validatePlanChangeRequestSnapshot
         (change_snapshot i (context_json (pi_context i) periodStart periodEnd) (evidence_json i sourceAmount targetAmount) params)
         no_change_expectation)))))"

text \<open>Readers of fields that the validation has typed.\<close>

fun text_of :: "jsval \<Rightarrow> string" where
  "text_of (JStr s) = s"
| "text_of _ = []"

fun text_or_null :: "jsval \<Rightarrow> string option" where
  "text_or_null (JStr s) = Some s"
| "text_or_null _ = None"

fun number_of :: "jsval \<Rightarrow> int" where
  "number_of (JInt n) = n"
| "number_of _ = 0"

definition planChangeContextFromSnapshot :: "jsval \<Rightarrow> PlanChangeContext result" where
  "planChangeContextFromSnapshot snapshot =
     bind_result (validatePlanChangeRequestSnapshot snapshot no_change_expectation) (\<lambda>validated.
       let c = jprop validated ''context'' in
       Inr \<lparr>x_subscriptionId = text_of (jprop c ''subscription_id''),
            x_subscriptionItemId = text_of (jprop c ''subscription_item_id''),
            x_currentPriceId = text_of (jprop c ''current_price_id''),
            x_currentLookupKey = text_of (jprop c ''current_lookup_key''),
            x_targetPriceId = text_of (jprop c ''target_price_id''),
            x_targetInterval = (if jprop c ''target_interval'' = JStr ''year'' then Year else Month),
            x_currentPeriodStart = number_of (jprop c ''current_period_start''),
            x_currentPeriodEnd = number_of (jprop c ''current_period_end''),
            x_scheduleId = text_or_null (jprop c ''schedule_id''),
            x_subscriptionStatus = text_of (jprop c ''subscription_status''),
            x_cancelAtPeriodEnd = (jprop c ''cancel_at_period_end'' = JBool True),
            x_pendingUpdate = (jprop c ''pending_update'' = JBool True),
            x_pendingExpiresAt = None, x_recoveryUrl = None, x_clientSecret = None\<rparr>)"

end
