(* ===== verification/Checkout.thy ===== *)
theory Checkout
  imports Request_Snapshots Subscription_Projector
begin

text \<open>
  Starting a subscription Checkout (typescript/src/checkout.ts): a claim reserves the account for one
  Checkout, the request to Stripe is prepared and frozen in the claim, and only the frozen request is ever
  sent. Each statement is a transaction of its own; the calls to Stripe run between them.

  The gateway's \<open>prepareCheckoutSession\<close> and \<open>createCheckoutSessionFromSnapshot\<close> are parameters;
  \<open>clock\<close> is the reading of \<open>clock_timestamp()\<close>, \<open>token\<close> the result of \<open>randomUUID()\<close>. A procedure also
  returns the requests it sent to Stripe, in order.
\<close>

section \<open>Procedures: statements with calls between them\<close>

type_synonym 'a proc = "billing \<Rightarrow> 'a result \<times> billing \<times> jsval list"

definition give :: "'a result \<Rightarrow> 'a proc" where
  "give r = (\<lambda>b. (r, b, []))"

definition statement :: "'a btx \<Rightarrow> 'a proc" where
  "statement m = (\<lambda>b. case billing_transaction m b of (r, b') \<Rightarrow> (r, b', []))"

definition peek :: "(billing \<Rightarrow> 'a result) \<Rightarrow> 'a proc" where
  "peek f = (\<lambda>b. (f b, b, []))"

text \<open>A call to Stripe with its answer, which changes nothing in the database.\<close>

definition send :: "(jsval \<Rightarrow> 'a result) \<Rightarrow> jsval \<Rightarrow> 'a proc" where
  "send remote request = (\<lambda>b. (remote request, b, [request]))"

definition bind_proc :: "'a proc \<Rightarrow> ('a \<Rightarrow> 'b proc) \<Rightarrow> 'b proc" where
  "bind_proc m f = (\<lambda>b. case m b of
       (Inl e, b', sent) \<Rightarrow> (Inl e, b', sent)
     | (Inr x, b', sent) \<Rightarrow> (case f x b' of (r, b'', sent') \<Rightarrow> (r, b'', sent @ sent')))"

section \<open>Reservations\<close>

record CheckoutReservation =
  rs_accountId :: string
  rs_claimToken :: string
  rs_planKey :: string
  rs_interval :: BillingInterval
  rs_expiresAt :: int
  rs_expiresAtEpoch :: int
  rs_requestKey :: string
  rs_customerId :: "string option"
  rs_sessionId :: "string option"
  rs_sessionUrl :: "string option"
  rs_version :: "int option"
  rs_snapshot :: "jsval option"

text \<open>\<open>floor(extract(epoch from t))\<close> of a timestamp in microseconds.\<close>

definition epoch_seconds :: "int \<Rightarrow> int" where
  "epoch_seconds t = t div MICROS_PER_SECOND"

definition reservationFromRow :: "string \<Rightarrow> string \<Rightarrow> checkout_claim \<Rightarrow> CheckoutReservation" where
  "reservationFromRow accountId requestKey c =
     \<lparr>rs_accountId = accountId, rs_claimToken = cc_token c, rs_planKey = cc_plan c, rs_interval = cc_interval c,
      rs_expiresAt = cc_expires c, rs_expiresAtEpoch = epoch_seconds (cc_expires c), rs_requestKey = requestKey,
      rs_customerId = cc_customer c, rs_sessionId = cc_session c, rs_sessionUrl = cc_url c,
      rs_version = cc_snapshot_version c, rs_snapshot = cc_snapshot c\<rparr>"

definition safeSessionUrl :: "url_parser \<Rightarrow> string \<Rightarrow> string result" where
  "safeSessionUrl parseUrl value =
     bind_result (requiredVisibleString (JStr value) ''Checkout Session URL'' 2048) (\<lambda>_.
       case parseUrl value of
         None \<Rightarrow> Inl (TypeError ''Checkout Session URL must be an origin-safe HTTPS URL'')
       | Some u \<Rightarrow>
           if url_protocol u \<noteq> ''https:'' \<or> url_host u = [] \<or> url_username u \<noteq> [] \<or> url_password u \<noteq> []
           then Inl (TypeError ''Checkout Session URL must be an origin-safe HTTPS URL'')
           else Inr value)"

definition validateCheckoutSessionIdentity :: "url_parser \<Rightarrow> string \<Rightarrow> string \<Rightarrow> unit result" where
  "validateCheckoutSessionIdentity parseUrl sessionId sessionUrl =
     bind_result (requiredVisibleString (JStr sessionId) ''Checkout Session id'' 255) (\<lambda>_.
     bind_result (safeSessionUrl parseUrl sessionUrl) (\<lambda>_. Inr ()))"

definition intervalInput :: "jsval \<Rightarrow> string \<Rightarrow> BillingInterval result" where
  "intervalInput v message =
     (if v = JStr ''month'' then Inr Month else if v = JStr ''year'' then Inr Year else Inl (TypeError message))"

text \<open>The checks of \<open>reserve\<close> before its transaction: the TTL, the plan key, the interval and the request key.\<close>

definition reserve_inputs :: "jsval \<Rightarrow> jsval \<Rightarrow> jsval \<Rightarrow> jsval \<Rightarrow> string \<Rightarrow> (int \<times> string \<times> BillingInterval \<times> string) result" where
  "reserve_inputs planKeyInput interval requestKey ttl token =
     bind_result
       (case (if isAbsent ttl then JInt (35 * 60) else ttl) of
          JInt n \<Rightarrow>
            if \<not> isSafeInteger (JInt n) \<or> n \<le> 0 \<or> n > 86400
            then Inl (RangeError ''Checkout claim TTL must be a positive integer up to one day'') else Inr n
        | _ \<Rightarrow> Inl (RangeError ''Checkout claim TTL must be a positive integer up to one day'')) (\<lambda>ttlSeconds.
     bind_result (requiredVisibleString planKeyInput ''plan_key'' 64) (\<lambda>planKey.
     if CHR ''_'' \<in> set planKey then Inl (TypeError ''plan_key cannot contain an underscore'')
     else bind_result (intervalInput interval ''interval must be month or year'') (\<lambda>i.
     bind_result (if requestKey = JUndef then Inr token else requiredVisibleString requestKey ''request_key'' 200) (\<lambda>key.
       Inr (ttlSeconds, planKey, i, key)))))"

text \<open>An order whose own Checkout may still create the first Stripe Customer of the account.\<close>

definition pack_checkout_open :: "store \<Rightarrow> string \<Rightarrow> int \<Rightarrow> bool" where
  "pack_checkout_open s acc now \<longleftrightarrow>
     list_ex (\<lambda>po. po_account po = acc \<and> po_payment_status po = Pending \<and> po_checkout_status po \<noteq> CheckoutExpired \<and>
       po_claim_until po > now) (orders s)"

definition new_claim :: "account \<Rightarrow> string \<Rightarrow> string \<Rightarrow> BillingInterval \<Rightarrow> int \<Rightarrow> string \<Rightarrow> checkout_claim" where
  "new_claim a token planKey interval expiresAt requestKey =
     \<lparr>cc_account = acc_id a, cc_token = token, cc_session = None, cc_plan = planKey, cc_interval = interval,
      cc_customer = acc_customer a, cc_expires = expiresAt, cc_request_key = Some requestKey, cc_url = None,
      cc_snapshot_version = Some 0, cc_snapshot = None\<rparr>"

definition insert_claim :: "checkout_claim \<Rightarrow> unit btx" where
  "insert_claim c = modify (\<lambda>b. b\<lparr>checkout_claims := checkout_claims b @ [c]\<rparr>)"

text \<open>The transaction of \<open>reserve\<close>.\<close>

definition reserve_claim ::
  "string \<Rightarrow> string \<Rightarrow> BillingInterval \<Rightarrow> string \<Rightarrow> int \<Rightarrow> string \<Rightarrow> int \<Rightarrow> CheckoutReservation btx"
where
  "reserve_claim accountId planKey interval requestKey ttlSeconds token clock =
     bind_tx (gets (\<lambda>b. find_account (core b) accountId)) (\<lambda>found.
     case found of
       None \<Rightarrow> throw (PlainError ''billing account not found'')
     | Some a \<Rightarrow>
         let expiresAt = clock + ttlSeconds * MICROS_PER_SECOND in
         if acc_subscription a \<noteq> None \<or> acc_status a = SubActive \<or> acc_status a = SubPastDue
         then throw (CheckoutActiveSubscriptionError ''an existing subscription must use the plan-change API'')
         else
           bind_tx (gets (\<lambda>b. acc_customer a = None \<and> pack_checkout_open (core b) accountId clock)) (\<lambda>busy.
           if busy then throw (CheckoutBusyError ''the first Stripe Customer Checkout is already in progress'')
           else
             bind_tx (gets (\<lambda>b. find_claim b accountId)) (\<lambda>existing.
             case existing of
               Some c \<Rightarrow>
                 if cc_expires c > clock
                 then
                   if cc_request_key c = Some requestKey \<and> cc_plan c = planKey \<and> cc_interval c = interval
                   then ret (reservationFromRow accountId requestKey c)
                   else throw (CheckoutBusyError ''an unexpired Checkout claim already exists'')
                 else
                   bind_tx (delete_claims (\<lambda>c. cc_account c = accountId)) (\<lambda>_.
                   let fresh = new_claim a token planKey interval expiresAt requestKey in
                   bind_tx (insert_claim fresh) (\<lambda>_. ret (reservationFromRow accountId requestKey fresh)))
             | None \<Rightarrow>
                 let fresh = new_claim a token planKey interval expiresAt requestKey in
                 bind_tx (insert_claim fresh) (\<lambda>_. ret (reservationFromRow accountId requestKey fresh)))))"

definition reserve :: "string \<Rightarrow> jsval \<Rightarrow> jsval \<Rightarrow> jsval \<Rightarrow> jsval \<Rightarrow> string \<Rightarrow> int \<Rightarrow> CheckoutReservation proc" where
  "reserve accountId planKeyInput interval requestKey ttl token clock =
     (case reserve_inputs planKeyInput interval requestKey ttl token of
        Inl e \<Rightarrow> give (Inl e)
      | Inr (ttlSeconds, planKey, i, key) \<Rightarrow> statement (reserve_claim accountId planKey i key ttlSeconds token clock))"

section \<open>Freezing and sending the request\<close>

definition update_claims :: "(checkout_claim \<Rightarrow> bool) \<Rightarrow> (checkout_claim \<Rightarrow> checkout_claim) \<Rightarrow> bool btx" where
  "update_claims P f = (\<lambda>b. Inr (list_ex P (checkout_claims b), b\<lparr>checkout_claims := update_rows P f (checkout_claims b)\<rparr>))"

definition claim_of :: "CheckoutReservation \<Rightarrow> checkout_claim \<Rightarrow> bool" where
  "claim_of r c \<longleftrightarrow> cc_account c = rs_accountId r \<and> cc_token c = rs_claimToken r"

definition freeze_claim :: "CheckoutReservation \<Rightarrow> jsval \<Rightarrow> bool btx" where
  "freeze_claim r snapshot =
     update_claims (\<lambda>c. claim_of r c \<and> cc_snapshot_version c = Some 0 \<and> cc_snapshot c = None)
       (\<lambda>c. c\<lparr>cc_snapshot_version := Some 1, cc_snapshot := Some snapshot\<rparr>)"

definition freezeRequestSnapshot :: "CheckoutReservation \<Rightarrow> jsval \<Rightarrow> jsval proc" where
  "freezeRequestSnapshot r snapshot =
     bind_proc (statement (freeze_claim r snapshot)) (\<lambda>_.
     peek (\<lambda>b.
       case find (claim_of r) (checkout_claims b) of
         Some c \<Rightarrow>
           (case cc_snapshot c of
              Some v \<Rightarrow>
                if cc_snapshot_version c = Some 1 \<and> isPlainRecord v then Inr v
                else Inl (CheckoutReplayUnsafeError ''Checkout request snapshot could not be frozen safely'')
            | None \<Rightarrow> Inl (CheckoutReplayUnsafeError ''Checkout request snapshot could not be frozen safely''))
       | None \<Rightarrow> Inl (CheckoutReplayUnsafeError ''Checkout request snapshot could not be frozen safely'')))"

definition attach_claim :: "CheckoutReservation \<Rightarrow> string \<Rightarrow> string \<Rightarrow> bool btx" where
  "attach_claim r sessionId sessionUrl =
     update_claims (\<lambda>c. claim_of r c \<and> cc_snapshot_version c = Some 1 \<and> cc_snapshot c \<noteq> None)
       (\<lambda>c. c\<lparr>cc_session := Some sessionId, cc_url := Some sessionUrl\<rparr>)"

definition attachSession :: "url_parser \<Rightarrow> CheckoutReservation \<Rightarrow> string \<Rightarrow> string \<Rightarrow> bool proc" where
  "attachSession parseUrl r sessionId sessionUrl =
     (case validateCheckoutSessionIdentity parseUrl sessionId sessionUrl of
        Inl e \<Rightarrow> give (Inl e)
      | Inr _ \<Rightarrow> statement (attach_claim r sessionId sessionUrl))"

definition release_claim :: "CheckoutReservation \<Rightarrow> unit btx" where
  "release_claim r =
     delete_claims (\<lambda>c. claim_of r c \<and> cc_snapshot_version c = Some 0 \<and> cc_snapshot c = None \<and> cc_session c = None)"

definition completedDuringCreation :: "CheckoutReservation \<Rightarrow> billing \<Rightarrow> bool" where
  "completedDuringCreation r b =
     (case find_account (core b) (rs_accountId r) of
        None \<Rightarrow> False
      | Some a \<Rightarrow> acc_subscription a \<noteq> None \<and> find_claim b (rs_accountId r) = None)"

definition frozen_expectation :: "CheckoutReservation \<Rightarrow> CheckoutSnapshotExpectation" where
  "frozen_expectation r =
     no_expectation\<lparr>x_kind := Some SubscriptionCheckout, x_accountId := Some (rs_accountId r),
       x_requestIdentity := Some (rs_claimToken r), x_interval := Some (rs_interval r),
       x_offeringKey := Some (rs_planKey r), x_expiresAt := Some (rs_expiresAtEpoch r),
       x_customerId := Some (rs_customerId r)\<rparr>"

text \<open>\<open>undefined\<close> is what a null column reads as here: no snapshot is a plain object.\<close>

definition stored_snapshot :: "jsval option \<Rightarrow> jsval" where
  "stored_snapshot v = (case v of None \<Rightarrow> JNull | Some s \<Rightarrow> s)"

definition validatedFrozenSnapshot :: "url_parser \<Rightarrow> CheckoutReservation \<Rightarrow> jsval result" where
  "validatedFrozenSnapshot parseUrl r =
     (if rs_version r \<noteq> Some 1
      then Inl (CheckoutReplayUnsafeError
        (if rs_version r = None
         then ''this Checkout claim predates durable request snapshots; operator reconciliation is required''
         else ''Checkout request snapshot state is invalid''))
      else case validateCheckoutRequestSnapshot parseUrl (stored_snapshot (rs_snapshot r)) (frozen_expectation r) of
          Inl (StripeRequestSnapshotError _) \<Rightarrow>
            Inl (CheckoutReplayUnsafeError ''the persisted Checkout request snapshot is invalid; operator reconciliation is required'')
        | Inl e \<Rightarrow> Inl e
        | Inr snapshot \<Rightarrow> Inr snapshot)"

definition executeFrozen ::
  "url_parser \<Rightarrow> (jsval \<Rightarrow> (string \<times> string) result) \<Rightarrow> CheckoutReservation \<Rightarrow> jsval \<Rightarrow> (string \<times> string) proc"
where
  "executeFrozen parseUrl create r snapshot =
     (case (rs_sessionId r, rs_sessionUrl r) of
        (Some sessionId, Some sessionUrl) \<Rightarrow> give (Inr (sessionId, sessionUrl))
      | _ \<Rightarrow>
          bind_proc (send create snapshot) (\<lambda>(sessionId, sessionUrl).
          if \<not> is_ok (validateCheckoutSessionIdentity parseUrl sessionId sessionUrl)
          then give (Inl (PlainError ''Checkout creator returned an invalid Session identity''))
          else
            bind_proc (attachSession parseUrl r sessionId sessionUrl) (\<lambda>attached.
            if attached then give (Inr (sessionId, sessionUrl))
            else peek (\<lambda>b.
              if completedDuringCreation r b then Inr (sessionId, sessionUrl)
              else Inl (PlainError ''Checkout claim identity changed while Stripe was creating a session'')))))"

section \<open>Recovery and creation\<close>

definition recover_claim :: "billing \<Rightarrow> string \<Rightarrow> string \<Rightarrow> BillingInterval \<Rightarrow> string \<Rightarrow> int \<Rightarrow> checkout_claim option" where
  "recover_claim b accountId planKey interval requestKey clock =
     find (\<lambda>c. cc_account c = accountId \<and> cc_request_key c = Some requestKey \<and> cc_plan c = planKey \<and>
       cc_interval c = interval \<and> cc_expires c > clock \<and> cc_snapshot_version c = Some 1 \<and> cc_snapshot c \<noteq> None)
       (checkout_claims b)"

definition recoverFrozen ::
  "url_parser \<Rightarrow> (jsval \<Rightarrow> (string \<times> string) result) \<Rightarrow> string \<Rightarrow> jsval \<Rightarrow> jsval \<Rightarrow> jsval \<Rightarrow> int \<Rightarrow>
   (string \<times> string) option proc"
where
  "recoverFrozen parseUrl create accountId planKeyInput interval requestKeyInput clock =
     bind_proc (give (requiredVisibleString planKeyInput ''plan_key'' 64)) (\<lambda>planKey.
     bind_proc (give (requiredVisibleString requestKeyInput ''request_key'' 200)) (\<lambda>requestKey.
     if CHR ''_'' \<in> set planKey then give (Inl (TypeError ''invalid frozen Checkout recovery identity''))
     else bind_proc (give (intervalInput interval ''invalid frozen Checkout recovery identity'')) (\<lambda>i.
     bind_proc (peek (\<lambda>b. Inr (recover_claim b accountId planKey i requestKey clock))) (\<lambda>row.
     case row of
       None \<Rightarrow> give (Inr None)
     | Some c \<Rightarrow>
         let r = reservationFromRow accountId requestKey c in
         bind_proc (give (validatedFrozenSnapshot parseUrl r)) (\<lambda>snapshot.
         bind_proc (executeFrozen parseUrl create r snapshot) (\<lambda>session. give (Inr (Some session))))))))"

record CheckoutRequest =
  cq_accountId :: string
  cq_customerId :: "string option"
  cq_lookupKey :: string
  cq_currency :: string
  cq_unitAmount :: int
  cq_expectedInterval :: BillingInterval
  cq_claimToken :: string
  cq_expiresAtEpoch :: int
  cq_planKey :: string
  cq_interval :: BillingInterval

record CheckoutInput =
  ci_accountId :: string
  ci_planKey :: jsval
  ci_interval :: BillingInterval
  ci_lookupKey :: string
  ci_currency :: string
  ci_unitAmount :: int
  ci_expectedInterval :: BillingInterval
  ci_requestKey :: jsval

definition prepared_request :: "CheckoutReservation \<Rightarrow> CheckoutInput \<Rightarrow> CheckoutRequest" where
  "prepared_request r i =
     \<lparr>cq_accountId = rs_accountId r, cq_customerId = rs_customerId r, cq_lookupKey = ci_lookupKey i,
      cq_currency = ci_currency i, cq_unitAmount = ci_unitAmount i, cq_expectedInterval = ci_expectedInterval i,
      cq_claimToken = rs_claimToken r, cq_expiresAtEpoch = rs_expiresAtEpoch r, cq_planKey = rs_planKey r,
      cq_interval = rs_interval r\<rparr>"

definition prepared_expectation :: "CheckoutReservation \<Rightarrow> CheckoutInput \<Rightarrow> CheckoutSnapshotExpectation" where
  "prepared_expectation r i =
     no_expectation\<lparr>x_kind := Some SubscriptionCheckout, x_accountId := Some (rs_accountId r),
       x_requestIdentity := Some (rs_claimToken r), x_lookupKey := Some (ci_lookupKey i),
       x_currency := Some (ci_currency i), x_unitAmount := Some (ci_unitAmount i),
       x_interval := Some (ci_expectedInterval i), x_offeringKey := Some (rs_planKey r),
       x_expiresAt := Some (rs_expiresAtEpoch r), x_customerId := Some (rs_customerId r)\<rparr>"

text \<open>A rejected preparation releases the claim; every other failure leaves it for the next attempt.\<close>

definition prepare_and_freeze ::
  "url_parser \<Rightarrow> (CheckoutRequest \<Rightarrow> jsval result) \<Rightarrow> CheckoutReservation \<Rightarrow> CheckoutInput \<Rightarrow> jsval proc"
where
  "prepare_and_freeze parseUrl prepare r i =
     (case bind_result (prepare (prepared_request r i)) (\<lambda>v. validateCheckoutRequestSnapshot parseUrl v (prepared_expectation r i)) of
        Inl (CheckoutCreationRejected m) \<Rightarrow>
          bind_proc (statement (release_claim r)) (\<lambda>_. give (Inl (CheckoutCreationRejected m)))
      | Inl e \<Rightarrow> give (Inl e)
      | Inr prepared \<Rightarrow>
          bind_proc (freezeRequestSnapshot r prepared) (\<lambda>frozen.
            give (validatedFrozenSnapshot parseUrl (r\<lparr>rs_version := Some 1, rs_snapshot := Some frozen\<rparr>))))"

definition createCheckout ::
  "url_parser \<Rightarrow> (CheckoutRequest \<Rightarrow> jsval result) \<Rightarrow> (jsval \<Rightarrow> (string \<times> string) result) \<Rightarrow> CheckoutInput \<Rightarrow> string \<Rightarrow> int \<Rightarrow>
   (string \<times> string) proc"
where
  "createCheckout parseUrl prepare create i token clock =
     (if ci_interval i \<noteq> ci_expectedInterval i
      then give (Inl (CheckoutCreationRejected ''Checkout interval does not match the catalog expectation''))
      else
        bind_proc (reserve (ci_accountId i) (ci_planKey i) (JStr (interval_text (ci_interval i))) (ci_requestKey i) JUndef token clock) (\<lambda>r.
        bind_proc
          (if rs_version r = None
           then give (Inl (CheckoutReplayUnsafeError
             ''this Checkout claim predates durable request snapshots; operator reconciliation is required''))
           else if rs_version r = Some 1 then give (validatedFrozenSnapshot parseUrl r)
           else if rs_version r \<noteq> Some 0 \<or> rs_snapshot r \<noteq> None
           then give (Inl (CheckoutReplayUnsafeError ''Checkout request snapshot state is invalid''))
           else prepare_and_freeze parseUrl prepare r i) (\<lambda>snapshot.
        executeFrozen parseUrl create r snapshot)))"

end
