(* ===== verification/Pack_Checkout.thy ===== *)
theory Pack_Checkout
  imports Checkout
begin

text \<open>
  Buying a credit pack (typescript/src/credit-pack-coordinator.ts): the order is reserved under the
  idempotency key of the client with the terms of the pack, the request to Stripe is frozen in the order, and
  a retry with the same key finds the order again. The parameters are those of \<open>Checkout\<close>.
\<close>

section \<open>Reservations\<close>

record CreditPackReservation =
  kr_orderId :: string
  kr_accountId :: string
  kr_requestKey :: string
  kr_stripeKey :: string
  kr_packKey :: string
  kr_credits :: CreditAmount
  kr_priceAmount :: int
  kr_currency :: string
  kr_expiresDays :: int
  kr_lookupKey :: string
  kr_customerId :: "string option"
  kr_claimExpiresAt :: int
  kr_claimExpiresAtEpoch :: int
  kr_sessionId :: "string option"
  kr_sessionUrl :: "string option"
  kr_version :: "int option"
  kr_snapshot :: "jsval option"

definition reservation :: "pack_order \<Rightarrow> CreditPackReservation result" where
  "reservation po =
     bind_result (newCreditAmount (po_pack_credits po)) (\<lambda>credits.
       Inr \<lparr>kr_orderId = po_id po, kr_accountId = po_account po, kr_requestKey = po_client_key po,
            kr_stripeKey = po_stripe_key po, kr_packKey = po_pack_key po, kr_credits = credits,
            kr_priceAmount = po_price po, kr_currency = po_currency po, kr_expiresDays = po_expires_days po,
            kr_lookupKey = po_lookup_key po, kr_customerId = po_request_customer po, kr_claimExpiresAt = po_claim_until po,
            kr_claimExpiresAtEpoch = epoch_seconds (po_claim_until po), kr_sessionId = po_session po,
            kr_sessionUrl = po_session_url po, kr_version = po_snapshot_version po, kr_snapshot = po_snapshot po\<rparr>)"

definition selectOrder :: "store \<Rightarrow> string \<Rightarrow> string \<Rightarrow> pack_order option" where
  "selectOrder s accountId requestKey = find (\<lambda>po. po_account po = accountId \<and> po_client_key po = requestKey) (orders s)"

text \<open>A stored order under the same key must be for the very same terms.\<close>

definition same_terms :: "pack_order \<Rightarrow> CreditPack \<Rightarrow> string \<Rightarrow> int \<Rightarrow> bool" where
  "same_terms po pack lookup priceAmount \<longleftrightarrow>
     po_pack_key po = k_key pack \<and> po_pack_credits po = atoms (k_credits pack) \<and> po_price po = priceAmount \<and>
     po_currency po = k_currency pack \<and> po_expires_days po = k_expiresDays pack \<and> po_lookup_key po = lookup"

definition new_order :: "string \<Rightarrow> account \<Rightarrow> string \<Rightarrow> CreditPack \<Rightarrow> string \<Rightarrow> int \<Rightarrow> int \<Rightarrow> pack_order" where
  "new_order orderId a requestKey pack lookup priceAmount expiresAt =
     \<lparr>po_id = orderId, po_account = acc_id a, po_pack_key = k_key pack, po_pack_credits = atoms (k_credits pack),
      po_price = priceAmount, po_currency = k_currency pack, po_expires_days = k_expiresDays pack,
      po_lookup_key = lookup, po_request_customer = acc_customer a, po_checkout_status = Reserved,
      po_payment_status = Pending, po_session = None, po_session_url = None, po_payment_intent = None,
      po_charge = None, po_customer = None, po_amount_paid = None, po_amount_refunded = 0, po_refunded_credits = 0,
      po_paid_at = None, po_claim_token = None, po_claim_expires = None, po_client_key = requestKey,
      po_stripe_key = ''credit-pack:'' @ orderId, po_claim_until = expiresAt,
      po_snapshot_version = Some 0, po_snapshot = None\<rparr>"

definition checkout_claim_open :: "billing \<Rightarrow> string \<Rightarrow> int \<Rightarrow> bool" where
  "checkout_claim_open b acc now \<longleftrightarrow> list_ex (\<lambda>c. cc_account c = acc \<and> cc_expires c > now) (checkout_claims b)"

definition insert_order :: "pack_order \<Rightarrow> unit tx" where
  "insert_order po = modify (\<lambda>s. s\<lparr>orders := orders s @ [po]\<rparr>)"

definition existing_refusal :: "pack_order \<Rightarrow> CreditPack \<Rightarrow> string \<Rightarrow> int \<Rightarrow> int \<Rightarrow> string option" where
  "existing_refusal po pack lookup priceAmount clock =
     (if \<not> same_terms po pack lookup priceAmount then Some ''Idempotency-Key was already used for a different credit pack''
      else if po_checkout_status po = CheckoutExpired
      then Some ''this credit-pack Checkout expired; start a new intent with a new Idempotency-Key''
      else if \<not> po_claim_until po > clock
      then Some ''the safe same-key Checkout recovery window expired; operator reconciliation is required before starting a new intent''
      else None)"

definition reserve_order ::
  "PlanCatalog \<Rightarrow> string \<Rightarrow> CreditPack \<Rightarrow> string \<Rightarrow> int \<Rightarrow> string \<Rightarrow> int \<Rightarrow> CreditPackReservation btx"
where
  "reserve_order cat accountId pack requestKey ttlSeconds orderId clock =
     bind_tx (gets (\<lambda>b. find_account (core b) accountId)) (\<lambda>found.
     case found of
       None \<Rightarrow> throw (PlainError ''billing account not found'')
     | Some a \<Rightarrow>
         let expiresAt = clock + ttlSeconds * MICROS_PER_SECOND; priceAmount = k_priceUsd pack * 100 in
         bind_tx (gets (\<lambda>b. selectOrder (core b) accountId requestKey)) (\<lambda>existing.
         case creditPackLookupKey cat (k_key pack) of
           Inl e \<Rightarrow> throw e
         | Inr lookup \<Rightarrow>
             case existing of
               Some po \<Rightarrow>
                 (case existing_refusal po pack lookup priceAmount clock of
                    Some m \<Rightarrow> throw (CreditPackConflictError m)
                  | None \<Rightarrow> lift_tx (reservation po))
             | None \<Rightarrow>
                 bind_tx (gets (\<lambda>b. acc_customer a = None \<and>
                     (checkout_claim_open b accountId clock \<or> pack_checkout_open (core b) accountId clock))) (\<lambda>busy.
                 if busy then throw (CreditPackBusyError ''the first Stripe Customer Checkout is already in progress'')
                 else
                   let fresh = new_order orderId a requestKey pack lookup priceAmount expiresAt in
                   bind_tx (on_core (insert_order fresh)) (\<lambda>_. lift_tx (reservation fresh)))))"

definition reservePack ::
  "PlanCatalog \<Rightarrow> string \<Rightarrow> CreditPack \<Rightarrow> jsval \<Rightarrow> jsval \<Rightarrow> string \<Rightarrow> int \<Rightarrow> CreditPackReservation proc"
where
  "reservePack cat accountId pack requestKeyInput ttl orderId clock =
     bind_proc (give (requiredVisibleString requestKeyInput ''Idempotency-Key'' 200)) (\<lambda>requestKey.
     bind_proc (give (case (if isAbsent ttl then JInt (23 * 60 * 60) else ttl) of
          JInt n \<Rightarrow>
            if \<not> isSafeInteger (JInt n) \<or> n \<le> 0 \<or> n > 23 * 60 * 60 + 59 * 60
            then Inl (RangeError ''credit-pack Checkout TTL must be within Stripe's 24-hour bound'') else Inr n
        | _ \<Rightarrow> Inl (RangeError ''credit-pack Checkout TTL must be within Stripe's 24-hour bound''))) (\<lambda>ttlSeconds.
     statement (reserve_order cat accountId pack requestKey ttlSeconds orderId clock)))"

definition existingForCreate :: "string \<Rightarrow> string \<Rightarrow> string \<Rightarrow> int \<Rightarrow> billing \<Rightarrow> CreditPackReservation option result" where
  "existingForCreate accountId packKey requestKey clock b =
     (case selectOrder (core b) accountId requestKey of
        None \<Rightarrow> Inr None
      | Some po \<Rightarrow>
          if po_pack_key po \<noteq> packKey
          then Inl (CreditPackConflictError ''Idempotency-Key was already used for a different credit pack'')
          else if po_checkout_status po = CheckoutExpired \<or> \<not> po_claim_until po > clock
          then Inl (CreditPackConflictError
            ''the safe same-key Checkout recovery window expired; operator reconciliation is required before starting a new intent'')
          else bind_result (reservation po) (\<lambda>r. Inr (Some r)))"

section \<open>Freezing and sending the request\<close>

text \<open>An update of orders that returns whether a row was updated.\<close>

definition change_orders :: "(pack_order \<Rightarrow> bool) \<Rightarrow> (pack_order \<Rightarrow> pack_order) \<Rightarrow> bool btx" where
  "change_orders P f =
     on_core (\<lambda>s. Inr (list_ex P (orders s), s\<lparr>orders := update_rows P f (orders s)\<rparr>))"

definition freeze_order :: "CreditPackReservation \<Rightarrow> jsval \<Rightarrow> bool btx" where
  "freeze_order r snapshot =
     change_orders (\<lambda>po. po_id po = kr_orderId r \<and> po_snapshot_version po = Some 0 \<and> po_snapshot po = None)
       (\<lambda>po. po\<lparr>po_snapshot_version := Some 1, po_snapshot := Some snapshot\<rparr>)"

definition freezePackSnapshot :: "CreditPackReservation \<Rightarrow> jsval \<Rightarrow> jsval proc" where
  "freezePackSnapshot r snapshot =
     bind_proc (statement (freeze_order r snapshot)) (\<lambda>_.
     peek (\<lambda>b.
       case find_order (core b) (kr_orderId r) of
         Some po \<Rightarrow>
           (case po_snapshot po of
              Some v \<Rightarrow>
                if po_snapshot_version po = Some 1 \<and> isPlainRecord v then Inr v
                else Inl (CreditPackConflictError ''credit-pack Checkout request snapshot could not be frozen safely'')
            | None \<Rightarrow> Inl (CreditPackConflictError ''credit-pack Checkout request snapshot could not be frozen safely''))
       | None \<Rightarrow> Inl (CreditPackConflictError ''credit-pack Checkout request snapshot could not be frozen safely'')))"

definition order_expectation :: "CreditPackReservation \<Rightarrow> string \<Rightarrow> CheckoutSnapshotExpectation" where
  "order_expectation r packCredits =
     no_expectation\<lparr>x_kind := Some PackCheckout, x_accountId := Some (kr_accountId r),
       x_requestIdentity := Some (kr_orderId r), x_lookupKey := Some (kr_lookupKey r), x_currency := Some (kr_currency r),
       x_unitAmount := Some (kr_priceAmount r), x_offeringKey := Some (kr_packKey r),
       x_expiresAt := Some (kr_claimExpiresAtEpoch r), x_customerId := Some (kr_customerId r),
       x_packCredits := Some packCredits, x_expiresDays := Some (kr_expiresDays r)\<rparr>"

definition validatedFrozenOrder :: "url_parser \<Rightarrow> CreditPackReservation \<Rightarrow> jsval result" where
  "validatedFrozenOrder parseUrl r =
     (if kr_version r \<noteq> Some 1
      then Inl (CreditPackConflictError
        (if kr_version r = None
         then ''this credit-pack order predates durable request snapshots; operator reconciliation is required''
         else ''credit-pack Checkout request snapshot state is invalid''))
      else
        bind_result (creditDecimal (atoms (kr_credits r)) ''credit atoms'') (\<lambda>packCredits.
        case validateCheckoutRequestSnapshot parseUrl (stored_snapshot (kr_snapshot r)) (order_expectation r packCredits) of
          Inl (StripeRequestSnapshotError _) \<Rightarrow>
            Inl (CreditPackConflictError
              ''the persisted credit-pack Checkout request snapshot is invalid; operator reconciliation is required'')
        | Inl e \<Rightarrow> Inl e
        | Inr snapshot \<Rightarrow> Inr snapshot))"

definition attach_order :: "CreditPackReservation \<Rightarrow> string \<Rightarrow> string \<Rightarrow> bool btx" where
  "attach_order r sessionId sessionUrl =
     change_orders
       (\<lambda>po. po_id po = kr_orderId r \<and> po_snapshot_version po = Some 1 \<and> po_snapshot po \<noteq> None \<and>
          (po_session po = None \<or> po_session po = Some sessionId))
       (\<lambda>po. po\<lparr>po_session := coalesce (po_session po) (Some sessionId), po_session_url := Some sessionUrl,
          po_checkout_status := (if po_checkout_status po = Reserved then SessionCreated else po_checkout_status po)\<rparr>)"

definition executeFrozenOrder ::
  "url_parser \<Rightarrow> (jsval \<Rightarrow> (string \<times> string) result) \<Rightarrow> CreditPackReservation \<Rightarrow> jsval \<Rightarrow> (string \<times> string) proc"
where
  "executeFrozenOrder parseUrl create r snapshot =
     (case (kr_sessionId r, kr_sessionUrl r) of
        (Some sessionId, Some sessionUrl) \<Rightarrow> give (Inr (sessionId, sessionUrl))
      | _ \<Rightarrow>
          bind_proc (send create snapshot) (\<lambda>(rawSessionId, rawSessionUrl).
          bind_proc (give (requiredVisibleString (JStr rawSessionId) ''Checkout Session id'' 255)) (\<lambda>sessionId.
          bind_proc (give (safeSessionUrl parseUrl rawSessionUrl)) (\<lambda>sessionUrl.
          bind_proc (statement (attach_order r sessionId sessionUrl)) (\<lambda>attached.
          if attached then give (Inr (sessionId, sessionUrl))
          else peek (\<lambda>b.
            if map_option po_session (find_order (core b) (kr_orderId r)) = Some (Some sessionId)
            then Inr (sessionId, sessionUrl)
            else Inl (PlainError ''credit-pack order changed during Checkout creation'')))))))"

definition recoverFrozenOrder ::
  "url_parser \<Rightarrow> (jsval \<Rightarrow> (string \<times> string) result) \<Rightarrow> string \<Rightarrow> string \<Rightarrow> jsval \<Rightarrow> int \<Rightarrow> (string \<times> string) option proc"
where
  "recoverFrozenOrder parseUrl create accountId packKey requestKeyInput clock =
     bind_proc (give (requiredVisibleString requestKeyInput ''Idempotency-Key'' 200)) (\<lambda>requestKey.
     bind_proc (peek (existingForCreate accountId packKey requestKey clock)) (\<lambda>existing.
     case existing of
       None \<Rightarrow> give (Inr None)
     | Some r \<Rightarrow>
         if kr_version r \<noteq> Some 1 then give (Inr None)
         else
           bind_proc (give (validatedFrozenOrder parseUrl r)) (\<lambda>snapshot.
           bind_proc (executeFrozenOrder parseUrl create r snapshot) (\<lambda>session. give (Inr (Some session))))))"

record PackRequest =
  kq_orderId :: string
  kq_accountId :: string
  kq_customerId :: "string option"
  kq_lookupKey :: string
  kq_currency :: string
  kq_unitAmount :: int
  kq_packKey :: string
  kq_packCredits :: string
  kq_expiresDays :: int
  kq_expiresAtEpoch :: int

definition pack_request :: "CreditPackReservation \<Rightarrow> string \<Rightarrow> PackRequest" where
  "pack_request r packCredits =
     \<lparr>kq_orderId = kr_orderId r, kq_accountId = kr_accountId r, kq_customerId = kr_customerId r,
      kq_lookupKey = kr_lookupKey r, kq_currency = kr_currency r, kq_unitAmount = kr_priceAmount r,
      kq_packKey = kr_packKey r, kq_packCredits = packCredits, kq_expiresDays = kr_expiresDays r,
      kq_expiresAtEpoch = kr_claimExpiresAtEpoch r\<rparr>"

definition freeze_prepared ::
  "url_parser \<Rightarrow> (PackRequest \<Rightarrow> jsval result) \<Rightarrow> CreditPackReservation \<Rightarrow> string \<Rightarrow> jsval proc"
where
  "freeze_prepared parseUrl prepare r packCredits =
     bind_proc (give (bind_result (prepare (pack_request r packCredits)) (\<lambda>v.
       validateCheckoutRequestSnapshot parseUrl v (order_expectation r packCredits)))) (\<lambda>prepared.
     bind_proc (freezePackSnapshot r prepared) (\<lambda>frozen.
       give (validateCheckoutRequestSnapshot parseUrl frozen (order_expectation r packCredits))))"

definition createPackCheckout ::
  "url_parser \<Rightarrow> PlanCatalog \<Rightarrow> (PackRequest \<Rightarrow> jsval result) \<Rightarrow> (jsval \<Rightarrow> (string \<times> string) result) \<Rightarrow>
   string \<Rightarrow> string \<Rightarrow> jsval \<Rightarrow> string \<Rightarrow> int \<Rightarrow> (string \<times> string) proc"
where
  "createPackCheckout parseUrl cat prepare create accountId packKey requestKeyInput orderId clock =
     bind_proc (give (requiredVisibleString requestKeyInput ''Idempotency-Key'' 200)) (\<lambda>requestKey.
     bind_proc (peek (existingForCreate accountId packKey requestKey clock)) (\<lambda>existing.
     bind_proc
       (case existing of
          Some r \<Rightarrow> give (Inr r)
        | None \<Rightarrow>
            bind_proc (give (requireCreditPack cat packKey)) (\<lambda>pack.
            reservePack cat accountId pack (JStr requestKey) JUndef orderId clock)) (\<lambda>r.
     bind_proc (give (creditDecimal (atoms (kr_credits r)) ''credit atoms'')) (\<lambda>packCredits.
     bind_proc
       (if kr_version r = None
        then give (Inl (CreditPackConflictError
          ''this credit-pack order predates durable request snapshots; operator reconciliation is required''))
        else if kr_version r = Some 1 then give (validatedFrozenOrder parseUrl r)
        else if kr_version r \<noteq> Some 0 \<or> kr_snapshot r \<noteq> None
        then give (Inl (CreditPackConflictError ''credit-pack Checkout request snapshot state is invalid''))
        else freeze_prepared parseUrl prepare r packCredits) (\<lambda>snapshot.
     executeFrozenOrder parseUrl create r snapshot)))))"

end
