(* ===== verification/Plan_Changes.thy ===== *)
theory Plan_Changes
  imports Checkout Annual_Grants
begin

text \<open>
  Changing the plan of a running subscription (typescript/src/plan-changes.ts): an intent is reserved under
  the client's idempotency key, previewed with Stripe, frozen as a request snapshot, and confirmed. Leases
  keep two workers from the same intent; no call to Stripe runs inside a transaction. Each statement of a
  method runs at its own instant: \<open>clock n\<close> is \<open>now()\<close> of its n-th statement.

  The gateway is a record of functions, its optional methods are options; \<open>changeId\<close> and \<open>leaseToken\<close> are
  the results of \<open>randomUUID()\<close>.
\<close>

section \<open>The gateway and the configuration\<close>

record PreparePlanChangeInput =
  pp_subscriptionId :: string
  pp_targetLookupKey :: string
  pp_expectedCurrency :: string
  pp_expectedUnitAmount :: int
  pp_expectedPlanKey :: string
  pp_targetInterval :: BillingInterval
  pp_sourceLookupKey :: string
  pp_sourceCurrency :: string
  pp_sourceUnitAmount :: int
  pp_sourcePlanKey :: string
  pp_sourceInterval :: BillingInterval

record PlanChangeEstimate =
  es_amountDue :: int
  es_prorationCredit :: int
  es_customerBalanceCredit :: int
  es_currency :: string
  es_safeInvoiceShape :: bool
  es_sourceProration :: int
  es_targetProration :: int
  es_taxAmount :: int
  es_discountAmount :: int
  es_periodStart :: "int option"
  es_periodEnd :: "int option"

record RemotePlanChange =
  rm_remoteId :: string
  rm_pendingUpdate :: bool
  rm_pendingExpiresAt :: "int option"
  rm_recoveryUrl :: "string option"
  rm_clientSecret :: "string option"
  rm_settlementInvoiceId :: "string option"

record PlanChangeGateway =
  preparePlanChange :: "PreparePlanChangeInput \<Rightarrow> PlanChangeContext result"
  previewImmediate :: "PlanChangeContext \<Rightarrow> TransitionPolicy \<Rightarrow> int option \<Rightarrow> PlanChangeEstimate result"
  applyImmediate :: "PlanChangeContext \<Rightarrow> string \<Rightarrow> TransitionPolicy \<Rightarrow> int option \<Rightarrow> RemotePlanChange result"
  schedulePlanChange :: "PlanChangeContext \<Rightarrow> string \<Rightarrow> RemotePlanChange result"
  executeSnapshot :: "(jsval \<Rightarrow> RemotePlanChange result) option"
  verifySnapshot :: "(jsval \<Rightarrow> PlanChangeContext result) option"
  gatewayApiVersion :: "string option"
  gatewayProductLine :: "string option"

text \<open>The lease is a span in microseconds.\<close>

record change_config =
  ch_catalog :: PlanCatalog
  ch_leaseTtl :: int
  ch_policy :: TransitionPolicy

section \<open>Inputs and results\<close>

definition timestampEqualsEpoch :: "int option \<Rightarrow> int \<Rightarrow> bool" where
  "timestampEqualsEpoch timestamp epochSeconds \<longleftrightarrow> timestamp = Some (to_timestamp epochSeconds)"

definition change_interval :: "string \<Rightarrow> BillingInterval result" where
  "change_interval value =
     (if value = ''month'' then Inr Month else if value = ''year'' then Inr Year
      else Inl (PlanChangeConflictError ''interval must be month or year''))"

definition validateChangeKey :: "jsval \<Rightarrow> string result" where
  "validateChangeKey value =
     (case value of
        JStr s \<Rightarrow>
          if visible_text s 200 then Inr s
          else Inl (PlanChangeConflictError ''Idempotency-Key must contain 1 to 200 visible characters without padding'')
      | _ \<Rightarrow> Inl (PlanChangeConflictError ''Idempotency-Key must contain 1 to 200 visible characters without padding''))"

definition expectedPriceAmount :: "Plan \<Rightarrow> BillingInterval \<Rightarrow> int" where
  "expectedPriceAmount plan i = (case i of Month \<Rightarrow> p_monthUsd plan | Year \<Rightarrow> p_yearUsd plan) * 100"

definition decisionFromRow :: "plan_change \<Rightarrow> TransitionDecision" where
  "decisionFromRow c =
     \<lparr>d_fromPlan = pc_from_plan c, d_fromInterval = pc_from_interval c, d_targetPlan = pc_target_plan c,
      d_targetInterval = pc_target_interval c, d_timing = pc_mode c, d_reason = ''persisted transition policy'',
      d_policy = pc_policy c\<rparr>"

record PlanChangeResult =
  cr_changeId :: string
  cr_decision :: TransitionDecision
  cr_status :: plan_change_status
  cr_effectiveAt :: "int option"
  cr_recoveryUrl :: "string option"
  cr_clientSecret :: "string option"
  cr_replayed :: bool
  cr_amountDue :: "int option"
  cr_creditApplied :: "int option"
  cr_balanceCredit :: "int option"
  cr_currency :: "string option"
  cr_policy :: TransitionPolicy
  cr_creditDelta :: "int option"

definition resultFromRow :: "plan_change \<Rightarrow> TransitionDecision \<Rightarrow> bool \<Rightarrow> string option \<Rightarrow> PlanChangeResult" where
  "resultFromRow c decision again clientSecret =
     \<lparr>cr_changeId = pc_id c, cr_decision = decision, cr_status = pc_status c, cr_effectiveAt = pc_effective_at c,
      cr_recoveryUrl = pc_recovery_url c, cr_clientSecret = clientSecret, cr_replayed = again,
      cr_amountDue = pc_amount_due c, cr_creditApplied = pc_credit_applied c, cr_balanceCredit = pc_balance_credit c,
      cr_currency = pc_currency c, cr_policy = pc_policy c, cr_creditDelta = pc_expected_delta c\<rparr>"

text \<open>The name of the class of an exception.\<close>

fun errorName :: "error \<Rightarrow> string" where
  "errorName (TypeError _) = ''TypeError''"
| "errorName (RangeError _) = ''RangeError''"
| "errorName (StripeRequestSnapshotError _) = ''StripeRequestSnapshotError''"
| "errorName (PlanChangeBusyError _) = ''PlanChangeBusyError''"
| "errorName (PlanChangeConflictError _) = ''PlanChangeConflictError''"
| "errorName (PlanChangeUnavailableError _) = ''PlanChangeUnavailableError''"
| "errorName (ConstraintViolation _) = ''DatabaseError''"
| "errorName _ = ''Error''"

definition previewDecision :: "change_config \<Rightarrow> account \<Rightarrow> string \<Rightarrow> string \<Rightarrow> TransitionDecision result" where
  "previewDecision cfg a planKey wanted =
     bind_result (requirePlan (ch_catalog cfg) planKey) (\<lambda>target.
     case acc_plan_interval a of
       None \<Rightarrow> Inl (PlanChangeUnavailableError ''free accounts must start through Checkout'')
     | Some currentInterval \<Rightarrow>
         if acc_plan_key a = ''free''
         then Inl (PlanChangeUnavailableError ''free accounts must start through Checkout'')
         else
           bind_result (requirePlan (ch_catalog cfg) (acc_plan_key a)) (\<lambda>current.
           bind_result (change_interval wanted) (\<lambda>targetInterval.
             decideTransition current currentInterval target targetInterval (ch_policy cfg))))"

section \<open>Reading a change\<close>

definition find_change :: "billing \<Rightarrow> string \<Rightarrow> plan_change option" where
  "find_change b k = find (\<lambda>c. pc_id c = k) (plan_changes b)"

definition get_change :: "string \<Rightarrow> billing \<Rightarrow> plan_change result" where
  "get_change k b =
     (case find_change b k of None \<Rightarrow> Inl (PlanChangeUnavailableError ''plan change not found'') | Some c \<Rightarrow> Inr c)"

text \<open>\<open>update \<dots> where id = \<dots> returning *\<close>: the row after the update, if it was updated.\<close>

definition update_change :: "string \<Rightarrow> (plan_change \<Rightarrow> bool) \<Rightarrow> (plan_change \<Rightarrow> plan_change) \<Rightarrow> plan_change option btx" where
  "update_change k P f =
     bind_tx (update_changes (\<lambda>c. pc_id c = k \<and> P c) f) (\<lambda>updated.
     gets (\<lambda>b. if updated then find_change b k else None))"

definition accountMatchesSnapshot :: "account \<Rightarrow> plan_change \<Rightarrow> bool" where
  "accountMatchesSnapshot a c \<longleftrightarrow>
     acc_subscription a = Some (pc_subscription c) \<and> acc_plan_key a = pc_from_plan c \<and>
     acc_plan_interval a = Some (pc_from_interval c) \<and> acc_epoch a = pc_expected_epoch c \<and>
     acc_entitlement_end a = pc_expected_period_end c \<and> acc_status a = pc_expected_status c \<and>
     acc_cancel_at_period_end a = pc_expected_cancel c \<and> acc_revoked a = pc_expected_revoked c"

text \<open>\<open>#latestFundingInvoice\<close>: the last grant of the epoch, else the last closed upgrade of it.\<close>

definition changeFundingInvoice :: "string \<Rightarrow> int \<Rightarrow> billing \<Rightarrow> string option" where
  "changeFundingInvoice acc epoch b =
     (let fromLedger = (case rev (filter (\<lambda>e. le_account e = acc \<and> le_epoch e = epoch \<and> le_slot e \<noteq> None \<and> le_units e > 0 \<and>
              le_reason e \<in> {''subscription_grant'', ''upgrade_delta_grant''}) (ledger (core b))) of
            [] \<Rightarrow> None | e # _ \<Rightarrow> le_invoice e);
          fromAllocation = (case rev (filter (\<lambda>f. fa_account f = acc \<and> fa_epoch f = epoch \<and>
              fa_status f \<in> {FundingClosed, FundingDisputed}) (funding_allocations b)) of
            [] \<Rightarrow> None | f # _ \<Rightarrow> Some (fa_source_invoice f)) in
      case fromLedger of
        Some i \<Rightarrow> if i \<noteq> [] then Some i else fromAllocation
      | None \<Rightarrow> fromAllocation)"

section \<open>Reserving an intent\<close>

definition expire_changes :: "string \<Rightarrow> int \<Rightarrow> unit btx" where
  "expire_changes accountId now =
     bind_tx (update_changes
       (\<lambda>c. pc_account c = accountId \<and> pc_status c = RequiresAction \<and>
          (case pc_pending_expires c of None \<Rightarrow> False | Some t \<Rightarrow> t \<le> now))
       (\<lambda>c. c\<lparr>pc_status := FailedChange, pc_last_error := Some ''pending_update_expired''\<rparr>)) (\<lambda>_.
     bind_tx (update_changes
       (\<lambda>c. pc_account c = accountId \<and> pc_status c = Previewed \<and>
          (case pc_preview_expires c of None \<Rightarrow> False | Some t \<Rightarrow> t \<le> now) \<and>
          (case pc_lease_expires c of None \<Rightarrow> True | Some t \<Rightarrow> t \<le> now))
       (\<lambda>c. c\<lparr>pc_status := FailedChange, pc_last_error := Some ''preview_expired''\<rparr>)) (\<lambda>_. ret ()))"

text \<open>The funding lineage of a prorated upgrade: the source invoice and the credits it adds.\<close>

definition upgrade_lineage ::
  "account \<Rightarrow> Plan \<Rightarrow> Plan \<Rightarrow> int \<Rightarrow> billing \<Rightarrow> (string option \<times> int option) result"
where
  "upgrade_lineage a current target now b =
     (if (case acc_entitlement_end a of None \<Rightarrow> True | Some t \<Rightarrow> \<not> t > now)
      then Inl (PlanChangeUnavailableError ''the active entitlement has no current funded period boundary'')
      else
        case changeFundingInvoice (acc_id a) (acc_epoch a) b of
          None \<Rightarrow> Inl (PlanChangeUnavailableError ''the active entitlement has no immutable funding invoice'')
        | Some invoice \<Rightarrow>
            let delta = atoms (p_monthlyCredits target) - atoms (p_monthlyCredits current) in
            if delta \<le> 0 then Inl (PlanChangeConflictError ''a prorated upgrade requires a positive entitlement delta'')
            else Inr (Some invoice, Some delta))"

definition new_change ::
  "string \<Rightarrow> account \<Rightarrow> string \<Rightarrow> string \<Rightarrow> TransitionDecision \<Rightarrow> string option \<Rightarrow> int option \<Rightarrow> int \<Rightarrow> plan_change"
where
  "new_change changeId a subscription key d source delta now =
     (let noop_change = d_timing d = noop in
      \<lparr>pc_id = changeId, pc_account = acc_id a, pc_key = key, pc_subscription = subscription,
       pc_from_plan = d_fromPlan d, pc_from_interval = d_fromInterval d, pc_target_plan = d_targetPlan d,
       pc_target_interval = d_targetInterval d, pc_mode = d_timing d,
       pc_status = (if noop_change then CompletedChange else Reserving),
       pc_effective_at = (if d_timing d = period_end then acc_period_end a else None), pc_schedule = None,
       pc_request_key = ''plan-change:'' @ changeId, pc_expected_epoch = acc_epoch a,
       pc_expected_period_end = acc_entitlement_end a, pc_expected_status = acc_status a,
       pc_expected_cancel = acc_cancel_at_period_end a, pc_proration_date = None, pc_amount_due = None,
       pc_credit_applied = None, pc_balance_credit = None, pc_currency = None, pc_preview_expires = None,
       pc_lease = None, pc_lease_expires = None, pc_pending_expires = None, pc_recovery_url = None,
       pc_last_error = None, pc_policy = d_policy d, pc_expected_source = source, pc_expected_delta = delta,
       pc_expected_revoked = acc_revoked a, pc_settlement = None, pc_remote_started = None,
       pc_source_proration = None, pc_target_proration = None, pc_period_start = None, pc_period_end = None,
       pc_created = now, pc_completed = (if noop_change then Some now else None),
       pc_snapshot_version = Some 0, pc_snapshot = None\<rparr>)"

text \<open>The decision on a new intent, from the account as it is locked.\<close>

definition intended_decision ::
  "change_config \<Rightarrow> account \<Rightarrow> Plan \<Rightarrow> BillingInterval \<Rightarrow> (Plan \<times> TransitionDecision) result"
where
  "intended_decision cfg a target targetInterval =
     (if acc_status a \<noteq> SubActive \<or> acc_subscription a = None
      then Inl (PlanChangeUnavailableError ''an active paid subscription is required'')
      else if acc_cancel_at_period_end a
      then Inl (PlanChangeUnavailableError ''cancel the pending subscription cancellation before changing plans'')
      else
        case acc_plan_interval a of
          None \<Rightarrow> Inl (PlanChangeConflictError ''interval must be month or year'')
        | Some currentInterval \<Rightarrow>
            bind_result (requirePlan (ch_catalog cfg) (acc_plan_key a)) (\<lambda>current.
            bind_result (decideTransition current currentInterval target targetInterval (ch_policy cfg)) (\<lambda>d.
            if d_timing d = period_end \<and> acc_period_end a = None
            then Inl (PlanChangeUnavailableError ''current period end is not known yet'')
            else Inr (current, d))))"

definition insert_change :: "plan_change \<Rightarrow> unit btx" where
  "insert_change c = modify (\<lambda>b. b\<lparr>plan_changes := plan_changes b @ [c]\<rparr>)"

definition reserve_change ::
  "change_config \<Rightarrow> string \<Rightarrow> Plan \<Rightarrow> BillingInterval \<Rightarrow> string \<Rightarrow> string \<Rightarrow> int \<Rightarrow> (plan_change \<times> bool) btx"
where
  "reserve_change cfg accountId target targetInterval key changeId now =
     bind_tx (gets (\<lambda>b. find_account (core b) accountId)) (\<lambda>found.
     case found of
       None \<Rightarrow> throw (PlanChangeUnavailableError ''billing account not found'')
     | Some a \<Rightarrow>
         bind_tx (expire_changes accountId now) (\<lambda>_.
         bind_tx (gets (\<lambda>b. find (\<lambda>c. pc_account c = accountId \<and> pc_key c = key) (plan_changes b))) (\<lambda>existing.
         case existing of
           Some c \<Rightarrow>
             if pc_target_plan c \<noteq> p_key target \<or> pc_target_interval c \<noteq> targetInterval
             then throw (PlanChangeConflictError ''Idempotency-Key was already used with a different target'')
             else ret (c, True)
         | None \<Rightarrow>
             bind_tx (lift_tx (intended_decision cfg a target targetInterval)) (\<lambda>(current, d).
             bind_tx (gets (\<lambda>b. list_ex (\<lambda>c. pc_account c = accountId \<and> pending_change c) (plan_changes b))) (\<lambda>busy.
             if busy then throw (PlanChangeBusyError ''another plan change is still pending'')
             else
               bind_tx (gets (\<lambda>b.
                 if d_policy d = prorated_delta \<and> d_timing d = immediate then upgrade_lineage a current target now b
                 else Inr (None, None))) (\<lambda>lineage.
               bind_tx (lift_tx lineage) (\<lambda>(source, delta).
               let c = new_change changeId a (case acc_subscription a of Some k \<Rightarrow> k | None \<Rightarrow> []) key d source delta now in
               bind_tx (insert_change c) (\<lambda>_. ret (c, False)))))))))"

section \<open>Leases\<close>

definition lease_free :: "int \<Rightarrow> plan_change \<Rightarrow> bool" where
  "lease_free now c \<longleftrightarrow> (case pc_lease_expires c of None \<Rightarrow> True | Some t \<Rightarrow> t \<le> now)"

definition preview_alive :: "int \<Rightarrow> plan_change \<Rightarrow> bool" where
  "preview_alive now c \<longleftrightarrow> (case pc_preview_expires c of None \<Rightarrow> False | Some t \<Rightarrow> t > now)"

definition take_lease :: "change_config \<Rightarrow> string \<Rightarrow> int \<Rightarrow> plan_change \<Rightarrow> plan_change" where
  "take_lease cfg leaseToken now c =
     c\<lparr>pc_lease := Some leaseToken, pc_lease_expires := Some (now + ch_leaseTtl cfg)\<rparr>"

definition drop_lease :: "plan_change \<Rightarrow> plan_change" where
  "drop_lease c = c\<lparr>pc_lease := None, pc_lease_expires := None\<rparr>"

definition acquireLease ::
  "change_config \<Rightarrow> string \<Rightarrow> string \<Rightarrow> plan_change_status \<Rightarrow> int \<Rightarrow> plan_change option btx"
where
  "acquireLease cfg changeId leaseToken expectedStatus now =
     update_change changeId
       (\<lambda>c. pc_status c = expectedStatus \<and> lease_free now c \<and> (expectedStatus \<noteq> Previewed \<or> preview_alive now c))
       (take_lease cfg leaseToken now)"

definition acquireConfirmationLease :: "change_config \<Rightarrow> string \<Rightarrow> string \<Rightarrow> int \<Rightarrow> plan_change option btx" where
  "acquireConfirmationLease cfg changeId leaseToken now =
     update_change changeId
       (\<lambda>c. pc_status c \<in> {Previewed, Applying} \<and> lease_free now c \<and> (pc_status c = Applying \<or> preview_alive now c))
       (\<lambda>c. take_lease cfg leaseToken now (c\<lparr>pc_status := Applying\<rparr>))"

definition markRemoteStarted :: "string \<Rightarrow> string \<Rightarrow> int \<Rightarrow> plan_change btx" where
  "markRemoteStarted changeId leaseToken now =
     bind_tx (update_change changeId (\<lambda>c. pc_status c = Applying \<and> pc_lease c = Some leaseToken)
       (\<lambda>c. c\<lparr>pc_remote_started := coalesce (pc_remote_started c) (Some now)\<rparr>)) (\<lambda>row.
     case row of
       None \<Rightarrow> throw (PlanChangeConflictError ''plan-change confirmation lease was lost'')
     | Some c \<Rightarrow> ret c)"

definition expirePreviewIfIdle :: "plan_change \<Rightarrow> int \<Rightarrow> bool btx" where
  "expirePreviewIfIdle c now =
     (if pc_status c \<noteq> Previewed \<or> pc_preview_expires c = None then ret False
      else
        update_changes
          (\<lambda>r. pc_id r = pc_id c \<and> pc_status r = Previewed \<and>
             (case pc_preview_expires r of None \<Rightarrow> False | Some t \<Rightarrow> t \<le> now) \<and> lease_free now r)
          (\<lambda>r. drop_lease (r\<lparr>pc_status := FailedChange, pc_last_error := Some ''preview_expired''\<rparr>)))"

definition retireUnfrozenIntent :: "string \<Rightarrow> string \<Rightarrow> bool btx" where
  "retireUnfrozenIntent changeId leaseToken =
     update_changes (\<lambda>c. pc_id c = changeId \<and> pc_lease c = Some leaseToken \<and> pc_snapshot_version c \<noteq> Some 1)
       (\<lambda>c. drop_lease (c\<lparr>pc_status := FailedChange, pc_last_error := Some ''missing_remote_request_snapshot''\<rparr>))"

definition releaseAfterError :: "string \<Rightarrow> string \<Rightarrow> string \<Rightarrow> bool btx" where
  "releaseAfterError changeId leaseToken lastError =
     update_changes (\<lambda>c. pc_id c = changeId \<and> pc_lease c = Some leaseToken)
       (\<lambda>c. drop_lease (c\<lparr>pc_status := (if pc_status c = Applying \<and> pc_remote_started c = None then Previewed else pc_status c),
          pc_last_error := Some lastError\<rparr>))"

section \<open>Checks before a call to Stripe\<close>

definition lookup_allowed :: "plan_change \<Rightarrow> PlanChangeContext \<Rightarrow> string \<Rightarrow> string \<Rightarrow> bool" where
  "lookup_allowed c x expected target \<longleftrightarrow>
     x_currentLookupKey x = expected \<or> (pc_remote_started c \<noteq> None \<and> x_currentLookupKey x = target)"

definition remote_refusal :: "plan_change \<Rightarrow> PlanChangeContext \<Rightarrow> string \<Rightarrow> string \<Rightarrow> string option" where
  "remote_refusal c x expectedLookup targetLookup =
     (let started = pc_remote_started c \<noteq> None;
          observedActive = (x_subscriptionStatus x = ''active'' \<or> x_subscriptionStatus x = ''trialing'');
          remoteTargetRecovery = (started \<and> pc_policy c = full_period_reset \<and> x_currentLookupKey x = targetLookup) in
      if x_subscriptionId x \<noteq> pc_subscription c then Some ''Stripe subscription identity changed''
      else if \<not> lookup_allowed c x expectedLookup targetLookup then Some ''Stripe price drifted outside this transition''
      else if observedActive \<noteq> (pc_expected_status c = SubActive) then Some ''Stripe subscription status drifted''
      else if x_cancelAtPeriodEnd x \<noteq> pc_expected_cancel c then Some ''Stripe cancellation state drifted''
      else if pc_expected_period_end c \<noteq> None \<and>
              \<not> timestampEqualsEpoch (pc_expected_period_end c) (x_currentPeriodEnd x) \<and> \<not> remoteTargetRecovery
      then Some ''Stripe billing period drifted; reconcile before changing plans''
      else if \<not> started \<and> (x_pendingUpdate x \<or> x_scheduleId x \<noteq> None)
      then Some ''Stripe already has an unrelated pending change''
      else None)"

definition immediate_delta :: "plan_change \<Rightarrow> bool" where
  "immediate_delta c \<longleftrightarrow> pc_policy c = prorated_delta \<and> pc_mode c = immediate"

definition local_state :: "plan_change \<Rightarrow> billing \<Rightarrow> unit result" where
  "local_state c b =
     (case (find_account (core b) (pc_account c), find_change b (pc_id c)) of
        (Some a, Some _) \<Rightarrow>
          if \<not> accountMatchesSnapshot a c then Inl (PlanChangeConflictError ''local billing state changed'')
          else if immediate_delta c \<and> changeFundingInvoice (acc_id a) (acc_epoch a) b \<noteq> pc_expected_source c
          then Inl (PlanChangeConflictError ''entitlement funding lineage changed'')
          else Inr ()
      | _ \<Rightarrow> Inl (PlanChangeUnavailableError ''plan change state disappeared''))"

definition revalidateBeforeRemote :: "change_config \<Rightarrow> plan_change \<Rightarrow> PlanChangeContext \<Rightarrow> string \<Rightarrow> unit proc" where
  "revalidateBeforeRemote cfg c x targetLookup =
     bind_proc (give (lookupKey (ch_catalog cfg) (pc_from_plan c) (pc_from_interval c))) (\<lambda>expectedLookup.
     case remote_refusal c x expectedLookup targetLookup of
       Some m \<Rightarrow> give (Inl (PlanChangeConflictError m))
     | None \<Rightarrow> peek (local_state c))"

text \<open>The account must still be the one the intent was reserved for; otherwise an incident is kept.\<close>

definition account_race :: "plan_change \<Rightarrow> bool btx" where
  "account_race c =
     bind_tx (gets (\<lambda>b. (find_account (core b) (pc_account c), find_change b (pc_id c)))) (\<lambda>(found, change).
     case found of
       None \<Rightarrow> throw (PlanChangeUnavailableError ''billing account disappeared'')
     | Some a \<Rightarrow>
         if map_option pc_status change = Some CompletedChange then ret False
         else
           bind_tx (gets (\<lambda>b. \<not> immediate_delta c \<or> changeFundingInvoice (acc_id a) (acc_epoch a) b = pc_expected_source c)) (\<lambda>lineage.
           if accountMatchesSnapshot a c \<and> lineage then ret False
           else
             bind_tx (note_incident ''plan_change_account_race'' (pc_id c) (acc_id a) None
                        [(''expected_subscription'', JStr (pc_subscription c))]) (\<lambda>_. ret True)))"

definition assertAccountSnapshot :: "plan_change \<Rightarrow> unit proc" where
  "assertAccountSnapshot c =
     bind_proc (statement (account_race c)) (\<lambda>mismatch.
     if mismatch then give (Inl (PlanChangeConflictError ''billing account changed during the Stripe call'')) else give (Inr ()))"

definition RETRY_WINDOW :: int where
  "RETRY_WINDOW = 23 * 3600 * MICROS_PER_SECOND"

definition assertRemoteRetryWindow :: "plan_change \<Rightarrow> int \<Rightarrow> unit result" where
  "assertRemoteRetryWindow c now =
     (case pc_remote_started c of
        None \<Rightarrow> Inr ()
      | Some t \<Rightarrow>
          if now - t \<ge> RETRY_WINDOW
          then Inl (PlanChangeUnavailableError ''Stripe call outcome is too old to retry safely; reconcile it manually'')
          else Inr ())"

section \<open>The request snapshot of a change\<close>

definition request_suffix :: "EffectiveMode \<Rightarrow> string" where
  "request_suffix timing = (if timing = immediate then ''apply'' else ''schedule'')"

definition buildChangeSnapshot ::
  "change_config \<Rightarrow> PlanChangeGateway \<Rightarrow> plan_change \<Rightarrow> TransitionDecision \<Rightarrow> PlanChangeContext \<Rightarrow> int option \<Rightarrow> jsval result"
where
  "buildChangeSnapshot cfg g c d x prorationDate =
     (if d_timing d = noop
      then Inl (PlanChangeConflictError ''a no-op transition cannot create a Stripe request snapshot'')
      else
        bind_result (requirePlan (ch_catalog cfg) (d_fromPlan d)) (\<lambda>source.
        bind_result (requirePlan (ch_catalog cfg) (d_targetPlan d)) (\<lambda>target.
        bind_result (lookupKey (ch_catalog cfg) (p_key source) (d_fromInterval d)) (\<lambda>sourceLookup.
        bind_result (lookupKey (ch_catalog cfg) (p_key target) (d_targetInterval d)) (\<lambda>targetLookup.
          buildPlanChangeRequestSnapshot
            \<lparr>pi_context = x, pi_immediate = (d_timing d = immediate), pi_policy = d_policy d,
             pi_prorationDate = prorationDate,
             pi_idempotencyKey = pc_request_key c @ '':'' @ request_suffix (d_timing d),
             pi_requestApiVersion = (case gatewayApiVersion g of None \<Rightarrow> ''2026-06-24.dahlia'' | Some v \<Rightarrow> v),
             pi_productLine = (case gatewayProductLine g of None \<Rightarrow> ''example-entitlements'' | Some l \<Rightarrow> l),
             pi_sourceLookupKey = sourceLookup, pi_targetLookupKey = targetLookup,
             pi_sourcePlanKey = p_key source, pi_targetPlanKey = p_key target,
             pi_sourceCurrency = p_currency source, pi_targetCurrency = p_currency target,
             pi_sourceUnitAmount = expectedPriceAmount source (d_fromInterval d),
             pi_targetUnitAmount = expectedPriceAmount target (d_targetInterval d)\<rparr>)))))"

definition row_expectation :: "plan_change \<Rightarrow> PlanChangeSnapshotExpectation" where
  "row_expectation c =
     \<lparr>y_idempotencyKey = Some (pc_request_key c @ '':'' @ request_suffix (pc_mode c)),
      y_subscriptionId = Some (pc_subscription c), y_immediate = Some (pc_mode c = immediate), y_policy = Some (pc_policy c)\<rparr>"

definition validatedChangeSnapshot :: "plan_change \<Rightarrow> jsval result" where
  "validatedChangeSnapshot c =
     (if pc_snapshot_version c \<noteq> Some 1 \<or> \<not> isPlainRecord (stored_snapshot (pc_snapshot c))
      then
        if pc_remote_started c \<noteq> None
        then Inl (PlanChangeUnavailableError
          ''the Stripe mutation started without a durable request snapshot; operator reconciliation is required'')
        else Inl (PlanChangeConflictError ''the plan-change request snapshot is not frozen'')
      else if pc_mode c = noop
      then Inl (PlanChangeConflictError ''a no-op transition cannot carry a Stripe request snapshot'')
      else case validatePlanChangeRequestSnapshot (stored_snapshot (pc_snapshot c)) (row_expectation c) of
          Inl (StripeRequestSnapshotError _) \<Rightarrow>
            Inl (PlanChangeUnavailableError
              ''the persisted plan-change request snapshot is invalid; operator reconciliation is required'')
        | Inl e \<Rightarrow> Inl e
        | Inr snapshot \<Rightarrow>
            let evidence = jprop snapshot ''price_evidence'' in
            if jprop evidence ''source_plan_key'' \<noteq> JStr (pc_from_plan c) \<or>
               jprop evidence ''target_plan_key'' \<noteq> JStr (pc_target_plan c)
            then Inl (PlanChangeConflictError ''plan-change snapshot plan identity drifted'')
            else Inr snapshot)"

definition verified_context :: "PlanChangeGateway \<Rightarrow> plan_change \<Rightarrow> jsval \<Rightarrow> PlanChangeContext \<Rightarrow> PlanChangeContext result" where
  "verified_context g c snapshot frozen =
     (case verifySnapshot g of
        Some verify \<Rightarrow> verify snapshot
      | None \<Rightarrow>
          let e = jprop snapshot ''price_evidence'' in
          preparePlanChange g
            \<lparr>pp_subscriptionId = x_subscriptionId frozen, pp_targetLookupKey = text_of (jprop e ''target_lookup_key''),
             pp_expectedCurrency = text_of (jprop e ''target_currency''),
             pp_expectedUnitAmount = number_of (jprop e ''target_unit_amount''),
             pp_expectedPlanKey = text_of (jprop e ''target_plan_key''), pp_targetInterval = x_targetInterval frozen,
             pp_sourceLookupKey = text_of (jprop e ''source_lookup_key''),
             pp_sourceCurrency = text_of (jprop e ''source_currency''),
             pp_sourceUnitAmount = number_of (jprop e ''source_unit_amount''),
             pp_sourcePlanKey = text_of (jprop e ''source_plan_key''), pp_sourceInterval = pc_from_interval c\<rparr>)"

definition verifyBeforeRemoteStart :: "change_config \<Rightarrow> PlanChangeGateway \<Rightarrow> plan_change \<Rightarrow> jsval \<Rightarrow> unit proc" where
  "verifyBeforeRemoteStart cfg g c snapshot =
     bind_proc (give (planChangeContextFromSnapshot snapshot)) (\<lambda>frozen.
     bind_proc (give (verified_context g c snapshot frozen)) (\<lambda>observed.
     if x_subscriptionItemId observed \<noteq> x_subscriptionItemId frozen
     then give (Inl (PlanChangeConflictError ''Stripe subscription item identity changed''))
     else if x_currentPriceId observed \<noteq> x_currentPriceId frozen
     then give (Inl (PlanChangeConflictError ''Stripe source Price identity changed''))
     else if x_currentPeriodStart observed \<noteq> x_currentPeriodStart frozen
     then give (Inl (PlanChangeConflictError ''Stripe billing period drifted; reconcile first''))
     else revalidateBeforeRemote cfg c observed (text_of (jprop (jprop snapshot ''price_evidence'') ''target_lookup_key''))))"

text \<open>The mutation at Stripe: by the snapshot itself, or by the two older methods from its context.\<close>

definition mutate :: "PlanChangeGateway \<Rightarrow> jsval \<Rightarrow> RemotePlanChange result" where
  "mutate g snapshot =
     (case executeSnapshot g of
        Some execute \<Rightarrow> execute snapshot
      | None \<Rightarrow>
          bind_result (planChangeContextFromSnapshot snapshot) (\<lambda>x.
          let key = text_of (jprop snapshot ''idempotency_key'') in
          if jprop snapshot ''kind'' = JStr ''plan_change_schedule'' then schedulePlanChange g x key
          else
            applyImmediate g x key
              (if jprop snapshot ''policy'' = JStr ''prorated_delta'' then prorated_delta else full_period_reset)
              (case jprop (jprop snapshot ''params'') ''proration_date'' of JInt n \<Rightarrow> Some n | _ \<Rightarrow> None)))"

section \<open>Storing the preview and the outcome\<close>

definition estimate_value :: "(PlanChangeEstimate \<Rightarrow> 'a) \<Rightarrow> PlanChangeEstimate option \<Rightarrow> 'a option" where
  "estimate_value f e = map_option f e"

definition previewed_row ::
  "TransitionDecision \<Rightarrow> PlanChangeContext \<Rightarrow> PlanChangeEstimate option \<Rightarrow> int option \<Rightarrow> jsval \<Rightarrow> int \<Rightarrow> plan_change \<Rightarrow> plan_change"
where
  "previewed_row d x estimate prorationDate snapshot now c =
     drop_lease (c\<lparr>pc_status := Previewed, pc_mode := d_timing d,
       pc_effective_at := (if d_timing d = period_end then Some (to_timestamp (x_currentPeriodEnd x)) else None),
       pc_proration_date := prorationDate,
       pc_amount_due := estimate_value es_amountDue estimate,
       pc_credit_applied := estimate_value es_prorationCredit estimate,
       pc_balance_credit := estimate_value es_customerBalanceCredit estimate,
       pc_currency := estimate_value es_currency estimate,
       pc_source_proration := estimate_value es_sourceProration estimate,
       pc_target_proration := estimate_value es_targetProration estimate,
       pc_period_start := map_option to_timestamp (Option.bind estimate es_periodStart),
       pc_period_end := map_option to_timestamp (Option.bind estimate es_periodEnd),
       pc_preview_expires := Some (now + 600 * MICROS_PER_SECOND),
       pc_snapshot_version := Some 1, pc_snapshot := Some snapshot, pc_last_error := None\<rparr>)"

definition store_preview ::
  "string \<Rightarrow> string \<Rightarrow> TransitionDecision \<Rightarrow> PlanChangeContext \<Rightarrow> PlanChangeEstimate option \<Rightarrow> int option \<Rightarrow> jsval \<Rightarrow> int \<Rightarrow>
   plan_change option btx"
where
  "store_preview changeId leaseToken d x estimate prorationDate snapshot now =
     update_change changeId
       (\<lambda>c. pc_lease c = Some leaseToken \<and> pc_remote_started c = None \<and> pc_snapshot_version c = Some 0 \<and> pc_snapshot c = None)
       (previewed_row d x estimate prorationDate snapshot now)"

definition storePreview ::
  "string \<Rightarrow> string \<Rightarrow> TransitionDecision \<Rightarrow> PlanChangeContext \<Rightarrow> PlanChangeEstimate option \<Rightarrow> int option \<Rightarrow> jsval \<Rightarrow> int \<Rightarrow>
   plan_change proc"
where
  "storePreview changeId leaseToken d x estimate prorationDate snapshot now =
     bind_proc (statement (store_preview changeId leaseToken d x estimate prorationDate snapshot now)) (\<lambda>row.
     bind_proc (case row of Some c \<Rightarrow> give (Inr c) | None \<Rightarrow> peek (get_change changeId)) (\<lambda>stored.
     bind_proc (give (validatedChangeSnapshot stored)) (\<lambda>_. give (Inr stored))))"

record change_outcome =
  co_status :: plan_change_status
  co_effectiveAt :: "int option"
  co_scheduleId :: "string option"
  co_pendingExpires :: "int option"
  co_recoveryUrl :: "string option"
  co_settlement :: "string option"

definition settlement_fits :: "change_outcome \<Rightarrow> plan_change \<Rightarrow> bool" where
  "settlement_fits i c \<longleftrightarrow>
     co_settlement i = None \<or> pc_settlement c = None \<or> pc_settlement c = co_settlement i"

definition finished_row :: "change_outcome \<Rightarrow> plan_change \<Rightarrow> plan_change" where
  "finished_row i c =
     drop_lease (c\<lparr>pc_status := (if pc_status c = CompletedChange then CompletedChange else co_status i),
       pc_effective_at := coalesce (map_option to_timestamp (co_effectiveAt i)) (pc_effective_at c),
       pc_schedule := coalesce (co_scheduleId i) (pc_schedule c),
       pc_pending_expires := map_option to_timestamp (co_pendingExpires i), pc_recovery_url := co_recoveryUrl i,
       pc_settlement := coalesce (pc_settlement c) (co_settlement i), pc_last_error := None\<rparr>)"

definition finish_change :: "string \<Rightarrow> string \<Rightarrow> change_outcome \<Rightarrow> plan_change option btx" where
  "finish_change changeId leaseToken i =
     bind_tx (update_change changeId (\<lambda>c. pc_lease c = Some leaseToken \<and> settlement_fits i c) (finished_row i)) (\<lambda>row.
     case row of
       None \<Rightarrow> ret None
     | Some c \<Rightarrow>
         bind_tx
           (if co_settlement i \<noteq> None \<and> pc_settlement c = co_settlement i
            then resolve_incidents (\<lambda>r. in_account r = Some (pc_account c) \<and> in_invoice r = co_settlement i \<and>
                   in_kind r = ''unbound_plan_change_payment_failed'')
            else ret ()) (\<lambda>_. ret (Some c)))"

definition finish :: "string \<Rightarrow> string \<Rightarrow> change_outcome \<Rightarrow> plan_change proc" where
  "finish changeId leaseToken i =
     bind_proc (statement (finish_change changeId leaseToken i)) (\<lambda>updated.
     case updated of
       Some c \<Rightarrow> give (Inr c)
     | None \<Rightarrow>
         bind_proc (peek (get_change changeId)) (\<lambda>c.
         if settlement_fits i c then give (Inr c)
         else give (Inl (PlanChangeConflictError ''Stripe returned a different settlement Invoice for this plan change''))))"

text \<open>A failure after the lease was taken gives the lease back and is thrown again.\<close>

definition on_failure :: "string \<Rightarrow> string \<Rightarrow> 'a proc \<Rightarrow> 'a proc" where
  "on_failure changeId leaseToken m = (\<lambda>b.
     case m b of
       (Inr x, b', sent) \<Rightarrow> (Inr x, b', sent)
     | (Inl e, b', sent) \<Rightarrow>
         (case bind_proc (statement (releaseAfterError changeId leaseToken (errorName e))) (\<lambda>_. give (Inl e)) b' of
            (r, b'', sent') \<Rightarrow> (r, b'', sent @ sent')))"

section \<open>The preview\<close>

text \<open>\<open>extract(epoch from now())::bigint\<close> rounds to the nearest second.\<close>

definition databaseEpoch :: "int \<Rightarrow> int" where
  "databaseEpoch now = (now + MICROS_PER_SECOND div 2) div MICROS_PER_SECOND"

definition safe_delta_estimate :: "Plan \<Rightarrow> Plan \<Rightarrow> PlanChangeContext \<Rightarrow> int option \<Rightarrow> PlanChangeEstimate \<Rightarrow> bool" where
  "safe_delta_estimate source target x prorationDate e \<longleftrightarrow>
     (let sourceAmount = p_monthUsd source * 100; targetAmount = p_monthUsd target * 100;
          ratioError = \<bar>es_sourceProration e * targetAmount - es_targetProration e * sourceAmount\<bar> in
      es_safeInvoiceShape e \<and> es_amountDue e > 0 \<and> es_sourceProration e > 0 \<and>
      es_sourceProration e \<le> sourceAmount \<and> es_sourceProration e < es_targetProration e \<and>
      es_targetProration e \<le> targetAmount \<and> es_amountDue e = es_targetProration e - es_sourceProration e \<and>
      es_customerBalanceCredit e = 0 \<and> es_taxAmount e = 0 \<and> es_discountAmount e = 0 \<and>
      toLowerCase (es_currency e) = p_currency target \<and> ratioError \<le> max sourceAmount targetAmount \<and>
      es_periodStart e = prorationDate \<and> es_periodEnd e = Some (x_currentPeriodEnd x))"

definition safe_reset_estimate :: "Plan \<Rightarrow> BillingInterval \<Rightarrow> PlanChangeEstimate \<Rightarrow> bool" where
  "safe_reset_estimate target i e \<longleftrightarrow>
     es_safeInvoiceShape e \<and> es_amountDue e = expectedPriceAmount target i \<and> es_prorationCredit e = 0 \<and>
     es_customerBalanceCredit e = 0 \<and> es_taxAmount e = 0 \<and> es_discountAmount e = 0 \<and>
     toLowerCase (es_currency e) = p_currency target"

definition safe_estimate :: "TransitionDecision \<Rightarrow> Plan \<Rightarrow> Plan \<Rightarrow> PlanChangeContext \<Rightarrow> int option \<Rightarrow> PlanChangeEstimate \<Rightarrow> bool" where
  "safe_estimate d source target x prorationDate e \<longleftrightarrow>
     (if d_policy d = prorated_delta then safe_delta_estimate source target x prorationDate e
      else safe_reset_estimate target (d_targetInterval d) e)"

text \<open>An immediate change whose estimate is not safe waits for the end of the period.\<close>

definition estimated_decision ::
  "PlanChangeGateway \<Rightarrow> TransitionDecision \<Rightarrow> Plan \<Rightarrow> Plan \<Rightarrow> PlanChangeContext \<Rightarrow> int \<Rightarrow>
   (TransitionDecision \<times> PlanChangeEstimate option \<times> int option) result"
where
  "estimated_decision g d source target x now =
     (if d_timing d \<noteq> immediate then Inr (d, None, None)
      else
        let prorationDate = (if d_policy d = prorated_delta then Some (databaseEpoch now) else None) in
        bind_result (previewImmediate g x (d_policy d) prorationDate) (\<lambda>e.
          Inr (if safe_estimate d source target x prorationDate e then d
               else d\<lparr>d_timing := period_end,
                      d_reason := ''immediate preview lacked a positive safely-attributed amount due''\<rparr>,
               Some e, prorationDate)))"

definition prepare_input ::
  "change_config \<Rightarrow> string \<Rightarrow> TransitionDecision \<Rightarrow> (Plan \<times> Plan \<times> string \<times> PreparePlanChangeInput) result"
where
  "prepare_input cfg subscription d =
     bind_result (requirePlan (ch_catalog cfg) (d_targetPlan d)) (\<lambda>target.
     bind_result (requirePlan (ch_catalog cfg) (d_fromPlan d)) (\<lambda>source.
     bind_result (lookupKey (ch_catalog cfg) (d_targetPlan d) (d_targetInterval d)) (\<lambda>targetLookup.
     bind_result (lookupKey (ch_catalog cfg) (p_key source) (d_fromInterval d)) (\<lambda>sourceLookup.
       Inr (source, target, targetLookup,
         \<lparr>pp_subscriptionId = subscription, pp_targetLookupKey = targetLookup,
          pp_expectedCurrency = p_currency target,
          pp_expectedUnitAmount = expectedPriceAmount target (d_targetInterval d),
          pp_expectedPlanKey = p_key target, pp_targetInterval = d_targetInterval d,
          pp_sourceLookupKey = sourceLookup, pp_sourceCurrency = p_currency source,
          pp_sourceUnitAmount = expectedPriceAmount source (d_fromInterval d),
          pp_sourcePlanKey = p_key source, pp_sourceInterval = d_fromInterval d\<rparr>)))))"

definition leased_preview ::
  "change_config \<Rightarrow> PlanChangeGateway \<Rightarrow> plan_change \<Rightarrow> plan_change \<Rightarrow> string \<Rightarrow> bool \<Rightarrow> int \<Rightarrow> int \<Rightarrow> PlanChangeResult proc"
where
  "leased_preview cfg g row leased leaseToken again epochNow storeNow =
     (let d = decisionFromRow row in
      if pc_snapshot_version leased \<noteq> Some 0
      then bind_proc (statement (retireUnfrozenIntent (pc_id leased) leaseToken)) (\<lambda>_.
             give (Inl (PlanChangeUnavailableError
               ''this legacy preview has no durable Stripe request snapshot; request a new preview with a new Idempotency-Key'')))
      else
        bind_proc (give (prepare_input cfg (pc_subscription row) d)) (\<lambda>(source, target, targetLookup, request).
        bind_proc (give (preparePlanChange g request)) (\<lambda>x.
        bind_proc (revalidateBeforeRemote cfg row x targetLookup) (\<lambda>_.
        bind_proc (give (estimated_decision g d source target x epochNow)) (\<lambda>(decided, estimate, prorationDate).
        bind_proc (assertAccountSnapshot row) (\<lambda>_.
        bind_proc (give (buildChangeSnapshot cfg g row decided x prorationDate)) (\<lambda>snapshot.
        bind_proc (storePreview (pc_id row) leaseToken decided x estimate prorationDate snapshot storeNow) (\<lambda>final.
          give (Inr (resultFromRow final decided again None))))))))))"

definition previewRemote ::
  "change_config \<Rightarrow> PlanChangeGateway \<Rightarrow> string \<Rightarrow> string \<Rightarrow> string \<Rightarrow> jsval \<Rightarrow> string \<Rightarrow> string \<Rightarrow> (nat \<Rightarrow> int) \<Rightarrow>
   PlanChangeResult proc"
where
  "previewRemote cfg g accountId planKey wanted key changeId leaseToken clock =
     bind_proc (give (validateChangeKey key)) (\<lambda>idempotencyKey.
     bind_proc (give (requirePlan (ch_catalog cfg) planKey)) (\<lambda>target.
     bind_proc (give (change_interval wanted)) (\<lambda>targetInterval.
     bind_proc (statement (reserve_change cfg accountId target targetInterval idempotencyKey changeId (clock 0))) (\<lambda>(row, again).
     let d = decisionFromRow row in
     if pc_status row = FailedChange
     then give (Inl (PlanChangeUnavailableError ''this plan-change intent is no longer reusable; start a new intent''))
     else if pc_status row \<noteq> Reserving
     then
       if pc_status row \<noteq> CompletedChange \<and> pc_snapshot_version row \<noteq> Some 1
       then give (Inl (PlanChangeUnavailableError
         ''this legacy preview has no durable Stripe request snapshot; request a new preview with a new Idempotency-Key''))
       else give (Inr (resultFromRow row d True None))
     else
       bind_proc (statement (acquireLease cfg (pc_id row) leaseToken Reserving (clock 1))) (\<lambda>lease.
       case lease of
         None \<Rightarrow>
           bind_proc (peek (get_change (pc_id row))) (\<lambda>refreshed.
           if pc_status refreshed = Reserving
           then give (Inl (PlanChangeBusyError ''this plan-change preview is still being calculated''))
           else give (Inr (resultFromRow refreshed d True None)))
       | Some leased \<Rightarrow>
           on_failure (pc_id row) leaseToken (leased_preview cfg g row leased leaseToken again (clock 2) (clock 3)))))))"

section \<open>The confirmation\<close>

text \<open>The answer of Stripe to the mutation, as the row keeps it.\<close>

definition outcome_of :: "TransitionDecision \<Rightarrow> PlanChangeContext \<Rightarrow> RemotePlanChange \<Rightarrow> change_outcome" where
  "outcome_of d x remote =
     (let status = (if d_timing d = immediate then if rm_pendingUpdate remote then RequiresAction else Applied else Scheduled) in
      \<lparr>co_status = status, co_effectiveAt = (if d_timing d = immediate then None else Some (x_currentPeriodEnd x)),
       co_scheduleId = (if status = Scheduled then Some (rm_remoteId remote) else None),
       co_pendingExpires = rm_pendingExpiresAt remote, co_recoveryUrl = rm_recoveryUrl remote,
       co_settlement = rm_settlementInvoiceId remote\<rparr>)"

definition leased_confirm ::
  "change_config \<Rightarrow> PlanChangeGateway \<Rightarrow> plan_change \<Rightarrow> string \<Rightarrow> int \<Rightarrow> int \<Rightarrow> PlanChangeResult proc"
where
  "leased_confirm cfg g row leaseToken checkNow startNow =
     (let d = decisionFromRow row in
      if pc_snapshot_version row \<noteq> Some 1
      then bind_proc (statement (retireUnfrozenIntent (pc_id row) leaseToken)) (\<lambda>_.
             give (Inl (PlanChangeUnavailableError
               ''this preview has no durable Stripe request snapshot; request a new preview with a new Idempotency-Key'')))
      else
        bind_proc (give (validatedChangeSnapshot row)) (\<lambda>snapshot.
        bind_proc (give (planChangeContextFromSnapshot snapshot)) (\<lambda>x.
        bind_proc (give (assertRemoteRetryWindow row checkNow)) (\<lambda>_.
        bind_proc (if pc_remote_started row = None then verifyBeforeRemoteStart cfg g row snapshot else give (Inr ())) (\<lambda>_.
        bind_proc (assertAccountSnapshot row) (\<lambda>_.
        bind_proc (statement (markRemoteStarted (pc_id row) leaseToken startNow)) (\<lambda>marked.
        bind_proc (send (mutate g) snapshot) (\<lambda>remote.
        bind_proc (assertAccountSnapshot marked) (\<lambda>_.
        bind_proc (finish (pc_id marked) leaseToken (outcome_of d x remote)) (\<lambda>final.
        if pc_status final = FailedChange
        then give (Inl (PlanChangeUnavailableError ''the settlement Invoice could not fund the target entitlement''))
        else give (Inr (resultFromRow final d False (rm_clientSecret remote)))))))))))))"

definition confirm ::
  "change_config \<Rightarrow> PlanChangeGateway \<Rightarrow> string \<Rightarrow> string \<Rightarrow> string \<Rightarrow> (nat \<Rightarrow> int) \<Rightarrow> PlanChangeResult proc"
where
  "confirm cfg g accountId previewId leaseToken clock =
     bind_proc (peek (\<lambda>b.
       case find (\<lambda>c. pc_id c = previewId \<and> pc_account c = accountId) (plan_changes b) of
         None \<Rightarrow> Inl (PlanChangeUnavailableError ''plan-change preview not found'') | Some c \<Rightarrow> Inr c)) (\<lambda>row.
     let d = decisionFromRow row in
     if pc_status row = FailedChange
     then give (Inl (PlanChangeUnavailableError ''this plan-change intent failed; request a new preview''))
     else if pc_status row \<in> {Scheduled, Applied, RequiresAction, CompletedChange}
     then give (Inr (resultFromRow row d True None))
     else if d_timing d = noop then give (Inr (resultFromRow row d False None))
     else if pc_status row \<noteq> Previewed \<and> pc_status row \<noteq> Applying
     then give (Inl (PlanChangeConflictError ''preview this exact change before confirming it''))
     else
       bind_proc (statement (acquireConfirmationLease cfg (pc_id row) leaseToken (clock 0))) (\<lambda>lease.
       case lease of
         None \<Rightarrow>
           bind_proc (peek (get_change (pc_id row))) (\<lambda>refreshed.
           bind_proc (statement (expirePreviewIfIdle refreshed (clock 1))) (\<lambda>expired.
           if expired then give (Inl (PlanChangeUnavailableError ''plan-change preview expired; request a new preview''))
           else if pc_status refreshed = FailedChange
           then give (Inl (PlanChangeUnavailableError ''this plan-change intent failed; request a new preview''))
           else give (Inr (resultFromRow refreshed d True None))))
       | Some leased \<Rightarrow> on_failure (pc_id leased) leaseToken (leased_confirm cfg g leased leaseToken (clock 1) (clock 2))))"

end
