(* ===== verification/Request_History.thy ===== *)
theory Request_History
  imports Billing_History Pack_Checkout Plan_Changes
begin

text \<open>
  The coordinators over time. \<open>worker_step\<close> is one statement of any worker: a statement of Checkout, of the
  credit-pack Checkout or of the plan changes with any arguments, or a step of \<open>Billing_History\<close> (a webhook
  event, a charge, a refund, the annual worker). A history of such steps is every interleaving of any number
  of workers, the runs that stopped halfway included. What was frozen for Stripe never changes in it.
\<close>

section \<open>Orders in the operations on the ledger\<close>

text \<open>What an order was placed for, and the request that was frozen for it.\<close>

definition order_request where
  "order_request po =
     (po_id po, po_account po, po_client_key po, po_stripe_key po, po_claim_until po, po_request_customer po,
      (po_pack_key po, po_pack_credits po, po_price po, po_currency po, po_expires_days po, po_lookup_key po),
      po_snapshot_version po, po_snapshot po)"

text \<open>A predicate on the requests of the orders; no operation on the ledger changes them.\<close>

locale order_invariant =
  fixes P :: "store \<Rightarrow> bool"
  assumes frame: "map order_request (orders t) = map order_request (orders s) \<Longrightarrow> P s \<Longrightarrow> P t"
begin

lemma frame_step: "(\<And>s x t. m s = Inr (x, t) \<Longrightarrow> orders t = orders s) \<Longrightarrow> keeps P m"
  unfolding keeps_def using frame by metis

lemma order_step: "(\<And>po. order_request (f po) = order_request po) \<Longrightarrow> keeps P (update_orders R f)"
  unfolding update_orders_def
proof (rule keeps_modify)
  fix s assume f: "\<And>po. order_request (f po) = order_request po" and "P s"
  have "map order_request (update_rows R f (orders s)) = map order_request (orders s)"
    by (simp add: update_rows_def f)
  then show "P (s\<lparr>orders := update_rows R f (orders s)\<rparr>)" by (intro frame [OF _ \<open>P s\<close>]) simp
qed

lemma statements:
  "keeps P (update_accounts R1 f1)" "keeps P (update_lots R2 f2)" "keeps P (update_debts R3 f3)"
  "keeps P (update_allocations R4 f4)" "keeps P (update_debits R5 f5)" "keeps P (update_clawback_debts R6 f6)"
  "keeps P (insert_debit d)" "keeps P (insert_debit_if_new d)" "keeps P (insert_allocation k acc src x)"
  "keeps P (insert_lot l)" "keeps P randomUUID" "keeps P (recordIncident kind event dedupe invoice owner detail)"
  "keeps P (oweClawback now acc epoch invc target collected)" "keeps P (expireAccountPackLots acc asOf)"
  "keeps P (modify (\<lambda>s. s\<lparr>pack_debts := h s\<rparr>))"
  "keeps P (insert_ledger acc delta after reason epoch ev invoice)"
  "keeps P (insert_entry acc delta after units reason epoch ev invoice slot)"
  by (rule frame_step; auto simp: update_accounts_def update_lots_def update_debts_def update_allocations_def
      update_debits_def update_clawback_debts_def insert_debit_def insert_debit_if_new_def insert_allocation_def
      insert_lot_def randomUUID_def recordIncident_def oweClawback_def expireAccountPackLots_def insert_ledger_def
      insert_entry_def Let_def split: if_splits)+

lemma claim: "keeps P (claim_customer a cus)"
  unfolding claim_customer_def by (intro keeps_rules statements)

lemmas rules = keeps_rules statements claim

lemma collection: "keeps P (recordDebtCollection now d amount epoch src)"
  unfolding recordDebtCollection_def by (intro rules)

lemma lot_loop: "keeps P (lot_debt_loop now epoch k ds available)"
  by (induction ds arbitrary: available) (simp_all add: Let_def rules collection)

lemma subscription_loop: "keeps P (subscription_debt_loop now acc epoch event ds balance)"
  by (induction ds arbitrary: balance) (simp_all add: Let_def rules collection)

lemma clawbacks: "keeps P (collectClawbackDebts acc epoch event)"
proof -
  have "keeps P (clawback_loop acc epoch event ds balance collected)" for ds balance collected
    by (induction ds arbitrary: balance collected) (simp_all add: Let_def rules)
  then show ?thesis unfolding collectClawbackDebts_def Let_def by (intro rules)
qed

lemma from_lot: "keeps P (collectPackDebtsFromLot now acc k available)"
  "keeps P (collectPackDebtsFromSubscription now acc epoch event)"
  unfolding collectPackDebtsFromLot_def collectPackDebtsFromSubscription_def Let_def
  by (intro rules lot_loop subscription_loop)+

lemma given_back:
  "keeps P (returnSubscriptionAtoms now asOf a amount event reason)"
  unfolding returnSubscriptionAtoms_def Let_def by (intro rules clawbacks from_lot)

lemma consume: "keeps P (consumeLots key acc ls remaining)"
proof (induction ls arbitrary: remaining)
  case (Cons l ls)
  have "keeps P (consumeLot key acc l remaining)" unfolding consumeLot_def Let_def by (intro rules)
  then show ?case using Cons by (simp add: keeps_bind)
qed (simp add: rules)

lemma charges: "keeps P (charge_body acc n key now asOf)"
  unfolding charge_body_def replayCharge_def freshCharge_def consumeSubscription_def recordSubscriptionUse_def Let_def
  by (intro rules consume)

lemma to_lot: "keeps P (lockedLot asOf acc k)" "keeps P (returnToLot now acc l po amount)"
  unfolding lockedLot_def returnToLot_def Let_def by (intro rules from_lot)+

lemma reversal:
  assumes "\<And>a x ev r v. keeps P (restore a x ev r v)"
  shows "keeps P (reverse_collections restore now acc orderId visiting cs remaining recovered)"
proof (induction cs arbitrary: remaining recovered)
  case (Cons c cs)
  then show ?case
    by (cases c) (simp only: reverse_collections.simps Let_def, intro rules assms, assumption+)
qed (simp add: rules)

lemma relief:
  assumes "\<And>a x ev r v. keeps P (restore a x ev r v)"
  shows "keeps P (relievePackDebt restore now acc orderId amount visiting)"
  unfolding relievePackDebt_def Let_def by (intro rules reversal assms)

lemma restore: "keeps P (restoreAllocationEffect fuel now asOf a al amount event reason visiting)"
proof (induction fuel arbitrary: al amount event reason visiting)
  case (Suc fuel)
  show ?case unfolding restoreAllocationEffect.simps
    by (intro rules relief to_lot given_back Suc.IH)
qed (simp add: rules)

lemma restore_every: "keeps P (restore_all (restoreAllocationEffect fuel now asOf a) key als restored)"
proof (induction als arbitrary: restored)
  case (Cons al als)
  show ?case unfolding restore_all.simps Let_def by (intro rules restore Cons.IH)
qed (simp add: rules)

lemma refunds: "keeps P (refund_body key expected now asOf)"
  unfolding refund_body_def refundDebit_def refundAtoms_def Let_def
  by (intro rules given_back restore_every)

lemma pack_events:
  "keeps P (checkoutEvent productLine event)" "keeps P (paymentSucceeded productLine event now clock)"
  "keeps P (pack_clawback productLine event now clock)"
  unfolding checkoutEvent_def record_checkout_def paymentSucceeded_def fund_order_def pack_clawback_def apply_clawback_def
    withdraw_pack_def current_lot_def claw_lot_def owe_pack_debt_def lockedOrder_def Let_def
  by (intro rules from_lot order_step; simp add: order_request_def pay_order_def claw_order_def)+

end

section \<open>What a history keeps\<close>

text \<open>
  The same intent; and once its request is frozen, the same request, and once it was sent, the instant of
  the first time.
\<close>

definition kept_change :: "plan_change \<Rightarrow> plan_change \<Rightarrow> bool" where
  "kept_change c c' \<longleftrightarrow>
     (pc_id c', pc_account c', pc_key c', pc_subscription c', pc_request_key c') =
       (pc_id c, pc_account c, pc_key c, pc_subscription c, pc_request_key c) \<and>
     (pc_from_plan c', pc_from_interval c', pc_target_plan c', pc_target_interval c', pc_policy c') =
       (pc_from_plan c, pc_from_interval c, pc_target_plan c, pc_target_interval c, pc_policy c) \<and>
     (pc_snapshot_version c = Some 1 \<longrightarrow>
        (pc_snapshot_version c', pc_snapshot c', pc_mode c') = (pc_snapshot_version c, pc_snapshot c, pc_mode c)) \<and>
     (pc_remote_started c \<noteq> None \<longrightarrow> pc_remote_started c' = pc_remote_started c)"

definition kept_order :: "pack_order \<Rightarrow> pack_order \<Rightarrow> bool" where
  "kept_order po po' \<longleftrightarrow>
     (po_id po', po_account po', po_client_key po', po_stripe_key po', po_claim_until po', po_request_customer po') =
       (po_id po, po_account po, po_client_key po, po_stripe_key po, po_claim_until po, po_request_customer po) \<and>
     (po_pack_key po', po_pack_credits po', po_price po', po_currency po', po_expires_days po', po_lookup_key po') =
       (po_pack_key po, po_pack_credits po, po_price po, po_currency po, po_expires_days po, po_lookup_key po) \<and>
     (po_snapshot_version po = Some 1 \<longrightarrow>
        (po_snapshot_version po', po_snapshot po') = (po_snapshot_version po, po_snapshot po))"

definition kept_claim :: "checkout_claim \<Rightarrow> checkout_claim \<Rightarrow> bool" where
  "kept_claim c c' \<longleftrightarrow>
     (cc_account c', cc_token c', cc_plan c', cc_interval c', cc_expires c', cc_request_key c', cc_customer c') =
       (cc_account c, cc_token c, cc_plan c, cc_interval c, cc_expires c, cc_request_key c, cc_customer c) \<and>
     (cc_snapshot_version c = Some 1 \<longrightarrow>
        (cc_snapshot_version c', cc_snapshot c') = (cc_snapshot_version c, cc_snapshot c))"

lemma kept_refl [simp]: "kept_change c c" "kept_order po po" "kept_claim k k"
  by (simp_all add: kept_change_def kept_order_def kept_claim_def)

lemma kept_trans:
  "kept_change c c' \<Longrightarrow> kept_change c' c'' \<Longrightarrow> kept_change c c''"
  "kept_order po po' \<Longrightarrow> kept_order po' po'' \<Longrightarrow> kept_order po po''"
  "kept_claim k k' \<Longrightarrow> kept_claim k' k'' \<Longrightarrow> kept_claim k k''"
  by (auto simp: kept_change_def kept_order_def kept_claim_def)

lemma handled_kept: "handled_change c c' \<Longrightarrow> kept_change c c'"
  by (simp add: handled_change_def request_of_def kept_change_def)

lemma order_request_kept: "order_request po' = order_request po \<Longrightarrow> kept_order po po'"
  by (simp add: order_request_def kept_order_def)

text \<open>
  The rows \<open>cs\<close>, \<open>os\<close> and \<open>ks\<close> that were there once: plan changes and orders stay; a claim may be
  deleted, but no other claim ever has its token. \<open>used\<close> are the tokens drawn so far.
\<close>

definition keeping :: "plan_change list \<Rightarrow> pack_order list \<Rightarrow> checkout_claim list \<Rightarrow> string set \<Rightarrow> billing \<Rightarrow> bool" where
  "keeping cs os ks used b \<longleftrightarrow>
     (\<forall>c \<in> set cs. \<exists>c' \<in> set (plan_changes b). kept_change c c') \<and>
     (\<forall>po \<in> set os. \<exists>po' \<in> set (orders (core b)). kept_order po po') \<and>
     (\<forall>k \<in> set ks. \<forall>k' \<in> set (checkout_claims b). cc_token k' = cc_token k \<longrightarrow> kept_claim k k') \<and>
     cc_token ` set ks \<union> cc_token ` set (checkout_claims b) \<subseteq> used"

lemma keeping_start: "cc_token ` set (checkout_claims b) \<subseteq> used \<Longrightarrow> distinct (map cc_token (checkout_claims b)) \<Longrightarrow>
    keeping (plan_changes b) (orders (core b)) (checkout_claims b) used b"
  by (auto simp: keeping_def distinct_map dest: inj_onD intro: kept_refl)

lemma keeping_orders_frame:
  assumes "map order_request (orders t) = map order_request (orders s)" "\<forall>po \<in> set os. \<exists>po' \<in> set (orders s). kept_order po po'"
  shows "\<forall>po \<in> set os. \<exists>po' \<in> set (orders t). kept_order po po'"
proof
  fix po assume "po \<in> set os"
  with assms(2) obtain po' where po': "po' \<in> set (orders s)" "kept_order po po'" by blast
  have "order_request po' \<in> set (map order_request (orders t))" unfolding assms(1) using po'(1) by simp
  then obtain po'' where "po'' \<in> set (orders t)" "order_request po'' = order_request po'" by auto
  with po'(2) show "\<exists>po' \<in> set (orders t). kept_order po po'" by (blast intro: kept_trans order_request_kept)
qed

interpretation kept_orders: order_invariant "\<lambda>s. \<forall>po \<in> set os. \<exists>po' \<in> set (orders s). kept_order po po'" for os
  by unfold_locales (rule keeping_orders_frame)

lemma keeping_core:
  assumes "keeps (\<lambda>s. \<forall>po \<in> set os. \<exists>po' \<in> set (orders s). kept_order po po') m"
  shows "keeps (keeping cs os ks used) (on_core m)"
  using assms by (auto simp: keeps_def on_core_Inr_iff keeping_def)

lemma keeping_frame:
  assumes p: "pack_tables (core t) = pack_tables (core b)" and h: "list_all2 handled_change (plan_changes b) (plan_changes t)"
    and k: "set (checkout_claims t) \<subseteq> set (checkout_claims b)" and b: "keeping cs os ks used b"
  shows "keeping cs os ks used t"
proof -
  have "\<exists>c'' \<in> set (plan_changes t). kept_change c c''" if "c' \<in> set (plan_changes b)" "kept_change c c'" for c c'
    using that h by (auto simp: list_all2_conv_all_nth in_set_conv_nth) (metis handled_kept kept_trans(1) nth_mem)
  moreover have "orders (core t) = orders (core b)" using p by (simp add: pack_tables_def)
  ultimately show ?thesis using b k unfolding keeping_def by (auto 0 4)
qed

interpretation keeping: subscription_invariant "keeping cs os ks used" for cs os ks used
  by unfold_locales (auto intro: keeping_frame keeping_core kept_orders.from_lot)

section \<open>The statements of the coordinators\<close>

lemma kept_rows:
  assumes "\<And>c. Q c \<Longrightarrow> kept c (f c)" "\<And>c. kept c c" "\<And>a b c. kept a b \<Longrightarrow> kept b c \<Longrightarrow> kept a c" "\<exists>c' \<in> set cs. kept c c'"
  shows "\<exists>c' \<in> set (update_rows Q f cs). kept c c'"
proof -
  from assms(4) obtain c' where "c' \<in> set cs" "kept c c'" by blast
  then have "(if Q c' then f c' else c') \<in> set (update_rows Q f cs)" "kept c (if Q c' then f c' else c')"
    using assms(1,3) by (auto simp: update_rows_def)
  then show ?thesis by blast
qed

lemma keeping_change:
  assumes "\<And>c. Q c \<Longrightarrow> kept_change c (f c)"
  shows "keeps (keeping cs os ks used) (update_changes Q f)"
  using kept_rows [of Q kept_change f, OF assms kept_refl(1) kept_trans(1)]
  by (auto simp: keeps_def update_changes_def keeping_def)

lemma keeping_update:
  assumes "\<And>c. Q c \<Longrightarrow> kept_change c (f c)"
  shows "keeps (keeping cs os ks used) (update_change k Q f)"
  unfolding update_change_def by (intro keeps_rules keeping_change) (use assms in blast)

lemma keeping_order:
  assumes "\<And>po. Q po \<Longrightarrow> kept_order po (f po)"
  shows "keeps (keeping cs os ks used) (change_orders Q f)"
  unfolding change_orders_def
  by (rule keeping_core) (use kept_rows [of Q kept_order f, OF assms kept_refl(2) kept_trans(2)] in \<open>auto simp: keeps_def\<close>)

lemma keeping_claim:
  assumes "\<And>k. Q k \<Longrightarrow> kept_claim k (f k)"
  shows "keeps (keeping cs os ks used) (update_claims Q f)"
proof -
  have tok: "cc_token (f k) = cc_token k" if "Q k" for k using assms [OF that] by (simp add: kept_claim_def)
  have "kept_claim k (f k')" if "Q k'" "kept_claim k k'" for k k' using that assms kept_trans(3) by blast
  with tok show ?thesis by (auto simp: keeps_def update_claims_def keeping_def update_rows_def)
qed

lemma keeping_inserts:
  "keeps (keeping cs os ks used) (insert_change c)" "keeps (keeping cs os ks used) (on_core (insert_order po))"
proof -
  show "keeps (keeping cs os ks used) (insert_change c)"
    unfolding insert_change_def by (rule keeps_modify) (auto simp: keeping_def)
  show "keeps (keeping cs os ks used) (on_core (insert_order po))"
    by (rule keeping_core) (auto simp: insert_order_def keeps_def modify_def)
qed

section \<open>Steps\<close>

definition commit :: "'a btx \<Rightarrow> billing \<Rightarrow> billing" where
  "commit m b = snd (billing_transaction m b)"

text \<open>One statement of some worker, on the tokens drawn so far and the database.\<close>

inductive worker_step :: "string set \<times> billing \<Rightarrow> string set \<times> billing \<Rightarrow> bool" where
  ledger: "billing_step b b' \<Longrightarrow> worker_step (used, b) (used, b')"
| claim_reserved: "token \<notin> used \<Longrightarrow>
    worker_step (used, b) (insert token used, commit (reserve_claim acc planKey interval key ttl token clock) b)"
| claim_frozen: "worker_step (used, b) (used, commit (freeze_claim r v) b)"
| claim_attached: "worker_step (used, b) (used, commit (attach_claim r session url) b)"
| claim_released: "worker_step (used, b) (used, commit (release_claim r) b)"
| order_reserved: "worker_step (used, b) (used, commit (reserve_order cat acc pack key ttl orderId clock) b)"
| order_frozen: "worker_step (used, b) (used, commit (freeze_order kr v) b)"
| order_attached: "worker_step (used, b) (used, commit (attach_order kr session url) b)"
| change_reserved: "worker_step (used, b) (used, commit (reserve_change cfg acc target interval key changeId now) b)"
| change_leased: "worker_step (used, b) (used, commit (acquireLease cfg changeId token status now) b)"
| change_confirming: "worker_step (used, b) (used, commit (acquireConfirmationLease cfg changeId token now) b)"
| change_previewed: "worker_step (used, b) (used, commit (store_preview changeId token d x estimate date v now) b)"
| change_started: "worker_step (used, b) (used, commit (markRemoteStarted changeId token now) b)"
| change_checked: "worker_step (used, b) (used, commit (account_race c) b)"
| change_finished: "worker_step (used, b) (used, commit (finish_change changeId token outcome) b)"
| change_released: "worker_step (used, b) (used, commit (releaseAfterError changeId token message) b)"
| change_retired: "worker_step (used, b) (used, commit (retireUnfrozenIntent changeId token) b)"
| change_expired: "worker_step (used, b) (used, commit (expirePreviewIfIdle c now) b)"

inductive_cases worker_stepE: "worker_step p q"

lemma commit_keeps: "keeps P m \<Longrightarrow> P b \<Longrightarrow> P (commit m b)"
  by (auto simp: commit_def billing_transaction_def keeps_def split: sum.splits)

lemma keeping_statements:
  "keeps (keeping cs os ks used) (freeze_claim r v)" "keeps (keeping cs os ks used) (attach_claim r session url)"
  "keeps (keeping cs os ks used) (release_claim r)" "keeps (keeping cs os ks used) (freeze_order kr v)"
  "keeps (keeping cs os ks used) (attach_order kr session url)"
  "keeps (keeping cs os ks used) (acquireLease cfg changeId token status now)"
  "keeps (keeping cs os ks used) (acquireConfirmationLease cfg changeId token now)"
  "keeps (keeping cs os ks used) (store_preview changeId token d x estimate date v now)"
  "keeps (keeping cs os ks used) (releaseAfterError changeId token message)"
  "keeps (keeping cs os ks used) (retireUnfrozenIntent changeId token)"
  "keeps (keeping cs os ks used) (expirePreviewIfIdle c now)"
  unfolding freeze_claim_def attach_claim_def release_claim_def freeze_order_def attach_order_def acquireLease_def
    acquireConfirmationLease_def store_preview_def releaseAfterError_def retireUnfrozenIntent_def expirePreviewIfIdle_def
  by (intro keeping_change keeping_update keeping_claim keeping_order keeping.statements keeps_rules;
      simp add: kept_change_def kept_claim_def kept_order_def take_lease_def drop_lease_def previewed_row_def)+

lemma keeping_checked: "keeps (keeping cs os ks used) (account_race c)"
  unfolding account_race_def by (intro keeps_rules keeping.note_keeps)

lemma keeping_started: "keeps (keeping cs os ks used) (markRemoteStarted changeId token now)"
  unfolding markRemoteStarted_def
  by (intro keeps_rules keeping_update) (auto simp: kept_change_def coalesce_def split: option.splits)

lemma keeping_finished: "keeps (keeping cs os ks used) (finish_change changeId token outcome)"
  unfolding finish_change_def
  by (intro keeps_rules keeping_update keeping.statements) (simp add: kept_change_def finished_row_def drop_lease_def)

lemma keeping_reserved:
  "keeps (keeping cs os ks used) (reserve_change cfg acc target interval key changeId now)"
  "keeps (keeping cs os ks used) (reserve_order cat acc pack key ttl orderId clock)"
proof -
  have "keeps (keeping cs os ks used) (expire_changes acc now)"
    unfolding expire_changes_def by (intro keeps_rules keeping_change) (simp_all add: kept_change_def)
  then show "keeps (keeping cs os ks used) (reserve_change cfg acc target interval key changeId now)"
    unfolding reserve_change_def Let_def by (intro keeps_rules keeping_inserts)
  show "keeps (keeping cs os ks used) (reserve_order cat acc pack key ttl orderId clock)"
    unfolding reserve_order_def Let_def by (intro keeps_rules keeping_inserts)
qed

text \<open>A fresh token belongs to no claim that was there once.\<close>

lemma keeping_claimed:
  assumes "token \<in> used" "token \<notin> cc_token ` set ks"
  shows "keeps (keeping cs os ks used) (reserve_claim acc planKey interval key ttl token clock)"
proof -
  have "keeps (keeping cs os ks used) (insert_claim (new_claim a token planKey interval t key))" for a t
    unfolding insert_claim_def
    by (rule keeps_modify) (use assms in \<open>auto simp: keeping_def new_claim_def\<close>)
  then show ?thesis unfolding reserve_claim_def Let_def by (intro keeps_rules keeping.statements)
qed

lemma keeping_more: "keeping cs os ks used b \<Longrightarrow> keeping cs os ks (insert token used) b"
  by (auto simp: keeping_def)

lemma keeping_event: "keeping cs os ks used b \<Longrightarrow> keeping cs os ks used (snd (process cfg now clock event b))"
proof -
  assume b: "keeping cs os ks used b"
  have inbox: "keeps (keeping cs os ks used) (modify (\<lambda>b. b\<lparr>inbox := f b\<rparr>))" for f
    by (rule keeps_modify) (simp add: keeping_def)
  have pack: "keeps (keeping cs os ks used) (on_core (checkoutEvent line event))"
    "keeps (keeping cs os ks used) (on_core (paymentSucceeded line event now clock))"
    "keeps (keeping cs os ks used) (on_core (pack_clawback line event now clock))" for line
    by (intro keeping_core kept_orders.pack_events)+
  have "keeps (keeping cs os ks used) (dispatch cfg now clock event)"
    unfolding dispatch_def Let_def
    by (intro keeps_rules pack keeping.invoicePaid_keeps keeping.subscription_clawback_keeps keeping.paymentFailed_keeps
        keeping.updates_keep)
  then have "keeps (keeping cs os ks used) (process_event cfg now clock eventId eventType event)" for eventId eventType
    unfolding process_event_def process_claimed_def reject_event_def creditPackReconcileClaimCurrent_def claim_event_def
      record_outcome_def Let_def
    by (intro keeps_rules keeping.statements inbox)
  then have "keeping cs os ks used (snd (billing_transaction (process_event cfg now clock eventId eventType event) b))"
    for eventId eventType using b by (rule commit_keeps [unfolded commit_def])
  with b show ?thesis by (auto simp: process_def Let_def split: jsval.splits)
qed

text \<open>The operations of the ledger, outside the transactions of events.\<close>

lemma transaction_keeps: "keeps P m \<Longrightarrow> P s \<Longrightarrow> P (snd (transaction m s))"
  by (auto simp: transaction_def keeps_def split: sum.splits)

lemma charge_orders: "\<forall>po \<in> set os. \<exists>po' \<in> set (orders s). kept_order po po' \<Longrightarrow>
    \<forall>po \<in> set os. \<exists>po' \<in> set (orders (snd (charge acc n key now asOf s))). kept_order po po'"
  using transaction_keeps [OF kept_orders.charges] by (auto simp: charge_def split: sum.splits)

lemma refund_orders: "\<forall>po \<in> set os. \<exists>po' \<in> set (orders s). kept_order po po' \<Longrightarrow>
    \<forall>po \<in> set os. \<exists>po' \<in> set (orders (snd (refund key acc now asOf s))). kept_order po po'"
  using transaction_keeps [OF kept_orders.refunds] by (auto simp: refund_def split: sum.splits option.splits)

lemma keeping_ledger:
  assumes "keeping cs os ks used b"
    and "(\<forall>po \<in> set os. \<exists>po' \<in> set (orders (core b)). kept_order po po') \<Longrightarrow>
      \<forall>po \<in> set os. \<exists>po' \<in> set (orders (snd (f (core b)))). kept_order po po'"
  shows "keeping cs os ks used (on_ledger f b)"
  using assms by (simp add: keeping_def on_ledger_def)

lemma keeping_billing: "billing_step b b' \<Longrightarrow> keeping cs os ks used b \<Longrightarrow> keeping cs os ks used b'"
proof (induction rule: billing_step.induct)
  case (charge b owner amount k now asOf)
  then show ?case
    by (cases rule: charge_owner_cases [of owner amount k now asOf "core b"]; rule keeping_ledger; simp add: charge_orders)
next
  case (refund b owner k now asOf)
  then show ?case
    by (cases rule: refund_owner_cases [of owner k now asOf "core b"]; rule keeping_ledger; simp add: refund_orders)
next
  case (annual b cfg now effectiveNow acc sn)
  then show ?case unfolding grantDue_def by (rule commit_keeps [unfolded commit_def, OF keeping.grant_due_keeps])
next
  case (failure b acc subscription reason)
  then show ?case unfolding recordFailure_def by (rule commit_keeps [unfolded commit_def, OF keeping.note_keeps])
qed (rule keeping_event)

lemma keeping_step:
  assumes "worker_step p q" "keeping cs os ks (fst p) (snd p)"
  shows "keeping cs os ks (fst q) (snd q)"
  using assms
proof (induction rule: worker_step.induct)
  case (claim_reserved token used b acc planKey interval key ttl clock)
  from claim_reserved.prems have "token \<notin> cc_token ` set ks" "keeping cs os ks (insert token used) b"
    using claim_reserved.hyps keeping_more by (auto simp: keeping_def)
  then show ?case using commit_keeps [OF keeping_claimed, of token "insert token used" ks] by simp
qed (simp_all add: keeping_billing commit_keeps keeping_statements keeping_checked keeping_started keeping_finished keeping_reserved)

lemma keeping_history:
  "worker_step\<^sup>*\<^sup>* p q \<Longrightarrow> keeping cs os ks (fst p) (snd p) \<Longrightarrow> keeping cs os ks (fst q) (snd q)"
  by (induction rule: rtranclp_induct) (auto intro: keeping_step)

end
