(* ===== verification/Snapshot_Properties.thy ===== *)
theory Snapshot_Properties
  imports Request_Snapshots
begin

text \<open>
  What the frozen requests promise (typescript/src/stripe-request-snapshots.ts): a built snapshot is accepted
  again for exactly what it was built from, whatever is accepted is one the program could have built, the
  context of a plan change comes back, and no snapshot shows a secret. The readers are inverted once
  (\<open>checkoutContents_facts\<close>, \<open>changeContents_iff\<close>); equality of JSON values is characterised field by field.
\<close>

section \<open>What a snapshot says\<close>

lemma prop_get_clearjunk: "prop_get (AList.clearjunk fs) k = prop_get fs k"
  by (simp add: prop_get_def map_of_clearjunk)

lemma map_of_map_snd: "map_of (map (map_prod id f) fs) k = map_option f (map_of fs k)"
  by (induction fs) auto

lemma cloneJson_undef [simp]: "cloneJson v = JUndef \<longleftrightarrow> v = JUndef"
  by (cases v) auto

lemma map_of_kept: "map_of (kept_fields fs) k = (case map_of fs k of Some v \<Rightarrow> if v = JUndef then None else Some v | None \<Rightarrow> None)"
proof -
  have "map_of (filter (\<lambda>(k, v). v \<noteq> JUndef) gs) k =
      (case map_of gs k of Some v \<Rightarrow> if v = JUndef then None else Some v | None \<Rightarrow> None)"
    if "distinct (map fst gs)" for gs :: "(string \<times> jsval) list"
    using that
  proof (induction gs)
    case (Cons g gs)
    then have "map_of gs (fst g) = None" by (simp add: map_of_eq_None_iff)
    with Cons show ?case by (auto split: option.splits)
  qed simp
  from this [OF distinct_clearjunk] show ?thesis by (simp add: kept_fields_def map_of_clearjunk)
qed

lemma jprop_clone [simp]: "jprop (cloneJson v) k = cloneJson (jprop v k)"
  by (cases v) (auto simp: prop_get_def map_of_kept map_of_map_snd split: option.splits)

lemma plain_clone [simp]: "isPlainRecord (cloneJson v) = isPlainRecord v"
  by (cases v) auto

text \<open>Equality with a literal object, field by field.\<close>

lemma list_all_clearjunk:
  "list_all P (AList.clearjunk fs) \<longleftrightarrow> (\<forall>k v. map_of fs k = Some v \<longrightarrow> P (k, v))"
proof -
  have "list_all P (AList.clearjunk fs) \<longleftrightarrow> (\<forall>k v. (k, v) \<in> set (AList.clearjunk fs) \<longrightarrow> P (k, v))"
    by (auto simp: list_all_iff)
  also have "\<dots> \<longleftrightarrow> (\<forall>k v. map_of (AList.clearjunk fs) k = Some v \<longrightarrow> P (k, v))"
    by (simp add: distinct_clearjunk)
  finally show ?thesis by (simp add: map_of_clearjunk)
qed

lemma list_all_fields:
  "list_all (\<lambda>(k, f). f (h k)) (AList.clearjunk (map (map_prod id g) fs)) \<longleftrightarrow>
    (\<forall>k w. map_of fs k = Some w \<longrightarrow> g w (h k))"
  unfolding list_all_clearjunk map_of_map_snd by force

lemma jsonEqual_object:
  "jsonEqual v (JObj b gs) \<longleftrightarrow> isPlainRecord v \<and> set (object_keys v) = fst ` set gs \<and>
     (\<forall>k \<in> fst ` set gs. jsonEqual (jprop v k) (prop_get gs k))"
proof (cases v)
  case (JObj c fs)
  show ?thesis
  proof (cases "fst ` set fs = fst ` set gs")
    case True
    have field: "(\<forall>w. map_of fs k = Some w \<longrightarrow> jsonEqual w (prop_get gs k)) \<longleftrightarrow>
        (k \<in> fst ` set gs \<longrightarrow> jsonEqual (jprop v k) (prop_get gs k))" for k
    proof (cases "map_of fs k")
      case None
      then have "k \<notin> fst ` set gs" using True by (metis map_of_eq_None_iff)
      with None show ?thesis by simp
    next
      case (Some w)
      then have "k \<in> fst ` set gs" using True by (metis map_of_eq_None_iff option.distinct(1))
      with Some show ?thesis by (simp add: JObj prop_get_def)
    qed
    have "jsonEqual v (JObj b gs) \<longleftrightarrow> (\<forall>k w. map_of fs k = Some w \<longrightarrow> jsonEqual w (prop_get gs k))"
      using True by (simp add: JObj same_keys_def list_all_fields)
    also have "\<dots> \<longleftrightarrow> (\<forall>k \<in> fst ` set gs. jsonEqual (jprop v k) (prop_get gs k))"
      using field by blast
    finally show ?thesis using True by (simp add: JObj)
  next
    case False
    then show ?thesis by (simp add: JObj same_keys_def)
  qed
qed auto

lemma jsonEqual_list:
  "jsonEqual v (JArr ws) \<longleftrightarrow> (case v of JArr vs \<Rightarrow> list_all2 jsonEqual vs ws | _ \<Rightarrow> False)"
  by (cases v) (auto simp: list_all2_map1)

lemma jsonEqual_atom [simp]:
  "jsonEqual v (JStr s) \<longleftrightarrow> v = JStr s" "jsonEqual v (JInt n) \<longleftrightarrow> v = JInt n" "jsonEqual v JNull \<longleftrightarrow> v = JNull"
  "jsonEqual v (JBool b) \<longleftrightarrow> v = JBool b" "jsonEqual v JUndef \<longleftrightarrow> v = JUndef"
  "jsonEqual v JReal \<longleftrightarrow> v = JReal" "jsonEqual v (JBig n) \<longleftrightarrow> v = JBig n"
  by (cases v; auto)+

lemma jsonEqual_refl: "jsonEqual v v"
proof (induction v)
  case (JObj plain fs)
  have "jsonEqual w w" if "map_of fs k = Some w" for k w
    using JObj map_of_SomeD [OF that] by auto
  then show ?case by (simp add: same_keys_def list_all_fields prop_get_def)
qed (auto simp: list_all2_map1 list_all2_same)

text \<open>Data without undefined, and data as \<open>JSON.parse\<close> builds it.\<close>

primrec defined :: "jsval \<Rightarrow> bool" where
  "defined JUndef = False"
| "defined JNull = True"
| "defined (JBool b) = True"
| "defined (JInt n) = True"
| "defined JReal = True"
| "defined (JBig n) = True"
| "defined (JStr s) = True"
| "defined (JArr vs) = list_all id (map defined vs)"
| "defined (JObj plain fs) = list_all snd (map (map_prod id defined) fs)"

primrec parsed :: "jsval \<Rightarrow> bool" where
  "parsed JUndef = False"
| "parsed JNull = True"
| "parsed (JBool b) = True"
| "parsed (JInt n) = True"
| "parsed JReal = True"
| "parsed (JBig n) = True"
| "parsed (JStr s) = True"
| "parsed (JArr vs) = list_all id (map parsed vs)"
| "parsed (JObj plain fs) = (plain \<and> distinct (map fst fs) \<and> list_all snd (map (map_prod id parsed) fs))"

lemma clearjunk_distinct: "distinct (map fst fs) \<Longrightarrow> AList.clearjunk fs = fs"
  by (rule distinct_clearjunk_id)

lemma map_fst_map_prod: "map fst (map (map_prod id f) fs) = map fst fs"
  by (induction fs) auto

lemma clone_parsed: "parsed v \<Longrightarrow> cloneJson v = v"
proof (induction v)
  case (JArr vs)
  have "map (null_for_undefined \<circ> cloneJson) vs = vs"
    using JArr by (intro map_idI) (auto simp: list_all_iff null_for_undefined_def)
  then show ?case by simp
next
  case (JObj plain fs)
  have id: "map (map_prod id cloneJson) fs = fs"
    using JObj by (intro map_idI) (force simp: list_all_iff)
  have "filter (\<lambda>(k, v). v \<noteq> JUndef) fs = fs"
    using JObj.prems by (intro filter_True) (force simp: list_all_iff)
  then show ?case using JObj.prems by (simp add: kept_fields_def id clearjunk_distinct)
qed auto

lemma object_key_iff: "k \<in> set (object_keys (JObj b fs)) \<longleftrightarrow> (\<exists>w. map_of fs k = Some w)"
  using map_of_eq_None_iff [of fs k] by auto

lemma object_keys_clone: "set (object_keys (cloneJson v)) = {k. jprop v k \<noteq> JUndef}"
proof (cases v)
  case (JObj plain fs)
  have "k \<in> set (object_keys (cloneJson v)) \<longleftrightarrow> jprop v k \<noteq> JUndef" for k
    unfolding JObj cloneJson.simps object_key_iff map_of_kept map_of_map_snd jprop.simps prop_get_def
    by (auto split: option.splits)
  then show ?thesis by blast
qed auto

lemma jsonEqual_undef: "jsonEqual v w \<Longrightarrow> v = JUndef \<longleftrightarrow> w = JUndef"
  by (cases v) (auto split: jsval.splits)

lemma jprop_key: "jprop v k \<noteq> JUndef \<Longrightarrow> k \<in> set (object_keys v)"
proof (cases v)
  case (JObj plain fs)
  assume "jprop v k \<noteq> JUndef"
  then show ?thesis unfolding JObj object_key_iff by (auto simp: prop_get_def split: option.splits)
qed auto

lemma jsonEqual_clone: "jsonEqual v w \<Longrightarrow> defined w \<Longrightarrow> jsonEqual (cloneJson v) w"
proof (induction w arbitrary: v)
  case (JArr ws)
  then obtain vs where v: "v = JArr vs" and vs: "list_all2 jsonEqual vs ws"
    by (auto simp: jsonEqual_list split: jsval.splits)
  have "list_all2 jsonEqual (map (null_for_undefined \<circ> cloneJson) vs) ws"
  proof (rule list_all2I, safe)
    fix x y assume "(x, y) \<in> set (zip (map (null_for_undefined \<circ> cloneJson) vs) ws)"
    then obtain u where xu: "x = null_for_undefined (cloneJson u)" and z: "(u, y) \<in> set (zip vs ws)"
      by (auto simp: zip_map1)
    then have y: "y \<in> set ws" and "jsonEqual u y" using vs by (auto simp: list_all2_iff dest: set_zip_rightD)
    moreover from y JArr.prems(2) have "defined y" by (auto simp: list_all_iff)
    ultimately show "jsonEqual x y"
      using JArr.IH [OF y] jsonEqual_undef [of u y] by (auto simp: xu null_for_undefined_def)
  qed (use vs in \<open>simp add: list_all2_lengthD\<close>)
  then show ?case unfolding v cloneJson.simps jsonEqual_list by (simp add: comp_def)
next
  case (JObj b gs)
  note eq = JObj.prems(1) [unfolded jsonEqual_object]
  have d: "defined (prop_get gs k)" "jsonEqual (cloneJson (jprop v k)) (prop_get gs k)" if "k \<in> fst ` set gs" for k
  proof -
    from that obtain w where w: "map_of gs k = Some w" by (metis map_of_eq_None_iff not_Some_eq)
    then have "(k, w) \<in> set gs" by (rule map_of_SomeD)
    with JObj w that eq show "defined (prop_get gs k)" "jsonEqual (cloneJson (jprop v k)) (prop_get gs k)"
      by (force simp: prop_get_def list_all_iff)+
  qed
  have "{k. jprop v k \<noteq> JUndef} = fst ` set gs"
  proof (intro set_eqI iffI CollectI)
    fix k assume "k \<in> {k. jprop v k \<noteq> JUndef}"
    then show "k \<in> fst ` set gs" using eq jprop_key [of v k] by simp
  next
    fix k assume k: "k \<in> fst ` set gs"
    with eq have "jsonEqual (jprop v k) (prop_get gs k)" by blast
    from jsonEqual_undef [OF this] d(1) [OF k] show "jprop v k \<noteq> JUndef" by auto
  qed
  then show ?case using eq d by (simp add: jsonEqual_object object_keys_clone)
qed auto


section \<open>A built snapshot is accepted for what it was built from\<close>

text \<open>What the two coordinators expect of a snapshot.\<close>

definition subscription_expectation :: "SubscriptionCheckoutInput \<Rightarrow> CheckoutSnapshotExpectation" where
  "subscription_expectation i =
     \<lparr>x_kind = Some SubscriptionCheckout, x_accountId = Some (sc_accountId i), x_requestIdentity = Some (sc_claimToken i),
      x_lookupKey = Some (sc_lookupKey i), x_currency = Some (sc_currency i), x_unitAmount = Some (sc_unitAmount i),
      x_interval = Some (sc_interval i), x_offeringKey = Some (sc_planKey i), x_expiresAt = Some (sc_expiresAt i),
      x_customerId = Some (sc_customerId i), x_packCredits = None, x_expiresDays = None,
      x_productLine = Some (sc_productLine i)\<rparr>"

definition pack_expectation :: "PackCheckoutInput \<Rightarrow> CheckoutSnapshotExpectation" where
  "pack_expectation i =
     \<lparr>x_kind = Some PackCheckout, x_accountId = Some (kc_accountId i), x_requestIdentity = Some (kc_orderId i),
      x_lookupKey = Some (kc_lookupKey i), x_currency = Some (kc_currency i), x_unitAmount = Some (kc_unitAmount i),
      x_interval = None, x_offeringKey = Some (kc_packKey i), x_expiresAt = Some (kc_expiresAt i),
      x_customerId = Some (kc_customerId i), x_packCredits = Some (kc_packCredits i), x_expiresDays = Some (kc_expiresDays i),
      x_productLine = Some (kc_productLine i)\<rparr>"

lemmas read_results = textValue_def snapshotStripeId_def boundedInteger_def stripeTimestamp_def stripeAmount_def httpUrl_def
  currencyText_def refuse_snapshot_def

lemma textValue_JStr: "textValue v field k = Inr s \<longleftrightarrow> v = JStr s \<and> visible_text s k \<and> \<not> shows_secret s"
  by (auto simp: textValue_def refuse_snapshot_def split: jsval.splits)

lemma stripeId_JStr: "snapshotStripeId v prefix field = Inr s \<longleftrightarrow>
    v = JStr s \<and> visible_text s 255 \<and> \<not> shows_secret s \<and> starts_with prefix s"
  by (auto simp: snapshotStripeId_def bind_result_Inr_iff textValue_JStr refuse_snapshot_def)

lemma boundedInteger_JInt: "boundedInteger v field k = Inr n \<longleftrightarrow> v = JInt n \<and> isSafeInteger v \<and> 0 \<le> n \<and> n \<le> k"
  by (auto simp: boundedInteger_def refuse_snapshot_def split: jsval.splits)

lemma currencyText_JStr: "currencyText v field message = Inr s \<longleftrightarrow>
    v = JStr s \<and> visible_text s 3 \<and> \<not> shows_secret s \<and> length s = 3 \<and> s = toLowerCase s"
  by (auto simp: currencyText_def bind_result_Inr_iff textValue_JStr refuse_snapshot_def)

lemma httpUrl_JStr: "httpUrl parseUrl v field = Inr s \<longleftrightarrow>
    v = JStr s \<and> visible_text s 2048 \<and> \<not> shows_secret s \<and> (\<exists>u. parseUrl s = Some u \<and>
      url_protocol u \<in> {''http:'', ''https:''} \<and> url_host u \<noteq> [] \<and> url_username u = [] \<and> url_password u = [])"
  by (auto simp: httpUrl_def bind_result_Inr_iff textValue_JStr refuse_snapshot_def split: option.splits)

lemma exactRecord_Inr: "exactRecord v keys field = Inr w \<longleftrightarrow> w = v \<and> isPlainRecord v \<and> set (object_keys v) = set keys"
  by (auto simp: exactRecord_def refuse_snapshot_def)

lemmas reader_results = textValue_JStr stripeId_JStr boundedInteger_JInt currencyText_JStr httpUrl_JStr exactRecord_Inr
  stripeTimestamp_def stripeAmount_def bind_result_Inr_iff refuse_snapshot_def

lemma bigintNumber_Inr: "bigintNumber n field = Inr k \<longleftrightarrow> k = n \<and> 0 \<le> n \<and> n \<le> js_max_safe_integer"
  by (auto simp: bigintNumber_def refuse_snapshot_def)

lemma bigintAmount_Inr: "bigintAmount n field = Inr k \<longleftrightarrow> k = n \<and> 0 \<le> n \<and> n \<le> MAX_STRIPE_AMOUNT"
  by (auto simp: bigintAmount_def refuse_snapshot_def)

lemma starts_with_append [simp]: "starts_with p (p @ s)"
  by (induction p) auto

lemma parsed_subscription: "parsed (subscription_snapshot i e u)"
  by (cases "sc_customerId i")
    (simp_all add: subscription_snapshot_def subscription_params_def Let_def subscriptionMetadataOf_def line_item_def
      customer_mode_text_def)

lemma parsed_pack: "parsed (pack_snapshot i e u)"
  by (cases "kc_customerId i")
    (simp_all add: pack_snapshot_def pack_params_def Let_def packMetadataOf_def line_item_def customer_mode_text_def)

text \<open>What the readers establish.\<close>

lemma checkoutKind_Inr: "checkoutKind v = Inr kind \<longleftrightarrow> v = JStr (checkout_kind_text kind)"
  by (cases kind) (auto simp: checkoutKind_def checkout_kind_text_def refuse_snapshot_def)

lemma customerExists_Inr: "customerExists v = Inr b \<longleftrightarrow> v = JStr (if b then ''existing'' else ''create'')"
  by (auto simp: customerExists_def refuse_snapshot_def)

lemma checkoutCustomer_Inr:
  "checkoutCustomer kind existing v = Inr c \<longleftrightarrow>
     (case c of
        None \<Rightarrow> \<not> existing \<and> (kind = PackCheckout \<longrightarrow> jprop v ''customer_creation'' = JStr ''always'')
      | Some s \<Rightarrow> existing \<and> jprop v ''customer'' = JStr s \<and> visible_text s 255 \<and> \<not> shows_secret s \<and> starts_with ''cus_'' s)"
  by (auto simp: checkoutCustomer_def reader_results split: option.splits)

lemma priceEvidence_facts:
  assumes "priceEvidence kind v = Inr e"
  shows "isPlainRecord v \<and> set (object_keys v) = set PRICE_FIELDS \<and> jprop v ''price_id'' = JStr (ce_price e) \<and>
    jprop v ''lookup_key'' = JStr (ce_lookup e) \<and> jprop v ''currency'' = JStr (ce_currency e) \<and>
    jprop v ''unit_amount'' = JInt (ce_amount e) \<and> 0 \<le> ce_amount e \<and> ce_amount e \<le> MAX_STRIPE_AMOUNT \<and>
    jprop v ''product_line'' = JStr (ce_line e) \<and> jprop v ''offering_key'' = JStr (ce_offering e) \<and>
    jprop v ''interval'' = ce_interval e \<and>
    (case kind of
       SubscriptionCheckout \<Rightarrow> jprop v ''price_type'' = JStr ''recurring'' \<and> (\<exists>i. ce_interval e = JStr (interval_text i))
     | PackCheckout \<Rightarrow> jprop v ''price_type'' = JStr ''one_time'' \<and> ce_interval e = JNull)"
proof -
  have texts: "\<exists>i. ''month'' = interval_text i" "\<exists>i. ''year'' = interval_text i"
    by (rule exI [of _ Month], simp add: interval_text_def) (rule exI [of _ Year], simp add: interval_text_def)
  show ?thesis
    using assms unfolding priceEvidence_def Let_def reader_results
    by (cases kind) (auto split: if_splits intro: texts)
qed

lemma checkoutParams_facts:
  assumes "checkoutParams parseUrl kind existing price v = Inr p"
  shows "cp_params p = v \<and> isPlainRecord v \<and> set (object_keys v) = set (paramKeys kind existing) \<and>
    jprop v ''client_reference_id'' = JStr (cp_account p) \<and> jsonEqual (jprop v ''line_items'') (line_item price) \<and>
    jprop v ''expires_at'' = JInt (cp_expires p) \<and> 0 \<le> cp_expires p \<and> cp_expires p \<le> MAX_STRIPE_TIMESTAMP \<and>
    (\<exists>s. jprop v ''success_url'' = JStr s) \<and> (\<exists>s. jprop v ''cancel_url'' = JStr s) \<and>
    checkoutCustomer kind existing v = Inr (cp_customer p) \<and>
    isPlainRecord (jprop v (dataBranch kind)) \<and> set (object_keys (jprop v (dataBranch kind))) = {''metadata''} \<and>
    jsonEqual (jprop v ''metadata'') (jprop (jprop v (dataBranch kind)) ''metadata'') \<and>
    cp_metadata p = jprop v ''metadata''"
proof -
  have branch: "(if b then refuse_snapshot m else r) = Inr q \<longleftrightarrow> \<not> b \<and> r = Inr q" for b m r and q :: checkout_params
    by (simp add: refuse_snapshot_def)
  from assms show ?thesis
    unfolding checkoutParams_def bind_result_Inr_iff exactRecord_Inr textValue_JStr branch httpUrl_JStr stripeTimestamp_def
      boundedInteger_JInt
    by clarsimp
qed

lemma subscriptionIdentity_facts:
  assumes "subscriptionIdentity key e p = Inr (identity, derived)"
  shows "key = ''checkout:'' @ cp_account p @ '':'' @ identity \<and> derived = key \<and>
    jprop (cp_params p) ''mode'' = JStr ''subscription'' \<and>
    jsonEqual (cp_metadata p) (subscriptionMetadataOf identity (cp_account p) (ce_line e))"
proof -
  have split: "starts_with q k \<Longrightarrow> q @ drop (length q) k = k" for q k
    by (induction q k rule: starts_with.induct) auto
  let ?q = "''checkout:'' @ cp_account p @ '':''"
  from assms have "starts_with ?q key \<and> identity = drop (length ?q) key \<and> derived = ?q @ identity \<and>
      jprop (cp_params p) ''mode'' = JStr ''subscription'' \<and>
      jsonEqual (cp_metadata p) (subscriptionMetadataOf identity (cp_account p) (ce_line e))"
    unfolding subscriptionIdentity_def Let_def refuse_snapshot_def by (auto split: if_splits)
  moreover from this split [of ?q key] have "key = ?q @ identity" by simp
  ultimately show ?thesis by simp
qed

lemma packIdentity_facts:
  assumes "packIdentity e p = Inr (identity, derived)"
  shows "derived = ''credit-pack:'' @ identity \<and> jprop (cp_params p) ''mode'' = JStr ''payment'' \<and>
    jsonEqual (jprop (cp_params p) ''payment_method_types'') (JArr [JStr ''card'']) \<and>
    (\<exists>credits days. jprop (cp_metadata p) ''pack_credits'' = JStr credits \<and> jprop (cp_metadata p) ''expires_days'' = JStr days \<and>
       jsonEqual (cp_metadata p) (packMetadataOf (ce_line e) identity (cp_account p) (ce_offering e) credits
         (show_int (ce_amount e)) (ce_currency e) days (ce_lookup e)))"
  using assms unfolding packIdentity_def reader_results
  by (auto simp: reader_results split: if_splits)

definition identity_of :: "checkout_kind \<Rightarrow> string \<Rightarrow> checkout_evidence \<Rightarrow> checkout_params \<Rightarrow> (string \<times> string) result" where
  "identity_of kind key e p = (if kind = SubscriptionCheckout then subscriptionIdentity key e p else packIdentity e p)"

lemma checkoutContents_facts:
  assumes "checkoutContents parseUrl v = Inr (kind, existing, e, p, identity)"
  shows "safeJson v = Inr () \<and> isPlainRecord v \<and> set (object_keys v) = set CHECKOUT_FIELDS \<and>
    jprop v ''schema'' = JStr CHECKOUT_SNAPSHOT_SCHEMA \<and> jprop v ''version'' = JInt CHECKOUT_SNAPSHOT_VERSION \<and>
    jprop v ''kind'' = JStr (checkout_kind_text kind) \<and>
    jprop v ''customer_mode'' = JStr (if existing then ''existing'' else ''create'') \<and>
    priceEvidence kind (jprop v ''resolved_price'') = Inr e \<and>
    checkoutParams parseUrl kind existing (ce_price e) (jprop v ''params'') = Inr p \<and>
    (\<exists>s. jprop v ''request_api_version'' = JStr s) \<and>
    (\<exists>key. jprop v ''idempotency_key'' = JStr key \<and> identity_of kind key e p = Inr (identity, key))"
proof -
  have branch: "(if b then refuse_snapshot m else r) = Inr q \<longleftrightarrow> \<not> b \<and> r = Inr q"
    for b m r and q :: "checkout_kind \<times> bool \<times> checkout_evidence \<times> checkout_params \<times> string"
    by (simp add: refuse_snapshot_def)
  from assms show ?thesis
    unfolding checkoutContents_def identity_of_def [symmetric] bind_result_Inr_iff exactRecord_Inr textValue_JStr branch
      customerExists_Inr checkoutKind_Inr
    by (clarsimp simp: branch split: prod.splits) (cases existing; simp)
qed


text \<open>The contents of a built snapshot.\<close>

lemma subscription_contents:
  assumes "checkoutContents parseUrl (subscription_snapshot i e u) = Inr (kind, existing, ev, p, identity)"
  shows "kind = SubscriptionCheckout \<and> existing = (sc_customerId i \<noteq> None) \<and> identity = sc_claimToken i \<and>
    ce_lookup ev = sc_lookupKey i \<and> ce_currency ev = sc_currency i \<and> ce_amount ev = u \<and> ce_line ev = sc_productLine i \<and>
    ce_offering ev = sc_planKey i \<and> ce_interval ev = JStr (interval_text (sc_interval i)) \<and>
    cp_account p = sc_accountId i \<and> cp_expires p = e \<and> cp_customer p = sc_customerId i"
proof -
  let ?v = "subscription_snapshot i e u"
  note c = checkoutContents_facts [OF assms]
  have kind: "kind = SubscriptionCheckout"
    using c by (cases kind) (simp_all add: subscription_snapshot_def prop_get_def checkout_kind_text_def)
  from c have "priceEvidence kind (jprop ?v ''resolved_price'') = Inr ev"
    and "checkoutParams parseUrl kind existing (ce_price ev) (jprop ?v ''params'') = Inr p"
    and key: "\<exists>key. jprop ?v ''idempotency_key'' = JStr key \<and> identity_of kind key ev p = Inr (identity, key)"
    and mode: "jprop ?v ''customer_mode'' = JStr (if existing then ''existing'' else ''create'')"
    by simp_all
  note e = priceEvidence_facts [OF this(1)] and p = checkoutParams_facts [OF this(2)]
  have ev: "ce_lookup ev = sc_lookupKey i \<and> ce_currency ev = sc_currency i \<and> ce_amount ev = u \<and>
      ce_line ev = sc_productLine i \<and> ce_offering ev = sc_planKey i \<and> ce_interval ev = JStr (interval_text (sc_interval i))"
    using e by (simp add: subscription_snapshot_def prop_get_def)
  have params: "jprop ?v ''params'' = subscription_params i e"
    by (simp add: subscription_snapshot_def prop_get_def)
  have account: "cp_account p = sc_accountId i" "cp_expires p = e"
    using p unfolding params by (simp_all add: subscription_params_def Let_def prop_get_def)
  have existing: "existing = (sc_customerId i \<noteq> None)"
    using mode by (cases "sc_customerId i") (auto simp: subscription_snapshot_def prop_get_def customer_mode_text_def split: if_splits)
  from p have "checkoutCustomer kind existing (subscription_params i e) = Inr (cp_customer p)" by (simp add: params)
  then have customer: "cp_customer p = sc_customerId i"
    unfolding kind existing checkoutCustomer_Inr
    by (cases "cp_customer p"; cases "sc_customerId i")
      (simp_all add: subscription_params_def Let_def prop_get_def)
  have "''checkout:'' @ sc_accountId i @ '':'' @ sc_claimToken i = ''checkout:'' @ cp_account p @ '':'' @ identity"
    using key subscriptionIdentity_facts unfolding kind identity_of_def
    by (simp add: subscription_snapshot_def prop_get_def)
  then have "identity = sc_claimToken i" by (simp add: account)
  then show ?thesis using kind ev account customer existing by simp
qed

text \<open>With its own expectations a built snapshot is accepted, and is what it was.\<close>

lemma subscription_accepted:
  assumes "checkoutContents parseUrl (subscription_snapshot i (sc_expiresAt i) (sc_unitAmount i)) = Inr r"
    and "0 \<le> sc_expiresAt i" "sc_expiresAt i \<le> js_max_safe_integer" "0 \<le> sc_unitAmount i" "sc_unitAmount i \<le> MAX_STRIPE_AMOUNT"
  shows "validateCheckoutRequestSnapshot parseUrl (subscription_snapshot i (sc_expiresAt i) (sc_unitAmount i))
    (subscription_expectation i) = Inr (subscription_snapshot i (sc_expiresAt i) (sc_unitAmount i))"
proof -
  obtain kind existing ev p identity where r: "r = (kind, existing, ev, p, identity)" by (cases r)
  note c = subscription_contents [OF assms(1) [unfolded r]]
  have "checkExpectations (subscription_expectation i) kind existing ev p identity = Inr ()"
    using c assms(2-)
    by (cases "sc_customerId i") (simp_all add: checkExpectations_def subscription_expectation_def opt_result_def bigintNumber_def bigintAmount_def
        checkoutComparisons_def differs_def customerRefusal_def packRefusal_def)
  then show ?thesis
    using assms(1) r by (simp add: validateCheckoutRequestSnapshot_def clone_parsed [OF parsed_subscription])
qed


lemma pack_contents:
  assumes "checkoutContents parseUrl (pack_snapshot i e u) = Inr (kind, existing, ev, p, identity)"
  shows "kind = PackCheckout \<and> existing = (kc_customerId i \<noteq> None) \<and> identity = kc_orderId i \<and>
    ce_lookup ev = kc_lookupKey i \<and> ce_currency ev = kc_currency i \<and> ce_amount ev = u \<and> ce_line ev = kc_productLine i \<and>
    ce_offering ev = kc_packKey i \<and> cp_account p = kc_accountId i \<and> cp_expires p = e \<and> cp_customer p = kc_customerId i \<and>
    cp_metadata p = jprop (pack_params i e) ''metadata'' \<and>
    (\<exists>credits. jprop (cp_metadata p) ''pack_credits'' = JStr credits \<and> visible_text credits 64 \<and> \<not> shows_secret credits)"
proof -
  let ?v = "pack_snapshot i e u"
  note c = checkoutContents_facts [OF assms]
  have kind: "kind = PackCheckout"
    using c by (cases kind) (simp_all add: pack_snapshot_def prop_get_def checkout_kind_text_def)
  from c have "priceEvidence kind (jprop ?v ''resolved_price'') = Inr ev"
    and "checkoutParams parseUrl kind existing (ce_price ev) (jprop ?v ''params'') = Inr p"
    and key: "\<exists>key. jprop ?v ''idempotency_key'' = JStr key \<and> identity_of kind key ev p = Inr (identity, key)"
    and mode: "jprop ?v ''customer_mode'' = JStr (if existing then ''existing'' else ''create'')"
    by simp_all
  note e = priceEvidence_facts [OF this(1)] and p = checkoutParams_facts [OF this(2)]
  have ev: "ce_lookup ev = kc_lookupKey i \<and> ce_currency ev = kc_currency i \<and> ce_amount ev = u \<and>
      ce_line ev = kc_productLine i \<and> ce_offering ev = kc_packKey i"
    using e by (simp add: pack_snapshot_def prop_get_def)
  have params: "jprop ?v ''params'' = pack_params i e" by (simp add: pack_snapshot_def prop_get_def)
  have account: "cp_account p = kc_accountId i" "cp_expires p = e" "cp_metadata p = jprop (pack_params i e) ''metadata''"
    using p unfolding params by (simp_all add: pack_params_def Let_def prop_get_def)
  have existing: "existing = (kc_customerId i \<noteq> None)"
    using mode by (cases "kc_customerId i") (auto simp: pack_snapshot_def prop_get_def customer_mode_text_def split: if_splits)
  from p have "checkoutCustomer kind existing (pack_params i e) = Inr (cp_customer p)" by (simp add: params)
  then have customer: "cp_customer p = kc_customerId i"
    unfolding kind existing checkoutCustomer_Inr
    by (cases "cp_customer p"; cases "kc_customerId i") (simp_all add: pack_params_def Let_def prop_get_def)
  from key kind obtain key where k: "jprop ?v ''idempotency_key'' = JStr key" and pack: "packIdentity ev p = Inr (identity, key)"
    by (auto simp: identity_of_def)
  then have "identity = kc_orderId i"
    using packIdentity_facts [OF pack] by (simp add: pack_snapshot_def prop_get_def)
  moreover from pack have "\<exists>credits. jprop (cp_metadata p) ''pack_credits'' = JStr credits \<and> visible_text credits 64 \<and> \<not> shows_secret credits"
    unfolding packIdentity_def reader_results by (auto simp: reader_results split: if_splits)
  ultimately show ?thesis using kind ev account customer existing by simp
qed

lemma pack_accepted:
  assumes "checkoutContents parseUrl (pack_snapshot i (kc_expiresAt i) (kc_unitAmount i)) = Inr r"
    and "0 \<le> kc_expiresAt i" "kc_expiresAt i \<le> js_max_safe_integer" "0 \<le> kc_unitAmount i" "kc_unitAmount i \<le> MAX_STRIPE_AMOUNT"
    and days: "0 < kc_expiresDays i" "kc_expiresDays i \<le> js_max_safe_integer"
  shows "validateCheckoutRequestSnapshot parseUrl (pack_snapshot i (kc_expiresAt i) (kc_unitAmount i))
    (pack_expectation i) = Inr (pack_snapshot i (kc_expiresAt i) (kc_unitAmount i))"
proof -
  obtain kind existing ev p identity where r: "r = (kind, existing, ev, p, identity)" by (cases r)
  note c = pack_contents [OF assms(1) [unfolded r]]
  have metadata: "jprop (pack_params i (kc_expiresAt i)) ''metadata'' =
      packMetadataOf (kc_productLine i) (kc_orderId i) (kc_accountId i) (kc_packKey i) (kc_packCredits i)
            (show_int (kc_unitAmount i)) (kc_currency i) (show_int (kc_expiresDays i)) (kc_lookupKey i)"
    by (simp add: pack_params_def Let_def prop_get_def)
  have credits: "textValue (jprop (cp_metadata p) ''pack_credits'') ''pack credits'' 64 = Inr (kc_packCredits i)"
    and plain: "isPlainRecord (cp_metadata p)" "jprop (cp_metadata p) ''expires_days'' = JStr (show_int (kc_expiresDays i))"
    using c unfolding textValue_JStr by (auto simp: metadata packMetadataOf_def prop_get_def)
  have kind: "kind = PackCheckout" using c by simp
  have "packRefusal (pack_expectation i) kind p = Inr ()"
    using days by (simp add: packRefusal_def pack_expectation_def kind credits plain)
  moreover have "customerRefusal (pack_expectation i) existing p = Inr ()"
    using c by (cases "kc_customerId i") (simp_all add: customerRefusal_def pack_expectation_def)
  moreover have "find fst (checkoutComparisons (pack_expectation i) (Some (kc_unitAmount i)) (Some (kc_expiresAt i)) kind ev p identity) = None"
    using c by (simp add: checkoutComparisons_def pack_expectation_def differs_def)
  ultimately have "checkExpectations (pack_expectation i) kind existing ev p identity = Inr ()"
    using assms(2-5)
    by (simp add: checkExpectations_def opt_result_def bigintNumber_def bigintAmount_def pack_expectation_def)
  then show ?thesis
    using assms(1) r by (simp add: validateCheckoutRequestSnapshot_def clone_parsed [OF parsed_pack])
qed

lemma subscription_rebuilt:
  assumes "buildSubscriptionCheckoutRequestSnapshot parseUrl i = Inr s"
  shows "validateCheckoutRequestSnapshot parseUrl s (subscription_expectation i) = Inr s"
proof -
  from assms have b: "0 \<le> sc_expiresAt i" "sc_expiresAt i \<le> js_max_safe_integer" "0 \<le> sc_unitAmount i"
      "sc_unitAmount i \<le> MAX_STRIPE_AMOUNT"
    and v: "validateCheckoutRequestSnapshot parseUrl (subscription_snapshot i (sc_expiresAt i) (sc_unitAmount i)) no_expectation = Inr s"
    by (auto simp: buildSubscriptionCheckoutRequestSnapshot_def bind_result_Inr_iff bigintNumber_Inr bigintAmount_Inr)
  from v obtain r where "checkoutContents parseUrl (subscription_snapshot i (sc_expiresAt i) (sc_unitAmount i)) = Inr r"
    and "s = subscription_snapshot i (sc_expiresAt i) (sc_unitAmount i)"
    by (auto simp: validateCheckoutRequestSnapshot_def bind_result_Inr_iff clone_parsed [OF parsed_subscription])
  with subscription_accepted [OF _ b] show ?thesis by simp
qed

lemma pack_rebuilt:
  assumes "buildCreditPackCheckoutRequestSnapshot parseUrl i = Inr s"
    and days: "0 < kc_expiresDays i" "kc_expiresDays i \<le> js_max_safe_integer"
  shows "validateCheckoutRequestSnapshot parseUrl s (pack_expectation i) = Inr s"
proof -
  from assms(1) have b: "0 \<le> kc_expiresAt i" "kc_expiresAt i \<le> js_max_safe_integer" "0 \<le> kc_unitAmount i"
      "kc_unitAmount i \<le> MAX_STRIPE_AMOUNT"
    and v: "validateCheckoutRequestSnapshot parseUrl (pack_snapshot i (kc_expiresAt i) (kc_unitAmount i)) no_expectation = Inr s"
    by (auto simp: buildCreditPackCheckoutRequestSnapshot_def bind_result_Inr_iff bigintNumber_Inr bigintAmount_Inr)
  from v obtain r where "checkoutContents parseUrl (pack_snapshot i (kc_expiresAt i) (kc_unitAmount i)) = Inr r"
    and "s = pack_snapshot i (kc_expiresAt i) (kc_unitAmount i)"
    by (auto simp: validateCheckoutRequestSnapshot_def bind_result_Inr_iff clone_parsed [OF parsed_pack])
  with pack_accepted [OF _ b days] show ?thesis by simp
qed

text \<open>
  C37: a Checkout snapshot that was built is accepted again, unchanged, for everything it was built from:
  account, claim or order, price, amount, interval, expiry, customer, and the credits and term of a pack;
  so a retry sends exactly the same request.
\<close>

theorem built_checkout_accepted:
  "(buildSubscriptionCheckoutRequestSnapshot parseUrl i = Inr s \<longrightarrow>
      validateCheckoutRequestSnapshot parseUrl s (subscription_expectation i) = Inr s) \<and>
   (buildCreditPackCheckoutRequestSnapshot parseUrl k = Inr t \<and> 0 < kc_expiresDays k \<and> kc_expiresDays k \<le> js_max_safe_integer \<longrightarrow>
      validateCheckoutRequestSnapshot parseUrl t (pack_expectation k) = Inr t)"
  using subscription_rebuilt pack_rebuilt by blast

section \<open>An accepted snapshot is one the program builds\<close>

lemma jsonEqual_list_left: "jsonEqual (JArr vs) r \<longleftrightarrow> (\<exists>ws. r = JArr ws \<and> list_all2 jsonEqual vs ws)"
  by (cases r) (auto simp: list_all2_map1)

lemma jsonEqual_object_left:
  "jsonEqual (JObj b fs) r \<longleftrightarrow> (\<exists>c gs. r = JObj c gs \<and> fst ` set fs = fst ` set gs \<and>
     (\<forall>k w. map_of fs k = Some w \<longrightarrow> jsonEqual w (prop_get gs k)))"
  by (cases r) (simp_all add: same_keys_def list_all_fields)

lemma jsonEqual_euclid: "jsonEqual a b \<Longrightarrow> jsonEqual a c \<Longrightarrow> jsonEqual b c"
proof (induction a arbitrary: b c)
  case (JArr vs)
  then obtain ws us where b: "b = JArr ws" and c: "c = JArr us" and ws: "list_all2 jsonEqual vs ws" and us: "list_all2 jsonEqual vs us"
    unfolding jsonEqual_list_left by blast
  have "list_all2 jsonEqual ws us"
  proof (rule list_all2_all_nthI)
    show "length ws = length us" using ws us by (simp add: list_all2_lengthD [symmetric])
    fix n assume n: "n < length ws"
    then have "n < length vs" using ws by (simp add: list_all2_lengthD)
    with JArr.IH [OF nth_mem [OF this]] ws us show "jsonEqual (ws ! n) (us ! n)"
      by (simp add: list_all2_nthD)
  qed
  then show ?case unfolding b c jsonEqual_list_left by simp
next
  case (JObj p fs)
  from JObj.prems(1) [unfolded jsonEqual_object_left] obtain q gs where b: "b = JObj q gs"
    and keys: "fst ` set fs = fst ` set gs" and gs: "\<And>k w. map_of fs k = Some w \<Longrightarrow> jsonEqual w (prop_get gs k)" by auto
  from JObj.prems(2) [unfolded jsonEqual_object_left] obtain q' hs where c: "c = JObj q' hs"
    and keys': "fst ` set fs = fst ` set hs" and hs: "\<And>k w. map_of fs k = Some w \<Longrightarrow> jsonEqual w (prop_get hs k)" by auto
  have "jsonEqual w (prop_get hs k)" if w: "map_of gs k = Some w" for k w
  proof -
    from w have "k \<in> fst ` set fs" unfolding keys by (metis map_of_eq_None_iff option.distinct(1))
    then obtain u where u: "map_of fs k = Some u" by (metis map_of_eq_None_iff not_Some_eq)
    from map_of_SomeD [OF u] have "jsonEqual u w \<Longrightarrow> jsonEqual u (prop_get hs k) \<Longrightarrow> jsonEqual w (prop_get hs k)"
      using JObj.IH [of "(k, u)" u w "prop_get hs k"] by simp
    moreover from gs [OF u] w have "jsonEqual u w" by (simp add: prop_get_def)
    ultimately show ?thesis using hs [OF u] by simp
  qed
  with keys keys' show ?case unfolding b c jsonEqual_object_left by auto
qed auto

lemma parsed_defined: "parsed v \<Longrightarrow> defined v"
proof (induction v)
  case (JObj p fs)
  then show ?case by (force simp: list_all_iff)
qed (auto simp: list_all_iff)

text \<open>What \<open>x\<close> expects is what \<open>y\<close> says.\<close>

definition agrees :: "CheckoutSnapshotExpectation \<Rightarrow> CheckoutSnapshotExpectation \<Rightarrow> bool" where
  "agrees x y \<longleftrightarrow>
     x_kind x \<in> {None, x_kind y} \<and> x_accountId x \<in> {None, x_accountId y} \<and> x_requestIdentity x \<in> {None, x_requestIdentity y} \<and>
     x_lookupKey x \<in> {None, x_lookupKey y} \<and> x_currency x \<in> {None, x_currency y} \<and> x_unitAmount x \<in> {None, x_unitAmount y} \<and>
     x_interval x \<in> {None, x_interval y} \<and> x_offeringKey x \<in> {None, x_offeringKey y} \<and> x_expiresAt x \<in> {None, x_expiresAt y} \<and>
     x_customerId x \<in> {None, x_customerId y} \<and> x_packCredits x \<in> {None, x_packCredits y} \<and>
     x_expiresDays x \<in> {None, x_expiresDays y} \<and> x_productLine x \<in> {None, x_productLine y}"

lemma differs_iff: "\<not> differs expected v \<longleftrightarrow> expected \<in> {None, Some v}"
  by (cases expected) (auto simp: differs_def)

lemma opt_result_Inr: "opt_result f v = Inr w \<longleftrightarrow> (case v of None \<Rightarrow> w = None | Some n \<Rightarrow> \<exists>k. f n = Inr k \<and> w = Some k)"
  by (cases v) (auto simp: opt_result_def bind_result_Inr_iff)

lemma opt_amount: "opt_result (\<lambda>n. bigintAmount n field) v = Inr w \<Longrightarrow> w = v" "opt_result (\<lambda>n. bigintNumber n field) v = Inr w \<Longrightarrow> w = v"
  by (auto simp: opt_result_Inr bigintAmount_Inr bigintNumber_Inr split: option.splits)

lemma checkExpectations_facts:
  assumes "checkExpectations x kind existing e p identity = Inr ()"
  shows "x_kind x \<in> {None, Some kind} \<and> x_accountId x \<in> {None, Some (cp_account p)} \<and>
    x_requestIdentity x \<in> {None, Some identity} \<and> x_lookupKey x \<in> {None, Some (ce_lookup e)} \<and>
    x_currency x \<in> {None, Some (ce_currency e)} \<and> x_unitAmount x \<in> {None, Some (ce_amount e)} \<and>
    map_option (\<lambda>i. JStr (interval_text i)) (x_interval x) \<in> {None, Some (ce_interval e)} \<and>
    x_offeringKey x \<in> {None, Some (ce_offering e)} \<and> x_productLine x \<in> {None, Some (ce_line e)} \<and>
    x_expiresAt x \<in> {None, Some (cp_expires p)} \<and> x_customerId x \<in> {None, Some (cp_customer p)} \<and>
    packRefusal x kind p = Inr ()"
proof -
  from assms obtain amount expires where a: "opt_result (\<lambda>n. bigintAmount n ''expected unit amount'') (x_unitAmount x) = Inr amount"
    and b: "opt_result (\<lambda>n. bigintNumber n ''expected expiry'') (x_expiresAt x) = Inr expires"
    and rest: "(case find fst (checkoutComparisons x amount expires kind e p identity) of
         Some (_, field) \<Rightarrow> refuse_snapshot (''Checkout '' @ field @ '' drifted'')
       | None \<Rightarrow> bind_result (customerRefusal x existing p) (\<lambda>_. packRefusal x kind p)) = Inr ()"
    unfolding checkExpectations_def bind_result_Inr_iff by blast
  from rest have c: "find fst (checkoutComparisons x amount expires kind e p identity) = None"
    by (cases "find fst (checkoutComparisons x amount expires kind e p identity)") (auto simp: refuse_snapshot_def)
  with rest have d: "customerRefusal x existing p = Inr ()" "packRefusal x kind p = Inr ()"
    by (auto simp: bind_result_Inr_iff)
  from opt_amount(1) [OF a] opt_amount(2) [OF b] have e: "amount = x_unitAmount x" "expires = x_expiresAt x" by simp_all
  have "x_customerId x \<in> {None, Some (cp_customer p)}"
    using d(1) by (auto simp: customerRefusal_def refuse_snapshot_def split: option.splits if_splits)
  moreover have "list_all (\<lambda>(b, f). \<not> b) (checkoutComparisons x (x_unitAmount x) (x_expiresAt x) kind e p identity)"
    using c unfolding e find_None_iff by (auto simp: list_all_iff)
  ultimately show ?thesis using d(2) by (simp add: checkoutComparisons_def differs_iff)
qed

lemma interval_text_inject [simp]: "interval_text i = interval_text j \<longleftrightarrow> i = j"
  by (cases i; cases j) (simp_all add: interval_text_def)

lemma map_option_among: "map_option f o' \<in> {None, Some (f v)} \<longleftrightarrow> o' \<in> {None, Some v}" if "\<And>a b. f a = f b \<longleftrightarrow> a = b"
  using that by (cases o') auto

lemma accepted_subscription:
  assumes v: "validateCheckoutRequestSnapshot parseUrl v x = Inr r" and kind: "jprop v ''kind'' = JStr ''subscription''"
  shows "\<exists>i. jsonEqual r (subscription_snapshot i (sc_expiresAt i) (sc_unitAmount i)) \<and> agrees x (subscription_expectation i)"
proof -
  from v obtain k existing e p identity where c: "checkoutContents parseUrl v = Inr (k, existing, e, p, identity)"
    and x: "checkExpectations x k existing e p identity = Inr ()" and r: "r = cloneJson v"
    by (auto simp: validateCheckoutRequestSnapshot_def bind_result_Inr_iff)
  note c = checkoutContents_facts [OF c]
  have k: "k = SubscriptionCheckout" using c kind by (cases k) (simp_all add: checkout_kind_text_def)
  from c have "priceEvidence k (jprop v ''resolved_price'') = Inr e"
    and "checkoutParams parseUrl k existing (ce_price e) (jprop v ''params'') = Inr p" by simp_all
  note e = priceEvidence_facts [OF this(1), unfolded k checkout_kind.case]
    and p = checkoutParams_facts [OF this(2), unfolded k]
  from c k obtain key where key: "jprop v ''idempotency_key'' = JStr key" and "subscriptionIdentity key e p = Inr (identity, key)"
    by (auto simp: identity_of_def)
  note identity = subscriptionIdentity_facts [OF this(2)]
  from c obtain api where api: "jprop v ''request_api_version'' = JStr api" by blast
  from e obtain interval where interval: "ce_interval e = JStr (interval_text interval)" by blast
  from p obtain success cancel where urls: "jprop (jprop v ''params'') ''success_url'' = JStr success"
    "jprop (jprop v ''params'') ''cancel_url'' = JStr cancel" by auto
  let ?i = "\<lparr>sc_accountId = cp_account p, sc_claimToken = identity, sc_customerId = cp_customer p, sc_priceId = ce_price e,
    sc_lookupKey = ce_lookup e, sc_currency = ce_currency e, sc_unitAmount = ce_amount e, sc_interval = interval,
    sc_planKey = ce_offering e, sc_productLine = ce_line e, sc_successUrl = success, sc_cancelUrl = cancel,
    sc_expiresAt = cp_expires p, sc_requestApiVersion = api\<rparr>"
  have existing: "existing = (cp_customer p \<noteq> None)" and customer: "\<And>c. cp_customer p = Some c \<Longrightarrow> jprop (jprop v ''params'') ''customer'' = JStr c"
    using p unfolding checkoutCustomer_Inr by (auto split: option.splits)
  have metadata: "jsonEqual (jprop (jprop v ''params'') ''metadata'') (subscriptionMetadataOf identity (cp_account p) (ce_line e))"
    using identity p by simp
  have wrapper: "jsonEqual (jprop (jprop (jprop v ''params'') ''subscription_data'') ''metadata'')
      (subscriptionMetadataOf identity (cp_account p) (ce_line e))"
    using p by (intro jsonEqual_euclid [OF _ metadata]) (simp add: dataBranch_def)
  have "jsonEqual (jprop (jprop v ''params'') ''subscription_data'')
      (JObj True [(''metadata'', subscriptionMetadataOf identity (cp_account p) (ce_line e))])"
    unfolding jsonEqual_object using p wrapper by (simp add: dataBranch_def prop_get_def)
  then have params: "jsonEqual (jprop v ''params'') (subscription_params ?i (cp_expires p))"
    using p identity metadata urls existing customer
    by (cases "cp_customer p") (auto simp: subscription_params_def Let_def jsonEqual_object prop_get_def paramKeys_def dataBranch_def)
  have "jsonEqual (jprop v ''resolved_price'') (jprop (subscription_snapshot ?i (cp_expires p) (ce_amount e)) ''resolved_price'')"
    using e interval by (simp add: subscription_snapshot_def jsonEqual_object prop_get_def PRICE_FIELDS_def)
  with params have "jsonEqual v (subscription_snapshot ?i (cp_expires p) (ce_amount e))"
    using c api key identity existing
    by (cases "cp_customer p")
      (simp_all add: subscription_snapshot_def jsonEqual_object [of v] prop_get_def CHECKOUT_FIELDS_def k checkout_kind_text_def customer_mode_text_def)
  then have "jsonEqual r (subscription_snapshot ?i (sc_expiresAt ?i) (sc_unitAmount ?i))"
    unfolding r by (simp add: jsonEqual_clone parsed_defined parsed_subscription)
  moreover have "packRefusal x SubscriptionCheckout p = Inr () \<Longrightarrow> x_packCredits x = None \<and> x_expiresDays x = None"
    by (auto simp: packRefusal_def bind_result_Inr_iff refuse_snapshot_def split: option.splits)
  then have "agrees x (subscription_expectation ?i)"
    using checkExpectations_facts [OF x] unfolding k interval
    by (simp add: agrees_def subscription_expectation_def map_option_among [where f = "\<lambda>i. JStr (interval_text i)", simplified])
  ultimately show ?thesis by blast
qed

lemma accepted_pack:
  assumes v: "validateCheckoutRequestSnapshot parseUrl v x = Inr r" and kind: "jprop v ''kind'' = JStr ''credit_pack''"
    and days: "x_expiresDays x = Some days"
  shows "\<exists>i. jsonEqual r (pack_snapshot i (kc_expiresAt i) (kc_unitAmount i)) \<and> agrees x (pack_expectation i)"
proof -
  from v obtain k existing e p identity where c: "checkoutContents parseUrl v = Inr (k, existing, e, p, identity)"
    and x: "checkExpectations x k existing e p identity = Inr ()" and r: "r = cloneJson v"
    by (auto simp: validateCheckoutRequestSnapshot_def bind_result_Inr_iff)
  note c = checkoutContents_facts [OF c]
  have k: "k = PackCheckout" using c kind by (cases k) (simp_all add: checkout_kind_text_def)
  note x = checkExpectations_facts [OF x, unfolded k]
  from c have "priceEvidence k (jprop v ''resolved_price'') = Inr e"
    and "checkoutParams parseUrl k existing (ce_price e) (jprop v ''params'') = Inr p" by simp_all
  note e = priceEvidence_facts [OF this(1), unfolded k checkout_kind.case]
    and p = checkoutParams_facts [OF this(2), unfolded k]
  from c k obtain key where key: "jprop v ''idempotency_key'' = JStr key" and "packIdentity e p = Inr (identity, key)"
    by (auto simp: identity_of_def)
  note identity = packIdentity_facts [OF this(2)]
  from c obtain api where api: "jprop v ''request_api_version'' = JStr api" by blast
  from p obtain success cancel where urls: "jprop (jprop v ''params'') ''success_url'' = JStr success"
    "jprop (jprop v ''params'') ''cancel_url'' = JStr cancel" by auto
  from identity obtain credits lasts where credits: "jprop (cp_metadata p) ''pack_credits'' = JStr credits"
    "jprop (cp_metadata p) ''expires_days'' = JStr lasts"
    "jsonEqual (cp_metadata p) (packMetadataOf (ce_line e) identity (cp_account p) (ce_offering e) credits
       (show_int (ce_amount e)) (ce_currency e) lasts (ce_lookup e))" by auto
  from x days have lasts: "lasts = show_int days" and pack: "x_packCredits x \<in> {None, Some credits}"
    using credits by (auto simp: packRefusal_def bind_result_Inr_iff refuse_snapshot_def textValue_JStr split: option.splits if_splits)
  let ?i = "\<lparr>kc_orderId = identity, kc_accountId = cp_account p, kc_customerId = cp_customer p, kc_priceId = ce_price e,
    kc_lookupKey = ce_lookup e, kc_currency = ce_currency e, kc_unitAmount = ce_amount e, kc_packKey = ce_offering e,
    kc_packCredits = credits, kc_expiresDays = days, kc_productLine = ce_line e, kc_successUrl = success,
    kc_cancelUrl = cancel, kc_expiresAt = cp_expires p, kc_requestApiVersion = api\<rparr>"
  let ?m = "packMetadataOf (ce_line e) identity (cp_account p) (ce_offering e) credits
       (show_int (ce_amount e)) (ce_currency e) (show_int days) (ce_lookup e)"
  have existing: "existing = (cp_customer p \<noteq> None)"
    and customer: "\<And>c. cp_customer p = Some c \<Longrightarrow> jprop (jprop v ''params'') ''customer'' = JStr c"
    and creation: "cp_customer p = None \<Longrightarrow> jprop (jprop v ''params'') ''customer_creation'' = JStr ''always''"
    using p unfolding checkoutCustomer_Inr by (auto split: option.splits)
  have metadata: "jsonEqual (jprop (jprop v ''params'') ''metadata'') ?m"
    using credits(3) p by (simp add: lasts)
  have wrapper: "jsonEqual (jprop (jprop (jprop v ''params'') ''payment_intent_data'') ''metadata'') ?m"
    using p by (intro jsonEqual_euclid [OF _ metadata]) (simp add: dataBranch_def)
  have "jsonEqual (jprop (jprop v ''params'') ''payment_intent_data'') (JObj True [(''metadata'', ?m)])"
    unfolding jsonEqual_object using p wrapper by (simp add: dataBranch_def prop_get_def)
  then have params: "jsonEqual (jprop v ''params'') (pack_params ?i (cp_expires p))"
    using p identity metadata urls existing customer creation
    by (cases "cp_customer p")
      (auto simp: pack_params_def Let_def jsonEqual_object [of "jprop v ''params''"] prop_get_def paramKeys_def dataBranch_def)
  have "jsonEqual (jprop v ''resolved_price'') (jprop (pack_snapshot ?i (cp_expires p) (ce_amount e)) ''resolved_price'')"
    using e by (simp add: pack_snapshot_def jsonEqual_object prop_get_def PRICE_FIELDS_def)
  with params have "jsonEqual v (pack_snapshot ?i (cp_expires p) (ce_amount e))"
    using c api key identity existing
    by (cases "cp_customer p")
      (simp_all add: pack_snapshot_def jsonEqual_object [of v] prop_get_def CHECKOUT_FIELDS_def k checkout_kind_text_def customer_mode_text_def)
  then have "jsonEqual r (pack_snapshot ?i (kc_expiresAt ?i) (kc_unitAmount ?i))"
    unfolding r by (simp add: jsonEqual_clone parsed_defined parsed_pack)
  moreover have "agrees x (pack_expectation ?i)"
    using x pack days e by (auto simp: agrees_def pack_expectation_def)
  ultimately show ?thesis by blast
qed

text \<open>
  C38: whatever value is accepted as a Checkout snapshot, from the database or from the gateway, is up to the
  order of its fields a snapshot the program builds, of an input that meets every expectation: one item of
  the expected price and amount, for the expected account, under the key of its claim or order, with no
  other parameter.
\<close>

theorem accepted_checkout_is_built:
  assumes "validateCheckoutRequestSnapshot parseUrl v x = Inr r"
  shows "(x_kind x = Some SubscriptionCheckout \<longrightarrow>
      (\<exists>i. jsonEqual r (subscription_snapshot i (sc_expiresAt i) (sc_unitAmount i)) \<and> agrees x (subscription_expectation i))) \<and>
    (x_kind x = Some PackCheckout \<longrightarrow> x_expiresDays x \<noteq> None \<longrightarrow>
      (\<exists>i. jsonEqual r (pack_snapshot i (kc_expiresAt i) (kc_unitAmount i)) \<and> agrees x (pack_expectation i)))"
proof -
  from assms obtain k existing e p identity where c: "checkoutContents parseUrl v = Inr (k, existing, e, p, identity)"
    and x: "checkExpectations x k existing e p identity = Inr ()"
    by (auto simp: validateCheckoutRequestSnapshot_def bind_result_Inr_iff)
  have kind: "jprop v ''kind'' = JStr (checkout_kind_text k)" using checkoutContents_facts [OF c] by simp
  have "x_kind x \<in> {None, Some k}" using checkExpectations_facts [OF x] by simp
  then show ?thesis
    using accepted_subscription [OF assms] accepted_pack [OF assms] kind by (auto simp: checkout_kind_text_def)
qed

section \<open>No secret in a snapshot\<close>

primrec texts :: "jsval \<Rightarrow> string list" where
  "texts JUndef = []"
| "texts JNull = []"
| "texts (JBool b) = []"
| "texts (JInt n) = []"
| "texts JReal = []"
| "texts (JBig n) = []"
| "texts (JStr s) = [s]"
| "texts (JArr vs) = concat (map texts vs)"
| "texts (JObj plain fs) = concat (map (\<lambda>(k, ts). k # ts) (map (map_prod id texts) fs))"

lemma starts_with_iff: "starts_with p s \<longleftrightarrow> (\<exists>b. s = p @ b)"
  by (induction p s rule: starts_with.induct) auto

lemma includes_iff: "includes_str p s \<longleftrightarrow> (\<exists>a b. s = a @ p @ b)"
proof (induction s)
  case (Cons c cs)
  show ?case
  proof
    assume "includes_str p (c # cs)"
    then show "\<exists>a b. c # cs = a @ p @ b"
      using Cons by (auto simp: starts_with_iff) (metis append_Cons append_Nil)+
  next
    assume "\<exists>a b. c # cs = a @ p @ b"
    then obtain a b where ab: "c # cs = a @ p @ b" by blast
    show "includes_str p (c # cs)"
    proof (cases a)
      case Nil
      with ab have "starts_with p (c # cs)" unfolding starts_with_iff by auto
      then show ?thesis by simp
    next
      case (Cons d a')
      with ab have "cs = a' @ p @ b" by simp
      then show ?thesis using Cons.IH by auto
    qed
  qed
qed auto

lemma includes_append: "includes_str p s \<Longrightarrow> includes_str p (a @ s @ b)"
  unfolding includes_iff by (metis append.assoc)

lemma includes_comma: "t \<in> set ts \<Longrightarrow> includes_str p t \<Longrightarrow> includes_str p (comma_separated ts)"
proof (induction ts rule: comma_separated.induct)
  case (3 t' t'' ts)
  show ?case
  proof (cases "t = t'")
    case True
    with 3 includes_append [of p t "[]"] show ?thesis by simp
  next
    case False
    with 3 have "includes_str p (comma_separated (t'' # ts))" by simp
    from includes_append [OF this, of "t' @ '',''" "[]"] show ?thesis by simp
  qed
qed auto

text \<open>The escapes leave the characters of a marker alone.\<close>

definition plain_text :: "string \<Rightarrow> bool" where
  "plain_text m \<longleftrightarrow> (\<forall>c \<in> set m. escape_char c = [c])"

lemma includes_escaped: "plain_text m \<Longrightarrow> includes_str m s \<Longrightarrow> includes_str m (json_string s)"
proof -
  assume m: "plain_text m" "includes_str m s"
  then obtain a b where "s = a @ m @ b" by (auto simp: includes_iff)
  moreover have "concat (map escape_char m) = m" using m(1) unfolding plain_text_def by (induction m) auto
  ultimately have "json_string s = (char_of (34::nat) # concat (map escape_char a)) @ m @ (concat (map escape_char b) @ [char_of (34::nat)])"
    by (simp add: json_string_def)
  then show ?thesis unfolding includes_iff by blast
qed

lemma all_texts_Inr: "all_texts rs = Inr ts \<longleftrightarrow> list_all2 (\<lambda>r t. r = Inr t) rs ts"
  by (simp add: all_texts_def map_result_Inr_iff)

lemma list_all2_member: "list_all2 (\<lambda>r t. r = f t) rs ts \<Longrightarrow> r \<in> set rs \<Longrightarrow> \<exists>t \<in> set ts. r = f t"
  by (induction rs ts rule: list_all2_induct) auto

lemma field_of_kept:
  assumes "(k, w) \<in> set (kept_fields (map (map_prod id cloneJson) fs))"
  obtains v where "map_of fs k = Some v" "w = cloneJson v" "v \<noteq> JUndef"
proof -
  from assms have "map_of (map (map_prod id cloneJson) fs) k = Some w" "w \<noteq> JUndef"
    by (auto simp: kept_fields_def) (metis distinct_clearjunk map_of_clearjunk map_of_eq_Some_iff)
  then show thesis using that by (auto simp: map_of_map_snd)
qed

lemma texts_stringified:
  assumes "plain_text m" "stringify v = Inr (Some t)" "s \<in> set (texts (cloneJson v))" "includes_str m s"
  shows "includes_str m t"
  using assms(2-)
proof (induction v arbitrary: t)
  case (JStr s')
  with includes_escaped [OF assms(1)] show ?case by auto
next
  case (JArr vs)
  from JArr.prems(1) obtain ts where ts: "list_all2 (\<lambda>r t. r = Inr t) (map stringify vs) ts"
    and t: "t = ''['' @ comma_separated (map (\<lambda>t. case t of None \<Rightarrow> ''null'' | Some w \<Rightarrow> w) ts) @ '']''"
    by (auto simp: bind_result_Inr_iff all_texts_Inr)
  from JArr.prems(2) obtain v where v: "v \<in> set vs" "s \<in> set (texts (null_for_undefined (cloneJson v)))" by auto
  then have s: "s \<in> set (texts (cloneJson v))" by (auto simp: null_for_undefined_def split: if_splits)
  from list_all2_member [OF ts, of "stringify v"] v(1) obtain w where w: "stringify v = Inr w" "w \<in> set ts" by auto
  from s w(1) obtain u where "w = Some u" by (cases v) (auto simp: bind_result_Inr_iff)
  then have "u \<in> set (map (\<lambda>t. case t of None \<Rightarrow> ''null'' | Some w \<Rightarrow> w) ts)" using w(2) by force
  from includes_comma [OF this JArr.IH [OF v(1) _ s JArr.prems(3)]] w(1) \<open>w = Some u\<close>
  show ?case unfolding t by (intro includes_append) simp
next
  case (JObj p fs)
  let ?rs = "map (\<lambda>(k, r). bind_result r (\<lambda>t. Inr (k, t))) (AList.clearjunk (map (map_prod id stringify) fs))"
  from JObj.prems(1) obtain ts where ts: "list_all2 (\<lambda>r t. r = Inr t) ?rs ts"
    and t: "t = ''{'' @ comma_separated (field_texts ts) @ ''}''"
    by (auto simp: bind_result_Inr_iff all_texts_Inr)
  from JObj.prems(2) obtain k w where kw: "(k, w) \<in> set (kept_fields (map (map_prod id cloneJson) fs))"
    and s: "s = k \<or> s \<in> set (texts w)" by (auto simp: map_prod_def split: prod.splits)
  from field_of_kept [OF kw(1)] obtain v where v: "map_of fs k = Some v" "w = cloneJson v" "v \<noteq> JUndef" by blast
  then have "map_of (AList.clearjunk (map (map_prod id stringify) fs)) k = Some (stringify v)"
    by (simp add: map_of_clearjunk map_of_map_snd)
  then have "bind_result (stringify v) (\<lambda>t. Inr (k, t)) \<in> set ?rs" by (force dest: map_of_SomeD)
  from list_all2_member [OF ts this] obtain q where q: "bind_result (stringify v) (\<lambda>t. Inr (k, t)) = Inr q" "q \<in> set ts" by blast
  with v(3) obtain u where u: "stringify v = Inr (Some u)" "q = (k, Some u)"
    by (cases v) (auto simp: bind_result_Inr_iff)
  from q(2) u(2) have field: "json_string k @ '':'' @ u \<in> set (field_texts ts)"
    unfolding field_texts_def List.map_filter_def by force
  have "includes_str m (json_string k @ '':'' @ u)"
  proof (cases "s = k")
    case True
    with includes_append [OF includes_escaped [OF assms(1)], of s "[]"] JObj.prems(3) show ?thesis by simp
  next
    case False
    with s v(2) have "includes_str m u"
      using JObj.IH [of "(k, v)" v u] map_of_SomeD [OF v(1)] u(1) JObj.prems(3) by simp
    from includes_append [OF this, of "json_string k @ '':''" "[]"] show ?thesis by simp
  qed
  from includes_comma [OF field this] show ?case unfolding t by (intro includes_append)
qed auto

lemma SECRET_MARKERS_plain: "m \<in> set SECRET_MARKERS \<Longrightarrow> plain_text m"
  by (auto simp: SECRET_MARKERS_def plain_text_def escape_char_def code_def)

lemma safe_texts:
  assumes "safeJson v = Inr ()"
  shows "list_all (\<lambda>s. \<not> shows_secret s) (texts (cloneJson v))"
proof -
  from assms obtain t where t: "stringify v = Inr (Some t)" "\<not> shows_secret t"
    by (auto simp: safeJson_def refuse_snapshot_def split: sum.splits option.splits if_splits)
  have "\<not> shows_secret s" if "s \<in> set (texts (cloneJson v))" for s
    using texts_stringified [OF SECRET_MARKERS_plain t(1) that] t(2) by (auto simp: shows_secret_def list_ex_iff)
  then show ?thesis by (simp add: list_all_iff)
qed

section \<open>The context of a plan change comes back\<close>

definition change_expectation :: "PlanChangeSnapshotInput \<Rightarrow> PlanChangeSnapshotExpectation" where
  "change_expectation i =
     \<lparr>y_idempotencyKey = Some (pi_idempotencyKey i), y_subscriptionId = Some (x_subscriptionId (pi_context i)),
      y_immediate = Some (pi_immediate i), y_policy = Some (pi_policy i)\<rparr>"

lemma policyOf_Inr: "policyOf v = Inr p \<longleftrightarrow> v = JStr (policy_text p)"
  by (cases p) (auto simp: policyOf_def policy_text_def refuse_snapshot_def)

lemma changeKind_Inr: "changeKind v = Inr b \<longleftrightarrow> v = JStr (if b then ''plan_change_immediate'' else ''plan_change_schedule'')"
  by (auto simp: changeKind_def refuse_snapshot_def)

lemma changeContents_iff:
  "changeContents y v = Inr (atOnce, policy, cx, key) \<longleftrightarrow>
    safeJson v = Inr () \<and> isPlainRecord v \<and> set (object_keys v) = set CHANGE_FIELDS \<and>
    jprop v ''schema'' = JStr PLAN_CHANGE_SNAPSHOT_SCHEMA \<and> jprop v ''version'' = JInt PLAN_CHANGE_SNAPSHOT_VERSION \<and>
    changeKind (jprop v ''kind'') = Inr atOnce \<and>
    (\<exists>api. textValue (jprop v ''request_api_version'') ''request API version'' 64 = Inr api) \<and>
    textValue (jprop v ''idempotency_key'') ''Stripe idempotency key'' 255 = Inr key \<and>
    policyOf (jprop v ''policy'') = Inr policy \<and> changeContext (jprop v ''context'') = Inr cx \<and>
    changeEvidence cx (jprop v ''price_evidence'') = Inr () \<and>
    changeExpectations y key cx atOnce policy = Inr () \<and>
    (\<exists>line. textValue (jprop v ''product_line'') ''product line'' 200 = Inr line \<and>
       (if atOnce then immediateParams cx policy (jprop v ''params'') else scheduleParams cx line key (jprop v ''params'')) = Inr ())"
proof -
  have branch: "(if b then refuse_snapshot m else r) = Inr q \<longleftrightarrow> \<not> b \<and> r = Inr q"
    for b m r and q :: "bool \<times> TransitionPolicy \<times> change_context \<times> string"
    by (simp add: refuse_snapshot_def)
  show ?thesis
    unfolding changeContents_def bind_result_Inr_iff exactRecord_Inr branch by (cases atOnce) auto
qed

lemma changeContents_fields:
  assumes "changeContents y v = Inr (atOnce, policy, cx, key)"
  shows "jprop v ''kind'' = JStr (if atOnce then ''plan_change_immediate'' else ''plan_change_schedule'')"
    "jprop v ''policy'' = JStr (policy_text policy)" "jprop v ''idempotency_key'' = JStr key"
  using assms unfolding changeContents_iff changeKind_Inr policyOf_Inr textValue_JStr by blast+

lemma changeContext_facts:
  assumes "changeContext v = Inr cx"
  shows "jprop v ''subscription_id'' = JStr (cx_subscription cx)"
proof -
  have branch: "(if b then refuse_snapshot m else r) = Inr q \<longleftrightarrow> \<not> b \<and> r = Inr q" for b m r and q :: change_context
    by (simp add: refuse_snapshot_def)
  from assms show ?thesis
    unfolding changeContext_def bind_result_Inr_iff exactRecord_Inr branch stripeId_JStr textValue_JStr by auto
qed

lemma change_parsed:
  assumes "(if pi_immediate i then immediate_params i else schedule_params i) = Inr params"
  shows "parsed (change_snapshot i (context_json (pi_context i) s e) (evidence_json i a b) params)"
proof -
  have "parsed params"
    using assms by (cases "pi_policy i")
      (auto simp: immediate_params_def schedule_params_def bind_result_Inr_iff scheduleMetadata_def refuse_snapshot_def
        split: if_splits option.splits)
  moreover have "parsed (nullable_text v)" for v by (cases v) (simp_all add: nullable_text_def)
  ultimately show ?thesis by (simp add: change_snapshot_def context_json_def evidence_json_def)
qed

lemma text_or_null_text [simp]: "text_or_null (nullable_text v) = v"
  by (cases v) (simp_all add: nullable_text_def)

lemma change_rebuilt:
  assumes "buildPlanChangeRequestSnapshot i = Inr s"
  shows "validatePlanChangeRequestSnapshot s (change_expectation i) = Inr s \<and>
    planChangeContextFromSnapshot s =
      Inr ((pi_context i)\<lparr>x_pendingExpiresAt := None, x_recoveryUrl := None, x_clientSecret := None\<rparr>)"
proof -
  let ?c = "pi_context i"
  from assms obtain params where params: "(if pi_immediate i then immediate_params i else schedule_params i) = Inr params"
    and v: "validatePlanChangeRequestSnapshot (change_snapshot i
        (context_json ?c (x_currentPeriodStart ?c) (x_currentPeriodEnd ?c))
        (evidence_json i (pi_sourceUnitAmount i) (pi_targetUnitAmount i)) params) no_change_expectation = Inr s"
    (is "validatePlanChangeRequestSnapshot ?v _ = _")
    by (auto simp: buildPlanChangeRequestSnapshot_def bind_result_Inr_iff bigintNumber_Inr bigintAmount_Inr)
  note clone = clone_parsed [OF change_parsed [OF params]]
  from v [unfolded validatePlanChangeRequestSnapshot_def clone bind_result_Inr_iff]
  obtain r where r: "changeContents no_change_expectation ?v = Inr r" and s: "s = ?v" by blast
  obtain atOnce policy cx key where "r = (atOnce, policy, cx, key)" by (cases r)
  with r have c: "changeContents no_change_expectation ?v = Inr (atOnce, policy, cx, key)" by (simp only:)
  note f = c [unfolded changeContents_iff]
  from changeContents_fields [OF c]
  have "atOnce = pi_immediate i" and "policy = pi_policy i" "key = pi_idempotencyKey i"
    by (auto simp: change_snapshot_def prop_get_def policy_text_def split: if_splits TransitionPolicy.splits)
  moreover have "cx_subscription cx = x_subscriptionId ?c"
    using changeContext_facts [of "jprop ?v ''context''" cx] f by (simp add: change_snapshot_def context_json_def prop_get_def)
  ultimately have "changeExpectations (change_expectation i) key cx atOnce policy = Inr ()"
    by (simp add: changeExpectations_def change_expectation_def differs_def)
  with f have "changeContents (change_expectation i) ?v = Inr (atOnce, policy, cx, key)" unfolding changeContents_iff by simp
  then have accepted: "validatePlanChangeRequestSnapshot s (change_expectation i) = Inr s"
    by (simp add: validatePlanChangeRequestSnapshot_def s clone)
  have "jprop s ''context'' = context_json ?c (x_currentPeriodStart ?c) (x_currentPeriodEnd ?c)"
    by (simp add: s change_snapshot_def prop_get_def)
  moreover have "validatePlanChangeRequestSnapshot s no_change_expectation = Inr s" using v unfolding s .
  ultimately have "planChangeContextFromSnapshot s =
      Inr (?c\<lparr>x_pendingExpiresAt := None, x_recoveryUrl := None, x_clientSecret := None\<rparr>)"
    by (cases ?c; cases "x_targetInterval ?c")
      (simp_all add: planChangeContextFromSnapshot_def context_json_def prop_get_def Let_def interval_text_def)
  with accepted show ?thesis by blast
qed

text \<open>
  C39: a plan-change snapshot that was built is accepted again, unchanged, for its key, subscription, timing
  and policy, and the context read back from it is the context it was built from, without the recovery link
  and the client secret, which are never stored.
\<close>

theorem plan_change_roundtrip:
  assumes "buildPlanChangeRequestSnapshot i = Inr s"
  shows "validatePlanChangeRequestSnapshot s (change_expectation i) = Inr s \<and>
    planChangeContextFromSnapshot s =
      Inr ((pi_context i)\<lparr>x_pendingExpiresAt := None, x_recoveryUrl := None, x_clientSecret := None\<rparr>)"
  using assms by (rule change_rebuilt)

text \<open>
  C40: no text and no field name of an accepted snapshot, at any depth, contains the marker of a Stripe secret.
\<close>

theorem accepted_snapshot_no_secret:
  assumes "validateCheckoutRequestSnapshot parseUrl v x = Inr r \<or> validatePlanChangeRequestSnapshot v y = Inr r"
  shows "list_all (\<lambda>s. \<not> shows_secret s) (texts r)"
proof -
  from assms have "safeJson v = Inr ()" "r = cloneJson v"
    by (auto simp: validateCheckoutRequestSnapshot_def validatePlanChangeRequestSnapshot_def bind_result_Inr_iff
        changeContents_iff dest!: checkoutContents_facts)
  with safe_texts show ?thesis by blast
qed

section \<open>Snapshots to evaluate\<close>

definition sample_parser :: url_parser where
  "sample_parser s =
     (if starts_with ''https://app.example/'' s
      then Some \<lparr>url_protocol = ''https:'', url_host = ''app.example'', url_username = [], url_password = []\<rparr> else None)"

definition sample_checkout :: SubscriptionCheckoutInput where
  "sample_checkout =
     \<lparr>sc_accountId = ''acct'', sc_claimToken = ''t1'', sc_customerId = Some ''cus_1'', sc_priceId = ''price_1'',
      sc_lookupKey = ''billing_pro_month'', sc_currency = ''usd'', sc_unitAmount = 4900, sc_interval = Month,
      sc_planKey = ''pro'', sc_productLine = ''line'', sc_successUrl = ''https://app.example/ok'',
      sc_cancelUrl = ''https://app.example/no'', sc_expiresAt = 2100, sc_requestApiVersion = ''v1''\<rparr>"

text \<open>Every marker of a secret contains one of two pairs of characters.\<close>

fun marker_pair :: "string \<Rightarrow> bool" where
  "marker_pair (c # d # s) = ((d = CHR ''_'' \<and> (c = CHR ''k'' \<or> c = CHR ''c'')) \<or> marker_pair (d # s))"
| "marker_pair _ = False"

lemma marker_pair_middle: "c = CHR ''k'' \<or> c = CHR ''c'' \<Longrightarrow> marker_pair (a @ c # CHR ''_'' # b)"
proof (induction a)
  case (Cons x a)
  then show ?case by (cases a) auto
qed auto

lemma shows_secret_pair: "shows_secret s \<Longrightarrow> marker_pair s"
proof -
  assume "shows_secret s"
  then obtain m a b where m: "m \<in> set SECRET_MARKERS" and s: "s = a @ m @ b"
    by (auto simp: shows_secret_def list_ex_iff includes_iff)
  from m have "\<exists>x c y. (c = CHR ''k'' \<or> c = CHR ''c'') \<and> m = x @ c # CHR ''_'' # y"
  proof -
    have "''sk_test_'' = ''s'' @ CHR ''k'' # CHR ''_'' # ''test_''" "''sk_live_'' = ''s'' @ CHR ''k'' # CHR ''_'' # ''live_''"
      "''rk_test_'' = ''r'' @ CHR ''k'' # CHR ''_'' # ''test_''" "''rk_live_'' = ''r'' @ CHR ''k'' # CHR ''_'' # ''live_''"
      "''whsec_'' = ''whse'' @ CHR ''c'' # CHR ''_'' # []" by simp_all
    with m show ?thesis unfolding SECRET_MARKERS_def list.set by blast
  qed
  then obtain x c y where c: "c = CHR ''k'' \<or> c = CHR ''c''" and "m = x @ c # CHR ''_'' # y" by blast
  with marker_pair_middle [OF c, of "a @ x" "y @ b"] show ?thesis by (simp add: s)
qed

lemma byteLength_le: "byteLength s \<le> 2 * length s"
  by (induction s) (simp_all add: byteLength_def)

lemma safeJson_short:
  assumes "case stringify v of Inr (Some t) \<Rightarrow> \<not> marker_pair t \<and> length t \<le> 16384 | _ \<Rightarrow> False"
  shows "safeJson v = Inr ()"
proof -
  from assms obtain t where t: "stringify v = Inr (Some t)" "\<not> marker_pair t" "length t \<le> 16384"
    by (auto split: sum.splits option.splits)
  with byteLength_le [of t] shows_secret_pair [of t] show ?thesis by (auto simp: safeJson_def)
qed

lemma char_numerals:
  "char_of (34::nat) = CHR 0x22" "char_of (48::nat) = CHR ''0''" "char_of (49::nat) = CHR ''1''" "char_of (50::nat) = CHR ''2''"
  "char_of (51::nat) = CHR ''3''" "char_of (52::nat) = CHR ''4''" "char_of (53::nat) = CHR ''5''" "char_of (54::nat) = CHR ''6''"
  "char_of (55::nat) = CHR ''7''" "char_of (56::nat) = CHR ''8''" "char_of (57::nat) = CHR ''9''"
  by (simp_all add: char_of_def bit_iff_odd)

lemma sample_checkout_safe: "safeJson (subscription_snapshot sample_checkout 2100 4900) = Inr ()"
  by (rule safeJson_short)
    (simp add: subscription_snapshot_def sample_checkout_def subscription_params_def Let_def subscriptionMetadataOf_def line_item_def
      customer_mode_text_def interval_text_def CHECKOUT_SNAPSHOT_SCHEMA_def CHECKOUT_SNAPSHOT_VERSION_def
      all_texts_def field_texts_def List.map_filter_def json_string_def escape_char_def code_def show_int_def show_nat.simps digit_char_def char_numerals)


lemma sample_checkout_contents:
  "is_ok (checkoutContents sample_parser (subscription_snapshot sample_checkout 2100 4900))"
  unfolding checkoutContents_def sample_checkout_safe bind_result.simps
  by (simp add: subscription_snapshot_def sample_checkout_def subscription_params_def Let_def subscriptionMetadataOf_def line_item_def
      customer_mode_text_def interval_text_def CHECKOUT_SNAPSHOT_SCHEMA_def CHECKOUT_SNAPSHOT_VERSION_def
      exactRecord_def CHECKOUT_FIELDS_def checkoutKind_def textValue_def customerExists_def priceEvidence_def PRICE_FIELDS_def
      snapshotStripeId_def currencyText_def stripeAmount_def boundedInteger_def checkoutParams_def paramKeys_def dataBranch_def
      checkoutCustomer_def httpUrl_def sample_parser_def stripeTimestamp_def subscriptionIdentity_def jsonEqual_object jsonEqual_list
      visible_text_def isPrintable_def shows_secret_def SECRET_MARKERS_def MAX_STRIPE_AMOUNT_def MAX_STRIPE_TIMESTAMP_def eval_simps
      jsonEqual_refl same_keys_def set_eq_subset)

lemma no_expectation_ok [simp]: "checkExpectations no_expectation kind existing e p identity = Inr ()"
  by (simp add: checkExpectations_def no_expectation_def opt_result_def checkoutComparisons_def differs_def customerRefusal_def
      packRefusal_def)

lemma sample_checkout_built:
  "buildSubscriptionCheckoutRequestSnapshot sample_parser sample_checkout = Inr (subscription_snapshot sample_checkout 2100 4900)"
proof -
  from sample_checkout_contents obtain r where
    "checkoutContents sample_parser (subscription_snapshot sample_checkout 2100 4900) = Inr r"
    by (cases "checkoutContents sample_parser (subscription_snapshot sample_checkout 2100 4900)") auto
  moreover have "sc_expiresAt sample_checkout = 2100" "sc_unitAmount sample_checkout = 4900" by (simp_all add: sample_checkout_def)
  ultimately show ?thesis
    by (simp add: buildSubscriptionCheckoutRequestSnapshot_def bigintNumber_def bigintAmount_def js_max_safe_integer_def
        MAX_STRIPE_AMOUNT_def validateCheckoutRequestSnapshot_def clone_parsed [OF parsed_subscription] split: prod.splits)
qed

lemma built_checkout_accepted_witness:
  "validateCheckoutRequestSnapshot sample_parser (subscription_snapshot sample_checkout 2100 4900)
     (subscription_expectation sample_checkout) = Inr (subscription_snapshot sample_checkout 2100 4900)"
  using built_checkout_accepted sample_checkout_built by blast

lemma sample_checkout_again:
  "validateCheckoutRequestSnapshot sample_parser (subscription_snapshot sample_checkout 2100 4900)
     (subscription_expectation sample_checkout) = Inr (subscription_snapshot sample_checkout 2100 4900)"
  by (rule subscription_rebuilt [OF sample_checkout_built])

lemma accepted_checkout_is_built_witness:
  "\<exists>i. jsonEqual (subscription_snapshot sample_checkout 2100 4900) (subscription_snapshot i (sc_expiresAt i) (sc_unitAmount i)) \<and>
     agrees (subscription_expectation sample_checkout) (subscription_expectation i)"
  using accepted_checkout_is_built [OF sample_checkout_again] by (simp add: subscription_expectation_def)

lemma accepted_snapshot_no_secret_witness:
  "list_all (\<lambda>s. \<not> shows_secret s) (texts (subscription_snapshot sample_checkout 2100 4900))"
  using accepted_snapshot_no_secret sample_checkout_again by blast

definition sample_context :: PlanChangeContext where
  "sample_context =
     \<lparr>x_subscriptionId = ''sub_1'', x_subscriptionItemId = ''si_1'', x_currentPriceId = ''price_1'',
      x_currentLookupKey = ''a_m'', x_targetPriceId = ''price_2'', x_targetInterval = Month, x_currentPeriodStart = 10,
      x_currentPeriodEnd = 20, x_scheduleId = None, x_subscriptionStatus = ''active'', x_cancelAtPeriodEnd = False,
      x_pendingUpdate = False, x_pendingExpiresAt = Some 15, x_recoveryUrl = Some ''https://x/y'',
      x_clientSecret = Some ''pi_1_secret_2''\<rparr>"

definition sample_change :: PlanChangeSnapshotInput where
  "sample_change =
     \<lparr>pi_context = sample_context, pi_immediate = True, pi_policy = prorated_delta, pi_prorationDate = Some 12,
      pi_idempotencyKey = ''plan-change:c1:apply'', pi_requestApiVersion = ''v1'', pi_productLine = ''line'',
      pi_sourceLookupKey = ''a_m'', pi_targetLookupKey = ''b_m'', pi_sourcePlanKey = ''a'', pi_targetPlanKey = ''b'',
      pi_sourceCurrency = ''usd'', pi_targetCurrency = ''usd'', pi_sourceUnitAmount = 19, pi_targetUnitAmount = 49\<rparr>"

definition sample_change_snapshot :: jsval where
  "sample_change_snapshot =
     change_snapshot sample_change (context_json sample_context 10 20) (evidence_json sample_change 19 49)
       (JObj True [(''items'', JArr [JObj True [(''id'', JStr ''si_1''), (''price'', JStr ''price_2'')]]),
          (''proration_behavior'', JStr ''always_invoice''), (''proration_date'', JInt 12),
          (''payment_behavior'', JStr ''pending_if_incomplete''), (''expand'', JArr [JStr ''latest_invoice.confirmation_secret''])])"

lemma sample_change_safe: "safeJson sample_change_snapshot = Inr ()"
  by (rule safeJson_short)
    (simp add: sample_change_snapshot_def change_snapshot_def context_json_def evidence_json_def sample_change_def sample_context_def
      interval_text_def policy_text_def PLAN_CHANGE_SNAPSHOT_SCHEMA_def PLAN_CHANGE_SNAPSHOT_VERSION_def nullable_text_def
      all_texts_def field_texts_def List.map_filter_def json_string_def escape_char_def code_def show_int_def show_nat.simps digit_char_def
      char_numerals)

lemma sample_change_contents: "is_ok (changeContents no_change_expectation sample_change_snapshot)"
  unfolding changeContents_def sample_change_safe bind_result.simps
  by (simp add: sample_change_snapshot_def change_snapshot_def context_json_def evidence_json_def sample_change_def sample_context_def
      interval_text_def policy_text_def PLAN_CHANGE_SNAPSHOT_SCHEMA_def PLAN_CHANGE_SNAPSHOT_VERSION_def nullable_text_def
      exactRecord_def CHANGE_FIELDS_def CONTEXT_FIELDS_def EVIDENCE_FIELDS_def changeKind_def textValue_def policyOf_def intervalOf_def
      snapshotStripeId_def currencyText_def stripeAmount_def boundedInteger_def stripeTimestamp_def changeContext_def changeEvidence_def
      changeExpectations_def no_change_expectation_def differs_def immediateParams_def immediateKeys_def
      visible_text_def isPrintable_def shows_secret_def SECRET_MARKERS_def MAX_STRIPE_AMOUNT_def MAX_STRIPE_TIMESTAMP_def eval_simps
      jsonEqual_refl same_keys_def set_eq_subset)

lemma sample_change_built: "buildPlanChangeRequestSnapshot sample_change = Inr sample_change_snapshot"
proof -
  have params: "immediate_params sample_change = Inr (jprop sample_change_snapshot ''params'')"
    by (simp add: immediate_params_def sample_change_def sample_context_def bigintNumber_def js_max_safe_integer_def
        sample_change_snapshot_def change_snapshot_def prop_get_def)
  have snapshot: "change_snapshot sample_change (context_json sample_context 10 20) (evidence_json sample_change 19 49)
      (jprop sample_change_snapshot ''params'') = sample_change_snapshot"
    by (simp add: sample_change_snapshot_def change_snapshot_def prop_get_def)
  have "parsed sample_change_snapshot"
    by (simp add: sample_change_snapshot_def change_snapshot_def context_json_def evidence_json_def nullable_text_def sample_context_def)
  moreover obtain r where "changeContents no_change_expectation sample_change_snapshot = Inr r"
    using sample_change_contents by (cases "changeContents no_change_expectation sample_change_snapshot") auto
  ultimately have valid: "validatePlanChangeRequestSnapshot sample_change_snapshot no_change_expectation = Inr sample_change_snapshot"
    by (simp add: validatePlanChangeRequestSnapshot_def clone_parsed)
  have inputs: "pi_immediate sample_change" "pi_context sample_change = sample_context" "x_currentPeriodStart sample_context = 10"
    "x_currentPeriodEnd sample_context = 20" "pi_sourceUnitAmount sample_change = 19" "pi_targetUnitAmount sample_change = 49"
    by (simp_all add: sample_change_def sample_context_def)
  show ?thesis
    by (simp add: buildPlanChangeRequestSnapshot_def params inputs bigintNumber_def bigintAmount_def js_max_safe_integer_def
        MAX_STRIPE_AMOUNT_def snapshot valid)
qed

lemma plan_change_roundtrip_witness:
  "planChangeContextFromSnapshot sample_change_snapshot =
     Inr (sample_context\<lparr>x_pendingExpiresAt := None, x_recoveryUrl := None, x_clientSecret := None\<rparr>)"
  using plan_change_roundtrip [OF sample_change_built] by (simp add: sample_change_def)

end
