(* ===== verification/Request_Properties.thy ===== *)
theory Request_Properties
  imports Request_History Snapshot_Properties
begin

text \<open>
  What the coordinators send to Stripe. A procedure is followed through its statements (\<open>after\<close>, \<open>sent_by\<close>):
  what it sends is the request that is frozen in the row of its plan change or Checkout claim, and by the
  invariant of \<open>Request_History\<close> it stays the same in every later run.
\<close>

section \<open>Frozen requests\<close>

text \<open>
  C5: what is frozen for Stripe never changes. In every history of all workers, webhook events and product
  operations, whatever their arguments, order and repetition, each plan change and each order keeps whose
  intent it is and what it is for, and from the moment its request is frozen that very request; a plan change
  keeps the instant its mutation was first sent; and a claim that is still there has the request that was
  frozen in it.
\<close>

theorem frozen_requests_kept:
  assumes "worker_step\<^sup>*\<^sup>* (used, b) (used', b')" "billing_consistent b" "cc_token ` set (checkout_claims b) \<subseteq> used"
  shows "(\<forall>c \<in> set (plan_changes b). \<exists>c' \<in> set (plan_changes b'). kept_change c c') \<and>
    (\<forall>po \<in> set (orders (core b)). \<exists>po' \<in> set (orders (core b')). kept_order po po') \<and>
    (\<forall>k \<in> set (checkout_claims b). \<forall>k' \<in> set (checkout_claims b'). cc_token k' = cc_token k \<longrightarrow> kept_claim k k')"
proof -
  have "keeping (plan_changes b) (orders (core b)) (checkout_claims b) used b"
    using assms(2,3) by (intro keeping_start) (auto simp: billing_consistent_def billing_keys_ok_def)
  from keeping_history [OF assms(1), unfolded fst_conv snd_conv, OF this] show ?thesis by (simp add: keeping_def)
qed

section \<open>Procedures\<close>

definition after :: "'a proc \<Rightarrow> billing \<Rightarrow> billing" where
  "after m b = fst (snd (m b))"

definition sent_by :: "'a proc \<Rightarrow> billing \<Rightarrow> jsval list" where
  "sent_by m b = snd (snd (m b))"

lemma proc_pieces: "m b = (r, b', sent) \<longleftrightarrow> fst (m b) = r \<and> after m b = b' \<and> sent_by m b = sent"
  by (auto simp: after_def sent_by_def prod_eq_iff)

lemma sent_bind:
  "sent_by (bind_proc m f) b = sent_by m b @ (case fst (m b) of Inl _ \<Rightarrow> [] | Inr y \<Rightarrow> sent_by (f y) (after m b))"
  by (simp add: bind_proc_def after_def sent_by_def split: prod.splits sum.splits)

lemma after_bind:
  "after (bind_proc m f) b = (case fst (m b) of Inl _ \<Rightarrow> after m b | Inr y \<Rightarrow> after (f y) (after m b))"
  by (simp add: bind_proc_def after_def split: prod.splits sum.splits)

text \<open>Procedures that send nothing, and procedures whose statements keep a predicate.\<close>

definition silent :: "'a proc \<Rightarrow> bool" where
  "silent m \<longleftrightarrow> (\<forall>b. sent_by m b = [])"

definition upholds :: "(billing \<Rightarrow> bool) \<Rightarrow> 'a proc \<Rightarrow> bool" where
  "upholds P m \<longleftrightarrow> (\<forall>b. P b \<longrightarrow> P (after m b))"

named_theorems proc_rules

lemma silent_steps [proc_rules]:
  "silent (give r)" "silent (statement m)" "silent (peek f)"
  by (simp_all add: silent_def sent_by_def give_def statement_def peek_def split: prod.splits)

lemma silent_bind [proc_rules]: "silent m \<Longrightarrow> (\<And>x. silent (f x)) \<Longrightarrow> silent (bind_proc m f)"
  by (simp add: silent_def sent_bind split: sum.splits)

lemma upholds_steps [proc_rules]:
  "upholds P (give r)" "upholds P (peek f)" "upholds P (send remote v)" "keeps P n \<Longrightarrow> upholds P (statement n)"
  by (auto simp: upholds_def after_def give_def peek_def send_def statement_def billing_transaction_def keeps_def
      split: prod.splits sum.splits)

lemma upholds_bind [proc_rules]: "upholds P m \<Longrightarrow> (\<And>x. upholds P (f x)) \<Longrightarrow> upholds P (bind_proc m f)"
  by (simp add: upholds_def after_bind split: sum.splits)


lemma proc_cases [proc_rules]:
  "silent m \<Longrightarrow> silent n \<Longrightarrow> silent (if c then m else n)"
  "silent m \<Longrightarrow> (\<And>x. silent (f x)) \<Longrightarrow> silent (case v of None \<Rightarrow> m | Some x \<Rightarrow> f x)"
  "(\<And>x y. silent (g x y)) \<Longrightarrow> silent (case p of (x, y) \<Rightarrow> g x y)"
  "upholds P m \<Longrightarrow> upholds P n \<Longrightarrow> upholds P (if c then m else n)"
  "upholds P m \<Longrightarrow> (\<And>x. upholds P (f x)) \<Longrightarrow> upholds P (case v of None \<Rightarrow> m | Some x \<Rightarrow> f x)"
  "(\<And>x y. upholds P (g x y)) \<Longrightarrow> upholds P (case p of (x, y) \<Rightarrow> g x y)"
  "(\<And>e. upholds P (h e)) \<Longrightarrow> (\<And>y. upholds P (k y)) \<Longrightarrow> upholds P (case q of Inl e \<Rightarrow> h e | Inr y \<Rightarrow> k y)"
  by (cases v; cases p; cases q; simp)+

lemma silent_then: "silent m \<Longrightarrow> sent_by (bind_proc m f) b = (case fst (m b) of Inl _ \<Rightarrow> [] | Inr y \<Rightarrow> sent_by (f y) (after m b))"
  by (simp add: sent_bind silent_def)

lemma sent_silent: "silent m \<Longrightarrow> sent_by m b = []"
  by (simp add: silent_def)

lemma fst_bind: "fst (bind_proc m f b) = (case fst (m b) of Inl e \<Rightarrow> Inl e | Inr y \<Rightarrow> fst (f y (after m b)))"
  by (simp add: bind_proc_def after_def split: prod.splits sum.splits)

text \<open>The statements of a procedure commit, so a database that satisfied the schema still does.\<close>

lemma commit_result:
  assumes "fst (statement m b) = Inr x"
  shows "m b = Inr (x, after (statement m) b)" "billing_consistent (after (statement m) b)"
  using assms by (auto simp: statement_def after_def billing_transaction_def split: prod.splits sum.splits if_splits)

lemma stays_consistent: "upholds billing_consistent (statement m)"
  by (auto simp: upholds_def after_def statement_def billing_transaction_def split: prod.splits sum.splits)

definition sound :: "plan_change list \<Rightarrow> pack_order list \<Rightarrow> checkout_claim list \<Rightarrow> billing \<Rightarrow> bool" where
  "sound cs os ks b \<longleftrightarrow> keeping cs os ks UNIV b \<and> billing_consistent b"

lemma sound_statement [proc_rules]: "keeps (keeping cs os ks UNIV) m \<Longrightarrow> upholds (sound cs os ks) (statement m)"
  using stays_consistent [of m] upholds_steps(4) [of "keeping cs os ks UNIV" m] by (simp add: upholds_def sound_def)

lemma sound_start: "billing_consistent b \<Longrightarrow> sound (plan_changes b) (orders (core b)) (checkout_claims b) b"
  by (auto simp: sound_def billing_consistent_def billing_keys_ok_def intro: keeping_start)

lemma after_failure: "after (on_failure k token m) b =
    (case fst (m b) of Inl e \<Rightarrow> after (statement (releaseAfterError k token (errorName e))) (after m b) | Inr x \<Rightarrow> after m b)"
  by (simp add: on_failure_def after_def bind_proc_def give_def split: prod.splits sum.splits)

lemma sent_failure [simp]: "sent_by (on_failure k token m) b = sent_by m b"
proof -
  have "snd (snd (statement n c)) = []" for n :: "bool btx" and c
    using silent_steps(2) [of n] by (simp add: silent_def sent_by_def)
  then show ?thesis
    by (auto simp: on_failure_def sent_by_def bind_proc_def give_def split: prod.splits sum.splits) (metis snd_conv)+
qed

lemma sound_failure [proc_rules]:
  assumes "upholds (sound cs os ks) m" shows "upholds (sound cs os ks) (on_failure k token m)"
  using assms sound_statement [OF keeping_statements(9)] by (auto simp: upholds_def after_failure split: sum.splits)

section \<open>Confirming a plan change\<close>

lemma change_silent [proc_rules]:
  "silent (assertAccountSnapshot c)" "silent (revalidateBeforeRemote cfg c x lookup)"
  "silent (verifyBeforeRemoteStart cfg g c v)" "silent (finish k token outcome)"
  unfolding assertAccountSnapshot_def revalidateBeforeRemote_def verifyBeforeRemoteStart_def finish_def Let_def
  by (intro proc_rules)+

lemma change_sound [proc_rules]:
  "upholds (sound cs os ks) (assertAccountSnapshot c)" "upholds (sound cs os ks) (revalidateBeforeRemote cfg c x lookup)"
  "upholds (sound cs os ks) (verifyBeforeRemoteStart cfg g c v)" "upholds (sound cs os ks) (finish k token outcome)"
  unfolding assertAccountSnapshot_def revalidateBeforeRemote_def verifyBeforeRemoteStart_def finish_def Let_def
  by (intro proc_rules keeping_checked keeping_finished)+

lemma find_change_member: "find_change b k = Some c \<Longrightarrow> c \<in> set (plan_changes b) \<and> pc_id c = k"
  by (auto simp: find_change_def find_Some_iff)

lemma change_id_unique:
  "billing_consistent b \<Longrightarrow> c \<in> set (plan_changes b) \<Longrightarrow> d \<in> set (plan_changes b) \<Longrightarrow> pc_id c = pc_id d \<Longrightarrow> c = d"
  by (auto simp: billing_consistent_def billing_keys_ok_def distinct_map dest: inj_onD)

text \<open>The rest of a change in a database that keeps it.\<close>

lemma sound_change:
  assumes "sound cs os ks b" "c \<in> set cs" "d \<in> set (plan_changes b)" "pc_id d = pc_id c"
  shows "kept_change c d"
proof -
  obtain c' where c': "c' \<in> set (plan_changes b)" "kept_change c c'" using assms by (auto simp: sound_def keeping_def)
  moreover have "c' = d" using assms c' by (intro change_id_unique [of b]) (auto simp: sound_def kept_change_def)
  ultimately show ?thesis by simp
qed

lemma update_change_result:
  assumes "update_change k Q f b = Inr (Some c, b')"
  shows "c \<in> set (plan_changes b')" "pc_id c = k" "b' = b\<lparr>plan_changes := update_rows (\<lambda>c. pc_id c = k \<and> Q c) f (plan_changes b)\<rparr>"
    "list_ex (\<lambda>c. pc_id c = k \<and> Q c) (plan_changes b)"
  using assms find_change_member [of b' k c]
  by (auto simp: update_change_def update_changes_def bind_tx_Inr_iff split: if_splits)

lemma updated_row:
  assumes u: "update_change k Q f b = Inr (Some c, b')" and b': "billing_consistent b'" and f: "\<And>d. pc_id (f d) = pc_id d"
  obtains d where "d \<in> set (plan_changes b)" "pc_id d = k" "Q d" "c = f d"
proof -
  note r = update_change_result [OF u]
  from r(4) obtain d where d: "d \<in> set (plan_changes b)" "pc_id d = k" "Q d" by (auto simp: list_ex_iff)
  then have "f d \<in> set (plan_changes b')" by (auto simp: r(3) update_rows_def)
  then have "c = f d" using r(1,2) d(2) f b' by (intro change_id_unique [of b']) auto
  with d show ?thesis by (rule that)
qed

lemma marked_row:
  assumes "fst (statement (markRemoteStarted k token now) b) = Inr c"
  shows "c \<in> set (plan_changes (after (statement (markRemoteStarted k token now)) b))" "pc_id c = k"
    "pc_remote_started c \<noteq> None"
proof -
  note run = commit_result [OF assms]
  then have u: "update_change k (\<lambda>c. pc_status c = Applying \<and> pc_lease c = Some token)
      (\<lambda>c. c\<lparr>pc_remote_started := coalesce (pc_remote_started c) (Some now)\<rparr>) b =
      Inr (Some c, after (statement (markRemoteStarted k token now)) b)"
    by (auto simp: markRemoteStarted_def bind_tx_Inr_iff split: option.splits)
  from update_change_result [OF u]
  show "c \<in> set (plan_changes (after (statement (markRemoteStarted k token now)) b))" "pc_id c = k" by simp_all
  show "pc_remote_started c \<noteq> None"
    by (rule updated_row [OF u run(2)]) (auto simp: coalesce_def split: option.splits)
qed

lemma silent_step:
  assumes "x \<in> set (sent_by (bind_proc m f) b)" "silent m"
  obtains y where "fst (m b) = Inr y" "sent_by (bind_proc m f) b = sent_by (f y) (after m b)"
    "after (bind_proc m f) b = after (f y) (after m b)" "x \<in> set (sent_by (f y) (after m b))"
  using assms by (cases "fst (m b)") (simp_all add: silent_then after_bind)

lemma send_pieces [simp]:
  "fst (send remote v b) = remote v" "sent_by (send remote v) b = [v]" "after (send remote v) b = b"
  "fst (give r b) = r" "after (give r) b = b" "sent_by (give r) b = []"
  by (simp_all add: send_def sent_by_def after_def give_def)

text \<open>A procedure that sends one request and nothing after it.\<close>

lemma send_once: "(\<And>y. silent (f y)) \<Longrightarrow> sent_by (bind_proc (send remote v) f) b = [v]"
  by (simp add: sent_bind silent_def split: sum.splits)

lemma sound_row: "billing_consistent b \<Longrightarrow> c \<in> set (plan_changes b) \<Longrightarrow> sound [c] [] [] b"
  by (auto simp: sound_def keeping_def intro: kept_refl)

lemma leased_confirm_sends:
  assumes x: "x \<in> set (sent_by (leased_confirm cfg g row token n1 n2) b)" and b: "billing_consistent b"
    and row: "row \<in> set (plan_changes b)"
  shows "sent_by (leased_confirm cfg g row token n1 n2) b = [x] \<and> validatedChangeSnapshot row = Inr x \<and>
    pc_snapshot_version row = Some 1 \<and> assertRemoteRetryWindow row n1 = Inr () \<and>
    billing_consistent (after (leased_confirm cfg g row token n1 n2) b) \<and>
    (\<exists>c \<in> set (plan_changes (after (leased_confirm cfg g row token n1 n2) b)). kept_change row c \<and> pc_remote_started c \<noteq> None)"
proof -
  have version: "pc_snapshot_version row = Some 1"
  proof (rule ccontr)
    assume "pc_snapshot_version row \<noteq> Some 1"
    with x show False by (auto simp: leased_confirm_def Let_def elim!: silent_step intro: proc_rules)
  qed
  define verify where "verify = (\<lambda>v. if pc_remote_started row = None then verifyBeforeRemoteStart cfg g row v else give (Inr ()))"
  define rest where "rest = (\<lambda>v x (marked :: plan_change).
        bind_proc (send (mutate g) v) (\<lambda>remote.
        bind_proc (assertAccountSnapshot marked) (\<lambda>_.
        bind_proc (finish (pc_id marked) token (outcome_of (decisionFromRow row) x remote)) (\<lambda>final.
        if pc_status final = FailedChange
        then give (Inl (PlanChangeUnavailableError ''the settlement Invoice could not fund the target entitlement''))
        else give (Inr (resultFromRow final (decisionFromRow row) False (rm_clientSecret remote)))))))"
  have unfolded: "leased_confirm cfg g row token n1 n2 =
      bind_proc (give (validatedChangeSnapshot row)) (\<lambda>v.
      bind_proc (give (planChangeContextFromSnapshot v)) (\<lambda>x.
      bind_proc (give (assertRemoteRetryWindow row n1)) (\<lambda>_.
      bind_proc (verify v) (\<lambda>_.
      bind_proc (assertAccountSnapshot row) (\<lambda>_.
      bind_proc (statement (markRemoteStarted (pc_id row) token n2)) (rest v x))))))"
    by (simp add: leased_confirm_def Let_def version rest_def verify_def)
  have verify: "silent (verify v)" "upholds (sound cs os ks) (verify v)" for v cs os ks
    unfolding verify_def by (intro proc_rules)+
  obtain v where 1: "validatedChangeSnapshot row = Inr v" using x unfolded by (auto elim!: silent_step intro: proc_rules)
  obtain cx where 2: "planChangeContextFromSnapshot v = Inr cx"
    using x unfolded 1 by (cases "planChangeContextFromSnapshot v") (auto simp: sent_bind)
  have 3: "assertRemoteRetryWindow row n1 = Inr ()"
    using x unfolded 1 2 by (cases "assertRemoteRetryWindow row n1") (auto simp: sent_bind)
  define steps where "steps = bind_proc (verify v) (\<lambda>_. bind_proc (assertAccountSnapshot row) (\<lambda>_.
      bind_proc (statement (markRemoteStarted (pc_id row) token n2)) (rest v cx)))"
  have run: "sent_by (leased_confirm cfg g row token n1 n2) b = sent_by steps b"
    "after (leased_confirm cfg g row token n1 n2) b = after steps b"
    by (simp_all add: unfolded sent_bind after_bind 1 2 3 steps_def)
  from x have "x \<in> set (sent_by steps b)" by (simp add: run)
  then obtain y1 where s1: "sent_by steps b = sent_by (bind_proc (assertAccountSnapshot row) (\<lambda>_.
        bind_proc (statement (markRemoteStarted (pc_id row) token n2)) (rest v cx))) (after (verify v) b)"
      "after steps b = after (bind_proc (assertAccountSnapshot row) (\<lambda>_.
        bind_proc (statement (markRemoteStarted (pc_id row) token n2)) (rest v cx))) (after (verify v) b)"
    unfolding steps_def by (rule silent_step [OF _ verify(1)])
  let ?b1 = "after (verify v) b"
  let ?b2 = "after (assertAccountSnapshot row) ?b1"
  let ?mark = "statement (markRemoteStarted (pc_id row) token n2)"
  from x run s1 have "x \<in> set (sent_by (bind_proc (assertAccountSnapshot row) (\<lambda>_. bind_proc ?mark (rest v cx))) ?b1)" by simp
  then obtain y2 where s2: "sent_by steps b = sent_by (bind_proc ?mark (rest v cx)) ?b2"
      "after steps b = after (bind_proc ?mark (rest v cx)) ?b2"
    unfolding s1 by (rule silent_step [OF _ change_silent(1)])
  from x run s2 have "x \<in> set (sent_by (bind_proc ?mark (rest v cx)) ?b2)" by simp
  then obtain marked where m: "fst (?mark ?b2) = Inr marked" and s3: "sent_by steps b = sent_by (rest v cx marked) (after ?mark ?b2)"
      "after steps b = after (rest v cx marked) (after ?mark ?b2)"
    unfolding s2 by (rule silent_step [OF _ silent_steps(2)])
  let ?b3 = "after ?mark ?b2"
  have sent: "sent_by steps b = [v]"
    unfolding s3 rest_def by (rule send_once) (intro proc_rules)
  have start: "sound [row] [] [] b" using b row by (rule sound_row)
  then have b3: "sound [row] [] [] ?b3"
    using verify(2) change_sound(1) sound_statement [OF keeping_started] unfolding upholds_def by blast
  note mark = marked_row [OF m]
  have kept: "kept_change row marked" using sound_change [OF b3 _ mark(1)] mark(2) by simp
  have "sound [marked] [] [] ?b3" using b3 mark(1) by (intro sound_row) (simp_all add: sound_def)
  moreover have "upholds (sound [marked] [] []) (rest v cx marked)"
    unfolding rest_def by (intro proc_rules)
  ultimately have final: "sound [marked] [] [] (after steps b)" unfolding s3 upholds_def by blast
  then obtain c where "c \<in> set (plan_changes (after steps b))" "kept_change marked c" by (auto simp: sound_def keeping_def)
  moreover from this mark(3) have "pc_remote_started c \<noteq> None" by (auto simp: kept_change_def)
  moreover have "kept_change row c" using kept \<open>kept_change marked c\<close> by (rule kept_trans)
  moreover have "x = v" using x sent run by simp
  ultimately show ?thesis using sent run version 1 3 final by (auto simp: sound_def)
qed

lemma after_statement: "after (statement m) b = commit m b"
  by (simp add: after_def statement_def commit_def split: prod.splits)

lemma validated_frozen:
  assumes "validatedChangeSnapshot c = Inr x"
  obtains v where "pc_snapshot c = Some v" "x = cloneJson v" "pc_snapshot_version c = Some 1" "isPlainRecord v"
proof -
  from assms have version: "pc_snapshot_version c = Some 1" and plain: "isPlainRecord (stored_snapshot (pc_snapshot c))"
    by (auto simp: validatedChangeSnapshot_def split: if_splits)
  then obtain v where v: "pc_snapshot c = Some v" by (cases "pc_snapshot c") (auto simp: stored_snapshot_def)
  from assms version plain have "x = cloneJson v"
    by (auto simp: validatedChangeSnapshot_def v stored_snapshot_def Let_def validatePlanChangeRequestSnapshot_def
        bind_result_Inr_iff split: if_splits sum.splits error.splits)
  with v version plain show ?thesis by (intro that) (simp_all add: stored_snapshot_def)
qed

lemma validated_kept:
  assumes "kept_change c d" "validatedChangeSnapshot c = Inr x"
  shows "validatedChangeSnapshot d = Inr x"
proof (rule validated_frozen [OF assms(2)])
  fix v assume "pc_snapshot c = Some v" "pc_snapshot_version c = Some 1" "isPlainRecord v"
  with assms(1) have "validatedChangeSnapshot d = validatedChangeSnapshot c"
    by (simp add: kept_change_def validatedChangeSnapshot_def row_expectation_def stored_snapshot_def Let_def cong: sum.case_cong)
  then show ?thesis using assms(2) by simp
qed

lemma confirm_sends:
  assumes run: "confirm cfg g acc k token clock b = (r, b', sent)" and x: "x \<in> set sent"
  shows "sent = [x] \<and> billing_consistent b' \<and>
    (\<exists>c \<in> set (plan_changes b'). pc_id c = k \<and> pc_account c = acc \<and> validatedChangeSnapshot c = Inr x \<and>
       pc_remote_started c \<noteq> None \<and>
       (\<forall>d \<in> set (plan_changes b). pc_id d = k \<longrightarrow> kept_change d c \<and>
          (\<forall>t. pc_remote_started d = Some t \<longrightarrow> clock 1 - t < RETRY_WINDOW)))"
proof -
  let ?p = "confirm cfg g acc k token clock"
  have pieces: "after ?p b = b'" "sent_by ?p b = sent" using run by (simp_all add: proc_pieces)
  define lookup where "lookup = (\<lambda>b :: billing. case find (\<lambda>c. pc_id c = k \<and> pc_account c = acc) (plan_changes b) of
      None \<Rightarrow> Inl (PlanChangeUnavailableError ''plan-change preview not found'') | Some c \<Rightarrow> Inr c)"
  define lease where "lease = statement (acquireConfirmationLease cfg k token (clock 0))"
  have peeked: "fst (peek lookup b) = lookup b" "after (peek lookup) b = b" "sent_by (peek lookup) b = []"
    by (simp_all add: peek_def after_def sent_by_def)
  obtain c0 where c0: "lookup b = Inr c0"
    using x unfolding pieces [symmetric] confirm_def lookup_def [symmetric] by (cases "lookup b") (auto simp: sent_bind peeked)
  then have c0k: "c0 \<in> set (plan_changes b)" "pc_id c0 = k" "pc_account c0 = acc"
    by (auto simp: lookup_def find_Some_iff split: option.splits)
  define quiet where "quiet = (\<lambda>lease. case lease of
         None \<Rightarrow>
           bind_proc (peek (get_change (pc_id c0))) (\<lambda>refreshed.
           bind_proc (statement (expirePreviewIfIdle refreshed (clock 1))) (\<lambda>expired.
           if expired then give (Inl (PlanChangeUnavailableError ''plan-change preview expired; request a new preview''))
           else if pc_status refreshed = FailedChange
           then give (Inl (PlanChangeUnavailableError ''this plan-change intent failed; request a new preview''))
           else give (Inr (resultFromRow refreshed (decisionFromRow c0) True None))))
       | Some leased \<Rightarrow> on_failure (pc_id leased) token (leased_confirm cfg g leased token (clock 1) (clock 2)))"
  have body: "sent_by ?p b = sent_by (bind_proc lease quiet) b \<and> after ?p b = after (bind_proc lease quiet) b"
  proof -
    have "sent_by ?p b \<noteq> []" using x pieces by auto
    then show ?thesis
      by (simp only: confirm_def lookup_def [symmetric] sent_bind [of "peek lookup"] after_bind [of "peek lookup"] peeked c0
          sum.case append_Nil Let_def c0k(2))
        (auto simp: lease_def quiet_def c0k(2) split: if_splits)
  qed
  have lease: "silent lease" unfolding lease_def by (rule silent_steps)
  have "x \<in> set (sent_by (bind_proc lease quiet) b)" using x body pieces by simp
  then obtain found where f: "fst (lease b) = Inr found" and s1: "sent_by (bind_proc lease quiet) b = sent_by (quiet found) (after lease b)"
      "after (bind_proc lease quiet) b = after (quiet found) (after lease b)" "x \<in> set (sent_by (quiet found) (after lease b))"
    by (rule silent_step [OF _ lease])
  let ?b1 = "after lease b"
  have "silent (quiet None)" unfolding quiet_def by (simp, intro proc_rules)
  with s1(3) obtain leased where leased: "found = Some leased" by (cases found) (auto simp: silent_def)
  note commit = commit_result [OF f [unfolded lease_def leased], folded lease_def]
  then have "update_change k (\<lambda>c. pc_status c \<in> {Previewed, Applying} \<and> lease_free (clock 0) c \<and>
      (pc_status c = Applying \<or> preview_alive (clock 0) c)) (\<lambda>c. take_lease cfg token (clock 0) (c\<lparr>pc_status := Applying\<rparr>)) b =
      Inr (Some leased, ?b1)"
    by (simp add: acquireConfirmationLease_def)
  from update_change_result [OF this] have row: "leased \<in> set (plan_changes ?b1)" "pc_id leased = k" by simp_all
  have "keeping (plan_changes b) [] [] UNIV b" by (auto simp: keeping_def intro: kept_refl)
  from commit_keeps [OF keeping_statements(7) this] have "sound (plan_changes b) [] [] ?b1"
    using commit(2) by (simp add: sound_def lease_def after_statement)
  then have kept: "kept_change d leased" if "d \<in> set (plan_changes b)" "pc_id d = k" for d
    using sound_change that row by blast
  have x': "x \<in> set (sent_by (leased_confirm cfg g leased token (clock 1) (clock 2)) ?b1)"
    using s1(3) by (simp add: leased quiet_def)
  note sends = leased_confirm_sends [OF x' commit(2) row(1)]
  let ?final = "after (leased_confirm cfg g leased token (clock 1) (clock 2)) ?b1"
  have b': "b' = after (on_failure k token (leased_confirm cfg g leased token (clock 1) (clock 2))) ?b1"
    using pieces(1) body s1(2) row(2) by (simp add: leased quiet_def)
  from sends obtain c where c: "c \<in> set (plan_changes ?final)" "kept_change leased c" "pc_remote_started c \<noteq> None"
    and ok: "billing_consistent ?final" by blast
  have "sound [c] [] [] b'"
    using sound_row [OF ok c(1)] sound_statement [OF keeping_statements(9)]
    unfolding b' after_failure upholds_def by (auto split: sum.splits)
  then obtain c' where c': "c' \<in> set (plan_changes b')" "kept_change c c'" and ok': "billing_consistent b'"
    by (auto simp: sound_def keeping_def)
  have whole: "kept_change leased c'" using c(2) c'(2) by (rule kept_trans)
  have "clock 1 - t < RETRY_WINDOW" if "d \<in> set (plan_changes b)" "pc_id d = k" "pc_remote_started d = Some t" for d t
    using kept [OF that(1,2)] that(3) sends by (auto simp: kept_change_def assertRemoteRetryWindow_def split: if_splits)
  moreover have "pc_id c' = k \<and> pc_account c' = acc"
    using whole kept [OF c0k(1,2)] c0k by (simp add: kept_change_def)
  moreover have "pc_remote_started c' \<noteq> None" using c(3) c'(2) by (auto simp: kept_change_def)
  moreover have "sent = [x]" using sends pieces(2) body s1(1) by (simp add: leased quiet_def)
  moreover have "validatedChangeSnapshot c' = Inr x" using validated_kept [OF whole] sends by simp
  ultimately show ?thesis using c'(1) ok' kept_trans(1) [OF kept whole] by blast
qed

text \<open>
  C6: a confirmation calls Stripe at most once, and only with the request that is frozen in the row: the
  database then holds the plan change of that account with this request, valid for its key, subscription,
  timing and policy, and with the instant of the first call, so the call is recorded before it is made. A
  call that was first made 23 hours ago or more is not repeated.
\<close>

theorem confirm_sends_frozen:
  assumes "confirm cfg g acc k token clock b = (r, b', sent)" "x \<in> set sent"
  shows "sent = [x] \<and>
    (\<exists>c \<in> set (plan_changes b'). pc_id c = k \<and> pc_account c = acc \<and> pc_snapshot_version c = Some 1 \<and>
       pc_remote_started c \<noteq> None \<and>
       (\<exists>v. pc_snapshot c = Some v \<and> validatePlanChangeRequestSnapshot v (row_expectation c) = Inr x)) \<and>
    (\<forall>d \<in> set (plan_changes b). \<forall>t. pc_id d = k \<longrightarrow> pc_remote_started d = Some t \<longrightarrow> clock 1 - t < RETRY_WINDOW)"
proof -
  note run = confirm_sends [OF assms]
  then obtain c where c: "c \<in> set (plan_changes b')" "pc_id c = k" "pc_account c = acc" "validatedChangeSnapshot c = Inr x"
      "pc_remote_started c \<noteq> None" by blast
  from c(4) have "\<exists>v. pc_snapshot c = Some v \<and> validatePlanChangeRequestSnapshot v (row_expectation c) = Inr x"
    by (cases "pc_snapshot c")
      (auto simp: validatedChangeSnapshot_def stored_snapshot_def Let_def split: if_splits sum.splits error.splits)
  moreover have "pc_snapshot_version c = Some 1" using c(4) by (rule validated_frozen)
  ultimately show ?thesis using run c by blast
qed

text \<open>
  C7: a mutation is only ever repeated word for word: whatever the workers, webhook events and product
  operations do between two confirmations of a plan change, and whatever happened to the first call, the
  second sends the very same request, its idempotency key included.
\<close>

theorem confirm_retries_identical:
  assumes "confirm cfg g acc k token clock b = (r, b1, sent)" "x \<in> set sent"
    and "worker_step\<^sup>*\<^sup>* (used, b1) (used', b2)" "cc_token ` set (checkout_claims b1) \<subseteq> used"
    and "confirm cfg' g' acc' k token' clock' b2 = (r', b3, sent')" "y \<in> set sent'"
  shows "y = x"
proof -
  from confirm_sends [OF assms(1,2)] obtain c where c: "c \<in> set (plan_changes b1)" "pc_id c = k" "validatedChangeSnapshot c = Inr x"
    by blast
  have "keeping (plan_changes b1) [] [] used b1" using assms(4) by (auto simp: keeping_def intro: kept_refl)
  from keeping_history [OF assms(3), unfolded fst_conv snd_conv, OF this]
  obtain d where d: "d \<in> set (plan_changes b2)" "kept_change c d" using c(1) by (auto simp: keeping_def)
  have "pc_id d = k" using d(2) c(2) by (simp add: kept_change_def)
  with confirm_sends [OF assms(5,6)] d(1) obtain e where "kept_change d e" "validatedChangeSnapshot e = Inr y" by blast
  with validated_kept [OF kept_trans(1) [OF d(2)] c(3)] show ?thesis by simp
qed

section \<open>A confirmation whose call fails\<close>

definition sample_account :: account where
  "sample_account = annual_account\<lparr>acc_plan_key := ''a'', acc_plan_interval := Some Month, acc_annual_anchor := None,
     acc_annual_issued := 0, acc_annual_allowed := 0\<rparr>"

text \<open>A plan change that was sent at 5, whose worker is gone; \<open>failure\<close> is the last error.\<close>

definition sample_row :: "string option \<Rightarrow> plan_change" where
  "sample_row failure =
     \<lparr>pc_id = ''c1'', pc_account = ''acct'', pc_key = ''k'', pc_subscription = ''sub_1'', pc_from_plan = ''a'',
      pc_from_interval = Month, pc_target_plan = ''b'', pc_target_interval = Month, pc_mode = immediate,
      pc_status = Applying, pc_effective_at = None, pc_schedule = None, pc_request_key = ''plan-change:c1'',
      pc_expected_epoch = 1, pc_expected_period_end = Some (365 * DAY_MICROS), pc_expected_status = SubActive,
      pc_expected_cancel = False, pc_proration_date = Some 12, pc_amount_due = Some 9, pc_credit_applied = Some 0,
      pc_balance_credit = Some 0, pc_currency = Some ''usd'', pc_preview_expires = Some 7, pc_lease = None,
      pc_lease_expires = None, pc_pending_expires = None, pc_recovery_url = None, pc_last_error = failure,
      pc_policy = prorated_delta, pc_expected_source = Some ''in_1'', pc_expected_delta = Some 30,
      pc_expected_revoked = False, pc_settlement = None, pc_remote_started = Some 5, pc_source_proration = None,
      pc_target_proration = None, pc_period_start = None, pc_period_end = None, pc_created = 1, pc_completed = None,
      pc_snapshot_version = Some 1, pc_snapshot = Some sample_change_snapshot\<rparr>"

definition sample_database :: "plan_change \<Rightarrow> billing" where
  "sample_database c = annual_billing\<lparr>core := annual_store\<lparr>accounts := [sample_account]\<rparr>, plan_changes := [c]\<rparr>"

definition failing_gateway :: PlanChangeGateway where
  "failing_gateway =
     \<lparr>preparePlanChange = (\<lambda>_. Inl (PlainError ''offline'')), previewImmediate = (\<lambda>_ _ _. Inl (PlainError ''offline'')),
      applyImmediate = (\<lambda>_ _ _ _. Inl (PlainError ''offline'')), schedulePlanChange = (\<lambda>_ _. Inl (PlainError ''offline'')),
      executeSnapshot = Some (\<lambda>_. Inl (PlainError ''timeout'')), verifySnapshot = None, gatewayApiVersion = None,
      gatewayProductLine = None\<rparr>"

definition sample_change_config :: change_config where
  "sample_change_config = \<lparr>ch_catalog = reference_catalog ''billing'', ch_leaseTtl = 120000000, ch_policy = prorated_delta\<rparr>"

lemma sample_consistent:
  assumes "pc_account c = ''acct''" "pc_expected_delta c = Some 30" "snapshot_state (pc_snapshot_version c) (pc_snapshot c)"
  shows "billing_consistent (sample_database c)"
proof -
  have "settled (annual_store\<lparr>accounts := [sample_account]\<rparr>)"
    by (simp add: settled_def ledger_inv_def rows_ok_def keys_ok_def references_ok_def lots_inv_def debts_inv_def
        debits_inv_def collections_inv_def annual_defs sample_account_def account_check_def bigint_def bound_defs nullable_unique_def
        ledger_check_def)
  from settled_consistent [OF this] show ?thesis
    using assms
    by (simp add: billing_consistent_def billing_keys_ok_def billing_references_ok_def sample_database_def annual_billing_def
        nullable_unique_def snapshots_ok_def invoice_check_def smallint_slots_def grant_row_check_def bigint_def bound_defs
        annual_store_def sample_account_def annual_account_def granted_slots_def List.map_filter_def change_check_def)
qed

lemma sample_update:
  assumes "pc_id c = k" "pc_id (f c) = k"
  shows "update_change k Q f (sample_database c) =
    Inr (if Q c then Some (f c) else None, sample_database (if Q c then f c else c))"
  using assms by (simp add: update_change_def update_changes_def bind_tx_def gets_def sample_database_def update_rows_def find_change_def)

lemma sample_statement:
  "m b = Inr (x, b') \<Longrightarrow> billing_consistent b' \<Longrightarrow> statement m b = (Inr x, b', [])"
  by (simp add: statement_def billing_transaction_def)

definition sample_leased :: "string option \<Rightarrow> plan_change" where
  "sample_leased failure = (sample_row failure)\<lparr>pc_lease := Some ''tok'', pc_lease_expires := Some 120000010\<rparr>"

lemma sample_valid:
  "validatedChangeSnapshot (sample_row e) = Inr sample_change_snapshot"
  "validatedChangeSnapshot (sample_leased e) = Inr sample_change_snapshot"
proof -
  have "row_expectation (sample_row e) = change_expectation sample_change"
    by (simp add: row_expectation_def change_expectation_def sample_row_def sample_change_def sample_context_def request_suffix_def)
  moreover have "validatePlanChangeRequestSnapshot sample_change_snapshot (change_expectation sample_change) = Inr sample_change_snapshot"
    using change_rebuilt [OF sample_change_built] by simp
  ultimately show v: "validatedChangeSnapshot (sample_row e) = Inr sample_change_snapshot"
    unfolding validatedChangeSnapshot_def
    by (simp add: sample_row_def stored_snapshot_def)
      (simp add: sample_change_snapshot_def change_snapshot_def evidence_json_def sample_change_def sample_context_def prop_get_def)
  show "validatedChangeSnapshot (sample_leased e) = Inr sample_change_snapshot"
    by (rule validated_kept [OF _ v]) (simp add: kept_change_def sample_leased_def)
qed

lemma sample_ok: "billing_consistent (sample_database (sample_row e))" "billing_consistent (sample_database (sample_leased e))"
  by (rule sample_consistent;
      simp add: sample_leased_def sample_row_def snapshot_state_def sample_change_snapshot_def change_snapshot_def)+

lemma sample_race: "account_race (sample_leased e) (sample_database (sample_leased e)) = Inr (False, sample_database (sample_leased e))"
  by (simp add: account_race_def bind_tx_def gets_def sample_database_def annual_billing_def annual_store_def
      sample_account_def annual_account_def find_account_def find_change_def sample_leased_def sample_row_def immediate_delta_def
      changeFundingInvoice_def accountMatchesSnapshot_def)

lemma bind_proc_run: "m b = (Inr y, b', sent) \<Longrightarrow> bind_proc m f b = (case f y b' of (r, b'', sent') \<Rightarrow> (r, b'', sent @ sent'))"
  by (simp add: bind_proc_def)

lemma sample_leased_confirm:
  "leased_confirm cfg failing_gateway (sample_leased e) ''tok'' 10 10 (sample_database (sample_leased e)) =
     (Inl (PlainError ''timeout''), sample_database (sample_leased e), [sample_change_snapshot])"
proof -
  let ?b = "sample_database (sample_leased e)"
  obtain x where x: "planChangeContextFromSnapshot sample_change_snapshot = Inr x"
    using change_rebuilt [OF sample_change_built] by blast
  have window: "assertRemoteRetryWindow (sample_leased e) 10 = Inr ()"
    by (simp add: assertRemoteRetryWindow_def sample_leased_def sample_row_def RETRY_WINDOW_def MICROS_PER_SECOND_def)
  have run: "statement (account_race (sample_leased e)) ?b = (Inr False, ?b, [])"
    by (rule sample_statement) (rule sample_race, rule sample_ok)
  have race: "assertAccountSnapshot (sample_leased e) ?b = (Inr (), ?b, [])"
    by (simp add: assertAccountSnapshot_def bind_proc_run [where m = "statement (account_race (sample_leased e))" and b = ?b, OF run] give_def)
  have mark: "statement (markRemoteStarted ''c1'' ''tok'' 10) ?b = (Inr (sample_leased e), ?b, [])"
  proof (rule sample_statement)
    have same: "(sample_leased e)\<lparr>pc_remote_started := coalesce (pc_remote_started (sample_leased e)) (Some 10)\<rparr> = sample_leased e"
      by (simp add: sample_leased_def sample_row_def coalesce_def)
    have fields: "pc_id (sample_leased e) = ''c1''" "pc_status (sample_leased e) = Applying" "pc_lease (sample_leased e) = Some ''tok''"
      by (simp_all add: sample_leased_def sample_row_def)
    show "markRemoteStarted ''c1'' ''tok'' 10 ?b = Inr (sample_leased e, ?b)"
      unfolding markRemoteStarted_def bind_tx_def by (subst sample_update) (simp_all add: same fields)
  qed (rule sample_ok)
  have row: "pc_snapshot_version (sample_leased e) = Some 1" "pc_remote_started (sample_leased e) \<noteq> None" "pc_id (sample_leased e) = ''c1''"
    by (simp_all add: sample_leased_def sample_row_def)
  have "mutate failing_gateway sample_change_snapshot = Inl (PlainError ''timeout'')"
    by (simp add: mutate_def failing_gateway_def)
  then show ?thesis
    by (simp add: leased_confirm_def Let_def row bind_proc_def give_def send_def sample_valid x window race mark)
qed

lemma sample_confirm:
  "confirm sample_change_config failing_gateway ''acct'' ''c1'' ''tok'' (\<lambda>_. 10) (sample_database (sample_row e)) =
     (Inl (PlainError ''timeout''), sample_database (sample_row (Some ''Error'')), [sample_change_snapshot])"
proof -
  let ?b = "sample_database (sample_row e)"
  have fields: "pc_id (sample_row e) = ''c1''" "pc_account (sample_row e) = ''acct''" "pc_status (sample_row e) = Applying"
    "pc_lease_expires (sample_row e) = None" "pc_mode (sample_row e) = immediate" for e
    by (simp_all add: sample_row_def)
  have take: "take_lease sample_change_config ''tok'' 10 ((sample_row e)\<lparr>pc_status := Applying\<rparr>) = sample_leased e"
    by (simp add: take_lease_def sample_change_config_def sample_leased_def sample_row_def)
  have id: "pc_id (sample_leased e) = ''c1''" by (simp add: sample_leased_def sample_row_def)
  have "acquireConfirmationLease sample_change_config ''c1'' ''tok'' 10 ?b = Inr (Some (sample_leased e), sample_database (sample_leased e))"
    unfolding acquireConfirmationLease_def by (subst sample_update) (simp_all add: fields take id lease_free_def)
  then have lease: "statement (acquireConfirmationLease sample_change_config ''c1'' ''tok'' 10) ?b =
      (Inr (Some (sample_leased e)), sample_database (sample_leased e), [])"
    by (rule sample_statement) (rule sample_ok)
  have "releaseAfterError ''c1'' ''tok'' ''Error'' (sample_database (sample_leased e)) = Inr (True, sample_database (sample_row (Some ''Error'')))"
    by (simp add: releaseAfterError_def update_changes_def sample_database_def update_rows_def sample_leased_def sample_row_def drop_lease_def)
  then have release: "statement (releaseAfterError ''c1'' ''tok'' ''Error'') (sample_database (sample_leased e)) =
      (Inr True, sample_database (sample_row (Some ''Error'')), [])"
    by (rule sample_statement) (rule sample_ok)
  have rows: "plan_changes ?b = [sample_row e]" by (simp add: sample_database_def)
  have "decisionFromRow (sample_row e) = d \<Longrightarrow> d_timing d = immediate" for d by (auto simp: decisionFromRow_def fields)
  then show ?thesis
    by (simp add: confirm_def Let_def peek_def rows fields bind_proc_def lease on_failure_def id sample_leased_confirm release give_def
        decisionFromRow_def)
qed

text \<open>The call of the first confirmation timed out; the worker tries again.\<close>

lemma confirm_sends_frozen_witness:
  "\<exists>c \<in> set (plan_changes (sample_database (sample_row (Some ''Error'')))). pc_id c = ''c1'' \<and>
     (\<exists>v. pc_snapshot c = Some v \<and> validatePlanChangeRequestSnapshot v (row_expectation c) = Inr sample_change_snapshot)"
  using confirm_sends_frozen [OF sample_confirm [of None], of sample_change_snapshot] by auto

lemma confirm_retries_identical_witness:
  "\<exists>y. y \<in> set (snd (snd (confirm sample_change_config failing_gateway ''acct'' ''c1'' ''tok'' (\<lambda>_. 10)
      (sample_database (sample_row (Some ''Error'')))))) \<and> y = sample_change_snapshot"
proof -
  have "cc_token ` set (checkout_claims (sample_database (sample_row (Some ''Error'')))) \<subseteq> {}"
    by (simp add: sample_database_def annual_billing_def)
  from confirm_retries_identical [OF sample_confirm [of None] _ rtranclp.rtrancl_refl this sample_confirm [of "Some ''Error''"],
      of sample_change_snapshot sample_change_snapshot]
  show ?thesis by (simp add: sample_confirm)
qed

text \<open>The row stays as it is when a worker marks it again.\<close>

lemma frozen_requests_kept_witness:
  "\<exists>c \<in> set (plan_changes (commit (acquireConfirmationLease sample_change_config ''c1'' ''tok'' 10) (sample_database (sample_row None)))).
     kept_change (sample_row None) c"
proof -
  have "worker_step\<^sup>*\<^sup>* ({}, sample_database (sample_row None))
      ({}, commit (acquireConfirmationLease sample_change_config ''c1'' ''tok'' 10) (sample_database (sample_row None)))"
    by (rule r_into_rtranclp) (rule change_confirming)
  from frozen_requests_kept [OF this sample_ok(1)] show ?thesis
    by (simp add: sample_database_def annual_billing_def)
qed

section \<open>Starting a Checkout\<close>

definition holds_claim :: "checkout_claim \<Rightarrow> billing \<Rightarrow> bool" where
  "holds_claim c b \<longleftrightarrow> (\<exists>k \<in> set (checkout_claims b). kept_claim c k)"

lemma holds_update: "(\<And>k. Q k \<Longrightarrow> kept_claim k (f k)) \<Longrightarrow> keeps (holds_claim c) (update_claims Q f)"
  using kept_rows [of Q kept_claim f _ c, OF _ kept_refl(3) kept_trans(3)]
  by (auto simp: keeps_def update_claims_def holds_claim_def)

lemma holds_statements:
  "keeps (holds_claim c) (freeze_claim r v)" "keeps (holds_claim c) (attach_claim r session url)"
  unfolding freeze_claim_def attach_claim_def by (intro holds_update; simp add: kept_claim_def)+

lemma freeze_quiet [proc_rules]:
  "silent (freezeRequestSnapshot r v)" "upholds (holds_claim c) (freezeRequestSnapshot r v)"
  unfolding freezeRequestSnapshot_def by (intro proc_rules holds_statements)+

lemma attach_quiet [proc_rules]:
  "silent (attachSession parseUrl r session url)" "upholds (holds_claim c) (attachSession parseUrl r session url)"
  unfolding attachSession_def
  by (cases "validateCheckoutSessionIdentity parseUrl session url"; simp add: proc_rules holds_statements)+

lemma execute_sends:
  assumes "x \<in> set (sent_by (executeFrozen parseUrl create r v) b)" "holds_claim c b"
  shows "sent_by (executeFrozen parseUrl create r v) b = [x] \<and> x = v \<and> holds_claim c (after (executeFrozen parseUrl create r v) b)"
proof -
  define rest where "rest = (\<lambda>(sessionId, sessionUrl).
          if \<not> is_ok (validateCheckoutSessionIdentity parseUrl sessionId sessionUrl)
          then give (Inl (PlainError ''Checkout creator returned an invalid Session identity''))
          else
            bind_proc (attachSession parseUrl r sessionId sessionUrl) (\<lambda>attached.
            if attached then give (Inr (sessionId, sessionUrl))
            else peek (\<lambda>b.
              if completedDuringCreation r b then Inr (sessionId, sessionUrl)
              else Inl (PlainError ''Checkout claim identity changed while Stripe was creating a session''))))"
  have run: "executeFrozen parseUrl create r v b = bind_proc (send create v) rest b"
    using assms(1) by (auto simp: executeFrozen_def rest_def split: option.splits)
  have "silent (rest p)" "upholds (holds_claim c) (rest p)" for p
    unfolding rest_def by (intro proc_rules)+
  then have "sent_by (bind_proc (send create v) rest) b = [v]" "upholds (holds_claim c) (bind_proc (send create v) rest)"
    by (simp_all add: send_once proc_rules)
  moreover have "sent_by (executeFrozen parseUrl create r v) b = sent_by (bind_proc (send create v) rest) b"
    "after (executeFrozen parseUrl create r v) b = after (bind_proc (send create v) rest) b"
    by (simp_all add: sent_by_def after_def run)
  ultimately show ?thesis using assms by (simp add: upholds_def)
qed

lemma reserve_claim_row:
  assumes "reserve_claim acc planKey i key ttl token clock b = Inr (r, b')"
  shows "\<exists>c \<in> set (checkout_claims b'). r = reservationFromRow acc key c \<and> cc_account c = acc"
proof -
  have found: "find_claim b k = Some c \<Longrightarrow> c \<in> set (checkout_claims b) \<and> cc_account c = k" for b k c
    by (auto simp: find_claim_def find_Some_iff)
  show ?thesis
    using assms
    by (auto simp: reserve_claim_def Let_def bind_tx_Inr_iff insert_claim_def modify_def delete_claims_def new_claim_def
        dest!: found find_account_Some split: option.splits if_splits)+
qed

text \<open>What the validation of a frozen claim depends on.\<close>

definition claim_request :: "url_parser \<Rightarrow> checkout_claim \<Rightarrow> jsval result" where
  "claim_request parseUrl c = validatedFrozenSnapshot parseUrl (reservationFromRow (cc_account c) [] c)"

lemma claim_request_row:
  "validatedFrozenSnapshot parseUrl (reservationFromRow (cc_account c) key c) = claim_request parseUrl c"
  by (simp add: claim_request_def validatedFrozenSnapshot_def reservationFromRow_def frozen_expectation_def)

lemma claim_request_kept:
  "kept_claim c d \<Longrightarrow> cc_snapshot_version c = Some 1 \<Longrightarrow> claim_request parseUrl d = claim_request parseUrl c"
  by (simp add: kept_claim_def claim_request_def validatedFrozenSnapshot_def reservationFromRow_def frozen_expectation_def)

text \<open>A claim is its account's only one.\<close>

lemma claim_kept_row:
  assumes "billing_consistent b" "holds_claim c b" "d \<in> set (checkout_claims b)" "cc_account d = cc_account c"
  shows "kept_claim c d"
proof -
  obtain k where k: "k \<in> set (checkout_claims b)" "kept_claim c k" using assms(2) by (auto simp: holds_claim_def)
  have "inj_on cc_account (set (checkout_claims b))"
    using assms(1) by (simp add: billing_consistent_def billing_keys_ok_def distinct_map)
  moreover have "cc_account k = cc_account d" using k(2) assms(4) by (simp add: kept_claim_def)
  ultimately have "k = d" using k(1) assms(3) by (metis inj_onD)
  then show ?thesis using k by simp
qed

lemma frozen_row:
  assumes "fst (freezeRequestSnapshot (reservationFromRow acc key c) v b) = Inr s" "holds_claim c b" "cc_account c = acc"
  defines "b' \<equiv> after (freezeRequestSnapshot (reservationFromRow acc key c) v) b"
  obtains d where "d \<in> set (checkout_claims b')" "kept_claim c d" "cc_snapshot_version d = Some 1" "cc_snapshot d = Some s"
proof -
  let ?r = "reservationFromRow acc key c"
  let ?freeze = "statement (freeze_claim ?r v)"
  obtain froze where ran: "fst (?freeze b) = Inr froze"
    using assms(1) by (cases "fst (?freeze b)") (simp_all add: freezeRequestSnapshot_def fst_bind)
  have b': "b' = after ?freeze b"
    by (simp add: b'_def freezeRequestSnapshot_def after_bind ran) (simp add: after_def peek_def)
  have "billing_consistent b'" using commit_result(2) [OF ran] by (simp add: b')
  moreover have "holds_claim c b'"
    using upholds_steps(4) [OF holds_statements(1)] assms(2) unfolding b' upholds_def by blast
  moreover obtain d where d: "find (claim_of ?r) (checkout_claims b') = Some d" "cc_snapshot_version d = Some 1" "cc_snapshot d = Some s"
    using assms(1) by (auto simp: freezeRequestSnapshot_def fst_bind ran peek_def b' split: option.splits if_splits)
  moreover have "d \<in> set (checkout_claims b')" "cc_account d = acc"
    using d(1) by (auto simp: find_Some_iff claim_of_def reservationFromRow_def)
  ultimately show ?thesis using claim_kept_row [of b' c d] assms(3) by (intro that) simp_all
qed

lemma checkout_upholds:
  assumes "\<And>v. upholds P (statement (freeze_claim r v))" "\<And>session url. upholds P (statement (attach_claim r session url))"
    "upholds P (statement (release_claim r))"
  shows "upholds P (prepare_and_freeze parseUrl prepare r i)" "upholds P (executeFrozen parseUrl create r v)"
proof -
  note steps = upholds_steps(1-3) upholds_bind proc_cases(4-7)
  have "upholds P (freezeRequestSnapshot r v)" for v
    unfolding freezeRequestSnapshot_def by (intro steps assms)
  then show "upholds P (prepare_and_freeze parseUrl prepare r i)"
    unfolding prepare_and_freeze_def by (auto intro!: steps assms split: sum.splits error.splits)
  have "upholds P (attachSession parseUrl r session url)" for session url
    unfolding attachSession_def by (intro steps assms)
  then show "upholds P (executeFrozen parseUrl create r v)"
    unfolding executeFrozen_def by (auto intro!: steps split: option.splits)
qed

lemma executed_row:
  assumes "x \<in> set (sent_by (executeFrozen parseUrl create r v) b)" "holds_claim c b" "cc_snapshot_version c = Some 1"
    and "claim_request parseUrl c = Inr v"
  shows "sent_by (executeFrozen parseUrl create r v) b = [x] \<and>
    (\<exists>d \<in> set (checkout_claims (after (executeFrozen parseUrl create r v) b)).
       kept_claim c d \<and> cc_snapshot_version d = Some 1 \<and> claim_request parseUrl d = Inr x)"
proof -
  note run = execute_sends [OF assms(1,2)]
  then obtain d where d: "d \<in> set (checkout_claims (after (executeFrozen parseUrl create r v) b))" "kept_claim c d"
    by (auto simp: holds_claim_def)
  then show ?thesis
    using run assms(3,4) claim_request_kept [OF d(2) assms(3), of parseUrl] by (auto simp: kept_claim_def)
qed

lemma reserve_silent [proc_rules]: "silent (reserve acc planKey i key ttl token clock)"
  unfolding reserve_def by (auto intro: proc_rules split: sum.splits)

lemma prepare_silent [proc_rules]: "silent (prepare_and_freeze parseUrl prepare r i)"
  unfolding prepare_and_freeze_def by (auto intro: proc_rules split: sum.splits error.splits)

lemma prepared_row:
  assumes "fst (prepare_and_freeze parseUrl prepare (reservationFromRow acc key c) i b) = Inr v" "c \<in> set (checkout_claims b)"
    and "cc_account c = acc"
  obtains d where "d \<in> set (checkout_claims (after (prepare_and_freeze parseUrl prepare (reservationFromRow acc key c) i) b))"
    "kept_claim c d" "cc_snapshot_version d = Some 1" "claim_request parseUrl d = Inr v"
proof -
  let ?r = "reservationFromRow acc key c"
  obtain p where p: "bind_result (prepare (prepared_request ?r i)) (\<lambda>v. validateCheckoutRequestSnapshot parseUrl v (prepared_expectation ?r i)) = Inr p"
    using assms(1) by (auto simp: prepare_and_freeze_def fst_bind split: sum.splits error.splits)
  let ?freeze = "freezeRequestSnapshot ?r p"
  have run: "prepare_and_freeze parseUrl prepare ?r i = bind_proc ?freeze (\<lambda>frozen.
      give (validatedFrozenSnapshot parseUrl (?r\<lparr>rs_version := Some 1, rs_snapshot := Some frozen\<rparr>)))"
    by (simp add: prepare_and_freeze_def p)
  obtain s where s: "fst (?freeze b) = Inr s"
      "validatedFrozenSnapshot parseUrl (?r\<lparr>rs_version := Some 1, rs_snapshot := Some s\<rparr>) = Inr v"
    using assms(1) by (auto simp: run fst_bind split: sum.splits)
  have "holds_claim c b" using assms(2) unfolding holds_claim_def by (rule bexI [rotated]) simp
  from frozen_row [OF s(1) this assms(3)] obtain d where d: "d \<in> set (checkout_claims (after ?freeze b))" "kept_claim c d"
      "cc_snapshot_version d = Some 1" "cc_snapshot d = Some s" .
  moreover have "after (prepare_and_freeze parseUrl prepare ?r i) b = after ?freeze b"
    by (simp add: run after_bind s(1))
  moreover have "claim_request parseUrl d = Inr v"
    using s(2) d assms(3)
    by (simp add: claim_request_def validatedFrozenSnapshot_def reservationFromRow_def frozen_expectation_def kept_claim_def)
  ultimately show ?thesis by (intro that [of d]) simp_all
qed

lemma reserved_row:
  assumes "fst (reserve acc planKey i key ttl token clock b) = Inr r"
  obtains c k where "c \<in> set (checkout_claims (after (reserve acc planKey i key ttl token clock) b))"
    "r = reservationFromRow acc k c" "cc_account c = acc" "billing_consistent (after (reserve acc planKey i key ttl token clock) b)"
proof (cases "reserve_inputs planKey i key ttl token")
  case (Inl e)
  with assms show ?thesis by (simp add: reserve_def)
next
  case (Inr inputs)
  obtain ttl' planKey' i' key' where "inputs = (ttl', planKey', i', key')" by (cases inputs)
  with Inr have "reserve acc planKey i key ttl token clock = statement (reserve_claim acc planKey' i' key' ttl' token clock)"
    by (simp add: reserve_def)
  with assms commit_result reserve_claim_row that show ?thesis by metis
qed

lemma checkout_sends:
  assumes run: "createCheckout parseUrl prepare create i token clock b = (r, b', sent)" and x: "x \<in> set sent"
  shows "sent = [x] \<and> billing_consistent b' \<and>
    (\<exists>d \<in> set (checkout_claims b'). cc_account d = ci_accountId i \<and> cc_snapshot_version d = Some 1 \<and> claim_request parseUrl d = Inr x)"
proof -
  let ?p = "createCheckout parseUrl prepare create i token clock"
  let ?acc = "ci_accountId i"
  have pieces: "after ?p b = b'" "sent_by ?p b = sent" using run by (simp_all add: proc_pieces)
  define take where "take = reserve ?acc (ci_planKey i) (JStr (interval_text (ci_interval i))) (ci_requestKey i) JUndef token clock"
  define request where "request = (\<lambda>r. if rs_version r = None
           then give (Inl (CheckoutReplayUnsafeError
             ''this Checkout claim predates durable request snapshots; operator reconciliation is required''))
           else if rs_version r = Some 1 then give (validatedFrozenSnapshot parseUrl r)
           else if rs_version r \<noteq> Some 0 \<or> rs_snapshot r \<noteq> None
           then give (Inl (CheckoutReplayUnsafeError ''Checkout request snapshot state is invalid''))
           else prepare_and_freeze parseUrl prepare r i)"
  have ok: "ci_interval i = ci_expectedInterval i"
  proof (rule ccontr)
    assume "\<not> ?thesis"
    then have "sent_by ?p b = []" by (simp add: createCheckout_def)
    with x pieces show False by simp
  qed
  have p: "?p = bind_proc take (\<lambda>r. bind_proc (request r) (executeFrozen parseUrl create r))"
    by (simp add: createCheckout_def ok take_def request_def)
  have silent: "silent take" "silent (request r)" for r
    unfolding take_def request_def by (intro proc_rules)+
  let ?b1 = "after take b"
  have "x \<in> set (sent_by (bind_proc take (\<lambda>r. bind_proc (request r) (executeFrozen parseUrl create r))) b)"
    using x by (simp add: pieces [symmetric] p)
  then obtain r1 where r1: "fst (take b) = Inr r1"
      "sent_by ?p b = sent_by (bind_proc (request r1) (executeFrozen parseUrl create r1)) ?b1"
      "after ?p b = after (bind_proc (request r1) (executeFrozen parseUrl create r1)) ?b1"
      "x \<in> set (sent_by (bind_proc (request r1) (executeFrozen parseUrl create r1)) ?b1)"
    unfolding p by (rule silent_step [OF _ silent(1)])
  let ?b2 = "after (request r1) ?b1"
  obtain v where v: "fst (request r1 ?b1) = Inr v"
      "sent_by (bind_proc (request r1) (executeFrozen parseUrl create r1)) ?b1 = sent_by (executeFrozen parseUrl create r1 v) ?b2"
      "after (bind_proc (request r1) (executeFrozen parseUrl create r1)) ?b1 = after (executeFrozen parseUrl create r1 v) ?b2"
      "x \<in> set (sent_by (executeFrozen parseUrl create r1 v) ?b2)"
    using r1(4) by (rule silent_step [OF _ silent(2)])
  obtain c k where c: "c \<in> set (checkout_claims ?b1)" "r1 = reservationFromRow ?acc k c" "cc_account c = ?acc" "billing_consistent ?b1"
    by (rule reserved_row [OF r1(1) [unfolded take_def], folded take_def])
  have "\<exists>d \<in> set (checkout_claims (after (request r1) ?b1)). kept_claim c d \<and> cc_snapshot_version d = Some 1 \<and> claim_request parseUrl d = Inr v"
  proof (cases "rs_version r1 = Some 1")
    case True
    then have "cc_snapshot_version c = Some 1" by (simp add: c(2) reservationFromRow_def)
    moreover have "request r1 = give (validatedFrozenSnapshot parseUrl r1)" using True by (simp add: request_def)
    moreover have "validatedFrozenSnapshot parseUrl r1 = claim_request parseUrl c"
      using claim_request_row [of parseUrl c k] by (simp add: c)
    ultimately show ?thesis using v(1) c(1) by (intro bexI [of _ c]) simp_all
  next
    case False
    then have same: "request r1 = prepare_and_freeze parseUrl prepare (reservationFromRow ?acc k c) i"
      using v(1) by (auto simp: request_def c(2) split: if_splits)
    have "fst (prepare_and_freeze parseUrl prepare (reservationFromRow ?acc k c) i ?b1) = Inr v" using v(1) by (simp add: same)
    from prepared_row [OF this c(1,3)] show ?thesis unfolding same by blast
  qed
  then obtain d where d: "d \<in> set (checkout_claims (after (request r1) ?b1))" "kept_claim c d" "cc_snapshot_version d = Some 1"
      "claim_request parseUrl d = Inr v" by blast
  have "holds_claim d (after (request r1) ?b1)" using d(1) unfolding holds_claim_def by (rule bexI [rotated]) simp
  from executed_row [OF v(4) this d(3,4)] obtain e where e: "sent_by (executeFrozen parseUrl create r1 v) ?b2 = [x]"
    "e \<in> set (checkout_claims (after (executeFrozen parseUrl create r1 v) ?b2))" "kept_claim d e"
    "cc_snapshot_version e = Some 1" "claim_request parseUrl e = Inr x" by blast
  from e(3) d(2) c(3) have "cc_account e = ?acc" by (simp add: kept_claim_def)
  moreover have "sent = [x]" using e(1) r1(2) v(2) pieces(2) by simp
  moreover have "e \<in> set (checkout_claims b')" using e(2) r1(3) v(3) pieces(1) by simp
  moreover have "upholds billing_consistent (request r1)" "upholds billing_consistent (executeFrozen parseUrl create r1 v)"
    unfolding request_def by (intro upholds_steps(1) proc_cases(4) checkout_upholds stays_consistent)+
  with c(4) have "billing_consistent b'" using r1(3) v(3) pieces(1) by (simp add: upholds_def)
  ultimately show ?thesis using e(4,5) by blast
qed

text \<open>A claim with the token of \<open>k\<close> is \<open>k\<close>, with what is frozen in it.\<close>

lemma same_token_steps [proc_rules]:
  "cc_token k \<noteq> token \<Longrightarrow> upholds (keeping [] [] [k] UNIV) (reserve acc planKey i key ttl token clock)"
  "upholds (keeping [] [] [k] UNIV) (prepare_and_freeze parseUrl prepare r i')"
  "upholds (keeping [] [] [k] UNIV) (executeFrozen parseUrl create r v)"
proof -
  show "upholds (keeping [] [] [k] UNIV) (prepare_and_freeze parseUrl prepare r i')"
    "upholds (keeping [] [] [k] UNIV) (executeFrozen parseUrl create r v)"
    by (intro checkout_upholds upholds_steps(4) keeping_statements)+
  assume "cc_token k \<noteq> token"
  then have "keeps (keeping [] [] [k] UNIV) (reserve_claim acc pk i ke t token clock)" for pk i ke t
    by (intro keeping_claimed) auto
  then show "upholds (keeping [] [] [k] UNIV) (reserve acc planKey i key ttl token clock)"
    unfolding reserve_def by (auto intro!: proc_rules split: sum.splits)
qed

lemma create_same_token:
  assumes "cc_token k \<noteq> token" "keeping [] [] [k] UNIV b"
  shows "keeping [] [] [k] UNIV (after (createCheckout parseUrl prepare create i token clock) b)"
proof -
  have "upholds (keeping [] [] [k] UNIV) (createCheckout parseUrl prepare create i token clock)"
    unfolding createCheckout_def by (intro proc_rules assms(1))
  then show ?thesis using assms(2) by (simp add: upholds_def)
qed

text \<open>
  C8: Checkout sends nothing but what is frozen. Whatever the caller asks and whatever Stripe answers, a
  creation makes at most one request, and it is the snapshot of a claim of that account in the database it
  leaves: frozen before the call, and accepted again for the token, the plan, the interval, the expiry and
  the Customer of that claim.
\<close>

theorem checkout_sends_frozen:
  assumes "createCheckout parseUrl prepare create i token clock b = (r, b', sent)" "x \<in> set sent"
  shows "sent = [x] \<and>
    (\<exists>c \<in> set (checkout_claims b'). cc_account c = ci_accountId i \<and> cc_snapshot_version c = Some 1 \<and>
       (\<exists>v. cc_snapshot c = Some v \<and>
          validateCheckoutRequestSnapshot parseUrl v (frozen_expectation (reservationFromRow (cc_account c) [] c)) = Inr x))"
proof -
  have null: "checkoutContents parseUrl JNull \<noteq> Inr q" for q
    by (cases "safeJson JNull") (simp_all add: checkoutContents_def exactRecord_def refuse_snapshot_def)
  have "\<exists>v. cc_snapshot c = Some v \<and>
      validateCheckoutRequestSnapshot parseUrl v (frozen_expectation (reservationFromRow (cc_account c) [] c)) = Inr x"
    if "claim_request parseUrl c = Inr x" for c
    using that
    by (cases "cc_snapshot c")
      (auto simp: claim_request_def validatedFrozenSnapshot_def stored_snapshot_def validateCheckoutRequestSnapshot_def
        reservationFromRow_def bind_result_Inr_iff null split: if_splits sum.splits error.splits)
  with checkout_sends [OF assms] show ?thesis by blast
qed

text \<open>
  C9: a repeated Checkout sends the same request. Whatever the workers, webhook events and product operations
  do between two creations for an account, and whatever became of the first call, the second sends word for
  word the request of the first, unless the claim was given up and another one, with another token, took its
  place.
\<close>

theorem checkout_retries_identical:
  assumes "createCheckout parseUrl prepare create i token clock b = (r, b1, sent)" "x \<in> set sent"
    and "worker_step\<^sup>*\<^sup>* (used, b1) (used', b2)" "cc_token ` set (checkout_claims b1) \<subseteq> used" "token' \<notin> used'"
    and "createCheckout parseUrl prepare' create' i' token' clock' b2 = (r', b3, sent')" "y \<in> set sent'"
  shows "\<exists>c \<in> set (checkout_claims b1). \<exists>d \<in> set (checkout_claims b3).
    cc_account c = ci_accountId i \<and> cc_account d = ci_accountId i' \<and>
    validatedFrozenSnapshot parseUrl (reservationFromRow (cc_account c) [] c) = Inr x \<and>
    validatedFrozenSnapshot parseUrl (reservationFromRow (cc_account d) [] d) = Inr y \<and>
    (cc_token d = cc_token c \<longrightarrow> y = x)"
proof -
  obtain c where c: "c \<in> set (checkout_claims b1)" "cc_account c = ci_accountId i" "cc_snapshot_version c = Some 1"
      "claim_request parseUrl c = Inr x" using checkout_sends [OF assms(1,2)] by blast
  obtain d where d: "d \<in> set (checkout_claims b3)" "cc_account d = ci_accountId i'" "claim_request parseUrl d = Inr y"
    using checkout_sends [OF assms(6,7)] by blast
  have b1: "billing_consistent b1" using checkout_sends [OF assms(1,2)] by blast
  then have "keeping (plan_changes b1) (orders (core b1)) (checkout_claims b1) used b1"
    by (intro keeping_start [OF assms(4)]) (simp add: billing_consistent_def billing_keys_ok_def)
  from keeping_history [OF assms(3), unfolded fst_conv snd_conv, OF this]
  have b2: "keeping [] [] [c] used' b2" using c(1) by (auto simp: keeping_def)
  then have "keeping [] [] [c] UNIV b2" "cc_token c \<noteq> token'" using assms(5) by (auto simp: keeping_def)
  from create_same_token [OF this(2,1), of parseUrl prepare' create' i' clock']
  have "keeping [] [] [c] UNIV b3" using assms(6) by (simp add: proc_pieces)
  then have "kept_claim c d" if "cc_token d = cc_token c" using that d(1) by (simp add: keeping_def)
  then have "y = x" if "cc_token d = cc_token c"
    using claim_request_kept [of c d parseUrl] that c(3,4) d(3) by simp
  with c d show ?thesis unfolding claim_request_def by blast
qed

text \<open>The claim of an account without a subscription, whose request was frozen and whose call is repeated.\<close>

definition claim_account :: account where
  "claim_account = sample_account\<lparr>acc_subscription := None, acc_status := SubNone\<rparr>"

definition sample_claim :: checkout_claim where
  "sample_claim =
     \<lparr>cc_account = ''acct'', cc_token = ''t1'', cc_session = None, cc_plan = ''pro'', cc_interval = Month,
      cc_customer = Some ''cus_1'', cc_expires = 2100000000, cc_request_key = Some ''k'', cc_url = None,
      cc_snapshot_version = Some 1, cc_snapshot = Some (subscription_snapshot sample_checkout 2100 4900)\<rparr>"

definition claim_database :: billing where
  "claim_database = annual_billing\<lparr>core := annual_store\<lparr>accounts := [claim_account]\<rparr>, checkout_claims := [sample_claim]\<rparr>"

definition sample_input :: CheckoutInput where
  "sample_input =
     \<lparr>ci_accountId = ''acct'', ci_planKey = JStr ''pro'', ci_interval = Month, ci_lookupKey = ''billing_pro_month'',
      ci_currency = ''usd'', ci_unitAmount = 4900, ci_expectedInterval = Month, ci_requestKey = JStr ''k''\<rparr>"

lemma claim_database_ok: "billing_consistent claim_database"
proof -
  have "settled (annual_store\<lparr>accounts := [claim_account]\<rparr>)"
    by (simp add: settled_def ledger_inv_def rows_ok_def keys_ok_def references_ok_def lots_inv_def debts_inv_def
        debits_inv_def collections_inv_def annual_defs claim_account_def sample_account_def account_check_def bigint_def bound_defs
        nullable_unique_def ledger_check_def)
  from settled_consistent [OF this] show ?thesis
    by (simp add: billing_consistent_def billing_keys_ok_def billing_references_ok_def claim_database_def annual_billing_def
        nullable_unique_def snapshots_ok_def invoice_check_def smallint_slots_def grant_row_check_def bigint_def bound_defs
        annual_store_def claim_account_def sample_account_def annual_account_def granted_slots_def List.map_filter_def
        sample_claim_def snapshot_state_def subscription_snapshot_def Let_def)
qed

lemma sample_claim_request: "claim_request sample_parser sample_claim = Inr (subscription_snapshot sample_checkout 2100 4900)"
proof -
  let ?s = "subscription_snapshot sample_checkout 2100 4900"
  let ?x = "frozen_expectation (reservationFromRow ''acct'' [] sample_claim)"
  obtain k existing e p identity where q: "checkoutContents sample_parser ?s = Inr (k, existing, e, p, identity)"
      "checkExpectations (subscription_expectation sample_checkout) k existing e p identity = Inr ()" "cloneJson ?s = ?s"
    using sample_checkout_again by (auto simp: validateCheckoutRequestSnapshot_def bind_result_Inr_iff)
  have x: "x_kind ?x = Some SubscriptionCheckout" "x_accountId ?x = Some ''acct''" "x_requestIdentity ?x = Some ''t1''"
    "x_lookupKey ?x = None" "x_currency ?x = None" "x_unitAmount ?x = None" "x_interval ?x = Some Month"
    "x_offeringKey ?x = Some ''pro''" "x_expiresAt ?x = Some 2100" "x_customerId ?x = Some (Some ''cus_1'')"
    "x_packCredits ?x = None" "x_expiresDays ?x = None" "x_productLine ?x = None"
    by (simp_all add: frozen_expectation_def no_expectation_def reservationFromRow_def sample_claim_def epoch_seconds_def
        MICROS_PER_SECOND_def)
  note facts = checkExpectations_facts [OF q(2), unfolded subscription_expectation_def sample_checkout_def, simplified]
  have "checkExpectations ?x k existing e p identity = Inr ()"
    unfolding checkExpectations_def checkoutComparisons_def customerRefusal_def packRefusal_def x opt_result_def
    using facts by (auto simp: differs_def bigintNumber_def js_max_safe_integer_def)
  then have "validateCheckoutRequestSnapshot sample_parser ?s ?x = Inr ?s"
    by (simp add: validateCheckoutRequestSnapshot_def q(1,3))
  moreover have "cc_account sample_claim = ''acct''" "rs_version (reservationFromRow ''acct'' [] sample_claim) = Some 1"
    "rs_snapshot (reservationFromRow ''acct'' [] sample_claim) = Some ?s"
    by (simp_all add: reservationFromRow_def sample_claim_def)
  ultimately show ?thesis
    by (simp add: claim_request_def validatedFrozenSnapshot_def stored_snapshot_def)
qed

lemma sample_run:
  "createCheckout sample_parser prepare (\<lambda>_. Inl (PlainError ''timeout'')) sample_input ''t2'' 0 claim_database =
     (Inl (PlainError ''timeout''), claim_database, [subscription_snapshot sample_checkout 2100 4900])"
proof -
  let ?r = "reservationFromRow ''acct'' ''k'' sample_claim"
  have "reserve_inputs (JStr ''pro'') (JStr (interval_text Month)) (JStr ''k'') JUndef ''t2'' = Inr (2100, ''pro'', Month, ''k'')"
    by (simp add: reserve_inputs_def js_max_safe_integer_def requiredVisibleString_def visible_text_def
        isPrintable_def intervalInput_def interval_text_def eval_simps)
  moreover have "reserve_claim ''acct'' ''pro'' Month ''k'' 2100 ''t2'' 0 claim_database = Inr (?r, claim_database)"
    by (simp add: reserve_claim_def Let_def bind_tx_def gets_def claim_database_def annual_billing_def annual_store_def find_account_def
        claim_account_def sample_account_def annual_account_def find_claim_def sample_claim_def)
  ultimately have "reserve ''acct'' (JStr ''pro'') (JStr (interval_text Month)) (JStr ''k'') JUndef ''t2'' 0 claim_database =
      (Inr ?r, claim_database, [])"
    by (simp add: reserve_def sample_statement [OF _ claim_database_ok])
  note taken = this
  have frozen: "validatedFrozenSnapshot sample_parser ?r = Inr (subscription_snapshot sample_checkout 2100 4900)"
    using sample_claim_request claim_request_row [of sample_parser sample_claim "''k''"] by (simp add: sample_claim_def)
  have row: "rs_version ?r = Some 1" "rs_sessionId ?r = None"
    by (simp_all add: reservationFromRow_def sample_claim_def)
  have input: "ci_accountId sample_input = ''acct''" "ci_planKey sample_input = JStr ''pro''" "ci_interval sample_input = Month"
    "ci_expectedInterval sample_input = Month" "ci_requestKey sample_input = JStr ''k''"
    by (simp_all add: sample_input_def)
  show ?thesis
    unfolding createCheckout_def input
    by (simp add: bind_proc_def taken row frozen give_def executeFrozen_def send_def)
qed

text \<open>The call that failed is repeated, and sends the request of the claim again.\<close>

lemma checkout_sends_frozen_witness:
  "\<exists>c \<in> set (checkout_claims claim_database). cc_account c = ''acct'' \<and> cc_snapshot c = Some (subscription_snapshot sample_checkout 2100 4900)"
  using checkout_sends_frozen [OF sample_run, of "subscription_snapshot sample_checkout 2100 4900"]
  by (simp add: claim_database_def sample_claim_def sample_input_def)

lemma checkout_retries_identical_witness:
  "\<exists>y. y \<in> set (snd (snd (createCheckout sample_parser (\<lambda>_. Inl (PlainError ''unused'')) (\<lambda>_. Inl (PlainError ''timeout'')) sample_input
      ''t2'' 0 claim_database))) \<and> y = subscription_snapshot sample_checkout 2100 4900"
proof -
  have claims: "checkout_claims claim_database = [sample_claim]" by (simp add: claim_database_def)
  have "cc_token ` set (checkout_claims claim_database) \<subseteq> {''t1''}" "''t2'' \<notin> {''t1''}"
    by (simp_all add: claims sample_claim_def)
  from checkout_retries_identical [OF sample_run _ rtranclp.rtrancl_refl this sample_run,
      of "subscription_snapshot sample_checkout 2100 4900" "subscription_snapshot sample_checkout 2100 4900"]
  show ?thesis by (simp add: claims sample_run)
qed

end
