(* ===== verification/Spec2Isabelle.thy ===== *)
theory Spec2Isabelle
  imports Event_Audit Stripe_Policies Credit_Refund Pack_Events Refund_Properties Pack_Event_Properties Ledger_History
    Ledger_Audit Annual_Properties Entitlements Billing_History
    Request_Properties
begin

text \<open>
  A model of the TypeScript billing backend of this repository (typescript/src), with the
  theorems that make it correct.

  \<^bold>\<open>The program.\<close> The backend sells plans and credit packs through Stripe. A verified webhook event is
  processed in one PostgreSQL transaction: the inbox claims its identity, the contract of the event is
  checked against the catalog and the account, and a handler changes accounts, invoices, plan changes and
  credit packs. The product asks what an owner may use, charges credits and refunds them. A worker grants
  the months of annual plans. All of them work on the same tables; the constraints and the deferred
  triggers of migrations/001_v3_baseline.sql are checked when a transaction commits.

  \<^bold>\<open>Values.\<close> \<open>Billing_Prelude\<close>: JavaScript values, text and its operations, errors and results.
  \<open>Credit_Amount\<close> (credit-amount.ts, bounds.ts): exact decimal credits as integer atoms, with the
  round trip of printing and parsing. \<open>Subscription_State\<close> (subscription-state.ts): PostgreSQL
  timestamps as microseconds and what subscription funding is spendable. \<open>Calendar\<close>: a timestamp plus a
  number of months. \<open>Validation\<close> (validation.ts, owner-reference.ts). \<open>Event_Primitives\<close> (ordering.ts,
  processor-primitives.ts): the readers of Stripe objects, the order of events, the cursors and the
  arithmetic of clawbacks. \<open>Catalog\<close> (catalog.ts, plans.toml) and \<open>Transitions\<close> (transitions.ts): the
  plans and when a change between them applies. \<open>Stripe_Policies\<close> (invoice-policy.ts, price-policy.ts,
  portal-policy.ts): what is accepted from Stripe. \<open>Event_Audit\<close> (event-audit.ts): what is kept of it.

  \<^bold>\<open>The credit ledger.\<close> \<open>Store\<close>: one record per row, one list per table; a transaction is a function on
  the store that returns a value or an error. \<open>Ledger_Constraints\<close>: CHECK constraints, keys,
  references and triggers as the executable predicate \<open>consistent\<close>, and the commit. \<open>Ledger_Steps\<close>: the
  invariant \<open>orderly\<close> of what the schema does not say, and \<open>ledger_inv\<close>, the invariant in the middle of a
  transaction, which states by how much the equations of an order, a debit or a debt are off.
  \<open>Debt_Collection\<close> (clawbacks.ts, credit-pack-funding.ts) with \<open>Debt_Facts\<close>; \<open>Credit_Charge\<close>
  (credits.ts charge); \<open>Credit_Refund\<close> (credits.ts refund) with \<open>Refund_Facts\<close> and \<open>Refund_Properties\<close>;
  \<open>Pack_Events\<close> (credit-pack-events.ts) with \<open>Pack_Event_Properties\<close>. \<open>Ledger_History\<close> is the step
  relation over charges, refunds and pack events, and what holds after every history.

  \<^bold>\<open>Subscriptions.\<close> \<open>Billing_State\<close>: the inbox, invoices, plan changes, allocations and Checkout claims
  around the ledger (record \<open>billing\<close>, its field \<open>core\<close> is the ledger), and the services the handlers
  share. \<open>Subscription_Projector\<close> (subscription-projector.ts): every handler, as a chain of refusals and
  then of statements. \<open>Event_Processor\<close> (event-processor.ts): claim, lease, contract, dispatch, outcome.
  \<open>Event_Properties\<close>: the locale \<open>subscription_invariant\<close> says what a predicate must satisfy to be kept
  by every handler (it depends on the inbox, the pack tables, the plan changes up to what handlers may
  do to them and the Checkout claims left, and the collection of debts keeps it); it is interpreted for the frame of the inbox and for the invariant of the ledger.
  \<open>Ledger_Audit\<close>: the audit table \<open>credit_ledger\<close> explains every balance; the locale
  \<open>account_invariant\<close> is interpreted for balanced books and for running totals. \<open>Annual_Grants\<close>
  (annual.ts) with \<open>Annual_Properties\<close>. \<open>Entitlements\<close> (entitlements.ts): checks, and charges and
  refunds by owner. \<open>Billing_History\<close>: the step relation over all of these operations.

  \<^bold>\<open>Requests to Stripe.\<close> \<open>Request_Snapshots\<close> (stripe-request-snapshots.ts): the requests are JSON values that
  are built, validated, frozen in a row and sent from there. \<open>Snapshot_Properties\<close>: what is built is
  accepted, what is accepted is what would be built, plan-change contexts survive the round trip, and no
  accepted request shows a secret. \<open>Checkout\<close> (checkout.ts), \<open>Pack_Checkout\<close> (credit-pack-coordinator.ts)
  and \<open>Plan_Changes\<close> (plan-changes.ts): the coordinators. A method is a \<open>proc\<close>: statements on the database,
  each a transaction, with calls to Stripe between them; it returns its result, the database and the
  requests it sent. The gateway, generated identifiers and the instant of each statement are arguments.

  \<^bold>\<open>The coordinators over time.\<close> \<open>Request_History\<close>: \<open>worker_step\<close> is one statement of any worker, with any
  arguments, or one step of \<open>Billing_History\<close>; so a history interleaves the statements of any number of
  workers with events and product operations. \<open>keeping\<close> says what plan changes, orders and claims keep in
  every history: whose they are, what for, and the request frozen in them. The locale \<open>order_invariant\<close>
  states what a handler may do to an order. \<open>Request_Properties\<close>: a confirmed plan change and a created
  Checkout send at most one request, it is the validated snapshot frozen in a row, and a retry after any
  history sends the same one.

  \<^bold>\<open>What the lemmas show.\<close> Values: round trips, exact bounds, total orders. Each ledger operation: what
  it does on success, that its refusals change nothing, that repeating it replays it, that it ends, and
  that it keeps \<open>orderly\<close> and \<open>consistent\<close>. Each handler: the same invariant and one audit row per change
  of a balance. The histories: the invariants hold after any operations in any order with any
  repetition. Liveness: a due annual account that Stripe confirms is granted.

  \<^bold>\<open>Reading the model.\<close> Instants are int microseconds; the clock, generated identifiers and the answers
  of Stripe are arguments. Amounts are \<open>int\<close> and every column of type bigint is bounded in \<open>consistent\<close>, so
  an overflow is a refused commit. Exceptions are \<open>Inl\<close> of an \<open>error\<close>; a transaction that throws returns
  the state it started from. One transaction is one step: the row locks of the program (\<open>for update\<close> on
  the account or the order first) serialise the transactions that write the same rows. The only fuel is
  that of the recursion of a refund through the debts it relieves (\<open>debt_fuel\<close>): the unreleased debt of
  all orders plus one; every level releases a positive part of it, and \<open>refund_restores\<close> shows that the
  fuel never runs out.

  \<^bold>\<open>Not modelled.\<close>
  The network client of Stripe (stripe-gateway.ts) and the workers that page through its objects
  (reconcile.ts, pack-reconcile.ts): their answers and the events they build are arguments of the model.
  HTTP and authentication (billing-http-services.ts, internal-api.ts, auth*.ts), configuration, wiring and
  operator tools (config.ts, kernel.ts, doctor.ts, stripe-bootstrap.ts and others): input and output
  around the services modelled here. Of database.ts, the pool, the migration runner and the insert of a new
  account. The parsers of TOML, JSON texts and URLs are third-party code or the runtime's: the catalog
  starts from the parsed document, an event from the parsed value, and \<open>url_parser\<close> is a parameter.
  A statement on rows that no other statement of a method depends on at once runs at its own instant;
  the interleaving of workers is that of whole statements and transactions.
\<close>

end
